(* ===== verification/Gateway_Prelude.thy ===== *)
theory Gateway_Prelude
  imports Main "HOL-Library.Char_ord" "HOL-Library.List_Lexorder"
begin

text \<open>
  The prelude of the development: the theorem collections the component theories add to, the
  result type of fallible Go functions, and generic facts on lists that several components use.
\<close>

section \<open>Theorem collections\<close>

named_theorems norm_idem \<open>normalisation steps applied twice are applied once\<close>
named_theorems wf_intros \<open>introduction rules for the well-formedness invariants\<close>
named_theorems res_simps \<open>simplification of error results\<close>

section \<open>Results of fallible functions\<close>

text \<open>
  A Go function that returns \<open>(T, error)\<close> becomes a function into \<open>'e + 'a\<close>: \<open>Inl\<close> carries the
  error, \<open>Inr\<close> the value. \<open>guard_err\<close> is the statement \<open>if c { return err }\<close>, \<open>bind_res\<close> the
  propagation \<open>if err != nil { return err }\<close>.
\<close>

definition bind_res :: "('e + 'a) \<Rightarrow> ('a \<Rightarrow> 'e + 'b) \<Rightarrow> 'e + 'b" where
  "bind_res r f = (case r of Inl e \<Rightarrow> Inl e | Inr x \<Rightarrow> f x)"

definition guard_err :: "bool \<Rightarrow> 'e \<Rightarrow> 'e + unit" where
  "guard_err c e = (if c then Inl e else Inr ())"

lemma bind_res_simps [simp]:
  "bind_res (Inl e) f = Inl e" "bind_res (Inr x) f = f x"
  by (simp_all add: bind_res_def)

lemma bind_res_Inr_iff [res_simps]:
  "bind_res r f = Inr y \<longleftrightarrow> (\<exists>x. r = Inr x \<and> f x = Inr y)"
  by (cases r) auto

lemma bind_res_Inl_iff [res_simps]:
  "bind_res r f = Inl e \<longleftrightarrow> r = Inl e \<or> (\<exists>x. r = Inr x \<and> f x = Inl e)"
  by (cases r) auto

lemma guard_err_Inr_iff [simp]: "guard_err c e = Inr u \<longleftrightarrow> \<not> c"
  by (simp add: guard_err_def)

lemma guard_err_Inl_iff [simp]: "guard_err c e = Inl e' \<longleftrightarrow> c \<and> e' = e"
  by (auto simp: guard_err_def)

text \<open>A loop \<open>for _, x := range xs { if err := f(x); err != nil { return err } }\<close>.\<close>

fun each_ok :: "('a \<Rightarrow> 'e + unit) \<Rightarrow> 'a list \<Rightarrow> 'e + unit" where
  "each_ok f [] = Inr ()"
| "each_ok f (x # xs) = bind_res (f x) (\<lambda>_. each_ok f xs)"

lemma each_ok_Inr_iff [simp]: "each_ok f xs = Inr u \<longleftrightarrow> (\<forall>x \<in> set xs. f x = Inr ())"
  by (induction xs) (auto simp: res_simps)

lemma each_ok_Inl: "each_ok f xs = Inl e \<Longrightarrow> \<exists>x \<in> set xs. f x = Inl e"
  by (induction xs) (auto simp: res_simps)

text \<open>
  Functions that also change a state return the error or value together with the state, which is there
  on an error too. \<open>and_then\<close> goes on after a success and stops at an error with the state reached;
  \<open>check\<close> runs a test that does not touch the state.
\<close>

definition and_then :: "('e + 'a) \<times> 's \<Rightarrow> ('a \<Rightarrow> 's \<Rightarrow> ('e + 'b) \<times> 's) \<Rightarrow> ('e + 'b) \<times> 's" where
  "and_then m k = (case m of (Inl e, s) \<Rightarrow> (Inl e, s) | (Inr x, s) \<Rightarrow> k x s)"

definition check :: "'e + 'a \<Rightarrow> 's \<Rightarrow> ('a \<Rightarrow> ('e + 'b) \<times> 's) \<Rightarrow> ('e + 'b) \<times> 's" where
  "check r s k = (case r of Inl e \<Rightarrow> (Inl e, s) | Inr x \<Rightarrow> k x)"

lemma and_then_simps [simp]:
  "and_then (Inl e, s) k = (Inl e, s)" "and_then (Inr x, s) k = k x s"
  by (simp_all add: and_then_def)

lemma check_simps [simp]: "check (Inl e) s k = (Inl e, s)" "check (Inr x) s k = k x"
  by (simp_all add: check_def)

lemma and_then_Inr [res_simps]:
  "and_then m k = (Inr y, t) \<longleftrightarrow> (\<exists>x s. m = (Inr x, s) \<and> k x s = (Inr y, t))"
  by (auto simp: and_then_def split: prod.splits sum.splits)

lemma and_then_Inl [res_simps]:
  "and_then m k = (Inl e, t) \<longleftrightarrow> m = (Inl e, t) \<or> (\<exists>x s. m = (Inr x, s) \<and> k x s = (Inl e, t))"
  by (auto simp: and_then_def split: prod.splits sum.splits)

lemma check_Inr [res_simps]:
  "check r s k = (Inr y, t) \<longleftrightarrow> (\<exists>x. r = Inr x \<and> k x = (Inr y, t))"
  by (auto simp: check_def split: sum.splits)

lemma check_Inl [res_simps]:
  "check r s k = (Inl e, t) \<longleftrightarrow> r = Inl e \<and> t = s \<or> (\<exists>x. r = Inr x \<and> k x = (Inl e, t))"
  by (auto simp: check_def split: sum.splits)

section \<open>Lists\<close>

text \<open>Keeping the first occurrence of each element, as the Go loops over a \<open>seen\<close> map do.\<close>

fun keep_first :: "'a set \<Rightarrow> 'a list \<Rightarrow> 'a list" where
  "keep_first seen [] = []"
| "keep_first seen (x # xs) =
     (if x \<in> seen then keep_first seen xs else x # keep_first (insert x seen) xs)"

lemma set_keep_first [simp]: "set (keep_first S xs) = set xs - S"
  by (induction xs arbitrary: S) auto

lemma distinct_keep_first [simp]: "distinct (keep_first S xs)"
  by (induction xs arbitrary: S) auto

lemma keep_first_id: "distinct xs \<Longrightarrow> set xs \<inter> S = {} \<Longrightarrow> keep_first S xs = xs"
  by (induction xs arbitrary: S) auto

lemma keep_first_idem [simp]: "keep_first S (keep_first S xs) = keep_first S xs"
  by (rule keep_first_id) auto

lemma rev_dropWhile_idem:
  "rev (dropWhile P (rev (rev (dropWhile P (rev xs))))) = rev (dropWhile P (rev xs))"
  by simp

lemma dropWhile_rev_dropWhile_prefix:
  "\<exists>zs. xs = rev (dropWhile P (rev xs)) @ zs \<and> (\<forall>z \<in> set zs. P z)"
proof -
  have "rev xs = takeWhile P (rev xs) @ dropWhile P (rev xs)" by simp
  then have "xs = rev (dropWhile P (rev xs)) @ rev (takeWhile P (rev xs))"
    by (metis rev_append rev_rev_ident)
  moreover have "\<forall>z \<in> set (rev (takeWhile P (rev xs))). P z"
    by (auto dest: set_takeWhileD)
  ultimately show ?thesis by blast
qed

lemma trim_ends_hd:
  assumes "\<not> P (hd xs)" "xs \<noteq> []"
  shows "rev (dropWhile P (rev xs)) \<noteq> [] \<and> hd (rev (dropWhile P (rev xs))) = hd xs"
proof -
  obtain zs where zs: "xs = rev (dropWhile P (rev xs)) @ zs" "\<forall>z \<in> set zs. P z"
    using dropWhile_rev_dropWhile_prefix [of xs P] by blast
  show ?thesis
  proof (cases "rev (dropWhile P (rev xs)) = []")
    case True
    with zs assms show ?thesis by (metis append_Nil list.set_sel(1))
  next
    case False
    with zs(1) show ?thesis by (metis hd_append2)
  qed
qed

text \<open>Trimming both ends leaves a list that trimming both ends does not change.\<close>

lemma trim_both_idem:
  "rev (dropWhile P (rev (dropWhile P (rev (dropWhile P (rev (dropWhile P xs))))))) =
   rev (dropWhile P (rev (dropWhile P xs)))" (is "rev (dropWhile P (rev (dropWhile P ?y))) = ?y")
proof (cases "dropWhile P xs = []")
  case True
  then show ?thesis by (simp only: rev.simps dropWhile.simps)
next
  case False
  then have "\<not> P (hd (dropWhile P xs))" by (rule hd_dropWhile)
  with False have "?y \<noteq> [] \<and> hd ?y = hd (dropWhile P xs)" by (intro trim_ends_hd)
  then have "dropWhile P ?y = ?y" using \<open>\<not> P (hd (dropWhile P xs))\<close>
    by (cases ?y) auto
  then show ?thesis by simp
qed

lemma distinct_map_head: "distinct (map f (y # ys)) \<Longrightarrow> z \<in> set ys \<Longrightarrow> f z \<noteq> f y"
  by (metis distinct.simps(2) image_eqI list.map(2) list.set_map)

text \<open>Overwriting in place under a key: the elements with the other keys stay, a fresh value stays distinct.\<close>

lemma distinct_map_put:
  assumes "distinct (map f xs)" "distinct (map key xs)" "f' \<notin> f ` {y \<in> set xs. key y \<noteq> k}"
  shows "distinct (map (\<lambda>y. if key y = k then f' else f y) xs)"
  using assms
proof (induction xs)
  case (Cons y ys)
  note sep = distinct_map_head [OF Cons.prems(2)]
  have ne: "f y \<notin> (\<lambda>y. if key y = k then f' else f y) ` set ys" if "key y \<noteq> k"
    using Cons.prems that by auto
  have other: "(\<lambda>y. if key y = k then f' else f y) ` set ys = f ` set ys" if "key y = k"
    using sep that by (intro image_cong) auto
  have "f' \<notin> f ` set ys" if "key y = k" using Cons.prems(3) sep that by fastforce
  with Cons ne other show ?case by auto
qed simp

lemma distinct_map_inj: "inj f \<Longrightarrow> distinct (map f xs) \<longleftrightarrow> distinct xs"
  by (simp add: distinct_map inj_on_subset [of f UNIV])

lemma pairwise_append_one:
  "(\<forall>i < length (xs @ [x]). \<forall>j < i. R ((xs @ [x]) ! j) ((xs @ [x]) ! i)) \<longleftrightarrow>
   (\<forall>i < length xs. \<forall>j < i. R (xs ! j) (xs ! i)) \<and> (\<forall>y \<in> set xs. R y x)"
  by (auto simp: nth_append all_set_conv_all_nth less_Suc_eq)

end
