(* ===== verification/GoStrings.thy ===== *)
theory GoStrings
  imports Gateway_Prelude
begin

text \<open>
  The functions of Go's packages \<open>strings\<close> and \<open>strconv\<close> that the gateway calls, on byte strings.
  A Go string is a sequence of bytes and \<open>string\<close> is a list of 8-bit characters, so lengths and
  indices agree. Case mapping and white space are those of ASCII: on a string of ASCII bytes these
  functions compute what Go computes; on bytes from 128 upward they leave the bytes alone, where Go
  would consult the Unicode tables.
\<close>

section \<open>Bytes\<close>

abbreviation code :: "char \<Rightarrow> nat" where
  "code c \<equiv> of_char c"

definition is_space :: "char \<Rightarrow> bool" where
  "is_space c \<longleftrightarrow> (9 \<le> code c \<and> code c \<le> 13) \<or> code c = 32"

definition is_lower :: "char \<Rightarrow> bool" where
  "is_lower c \<longleftrightarrow> 97 \<le> code c \<and> code c \<le> 122"

definition is_upper :: "char \<Rightarrow> bool" where
  "is_upper c \<longleftrightarrow> 65 \<le> code c \<and> code c \<le> 90"

definition is_digit :: "char \<Rightarrow> bool" where
  "is_digit c \<longleftrightarrow> 48 \<le> code c \<and> code c \<le> 57"

definition lower_byte :: "char \<Rightarrow> char" where
  "lower_byte c = (if is_upper c then char_of (code c + 32) else c)"

definition upper_byte :: "char \<Rightarrow> char" where
  "upper_byte c = (if is_lower c then char_of (code c - 32) else c)"

lemmas byte_defs = is_space_def is_lower_def is_upper_def is_digit_def

lemma code_bound: "code c < 256"
  by (rule nat_of_char_less_256)

lemma code_lower_byte: "code (lower_byte c) = (if is_upper c then code c + 32 else code c)"
  by (auto simp: lower_byte_def is_upper_def of_char_of)

lemma code_upper_byte: "code (upper_byte c) = (if is_lower c then code c - 32 else code c)"
proof -
  have "code c - 32 < 256" using code_bound [of c] by linarith
  then have "(code c - 32) mod 256 = code c - 32" by (rule mod_less)
  then show ?thesis by (auto simp: upper_byte_def of_char_of)
qed

lemma code_eq_iff: "code c = code d \<longleftrightarrow> c = d"
  by (rule of_char_eq_iff)

lemma lower_byte_other: "\<not> is_upper c \<Longrightarrow> lower_byte c = c"
  by (simp add: lower_byte_def)

lemma upper_byte_other: "\<not> is_lower c \<Longrightarrow> upper_byte c = c"
  by (simp add: upper_byte_def)

lemma not_upper_lower_byte [simp]: "\<not> is_upper (lower_byte c)"
  by (auto simp: is_upper_def code_lower_byte)

lemma not_lower_upper_byte [simp]: "\<not> is_lower (upper_byte c)"
  by (auto simp: is_lower_def code_upper_byte)

lemma lower_byte_idem [simp]: "lower_byte (lower_byte c) = lower_byte c"
  by (rule lower_byte_other) simp

lemma upper_byte_idem [simp]: "upper_byte (upper_byte c) = upper_byte c"
  by (rule upper_byte_other) simp

lemma is_space_lower_byte [simp]: "is_space (lower_byte c) = is_space c"
  by (auto simp: is_space_def code_lower_byte is_upper_def)

lemma is_space_upper_byte [simp]: "is_space (upper_byte c) = is_space c"
  by (auto simp: is_space_def code_upper_byte is_lower_def)

lemma lower_byte_eq_other:
  assumes "\<not> is_lower d" "\<not> is_upper d"
  shows "lower_byte c = d \<longleftrightarrow> c = d"
proof
  assume h: "lower_byte c = d"
  show "c = d"
  proof (cases "is_upper c")
    case True
    then have "is_lower (lower_byte c)" by (auto simp: is_lower_def code_lower_byte is_upper_def)
    with h assms show ?thesis by simp
  next
    case False
    with h show ?thesis by (simp add: lower_byte_other)
  qed
next
  assume "c = d"
  with assms show "lower_byte c = d" by (simp add: lower_byte_other)
qed

section \<open>Package strings\<close>

definition TrimSpace :: "string \<Rightarrow> string" where
  "TrimSpace s = rev (dropWhile is_space (rev (dropWhile is_space s)))"

definition TrimRight :: "string \<Rightarrow> string \<Rightarrow> string" where
  "TrimRight s cutset = rev (dropWhile (\<lambda>c. c \<in> set cutset) (rev s))"

definition Trim :: "string \<Rightarrow> string \<Rightarrow> string" where
  "Trim s cutset =
     rev (dropWhile (\<lambda>c. c \<in> set cutset) (rev (dropWhile (\<lambda>c. c \<in> set cutset) s)))"

definition HasPrefix :: "string \<Rightarrow> string \<Rightarrow> bool" where
  "HasPrefix s p \<longleftrightarrow> take (length p) s = p"

definition HasSuffix :: "string \<Rightarrow> string \<Rightarrow> bool" where
  "HasSuffix s p \<longleftrightarrow> length p \<le> length s \<and> drop (length s - length p) s = p"

definition TrimPrefix :: "string \<Rightarrow> string \<Rightarrow> string" where
  "TrimPrefix s p = (if HasPrefix s p then drop (length p) s else s)"

definition TrimSuffix :: "string \<Rightarrow> string \<Rightarrow> string" where
  "TrimSuffix s p = (if HasSuffix s p then take (length s - length p) s else s)"

definition ToLower :: "string \<Rightarrow> string" where
  "ToLower s = map lower_byte s"

definition ToUpper :: "string \<Rightarrow> string" where
  "ToUpper s = map upper_byte s"

definition EqualFold :: "string \<Rightarrow> string \<Rightarrow> bool" where
  "EqualFold s t \<longleftrightarrow> ToLower s = ToLower t"

fun Contains :: "string \<Rightarrow> string \<Rightarrow> bool" where
  "Contains [] sub = (sub = [])"
| "Contains (c # s) sub = (HasPrefix (c # s) sub \<or> Contains s sub)"

definition ContainsAny :: "string \<Rightarrow> string \<Rightarrow> bool" where
  "ContainsAny s chars \<longleftrightarrow> list_ex (\<lambda>c. c \<in> set chars) s"

text \<open>\<open>strings.Split(s, sep)\<close> for a separator of one byte; it never returns an empty slice.\<close>

fun Split :: "string \<Rightarrow> char \<Rightarrow> string list" where
  "Split [] sep = [[]]"
| "Split (c # s) sep =
     (if c = sep then [] # Split s sep
      else (case Split s sep of [] \<Rightarrow> [[c]] | w # ws \<Rightarrow> (c # w) # ws))"

text \<open>\<open>strings.Join(ws, sep)\<close>.\<close>

fun Join :: "string list \<Rightarrow> string \<Rightarrow> string" where
  "Join [] sep = []"
| "Join [w] sep = w"
| "Join (w # v # ws) sep = w @ sep @ Join (v # ws) sep"

text \<open>
  \<open>LastIndex\<close> and \<open>Index\<close> of a byte, with \<open>None\<close> for Go's \<open>-1\<close>.
\<close>

fun IndexByte :: "string \<Rightarrow> char \<Rightarrow> nat option" where
  "IndexByte [] b = None"
| "IndexByte (c # s) b = (if c = b then Some 0 else map_option Suc (IndexByte s b))"

fun LastIndexByte :: "string \<Rightarrow> char \<Rightarrow> nat option" where
  "LastIndexByte [] b = None"
| "LastIndexByte (c # s) b =
     (case LastIndexByte s b of Some i \<Rightarrow> Some (Suc i) | None \<Rightarrow> if c = b then Some 0 else None)"

subsection \<open>Facts\<close>

lemma TrimSpace_idem [simp, norm_idem]: "TrimSpace (TrimSpace s) = TrimSpace s"
  unfolding TrimSpace_def by (rule trim_both_idem)

lemma Trim_idem [simp, norm_idem]: "Trim (Trim s cs) cs = Trim s cs"
  unfolding Trim_def by (rule trim_both_idem)

lemma TrimRight_idem [simp, norm_idem]: "TrimRight (TrimRight s cs) cs = TrimRight s cs"
  by (simp add: TrimRight_def)

lemma ToLower_idem [simp, norm_idem]: "ToLower (ToLower s) = ToLower s"
  by (simp add: ToLower_def)

lemma ToUpper_idem [simp, norm_idem]: "ToUpper (ToUpper s) = ToUpper s"
  by (simp add: ToUpper_def)

lemma length_ToLower [simp]: "length (ToLower s) = length s"
  by (simp add: ToLower_def)

lemma ToLower_Nil_iff [simp]: "ToLower s = [] \<longleftrightarrow> s = []"
  by (simp add: ToLower_def)

lemma ToLower_simps [simp]: "ToLower [] = []" "ToLower (c # s) = lower_byte c # ToLower s"
  by (simp_all add: ToLower_def)

lemma TrimSpace_Nil [simp]: "TrimSpace [] = []"
  by (simp add: TrimSpace_def)

lemma TrimSpace_ToLower: "TrimSpace (ToLower s) = ToLower (TrimSpace s)"
proof -
  have [simp]: "is_space \<circ> lower_byte = is_space" by auto
  show ?thesis
    by (simp add: TrimSpace_def ToLower_def dropWhile_map rev_map)
qed

lemma TrimSpace_ToUpper: "TrimSpace (ToUpper s) = ToUpper (TrimSpace s)"
proof -
  have [simp]: "is_space \<circ> upper_byte = is_space" by auto
  show ?thesis
    by (simp add: TrimSpace_def ToUpper_def dropWhile_map rev_map)
qed

lemma TrimSpace_id: "\<forall>c \<in> set s. \<not> is_space c \<Longrightarrow> TrimSpace s = s"
proof -
  assume h: "\<forall>c \<in> set s. \<not> is_space c"
  then have "dropWhile is_space s = s" by (cases s) auto
  moreover from h have "dropWhile is_space (rev s) = rev s" by (cases s rule: rev_cases) auto
  ultimately show ?thesis by (simp add: TrimSpace_def)
qed

lemma set_TrimSpace: "set (TrimSpace s) \<subseteq> set s"
  by (auto simp: TrimSpace_def dest!: set_dropWhileD)

lemma set_TrimRight: "set (TrimRight s cs) \<subseteq> set s"
  by (auto simp: TrimRight_def dest!: set_dropWhileD)

lemma TrimRight_id: "s = [] \<or> last s \<notin> set cs \<Longrightarrow> TrimRight s cs = s"
  by (cases s rule: rev_cases) (auto simp: TrimRight_def)

lemma TrimRight_last: "TrimRight s cs \<noteq> [] \<Longrightarrow> last (TrimRight s cs) \<notin> set cs"
  using hd_dropWhile [of "\<lambda>c. c \<in> set cs" "rev s"] by (auto simp: TrimRight_def last_rev)

lemma Trim_id: "\<forall>c \<in> set s. c \<notin> set cs \<Longrightarrow> Trim s cs = s"
proof -
  assume h: "\<forall>c \<in> set s. c \<notin> set cs"
  then have "dropWhile (\<lambda>c. c \<in> set cs) s = s" by (cases s) auto
  moreover from h have "dropWhile (\<lambda>c. c \<in> set cs) (rev s) = rev s"
    by (cases s rule: rev_cases) auto
  ultimately show ?thesis by (simp add: Trim_def)
qed

lemma ToLower_id: "\<forall>c \<in> set s. \<not> is_upper c \<Longrightarrow> ToLower s = s"
  by (induction s) (auto simp: lower_byte_other)

lemma HasPrefix_iff: "HasPrefix s p \<longleftrightarrow> (\<exists>t. s = p @ t)"
  by (auto simp: HasPrefix_def) (metis append_take_drop_id)

lemma HasSuffix_iff: "HasSuffix s p \<longleftrightarrow> (\<exists>t. s = t @ p)"
  by (auto simp: HasSuffix_def) (metis append_take_drop_id)

lemma HasPrefix_Nil [simp]: "HasPrefix s []"
  by (simp add: HasPrefix_def)

lemma HasPrefix_append [simp]: "HasPrefix (p @ t) p"
  by (auto simp: HasPrefix_iff)

lemma HasPrefix_Cons [simp]: "HasPrefix (c # s) (d # p) \<longleftrightarrow> c = d \<and> HasPrefix s p"
  by (simp add: HasPrefix_def)

lemma HasPrefix_empty [simp]: "HasPrefix [] (d # p) \<longleftrightarrow> False"
  by (simp add: HasPrefix_def)

lemma TrimPrefix_append [simp]: "TrimPrefix (p @ t) p = t"
  by (simp add: TrimPrefix_def)

lemma TrimSuffix_append [simp]: "TrimSuffix (t @ p) p = t"
  by (auto simp: TrimSuffix_def HasSuffix_iff)

lemma TrimSuffix_id: "\<not> HasSuffix s p \<Longrightarrow> TrimSuffix s p = s"
  by (simp add: TrimSuffix_def)

lemma TrimPrefix_id: "\<not> HasPrefix s p \<Longrightarrow> TrimPrefix s p = s"
  by (simp add: TrimPrefix_def)

lemma Contains_byte [simp]: "Contains s [c] \<longleftrightarrow> c \<in> set s"
  by (induction s) auto

lemma ContainsAny_iff [simp]: "ContainsAny s cs \<longleftrightarrow> (\<exists>c \<in> set s. c \<in> set cs)"
  by (simp add: ContainsAny_def list_ex_iff)

lemma Split_not_Nil [simp]: "Split s c \<noteq> []"
  by (cases s) (auto split: list.splits)

lemma Split_cases: obtains w ws where "Split s c = w # ws"
  by (cases "Split s c") auto

lemma Split_no_sep: "c \<notin> set s \<Longrightarrow> Split s c = [s]"
  by (induction s) auto

lemma Split_append: "c \<notin> set w \<Longrightarrow> Split (w @ c # s) c = w # Split s c"
  by (induction w) auto

lemma Join_Split: "Join (Split s c) [c] = s"
proof (induction s)
  case Nil
  then show ?case by simp
next
  case (Cons b s)
  obtain w ws where w: "Split s c = w # ws" by (rule Split_cases)
  with Cons show ?case by (cases ws) auto
qed

lemma Split_parts: "w \<in> set (Split s c) \<Longrightarrow> c \<notin> set w \<and> set w \<subseteq> set s"
proof (induction s arbitrary: w)
  case Nil
  then show ?case by simp
next
  case (Cons b s)
  obtain v ws where v: "Split s c = v # ws" by (rule Split_cases)
  with Cons.IH [of v] have "c \<notin> set v \<and> set v \<subseteq> set s" by simp
  with v Cons.IH [of w] Cons.prems show ?case by (auto split: if_splits)
qed

lemma set_Split: "x \<in> set s \<Longrightarrow> x \<noteq> c \<Longrightarrow> \<exists>w \<in> set (Split s c). x \<in> set w"
proof (induction s)
  case Nil
  then show ?case by simp
next
  case (Cons b s)
  obtain v ws where v: "Split s c = v # ws" by (rule Split_cases)
  with Cons show ?case by (auto split: if_splits)
qed

section \<open>Package strconv\<close>

definition digit_char :: "nat \<Rightarrow> char" where
  "digit_char d = char_of (48 + d)"

fun dec_nat :: "nat \<Rightarrow> string" where
  "dec_nat n = (if n < 10 then [digit_char n] else dec_nat (n div 10) @ [digit_char (n mod 10)])"

declare dec_nat.simps [simp del]

definition Itoa :: "int \<Rightarrow> string" where
  "Itoa n = (if n < 0 then CHR ''-'' # dec_nat (nat (- n)) else dec_nat (nat n))"

definition digit_val :: "char \<Rightarrow> nat" where
  "digit_val c = code c - 48"

definition digits_val :: "string \<Rightarrow> nat" where
  "digits_val s = foldl (\<lambda>acc c. 10 * acc + digit_val c) 0 s"

text \<open>
  \<open>strconv.Atoi\<close>: an optional sign, at least one digit, digits only, and a value an \<open>int\<close> of 64
  bits holds; \<open>None\<close> is a non-nil error.
\<close>

definition Atoi :: "string \<Rightarrow> int option" where
  "Atoi s =
     (let neg = (s \<noteq> [] \<and> hd s = CHR ''-'');
          body = (if s \<noteq> [] \<and> (hd s = CHR ''-'' \<or> hd s = CHR ''+'') then tl s else s);
          v = (if neg then - int (digits_val body) else int (digits_val body))
      in if body = [] \<or> \<not> list_all is_digit body then None
         else if v < - (2 ^ 63) \<or> 2 ^ 63 \<le> v then None
         else Some v)"

text \<open>\<open>strconv.Quote\<close>, which formats a \<open>%q\<close> verb.\<close>

definition hex_digit :: "nat \<Rightarrow> char" where
  "hex_digit d = char_of (if d < 10 then 48 + d else 87 + d)"

definition quote_byte :: "char \<Rightarrow> string" where
  "quote_byte c =
     (let n = code c in
      if n = 34 \<or> n = 92 then [CHR 0x5C, c]
      else if n = 7 then [CHR 0x5C, CHR ''a'']
      else if n = 8 then [CHR 0x5C, CHR ''b'']
      else if n = 9 then [CHR 0x5C, CHR ''t'']
      else if n = 10 then [CHR 0x5C, CHR ''n'']
      else if n = 11 then [CHR 0x5C, CHR ''v'']
      else if n = 12 then [CHR 0x5C, CHR ''f'']
      else if n = 13 then [CHR 0x5C, CHR ''r'']
      else if n < 32 \<or> 127 \<le> n then [CHR 0x5C, CHR ''x'', hex_digit (n div 16), hex_digit (n mod 16)]
      else [c])"

definition Quote :: "string \<Rightarrow> string" where
  "Quote s = CHR 0x22 # concat (map quote_byte s) @ [CHR 0x22]"

subsection \<open>Facts\<close>

lemma is_digit_digit_char [simp]: "d < 10 \<Longrightarrow> is_digit (digit_char d)"
  by (simp add: is_digit_def digit_char_def of_char_of)

lemma digit_val_digit_char [simp]: "d < 10 \<Longrightarrow> digit_val (digit_char d) = d"
  by (simp add: digit_val_def digit_char_def of_char_of)

lemma dec_nat_digits: "c \<in> set (dec_nat n) \<Longrightarrow> is_digit c"
proof (induction n rule: dec_nat.induct)
  case (1 n)
  then show ?case by (subst (asm) (2) dec_nat.simps) (auto split: if_splits)
qed

lemma dec_nat_not_Nil [simp]: "dec_nat n \<noteq> []"
  by (subst dec_nat.simps) simp

lemma digits_val_dec_nat [simp]: "digits_val (dec_nat n) = n"
proof (induction n rule: dec_nat.induct)
  case (1 n)
  then show ?case by (subst dec_nat.simps) (auto simp: digits_val_def)
qed

lemma dec_nat_inj: "dec_nat m = dec_nat n \<longleftrightarrow> m = n"
  by (metis digits_val_dec_nat)

lemma Itoa_digits: "0 \<le> n \<Longrightarrow> c \<in> set (Itoa n) \<Longrightarrow> is_digit c"
  by (auto simp: Itoa_def dest: dec_nat_digits)

lemma Itoa_not_Nil [simp]: "Itoa n \<noteq> []"
  by (simp add: Itoa_def)

lemma Itoa_inj: "0 \<le> m \<Longrightarrow> 0 \<le> n \<Longrightarrow> Itoa m = Itoa n \<longleftrightarrow> m = n"
  by (auto simp: Itoa_def dec_nat_inj)

text \<open>Parsing what \<open>Itoa\<close> prints gives the number back, within the range of an \<open>int\<close>.\<close>

lemma Atoi_Itoa:
  assumes "0 \<le> n" "n < 2 ^ 63"
  shows "Atoi (Itoa n) = Some n"
proof -
  have all: "list_all is_digit (Itoa n)" using assms(1) by (auto simp: list_all_iff dest: Itoa_digits)
  have "is_digit (hd (Itoa n))" using all by (cases "Itoa n") auto
  then have hd: "hd (Itoa n) \<noteq> CHR ''-''" "hd (Itoa n) \<noteq> CHR ''+''"
    by (auto simp: is_digit_def)
  have "digits_val (Itoa n) = nat n" using assms(1) by (simp add: Itoa_def)
  then show ?thesis using assms all hd by (simp add: Atoi_def Let_def)
qed

end
