(* ===== verification/GoNet.thy ===== *)
theory GoNet
  imports GoStrings
begin

text \<open>
  The parts of Go's packages \<open>net\<close>, \<open>net/netip\<close> and \<open>net/url\<close> that the gateway calls: parsing of IP
  addresses and CIDR ranges, splitting and joining of \<open>host:port\<close> pairs, and parsing of URLs. \<open>None\<close>
  stands for a nil address or a non-nil error; no caller looks into the error.
\<close>

section \<open>IP addresses\<close>

text \<open>An IPv4 address as its four bytes, an IPv6 address as its eight 16-bit groups and its zone.\<close>

datatype ip_addr = IPv4 "nat list" | IPv6 "nat list" string

fun addr_zone :: "ip_addr \<Rightarrow> string" where
  "addr_zone (IPv4 bs) = []"
| "addr_zone (IPv6 gs z) = z"

fun bit_len :: "ip_addr \<Rightarrow> nat" where
  "bit_len (IPv4 bs) = 32"
| "bit_len (IPv6 gs z) = 128"

definition octet :: "string \<Rightarrow> nat option" where
  "octet w =
     (if w = [] \<or> \<not> list_all is_digit w then None
      else if 1 < length w \<and> hd w = CHR ''0'' then None
      else if 255 < digits_val w then None
      else Some (digits_val w))"

fun octets :: "string list \<Rightarrow> nat list option" where
  "octets [] = Some []"
| "octets (w # ws) =
     (case octet w of None \<Rightarrow> None
      | Some b \<Rightarrow> (case octets ws of None \<Rightarrow> None | Some bs \<Rightarrow> Some (b # bs)))"

text \<open>Dotted decimal: exactly four fields, each without a leading zero and at most 255.\<close>

definition parse_ipv4 :: "string \<Rightarrow> nat list option" where
  "parse_ipv4 s = (if length (Split s (CHR ''.'')) = 4 then octets (Split s (CHR ''.'')) else None)"

definition hex_val :: "char \<Rightarrow> nat option" where
  "hex_val c =
     (if is_digit c then Some (code c - 48)
      else if 97 \<le> code c \<and> code c \<le> 102 then Some (code c - 87)
      else if 65 \<le> code c \<and> code c \<le> 70 then Some (code c - 55)
      else None)"

definition is_hex :: "char \<Rightarrow> bool" where
  "is_hex c \<longleftrightarrow> hex_val c \<noteq> None"

definition hex_num :: "string \<Rightarrow> nat" where
  "hex_num s = foldl (\<lambda>acc c. 16 * acc + the (hex_val c)) 0 s"

text \<open>
  The loop of \<open>parseIPv6\<close>. \<open>acc\<close> holds the groups read so far and \<open>ell\<close> the number of groups read
  when the ellipsis \<open>::\<close> was met. The result is the list of groups and the final \<open>ell\<close>. Every
  turn consumes at least one hexadecimal digit, so the recursion is on the length of the rest.
\<close>

function v6_groups :: "string \<Rightarrow> nat list \<Rightarrow> nat option \<Rightarrow> (nat list \<times> nat option) option" where
  "v6_groups s acc ell =
     (if 8 \<le> length acc then (if s = [] then Some (acc, ell) else None)
      else
        let w = takeWhile is_hex s; rest = dropWhile is_hex s in
        if w = [] \<or> 4 < length w then None
        else if rest \<noteq> [] \<and> hd rest = CHR ''.'' then
          (if (ell = None \<and> length acc \<noteq> 6) \<or> 6 < length acc then None
           else (case parse_ipv4 s of None \<Rightarrow> None
                 | Some bs \<Rightarrow> Some (acc @ [256 * bs ! 0 + bs ! 1, 256 * bs ! 2 + bs ! 3], ell)))
        else if rest = [] then Some (acc @ [hex_num w], ell)
        else if hd rest \<noteq> CHR '':'' \<or> length rest = 1 then None
        else if hd (tl rest) = CHR '':'' then
          (if ell \<noteq> None then None
           else if tl (tl rest) = [] then Some (acc @ [hex_num w], Some (Suc (length acc)))
           else v6_groups (tl (tl rest)) (acc @ [hex_num w]) (Some (Suc (length acc))))
        else v6_groups (tl rest) (acc @ [hex_num w]) ell)"
  by pat_completeness auto
termination
proof (relation "measure (\<lambda>(s, acc, ell). length s)", goal_cases)
  case 1
  then show ?case by simp
next
  case (2 s acc ell w rest)
  have "length s = length w + length rest" and "length w \<noteq> 0"
    using "2"(2,3,4) by (metis length_append takeWhile_dropWhile_id, simp)
  then show ?case by (simp, linarith)
next
  case (3 s acc ell w rest)
  have "length s = length w + length rest" and "length w \<noteq> 0"
    using "3"(2,3,4) by (metis length_append takeWhile_dropWhile_id, simp)
  then show ?case by (simp, linarith)
qed

declare v6_groups.simps [simp del]

definition expand_groups :: "nat list \<Rightarrow> nat option \<Rightarrow> nat list option" where
  "expand_groups gs ell =
     (case ell of
        None \<Rightarrow> (if length gs = 8 then Some gs else None)
      | Some k \<Rightarrow> (if length gs < 8
                   then Some (take k gs @ replicate (8 - length gs) 0 @ drop k gs) else None))"

definition parse_ipv6_body :: "string \<Rightarrow> nat list option" where
  "parse_ipv6_body s =
     (if HasPrefix s ''::'' then
        (if drop 2 s = [] then Some (replicate 8 0)
         else (case v6_groups (drop 2 s) [] (Some 0) of
                 None \<Rightarrow> None | Some (gs, ell) \<Rightarrow> expand_groups gs ell))
      else (case v6_groups s [] None of
              None \<Rightarrow> None | Some (gs, ell) \<Rightarrow> expand_groups gs ell))"

definition parse_ipv6 :: "string \<Rightarrow> ip_addr option" where
  "parse_ipv6 s =
     (case IndexByte s (CHR ''%'') of
        None \<Rightarrow> map_option (\<lambda>gs. IPv6 gs []) (parse_ipv6_body s)
      | Some i \<Rightarrow> (if drop (Suc i) s = [] then None
                   else map_option (\<lambda>gs. IPv6 gs (drop (Suc i) s)) (parse_ipv6_body (take i s))))"

text \<open>\<open>netip.ParseAddr\<close>: the first of \<open>.\<close>, \<open>:\<close> and \<open>%\<close> decides the family.\<close>

definition ParseAddr :: "string \<Rightarrow> ip_addr option" where
  "ParseAddr s =
     (case dropWhile (\<lambda>c. c \<noteq> CHR ''.'' \<and> c \<noteq> CHR '':'' \<and> c \<noteq> CHR ''%'') s of
        [] \<Rightarrow> None
      | c # _ \<Rightarrow> (if c = CHR ''.'' then map_option IPv4 (parse_ipv4 s)
                  else if c = CHR '':'' then parse_ipv6 s else None))"

definition ParseIP :: "string \<Rightarrow> ip_addr option" where
  "ParseIP s = (case ParseAddr s of Some a \<Rightarrow> (if addr_zone a = [] then Some a else None) | None \<Rightarrow> None)"

text \<open>\<open>net.ParseCIDR\<close> up to its validity, which is all the gateway uses.\<close>

definition ParseCIDR_ok :: "string \<Rightarrow> bool" where
  "ParseCIDR_ok s =
     (case IndexByte s (CHR ''/'') of
        None \<Rightarrow> False
      | Some i \<Rightarrow>
          (let mask = drop (Suc i) s in
           case ParseIP (take i s) of
             None \<Rightarrow> False
           | Some a \<Rightarrow> mask \<noteq> [] \<and> list_all is_digit mask \<and> digits_val mask \<le> bit_len a))"

definition is_loopback :: "ip_addr \<Rightarrow> bool" where
  "is_loopback a =
     (case a of
        IPv4 bs \<Rightarrow> bs ! 0 = 127
      | IPv6 gs z \<Rightarrow>
          (if take 5 gs = [0, 0, 0, 0, 0] \<and> gs ! 5 = 65535 then gs ! 6 div 256 = 127
           else gs = [0, 0, 0, 0, 0, 0, 0, 1]))"

section \<open>host:port pairs\<close>

definition JoinHostPort :: "string \<Rightarrow> string \<Rightarrow> string" where
  "JoinHostPort host port =
     (if Contains host '':'' then ''['' @ host @ '']:'' @ port else host @ '':'' @ port)"

text \<open>\<open>net.SplitHostPort\<close>, with \<open>None\<close> for its error.\<close>

definition SplitHostPort :: "string \<Rightarrow> (string \<times> string) option" where
  "SplitHostPort hp =
     (case LastIndexByte hp (CHR '':'') of
        None \<Rightarrow> None
      | Some i \<Rightarrow>
          (if hd hp = CHR ''['' then
             (case IndexByte hp (CHR '']'') of
                None \<Rightarrow> None
              | Some e \<Rightarrow>
                  (if Suc e = i \<and> CHR ''['' \<notin> set (drop 1 hp) \<and> CHR '']'' \<notin> set (drop (Suc e) hp)
                   then Some (take (e - 1) (drop 1 hp), drop (Suc i) hp) else None))
           else if CHR '':'' \<in> set (take i hp) \<or> CHR ''['' \<in> set hp \<or> CHR '']'' \<in> set hp then None
           else Some (take i hp, drop (Suc i) hp)))"

section \<open>URLs\<close>

text \<open>The fields of \<open>url.URL\<close> the gateway reads.\<close>

record URL =
  u_Scheme :: string
  u_Host :: string
  u_Path :: string
  u_Opaque :: string

definition is_alpha :: "char \<Rightarrow> bool" where
  "is_alpha c \<longleftrightarrow> is_lower c \<or> is_upper c"

text \<open>\<open>getScheme\<close>: the scheme and the rest; \<open>None\<close> when the string starts with a colon.\<close>

definition get_scheme :: "string \<Rightarrow> (string \<times> string) option" where
  "get_scheme raw =
     (let w = takeWhile (\<lambda>c. is_alpha c \<or> is_digit c \<or> c \<in> set ''+-.'') raw;
          rest = dropWhile (\<lambda>c. is_alpha c \<or> is_digit c \<or> c \<in> set ''+-.'') raw
      in if rest \<noteq> [] \<and> hd rest = CHR '':'' \<and> w = [] then None
         else if w \<noteq> [] \<and> is_alpha (hd w) \<and> rest \<noteq> [] \<and> hd rest = CHR '':'' then Some (w, tl rest)
         else Some ([], raw))"

text \<open>
  Percent-decoding. \<open>allowed\<close> says which unescaped bytes the component takes and \<open>okpct\<close> which
  percent triples it takes; \<open>None\<close> is an \<open>EscapeError\<close> or an \<open>InvalidHostError\<close>.
\<close>

fun unescape :: "(char \<Rightarrow> bool) \<Rightarrow> (char \<Rightarrow> char \<Rightarrow> bool) \<Rightarrow> string \<Rightarrow> string option" where
  "unescape allowed okpct [] = Some []"
| "unescape allowed okpct (c # s) =
     (if c = CHR ''%'' then
        (case s of
           a # b # t \<Rightarrow>
             (case (hex_val a, hex_val b) of
                (Some x, Some y) \<Rightarrow>
                  (if okpct a b then map_option (\<lambda>r. char_of (16 * x + y) # r) (unescape allowed okpct t)
                   else None)
              | _ \<Rightarrow> None)
         | _ \<Rightarrow> None)
      else if allowed c then map_option (\<lambda>r. c # r) (unescape allowed okpct s)
      else None)"

definition host_byte :: "char \<Rightarrow> bool" where
  "host_byte c \<longleftrightarrow> 128 \<le> code c \<or> is_alpha c \<or> is_digit c \<or> c \<in> set ''-_.~!$&()*+,;=:[]<>'' \<or>
     code c = 39 \<or> code c = 34"

definition unescape_path :: "string \<Rightarrow> string option" where
  "unescape_path s = unescape (\<lambda>_. True) (\<lambda>_ _. True) s"

definition unescape_host :: "string \<Rightarrow> string option" where
  "unescape_host s = unescape host_byte (\<lambda>a b. 8 \<le> the (hex_val a) \<or> (a = CHR ''2'' \<and> b = CHR ''5'')) s"

definition unescape_zone :: "string \<Rightarrow> string option" where
  "unescape_zone s =
     unescape host_byte
       (\<lambda>a b. (a = CHR ''2'' \<and> b = CHR ''5'') \<or>
              (let v = 16 * the (hex_val a) + the (hex_val b) in v = 32 \<or> host_byte (char_of v))) s"

definition valid_optional_port :: "string \<Rightarrow> bool" where
  "valid_optional_port p = (case p of [] \<Rightarrow> True | c # ds \<Rightarrow> c = CHR '':'' \<and> list_all is_digit ds)"

fun find_pct25 :: "string \<Rightarrow> nat option" where
  "find_pct25 [] = None"
| "find_pct25 (c # s) =
     (if HasPrefix (c # s) ''%25'' then Some 0 else map_option Suc (find_pct25 s))"

text \<open>The contents of the brackets of an IP literal must be an IPv6 address, maybe with a zone.\<close>

definition unescape_literal :: "string \<Rightarrow> string option" where
  "unescape_literal h =
     (case find_pct25 h of
        None \<Rightarrow> unescape_host h
      | Some z \<Rightarrow> (case (unescape_host (take z h), unescape_zone (drop z h)) of
                    (Some a, Some b) \<Rightarrow> Some (a @ b) | _ \<Rightarrow> None))"

definition parse_url_host :: "string \<Rightarrow> string option" where
  "parse_url_host host =
     (case LastIndexByte host (CHR ''['') of
        Some (Suc _) \<Rightarrow> None
      | Some 0 \<Rightarrow>
          (case LastIndexByte host (CHR '']'') of
             None \<Rightarrow> None
           | Some e \<Rightarrow>
               (let cp = drop (Suc e) host in
                if \<not> valid_optional_port cp then None
                else case unescape_literal (take (e - 1) (drop 1 host)) of
                       None \<Rightarrow> None
                     | Some lit \<Rightarrow>
                         (case ParseAddr lit of
                            Some (IPv6 _ _) \<Rightarrow> Some (''['' @ lit @ '']'' @ cp)
                          | _ \<Rightarrow> None)))
      | None \<Rightarrow>
          (if valid_optional_port (dropWhile (\<lambda>c. c \<noteq> CHR '':'') host)
           then unescape_host host else None))"

definition userinfo_byte :: "char \<Rightarrow> bool" where
  "userinfo_byte c \<longleftrightarrow> is_alpha c \<or> is_digit c \<or> c \<in> set ''-._:~!$&()*+,;=%@'' \<or> code c = 39"

definition parse_authority :: "string \<Rightarrow> string option" where
  "parse_authority a =
     (case LastIndexByte a (CHR ''@'') of
        None \<Rightarrow> parse_url_host a
      | Some i \<Rightarrow>
          (case parse_url_host (drop (Suc i) a) of
             None \<Rightarrow> None
           | Some h \<Rightarrow> (if list_all userinfo_byte (take i a) \<and> unescape_path (take i a) \<noteq> None
                         then Some h else None)))"

definition has_ctl :: "string \<Rightarrow> bool" where
  "has_ctl s \<longleftrightarrow> list_ex (\<lambda>c. code c < 32 \<or> code c = 127) s"

definition parse_no_fragment :: "string \<Rightarrow> URL option" where
  "parse_no_fragment raw =
     (if has_ctl raw then None
      else if raw = ''*'' then Some \<lparr>u_Scheme = [], u_Host = [], u_Path = ''*'', u_Opaque = []\<rparr>
      else case get_scheme raw of
        None \<Rightarrow> None
      | Some (scheme0, rest0) \<Rightarrow>
          (let scheme = ToLower scheme0; rest = takeWhile (\<lambda>c. c \<noteq> CHR ''?'') rest0 in
           if \<not> HasPrefix rest ''/'' \<and> scheme \<noteq> [] then
             Some \<lparr>u_Scheme = scheme, u_Host = [], u_Path = [], u_Opaque = rest\<rparr>
           else if \<not> HasPrefix rest ''/'' \<and> CHR '':'' \<in> set (takeWhile (\<lambda>c. c \<noteq> CHR ''/'') rest) then None
           else
             (let authority = HasPrefix rest ''//'' \<and> (scheme \<noteq> [] \<or> \<not> HasPrefix rest ''///'');
                  auth = takeWhile (\<lambda>c. c \<noteq> CHR ''/'') (drop 2 rest);
                  path = (if authority then dropWhile (\<lambda>c. c \<noteq> CHR ''/'') (drop 2 rest) else rest) in
              case (if authority then parse_authority auth else Some []) of
                None \<Rightarrow> None
              | Some host \<Rightarrow>
                  map_option (\<lambda>p. \<lparr>u_Scheme = scheme, u_Host = host, u_Path = p, u_Opaque = []\<rparr>)
                    (unescape_path path))))"

definition url_Parse :: "string \<Rightarrow> URL option" where
  "url_Parse raw =
     (case parse_no_fragment (takeWhile (\<lambda>c. c \<noteq> CHR ''#'') raw) of
        None \<Rightarrow> None
      | Some u \<Rightarrow>
          (if unescape_path (drop 1 (dropWhile (\<lambda>c. c \<noteq> CHR ''#'') raw)) = None then None
           else Some u))"

text \<open>\<open>URL.Hostname\<close> and \<open>URL.Port\<close>.\<close>

definition split_url_host :: "string \<Rightarrow> string \<times> string" where
  "split_url_host hp =
     (let (h, p) =
        (case LastIndexByte hp (CHR '':'') of
           Some i \<Rightarrow> (if valid_optional_port (drop i hp) then (take i hp, drop (Suc i) hp) else (hp, []))
         | None \<Rightarrow> (hp, []))
      in (if HasPrefix h ''['' \<and> HasSuffix h '']'' then butlast (tl h) else h, p))"

definition Hostname :: "URL \<Rightarrow> string" where
  "Hostname u = fst (split_url_host (u_Host u))"

definition Port :: "URL \<Rightarrow> string" where
  "Port u = snd (split_url_host (u_Host u))"

section \<open>Facts\<close>

subsection \<open>Characters of addresses\<close>

lemma digit_hex: "is_digit c \<Longrightarrow> is_hex c"
  by (simp add: is_hex_def hex_val_def)

lemma octets_digits: "octets ws = Some bs \<Longrightarrow> w \<in> set ws \<Longrightarrow> list_all is_digit w"
  by (induction ws arbitrary: bs) (auto simp: octet_def split: option.splits if_splits)

lemma parse_ipv4_chars:
  assumes "parse_ipv4 s = Some bs" "c \<in> set s"
  shows "is_digit c \<or> c = CHR ''.''"
proof -
  from assms(1) have o: "octets (Split s (CHR ''.'')) = Some bs"
    by (simp add: parse_ipv4_def split: if_splits)
  show ?thesis
  proof (cases "c = CHR ''.''")
    case False
    with assms(2) obtain w where "w \<in> set (Split s (CHR ''.''))" "c \<in> set w"
      using set_Split by blast
    with octets_digits [OF o] show ?thesis by (auto simp: list_all_iff)
  qed simp
qed

lemma v6_groups_chars:
  "v6_groups s acc ell = Some r \<Longrightarrow> c \<in> set s \<Longrightarrow> is_hex c \<or> c = CHR '':'' \<or> c = CHR ''.''"
proof (induction s acc ell arbitrary: r rule: v6_groups.induct)
  case (1 s acc ell)
  define w where "w = takeWhile is_hex s"
  define rest where "rest = dropWhile is_hex s"
  note eq = "1.prems"(1)[unfolded v6_groups.simps [of s acc ell] Let_def, folded w_def rest_def]
  have split: "s = w @ rest" by (simp add: w_def rest_def)
  have w: "\<forall>x \<in> set w. is_hex x" by (auto simp: w_def dest: set_takeWhileD)
  show ?case
  proof (cases "8 \<le> length acc")
    case True
    with eq "1.prems"(2) show ?thesis by (auto split: if_splits)
  next
    case acc: False
    show ?thesis
    proof (cases "rest = [] \<or> c \<in> set w")
      case True
      with "1.prems"(2) w show ?thesis by (auto simp: split)
    next
      case False
      then obtain d rest' where rest: "rest = d # rest'" by (cases rest) auto
      have c: "c \<in> set rest" using False "1.prems"(2) by (auto simp: split)
      have wok: "\<not> (w = [] \<or> 4 < length w)" using eq acc by (auto split: if_splits)
      show ?thesis
      proof (cases "d = CHR ''.''")
        case True
        with eq acc wok rest obtain bs where "parse_ipv4 s = Some bs"
          by (auto split: if_splits option.splits)
        from parse_ipv4_chars [OF this "1.prems"(2)] show ?thesis by (auto dest: digit_hex)
      next
        case dot: False
        with eq acc wok rest have colon: "d = CHR '':''" "rest' \<noteq> []" by (auto split: if_splits)
        show ?thesis
        proof (cases "hd rest' = CHR '':''")
          case True
          then obtain t where t: "rest' = CHR '':'' # t" using colon by (cases rest') auto
          show ?thesis
          proof (cases "t = []")
            case True
            with c rest t colon show ?thesis by auto
          next
            case False
            have e: "ell = None" using eq acc wok rest colon t False by (auto split: if_splits)
            have r: "v6_groups t (acc @ [hex_num w]) (Some (Suc (length acc))) = Some r"
              using eq acc wok rest colon t False by (auto split: if_splits)
            have "c \<in> set t \<Longrightarrow> is_hex c \<or> c = CHR '':'' \<or> c = CHR ''.''"
              using "1.IH"(1)[OF acc w_def rest_def] wok rest colon t False r e by auto
            with c rest t colon show ?thesis by auto
          qed
        next
          case False
          have r: "v6_groups rest' (acc @ [hex_num w]) ell = Some r"
            using eq acc wok rest colon False by (auto split: if_splits)
          have "c \<in> set rest' \<Longrightarrow> is_hex c \<or> c = CHR '':'' \<or> c = CHR ''.''"
            using "1.IH"(2)[OF acc w_def rest_def] wok rest colon False r by auto
          with c rest colon show ?thesis by auto
        qed
      qed
    qed
  qed
qed

lemma parse_ipv6_body_chars:
  assumes "parse_ipv6_body s = Some gs" "c \<in> set s"
  shows "is_hex c \<or> c = CHR '':'' \<or> c = CHR ''.''"
proof (cases "HasPrefix s ''::''")
  case True
  then obtain t where s: "s = ''::'' @ t" by (auto simp: HasPrefix_iff)
  with assms show ?thesis
    by (auto simp: parse_ipv6_body_def split: if_splits option.splits prod.splits dest: v6_groups_chars)
next
  case False
  with assms show ?thesis
    by (auto simp: parse_ipv6_body_def split: if_splits option.splits prod.splits dest: v6_groups_chars)
qed

lemma IndexByte_None [simp]: "IndexByte s b = None \<longleftrightarrow> b \<notin> set s"
  by (induction s) auto

lemma IndexByte_Some: "IndexByte s b = Some i \<Longrightarrow> i < length s \<and> s ! i = b \<and> b \<notin> set (take i s)"
  by (induction s arbitrary: i) (auto split: if_splits)

lemma LastIndexByte_None [simp]: "LastIndexByte s b = None \<longleftrightarrow> b \<notin> set s"
  by (induction s) (auto split: option.splits)

lemma LastIndexByte_append: "b \<notin> set t \<Longrightarrow> LastIndexByte (s @ b # t) b = Some (length s)"
  by (induction s) (auto split: option.splits)

lemma ParseIP_chars:
  assumes "ParseIP s = Some a" "c \<in> set s"
  shows "is_hex c \<or> c = CHR '':'' \<or> c = CHR ''.''"
proof -
  from assms(1) have a: "ParseAddr s = Some a" "addr_zone a = []"
    by (auto simp: ParseIP_def split: option.splits if_splits)
  from a(1) consider (v4) bs where "parse_ipv4 s = Some bs" | (v6) "parse_ipv6 s = Some a"
    by (auto simp: ParseAddr_def split: list.splits if_splits)
  then show ?thesis
  proof cases
    case v4
    from parse_ipv4_chars [OF v4 assms(2)] show ?thesis by (auto dest: digit_hex)
  next
    case v6
    with a(2) have "IndexByte s (CHR ''%'') = None"
      by (auto simp: parse_ipv6_def split: option.splits if_splits)
    with v6 obtain gs where "parse_ipv6_body s = Some gs"
      by (auto simp: parse_ipv6_def)
    from parse_ipv6_body_chars [OF this assms(2)] show ?thesis .
  qed
qed

subsection \<open>URLs of a scheme, a host and a port\<close>

lemma ParseIP_v6:
  assumes "ParseIP s = Some a" "CHR '':'' \<in> set s"
  shows "\<exists>gs. ParseAddr s = Some (IPv6 gs [])"
proof -
  from assms(1) have a: "ParseAddr s = Some a" "addr_zone a = []"
    by (auto simp: ParseIP_def split: option.splits if_splits)
  have "parse_ipv4 s = None"
  proof (rule ccontr)
    assume "parse_ipv4 s \<noteq> None"
    then obtain bs where "parse_ipv4 s = Some bs" by auto
    from parse_ipv4_chars [OF this assms(2)] show False by (simp add: is_digit_def)
  qed
  with a show ?thesis
    by (cases a) (auto simp: ParseAddr_def parse_ipv6_def split: list.splits if_splits option.splits)
qed

lemma takeWhile_neq: "b \<notin> set s \<Longrightarrow> takeWhile (\<lambda>c. c \<noteq> b) s = s"
  by (induction s) auto

lemma dropWhile_neq: "b \<notin> set s \<Longrightarrow> dropWhile (\<lambda>c. c \<noteq> b) s = []"
  by (induction s) auto

lemma unescape_id:
  "\<forall>c \<in> set s. c \<noteq> CHR ''%'' \<and> allowed c \<Longrightarrow> unescape allowed okpct s = Some s"
  by (induction s) auto

lemma digit_host_byte: "is_digit c \<Longrightarrow> host_byte c"
  by (simp add: host_byte_def)

lemma colon_host_byte: "host_byte (CHR '':'')"
  by (simp add: host_byte_def)

lemma digit_not_special: "is_digit c \<Longrightarrow> c \<notin> set '':[]''"
  by (auto simp: is_digit_def)

lemma not_host_byte:
  "\<not> host_byte (CHR ''/'')" "\<not> host_byte (CHR ''?'')" "\<not> host_byte (CHR ''#'')"
  "\<not> host_byte (CHR ''@'')" "\<not> host_byte (CHR ''%'')"
  by (simp_all add: host_byte_def is_alpha_def byte_defs)

lemma host_byte_not_ctl: "host_byte c \<Longrightarrow> \<not> (code c < 32 \<or> code c = 127)"
  by (auto simp: host_byte_def byte_defs is_alpha_def)

lemma host_bytes_no:
  assumes "\<forall>c \<in> set h. host_byte c"
  shows "CHR ''/'' \<notin> set h" "CHR ''?'' \<notin> set h" "CHR ''#'' \<notin> set h" "CHR ''@'' \<notin> set h"
    "CHR ''%'' \<notin> set h"
  using assms not_host_byte by blast+

lemma unescape_host_id:
  "\<forall>c \<in> set s. host_byte c \<Longrightarrow> unescape_host s = Some s"
  unfolding unescape_host_def
  by (rule unescape_id) (use not_host_byte(5) in blast)

lemma url_Parse_authority:
  assumes proto: "proto = ''http'' \<or> proto = ''https''"
    and chars: "\<forall>c \<in> set h. host_byte c"
    and host: "parse_url_host h = Some h'"
  shows "url_Parse (proto @ ''://'' @ h) =
    Some \<lparr>u_Scheme = proto, u_Host = h', u_Path = [], u_Opaque = []\<rparr>"
proof -
  let ?raw = "proto @ ''://'' @ h"
  note no = host_bytes_no [OF chars]
  have ok: "\<forall>c \<in> set h. \<not> (code c < 32 \<or> code c = 127)" using chars host_byte_not_ctl by blast
  have frag: "takeWhile (\<lambda>c. c \<noteq> CHR ''#'') ?raw = ?raw" "dropWhile (\<lambda>c. c \<noteq> CHR ''#'') ?raw = []"
    using proto no(3) by (elim disjE; simp add: takeWhile_neq dropWhile_neq)+
  have ctl: "\<not> has_ctl ?raw"
    using proto ok by (elim disjE) (simp_all add: has_ctl_def list_ex_iff)
  have scheme: "get_scheme ?raw = Some (proto, ''//'' @ h)"
    using proto by (elim disjE) (simp_all add: get_scheme_def is_alpha_def byte_defs)
  have query: "takeWhile (\<lambda>c. c \<noteq> CHR ''?'') (''//'' @ h) = ''//'' @ h"
    using no(2) by (simp add: takeWhile_neq)
  have auth: "takeWhile (\<lambda>c. c \<noteq> CHR ''/'') h = h" "dropWhile (\<lambda>c. c \<noteq> CHR ''/'') h = []"
    using no(1) by (simp_all add: takeWhile_neq dropWhile_neq)
  have pa: "parse_authority h = Some h'"
    using host no(4) by (simp add: parse_authority_def LastIndexByte_None [THEN iffD2])
  have low: "ToLower proto = proto"
    using proto by (elim disjE) (simp_all add: lower_byte_def is_upper_def)
  have ne: "?raw \<noteq> ''*''" "proto \<noteq> []" using proto by auto
  have d2: "drop 2 (''//'' @ h) = h" by simp
  have slashes: "HasPrefix (''//'' @ h) ''/''" "HasPrefix (''//'' @ h) ''//''" by simp_all
  have "parse_no_fragment ?raw =
    Some \<lparr>u_Scheme = proto, u_Host = h', u_Path = [], u_Opaque = []\<rparr>"
    unfolding parse_no_fragment_def scheme Let_def option.case prod.case low query d2 auth pa
    using ctl ne slashes by (simp add: unescape_path_def del: HasPrefix_Cons)
  then show ?thesis unfolding url_Parse_def frag by (simp add: unescape_path_def)
qed

lemma valid_optional_port_Itoa: "0 \<le> n \<Longrightarrow> valid_optional_port (CHR '':'' # Itoa n)"
  by (auto simp: valid_optional_port_def list_all_iff dest: Itoa_digits)

text \<open>A plain host name followed by a port, and a bracketed IPv6 address followed by a port.\<close>

lemma parse_url_host_name:
  assumes "\<forall>c \<in> set a. host_byte c \<and> c \<notin> set '':[]''" "0 \<le> n"
  shows "parse_url_host (a @ CHR '':'' # Itoa n) = Some (a @ CHR '':'' # Itoa n)"
proof -
  have dig: "\<forall>c \<in> set (Itoa n). is_digit c" using assms(2) by (auto dest: Itoa_digits)
  have hb: "\<forall>c \<in> set (a @ CHR '':'' # Itoa n). host_byte c"
    using assms dig digit_host_byte colon_host_byte by auto
  have "CHR ''['' \<notin> set (a @ CHR '':'' # Itoa n)"
    using assms dig digit_not_special by fastforce
  then have "LastIndexByte (a @ CHR '':'' # Itoa n) (CHR ''['') = None" by (rule LastIndexByte_None [THEN iffD2])
  then have "parse_url_host (a @ CHR '':'' # Itoa n) =
    (if valid_optional_port (dropWhile (\<lambda>c. c \<noteq> CHR '':'') (a @ CHR '':'' # Itoa n))
     then unescape_host (a @ CHR '':'' # Itoa n) else None)"
    by (simp only: parse_url_host_def option.case)
  moreover have "dropWhile (\<lambda>c. c \<noteq> CHR '':'') (a @ CHR '':'' # Itoa n) = CHR '':'' # Itoa n"
    using assms(1) by (subst dropWhile_append2) auto
  ultimately show ?thesis
    using unescape_host_id [OF hb] valid_optional_port_Itoa [OF assms(2)] by simp
qed

lemma find_pct25_None: "CHR ''%'' \<notin> set s \<Longrightarrow> find_pct25 s = None"
  by (induction s) auto

lemma parse_url_host_literal:
  assumes chars: "\<forall>c \<in> set a. host_byte c \<and> c \<notin> set ''[]''" and "0 \<le> n"
    and addr: "ParseAddr a = Some (IPv6 gs z)"
  shows "parse_url_host (''['' @ a @ '']:'' @ Itoa n) = Some (''['' @ a @ '']:'' @ Itoa n)"
proof -
  have dig: "\<forall>c \<in> set (Itoa n). is_digit c" using assms(2) by (auto dest: Itoa_digits)
  have open1: "CHR ''['' \<notin> set (a @ '']:'' @ Itoa n)" using chars dig digit_not_special by fastforce
  have o: "LastIndexByte (''['' @ a @ '']:'' @ Itoa n) (CHR ''['') = Some 0"
    using LastIndexByte_append [OF open1, of "[]"] by simp
  have close1: "CHR '']'' \<notin> set (CHR '':'' # Itoa n)" using dig digit_not_special by fastforce
  have c: "LastIndexByte (''['' @ a @ '']:'' @ Itoa n) (CHR '']'') = Some (Suc (length a))"
    using LastIndexByte_append [OF close1, of "''['' @ a"] by simp
  have hb: "\<forall>c \<in> set a. host_byte c" using chars by blast
  then have lit: "unescape_literal a = Some a"
    by (simp add: unescape_literal_def find_pct25_None host_bytes_no unescape_host_id)
  show ?thesis
    using o c lit addr valid_optional_port_Itoa [OF assms(2)]
    by (simp add: parse_url_host_def Let_def)
qed

end
