(* ===== verification/GatewayModel.thy ===== *)
theory GatewayModel
  imports Complex_Main GoNet "HOL-Library.Word"
begin

text \<open>
  The data model, \<open>backend/internal/model/model.go\<close>: one record per struct, fields in the order of the
  source and named after them with a prefix for the struct. A Go \<open>int\<close> that only holds a port, a count
  or a size and is never added to is an \<open>int\<close>; \<open>int32\<close> is a 32-bit word. A \<open>time.Time\<close> is its
  nanosecond count. A \<open>map[string]string\<close> is the list of its entries in the order a range loop
  visits them: Go leaves that order open, so a statement over all such lists covers every order.
  The \<open>float64\<close> of the certificate configuration keeps the non-finite values. A slice that the
  code compares with nil (the route health of a reconciliation) is an option.
\<close>

type_synonym time = int
type_synonym headers = "(string \<times> string) list"
type_synonym DeploymentProfile = string
type_synonym DeploymentMode = string

definition ProfileVM :: DeploymentProfile where
  "ProfileVM = ''vm''"

definition ModeContainerSocket :: DeploymentMode where
  "ModeContainerSocket = ''container-socket''"

definition ModeAzureVM :: DeploymentMode where
  "ModeAzureVM = ''azure-vm''"

datatype float64 = NaN | PosInf | NegInf | Finite rat

fun float_less :: "float64 \<Rightarrow> float64 \<Rightarrow> bool" where
  "float_less (Finite a) (Finite b) = (a < b)"
| "float_less NegInf (Finite b) = True"
| "float_less NegInf PosInf = True"
| "float_less (Finite a) PosInf = True"
| "float_less _ _ = False"

section \<open>Configuration\<close>

record ControlConfig =
  cc_Listen :: string
  cc_ManagementHost :: string

record AzureDNSChallengeConfig =
  ac_SubscriptionID :: string
  ac_ResourceGroup :: string
  ac_Authentication :: string
  ac_TenantID :: string
  ac_ClientID :: string
  ac_ClientSecret :: string

record DNSChallengeConfig =
  dc_Provider :: string
  dc_Azure :: AzureDNSChallengeConfig

record CertificateConfig =
  ce_Issuer :: string
  ce_Email :: string
  ce_Staging :: bool
  ce_CADirectory :: string
  ce_Subjects :: "string list"
  ce_RenewalWindowRatio :: float64
  ce_DNSChallenge :: DNSChallengeConfig

record GatewayConfig =
  gw_HTTPListen :: string
  gw_HTTPSListen :: string
  gw_CaddyAdminEndpoint :: string
  gw_CaddyBin :: string
  gw_StateDir :: string
  gw_CaddyDataDir :: string
  gw_CertificateFile :: string
  gw_InternalSourceRanges :: "string list"
  gw_Certificate :: CertificateConfig

record DockerConfig =
  dk_Enabled :: bool
  dk_SocketPath :: string
  dk_Endpoint :: string

record AzureDNSZoneConfig =
  zn_Name :: string
  zn_ResourceGroup :: string

record AzureConfig =
  az_Enabled :: bool
  az_ManageDNS :: bool
  az_ManageNSG :: bool
  az_SubscriptionID :: string
  az_ResourceGroup :: string
  az_DNSZoneName :: string
  az_DNSZones :: "AzureDNSZoneConfig list"
  az_NetworkSecurityGroupResourceGroup :: string
  az_NetworkSecurityGroupName :: string
  az_PublicIPAddress :: string
  az_NSGPriority :: "32 word"
  az_NSGSourceAddressPrefixes :: "string list"

record ProtectedRouteConfig =
  pr_AllowBearerToken :: bool
  pr_AllowAdminTokenHeader :: bool
  pr_AdditionalHeaderName :: string
  pr_AdditionalHeaderValue :: string

record AuthConfig =
  au_Required :: bool
  au_AdminToken :: string
  au_AdminTokens :: "string list"
  au_ProtectedRoutes :: ProtectedRouteConfig

record SecurityConfig =
  sc_Enabled :: bool
  sc_MaxRequestBodyBytes :: int
  sc_DeniedMethods :: "string list"
  sc_DeniedPathPrefixes :: "string list"
  sc_AllowedCIDRs :: "string list"
  sc_BlockedCIDRs :: "string list"

record RouteSecurityConfig =
  rs_Disabled :: bool
  rs_MaxRequestBodyBytes :: int
  rs_AdditionalDeniedMethods :: "string list"
  rs_AdditionalDeniedPathPrefixes :: "string list"
  rs_AllowedCIDRs :: "string list"
  rs_BlockedCIDRs :: "string list"

record HealthConfig =
  hc_Enabled :: bool
  hc_TimeoutSeconds :: int
  hc_DefaultPath :: string

record AuditConfig =
  ad_Enabled :: bool
  ad_File :: string

record AppConfig =
  ap_Profile :: DeploymentProfile
  ap_DeploymentMode :: DeploymentMode
  ap_Control :: ControlConfig
  ap_Gateway :: GatewayConfig
  ap_Docker :: DockerConfig
  ap_Azure :: AzureConfig
  ap_Auth :: AuthConfig
  ap_Security :: SecurityConfig
  ap_Health :: HealthConfig
  ap_Audit :: AuditConfig
  ap_RoutesFile :: string
  ap_ReconcileIntervalSeconds :: int

section \<open>Routing resources\<close>

record UpstreamTarget =
  up_Name :: string
  up_URL :: string
  up_HealthPath :: string

record Listener =
  ln_ID :: string
  ln_Name :: string
  ln_Hostname :: string
  ln_Port :: int
  ln_Protocol :: string
  ln_Source :: string
  ln_LastUpdated :: time

record BackendTarget =
  bt_Name :: string
  bt_Address :: string
  bt_Port :: int
  bt_HealthPath :: string

record BackendPool =
  bp_ID :: string
  bp_Name :: string
  bp_Targets :: "BackendTarget list"
  bp_Source :: string
  bp_LastUpdated :: time

record RoutingRule =
  rr_ID :: string
  rr_Name :: string
  rr_ListenerID :: string
  rr_BackendPoolID :: string
  rr_BackendPort :: int
  rr_BackendProtocol :: string
  rr_PathPrefix :: string
  rr_HealthPath :: string
  rr_Exposure :: string
  rr_Enabled :: bool
  rr_WebSocket :: bool
  rr_Headers :: headers
  rr_Security :: RouteSecurityConfig
  rr_Source :: string
  rr_LastError :: string
  rr_LastUpdated :: time

record RouteConfig =
  rc_ID :: string
  rc_Name :: string
  rc_Host :: string
  rc_ListenerID :: string
  rc_ListenerName :: string
  rc_ListenerPort :: int
  rc_ListenerProtocol :: string
  rc_BackendPoolID :: string
  rc_BackendPoolName :: string
  rc_PathPrefix :: string
  rc_Exposure :: string
  rc_Enabled :: bool
  rc_Public :: bool
  rc_HTTPS :: bool
  rc_WebSocket :: bool
  rc_Protected :: bool
  rc_Source :: string
  rc_Headers :: headers
  rc_Security :: RouteSecurityConfig
  rc_Upstreams :: "UpstreamTarget list"
  rc_Discovered :: bool
  rc_LastError :: string
  rc_LastUpdated :: time

text \<open>
  \<open>UnmarshalJSON\<close> of the two types decodes into the struct with \<open>Enabled\<close> preset to true and a
  separate \<open>enabled\<close> pointer that shadows the field. The arguments are the decoded struct and the
  pointer, \<open>None\<close> when the document has no \<open>enabled\<close> key or has it null.
\<close>

definition unmarshalRoutingRule :: "RoutingRule \<Rightarrow> bool option \<Rightarrow> RoutingRule" where
  "unmarshalRoutingRule payload enabled =
     (let output = payload\<lparr>rr_Enabled := True\<rparr> in
      case enabled of None \<Rightarrow> output | Some b \<Rightarrow> output\<lparr>rr_Enabled := b\<rparr>)"

definition unmarshalRouteConfig :: "RouteConfig \<Rightarrow> bool option \<Rightarrow> RouteConfig" where
  "unmarshalRouteConfig payload enabled =
     (let output = payload\<lparr>rc_Enabled := True\<rparr> in
      case enabled of None \<Rightarrow> output | Some b \<Rightarrow> output\<lparr>rc_Enabled := b\<rparr>)"

section \<open>Discovery, health and reconciliation results\<close>

record NetworkEndpoint =
  ne_Name :: string
  ne_Address :: string

record ContainerBindPolicy =
  cb_CanBind :: bool
  cb_Mode :: string
  cb_SharedNetworks :: "string list"
  cb_GatewayNetworks :: "string list"
  cb_SuggestedUpstream :: string

record ContainerPort =
  cp_PrivatePort :: int
  cp_PublicPort :: int
  cp_Type :: string

record ContainerService =
  cs_ID :: string
  cs_Name :: string
  cs_Image :: string
  cs_State :: string
  cs_Status :: string
  cs_Ports :: "ContainerPort list"
  cs_Labels :: headers
  cs_Networks :: "string list"
  cs_NetworkEndpoints :: "NetworkEndpoint list"
  cs_NetworkAddresses :: "string list"
  cs_BindPolicy :: "ContainerBindPolicy option"
  cs_RouteHint :: "RouteConfig option"
  cs_RouteWarning :: string

record RouteHealthStatus =
  hs_RouteID :: string
  hs_Host :: string
  hs_Healthy :: bool
  hs_CheckedAt :: time
  hs_Error :: string

record AzureResult =
  ar_Enabled :: bool
  ar_DNSRecords :: int
  ar_DNSDeleted :: int
  ar_NSGRules :: int
  ar_NSGDeleted :: int
  ar_PublicIPAddress :: string
  ar_Warnings :: "string list"
  ar_Error :: string

record ReconcileResult =
  re_StartedAt :: time
  re_FinishedAt :: time
  re_Duration :: int
  re_Profile :: string
  re_ExplicitRoutes :: int
  re_DiscoveredRoutes :: int
  re_AppliedRoutes :: int
  re_HealthChecks :: int
  re_UnhealthyRoutes :: int
  re_CaddyLoaded :: bool
  re_RouteHealth :: "RouteHealthStatus list option"
  re_Azure :: AzureResult
  re_Error :: string

end
