(* ===== verification/RouteValidation.thy ===== *)
theory RouteValidation
  imports GatewayModel
begin

text \<open>
  Validation and normalisation of routes, \<open>backend/internal/routes/store.go\<close> lines 266 to 473: the
  errors of the package with their messages, \<open>validate\<close>, \<open>normalize\<close> and their helpers, and what they
  guarantee of each other.
\<close>

section \<open>Errors\<close>

text \<open>
  An \<open>error\<close> of the package is its message, written as the \<open>fmt.Errorf\<close> call formats it: \<open>%q\<close> is
  \<open>Quote\<close>, \<open>%w\<close> the wrapped message, \<open>%s\<close> the string itself. The API layer decides the HTTP status
  from these messages.
\<close>

type_synonym store_error = string

section \<open>String helpers\<close>

text \<open>
  \<open>strings.TrimSuffix(strings.ToLower(strings.TrimSpace(s)), ".")\<close>, which the code writes out
  wherever it canonicalises a host name.
\<close>

definition canon_name :: "string \<Rightarrow> string" where
  "canon_name s = TrimSuffix (ToLower (TrimSpace s)) ''.''"

definition sourceOr :: "string \<Rightarrow> string \<Rightarrow> string" where
  "sourceOr value fallback = (if TrimSpace value = [] then fallback else value)"

definition uniqueStrings :: "string list \<Rightarrow> string list" where
  "uniqueStrings values = keep_first {} values"

definition normalizeStrings :: "string list \<Rightarrow> string list" where
  "normalizeStrings values = uniqueStrings (filter (\<lambda>v. v \<noteq> []) (map TrimSpace values))"

definition normalizeMethods :: "string list \<Rightarrow> string list" where
  "normalizeMethods methods = uniqueStrings (map ToUpper (normalizeStrings methods))"

definition normalizePathPrefixes :: "string list \<Rightarrow> string list" where
  "normalizePathPrefixes prefixes =
     uniqueStrings (map (\<lambda>p. if p \<noteq> ''/'' then TrimRight p ''/'' else p) (normalizeStrings prefixes))"

definition normalizePathPrefix :: "string \<Rightarrow> string" where
  "normalizePathPrefix prefix = TrimRight (TrimSpace prefix) ''/''"

section \<open>Validation\<close>

definition token_byte :: "char \<Rightarrow> bool" where
  "token_byte c \<longleftrightarrow> is_upper c \<or> is_digit c \<or> c \<in> set ''!#$%&*+-.^_`|~'' \<or> code c = 39"

definition validHTTPToken :: "string \<Rightarrow> bool" where
  "validHTTPToken value \<longleftrightarrow> value \<noteq> [] \<and> list_all token_byte value"

definition validateIPRanges :: "string \<Rightarrow> string list \<Rightarrow> store_error + unit" where
  "validateIPRanges field ranges =
     each_ok (\<lambda>source0. let source = TrimSpace source0 in
       guard_err (ParseIP source = None \<and> \<not> ParseCIDR_ok source) (field @ '' contains invalid IP or CIDR '' @ Quote source)) ranges"

definition validateRouteSecurity :: "RouteSecurityConfig \<Rightarrow> store_error + unit" where
  "validateRouteSecurity security =
     bind_res (guard_err (rs_MaxRequestBodyBytes security < 0) ''security.maxRequestBodyBytes must not be negative'') (\<lambda>_.
     bind_res (each_ok (\<lambda>m. guard_err (\<not> validHTTPToken (ToUpper (TrimSpace m))) (''security.additionalDeniedMethods contains invalid HTTP method '' @ Quote m))
                 (rs_AdditionalDeniedMethods security)) (\<lambda>_.
     bind_res (each_ok (\<lambda>p0. let prefix = TrimSpace p0 in
                 guard_err (\<not> HasPrefix prefix ''/'' \<or> Contains prefix ''*'') (''security.additionalDeniedPathPrefixes entry '' @ Quote prefix @
                   '' must start with / and must not contain wildcards''))
                 (rs_AdditionalDeniedPathPrefixes security)) (\<lambda>_.
     bind_res (validateIPRanges ''security.allowedCidrs'' (rs_AllowedCIDRs security)) (\<lambda>_.
     validateIPRanges ''security.blockedCidrs'' (rs_BlockedCIDRs security)))))"

definition host_char :: "char \<Rightarrow> bool" where
  "host_char c \<longleftrightarrow> is_lower c \<or> is_digit c \<or> c = CHR ''-''"

definition validateHostLabel :: "string \<Rightarrow> string \<Rightarrow> store_error + unit" where
  "validateHostLabel host label =
     bind_res (guard_err (label = [] \<or> 63 < length label \<or> hd label = CHR ''-'' \<or> last label = CHR ''-'')
                 (''host '' @ Quote host @ '' is not a valid DNS name'')) (\<lambda>_.
     each_ok (\<lambda>c. guard_err (\<not> host_char c) (''host '' @ Quote host @ '' is not a valid DNS name'')) label)"

definition validateRouteHost :: "string \<Rightarrow> store_error + unit" where
  "validateRouteHost host =
     (let name = (if HasPrefix host ''*.'' then TrimPrefix host ''*.'' else host) in
      if Contains name ''*'' \<or> ContainsAny name ''/:'' \<or> 253 < length name then 
        Inl (''host '' @ Quote host @ '' must be a DNS name with at most one left-most wildcard'')
      else
        (let labels = Split name (CHR ''.'') in
         if length labels < 2 then Inl (''host '' @ Quote host @ '' must be a fully qualified DNS name'')
         else each_ok (validateHostLabel host) labels))"

definition validateUpstream :: "UpstreamTarget \<Rightarrow> store_error + unit" where
  "validateUpstream upstream =
     (case url_Parse (TrimSpace (up_URL upstream)) of
        None \<Rightarrow> Inl (''upstream url '' @ Quote (up_URL upstream) @ '' must include scheme and host'')
      | Some parsed \<Rightarrow>
          (if u_Host parsed = [] \<or> u_Scheme parsed = [] then Inl (''upstream url '' @ Quote (up_URL upstream) @ '' must include scheme and host'')
           else if ToLower (u_Scheme parsed) = ''http'' \<or> ToLower (u_Scheme parsed) = ''https'' then Inr ()
           else Inl (''upstream url '' @ Quote (up_URL upstream) @ '' must use http or https'')))"

definition validate :: "RouteConfig \<Rightarrow> store_error + unit" where
  "validate route =
     (let host = canon_name (rc_Host route); pathPrefix = TrimSpace (rc_PathPrefix route) in
      if host = [] then Inl ''host is required''
      else bind_res (validateRouteHost host) (\<lambda>_.
        if rc_Upstreams route = [] then Inl ''at least one upstream is required''
        else if pathPrefix \<noteq> [] \<and> \<not> HasPrefix pathPrefix ''/'' then Inl ''pathPrefix must start with /''
        else if pathPrefix \<noteq> [] \<and> Contains pathPrefix ''*'' then Inl ''pathPrefix must not contain wildcards''
        else bind_res (each_ok validateUpstream (rc_Upstreams route)) (\<lambda>_.
          validateRouteSecurity (rc_Security route))))"

section \<open>Normalisation\<close>

definition normalizeSecurity :: "RouteSecurityConfig \<Rightarrow> RouteSecurityConfig" where
  "normalizeSecurity sec =
     sec\<lparr>rs_AdditionalDeniedMethods := normalizeMethods (rs_AdditionalDeniedMethods sec),
         rs_AdditionalDeniedPathPrefixes := normalizePathPrefixes (rs_AdditionalDeniedPathPrefixes sec),
         rs_AllowedCIDRs := normalizeStrings (rs_AllowedCIDRs sec),
         rs_BlockedCIDRs := normalizeStrings (rs_BlockedCIDRs sec)\<rparr>"

definition normalizeFields :: "RouteConfig \<Rightarrow> RouteConfig" where
  "normalizeFields route =
     route\<lparr>rc_Host := canon_name (rc_Host route),
           rc_PathPrefix := normalizePathPrefix (rc_PathPrefix route),
           rc_Upstreams := map (\<lambda>u. u\<lparr>up_URL := TrimSpace (up_URL u)\<rparr>) (rc_Upstreams route),
           rc_Security := normalizeSecurity (rc_Security route),
           rc_Exposure := ToLower (TrimSpace (rc_Exposure route)),
           rc_Source := (if rc_Source route = [] then ''explicit'' else rc_Source route)\<rparr>"

definition defaultExposure :: "RouteConfig \<Rightarrow> RouteConfig" where
  "defaultExposure route =
     (if rc_Exposure route = [] then
        (if rc_Public route \<or> rc_Source route = ''explicit''
         then route\<lparr>rc_Exposure := ''public''\<rparr> else route\<lparr>rc_Exposure := ''internal''\<rparr>)
      else route)"

definition applyExposure :: "RouteConfig \<Rightarrow> RouteConfig" where
  "applyExposure route =
     (if rc_Exposure route = ''internal'' then route\<lparr>rc_Public := False, rc_Protected := False\<rparr>
      else if rc_Exposure route = ''protected'' then route\<lparr>rc_Public := True, rc_Protected := True\<rparr>
      else route\<lparr>rc_Exposure := ''public'', rc_Public := True, rc_Protected := False\<rparr>)"

definition normalize :: "RouteConfig \<Rightarrow> RouteConfig" where
  "normalize route = applyExposure (defaultExposure (normalizeFields route))"

section \<open>Facts about the string helpers\<close>

lemma uniqueStrings_idem [norm_idem]: "uniqueStrings (uniqueStrings xs) = uniqueStrings xs"
  by (simp add: uniqueStrings_def)

lemma set_uniqueStrings [simp]: "set (uniqueStrings xs) = set xs"
  by (simp add: uniqueStrings_def)

lemma distinct_uniqueStrings [simp]: "distinct (uniqueStrings xs)"
  by (simp add: uniqueStrings_def)

lemma uniqueStrings_id: "distinct xs \<Longrightarrow> uniqueStrings xs = xs"
  by (simp add: uniqueStrings_def keep_first_id)

lemma set_normalizeStrings: "set (normalizeStrings xs) = TrimSpace ` set xs - {[]}"
  by (auto simp: normalizeStrings_def)

lemma normalizeStrings_id:
  assumes "distinct xs" "\<forall>x \<in> set xs. x \<noteq> [] \<and> TrimSpace x = x"
  shows "normalizeStrings xs = xs"
proof -
  have "map TrimSpace xs = xs" using assms(2) by (simp add: map_idI)
  moreover have "filter (\<lambda>v. v \<noteq> []) xs = xs" using assms(2) by (simp add: filter_id_conv)
  ultimately show ?thesis using assms(1) by (simp add: normalizeStrings_def uniqueStrings_id)
qed

lemma distinct_normalizeStrings [simp]: "distinct (normalizeStrings xs)"
  by (simp add: normalizeStrings_def)

lemma normalizeStrings_idem [norm_idem]:
  "normalizeStrings (normalizeStrings xs) = normalizeStrings xs"
  by (rule normalizeStrings_id) (auto simp: set_normalizeStrings)

lemma ToUpper_Nil_iff [simp]: "ToUpper s = [] \<longleftrightarrow> s = []"
  by (simp add: ToUpper_def)

lemma normalizeMethods_props:
  "x \<in> set (normalizeMethods xs) \<Longrightarrow> x \<noteq> [] \<and> TrimSpace x = x \<and> ToUpper x = x"
  by (auto simp: normalizeMethods_def set_normalizeStrings TrimSpace_ToUpper)

lemma normalizeMethods_idem [norm_idem]:
  "normalizeMethods (normalizeMethods xs) = normalizeMethods xs"
proof -
  let ?ys = "normalizeMethods xs"
  have d: "distinct ?ys" by (simp add: normalizeMethods_def)
  have "normalizeStrings ?ys = ?ys"
    using d normalizeMethods_props by (intro normalizeStrings_id) auto
  moreover have "map ToUpper ?ys = ?ys" using normalizeMethods_props by (simp add: map_idI)
  ultimately show ?thesis using d by (simp add: normalizeMethods_def [of ?ys] uniqueStrings_id)
qed

lemma canon_name_simps: "HasSuffix (TrimSpace s) ''.'' \<Longrightarrow> canon_name s = ToLower (butlast (TrimSpace s))"
proof -
  assume "HasSuffix (TrimSpace s) ''.''"
  then obtain t where t: "TrimSpace s = t @ ''.''" by (auto simp: HasSuffix_iff)
  then have "ToLower (TrimSpace s) = ToLower t @ ''.''"
    by (simp add: ToLower_def lower_byte_other is_upper_def)
  then have "canon_name s = ToLower t" by (simp add: canon_name_def del: ToLower_simps)
  with t show ?thesis by simp
qed

section \<open>What the host validation accepts\<close>

text \<open>
  The specification: a DNS name is at least two labels joined by dots, at most 253 bytes long, and a
  label is 1 to 63 bytes of lower case letters, digits and hyphens without a hyphen at either end. A
  route host is such a name, or one below a left-most wildcard label.
\<close>

definition dns_label :: "string \<Rightarrow> bool" where
  "dns_label w \<longleftrightarrow> w \<noteq> [] \<and> length w \<le> 63 \<and> hd w \<noteq> CHR ''-'' \<and> last w \<noteq> CHR ''-'' \<and>
     (\<forall>c \<in> set w. host_char c)"

definition dns_name :: "string \<Rightarrow> bool" where
  "dns_name n \<longleftrightarrow> length n \<le> 253 \<and>
     (\<exists>labels. n = Join labels ''.'' \<and> 2 \<le> length labels \<and> (\<forall>w \<in> set labels. dns_label w))"

definition route_host :: "string \<Rightarrow> bool" where
  "route_host h \<longleftrightarrow> dns_name h \<or> (\<exists>n. h = ''*.'' @ n \<and> dns_name n)"

lemma validateHostLabel_iff: "validateHostLabel h w = Inr () \<longleftrightarrow> dns_label w"
  by (auto simp: validateHostLabel_def dns_label_def res_simps)

lemma host_char_simps [simp]:
  "\<not> host_char (CHR ''.'')" "\<not> host_char (CHR ''*'')" "\<not> host_char (CHR ''/'')"
  "\<not> host_char (CHR '':'')" "\<not> host_char (CHR ''['')" "\<not> host_char (CHR '']'')"
  by (simp_all add: host_char_def byte_defs)

lemma host_char_props: "host_char c \<Longrightarrow> \<not> is_space c \<and> \<not> is_upper c \<and> host_byte c"
  by (auto simp: host_char_def host_byte_def is_alpha_def byte_defs)

lemma Split_Join:
  "labels \<noteq> [] \<Longrightarrow> \<forall>w \<in> set labels. c \<notin> set w \<Longrightarrow> Split (Join labels [c]) c = labels"
  by (induction labels "[c]" rule: Join.induct) (auto simp: Split_no_sep Split_append)

lemma set_Join: "x \<in> set (Join labels sep) \<Longrightarrow> x \<in> set sep \<or> (\<exists>w \<in> set labels. x \<in> set w)"
  by (induction labels sep rule: Join.induct) auto

lemma dns_name_chars: "dns_name n \<Longrightarrow> c \<in> set n \<Longrightarrow> host_char c \<or> c = CHR ''.''"
  by (auto simp: dns_name_def dns_label_def dest!: set_Join)

lemma dns_name_iff:
  "dns_name n \<longleftrightarrow> length n \<le> 253 \<and> 2 \<le> length (Split n (CHR ''.'')) \<and>
     (\<forall>w \<in> set (Split n (CHR ''.'')). dns_label w)"
proof
  assume "dns_name n"
  then obtain labels where l: "length n \<le> 253" "n = Join labels ''.''" "2 \<le> length labels"
    "\<forall>w \<in> set labels. dns_label w" by (auto simp: dns_name_def)
  have "labels \<noteq> []" using l(3) by auto
  moreover have "\<forall>w \<in> set labels. CHR ''.'' \<notin> set w" using l(4) host_char_simps(1) unfolding dns_label_def by blast
  ultimately have "Split n (CHR ''.'') = labels" using l(2) Split_Join by simp
  with l show "length n \<le> 253 \<and> 2 \<le> length (Split n (CHR ''.'')) \<and>
     (\<forall>w \<in> set (Split n (CHR ''.'')). dns_label w)" by simp
next
  assume "length n \<le> 253 \<and> 2 \<le> length (Split n (CHR ''.'')) \<and>
     (\<forall>w \<in> set (Split n (CHR ''.'')). dns_label w)"
  then show "dns_name n" unfolding dns_name_def using Join_Split [of n "CHR ''.''"] by metis
qed

text \<open>The check of one name, shared by the exact and the wildcard case.\<close>

lemma validate_name_iff:
  "(\<not> (Contains n ''*'' \<or> ContainsAny n ''/:'' \<or> 253 < length n) \<and>
    \<not> length (Split n (CHR ''.'')) < 2 \<and>
    (\<forall>w \<in> set (Split n (CHR ''.'')). validateHostLabel h w = Inr ())) \<longleftrightarrow> dns_name n" (is "?l \<longleftrightarrow> _")
proof
  assume ?l
  then show "dns_name n" by (simp add: dns_name_iff validateHostLabel_iff)
next
  assume d: "dns_name n"
  have "CHR ''*'' \<notin> set n" "CHR ''/'' \<notin> set n" "CHR '':'' \<notin> set n"
    using dns_name_chars [OF d] by fastforce+
  with d show ?l by (auto simp: dns_name_iff validateHostLabel_iff)
qed

lemma validateRouteHost_iff: "validateRouteHost h = Inr () \<longleftrightarrow> route_host h"
proof -
  define n where "n = (if HasPrefix h ''*.'' then TrimPrefix h ''*.'' else h)"
  have "validateRouteHost h = Inr () \<longleftrightarrow> dns_name n"
    unfolding validateRouteHost_def n_def [symmetric] Let_def
    using validate_name_iff [of n h] by (auto split: if_splits)
  also have "\<dots> \<longleftrightarrow> route_host h"
  proof (cases "HasPrefix h ''*.''")
    case True
    then obtain t where t: "h = ''*.'' @ t" by (auto simp: HasPrefix_iff)
    then have "n = t" by (simp add: n_def TrimPrefix_def)
    moreover have "\<not> dns_name h"
    proof
      assume "dns_name h"
      from dns_name_chars [OF this, of "CHR ''*''"] t show False by simp
    qed
    ultimately show ?thesis using t by (auto simp: route_host_def)
  next
    case False
    then show ?thesis by (auto simp: route_host_def n_def)
  qed
  finally show ?thesis .
qed

lemma dns_name_no_final_dot: "dns_name n \<Longrightarrow> \<not> HasSuffix n ''.''"
proof
  assume d: "dns_name n" and "HasSuffix n ''.''"
  then obtain t where n: "n = t @ ''.''" by (auto simp: HasSuffix_iff)
  have "\<exists>v vs. Split (t @ ''.'') (CHR ''.'') = v # vs \<and> [] \<in> set vs"
    by (induction t) (auto split: list.splits)
  with d n show False by (auto simp: dns_name_iff dns_label_def)
qed

lemma route_host_chars: "route_host h \<Longrightarrow> c \<in> set h \<Longrightarrow> host_char c \<or> c = CHR ''.'' \<or> c = CHR ''*''"
  by (auto simp: route_host_def dest: dns_name_chars)

lemma route_host_not_Nil: "route_host h \<Longrightarrow> h \<noteq> []"
  by (auto simp: route_host_def dns_name_iff)

lemma canon_name_route_host [norm_idem]: "route_host h \<Longrightarrow> canon_name h = h"
proof -
  assume h: "route_host h"
  have c: "\<forall>c \<in> set h. \<not> is_space c \<and> \<not> is_upper c"
    using route_host_chars [OF h] host_char_props by (fastforce simp: byte_defs)
  have "\<not> HasSuffix h ''.''"
  proof
    assume s: "HasSuffix h ''.''"
    then obtain t where t: "h = t @ ''.''" by (auto simp: HasSuffix_iff)
    from h consider "dns_name h" | n where "h = ''*.'' @ n" "dns_name n" by (auto simp: route_host_def)
    then show False
    proof cases
      case 1
      with s show False by (simp add: dns_name_no_final_dot)
    next
      case 2
      then have "n \<noteq> []" by (auto simp: dns_name_iff)
      with 2 t have "HasSuffix n ''.''"
        by (auto simp: HasSuffix_iff Cons_eq_append_conv append_eq_Cons_conv)
      with 2 show False by (simp add: dns_name_no_final_dot)
    qed
  qed
  with c show ?thesis by (simp add: canon_name_def TrimSpace_id ToLower_id TrimSuffix_id)
qed

section \<open>Facts about normalisation\<close>

lemma normalizePathPrefix_fix_iff:
  "normalizePathPrefix p = p \<longleftrightarrow>
     p = [] \<or> (\<not> is_space (hd p) \<and> \<not> is_space (last p) \<and> last p \<noteq> CHR ''/'')"
proof
  assume fix1: "normalizePathPrefix p = p"
  show "p = [] \<or> (\<not> is_space (hd p) \<and> \<not> is_space (last p) \<and> last p \<noteq> CHR ''/'')"
  proof (cases "p = []")
    case False
    have "length (TrimRight (TrimSpace p) ''/'') \<le> length (TrimSpace p)"
      unfolding TrimRight_def by (metis length_dropWhile_le length_rev)
    moreover have "length (TrimSpace p) \<le> length p"
      unfolding TrimSpace_def by (metis (no_types) le_trans length_dropWhile_le length_rev)
    ultimately have len: "length (TrimSpace p) = length p"
      using fix1 by (simp add: normalizePathPrefix_def)
    have d1: "length (dropWhile is_space p) = length p"
      using len length_dropWhile_le [of is_space p] length_dropWhile_le [of is_space "rev (dropWhile is_space p)"]
      by (simp add: TrimSpace_def)
    have hd: "\<not> is_space (hd p)"
      using d1 False length_dropWhile_le [of is_space "tl p"] by (cases p) (auto split: if_splits)
    have dp: "dropWhile is_space p = p" using hd False by (cases p) auto
    have "length (dropWhile is_space (rev p)) = length p" using len dp by (simp add: TrimSpace_def)
    then have la: "\<not> is_space (last p)"
      using False length_dropWhile_le [of is_space "rev (butlast p)"]
      by (cases p rule: rev_cases) (auto split: if_splits)
    have "last p \<noteq> CHR ''/''"
      using TrimRight_last [of "TrimSpace p" "''/''"] fix1 False by (simp add: normalizePathPrefix_def)
    with hd la show ?thesis by simp
  qed simp
next
  assume h: "p = [] \<or> (\<not> is_space (hd p) \<and> \<not> is_space (last p) \<and> last p \<noteq> CHR ''/'')"
  then have "dropWhile is_space p = p" by (cases p) auto
  moreover have "dropWhile is_space (rev p) = rev p" using h by (cases p rule: rev_cases) auto
  ultimately have "TrimSpace p = p" by (simp add: TrimSpace_def)
  then show "normalizePathPrefix p = p" using h by (auto simp: normalizePathPrefix_def TrimRight_id)
qed

lemma normalizeSecurity_simps [simp]:
  "rs_Disabled (normalizeSecurity sec) = rs_Disabled sec"
  "rs_MaxRequestBodyBytes (normalizeSecurity sec) = rs_MaxRequestBodyBytes sec"
  by (simp_all add: normalizeSecurity_def)

text \<open>The exposure decides the two flags, and an unknown exposure becomes public.\<close>

lemma applyExposure_cases:
  "rc_Exposure (applyExposure r) = ''internal'' \<and> \<not> rc_Public (applyExposure r) \<and> \<not> rc_Protected (applyExposure r) \<or>
   rc_Exposure (applyExposure r) = ''protected'' \<and> rc_Public (applyExposure r) \<and> rc_Protected (applyExposure r) \<or>
   rc_Exposure (applyExposure r) = ''public'' \<and> rc_Public (applyExposure r) \<and> \<not> rc_Protected (applyExposure r)"
  by (simp add: applyExposure_def)

lemma exposure_lower:
  "ToLower (TrimSpace ''internal'') = ''internal''" "ToLower (TrimSpace ''protected'') = ''protected''"
  "ToLower (TrimSpace ''public'') = ''public''"
  by (simp_all add: TrimSpace_def lower_byte_def byte_defs)

lemma normalize_exposure_fix:
  "ToLower (TrimSpace (rc_Exposure (normalize r))) = rc_Exposure (normalize r)"
  using applyExposure_cases [of "defaultExposure (normalizeFields r)"] exposure_lower
  by (auto simp: normalize_def)

lemma normalize_frame [simp]:
  "rc_ID (normalize r) = rc_ID r" "rc_Name (normalize r) = rc_Name r"
  "rc_Host (normalize r) = canon_name (rc_Host r)"
  "rc_PathPrefix (normalize r) = normalizePathPrefix (rc_PathPrefix r)"
  "rc_Security (normalize r) = normalizeSecurity (rc_Security r)"
  "rc_Upstreams (normalize r) = map (\<lambda>u. u\<lparr>up_URL := TrimSpace (up_URL u)\<rparr>) (rc_Upstreams r)"
  "rc_Source (normalize r) = (if rc_Source r = [] then ''explicit'' else rc_Source r)"
  "rc_ListenerPort (normalize r) = rc_ListenerPort r"
  "rc_ListenerProtocol (normalize r) = rc_ListenerProtocol r"
  "rc_Enabled (normalize r) = rc_Enabled r" "rc_HTTPS (normalize r) = rc_HTTPS r"
  "rc_WebSocket (normalize r) = rc_WebSocket r" "rc_Headers (normalize r) = rc_Headers r"
  "rc_ListenerID (normalize r) = rc_ListenerID r" "rc_BackendPoolID (normalize r) = rc_BackendPoolID r"
  "rc_LastError (normalize r) = rc_LastError r" "rc_LastUpdated (normalize r) = rc_LastUpdated r"
  by (simp_all add: normalize_def normalizeFields_def defaultExposure_def applyExposure_def)

lemma applyExposure_id:
  "rc_Exposure r = ''internal'' \<and> \<not> rc_Public r \<and> \<not> rc_Protected r \<or>
   rc_Exposure r = ''protected'' \<and> rc_Public r \<and> rc_Protected r \<or>
   rc_Exposure r = ''public'' \<and> rc_Public r \<and> \<not> rc_Protected r \<Longrightarrow>
   applyExposure (defaultExposure r) = r"
  by (elim disjE) (simp_all add: applyExposure_def defaultExposure_def)

text \<open>A route whose host, paths and lists are already canonical is a fixed point of \<open>normalize\<close> after one step.\<close>

lemma normalize_fix:
  assumes "canon_name (rc_Host r) = rc_Host r"
    and "normalizePathPrefix (rc_PathPrefix r) = rc_PathPrefix r"
    and "normalizeSecurity (rc_Security r) = rc_Security r"
    and "\<forall>u \<in> set (rc_Upstreams r). TrimSpace (up_URL u) = up_URL u"
    and "rc_Source r \<noteq> []"
    and "rc_Exposure r = ''internal'' \<and> \<not> rc_Public r \<and> \<not> rc_Protected r \<or>
      rc_Exposure r = ''protected'' \<and> rc_Public r \<and> rc_Protected r \<or>
      rc_Exposure r = ''public'' \<and> rc_Public r \<and> \<not> rc_Protected r"
  shows "normalize r = r"
proof -
  have u: "map (\<lambda>u. u\<lparr>up_URL := TrimSpace (up_URL u)\<rparr>) (rc_Upstreams r) = rc_Upstreams r"
    using assms(4) by (intro map_idI) simp
  have e: "ToLower (TrimSpace (rc_Exposure r)) = rc_Exposure r"
    using assms(6) exposure_lower by auto
  have "normalizeFields r = r"
    using assms(1,2,3,5) u e by (simp add: normalizeFields_def)
  then show ?thesis using assms(6) by (simp add: normalize_def applyExposure_id)
qed

end
