(* ===== verification/RouteResources.thy ===== *)
theory RouteResources
  imports RouteValidation
begin

text \<open>
  Listeners, backend pools and routing rules as values: \<open>backend/internal/routes/resources.go\<close>,
  the functions from \<open>normalizeListener\<close> on. The lookups and deletions by identifier are written once
  per resource type in Go; the locale \<open>keyed\<close> states what the store relies on and is interpreted on
  each of the three.
\<close>

section \<open>Ports, addresses and identifiers\<close>

definition defaultPort :: "string \<Rightarrow> int" where
  "defaultPort protocol = (if protocol = ''https'' then 443 else 80)"

definition hostPort :: "string \<Rightarrow> int \<Rightarrow> string" where
  "hostPort address port =
     (if Contains address '':'' then JoinHostPort address (Itoa port) else address @ '':'' @ Itoa port)"

definition sameListener :: "Listener \<Rightarrow> Listener \<Rightarrow> bool" where
  "sameListener l r \<longleftrightarrow> ln_Hostname l = ln_Hostname r \<and> ln_Port l = ln_Port r \<and> ln_Protocol l = ln_Protocol r"

definition listenerURL :: "Listener \<Rightarrow> string" where
  "listenerURL listener = ln_Protocol listener @ ''://'' @ hostPort (ln_Hostname listener) (ln_Port listener)"

text \<open>\<open>nextID\<close> reads the clock; the reading is an argument.\<close>

definition nextID :: "string \<Rightarrow> time \<Rightarrow> string" where
  "nextID prefix now = prefix @ ''-'' @ Itoa now"

definition resourceIDPart :: "string \<Rightarrow> string" where
  "resourceIDPart value0 =
     (let value = Trim (map (\<lambda>c. if is_lower c \<or> is_digit c \<or> c = CHR ''-'' then c else CHR ''-'')
                         (ToLower (TrimSpace value0))) ''-''
      in if value = [] then ''resource'' else value)"

definition uniqueID :: "string \<Rightarrow> string set \<Rightarrow> time \<Rightarrow> string" where
  "uniqueID candidate existing now = (if candidate \<notin> existing then candidate else nextID candidate now)"

definition backendPoolIDs :: "BackendPool list \<Rightarrow> string set" where
  "backendPoolIDs pools = set (map bp_ID pools)"

section \<open>Listeners\<close>

definition normalizeListener :: "Listener \<Rightarrow> Listener" where
  "normalizeListener listener0 =
     (let l1 = listener0\<lparr>ln_Name := TrimSpace (ln_Name listener0),
                        ln_Hostname := canon_name (ln_Hostname listener0),
                        ln_Protocol := ToLower (TrimSpace (ln_Protocol listener0)),
                        ln_Source := ToLower (TrimSpace (ln_Source listener0))\<rparr>;
          l2 = (if ln_Protocol l1 = [] then l1\<lparr>ln_Protocol := ''https''\<rparr> else l1)
      in if ln_Port l2 = 0 then l2\<lparr>ln_Port := defaultPort (ln_Protocol l2)\<rparr> else l2)"

definition validateListener :: "Listener \<Rightarrow> store_error + unit" where
  "validateListener listener =
     (if ln_Name listener = [] then Inl ''listener name is required''
      else bind_res (validateRouteHost (ln_Hostname listener)) (\<lambda>_.
        if ln_Protocol listener \<noteq> ''http'' \<and> ln_Protocol listener \<noteq> ''https''
        then Inl ''listener protocol must be http or https''
        else if ln_Port listener < 1 \<or> ln_Port listener > 65535
        then Inl ''listener port must be between 1 and 65535''
        else Inr ()))"

section \<open>Backend pools\<close>

definition normalizeTarget :: "BackendTarget \<Rightarrow> BackendTarget" where
  "normalizeTarget t =
     t\<lparr>bt_Name := TrimSpace (bt_Name t), bt_Address := Trim (TrimSpace (bt_Address t)) ''[]'',
       bt_HealthPath := TrimSpace (bt_HealthPath t)\<rparr>"

definition normalizeBackendPool :: "BackendPool \<Rightarrow> BackendPool" where
  "normalizeBackendPool pool =
     pool\<lparr>bp_Name := TrimSpace (bp_Name pool), bp_Source := ToLower (TrimSpace (bp_Source pool)),
          bp_Targets := map normalizeTarget (bp_Targets pool)\<rparr>"

definition address_byte :: "char \<Rightarrow> bool" where
  "address_byte c \<longleftrightarrow> is_lower c \<or> is_upper c \<or> is_digit c \<or> c = CHR ''-'' \<or> c = CHR ''_''"

definition validBackendAddress :: "string \<Rightarrow> bool" where
  "validBackendAddress address =
     (if address = [] \<or> ContainsAny address [CHR '' '', CHR ''/'', CHR 0x09, CHR 0x0D, CHR 0x0A] then False
      else if ParseIP address \<noteq> None then True
      else if Contains address '':'' then False
      else list_all (\<lambda>label. label \<noteq> [] \<and> list_all address_byte label) (Split address (CHR ''.'')))"

definition targetKey :: "BackendTarget \<Rightarrow> string" where
  "targetKey target = ToLower (bt_Address target) @ '':'' @ Itoa (bt_Port target)"

text \<open>The loop over the targets, with the set \<open>seen\<close> of the keys met so far.\<close>

fun validateTargets :: "string set \<Rightarrow> BackendTarget list \<Rightarrow> store_error + unit" where
  "validateTargets seen [] = Inr ()"
| "validateTargets seen (target # rest) =
     (if \<not> validBackendAddress (bt_Address target)
      then Inl (''backend target address '' @ Quote (bt_Address target) @
        '' must be an IP address or hostname without a port'')
      else if bt_Port target < 0 \<or> bt_Port target > 65535
      then Inl ''backend target port must be between 1 and 65535''
      else if targetKey target \<in> seen
      then Inl (''backend target '' @ Quote (bt_Address target) @ '' is duplicated'')
      else validateTargets (insert (targetKey target) seen) rest)"

definition validateBackendPool :: "BackendPool \<Rightarrow> store_error + unit" where
  "validateBackendPool pool =
     (if bp_Name pool = [] then Inl ''backend pool name is required''
      else if bp_Targets pool = [] then Inl ''backend pool requires at least one target''
      else validateTargets {} (bp_Targets pool))"

section \<open>Routing rules\<close>

definition normalizeRoutingRule :: "RoutingRule \<Rightarrow> RoutingRule" where
  "normalizeRoutingRule rule0 =
     (let r1 = rule0\<lparr>rr_Name := TrimSpace (rr_Name rule0),
                    rr_ListenerID := TrimSpace (rr_ListenerID rule0),
                    rr_BackendPoolID := TrimSpace (rr_BackendPoolID rule0),
                    rr_BackendProtocol := ToLower (TrimSpace (rr_BackendProtocol rule0)),
                    rr_PathPrefix := normalizePathPrefix (rr_PathPrefix rule0),
                    rr_HealthPath := TrimSpace (rr_HealthPath rule0),
                    rr_Exposure := ToLower (TrimSpace (rr_Exposure rule0)),
                    rr_Source := ToLower (TrimSpace (rr_Source rule0))\<rparr>;
          r2 = (if rr_BackendProtocol r1 = [] then r1\<lparr>rr_BackendProtocol := ''http''\<rparr> else r1);
          r3 = (if rr_Exposure r2 = [] then r2\<lparr>rr_Exposure := ''public''\<rparr> else r2)
      in r3\<lparr>rr_Security := normalizeSecurity (rr_Security r3)\<rparr>)"

section \<open>Lookup, deletion and replacement by identifier\<close>

fun findListener :: "Listener list \<Rightarrow> string \<Rightarrow> Listener option" where
  "findListener [] ident = None"
| "findListener (l # ls) ident = (if ln_ID l = ident then Some l else findListener ls ident)"

fun findBackendPool :: "BackendPool list \<Rightarrow> string \<Rightarrow> BackendPool option" where
  "findBackendPool [] ident = None"
| "findBackendPool (p # ps) ident = (if bp_ID p = ident then Some p else findBackendPool ps ident)"

fun findRoutingRule :: "RoutingRule list \<Rightarrow> string \<Rightarrow> RoutingRule option" where
  "findRoutingRule [] ident = None"
| "findRoutingRule (r # rs) ident = (if rr_ID r = ident then Some r else findRoutingRule rs ident)"

text \<open>The slice after the call, and whether an element was removed.\<close>

fun deleteListenerByID :: "Listener list \<Rightarrow> string \<Rightarrow> Listener list \<times> bool" where
  "deleteListenerByID [] ident = ([], False)"
| "deleteListenerByID (l # ls) ident =
     (if ln_ID l = ident then (ls, True) else (case deleteListenerByID ls ident of (ls', b) \<Rightarrow> (l # ls', b)))"

fun deleteBackendPoolByID :: "BackendPool list \<Rightarrow> string \<Rightarrow> BackendPool list \<times> bool" where
  "deleteBackendPoolByID [] ident = ([], False)"
| "deleteBackendPoolByID (p # ps) ident =
     (if bp_ID p = ident then (ps, True) else (case deleteBackendPoolByID ps ident of (ps', b) \<Rightarrow> (p # ps', b)))"

fun deleteRoutingRuleByID :: "RoutingRule list \<Rightarrow> string \<Rightarrow> RoutingRule list \<times> bool" where
  "deleteRoutingRuleByID [] ident = ([], False)"
| "deleteRoutingRuleByID (r # rs) ident =
     (if rr_ID r = ident then (rs, True) else (case deleteRoutingRuleByID rs ident of (rs', b) \<Rightarrow> (r # rs', b)))"

text \<open>
  The loops of \<open>ReplaceListener\<close>, \<open>ReplaceBackendPool\<close> and \<open>ReplaceRoutingRule\<close>, which overwrite the
  first element with the identifier and report whether there was one. The last one keeps the runtime
  error of the rule it replaces.
\<close>

fun putListener :: "Listener list \<Rightarrow> Listener \<Rightarrow> Listener list \<times> bool" where
  "putListener [] x = ([], False)"
| "putListener (l # ls) x =
     (if ln_ID l = ln_ID x then (x # ls, True) else (case putListener ls x of (ls', b) \<Rightarrow> (l # ls', b)))"

fun putBackendPool :: "BackendPool list \<Rightarrow> BackendPool \<Rightarrow> BackendPool list \<times> bool" where
  "putBackendPool [] x = ([], False)"
| "putBackendPool (p # ps) x =
     (if bp_ID p = bp_ID x then (x # ps, True) else (case putBackendPool ps x of (ps', b) \<Rightarrow> (p # ps', b)))"

fun putRoutingRule :: "RoutingRule list \<Rightarrow> RoutingRule \<Rightarrow> RoutingRule list \<times> bool" where
  "putRoutingRule [] x = ([], False)"
| "putRoutingRule (r # rs) x =
     (if rr_ID r = rr_ID x then (x\<lparr>rr_LastError := rr_LastError r\<rparr> # rs, True)
      else (case putRoutingRule rs x of (rs', b) \<Rightarrow> (r # rs', b)))"

fun resourceReferencedByRule :: "RoutingRule list \<Rightarrow> string \<Rightarrow> bool \<Rightarrow> bool" where
  "resourceReferencedByRule [] ident listener = False"
| "resourceReferencedByRule (rule # rules) ident listener =
     (if (listener \<and> rr_ListenerID rule = ident) \<or> (\<not> listener \<and> rr_BackendPoolID rule = ident) then True
      else resourceReferencedByRule rules ident listener)"

text \<open>\<open>validateRoutingRuleLocked\<close>, over the three resource lists of the store.\<close>

definition validateRoutingRuleLocked ::
    "Listener list \<Rightarrow> BackendPool list \<Rightarrow> RoutingRule list \<Rightarrow> RoutingRule \<Rightarrow> string \<Rightarrow> store_error + unit" where
  "validateRoutingRuleLocked ls ps rs rule replacingID =
     (if rr_Name rule = [] then Inl ''routing rule name is required''
      else if rr_ListenerID rule = [] \<or> findListener ls (rr_ListenerID rule) = None
      then Inl (''listener id '' @ Quote (rr_ListenerID rule) @ '' not found'')
      else if rr_BackendPoolID rule = [] \<or> findBackendPool ps (rr_BackendPoolID rule) = None
      then Inl (''backend pool id '' @ Quote (rr_BackendPoolID rule) @ '' not found'')
      else if rr_BackendPort rule < 1 \<or> rr_BackendPort rule > 65535
      then Inl ''backendPort must be between 1 and 65535''
      else if rr_BackendProtocol rule \<noteq> ''http'' \<and> rr_BackendProtocol rule \<noteq> ''https''
      then Inl ''backendProtocol must be http or https''
      else if rr_PathPrefix rule \<noteq> [] \<and> (\<not> HasPrefix (rr_PathPrefix rule) ''/'' \<or> Contains (rr_PathPrefix rule) ''*'')
      then Inl ''pathPrefix must start with / and must not contain wildcards''
      else bind_res (validateRouteSecurity (rr_Security rule)) (\<lambda>_.
        each_ok (\<lambda>existing.
          guard_err (rr_ID existing \<noteq> replacingID \<and> rr_ListenerID existing = rr_ListenerID rule \<and>
              rr_PathPrefix existing = rr_PathPrefix rule)
            (''routing rule for listener '' @ Quote (rr_ListenerID rule) @ '' and path '' @
              Quote (rr_PathPrefix rule) @ '' already exists'')) rs))"


section \<open>The interface of a slice of identified resources\<close>

text \<open>
  What the store relies on: looking up, removing and overwriting the first element with a key. \<open>carry\<close>
  is what an overwritten element leaves in its successor.
\<close>

locale keyed =
  fixes key :: "'a \<Rightarrow> 'k"
    and carry :: "'a \<Rightarrow> 'a \<Rightarrow> 'a"
    and lookup :: "'a list \<Rightarrow> 'k \<Rightarrow> 'a option"
    and delete :: "'a list \<Rightarrow> 'k \<Rightarrow> 'a list \<times> bool"
    and put :: "'a list \<Rightarrow> 'a \<Rightarrow> 'a list \<times> bool"
  assumes key_carry: "key (carry y x) = key x"
    and lookup_Nil: "lookup [] k = None"
    and lookup_Cons: "lookup (y # ys) k = (if key y = k then Some y else lookup ys k)"
    and delete_Nil: "delete [] k = ([], False)"
    and delete_Cons: "delete (y # ys) k =
      (if key y = k then (ys, True) else (y # fst (delete ys k), snd (delete ys k)))"
    and put_Nil: "put [] x = ([], False)"
    and put_Cons: "put (y # ys) x =
      (if key y = key x then (carry y x # ys, True) else (y # fst (put ys x), snd (put ys x)))"
begin

lemma lookup_Some: "lookup xs k = Some x \<Longrightarrow> x \<in> set xs \<and> key x = k"
  by (induction xs) (auto simp: lookup_Nil lookup_Cons split: if_splits)

lemma lookup_None_iff: "lookup xs k = None \<longleftrightarrow> k \<notin> key ` set xs"
  by (induction xs) (auto simp: lookup_Nil lookup_Cons)

lemma lookup_distinct: "distinct (map key xs) \<Longrightarrow> x \<in> set xs \<Longrightarrow> lookup xs (key x) = Some x"
  by (induction xs) (auto simp: lookup_Cons rev_image_eqI)

lemma lookup_append: "lookup (xs @ ys) k = (case lookup xs k of Some x \<Rightarrow> Some x | None \<Rightarrow> lookup ys k)"
  by (induction xs) (auto simp: lookup_Nil lookup_Cons)

lemma delete_flag: "snd (delete xs k) \<longleftrightarrow> k \<in> key ` set xs"
  by (induction xs) (auto simp: delete_Nil delete_Cons)

lemma delete_absent: "k \<notin> key ` set xs \<Longrightarrow> delete xs k = (xs, False)"
  by (induction xs) (auto simp: delete_Nil delete_Cons)

lemma delete_filter: "distinct (map key xs) \<Longrightarrow> fst (delete xs k) = filter (\<lambda>x. key x \<noteq> k) xs"
proof (induction xs)
  case (Cons y ys)
  note ne = distinct_map_head [OF Cons.prems]
  then have "filter (\<lambda>x. key x \<noteq> key y) ys = ys" by (simp add: filter_id_conv)
  with Cons show ?case by (auto simp: delete_Cons)
qed (simp add: delete_Nil)

lemma put_flag: "snd (put xs x) \<longleftrightarrow> key x \<in> key ` set xs"
  by (induction xs) (auto simp: put_Nil put_Cons)

lemma put_absent: "key x \<notin> key ` set xs \<Longrightarrow> put xs x = (xs, False)"
  by (induction xs) (auto simp: put_Nil put_Cons)

lemma put_keys: "map key (fst (put xs x)) = map key xs"
  by (induction xs) (auto simp: put_Nil put_Cons key_carry)

lemma put_set: "distinct (map key xs) \<Longrightarrow>
  y \<in> set (fst (put xs x)) \<longleftrightarrow>
    (y \<in> set xs \<and> key y \<noteq> key x) \<or> (\<exists>z. lookup xs (key x) = Some z \<and> y = carry z x)"
  by (induction xs) (auto simp: put_Nil put_Cons lookup_Nil lookup_Cons image_iff)

lemma put_map: "distinct (map key xs) \<Longrightarrow>
  fst (put xs x) = map (\<lambda>y. if key y = key x then carry y x else y) xs"
proof (induction xs)
  case (Cons y ys)
  note ne = distinct_map_head [OF Cons.prems]
  have "map (\<lambda>z. if key z = key y then carry z x else z) ys = ys"
    using ne by (intro map_idI) simp
  with Cons show ?case by (auto simp: put_Cons)
qed (simp add: put_Nil)

end

interpretation lk: keyed ln_ID "\<lambda>y x. x" findListener deleteListenerByID putListener
  by unfold_locales (auto split: prod.splits)

interpretation pk: keyed bp_ID "\<lambda>y x. x" findBackendPool deleteBackendPoolByID putBackendPool
  by unfold_locales (auto split: prod.splits)

interpretation rk: keyed rr_ID "\<lambda>y x. x\<lparr>rr_LastError := rr_LastError y\<rparr>"
    findRoutingRule deleteRoutingRuleByID putRoutingRule
  by unfold_locales (auto split: prod.splits)

lemma resourceReferencedByRule_iff:
  "resourceReferencedByRule rules k b \<longleftrightarrow>
     k \<in> (if b then rr_ListenerID else rr_BackendPoolID) ` set rules"
  by (induction rules) auto

section \<open>Canonical resources\<close>

lemma TrimSpace_canon_name: "TrimSpace (canon_name s) = canon_name s \<or> HasSuffix (ToLower (TrimSpace s)) ''.''"
  by (auto simp: canon_name_def TrimSuffix_id TrimSpace_ToLower)

lemma validateListener_iff:
  "validateListener l = Inr () \<longleftrightarrow>
     ln_Name l \<noteq> [] \<and> route_host (ln_Hostname l) \<and> (ln_Protocol l = ''http'' \<or> ln_Protocol l = ''https'') \<and>
     1 \<le> ln_Port l \<and> ln_Port l \<le> 65535"
  by (auto simp: validateListener_def res_simps validateRouteHost_iff)

lemma normalizeListener_frame [simp]:
  "ln_ID (normalizeListener l) = ln_ID l" "ln_Name (normalizeListener l) = TrimSpace (ln_Name l)"
  "ln_Hostname (normalizeListener l) = canon_name (ln_Hostname l)"
  "ln_Source (normalizeListener l) = ToLower (TrimSpace (ln_Source l))"
  "ln_LastUpdated (normalizeListener l) = ln_LastUpdated l"
  "ln_Protocol (normalizeListener l) =
     (if ToLower (TrimSpace (ln_Protocol l)) = [] then ''https'' else ToLower (TrimSpace (ln_Protocol l)))"
  by (simp_all add: normalizeListener_def Let_def)

lemma protocol_lower: "ToLower (TrimSpace ''https'') = ''https''" "ToLower (TrimSpace ''http'') = ''http''"
  by (simp_all add: TrimSpace_def lower_byte_def byte_defs)

text \<open>A validated listener whose name and source are trimmed is a fixed point.\<close>

definition canon_listener :: "Listener \<Rightarrow> bool" where
  "canon_listener l \<longleftrightarrow> ln_ID l \<noteq> [] \<and> TrimSpace (ln_Name l) = ln_Name l \<and>
     ToLower (TrimSpace (ln_Source l)) = ln_Source l \<and> validateListener l = Inr ()"

lemma normalizeListener_canon: "canon_listener l \<Longrightarrow> normalizeListener l = l"
proof -
  assume c: "canon_listener l"
  then have h: "canon_name (ln_Hostname l) = ln_Hostname l"
    by (auto simp: canon_listener_def validateListener_iff intro: canon_name_route_host)
  have p: "ToLower (TrimSpace (ln_Protocol l)) = ln_Protocol l" "ln_Protocol l \<noteq> []" "ln_Port l \<noteq> 0"
    using c protocol_lower by (auto simp: canon_listener_def validateListener_iff)
  show ?thesis using c h p by (simp add: normalizeListener_def Let_def canon_listener_def)
qed

lemma canon_normalizeListener:
  "ln_ID l \<noteq> [] \<Longrightarrow> validateListener (normalizeListener l) = Inr () \<Longrightarrow> canon_listener (normalizeListener l)"
  by (simp add: canon_listener_def TrimSpace_ToLower)

text \<open>Backend targets.\<close>

lemma validBackendAddress_chars:
  assumes "validBackendAddress a" "c \<in> set a"
  shows "is_hex c \<or> address_byte c \<or> c = CHR '':'' \<or> c = CHR ''.''"
proof (cases "ParseIP a")
  case (Some ip)
  from ParseIP_chars [OF this assms(2)] show ?thesis by blast
next
  case None
  show ?thesis
  proof (cases "c = CHR ''.''")
    case False
    with assms(2) obtain w where "w \<in> set (Split a (CHR ''.''))" "c \<in> set w" using set_Split by blast
    moreover have "list_all (\<lambda>label. label \<noteq> [] \<and> list_all address_byte label) (Split a (CHR ''.''))"
      using assms(1) None by (simp add: validBackendAddress_def split: if_splits)
    ultimately show ?thesis by (auto simp: list_all_iff)
  qed simp
qed

lemma validBackendAddress_bytes:
  assumes "validBackendAddress a" "c \<in> set a"
  shows "\<not> is_space c" "c \<notin> set ''[]''" "host_byte c"
  using validBackendAddress_chars [OF assms]
  by (auto simp: is_hex_def hex_val_def address_byte_def byte_defs host_byte_def is_alpha_def split: if_splits)

lemma validBackendAddress_colon:
  "validBackendAddress a \<Longrightarrow> CHR '':'' \<in> set a \<Longrightarrow> ParseIP a \<noteq> None"
  by (auto simp: validBackendAddress_def split: if_splits)

lemma validBackendAddress_trim: "validBackendAddress a \<Longrightarrow> Trim (TrimSpace a) ''[]'' = a"
  using validBackendAddress_bytes by (simp add: TrimSpace_id Trim_id del: set_simps(2))

lemma validateTargets_iff:
  "validateTargets seen ts = Inr () \<longleftrightarrow>
     (\<forall>t \<in> set ts. validBackendAddress (bt_Address t) \<and> 0 \<le> bt_Port t \<and> bt_Port t \<le> 65535) \<and>
     distinct (map targetKey ts) \<and> targetKey ` set ts \<inter> seen = {}"
  by (induction ts arbitrary: seen) auto

lemma validateBackendPool_iff:
  "validateBackendPool p = Inr () \<longleftrightarrow>
     bp_Name p \<noteq> [] \<and> bp_Targets p \<noteq> [] \<and>
     (\<forall>t \<in> set (bp_Targets p). validBackendAddress (bt_Address t) \<and> 0 \<le> bt_Port t \<and> bt_Port t \<le> 65535) \<and>
     distinct (map targetKey (bp_Targets p))"
  by (simp add: validateBackendPool_def validateTargets_iff)

lemma normalizeBackendPool_frame [simp]:
  "bp_ID (normalizeBackendPool p) = bp_ID p" "bp_Name (normalizeBackendPool p) = TrimSpace (bp_Name p)"
  "bp_Source (normalizeBackendPool p) = ToLower (TrimSpace (bp_Source p))"
  "bp_Targets (normalizeBackendPool p) = map normalizeTarget (bp_Targets p)"
  "bp_LastUpdated (normalizeBackendPool p) = bp_LastUpdated p"
  by (simp_all add: normalizeBackendPool_def)

lemma normalizeTarget_frame [simp]:
  "bt_Name (normalizeTarget t) = TrimSpace (bt_Name t)" "bt_Port (normalizeTarget t) = bt_Port t"
  "bt_HealthPath (normalizeTarget t) = TrimSpace (bt_HealthPath t)"
  "bt_Address (normalizeTarget t) = Trim (TrimSpace (bt_Address t)) ''[]''"
  by (simp_all add: normalizeTarget_def)

definition canon_pool :: "BackendPool \<Rightarrow> bool" where
  "canon_pool p \<longleftrightarrow> bp_ID p \<noteq> [] \<and> TrimSpace (bp_Name p) = bp_Name p \<and>
     ToLower (TrimSpace (bp_Source p)) = bp_Source p \<and>
     (\<forall>t \<in> set (bp_Targets p). TrimSpace (bt_Name t) = bt_Name t \<and> TrimSpace (bt_HealthPath t) = bt_HealthPath t) \<and>
     validateBackendPool p = Inr ()"

lemma normalizeBackendPool_canon: "canon_pool p \<Longrightarrow> normalizeBackendPool p = p"
proof -
  assume c: "canon_pool p"
  have "map normalizeTarget (bp_Targets p) = bp_Targets p"
  proof (rule map_idI)
    fix t assume "t \<in> set (bp_Targets p)"
    with c show "normalizeTarget t = t"
      by (simp add: normalizeTarget_def canon_pool_def validateBackendPool_iff validBackendAddress_trim)
  qed
  with c show ?thesis by (simp add: normalizeBackendPool_def canon_pool_def)
qed

lemma canon_normalizeBackendPool:
  "bp_ID p \<noteq> [] \<Longrightarrow> validateBackendPool (normalizeBackendPool p) = Inr () \<Longrightarrow> canon_pool (normalizeBackendPool p)"
  by (auto simp: canon_pool_def TrimSpace_ToLower)

text \<open>Routing rules: what a validated rule satisfies on its own, and beside the other rules.\<close>

definition rule_ok :: "Listener list \<Rightarrow> BackendPool list \<Rightarrow> RoutingRule \<Rightarrow> bool" where
  "rule_ok ls ps r \<longleftrightarrow> rr_Name r \<noteq> [] \<and> rr_ListenerID r \<in> ln_ID ` set ls \<and> rr_ListenerID r \<noteq> [] \<and>
     rr_BackendPoolID r \<in> bp_ID ` set ps \<and> rr_BackendPoolID r \<noteq> [] \<and>
     1 \<le> rr_BackendPort r \<and> rr_BackendPort r \<le> 65535 \<and>
     (rr_BackendProtocol r = ''http'' \<or> rr_BackendProtocol r = ''https'') \<and>
     (rr_PathPrefix r = [] \<or> HasPrefix (rr_PathPrefix r) ''/'' \<and> CHR ''*'' \<notin> set (rr_PathPrefix r)) \<and>
     validateRouteSecurity (rr_Security r) = Inr ()"

definition same_place :: "RoutingRule \<Rightarrow> RoutingRule \<Rightarrow> bool" where
  "same_place a b \<longleftrightarrow> rr_ListenerID a = rr_ListenerID b \<and> rr_PathPrefix a = rr_PathPrefix b"

lemma validateRoutingRuleLocked_iff:
  "validateRoutingRuleLocked ls ps rs r k = Inr () \<longleftrightarrow>
     rule_ok ls ps r \<and> (\<forall>e \<in> set rs. rr_ID e = k \<or> \<not> same_place e r)"
  by (auto simp: validateRoutingRuleLocked_def rule_ok_def same_place_def res_simps
      lk.lookup_None_iff pk.lookup_None_iff)

lemma normalizeRoutingRule_frame [simp]:
  "rr_ID (normalizeRoutingRule r) = rr_ID r" "rr_Name (normalizeRoutingRule r) = TrimSpace (rr_Name r)"
  "rr_ListenerID (normalizeRoutingRule r) = TrimSpace (rr_ListenerID r)"
  "rr_BackendPoolID (normalizeRoutingRule r) = TrimSpace (rr_BackendPoolID r)"
  "rr_BackendPort (normalizeRoutingRule r) = rr_BackendPort r"
  "rr_PathPrefix (normalizeRoutingRule r) = normalizePathPrefix (rr_PathPrefix r)"
  "rr_Security (normalizeRoutingRule r) = normalizeSecurity (rr_Security r)"
  "rr_Headers (normalizeRoutingRule r) = rr_Headers r" "rr_Enabled (normalizeRoutingRule r) = rr_Enabled r"
  "rr_Source (normalizeRoutingRule r) = ToLower (TrimSpace (rr_Source r))"
  "rr_HealthPath (normalizeRoutingRule r) = TrimSpace (rr_HealthPath r)"
  "rr_LastError (normalizeRoutingRule r) = rr_LastError r"
  by (simp_all add: normalizeRoutingRule_def Let_def)

lemma normalizeRoutingRule_last_error:
  "normalizeRoutingRule (r\<lparr>rr_LastError := e\<rparr>) = (normalizeRoutingRule r)\<lparr>rr_LastError := e\<rparr>"
  by (simp add: normalizeRoutingRule_def Let_def)

lemma rule_ok_last_error [simp]: "rule_ok ls ps (r\<lparr>rr_LastError := e\<rparr>) = rule_ok ls ps r"
  by (simp add: rule_ok_def)

lemma same_place_last_error [simp]:
  "same_place (a\<lparr>rr_LastError := e\<rparr>) b = same_place a b" "same_place a (b\<lparr>rr_LastError := e\<rparr>) = same_place a b"
  by (simp_all add: same_place_def)

lemma normalizePathPrefix_slash:
  "HasPrefix p ''/'' \<Longrightarrow> normalizePathPrefix p = [] \<or> HasPrefix (normalizePathPrefix p) ''/''"
proof -
  assume "HasPrefix p ''/''"
  then obtain t where t: "p = CHR ''/'' # t" by (auto simp: HasPrefix_iff)
  have sp: "\<not> is_space (CHR ''/'')" by (simp add: is_space_def)
  have "dropWhile is_space p = p" using t sp by simp
  moreover have "rev (dropWhile is_space (rev p)) \<noteq> [] \<and> hd (rev (dropWhile is_space (rev p))) = CHR ''/''"
    using trim_ends_hd [of is_space p] t sp by simp
  ultimately obtain u where u: "TrimSpace p = CHR ''/'' # u"
    by (metis TrimSpace_def list.collapse)
  obtain zs where zs: "TrimSpace p = TrimRight (TrimSpace p) ''/'' @ zs"
    using dropWhile_rev_dropWhile_prefix [of "TrimSpace p"] unfolding TrimRight_def by blast
  then show ?thesis using u
    by (cases "TrimRight (TrimSpace p) ''/''") (auto simp: normalizePathPrefix_def)
qed

lemma set_normalizePathPrefix: "set (normalizePathPrefix p) \<subseteq> set p"
  using set_TrimRight [of "TrimSpace p" "''/''"] set_TrimSpace [of p] by (auto simp: normalizePathPrefix_def)

section \<open>Endpoints\<close>

text \<open>The URL of a validated listener determines its protocol, host and port.\<close>

lemma listenerURL_validated:
  "validateListener l = Inr () \<Longrightarrow>
     listenerURL l = ln_Protocol l @ ''://'' @ ln_Hostname l @ '':'' @ Itoa (ln_Port l) \<and>
     CHR '':'' \<notin> set (ln_Hostname l)"
proof -
  assume "validateListener l = Inr ()"
  then have "route_host (ln_Hostname l)" by (simp add: validateListener_iff)
  then have "CHR '':'' \<notin> set (ln_Hostname l)" using route_host_chars host_char_simps(4) by fastforce
  then show ?thesis by (simp add: listenerURL_def hostPort_def)
qed

lemma split_at_colon:
  "CHR '':'' \<notin> set a \<Longrightarrow> CHR '':'' \<notin> set b \<Longrightarrow> a @ CHR '':'' # s = b @ CHR '':'' # t \<longleftrightarrow> a = b \<and> s = t"
proof (induction a arbitrary: b)
  case Nil
  then show ?case by (cases b) auto
next
  case (Cons c a)
  then show ?case by (cases b) auto
qed

lemma listenerURL_inj:
  assumes "validateListener l = Inr ()" "validateListener r = Inr ()"
  shows "listenerURL l = listenerURL r \<longleftrightarrow> sameListener l r"
proof
  assume "listenerURL l = listenerURL r"
  then have e: "ln_Protocol l @ CHR '':'' # ''//'' @ ln_Hostname l @ '':'' @ Itoa (ln_Port l) =
      ln_Protocol r @ CHR '':'' # ''//'' @ ln_Hostname r @ '':'' @ Itoa (ln_Port r)"
    using listenerURL_validated assms by simp
  have "CHR '':'' \<notin> set (ln_Protocol l)" "CHR '':'' \<notin> set (ln_Protocol r)"
    using assms by (auto simp: validateListener_iff)
  from split_at_colon [OF this] e have p: "ln_Protocol l = ln_Protocol r"
    and "ln_Hostname l @ CHR '':'' # Itoa (ln_Port l) = ln_Hostname r @ CHR '':'' # Itoa (ln_Port r)" by auto
  then have "ln_Hostname l = ln_Hostname r" "Itoa (ln_Port l) = Itoa (ln_Port r)"
    using split_at_colon [of "ln_Hostname l" "ln_Hostname r"] listenerURL_validated assms by blast+
  moreover have "0 \<le> ln_Port l" "0 \<le> ln_Port r" using assms by (simp_all add: validateListener_iff)
  ultimately show "sameListener l r" using p Itoa_inj by (simp add: sameListener_def)
qed (simp add: sameListener_def listenerURL_def)

lemma sameListener_URL: "sameListener l r \<Longrightarrow> listenerURL l = listenerURL r"
  by (simp add: sameListener_def listenerURL_def)

end
