(* ===== verification/RouteCompile.thy ===== *)
theory RouteCompile
  imports RouteResources
begin

text \<open>
  Compiling routing rules into routes, \<open>rebuildRoutesLocked\<close> of \<open>backend/internal/routes/resources.go\<close>:
  the definitions, the URL of a compiled upstream, totality on canonical resources, and the
  separation of the compiled routes.
\<close>

section \<open>Definitions\<close>

definition compileUpstream :: "RoutingRule \<Rightarrow> BackendPool \<Rightarrow> BackendTarget \<Rightarrow> UpstreamTarget" where
  "compileUpstream rule pool target =
     (let port = (if bt_Port target \<noteq> 0 then bt_Port target else rr_BackendPort rule);
          healthPath = (if bt_HealthPath target \<noteq> [] then bt_HealthPath target else rr_HealthPath rule)
      in \<lparr>up_Name = sourceOr (bt_Name target) (bp_Name pool),
          up_URL = rr_BackendProtocol rule @ ''://'' @ hostPort (bt_Address target) port,
          up_HealthPath = healthPath\<rparr>)"

definition routeOf :: "RoutingRule \<Rightarrow> Listener \<Rightarrow> BackendPool \<Rightarrow> RouteConfig" where
  "routeOf rule listener pool =
     \<lparr>rc_ID = rr_ID rule, rc_Name = rr_Name rule, rc_Host = ln_Hostname listener,
      rc_ListenerID = ln_ID listener, rc_ListenerName = ln_Name listener,
      rc_ListenerPort = ln_Port listener, rc_ListenerProtocol = ln_Protocol listener,
      rc_BackendPoolID = bp_ID pool, rc_BackendPoolName = bp_Name pool,
      rc_PathPrefix = rr_PathPrefix rule, rc_Exposure = rr_Exposure rule, rc_Enabled = rr_Enabled rule,
      rc_Public = False, rc_HTTPS = (ln_Protocol listener = ''https''), rc_WebSocket = rr_WebSocket rule,
      rc_Protected = False, rc_Source = sourceOr (rr_Source rule) ''explicit'',
      rc_Headers = rr_Headers rule, rc_Security = rr_Security rule,
      rc_Upstreams = map (compileUpstream rule pool) (bp_Targets pool),
      rc_Discovered = False, rc_LastError = rr_LastError rule, rc_LastUpdated = rr_LastUpdated rule\<rparr>"

definition compileRule :: "Listener list \<Rightarrow> BackendPool list \<Rightarrow> RoutingRule \<Rightarrow> store_error + RouteConfig" where
  "compileRule ls ps rule =
     (case (findListener ls (rr_ListenerID rule), findBackendPool ps (rr_BackendPoolID rule)) of
        (Some listener, Some pool) \<Rightarrow>
          (let route = normalize (routeOf rule listener pool) in
           case validate route of
             Inl e \<Rightarrow> Inl (''compile routing rule '' @ Quote (rr_ID rule) @ '': '' @ e)
           | Inr _ \<Rightarrow> Inr route)
      | _ \<Rightarrow> Inl (''routing rule '' @ Quote (rr_ID rule) @ '' references missing resources''))"

text \<open>The loop of \<open>rebuildRoutesLocked\<close>, stopping at the first rule that does not compile.\<close>

fun compileRoutes :: "Listener list \<Rightarrow> BackendPool list \<Rightarrow> RoutingRule list \<Rightarrow> store_error + RouteConfig list" where
  "compileRoutes ls ps [] = Inr []"
| "compileRoutes ls ps (rule # rules) =
     bind_res (compileRule ls ps rule) (\<lambda>route.
     bind_res (compileRoutes ls ps rules) (\<lambda>routes. Inr (route # routes)))"

section \<open>The URL of an upstream\<close>

lemma hostPort_simps:
  "CHR '':'' \<notin> set a \<Longrightarrow> hostPort a p = a @ CHR '':'' # Itoa p"
  "CHR '':'' \<in> set a \<Longrightarrow> hostPort a p = ''['' @ a @ '']:'' @ Itoa p"
  by (simp_all add: hostPort_def JoinHostPort_def)

lemma host_byte_brackets: "host_byte (CHR ''['')" "host_byte (CHR '']'')"
  by (simp_all add: host_byte_def)

lemma hostPort_bytes:
  assumes "validBackendAddress a" "0 \<le> p"
  shows "\<forall>c \<in> set (hostPort a p). host_byte c"
proof -
  have a: "\<forall>c \<in> set a. host_byte c" using validBackendAddress_bytes(3) [OF assms(1)] by blast
  have d: "\<forall>c \<in> set (Itoa p). host_byte c" using Itoa_digits [OF assms(2)] digit_host_byte by blast
  show ?thesis
    using a d colon_host_byte host_byte_brackets by (cases "CHR '':'' \<in> set a") (auto simp: hostPort_simps)
qed

lemma parse_url_host_hostPort:
  assumes "validBackendAddress a" "0 \<le> p"
  shows "parse_url_host (hostPort a p) = Some (hostPort a p)"
proof (cases "CHR '':'' \<in> set a")
  case True
  with assms(1) have "ParseIP a \<noteq> None" by (rule validBackendAddress_colon)
  with True obtain gs where "ParseAddr a = Some (IPv6 gs [])" using ParseIP_v6 by blast
  moreover have "\<forall>c \<in> set a. host_byte c \<and> c \<notin> set ''[]''"
    using validBackendAddress_bytes [OF assms(1)] by blast
  ultimately show ?thesis
    using parse_url_host_literal assms(2) by (simp only: hostPort_simps(2) [OF True])
next
  case False
  have "\<forall>c \<in> set a. host_byte c \<and> c \<notin> set '':[]''"
  proof
    fix c assume c: "c \<in> set a"
    with False have "c \<noteq> CHR '':''" by auto
    with c show "host_byte c \<and> c \<notin> set '':[]''"
      using validBackendAddress_bytes [OF assms(1) c] by simp
  qed
  then show ?thesis using parse_url_host_name assms(2) by (simp only: hostPort_simps(1) [OF False])
qed

lemma split_hostPort:
  assumes "validBackendAddress a" "0 \<le> p"
  shows "split_url_host (hostPort a p) = (a, Itoa p)"
proof -
  have dig: "CHR '':'' \<notin> set (Itoa p)" using Itoa_digits [OF assms(2)] digit_not_special by fastforce
  have port: "valid_optional_port (CHR '':'' # Itoa p)" using assms(2) by (rule valid_optional_port_Itoa)
  show ?thesis
  proof (cases "CHR '':'' \<in> set a")
    case True
    have "LastIndexByte ((''['' @ a @ '']'') @ CHR '':'' # Itoa p) (CHR '':'') = Some (length (''['' @ a @ '']''))"
      using dig by (rule LastIndexByte_append)
    then show ?thesis using True port
      by (simp add: hostPort_simps(2) split_url_host_def Let_def HasSuffix_def)
  next
    case False
    have "a \<noteq> []" using assms(1) by (auto simp: validBackendAddress_def)
    moreover have "CHR ''['' \<notin> set a" using validBackendAddress_bytes(2) [OF assms(1)] by fastforce
    ultimately have "\<not> HasPrefix a ''[''" by (auto simp: HasPrefix_iff)
    with LastIndexByte_append [OF dig, of a] False port show ?thesis
      by (simp add: hostPort_simps(1) split_url_host_def Let_def)
  qed
qed

lemma url_Parse_hostPort:
  assumes "proto = ''http'' \<or> proto = ''https''" "validBackendAddress a" "0 \<le> p"
  shows "url_Parse (proto @ ''://'' @ hostPort a p) =
    Some \<lparr>u_Scheme = proto, u_Host = hostPort a p, u_Path = [], u_Opaque = []\<rparr>"
  using assms by (intro url_Parse_authority hostPort_bytes parse_url_host_hostPort)

lemma hostPort_not_Nil: "hostPort a p \<noteq> []"
  by (cases "CHR '':'' \<in> set a") (simp_all add: hostPort_simps)

lemma proto_lower: "proto = ''http'' \<or> proto = ''https'' \<Longrightarrow> ToLower proto = proto"
  by (elim disjE) (simp_all add: lower_byte_def is_upper_def)

lemma upstream_url_trim:
  assumes "proto = ''http'' \<or> proto = ''https''" "validBackendAddress a" "0 \<le> p"
  shows "TrimSpace (proto @ ''://'' @ hostPort a p) = proto @ ''://'' @ hostPort a p"
proof -
  have h: "\<forall>c \<in> set (hostPort a p). \<not> is_space c"
    using hostPort_bytes [OF assms(2,3)] by (auto simp: host_byte_def byte_defs is_alpha_def)
  show ?thesis
    using assms(1) h by (intro TrimSpace_id) (auto simp: is_space_def)
qed

section \<open>What the compiler produces\<close>

definition rule_port :: "RoutingRule \<Rightarrow> BackendTarget \<Rightarrow> int" where
  "rule_port rule target = (if bt_Port target \<noteq> 0 then bt_Port target else rr_BackendPort rule)"

lemma compileUpstream_URL [simp]:
  "up_URL (compileUpstream rule pool t) = rr_BackendProtocol rule @ ''://'' @ hostPort (bt_Address t) (rule_port rule t)"
  by (simp add: compileUpstream_def rule_port_def Let_def)

lemma rule_target_facts:
  assumes "rule_ok ls ps r" "canon_pool p" "t \<in> set (bp_Targets p)"
  shows "rr_BackendProtocol r = ''http'' \<or> rr_BackendProtocol r = ''https''" "validBackendAddress (bt_Address t)"
    "0 \<le> rule_port r t"
  using assms by (auto simp: rule_ok_def canon_pool_def validateBackendPool_iff rule_port_def)

lemma compiled_upstream_valid:
  assumes "rule_ok ls ps r" "canon_pool p" "t \<in> set (bp_Targets p)"
  shows "validateUpstream (compileUpstream r p t) = Inr ()"
    and "TrimSpace (up_URL (compileUpstream r p t)) = up_URL (compileUpstream r p t)"
  using url_Parse_hostPort [OF rule_target_facts [OF assms]] upstream_url_trim [OF rule_target_facts [OF assms]]
    proto_lower [OF rule_target_facts(1) [OF assms]] rule_target_facts(1) [OF assms]
  by (auto simp: validateUpstream_def hostPort_not_Nil)

lemma routeOf_simps [simp]:
  "rc_ID (routeOf r l p) = rr_ID r" "rc_Name (routeOf r l p) = rr_Name r" "rc_Host (routeOf r l p) = ln_Hostname l"
  "rc_ListenerID (routeOf r l p) = ln_ID l" "rc_ListenerPort (routeOf r l p) = ln_Port l"
  "rc_ListenerProtocol (routeOf r l p) = ln_Protocol l" "rc_BackendPoolID (routeOf r l p) = bp_ID p"
  "rc_PathPrefix (routeOf r l p) = rr_PathPrefix r" "rc_Exposure (routeOf r l p) = rr_Exposure r"
  "rc_Enabled (routeOf r l p) = rr_Enabled r" "rc_Security (routeOf r l p) = rr_Security r"
  "rc_Upstreams (routeOf r l p) = map (compileUpstream r p) (bp_Targets p)"
  "rc_HTTPS (routeOf r l p) \<longleftrightarrow> ln_Protocol l = ''https''" "rc_LastError (routeOf r l p) = rr_LastError r"
  "rc_WebSocket (routeOf r l p) = rr_WebSocket r" "rc_Headers (routeOf r l p) = rr_Headers r"
  by (simp_all add: routeOf_def)

lemma TrimSpace_slash: "HasPrefix p ''/'' \<Longrightarrow> HasPrefix (TrimSpace p) ''/''"
proof -
  assume "HasPrefix p ''/''"
  then obtain t where t: "p = CHR ''/'' # t" by (auto simp: HasPrefix_iff)
  have sp: "\<not> is_space (CHR ''/'')" by (simp add: is_space_def)
  then have "rev (dropWhile is_space (rev p)) \<noteq> [] \<and> hd (rev (dropWhile is_space (rev p))) = CHR ''/''"
    using trim_ends_hd [of is_space p] t by simp
  then show ?thesis using t sp
    by (cases "rev (dropWhile is_space (rev p))") (auto simp: TrimSpace_def)
qed

lemma routeOf_valid:
  assumes "canon_listener l" "canon_pool p" "rule_ok ls ps r"
    and "normalizeSecurity (rr_Security r) = rr_Security r"
  shows "validate (normalize (routeOf r l p)) = Inr ()"
proof -
  let ?n = "normalize (routeOf r l p)"
  have host: "route_host (ln_Hostname l)" using assms(1) by (simp add: canon_listener_def validateListener_iff)
  have ups: "rc_Upstreams ?n = map (compileUpstream r p) (bp_Targets p)"
  proof -
    have "map (\<lambda>u. u\<lparr>up_URL := TrimSpace (up_URL u)\<rparr>) (map (compileUpstream r p) (bp_Targets p)) =
      map (compileUpstream r p) (bp_Targets p)"
      using compiled_upstream_valid(2) [OF assms(3,2)] by (intro map_idI) (auto simp del: compileUpstream_URL)
    then show ?thesis by simp
  qed
  have ne: "bp_Targets p \<noteq> []" using assms(2) by (simp add: canon_pool_def validateBackendPool_iff)
  let ?q = "normalizePathPrefix (rr_PathPrefix r)"
  have path: "TrimSpace ?q = [] \<or> HasPrefix (TrimSpace ?q) ''/'' \<and> CHR ''*'' \<notin> set (TrimSpace ?q)"
  proof -
    have ok: "rr_PathPrefix r = [] \<or> HasPrefix (rr_PathPrefix r) ''/'' \<and> CHR ''*'' \<notin> set (rr_PathPrefix r)"
      using assms(3) by (simp add: rule_ok_def)
    then have "CHR ''*'' \<notin> set (TrimSpace ?q)"
      using set_normalizePathPrefix [of "rr_PathPrefix r"] set_TrimSpace [of ?q] by auto
    moreover from ok have "?q = [] \<or> HasPrefix ?q ''/''"
      using normalizePathPrefix_slash by (auto simp: normalizePathPrefix_def TrimRight_def)
    ultimately show ?thesis using TrimSpace_slash [of ?q] by auto
  qed
  have sec: "validateRouteSecurity (rr_Security r) = Inr ()" using assms(3) by (simp add: rule_ok_def)
  have each: "each_ok validateUpstream (rc_Upstreams ?n) = Inr ()"
    using compiled_upstream_valid(1) [OF assms(3,2)] by (auto simp: ups simp del: normalize_frame)
  have c: "canon_name (ln_Hostname l) = ln_Hostname l" "ln_Hostname l \<noteq> []"
    "validateRouteHost (ln_Hostname l) = Inr ()"
    using host by (simp_all add: canon_name_route_host route_host_not_Nil validateRouteHost_iff)
  have une: "rc_Upstreams ?n \<noteq> []" using ne by (simp add: ups del: normalize_frame)
  have s: "rc_Host ?n = ln_Hostname l" "rc_PathPrefix ?n = ?q" "rc_Security ?n = rr_Security r"
    using c assms(4) by simp_all
  show ?thesis
    unfolding validate_def Let_def s c using une each sec path c(2)
    by (auto simp: res_simps simp del: normalize_frame)
qed

lemma compileRule_Inr:
  "compileRule ls ps r = Inr route \<longleftrightarrow>
     (\<exists>l p. findListener ls (rr_ListenerID r) = Some l \<and> findBackendPool ps (rr_BackendPoolID r) = Some p \<and>
        route = normalize (routeOf r l p) \<and> validate route = Inr ())"
  by (auto simp: compileRule_def Let_def split: option.splits sum.splits)

lemma compileRule_total:
  assumes "\<forall>l \<in> set ls. canon_listener l" "\<forall>p \<in> set ps. canon_pool p" "rule_ok ls ps r"
    and "normalizeSecurity (rr_Security r) = rr_Security r"
  shows "\<exists>route. compileRule ls ps r = Inr route"
proof -
  obtain l where l: "findListener ls (rr_ListenerID r) = Some l"
    using assms(3) lk.lookup_None_iff by (cases "findListener ls (rr_ListenerID r)") (auto simp: rule_ok_def)
  obtain p where p: "findBackendPool ps (rr_BackendPoolID r) = Some p"
    using assms(3) pk.lookup_None_iff by (cases "findBackendPool ps (rr_BackendPoolID r)") (auto simp: rule_ok_def)
  have "canon_listener l" "canon_pool p" using lk.lookup_Some [OF l] pk.lookup_Some [OF p] assms by auto
  then show ?thesis using l p routeOf_valid assms(3,4) compileRule_Inr by blast
qed

lemma compileRoutes_Inr:
  "compileRoutes ls ps rs = Inr routes \<longleftrightarrow> list_all2 (\<lambda>r route. compileRule ls ps r = Inr route) rs routes"
  by (induction rs arbitrary: routes) (auto simp: res_simps list_all2_Cons1)

lemma compileRoutes_total:
  "\<forall>r \<in> set rs. \<exists>route. compileRule ls ps r = Inr route \<Longrightarrow> \<exists>routes. compileRoutes ls ps rs = Inr routes"
  by (induction rs) auto

lemma compileRule_frame:
  assumes "compileRule ls ps r = Inr route"
  shows "rc_ID route = rr_ID r" "rc_ListenerID route = rr_ListenerID r"
    "rc_PathPrefix route = normalizePathPrefix (rr_PathPrefix r)" "rc_LastError route = rr_LastError r"
    "rc_Enabled route = rr_Enabled r" "rc_BackendPoolID route = rr_BackendPoolID r"
  using assms lk.lookup_Some pk.lookup_Some by (fastforce simp: compileRule_Inr)+

lemma compileRoutes_ids: "compileRoutes ls ps rs = Inr routes \<Longrightarrow> map rc_ID routes = map rr_ID rs"
  unfolding compileRoutes_Inr by (induction rule: list_all2_induct) (auto dest: compileRule_frame(1))

text \<open>The runtime error of a rule only shows as the runtime error of its route.\<close>

lemma applyExposure_last_error:
  "applyExposure (defaultExposure (r\<lparr>rc_LastError := e\<rparr>)) = (applyExposure (defaultExposure r))\<lparr>rc_LastError := e\<rparr>"
  by (cases r; cases "rc_Exposure r = []"; cases "rc_Public r"; cases "rc_Source r = ''explicit''")
    (simp_all add: applyExposure_def defaultExposure_def)

lemma normalize_last_error: "normalize (r\<lparr>rc_LastError := e\<rparr>) = (normalize r)\<lparr>rc_LastError := e\<rparr>"
proof -
  have "normalizeFields (r\<lparr>rc_LastError := e\<rparr>) = (normalizeFields r)\<lparr>rc_LastError := e\<rparr>"
    by (simp add: normalizeFields_def)
  then show ?thesis by (simp add: normalize_def applyExposure_last_error)
qed

lemma compileRule_last_error:
  "compileRule ls ps (r\<lparr>rr_LastError := e\<rparr>) = map_sum id (\<lambda>route. route\<lparr>rc_LastError := e\<rparr>) (compileRule ls ps r)"
proof -
  have u: "compileUpstream (r\<lparr>rr_LastError := e\<rparr>) p = compileUpstream r p" for p
    by (rule ext) (simp add: compileUpstream_def)
  have "routeOf (r\<lparr>rr_LastError := e\<rparr>) l p = (routeOf r l p)\<lparr>rc_LastError := e\<rparr>" for l p
    by (simp add: routeOf_def u)
  moreover have "validate (route\<lparr>rc_LastError := e\<rparr>) = validate route" for route
    unfolding validate_def by (simp cong: if_cong)
  ultimately show ?thesis
    by (simp add: compileRule_def normalize_last_error Let_def split: option.splits sum.splits)
qed

section \<open>Separation of the compiled routes\<close>

definition endpoint :: "Listener \<Rightarrow> string \<times> int \<times> string" where
  "endpoint l = (ln_Hostname l, ln_Port l, ln_Protocol l)"

definition place :: "RoutingRule \<Rightarrow> string \<times> string" where
  "place r = (rr_ListenerID r, rr_PathPrefix r)"

text \<open>Where a compiled route answers: host, port, protocol and path prefix.\<close>

definition route_place :: "RouteConfig \<Rightarrow> (string \<times> int \<times> string) \<times> string" where
  "route_place route = ((rc_Host route, rc_ListenerPort route, rc_ListenerProtocol route), rc_PathPrefix route)"

lemma sameListener_endpoint: "sameListener l r \<longleftrightarrow> endpoint l = endpoint r"
  by (auto simp: sameListener_def endpoint_def)

lemma same_place_place: "same_place a b \<longleftrightarrow> place a = place b"
  by (auto simp: same_place_def place_def)

lemma place_last_error [simp]: "place (r\<lparr>rr_LastError := e\<rparr>) = place r"
  by (simp add: place_def)

lemma canon_listener_host: "canon_listener l \<Longrightarrow> canon_name (ln_Hostname l) = ln_Hostname l"
  by (auto simp: canon_listener_def validateListener_iff intro: canon_name_route_host)

lemma compiled_route_place:
  assumes "compileRule ls ps r = Inr route" "\<forall>l \<in> set ls. canon_listener l"
    "normalizePathPrefix (rr_PathPrefix r) = rr_PathPrefix r"
  shows "\<exists>l \<in> set ls. ln_ID l = rr_ListenerID r \<and> route_place route = (endpoint l, rr_PathPrefix r)"
proof -
  from assms(1) obtain l p where l: "findListener ls (rr_ListenerID r) = Some l"
    and r: "route = normalize (routeOf r l p)" by (auto simp: compileRule_Inr)
  have "l \<in> set ls" "ln_ID l = rr_ListenerID r" using lk.lookup_Some [OF l] by auto
  with assms r show ?thesis by (auto simp: route_place_def endpoint_def canon_listener_host intro!: bexI [of _ l])
qed

lemma compiled_places_distinct:
  assumes "compileRoutes ls ps rs = Inr routes" "\<forall>l \<in> set ls. canon_listener l"
    "\<forall>r \<in> set rs. normalizePathPrefix (rr_PathPrefix r) = rr_PathPrefix r"
    "distinct (map endpoint ls)" "distinct (map place rs)"
  shows "distinct (map route_place routes)"
  using assms(1)[unfolded compileRoutes_Inr] assms(2-)
proof (induction rule: list_all2_induct)
  case (Cons r rs route routes)
  have inj: "ln_ID l = ln_ID l'" if "l \<in> set ls" "l' \<in> set ls" "endpoint l = endpoint l'" for l l'
    using that assms(4) by (metis distinct_map inj_onD)
  have "route_place route \<notin> route_place ` set routes"
  proof
    assume "route_place route \<in> route_place ` set routes"
    then obtain r' route' where r': "r' \<in> set rs" "compileRule ls ps r' = Inr route'"
      "route_place route = route_place route'"
      using Cons.hyps(2) by (force simp: list_all2_conv_all_nth in_set_conv_nth)
    obtain l where l: "l \<in> set ls" "ln_ID l = rr_ListenerID r" "route_place route = (endpoint l, rr_PathPrefix r)"
      using compiled_route_place Cons.hyps(1) Cons.prems by (metis list.set_intros(1))
    obtain l' where l': "l' \<in> set ls" "ln_ID l' = rr_ListenerID r'" "route_place route' = (endpoint l', rr_PathPrefix r')"
      using compiled_route_place r'(1,2) Cons.prems by (metis list.set_intros(2))
    have "ln_ID l = ln_ID l'" using l(1,3) l'(1,3) r'(3) by (intro inj) auto
    then have "place r = place r'" using l l' r'(3) by (simp add: place_def)
    with r'(1) Cons.prems(4) show False by (metis distinct.simps(2) image_eqI list.simps(9) list.set_map)
  qed
  with Cons show ?case by simp
qed simp

end
