(* ===== verification/RouteStore.thy ===== *)
theory RouteStore
  imports RouteCompile
begin

text \<open>
  The routing store, \<open>Store\<close> of \<open>backend/internal/routes/store.go\<close> and \<open>resources.go\<close>: its state,
  the locked helpers and the exported operations. The mutex makes every exported operation one atomic
  step, so an operation is a function from the world before to the result and the world after. A
  \<open>World\<close> is the store and the file it persists to. The clock readings an operation makes and the
  outcome of writing the file are its environment. Slices that Go copies with \<open>append(nil, xs...)\<close> and
  the \<open>clone\<close> functions are values here, which is what the copies are for.
\<close>

section \<open>State\<close>

definition ResourceSetVersion :: int where
  "ResourceSetVersion = 2"

record ResourceSet =
  set_Version :: int
  set_Listeners :: "Listener list"
  set_BackendPools :: "BackendPool list"
  set_RoutingRules :: "RoutingRule list"

record Snapshot =
  sn_Resources :: ResourceSet
  sn_Routes :: "RouteConfig list"
  sn_Revision :: "64 word"

record fileFormat =
  ff_Version :: int
  ff_Revision :: "64 word"
  ff_AppliedRevision :: "64 word"
  ff_Applied :: "ResourceSet option"
  ff_Listeners :: "Listener list"
  ff_BackendPools :: "BackendPool list"
  ff_RoutingRules :: "RoutingRule list"
  ff_Routes :: "RouteConfig list"

record Store =
  st_path :: string
  st_staged :: bool
  st_revision :: "64 word"
  st_applied :: Snapshot
  st_listeners :: "Listener list"
  st_backendPools :: "BackendPool list"
  st_routingRules :: "RoutingRule list"
  st_routes :: "RouteConfig list"

record storeSnapshot =
  ss_staged :: bool
  ss_revision :: "64 word"
  ss_applied :: Snapshot
  ss_listeners :: "Listener list"
  ss_backendPools :: "BackendPool list"
  ss_routingRules :: "RoutingRule list"
  ss_routes :: "RouteConfig list"

text \<open>
  The file: missing, not readable, not JSON of the format (with the error the read or the decoder
  gives), or holding a value. What it holds is the decoded value.
\<close>

datatype disk = Absent | Unreadable store_error | Malformed store_error | Holds fileFormat

record World =
  w_store :: Store
  w_disk :: disk

text \<open>\<open>e_clock k\<close> is the \<open>k\<close>th reading of the clock in an operation, \<open>e_write\<close> the error of \<open>WriteJSON\<close>.\<close>

record Env =
  e_clock :: "nat \<Rightarrow> time"
  e_write :: "store_error option"

definition zero_time :: time where
  "zero_time = - 62135596800000000000"

definition NewStore :: "string \<Rightarrow> Store" where
  "NewStore path =
     \<lparr>st_path = path, st_staged = False, st_revision = 0,
      st_applied = \<lparr>sn_Resources = \<lparr>set_Version = ResourceSetVersion, set_Listeners = [], set_BackendPools = [],
                                     set_RoutingRules = []\<rparr>,
                    sn_Routes = [], sn_Revision = 0\<rparr>,
      st_listeners = [], st_backendPools = [], st_routingRules = [], st_routes = []\<rparr>"

section \<open>Reading\<close>

definition desiredSnapshotLocked :: "Store \<Rightarrow> Snapshot" where
  "desiredSnapshotLocked s =
     \<lparr>sn_Resources = \<lparr>set_Version = ResourceSetVersion, set_Listeners = st_listeners s,
                      set_BackendPools = st_backendPools s, set_RoutingRules = st_routingRules s\<rparr>,
      sn_Routes = st_routes s, sn_Revision = st_revision s\<rparr>"

definition DesiredSnapshot :: "Store \<Rightarrow> Snapshot" where
  "DesiredSnapshot s = desiredSnapshotLocked s"

definition AppliedSnapshot :: "Store \<Rightarrow> Snapshot" where
  "AppliedSnapshot s = st_applied s"

definition Pending :: "Store \<Rightarrow> bool" where
  "Pending s \<longleftrightarrow> st_revision s \<noteq> sn_Revision (st_applied s)"

definition Staged :: "Store \<Rightarrow> bool" where
  "Staged s \<longleftrightarrow> st_staged s"

definition clear_errors :: "RoutingRule list \<Rightarrow> RoutingRule list" where
  "clear_errors rules = map (\<lambda>r. r\<lparr>rr_LastError := []\<rparr>) rules"

definition Resources :: "Store \<Rightarrow> ResourceSet" where
  "Resources s =
     \<lparr>set_Version = ResourceSetVersion, set_Listeners = st_listeners s, set_BackendPools = st_backendPools s,
      set_RoutingRules = clear_errors (st_routingRules s)\<rparr>"

section \<open>The file\<close>

text \<open>
  \<open>WriteJSON\<close> writes a temporary file and renames it, so a failed write leaves the old file. The JSON of
  a rule has no runtime error (the field is tagged \<open>json:"-"\<close>) and always has \<open>enabled\<close>.
\<close>

definition persisted_rule :: "RoutingRule \<Rightarrow> RoutingRule" where
  "persisted_rule r = unmarshalRoutingRule (r\<lparr>rr_LastError := []\<rparr>) (Some (rr_Enabled r))"

definition persisted_set :: "ResourceSet \<Rightarrow> ResourceSet" where
  "persisted_set rs = rs\<lparr>set_RoutingRules := map persisted_rule (set_RoutingRules rs)\<rparr>"

definition fileOf :: "Store \<Rightarrow> fileFormat" where
  "fileOf s =
     \<lparr>ff_Version = 3, ff_Revision = st_revision s, ff_AppliedRevision = sn_Revision (st_applied s),
      ff_Applied = Some (persisted_set (sn_Resources (st_applied s))), ff_Listeners = st_listeners s,
      ff_BackendPools = st_backendPools s, ff_RoutingRules = map persisted_rule (st_routingRules s),
      ff_Routes = []\<rparr>"

definition saveLocked :: "Env \<Rightarrow> World \<Rightarrow> (store_error + unit) \<times> World" where
  "saveLocked env w =
     (if st_path (w_store w) = [] then (Inr (), w)
      else case e_write env of
        Some e \<Rightarrow> (Inl e, w)
      | None \<Rightarrow> (Inr (), w\<lparr>w_disk := Holds (fileOf (w_store w))\<rparr>))"

section \<open>Snapshots and commits\<close>

definition snapshotLocked :: "Store \<Rightarrow> storeSnapshot" where
  "snapshotLocked s =
     \<lparr>ss_staged = st_staged s, ss_revision = st_revision s, ss_applied = st_applied s,
      ss_listeners = st_listeners s, ss_backendPools = st_backendPools s,
      ss_routingRules = st_routingRules s, ss_routes = st_routes s\<rparr>"

definition restoreLocked :: "storeSnapshot \<Rightarrow> Store \<Rightarrow> Store" where
  "restoreLocked snap s =
     s\<lparr>st_staged := ss_staged snap, st_revision := ss_revision snap, st_applied := ss_applied snap,
       st_listeners := ss_listeners snap, st_backendPools := ss_backendPools snap,
       st_routingRules := ss_routingRules snap, st_routes := ss_routes snap\<rparr>"

definition rebuildRoutesLocked :: "Store \<Rightarrow> (store_error + unit) \<times> Store" where
  "rebuildRoutesLocked s =
     check (compileRoutes (st_listeners s) (st_backendPools s) (st_routingRules s)) s (\<lambda>routes.
       (Inr (), s\<lparr>st_routes := routes\<rparr>))"

text \<open>A locked helper run on the store of the world, and the deferred undo of its callers.\<close>

definition on_store :: "(Store \<Rightarrow> (store_error + 'a) \<times> Store) \<Rightarrow> World \<Rightarrow> (store_error + 'a) \<times> World" where
  "on_store f w = (case f (w_store w) of (r, s) \<Rightarrow> (r, w\<lparr>w_store := s\<rparr>))"

definition or_restore :: "storeSnapshot \<Rightarrow> (store_error + 'a) \<times> World \<Rightarrow> (store_error + 'a) \<times> World" where
  "or_restore snap m =
     (case m of (Inl e, w) \<Rightarrow> (Inl e, w\<lparr>w_store := restoreLocked snap (w_store w)\<rparr>) | (Inr x, w) \<Rightarrow> (Inr x, w))"

definition wrap_error :: "string \<Rightarrow> (store_error + 'a) \<times> 's \<Rightarrow> (store_error + 'a) \<times> 's" where
  "wrap_error prefix m = (case m of (Inl e, s) \<Rightarrow> (Inl (prefix @ e), s) | (Inr x, s) \<Rightarrow> (Inr x, s))"

definition commitLocked :: "Env \<Rightarrow> storeSnapshot \<Rightarrow> World \<Rightarrow> (store_error + unit) \<times> World" where
  "commitLocked env snap w =
     and_then (or_restore snap (on_store rebuildRoutesLocked w)) (\<lambda>_ w1.
       let w2 = w1\<lparr>w_store := (w_store w1)\<lparr>st_revision := st_revision (w_store w1) + 1\<rparr>\<rparr> in
       if st_staged (w_store w2) then (Inr (), w2) else or_restore snap (saveLocked env w2))"

section \<open>Adding resources\<close>

definition addListenerLocked :: "time \<Rightarrow> time \<Rightarrow> Listener \<Rightarrow> Store \<Rightarrow> (store_error + Listener) \<times> Store" where
  "addListenerLocked id_time now listener0 s =
     (let l1 = normalizeListener listener0;
          l2 = (if ln_ID l1 = [] then l1\<lparr>ln_ID := nextID ''listener'' id_time\<rparr> else l1);
          l3 = (if ln_Name l2 = [] then l2\<lparr>ln_Name := ln_Hostname l2\<rparr> else l2);
          listener = (if ln_Source l3 = [] then l3\<lparr>ln_Source := ''explicit''\<rparr> else l3)
      in check (validateListener listener) s (\<lambda>_.
         check (each_ok (\<lambda>existing.
             bind_res (guard_err (ln_ID existing = ln_ID listener)
               (''listener id '' @ Quote (ln_ID listener) @ '' already exists'')) (\<lambda>_.
             guard_err (sameListener existing listener)
               (''listener for '' @ listenerURL listener @ '' already exists''))) (st_listeners s)) s (\<lambda>_.
         let created = listener\<lparr>ln_LastUpdated := now\<rparr> in
         (Inr created, s\<lparr>st_listeners := st_listeners s @ [created]\<rparr>))))"

definition addBackendPoolLocked :: "time \<Rightarrow> time \<Rightarrow> BackendPool \<Rightarrow> Store \<Rightarrow> (store_error + BackendPool) \<times> Store" where
  "addBackendPoolLocked id_time now pool0 s =
     (let p1 = normalizeBackendPool pool0;
          p2 = (if bp_ID p1 = [] then p1\<lparr>bp_ID := nextID ''pool'' id_time\<rparr> else p1);
          pool = (if bp_Source p2 = [] then p2\<lparr>bp_Source := ''explicit''\<rparr> else p2)
      in check (validateBackendPool pool) s (\<lambda>_.
         check (each_ok (\<lambda>existing.
             bind_res (guard_err (bp_ID existing = bp_ID pool)
               (''backend pool id '' @ Quote (bp_ID pool) @ '' already exists'')) (\<lambda>_.
             guard_err (EqualFold (bp_Name existing) (bp_Name pool))
               (''backend pool name '' @ Quote (bp_Name pool) @ '' already exists''))) (st_backendPools s)) s (\<lambda>_.
         let created = pool\<lparr>bp_LastUpdated := now\<rparr> in
         (Inr created, s\<lparr>st_backendPools := st_backendPools s @ [created]\<rparr>))))"

definition addRoutingRuleLocked :: "time \<Rightarrow> time \<Rightarrow> RoutingRule \<Rightarrow> Store \<Rightarrow> (store_error + RoutingRule) \<times> Store" where
  "addRoutingRuleLocked id_time now rule0 s =
     (let r1 = normalizeRoutingRule rule0;
          r2 = (if rr_ID r1 = [] then r1\<lparr>rr_ID := nextID ''rule'' id_time\<rparr> else r1);
          r3 = (if rr_Name r2 = [] then r2\<lparr>rr_Name := rr_ID r2\<rparr> else r2);
          rule = (if rr_Source r3 = [] then r3\<lparr>rr_Source := ''explicit''\<rparr> else r3)
      in check (validateRoutingRuleLocked (st_listeners s) (st_backendPools s) (st_routingRules s) rule []) s (\<lambda>_.
         check (each_ok (\<lambda>existing. guard_err (rr_ID existing = rr_ID rule)
               (''routing rule id '' @ Quote (rr_ID rule) @ '' already exists'')) (st_routingRules s)) s (\<lambda>_.
         let created = rule\<lparr>rr_LastUpdated := now\<rparr> in
         (Inr created, s\<lparr>st_routingRules := st_routingRules s @ [created]\<rparr>))))"

definition AddListener :: "Env \<Rightarrow> Listener \<Rightarrow> World \<Rightarrow> (store_error + Listener) \<times> World" where
  "AddListener env listener w =
     (let snap = snapshotLocked (w_store w) in
      and_then (on_store (addListenerLocked (e_clock env 0) (e_clock env 1) listener) w) (\<lambda>created w1.
      and_then (commitLocked env snap w1) (\<lambda>_ w2. (Inr created, w2))))"

definition AddBackendPool :: "Env \<Rightarrow> BackendPool \<Rightarrow> World \<Rightarrow> (store_error + BackendPool) \<times> World" where
  "AddBackendPool env pool w =
     (let snap = snapshotLocked (w_store w) in
      and_then (on_store (addBackendPoolLocked (e_clock env 0) (e_clock env 1) pool) w) (\<lambda>created w1.
      and_then (commitLocked env snap w1) (\<lambda>_ w2. (Inr created, w2))))"

definition AddRoutingRule :: "Env \<Rightarrow> RoutingRule \<Rightarrow> World \<Rightarrow> (store_error + RoutingRule) \<times> World" where
  "AddRoutingRule env rule w =
     (let snap = snapshotLocked (w_store w) in
      and_then (on_store (addRoutingRuleLocked (e_clock env 0) (e_clock env 1) rule) w) (\<lambda>created w1.
      and_then (commitLocked env snap w1) (\<lambda>_ w2. (Inr created, w2))))"

section \<open>Replacing and deleting resources\<close>

definition ReplaceListener :: "Env \<Rightarrow> Listener \<Rightarrow> World \<Rightarrow> (store_error + Listener) \<times> World" where
  "ReplaceListener env listener0 w =
     (if ln_ID listener0 = [] then (Inl ''listener id is required'', w)
      else
        (let snap = snapshotLocked (w_store w); l1 = normalizeListener listener0 in
         check (validateListener l1) w (\<lambda>_.
         check (each_ok (\<lambda>existing.
             guard_err (ln_ID existing \<noteq> ln_ID l1 \<and> sameListener existing l1)
               (''listener for '' @ listenerURL l1 @ '' already exists'')) (st_listeners (w_store w))) w (\<lambda>_.
         let listener = l1\<lparr>ln_LastUpdated := e_clock env 0\<rparr>;
             (ls, found) = putListener (st_listeners (w_store w)) listener
         in if \<not> found then (Inl (''listener id '' @ Quote (ln_ID listener) @ '' not found''), w)
            else and_then (commitLocked env snap (w\<lparr>w_store := (w_store w)\<lparr>st_listeners := ls\<rparr>\<rparr>))
                   (\<lambda>_ w2. (Inr listener, w2))))))"

definition ReplaceBackendPool :: "Env \<Rightarrow> BackendPool \<Rightarrow> World \<Rightarrow> (store_error + BackendPool) \<times> World" where
  "ReplaceBackendPool env pool0 w =
     (if bp_ID pool0 = [] then (Inl ''backend pool id is required'', w)
      else
        (let snap = snapshotLocked (w_store w); p1 = normalizeBackendPool pool0 in
         check (validateBackendPool p1) w (\<lambda>_.
         check (each_ok (\<lambda>existing.
             guard_err (bp_ID existing \<noteq> bp_ID p1 \<and> EqualFold (bp_Name existing) (bp_Name p1))
               (''backend pool name '' @ Quote (bp_Name p1) @ '' already exists'')) (st_backendPools (w_store w))) w (\<lambda>_.
         let pool = p1\<lparr>bp_LastUpdated := e_clock env 0\<rparr>;
             (ps, found) = putBackendPool (st_backendPools (w_store w)) pool
         in if \<not> found then (Inl (''backend pool id '' @ Quote (bp_ID pool) @ '' not found''), w)
            else and_then (commitLocked env snap (w\<lparr>w_store := (w_store w)\<lparr>st_backendPools := ps\<rparr>\<rparr>))
                   (\<lambda>_ w2. (Inr pool, w2))))))"

definition ReplaceRoutingRule :: "Env \<Rightarrow> RoutingRule \<Rightarrow> World \<Rightarrow> (store_error + RoutingRule) \<times> World" where
  "ReplaceRoutingRule env rule0 w =
     (if rr_ID rule0 = [] then (Inl ''routing rule id is required'', w)
      else
        (let s = w_store w; snap = snapshotLocked s; r1 = normalizeRoutingRule rule0 in
         check (validateRoutingRuleLocked (st_listeners s) (st_backendPools s) (st_routingRules s) r1 (rr_ID r1)) w (\<lambda>_.
         let rule = r1\<lparr>rr_LastUpdated := e_clock env 0\<rparr>;
             (rs, found) = putRoutingRule (st_routingRules s) rule
         in if \<not> found then (Inl (''routing rule id '' @ Quote (rr_ID rule) @ '' not found''), w)
            else and_then (commitLocked env snap (w\<lparr>w_store := s\<lparr>st_routingRules := rs\<rparr>\<rparr>))
                   (\<lambda>_ w2. (Inr (case findRoutingRule (st_routingRules s) (rr_ID rule) of
                                 Some old \<Rightarrow> rule\<lparr>rr_LastError := rr_LastError old\<rparr> | None \<Rightarrow> rule), w2)))))"

definition DeleteListener :: "Env \<Rightarrow> string \<Rightarrow> World \<Rightarrow> (store_error + unit) \<times> World" where
  "DeleteListener env ident w =
     check (each_ok (\<lambda>rule. guard_err (rr_ListenerID rule = ident)
              (''listener '' @ Quote ident @ '' is used by routing rule '' @ Quote (rr_ID rule)))
           (st_routingRules (w_store w))) w (\<lambda>_.
       let snap = snapshotLocked (w_store w); (ls, found) = deleteListenerByID (st_listeners (w_store w)) ident
       in if \<not> found then (Inl (''listener id '' @ Quote ident @ '' not found''), w)
          else commitLocked env snap (w\<lparr>w_store := (w_store w)\<lparr>st_listeners := ls\<rparr>\<rparr>))"

definition DeleteBackendPool :: "Env \<Rightarrow> string \<Rightarrow> World \<Rightarrow> (store_error + unit) \<times> World" where
  "DeleteBackendPool env ident w =
     check (each_ok (\<lambda>rule. guard_err (rr_BackendPoolID rule = ident)
              (''backend pool '' @ Quote ident @ '' is used by routing rule '' @ Quote (rr_ID rule)))
           (st_routingRules (w_store w))) w (\<lambda>_.
       let snap = snapshotLocked (w_store w); (ps, found) = deleteBackendPoolByID (st_backendPools (w_store w)) ident
       in if \<not> found then (Inl (''backend pool id '' @ Quote ident @ '' not found''), w)
          else commitLocked env snap (w\<lparr>w_store := (w_store w)\<lparr>st_backendPools := ps\<rparr>\<rparr>))"

definition DeleteRoutingRule :: "Env \<Rightarrow> string \<Rightarrow> World \<Rightarrow> (store_error + unit) \<times> World" where
  "DeleteRoutingRule env ident w =
     (let snap = snapshotLocked (w_store w); (rs, found) = deleteRoutingRuleByID (st_routingRules (w_store w)) ident
      in if \<not> found then (Inl (''routing rule id '' @ Quote ident @ '' not found''), w)
         else commitLocked env snap (w\<lparr>w_store := (w_store w)\<lparr>st_routingRules := rs\<rparr>\<rparr>))"

section \<open>Normalising a whole set of resources\<close>

text \<open>
  The three loops of \<open>normalizeResourcesLocked\<close>. Each normalises the elements in place as it reaches
  them, so on an error the slice holds normalised elements up to the failing one and the given ones
  after it. The sets are the Go maps of what was met before. In the third loop the rules before the
  current one (\<open>before\<close>) are already normalised and those after it are not, and the check of a rule
  looks at all of them.
\<close>

fun normalizeListenersLoop ::
    "string set \<Rightarrow> string set \<Rightarrow> Listener list \<Rightarrow> (store_error + unit) \<times> Listener list" where
  "normalizeListenersLoop ids endpoints [] = (Inr (), [])"
| "normalizeListenersLoop ids endpoints (l0 # rest) =
     (let l = normalizeListener l0 in
      if ln_ID l = [] then (Inl ''listener id is required'', l # rest)
      else if ln_ID l \<in> ids then (Inl (''listener id '' @ Quote (ln_ID l) @ '' already exists''), l # rest)
      else if listenerURL l \<in> endpoints then (Inl (''listener for '' @ listenerURL l @ '' already exists''), l # rest)
      else case validateListener l of
        Inl e \<Rightarrow> (Inl (''listener '' @ Quote (ln_ID l) @ '': '' @ e), l # rest)
      | Inr _ \<Rightarrow>
          (case normalizeListenersLoop (insert (ln_ID l) ids) (insert (listenerURL l) endpoints) rest of
             (r, rest') \<Rightarrow> (r, l # rest')))"

fun normalizePoolsLoop ::
    "string set \<Rightarrow> string set \<Rightarrow> BackendPool list \<Rightarrow> (store_error + unit) \<times> BackendPool list" where
  "normalizePoolsLoop ids names [] = (Inr (), [])"
| "normalizePoolsLoop ids names (p0 # rest) =
     (let p = normalizeBackendPool p0; name = ToLower (bp_Name p) in
      if bp_ID p = [] then (Inl ''backend pool id is required'', p # rest)
      else if bp_ID p \<in> ids then (Inl (''backend pool id '' @ Quote (bp_ID p) @ '' already exists''), p # rest)
      else if name \<in> names then (Inl (''backend pool name '' @ Quote (bp_Name p) @ '' already exists''), p # rest)
      else case validateBackendPool p of
        Inl e \<Rightarrow> (Inl (''backend pool '' @ Quote (bp_ID p) @ '': '' @ e), p # rest)
      | Inr _ \<Rightarrow>
          (case normalizePoolsLoop (insert (bp_ID p) ids) (insert name names) rest of
             (r, rest') \<Rightarrow> (r, p # rest')))"

fun normalizeRulesLoop ::
    "Listener list \<Rightarrow> BackendPool list \<Rightarrow> string set \<Rightarrow> RoutingRule list \<Rightarrow> RoutingRule list \<Rightarrow>
     (store_error + unit) \<times> RoutingRule list" where
  "normalizeRulesLoop ls ps ids before [] = (Inr (), [])"
| "normalizeRulesLoop ls ps ids before (r0 # rest) =
     (let r = normalizeRoutingRule r0 in
      if rr_ID r = [] then (Inl ''routing rule id is required'', r # rest)
      else if rr_ID r \<in> ids then (Inl (''routing rule id '' @ Quote (rr_ID r) @ '' already exists''), r # rest)
      else case validateRoutingRuleLocked ls ps (before @ r # rest) r (rr_ID r) of
        Inl e \<Rightarrow> (Inl (''routing rule '' @ Quote (rr_ID r) @ '': '' @ e), r # rest)
      | Inr _ \<Rightarrow>
          (case normalizeRulesLoop ls ps (insert (rr_ID r) ids) (before @ [r]) rest of
             (res, rest') \<Rightarrow> (res, r # rest')))"

definition normalizeResourcesLocked :: "Store \<Rightarrow> (store_error + unit) \<times> Store" where
  "normalizeResourcesLocked s =
     and_then (case normalizeListenersLoop {} {} (st_listeners s) of (r, ls) \<Rightarrow> (r, s\<lparr>st_listeners := ls\<rparr>)) (\<lambda>_ s1.
     and_then (case normalizePoolsLoop {} {} (st_backendPools s1) of (r, ps) \<Rightarrow> (r, s1\<lparr>st_backendPools := ps\<rparr>)) (\<lambda>_ s2.
     case normalizeRulesLoop (st_listeners s2) (st_backendPools s2) {} [] (st_routingRules s2) of
       (r, rs) \<Rightarrow> (r, s2\<lparr>st_routingRules := rs\<rparr>)))"

definition install :: "bool \<Rightarrow> ResourceSet \<Rightarrow> World \<Rightarrow> World" where
  "install staged resources w =
     w\<lparr>w_store := (w_store w)\<lparr>st_staged := staged, st_listeners := set_Listeners resources,
         st_backendPools := set_BackendPools resources,
         st_routingRules := clear_errors (set_RoutingRules resources)\<rparr>\<rparr>"

definition ReplaceResources :: "Env \<Rightarrow> ResourceSet \<Rightarrow> World \<Rightarrow> (store_error + unit) \<times> World" where
  "ReplaceResources env resources w =
     (if set_Version resources \<noteq> ResourceSetVersion
      then (Inl (''routes file version '' @ Itoa (set_Version resources) @ '' is not supported''), w)
      else
        (let snap = snapshotLocked (w_store w) in
         and_then (or_restore snap (on_store normalizeResourcesLocked (install False resources w))) (\<lambda>_ w1.
         commitLocked env snap w1)))"

definition StageResources :: "ResourceSet \<Rightarrow> World \<Rightarrow> (store_error + unit) \<times> World" where
  "StageResources resources w =
     (if set_Version resources \<noteq> ResourceSetVersion
      then (Inl (''routes file version '' @ Itoa (set_Version resources) @ '' is not supported''), w)
      else
        (let snap = snapshotLocked (w_store w) in
         and_then (or_restore snap (on_store normalizeResourcesLocked (install True resources w))) (\<lambda>_ w1.
         and_then (or_restore snap (on_store rebuildRoutesLocked w1)) (\<lambda>_ w2.
         (Inr (), w2\<lparr>w_store := (w_store w2)\<lparr>st_revision := st_revision (w_store w2) + 1\<rparr>\<rparr>)))))"

definition MarkApplied :: "Env \<Rightarrow> Snapshot \<Rightarrow> World \<Rightarrow> (store_error + unit) \<times> World" where
  "MarkApplied env snapshot w =
     (let s = w_store w in
      if sn_Revision snapshot > st_revision s \<or> sn_Revision snapshot < sn_Revision (st_applied s)
      then (Inl ''applied routing revision is stale or invalid'', w)
      else
        (let previous = st_applied s in
         case saveLocked env (w\<lparr>w_store := s\<lparr>st_applied := snapshot\<rparr>\<rparr>) of
           (Inl e, w1) \<Rightarrow> (Inl e, w1\<lparr>w_store := (w_store w1)\<lparr>st_applied := previous\<rparr>\<rparr>)
         | (Inr _, w1) \<Rightarrow> (Inr (), w1\<lparr>w_store := (w_store w1)\<lparr>st_staged := False\<rparr>\<rparr>)))"

definition PersistStaged :: "Env \<Rightarrow> World \<Rightarrow> (store_error + unit) \<times> World" where
  "PersistStaged env w =
     (if \<not> st_staged (w_store w) then (Inr (), w)
      else and_then (saveLocked env w) (\<lambda>_ w1.
        (Inr (), w1\<lparr>w_store := (w_store w1)\<lparr>st_staged := False\<rparr>\<rparr>)))"

section \<open>Runtime status\<close>

text \<open>The map \<open>byID\<close>: a later status of a route replaces an earlier one.\<close>

definition status_by_id :: "RouteHealthStatus list \<Rightarrow> string \<Rightarrow> RouteHealthStatus option" where
  "status_by_id statuses = map_of (rev (map (\<lambda>st. (hs_RouteID st, st)) statuses))"

definition status_error :: "RouteHealthStatus \<Rightarrow> string" where
  "status_error st = (if hs_Healthy st then [] else hs_Error st)"

definition SetRuntimeStatus :: "RouteHealthStatus list \<Rightarrow> Store \<Rightarrow> Store" where
  "SetRuntimeStatus statuses s =
     (if statuses = [] then s
      else s\<lparr>st_routes := map (\<lambda>r. case status_by_id statuses (rc_ID r) of
                               None \<Rightarrow> r | Some st \<Rightarrow> r\<lparr>rc_LastError := status_error st\<rparr>) (st_routes s),
             st_routingRules := map (\<lambda>r. case status_by_id statuses (rr_ID r) of
                               None \<Rightarrow> r | Some st \<Rightarrow> r\<lparr>rr_LastError := status_error st\<rparr>) (st_routingRules s)\<rparr>)"

section \<open>Routes as one resource: the compatibility operations\<close>

fun findMatchingListenerLocked :: "Listener list \<Rightarrow> Listener \<Rightarrow> Listener option" where
  "findMatchingListenerLocked [] candidate = None"
| "findMatchingListenerLocked (l # ls) candidate =
     (if sameListener l candidate then Some l else findMatchingListenerLocked ls candidate)"

text \<open>
  The loop over the upstreams of a migrated route. Its state is the protocol, the port and the health
  path the upstreams share so far, and the targets; \<open>first\<close> is \<open>index == 0\<close>.
\<close>

fun migrateUpstreams :: "bool \<Rightarrow> UpstreamTarget list \<Rightarrow> string \<times> int \<times> string \<times> BackendTarget list \<Rightarrow>
    store_error + (string \<times> int \<times> string \<times> BackendTarget list)" where
  "migrateUpstreams first [] acc = Inr acc"
| "migrateUpstreams first (upstream # rest) (backendProtocol, backendPort, commonHealthPath, targets) =
     (case url_Parse (TrimSpace (up_URL upstream)) of
        None \<Rightarrow> Inl (''upstream url '' @ Quote (up_URL upstream) @ '' is invalid'')
      | Some parsed \<Rightarrow>
          (if Hostname parsed = [] then Inl (''upstream url '' @ Quote (up_URL upstream) @ '' is invalid'')
           else
             (let scheme = ToLower (u_Scheme parsed) in
              if backendProtocol \<noteq> [] \<and> backendProtocol \<noteq> scheme
              then Inl ''all upstreams must use the same http or https scheme''
              else
                (let proto = (if backendProtocol = [] then scheme else backendProtocol) in
                 case (if Port parsed \<noteq> [] then Atoi (Port parsed) else Some (defaultPort scheme)) of
                   None \<Rightarrow> Inl (''upstream url '' @ Quote (up_URL upstream) @ '' has an invalid port'')
                 | Some port \<Rightarrow>
                     (let bport = (if backendPort = 0 then port else backendPort);
                          target = \<lparr>bt_Name = up_Name upstream, bt_Address = Hostname parsed,
                                    bt_Port = (if port \<noteq> bport then port else 0),
                                    bt_HealthPath = up_HealthPath upstream\<rparr>;
                          health = (if first then up_HealthPath upstream
                                    else if commonHealthPath \<noteq> up_HealthPath upstream then [] else commonHealthPath)
                      in migrateUpstreams False rest (proto, bport, health, targets @ [target]))))))"

definition migratedRule :: "RouteConfig \<Rightarrow> string \<Rightarrow> string \<Rightarrow> int \<Rightarrow> string \<Rightarrow> string \<Rightarrow> RoutingRule" where
  "migratedRule route listenerID poolID port proto health =
     \<lparr>rr_ID = rc_ID route, rr_Name = rc_ID route, rr_ListenerID = listenerID, rr_BackendPoolID = poolID,
      rr_BackendPort = port, rr_BackendProtocol = proto, rr_PathPrefix = rc_PathPrefix route,
      rr_HealthPath = health, rr_Exposure = rc_Exposure route, rr_Enabled = rc_Enabled route,
      rr_WebSocket = rc_WebSocket route, rr_Headers = rc_Headers route, rr_Security = rc_Security route,
      rr_Source = sourceOr (rc_Source route) ''explicit'', rr_LastError = rc_LastError route,
      rr_LastUpdated = zero_time\<rparr>"

definition migratedListener :: "RouteConfig \<Rightarrow> Listener" where
  "migratedListener route =
     (let lowered = ToLower (TrimSpace (rc_ListenerProtocol route));
          protocol = (if lowered = [] then (if rc_HTTPS route then ''https'' else ''http'') else lowered);
          listenerPort = (if rc_ListenerPort route = 0 then defaultPort protocol else rc_ListenerPort route)
      in \<lparr>ln_ID = [], ln_Name = rc_Host route, ln_Hostname = rc_Host route, ln_Port = listenerPort,
          ln_Protocol = protocol, ln_Source = ''compatibility'', ln_LastUpdated = zero_time\<rparr>)"

definition migratedPool :: "time \<Rightarrow> RouteConfig \<Rightarrow> BackendPool list \<Rightarrow> string \<Rightarrow> BackendTarget list \<Rightarrow> BackendPool" where
  "migratedPool now route pools health targets =
     \<lparr>bp_ID = uniqueID (''pool-'' @ resourceIDPart (rc_ID route)) (backendPoolIDs pools) now,
      bp_Name = rc_ID route @ '' backends'',
      bp_Targets = (if health \<noteq> [] then map (\<lambda>t. t\<lparr>bt_HealthPath := []\<rparr>) targets else targets),
      bp_Source = ''compatibility'', bp_LastUpdated = zero_time\<rparr>"

definition migrateRouteLocked :: "(nat \<Rightarrow> time) \<Rightarrow> RouteConfig \<Rightarrow> Store \<Rightarrow> (store_error + RouteConfig) \<times> Store" where
  "migrateRouteLocked clk route0 s =
     check (validate route0) s (\<lambda>_.
     let r1 = normalize route0;
         route = (if rc_ID r1 = [] then r1\<lparr>rc_ID := nextID ''route'' (clk 0)\<rparr> else r1);
         candidate = migratedListener route
     in and_then (case findMatchingListenerLocked (st_listeners s) candidate of
                    Some existing \<Rightarrow> (Inr existing, s)
                  | None \<Rightarrow> addListenerLocked (clk 1) (clk 2) candidate s) (\<lambda>listener s1.
        check (migrateUpstreams True (rc_Upstreams route) ([], 0, [], [])) s1 (\<lambda>(proto, port, health, targets).
        and_then (addBackendPoolLocked (clk 4) (clk 5)
                    (migratedPool (clk 3) route (st_backendPools s1) health targets) s1) (\<lambda>pool s2.
        and_then (addRoutingRuleLocked (clk 6) (clk 7)
                    (migratedRule route (ln_ID listener) (bp_ID pool) port proto health) s2) (\<lambda>_ s3.
        and_then (rebuildRoutesLocked s3) (\<lambda>_ s4.
        case find (\<lambda>c. rc_ID c = rc_ID route) (st_routes s4) of
          Some compiled \<Rightarrow> (Inr compiled, s4)
        | None \<Rightarrow> (Inl (''route '' @ Quote (rc_ID route) @ '' was not compiled''), s4)))))))"

definition pruneCompatibilityResourcesLocked :: "RoutingRule \<Rightarrow> Store \<Rightarrow> Store" where
  "pruneCompatibilityResourcesLocked rule s =
     (let ps = (if \<not> resourceReferencedByRule (st_routingRules s) (rr_BackendPoolID rule) False
                then (case findBackendPool (st_backendPools s) (rr_BackendPoolID rule) of
                        Some pool \<Rightarrow> if bp_Source pool = ''compatibility''
                                     then fst (deleteBackendPoolByID (st_backendPools s) (rr_BackendPoolID rule))
                                     else st_backendPools s
                      | None \<Rightarrow> st_backendPools s)
                else st_backendPools s);
          ls = (if \<not> resourceReferencedByRule (st_routingRules s) (rr_ListenerID rule) True
                then (case findListener (st_listeners s) (rr_ListenerID rule) of
                        Some listener \<Rightarrow> if ln_Source listener = ''compatibility''
                                         then fst (deleteListenerByID (st_listeners s) (rr_ListenerID rule))
                                         else st_listeners s
                      | None \<Rightarrow> st_listeners s)
                else st_listeners s)
      in s\<lparr>st_backendPools := ps, st_listeners := ls\<rparr>)"

definition addCompatibilityRoute :: "Env \<Rightarrow> RouteConfig \<Rightarrow> World \<Rightarrow> (store_error + RouteConfig) \<times> World" where
  "addCompatibilityRoute env route0 w =
     check (validate route0) w (\<lambda>_.
     let route = normalize route0; s = w_store w in
     check (each_ok (\<lambda>existing.
         bind_res (guard_err (rc_ID route \<noteq> [] \<and> rc_ID existing = rc_ID route)
           (''route id '' @ Quote (rc_ID route) @ '' already exists'')) (\<lambda>_.
         guard_err (rc_Host existing = rc_Host route \<and> rc_PathPrefix existing = rc_PathPrefix route)
           (''route for host '' @ Quote (rc_Host route) @ '' already exists''))) (st_routes s)) w (\<lambda>_.
     let snap = snapshotLocked s in
     and_then (or_restore snap (on_store (migrateRouteLocked (e_clock env) route) w)) (\<lambda>created w1.
     and_then (commitLocked env snap w1) (\<lambda>_ w2. (Inr created, w2)))))"

definition replaceCompatibilityRoute :: "Env \<Rightarrow> RouteConfig \<Rightarrow> World \<Rightarrow> (store_error + RouteConfig) \<times> World" where
  "replaceCompatibilityRoute env route0 w =
     (if rc_ID route0 = [] then (Inl ''route id is required'', w)
      else check (validate route0) w (\<lambda>_.
        let route = normalize route0; s = w_store w in
        case findRoutingRule (st_routingRules s) (rc_ID route) of
          None \<Rightarrow> (Inl (''route id '' @ Quote (rc_ID route) @ '' not found''), w)
        | Some oldRule \<Rightarrow>
            check (each_ok (\<lambda>existing.
                guard_err (rc_ID existing \<noteq> rc_ID route \<and> rc_Host existing = rc_Host route \<and>
                    rc_PathPrefix existing = rc_PathPrefix route)
                  (''route for host '' @ Quote (rc_Host route) @ '' and path '' @ Quote (rc_PathPrefix route) @
                   '' already exists'')) (st_routes s)) w (\<lambda>_.
            let snap = snapshotLocked s;
                s1 = pruneCompatibilityResourcesLocked oldRule
                       (s\<lparr>st_routingRules := fst (deleteRoutingRuleByID (st_routingRules s) (rc_ID route))\<rparr>)
            in and_then (or_restore snap (on_store (migrateRouteLocked (e_clock env) route) (w\<lparr>w_store := s1\<rparr>)))
                 (\<lambda>created w1. and_then (commitLocked env snap w1) (\<lambda>_ w2. (Inr created, w2))))))"

definition deleteCompatibilityRoute :: "Env \<Rightarrow> string \<Rightarrow> World \<Rightarrow> (store_error + unit) \<times> World" where
  "deleteCompatibilityRoute env ident w =
     (let s = w_store w in
      case findRoutingRule (st_routingRules s) ident of
        None \<Rightarrow> (Inl (''route id '' @ Quote ident @ '' not found''), w)
      | Some removed \<Rightarrow>
          (let snap = snapshotLocked s;
               s1 = pruneCompatibilityResourcesLocked removed
                      (s\<lparr>st_routingRules := fst (deleteRoutingRuleByID (st_routingRules s) ident)\<rparr>)
           in commitLocked env snap (w\<lparr>w_store := s1\<rparr>)))"

section \<open>Loading\<close>

text \<open>The loop that migrates the routes of a file of version 1; each route makes eight clock readings.\<close>

fun migrateRoutes :: "(nat \<Rightarrow> time) \<Rightarrow> RouteConfig list \<Rightarrow> Store \<Rightarrow> (store_error + unit) \<times> Store" where
  "migrateRoutes clk [] s = (Inr (), s)"
| "migrateRoutes clk (route # routes) s =
     and_then (wrap_error (''migrate route '' @ Quote (rc_ID route) @ '': '') (migrateRouteLocked clk route s))
       (\<lambda>_ s1. migrateRoutes (\<lambda>k. clk (8 + k)) routes s1)"

text \<open>The contents of the file, without the runtime state: the branch on the format and the compilation.\<close>

definition has_resources :: "fileFormat \<Rightarrow> bool" where
  "has_resources payload \<longleftrightarrow> 2 \<le> ff_Version payload \<or> ff_Listeners payload \<noteq> [] \<or>
     ff_BackendPools payload \<noteq> [] \<or> ff_RoutingRules payload \<noteq> []"

definition loadResources :: "Env \<Rightarrow> fileFormat \<Rightarrow> Store \<Rightarrow> (store_error + unit) \<times> Store" where
  "loadResources env payload s =
     (let s1 = s\<lparr>st_listeners := [], st_backendPools := [], st_routingRules := [], st_routes := []\<rparr> in
      and_then
        (if has_resources payload
         then normalizeResourcesLocked (s1\<lparr>st_listeners := ff_Listeners payload,
                st_backendPools := ff_BackendPools payload, st_routingRules := ff_RoutingRules payload\<rparr>)
         else migrateRoutes (e_clock env) (ff_Routes payload) s1)
        (\<lambda>_ s2. rebuildRoutesLocked s2))"

text \<open>The applied snapshot: the desired one for an old file, otherwise what the file says was applied.\<close>

definition loadApplied :: "Env \<Rightarrow> fileFormat \<Rightarrow> Store \<Rightarrow> (store_error + unit) \<times> Store" where
  "loadApplied env payload s0 =
     (let s = s0\<lparr>st_revision := ff_Revision payload, st_staged := False\<rparr> in
      if ff_Version payload < 3 then
        (let s1 = s\<lparr>st_revision := 1\<rparr> in (Inr (), s1\<lparr>st_applied := desiredSnapshotLocked s1\<rparr>))
      else case ff_Applied payload of
        None \<Rightarrow> (Inl ''invalid applied routing snapshot'', s)
      | Some resources \<Rightarrow>
          (if ff_AppliedRevision payload > ff_Revision payload then (Inl ''invalid applied routing snapshot'', s)
           else
             (case ReplaceResources env resources \<lparr>w_store = NewStore [], w_disk = Absent\<rparr> of
                (Inl e, _) \<Rightarrow> (Inl (''invalid applied routing resources: '' @ e), s)
              | (Inr _, aw) \<Rightarrow>
                  (Inr (), s\<lparr>st_applied := (DesiredSnapshot (w_store aw))\<lparr>sn_Revision := ff_AppliedRevision payload\<rparr>\<rparr>))))"

definition Load :: "Env \<Rightarrow> World \<Rightarrow> (store_error + unit) \<times> World" where
  "Load env w =
     (if st_path (w_store w) = [] then (Inr (), w)
      else case w_disk w of
        Absent \<Rightarrow> (Inr (), w)
      | Unreadable e \<Rightarrow> (Inl e, w)
      | Malformed e \<Rightarrow> (Inl e, w)
      | Holds payload \<Rightarrow>
          (if ff_Version payload > 3
           then (Inl (''routes file version '' @ Itoa (ff_Version payload) @ '' is not supported''), w)
           else
             (let snap = snapshotLocked (w_store w) in
              and_then (or_restore snap (on_store (loadResources env payload) w)) (\<lambda>_ w1.
              and_then (or_restore snap (on_store (loadApplied env payload) w1)) (\<lambda>_ w2.
              if \<not> has_resources payload \<or> ff_Version payload < 3
              then or_restore snap (wrap_error ''save migrated routes: '' (saveLocked env w2))
              else (Inr (), w2))))))"

end
