(* ===== verification/RouteInvariant.thy ===== *)
theory RouteInvariant
  imports RouteStore
begin

text \<open>
  The routing store as a transition system: every exported operation as one constructor of
  \<open>routing_op\<close>, the proof that a failed operation changes nothing, and the invariant of the store, which
  every operation keeps and every reachable store satisfies.
\<close>

section \<open>The operations as one datatype\<close>

datatype routing_op =
    OpAddListener Listener | OpReplaceListener Listener | OpDeleteListener string
  | OpAddPool BackendPool | OpReplacePool BackendPool | OpDeletePool string
  | OpAddRule RoutingRule | OpReplaceRule RoutingRule | OpDeleteRule string
  | OpAddRoute RouteConfig | OpReplaceRoute RouteConfig | OpDeleteRoute string
  | OpReplaceResources ResourceSet | OpStageResources ResourceSet
  | OpMarkApplied Snapshot | OpPersistStaged | OpLoad | OpSetStatus "RouteHealthStatus list"

definition forget :: "(store_error + 'a) \<times> World \<Rightarrow> (store_error + unit) \<times> World" where
  "forget m = (case m of (Inl e, w) \<Rightarrow> (Inl e, w) | (Inr _, w) \<Rightarrow> (Inr (), w))"

fun run_op :: "Env \<Rightarrow> routing_op \<Rightarrow> World \<Rightarrow> (store_error + unit) \<times> World" where
  "run_op env (OpAddListener l) w = forget (AddListener env l w)"
| "run_op env (OpReplaceListener l) w = forget (ReplaceListener env l w)"
| "run_op env (OpDeleteListener i) w = DeleteListener env i w"
| "run_op env (OpAddPool p) w = forget (AddBackendPool env p w)"
| "run_op env (OpReplacePool p) w = forget (ReplaceBackendPool env p w)"
| "run_op env (OpDeletePool i) w = DeleteBackendPool env i w"
| "run_op env (OpAddRule r) w = forget (AddRoutingRule env r w)"
| "run_op env (OpReplaceRule r) w = forget (ReplaceRoutingRule env r w)"
| "run_op env (OpDeleteRule i) w = DeleteRoutingRule env i w"
| "run_op env (OpAddRoute r) w = forget (addCompatibilityRoute env r w)"
| "run_op env (OpReplaceRoute r) w = forget (replaceCompatibilityRoute env r w)"
| "run_op env (OpDeleteRoute i) w = deleteCompatibilityRoute env i w"
| "run_op env (OpReplaceResources rs) w = ReplaceResources env rs w"
| "run_op env (OpStageResources rs) w = StageResources rs w"
| "run_op env (OpMarkApplied snap) w = MarkApplied env snap w"
| "run_op env OpPersistStaged w = PersistStaged env w"
| "run_op env OpLoad w = Load env w"
| "run_op env (OpSetStatus sts) w = (Inr (), w\<lparr>w_store := SetRuntimeStatus sts (w_store w)\<rparr>)"

lemma forget_simps [res_simps]:
  "forget m = (Inl e, w) \<longleftrightarrow> m = (Inl e, w)" "forget m = (Inr (), w) \<longleftrightarrow> (\<exists>x. m = (Inr x, w))"
  by (auto simp: forget_def split: prod.splits sum.splits)

section \<open>A failed operation changes nothing\<close>

lemma on_store_res [res_simps]:
  "on_store f w = (r, w') \<longleftrightarrow> (\<exists>s. f (w_store w) = (r, s) \<and> w' = w\<lparr>w_store := s\<rparr>)"
  by (auto simp: on_store_def split: prod.splits)

lemma or_restore_res [res_simps]:
  "or_restore snap m = (Inr x, w) \<longleftrightarrow> m = (Inr x, w)"
  "or_restore snap m = (Inl e, w) \<longleftrightarrow> (\<exists>w1. m = (Inl e, w1) \<and> w = w1\<lparr>w_store := restoreLocked snap (w_store w1)\<rparr>)"
  by (auto simp: or_restore_def split: prod.splits sum.splits)

lemma wrap_error_res [res_simps]:
  "wrap_error p m = (Inr x, s) \<longleftrightarrow> m = (Inr x, s)"
  "wrap_error p m = (Inl e, s) \<longleftrightarrow> (\<exists>e'. m = (Inl e', s) \<and> e = p @ e')"
  by (auto simp: wrap_error_def split: prod.splits sum.splits)

lemma restore_snapshot: "st_path s' = st_path s \<Longrightarrow> restoreLocked (snapshotLocked s) s' = s"
  by (simp add: restoreLocked_def snapshotLocked_def)

lemma save_res:
  "saveLocked env w = (Inl e, w') \<Longrightarrow> w' = w"
  "saveLocked env w = (Inr (), w') \<Longrightarrow>
     w' = (if st_path (w_store w) = [] then w else w\<lparr>w_disk := Holds (fileOf (w_store w))\<rparr>)"
  by (auto simp: saveLocked_def split: if_splits option.splits)

lemma rebuild_res:
  "rebuildRoutesLocked s = (Inl e, s') \<Longrightarrow> s' = s"
  "rebuildRoutesLocked s = (Inr (), s') \<Longrightarrow>
     \<exists>routes. compileRoutes (st_listeners s) (st_backendPools s) (st_routingRules s) = Inr routes \<and>
       s' = s\<lparr>st_routes := routes\<rparr>"
  by (auto simp: rebuildRoutesLocked_def res_simps)

lemma World_store_id [simp]: "w\<lparr>w_store := w_store w\<rparr> = w"
  by simp

lemma commit_cases:
  "commitLocked env snap w1 =
     (case compileRoutes (st_listeners (w_store w1)) (st_backendPools (w_store w1)) (st_routingRules (w_store w1)) of
        Inl e \<Rightarrow> (Inl e, w1\<lparr>w_store := restoreLocked snap (w_store w1)\<rparr>)
      | Inr routes \<Rightarrow>
          (let w2 = w1\<lparr>w_store := (w_store w1)\<lparr>st_routes := routes, st_revision := st_revision (w_store w1) + 1\<rparr>\<rparr> in
           if st_staged (w_store w1) \<or> st_path (w_store w1) = [] then (Inr (), w2)
           else case e_write env of
             Some e \<Rightarrow> (Inl e, w2\<lparr>w_store := restoreLocked snap (w_store w2)\<rparr>)
           | None \<Rightarrow> (Inr (), w2\<lparr>w_disk := Holds (fileOf (w_store w2))\<rparr>)))"
  by (simp add: commitLocked_def on_store_def rebuildRoutesLocked_def or_restore_def saveLocked_def Let_def
      split: sum.split option.split)

lemma commit_error:
  assumes "commitLocked env (snapshotLocked s0) w1 = (Inl e, w2)" "st_path (w_store w1) = st_path s0"
  shows "w2 = w1\<lparr>w_store := s0\<rparr>"
  using assms by (auto simp: commit_cases Let_def restore_snapshot split: sum.splits if_splits option.splits)

lemma commit_ok:
  assumes "commitLocked env snap w1 = (Inr (), w2)"
  shows "\<exists>routes. compileRoutes (st_listeners (w_store w1)) (st_backendPools (w_store w1))
      (st_routingRules (w_store w1)) = Inr routes \<and>
    w_store w2 = (w_store w1)\<lparr>st_routes := routes, st_revision := st_revision (w_store w1) + 1\<rparr> \<and>
    w_disk w2 = (if st_staged (w_store w1) \<or> st_path (w_store w1) = [] then w_disk w1
                 else Holds (fileOf (w_store w2)))"
  using assms by (auto simp: commit_cases Let_def split: sum.splits if_splits option.splits)

text \<open>The locked helpers that add one resource leave the store alone on an error.\<close>

lemma add_error:
  "addListenerLocked t now l s = (Inl e, s') \<Longrightarrow> s' = s"
  "addBackendPoolLocked t now p s = (Inl e, s') \<Longrightarrow> s' = s"
  "addRoutingRuleLocked t now r s = (Inl e, s') \<Longrightarrow> s' = s"
  by (auto simp: addListenerLocked_def addBackendPoolLocked_def addRoutingRuleLocked_def Let_def res_simps)

lemma add_ok:
  "addListenerLocked t now l s = (Inr l', s') \<Longrightarrow> s' = s\<lparr>st_listeners := st_listeners s @ [l']\<rparr>"
  "addBackendPoolLocked t now p s = (Inr p', s') \<Longrightarrow> s' = s\<lparr>st_backendPools := st_backendPools s @ [p']\<rparr>"
  "addRoutingRuleLocked t now r s = (Inr r', s') \<Longrightarrow> s' = s\<lparr>st_routingRules := st_routingRules s @ [r']\<rparr>"
  by (auto simp: addListenerLocked_def addBackendPoolLocked_def addRoutingRuleLocked_def Let_def res_simps)

lemma normalizeResourcesLocked_path [simp]: "st_path (snd (normalizeResourcesLocked s)) = st_path s"
  by (auto simp: normalizeResourcesLocked_def and_then_def split: prod.splits sum.splits)

lemma migrate_path: "migrateRouteLocked clk route s = (r, s') \<Longrightarrow> st_path s' = st_path s"
  by (auto simp: migrateRouteLocked_def Let_def and_then_def check_def
      split: prod.splits sum.splits option.splits dest!: add_ok add_error rebuild_res)

lemma migrateRoutes_path: "migrateRoutes clk routes s = (r, s') \<Longrightarrow> st_path s' = st_path s"
proof (induction routes arbitrary: clk s)
  case (Cons route routes)
  then show ?case
    by (auto simp: and_then_def wrap_error_def split: prod.splits sum.splits dest: migrate_path)
qed simp

lemma loadResources_path: "loadResources env payload s = (r, s') \<Longrightarrow> st_path s' = st_path s"
proof -
  assume l: "loadResources env payload s = (r, s')"
  have n: "normalizeResourcesLocked t = (x, u) \<Longrightarrow> st_path u = st_path t" for t x u
    using normalizeResourcesLocked_path [of t] by simp
  have k: "rebuildRoutesLocked t = (x, u) \<Longrightarrow> st_path u = st_path t" for t x u
    by (auto simp: rebuildRoutesLocked_def check_def split: sum.splits)
  show ?thesis using l unfolding loadResources_def Let_def and_then_def
    by (auto split: prod.splits sum.splits if_splits dest!: migrateRoutes_path n k)
qed

lemma loadApplied_path: "loadApplied env payload s = (r, s') \<Longrightarrow> st_path s' = st_path s"
  by (auto simp: loadApplied_def Let_def split: if_splits option.splits prod.splits sum.splits)

lemma install_simps [simp]:
  "st_path (w_store (install b rs w)) = st_path (w_store w)" "w_disk (install b rs w) = w_disk w"
  "w_store w = s \<Longrightarrow> (install b rs w)\<lparr>w_store := s\<rparr> = w"
  by (simp_all add: install_def)

text \<open>One rule per operation: an error result means the same world.\<close>

named_theorems atomic_rules

lemma add_atomic [atomic_rules]:
  "AddListener env l w = (Inl e, w') \<Longrightarrow> w' = w"
  "AddBackendPool env p w = (Inl e, w') \<Longrightarrow> w' = w"
  "AddRoutingRule env r w = (Inl e, w') \<Longrightarrow> w' = w"
  by (auto simp: AddListener_def AddBackendPool_def AddRoutingRule_def Let_def res_simps
      dest!: commit_error dest: add_error add_ok)

lemma replace_atomic [atomic_rules]:
  "ReplaceListener env l w = (Inl e, w') \<Longrightarrow> w' = w"
  "ReplaceBackendPool env p w = (Inl e, w') \<Longrightarrow> w' = w"
  "ReplaceRoutingRule env r w = (Inl e, w') \<Longrightarrow> w' = w"
  by (auto simp: ReplaceListener_def ReplaceBackendPool_def ReplaceRoutingRule_def Let_def res_simps
      split: if_splits prod.splits dest!: commit_error)

lemma delete_atomic [atomic_rules]:
  "DeleteListener env i w = (Inl e, w') \<Longrightarrow> w' = w"
  "DeleteBackendPool env i w = (Inl e, w') \<Longrightarrow> w' = w"
  "DeleteRoutingRule env i w = (Inl e, w') \<Longrightarrow> w' = w"
  by (auto simp: DeleteListener_def DeleteBackendPool_def DeleteRoutingRule_def Let_def res_simps
      split: if_splits prod.splits dest!: commit_error)

lemma prune_path [simp]: "st_path (pruneCompatibilityResourcesLocked r s) = st_path s"
  by (simp add: pruneCompatibilityResourcesLocked_def Let_def)

lemma migrate_commit_error:
  assumes "migrateRouteLocked clk route s1 = (Inr x, s2)" "st_path s1 = st_path (w_store w)"
    and "commitLocked env (snapshotLocked (w_store w)) (w\<lparr>w_store := s2\<rparr>) = (Inl e, w')"
  shows "w' = w"
  using commit_error [OF assms(3)] migrate_path [OF assms(1)] assms(2) by simp

lemma migrate_restore:
  "migrateRouteLocked clk route s1 = (r, s2) \<Longrightarrow> st_path s1 = st_path (w_store w) \<Longrightarrow>
   w\<lparr>w_store := restoreLocked (snapshotLocked (w_store w)) s2\<rparr> = w"
  by (simp add: restore_snapshot migrate_path)

lemma route_atomic [atomic_rules]:
  "addCompatibilityRoute env route w = (Inl e, w') \<Longrightarrow> w' = w"
  "replaceCompatibilityRoute env route w = (Inl e, w') \<Longrightarrow> w' = w"
  "deleteCompatibilityRoute env i w = (Inl e, w') \<Longrightarrow> w' = w"
  by (auto simp: addCompatibilityRoute_def replaceCompatibilityRoute_def deleteCompatibilityRoute_def Let_def
      res_simps migrate_restore split: if_splits option.splits dest: commit_error migrate_commit_error)

lemma normalize_restore:
  "normalizeResourcesLocked (w_store (install b rs w)) = (r, s2) \<Longrightarrow>
   (install b rs w)\<lparr>w_store := restoreLocked (snapshotLocked (w_store w)) s2\<rparr> = w"
  using normalizeResourcesLocked_path [of "w_store (install b rs w)"]
  by (simp add: restore_snapshot install_def)

lemma install_path:
  "normalizeResourcesLocked (w_store (install b rs w)) = (r, s2) \<Longrightarrow> st_path s2 = st_path (w_store w)"
  using normalizeResourcesLocked_path [of "w_store (install b rs w)"] by simp

lemma ReplaceResources_atomic [atomic_rules]: "ReplaceResources env rs w = (Inl e, w') \<Longrightarrow> w' = w"
  by (auto simp: ReplaceResources_def Let_def res_simps normalize_restore split: if_splits
      dest!: commit_error dest: install_path)

lemma StageResources_atomic [atomic_rules]: "StageResources rs w = (Inl e, w') \<Longrightarrow> w' = w"
  by (auto simp: StageResources_def Let_def res_simps normalize_restore restore_snapshot install_path
      split: if_splits dest!: rebuild_res(1))

lemma MarkApplied_atomic [atomic_rules]: "MarkApplied env snap w = (Inl e, w') \<Longrightarrow> w' = w"
  by (auto simp: MarkApplied_def Let_def split: if_splits prod.splits sum.splits dest!: save_res(1))

lemma PersistStaged_atomic [atomic_rules]: "PersistStaged env w = (Inl e, w') \<Longrightarrow> w' = w"
  by (auto simp: PersistStaged_def res_simps split: if_splits dest: save_res(1))

lemma Load_atomic [atomic_rules]: "Load env w = (Inl e, w') \<Longrightarrow> w' = w"
proof -
  assume l: "Load env w = (Inl e, w')"
  show ?thesis
  proof (cases "w_disk w")
    case (Holds payload)
    with l show ?thesis
      by (auto simp: Load_def Let_def res_simps restore_snapshot split: if_splits
          dest!: save_res(1) loadResources_path loadApplied_path)
  qed (use l in \<open>auto simp: Load_def split: if_splits\<close>)
qed

lemma run_op_atomic: "run_op env oper w = (Inl e, w') \<Longrightarrow> w' = w"
  by (cases oper) (auto simp: res_simps dest: atomic_rules)

section \<open>The invariant\<close>

text \<open>
  Listeners and pools are canonical and valid, with distinct identifiers, endpoints and names; every rule
  is valid and refers to a listener and a pool that exist; no two rules share their identifier or their
  listener and path; and the routes are what the rules compile to.
\<close>

definition wf_resources :: "Listener list \<Rightarrow> BackendPool list \<Rightarrow> RoutingRule list \<Rightarrow> bool" where
  "wf_resources ls ps rs \<longleftrightarrow>
     (\<forall>l \<in> set ls. canon_listener l) \<and> distinct (map ln_ID ls) \<and> distinct (map endpoint ls) \<and>
     (\<forall>p \<in> set ps. canon_pool p) \<and> distinct (map bp_ID ps) \<and> distinct (map (\<lambda>p. ToLower (bp_Name p)) ps) \<and>
     (\<forall>r \<in> set rs. rr_ID r \<noteq> [] \<and> rule_ok ls ps r) \<and> distinct (map rr_ID rs) \<and> distinct (map place rs)"

definition wf_res :: "Store \<Rightarrow> bool" where
  "wf_res s \<longleftrightarrow> wf_resources (st_listeners s) (st_backendPools s) (st_routingRules s)"

definition wf_store :: "Store \<Rightarrow> bool" where
  "wf_store s \<longleftrightarrow> wf_res s \<and>
     compileRoutes (st_listeners s) (st_backendPools s) (st_routingRules s) = Inr (st_routes s)"

lemma rule_ok_mono:
  "rule_ok ls ps r \<Longrightarrow> rr_ListenerID r \<in> ln_ID ` set ls' \<Longrightarrow> rr_BackendPoolID r \<in> bp_ID ` set ps' \<Longrightarrow> rule_ok ls' ps' r"
  by (simp add: rule_ok_def)

lemma rule_ok_refs: "rule_ok ls ps r \<Longrightarrow> rr_ListenerID r \<in> ln_ID ` set ls \<and> rr_BackendPoolID r \<in> bp_ID ` set ps"
  by (simp add: rule_ok_def)

lemma nextID_not_Nil [simp]: "nextID p t \<noteq> []"
  by (simp add: nextID_def)

lemma explicit_lower: "ToLower (TrimSpace ''explicit'') = ''explicit''"
  by (simp add: TrimSpace_def lower_byte_def byte_defs)

lemma validateListener_updated [simp]:
  "validateListener (l\<lparr>ln_LastUpdated := t\<rparr>) = validateListener l"
  "validateListener (l\<lparr>ln_ID := i\<rparr>) = validateListener l"
  "validateListener (l\<lparr>ln_Source := x\<rparr>) = validateListener l"
  by (simp_all add: validateListener_def)

lemma canon_listener_updated [simp]: "canon_listener (l\<lparr>ln_LastUpdated := t\<rparr>) = canon_listener l"
  by (simp add: canon_listener_def)

lemma validateBackendPool_updated [simp]:
  "validateBackendPool (p\<lparr>bp_LastUpdated := t\<rparr>) = validateBackendPool p"
  "validateBackendPool (p\<lparr>bp_ID := i\<rparr>) = validateBackendPool p"
  "validateBackendPool (p\<lparr>bp_Source := x\<rparr>) = validateBackendPool p"
  by (simp_all add: validateBackendPool_def)

lemma canon_pool_updated [simp]: "canon_pool (p\<lparr>bp_LastUpdated := t\<rparr>) = canon_pool p"
  by (simp add: canon_pool_def)

lemma addListener_canon:
  assumes "addListenerLocked t now l s = (Inr l', s')"
  shows "canon_listener l'" "ln_ID l' \<notin> ln_ID ` set (st_listeners s)" "endpoint l' \<notin> endpoint ` set (st_listeners s)"
proof -
  define l1 where "l1 = normalizeListener l"
  define l2 where "l2 = (if ln_ID l1 = [] then l1\<lparr>ln_ID := nextID ''listener'' t\<rparr> else l1)"
  define l3 where "l3 = (if ln_Name l2 = [] then l2\<lparr>ln_Name := ln_Hostname l2\<rparr> else l2)"
  define l4 where "l4 = (if ln_Source l3 = [] then l3\<lparr>ln_Source := ''explicit''\<rparr> else l3)"
  have f: "validateListener l4 = Inr ()" "l' = l4\<lparr>ln_LastUpdated := now\<rparr>"
    "\<forall>e \<in> set (st_listeners s). ln_ID e \<noteq> ln_ID l4 \<and> \<not> sameListener e l4"
    using assms unfolding addListenerLocked_def Let_def l1_def [symmetric] l2_def [symmetric] l3_def [symmetric] l4_def [symmetric]
    by (auto simp: res_simps)
  have h: "route_host (ln_Hostname l4)" using f(1) by (simp add: validateListener_iff)
  have hn: "ln_Hostname l4 = ln_Hostname l2" by (simp add: l4_def l3_def)
  have "TrimSpace (ln_Hostname l4) = ln_Hostname l4"
    using route_host_chars [OF h] host_char_props by (intro TrimSpace_id) (fastforce simp: is_space_def)
  then have n: "TrimSpace (ln_Name l4) = ln_Name l4"
    using hn by (simp add: l4_def l3_def) (simp add: l2_def l1_def)
  have so: "ToLower (TrimSpace (ln_Source l4)) = ln_Source l4"
    using explicit_lower by (simp add: l4_def) (simp add: l3_def l2_def l1_def TrimSpace_ToLower)
  have i: "ln_ID l4 \<noteq> []" by (simp add: l4_def l3_def) (simp add: l2_def)
  show "canon_listener l'" using f n so i by (simp add: canon_listener_def)
  show "ln_ID l' \<notin> ln_ID ` set (st_listeners s)" using f by auto
  show "endpoint l' \<notin> endpoint ` set (st_listeners s)"
    using f by (auto simp: sameListener_endpoint) (auto simp: endpoint_def)
qed

lemma addPool_canon:
  assumes "addBackendPoolLocked t now p s = (Inr p', s')"
  shows "canon_pool p'" "bp_ID p' \<notin> bp_ID ` set (st_backendPools s)"
    "ToLower (bp_Name p') \<notin> (\<lambda>p. ToLower (bp_Name p)) ` set (st_backendPools s)"
proof -
  define p1 where "p1 = normalizeBackendPool p"
  define p2 where "p2 = (if bp_ID p1 = [] then p1\<lparr>bp_ID := nextID ''pool'' t\<rparr> else p1)"
  define p3 where "p3 = (if bp_Source p2 = [] then p2\<lparr>bp_Source := ''explicit''\<rparr> else p2)"
  have f: "validateBackendPool p3 = Inr ()" "p' = p3\<lparr>bp_LastUpdated := now\<rparr>"
    "\<forall>e \<in> set (st_backendPools s). bp_ID e \<noteq> bp_ID p3 \<and> ToLower (bp_Name e) \<noteq> ToLower (bp_Name p3)"
    using assms unfolding addBackendPoolLocked_def Let_def p1_def [symmetric] p2_def [symmetric] p3_def [symmetric]
    by (auto simp: res_simps EqualFold_def)
  have so: "ToLower (TrimSpace (bp_Source p3)) = bp_Source p3"
    using explicit_lower by (simp add: p3_def) (simp add: p2_def p1_def TrimSpace_ToLower)
  have i: "bp_ID p3 \<noteq> []" by (simp add: p3_def) (simp add: p2_def)
  have t: "TrimSpace (bp_Name p3) = bp_Name p3" "bp_Targets p3 = map normalizeTarget (bp_Targets p)"
    by (simp_all add: p3_def p2_def p1_def)
  show "canon_pool p'" using f i so t by (auto simp: canon_pool_def)
  show "bp_ID p' \<notin> bp_ID ` set (st_backendPools s)" using f by auto
  show "ToLower (bp_Name p') \<notin> (\<lambda>p. ToLower (bp_Name p)) ` set (st_backendPools s)" using f by (auto; metis)
qed

lemma addRule_valid:
  assumes "addRoutingRuleLocked t now r s = (Inr r', s')" "\<forall>e \<in> set (st_routingRules s). rr_ID e \<noteq> []"
  shows "rr_ID r' \<noteq> []" "rule_ok (st_listeners s) (st_backendPools s) r'"
    "rr_ID r' \<notin> rr_ID ` set (st_routingRules s)" "place r' \<notin> place ` set (st_routingRules s)"
proof -
  define r1 where "r1 = normalizeRoutingRule r"
  define r2 where "r2 = (if rr_ID r1 = [] then r1\<lparr>rr_ID := nextID ''rule'' t\<rparr> else r1)"
  define r3 where "r3 = (if rr_Name r2 = [] then r2\<lparr>rr_Name := rr_ID r2\<rparr> else r2)"
  define r4 where "r4 = (if rr_Source r3 = [] then r3\<lparr>rr_Source := ''explicit''\<rparr> else r3)"
  have f: "validateRoutingRuleLocked (st_listeners s) (st_backendPools s) (st_routingRules s) r4 [] = Inr ()"
    "r' = r4\<lparr>rr_LastUpdated := now\<rparr>" "\<forall>e \<in> set (st_routingRules s). rr_ID e \<noteq> rr_ID r4"
    using assms(1) unfolding addRoutingRuleLocked_def Let_def r1_def [symmetric] r2_def [symmetric] r3_def [symmetric] r4_def [symmetric]
    by (auto simp: res_simps)
  then have v: "rule_ok (st_listeners s) (st_backendPools s) r4"
    "\<forall>e \<in> set (st_routingRules s). place e \<noteq> place r4"
    using assms(2) by (auto simp: validateRoutingRuleLocked_iff same_place_place)
  show "rr_ID r' \<noteq> []" using f by (simp add: r4_def r3_def) (simp add: r2_def)
  show "rule_ok (st_listeners s) (st_backendPools s) r'" using v f by (simp add: rule_ok_def)
  show "rr_ID r' \<notin> rr_ID ` set (st_routingRules s)" using f by auto
  have "place r' = place r4" using f by (simp add: place_def)
  then show "place r' \<notin> place ` set (st_routingRules s)" using v by auto
qed

section \<open>Every operation keeps the invariant\<close>

lemma wf_res_update [simp]:
  "wf_res (s\<lparr>st_routes := a\<rparr>) = wf_res s" "wf_res (s\<lparr>st_revision := b\<rparr>) = wf_res s"
  "wf_res (s\<lparr>st_staged := c\<rparr>) = wf_res s" "wf_res (s\<lparr>st_applied := d\<rparr>) = wf_res s"
  "wf_store (s\<lparr>st_revision := b\<rparr>) = wf_store s" "wf_store (s\<lparr>st_staged := c\<rparr>) = wf_store s"
  "wf_store (s\<lparr>st_applied := d\<rparr>) = wf_store s"
  by (simp_all add: wf_res_def wf_store_def)

lemma commit_wf: "commitLocked env snap w1 = (Inr (), w2) \<Longrightarrow> wf_res (w_store w1) \<Longrightarrow> wf_store (w_store w2)"
  by (drule commit_ok) (auto simp: wf_store_def)

lemma rebuild_wf: "rebuildRoutesLocked s = (Inr (), s') \<Longrightarrow> wf_res s \<Longrightarrow> wf_store s'"
  by (drule rebuild_res(2)) (auto simp: wf_store_def)

lemma addListener_wf: "addListenerLocked t now l s = (Inr l', s') \<Longrightarrow> wf_res s \<Longrightarrow> wf_res s'"
proof -
  assume a: "addListenerLocked t now l s = (Inr l', s')" and w: "wf_res s"
  have ok: "rule_ok (st_listeners s @ [l']) ps r" if "rule_ok (st_listeners s) ps r" for ps r
    using rule_ok_mono [OF that] rule_ok_refs [OF that] by simp
  show ?thesis using w addListener_canon [OF a] add_ok(1) [OF a] ok
    by (simp add: wf_res_def wf_resources_def)
qed

lemma addPool_wf: "addBackendPoolLocked t now p s = (Inr p', s') \<Longrightarrow> wf_res s \<Longrightarrow> wf_res s'"
proof -
  assume a: "addBackendPoolLocked t now p s = (Inr p', s')" and w: "wf_res s"
  have ok: "rule_ok ls (st_backendPools s @ [p']) r" if "rule_ok ls (st_backendPools s) r" for ls r
    using rule_ok_mono [OF that] rule_ok_refs [OF that] by simp
  show ?thesis using w addPool_canon [OF a] add_ok(2) [OF a] ok
    by (simp add: wf_res_def wf_resources_def)
qed

lemma addRule_wf: "addRoutingRuleLocked t now r s = (Inr r', s') \<Longrightarrow> wf_res s \<Longrightarrow> wf_res s'"
proof -
  assume a: "addRoutingRuleLocked t now r s = (Inr r', s')" and w: "wf_res s"
  have "\<forall>e \<in> set (st_routingRules s). rr_ID e \<noteq> []" using w by (simp add: wf_res_def wf_resources_def)
  from addRule_valid [OF a this] show ?thesis using w add_ok(3) [OF a]
    by (simp add: wf_res_def wf_resources_def)
qed

lemma putListener_wf:
  assumes "wf_resources ls ps rs" "canon_listener x"
    and "\<forall>e \<in> set ls. ln_ID e = ln_ID x \<or> \<not> sameListener e x"
  shows "wf_resources (fst (putListener ls x)) ps rs"
proof -
  let ?ls = "fst (putListener ls x)"
  have d: "distinct (map ln_ID ls)" using assms(1) by (simp add: wf_resources_def)
  have m: "?ls = map (\<lambda>y. if ln_ID y = ln_ID x then x else y) ls" by (rule lk.put_map [OF d])
  have ids: "map ln_ID ?ls = map ln_ID ls" by (rule lk.put_keys)
  then have idset: "ln_ID ` set ?ls = ln_ID ` set ls" by (metis list.set_map)
  have "endpoint x \<notin> endpoint ` {y \<in> set ls. ln_ID y \<noteq> ln_ID x}"
    using assms(3) by (auto simp: sameListener_endpoint)
  then have "distinct (map (\<lambda>y. if ln_ID y = ln_ID x then endpoint x else endpoint y) ls)"
    using assms(1) by (intro distinct_map_put) (simp_all add: wf_resources_def)
  moreover have "map endpoint ?ls = map (\<lambda>y. if ln_ID y = ln_ID x then endpoint x else endpoint y) ls"
    by (simp add: m)
  ultimately have e: "distinct (map endpoint ?ls)" by simp
  have "\<forall>r \<in> set rs. rule_ok ?ls ps r"
    using assms(1) rule_ok_mono rule_ok_refs idset unfolding wf_resources_def by metis
  moreover have "\<forall>l \<in> set ?ls. canon_listener l" using assms by (auto simp: m wf_resources_def)
  ultimately show ?thesis using assms(1) e ids unfolding wf_resources_def by metis
qed

lemma putBackendPool_wf:
  assumes "wf_resources ls ps rs" "canon_pool x"
    and "\<forall>e \<in> set ps. bp_ID e = bp_ID x \<or> ToLower (bp_Name e) \<noteq> ToLower (bp_Name x)"
  shows "wf_resources ls (fst (putBackendPool ps x)) rs"
proof -
  let ?ps = "fst (putBackendPool ps x)"
  let ?name = "\<lambda>p. ToLower (bp_Name p)"
  have d: "distinct (map bp_ID ps)" using assms(1) by (simp add: wf_resources_def)
  have m: "?ps = map (\<lambda>y. if bp_ID y = bp_ID x then x else y) ps" by (rule pk.put_map [OF d])
  have ids: "map bp_ID ?ps = map bp_ID ps" by (rule pk.put_keys)
  then have idset: "bp_ID ` set ?ps = bp_ID ` set ps" by (metis list.set_map)
  have "?name x \<notin> ?name ` {y \<in> set ps. bp_ID y \<noteq> bp_ID x}" using assms(3) by force
  then have "distinct (map (\<lambda>y. if bp_ID y = bp_ID x then ?name x else ?name y) ps)"
    using assms(1) by (intro distinct_map_put) (simp_all add: wf_resources_def)
  moreover have "map ?name ?ps = map (\<lambda>y. if bp_ID y = bp_ID x then ?name x else ?name y) ps"
    by (simp add: m)
  ultimately have e: "distinct (map ?name ?ps)" by simp
  have "\<forall>r \<in> set rs. rule_ok ls ?ps r"
    using assms(1) rule_ok_mono rule_ok_refs idset unfolding wf_resources_def by metis
  moreover have "\<forall>l \<in> set ?ps. canon_pool l" using assms by (auto simp: m wf_resources_def)
  ultimately show ?thesis using assms(1) e ids unfolding wf_resources_def by metis
qed

lemma putRoutingRule_wf:
  assumes "wf_resources ls ps rs" "rr_ID x \<noteq> []" "rule_ok ls ps x"
    and "\<forall>e \<in> set rs. rr_ID e = rr_ID x \<or> \<not> same_place e x"
  shows "wf_resources ls ps (fst (putRoutingRule rs x))"
proof -
  let ?rs = "fst (putRoutingRule rs x)"
  have d: "distinct (map rr_ID rs)" using assms(1) by (simp add: wf_resources_def)
  have m: "?rs = map (\<lambda>y. if rr_ID y = rr_ID x then x\<lparr>rr_LastError := rr_LastError y\<rparr> else y) rs"
    by (rule rk.put_map [OF d])
  have ids: "map rr_ID ?rs = map rr_ID rs" by (rule rk.put_keys)
  have "place x \<notin> place ` {y \<in> set rs. rr_ID y \<noteq> rr_ID x}" using assms(4) by (auto simp: same_place_place)
  then have "distinct (map (\<lambda>y. if rr_ID y = rr_ID x then place x else place y) rs)"
    using assms(1) by (intro distinct_map_put) (simp_all add: wf_resources_def)
  moreover have "map place ?rs = map (\<lambda>y. if rr_ID y = rr_ID x then place x else place y) rs"
    by (simp add: m)
  ultimately have e: "distinct (map place ?rs)" by simp
  have "\<forall>r \<in> set ?rs. rr_ID r \<noteq> [] \<and> rule_ok ls ps r" using assms by (auto simp: m wf_resources_def)
  then show ?thesis using assms(1) e ids unfolding wf_resources_def by metis
qed

lemma delete_rule_wf: "wf_resources ls ps rs \<Longrightarrow> wf_resources ls ps (fst (deleteRoutingRuleByID rs k))"
  by (auto simp: wf_resources_def rk.delete_filter distinct_map_filter)

lemma delete_pool_wf:
  assumes "wf_resources ls ps rs" "k \<notin> rr_BackendPoolID ` set rs"
  shows "wf_resources ls (fst (deleteBackendPoolByID ps k)) rs"
proof -
  have f: "fst (deleteBackendPoolByID ps k) = filter (\<lambda>p. bp_ID p \<noteq> k) ps"
    using assms(1) by (intro pk.delete_filter) (simp add: wf_resources_def)
  have "rule_ok ls (filter (\<lambda>p. bp_ID p \<noteq> k) ps) r" if "r \<in> set rs" for r
  proof -
    have o: "rule_ok ls ps r" using assms(1) that by (simp add: wf_resources_def)
    have "rr_BackendPoolID r \<noteq> k" using assms(2) that by blast
    then have "rr_BackendPoolID r \<in> bp_ID ` {x \<in> set ps. bp_ID x \<noteq> k}" using rule_ok_refs [OF o] by force
    then show ?thesis using rule_ok_refs [OF o] by (intro rule_ok_mono [OF o]) simp_all
  qed
  with assms(1) show ?thesis by (simp add: f wf_resources_def distinct_map_filter)
qed

lemma delete_listener_wf:
  assumes "wf_resources ls ps rs" "k \<notin> rr_ListenerID ` set rs"
  shows "wf_resources (fst (deleteListenerByID ls k)) ps rs"
proof -
  have f: "fst (deleteListenerByID ls k) = filter (\<lambda>p. ln_ID p \<noteq> k) ls"
    using assms(1) by (intro lk.delete_filter) (simp add: wf_resources_def)
  have "rule_ok (filter (\<lambda>p. ln_ID p \<noteq> k) ls) ps r" if "r \<in> set rs" for r
  proof -
    have o: "rule_ok ls ps r" using assms(1) that by (simp add: wf_resources_def)
    have "rr_ListenerID r \<noteq> k" using assms(2) that by blast
    then have "rr_ListenerID r \<in> ln_ID ` {x \<in> set ls. ln_ID x \<noteq> k}" using rule_ok_refs [OF o] by force
    then show ?thesis using rule_ok_refs [OF o] by (intro rule_ok_mono [OF o]) simp_all
  qed
  with assms(1) show ?thesis by (simp add: f wf_resources_def distinct_map_filter)
qed

lemma prune_wf: "wf_res s \<Longrightarrow> wf_res (pruneCompatibilityResourcesLocked rule s)"
proof -
  assume w: "wf_res s"
  let ?rs = "st_routingRules s"
  define ps where "ps = st_backendPools (pruneCompatibilityResourcesLocked rule s)"
  have "ps = st_backendPools s \<or>
    rr_BackendPoolID rule \<notin> rr_BackendPoolID ` set ?rs \<and>
    ps = fst (deleteBackendPoolByID (st_backendPools s) (rr_BackendPoolID rule))"
    by (auto simp: ps_def pruneCompatibilityResourcesLocked_def Let_def resourceReferencedByRule_iff split: option.splits)
  then have p: "wf_resources (st_listeners s) ps ?rs"
    using w delete_pool_wf by (auto simp: wf_res_def)
  define ls where "ls = st_listeners (pruneCompatibilityResourcesLocked rule s)"
  have "ls = st_listeners s \<or>
    rr_ListenerID rule \<notin> rr_ListenerID ` set ?rs \<and>
    ls = fst (deleteListenerByID (st_listeners s) (rr_ListenerID rule))"
    by (auto simp: ls_def pruneCompatibilityResourcesLocked_def Let_def resourceReferencedByRule_iff split: option.splits)
  then have "wf_resources ls ps ?rs" using p delete_listener_wf by auto
  moreover have "st_routingRules (pruneCompatibilityResourcesLocked rule s) = ?rs"
    by (simp add: pruneCompatibilityResourcesLocked_def Let_def)
  ultimately show ?thesis by (simp add: wf_res_def ls_def ps_def)
qed

text \<open>The normalisation loops establish the invariant.\<close>

lemma normalizeListenersLoop_ok:
  "normalizeListenersLoop ids eps ls = (Inr (), ls') \<Longrightarrow>
     ls' = map normalizeListener ls \<and> (\<forall>l \<in> set ls'. canon_listener l) \<and>
     distinct (map ln_ID ls') \<and> ln_ID ` set ls' \<inter> ids = {} \<and>
     distinct (map listenerURL ls') \<and> listenerURL ` set ls' \<inter> eps = {}"
proof (induction ids eps ls arbitrary: ls' rule: normalizeListenersLoop.induct)
  case (2 ids eps l0 rest)
  let ?l = "normalizeListener l0"
  from "2.prems" have c: "ln_ID ?l \<noteq> []" "ln_ID ?l \<notin> ids" "listenerURL ?l \<notin> eps" "validateListener ?l = Inr ()"
    by (auto simp: Let_def split: if_splits sum.splits prod.splits)
  then obtain rest' where r: "normalizeListenersLoop (insert (ln_ID ?l) ids) (insert (listenerURL ?l) eps) rest =
      (Inr (), rest')" "ls' = ?l # rest'"
    using "2.prems" by (auto simp: Let_def split: prod.splits)
  have "canon_listener ?l" using c by (intro canon_normalizeListener) simp_all
  note ih = "2.IH" [OF refl c(1,2,3,4) r(1)]
  have "(\<forall>l \<in> set ls'. canon_listener l) \<and> distinct (map ln_ID ls') \<and> ln_ID ` set ls' \<inter> ids = {} \<and>
      distinct (map listenerURL ls') \<and> listenerURL ` set ls' \<inter> eps = {}"
    using ih [THEN conjunct2] c(2,3) \<open>canon_listener ?l\<close> unfolding r(2) by auto
  moreover have "ls' = map normalizeListener (l0 # rest)" using ih r(2) by simp
  ultimately show ?case by blast
qed simp

lemma normalizePoolsLoop_ok:
  "normalizePoolsLoop ids names ps = (Inr (), ps') \<Longrightarrow>
     ps' = map normalizeBackendPool ps \<and> (\<forall>p \<in> set ps'. canon_pool p) \<and>
     distinct (map bp_ID ps') \<and> bp_ID ` set ps' \<inter> ids = {} \<and>
     distinct (map (\<lambda>p. ToLower (bp_Name p)) ps') \<and> (\<lambda>p. ToLower (bp_Name p)) ` set ps' \<inter> names = {}"
proof (induction ids names ps arbitrary: ps' rule: normalizePoolsLoop.induct)
  case (2 ids names p0 rest)
  let ?p = "normalizeBackendPool p0"
  from "2.prems" have c: "bp_ID ?p \<noteq> []" "bp_ID ?p \<notin> ids" "ToLower (bp_Name ?p) \<notin> names" "validateBackendPool ?p = Inr ()"
    by (auto simp: Let_def split: if_splits sum.splits prod.splits)
  then obtain rest' where r: "normalizePoolsLoop (insert (bp_ID ?p) ids) (insert (ToLower (bp_Name ?p)) names) rest =
      (Inr (), rest')" "ps' = ?p # rest'"
    using "2.prems" by (auto simp: Let_def split: prod.splits)
  have "canon_pool ?p" using c by (intro canon_normalizeBackendPool) simp_all
  note ih = "2.IH" [OF refl refl c(1,2,3,4) r(1)]
  have "(\<forall>p \<in> set ps'. canon_pool p) \<and> distinct (map bp_ID ps') \<and> bp_ID ` set ps' \<inter> ids = {} \<and>
      distinct (map (\<lambda>p. ToLower (bp_Name p)) ps') \<and> (\<lambda>p. ToLower (bp_Name p)) ` set ps' \<inter> names = {}"
    using ih [THEN conjunct2] c(2,3) \<open>canon_pool ?p\<close> unfolding r(2) by auto
  moreover have "ps' = map normalizeBackendPool (p0 # rest)" using ih r(2) by simp
  ultimately show ?case by blast
qed simp

lemma normalizeRulesLoop_ok:
  "normalizeRulesLoop ls ps ids before rs = (Inr (), rs') \<Longrightarrow> rr_ID ` set before \<subseteq> ids \<Longrightarrow>
     rs' = map normalizeRoutingRule rs \<and> (\<forall>r \<in> set rs'. rr_ID r \<noteq> [] \<and> rule_ok ls ps r) \<and>
     distinct (map rr_ID rs') \<and> rr_ID ` set rs' \<inter> ids = {} \<and>
     distinct (map place rs') \<and> place ` set rs' \<inter> place ` set before = {}"
proof (induction ls ps ids before rs arbitrary: rs' rule: normalizeRulesLoop.induct)
  case (2 ls ps ids before r0 rest)
  let ?r = "normalizeRoutingRule r0"
  from "2.prems" have c: "rr_ID ?r \<noteq> []" "rr_ID ?r \<notin> ids"
    "validateRoutingRuleLocked ls ps (before @ ?r # rest) ?r (rr_ID ?r) = Inr ()"
    by (auto simp: Let_def split: if_splits sum.splits prod.splits)
  then obtain rest' where r: "normalizeRulesLoop ls ps (insert (rr_ID ?r) ids) (before @ [?r]) rest = (Inr (), rest')"
      "rs' = ?r # rest'"
    using "2.prems" by (auto simp: Let_def split: prod.splits)
  have sub: "rr_ID ` set (before @ [?r]) \<subseteq> insert (rr_ID ?r) ids" using "2.prems"(2) by auto
  have v: "rule_ok ls ps ?r" "\<forall>e \<in> set before. rr_ID e = rr_ID ?r \<or> place e \<noteq> place ?r"
    using c(3) by (auto simp: validateRoutingRuleLocked_iff same_place_place)
  have "place ?r \<notin> place ` set before"
  proof
    assume "place ?r \<in> place ` set before"
    then obtain e where "e \<in> set before" "place e = place ?r" by auto
    with v(2) have "rr_ID ?r = rr_ID e" by auto
    with \<open>e \<in> set before\<close> c(2) "2.prems"(2) show False by auto
  qed
  note ih = "2.IH" [OF refl c(1,2,3) r(1) sub]
  have "(\<forall>r \<in> set rs'. rr_ID r \<noteq> [] \<and> rule_ok ls ps r) \<and> distinct (map rr_ID rs') \<and>
      rr_ID ` set rs' \<inter> ids = {} \<and> distinct (map place rs') \<and> place ` set rs' \<inter> place ` set before = {}"
    using ih [THEN conjunct2] c(1,2) v(1) \<open>place ?r \<notin> place ` set before\<close> unfolding r(2) by auto
  moreover have "rs' = map normalizeRoutingRule (r0 # rest)" using ih r(2) by simp
  ultimately show ?case by blast
qed simp

lemma normalizeResourcesLocked_wf: "normalizeResourcesLocked s = (Inr (), s') \<Longrightarrow> wf_res s'"
proof -
  assume n: "normalizeResourcesLocked s = (Inr (), s')"
  then obtain ls ps rs where l: "normalizeListenersLoop {} {} (st_listeners s) = (Inr (), ls)"
    and p: "normalizePoolsLoop {} {} (st_backendPools s) = (Inr (), ps)"
    and r: "normalizeRulesLoop ls ps {} [] (st_routingRules s) = (Inr (), rs)"
    and s': "s' = s\<lparr>st_listeners := ls, st_backendPools := ps, st_routingRules := rs\<rparr>"
    unfolding normalizeResourcesLocked_def by (force simp: res_simps split: prod.splits)
  have e: "distinct (map endpoint ls)"
  proof -
    have "listenerURL a = listenerURL b" if "endpoint a = endpoint b" for a b
      using that sameListener_URL sameListener_endpoint by blast
    moreover have "distinct (map listenerURL ls)" using normalizeListenersLoop_ok [OF l] by blast
    ultimately show ?thesis unfolding distinct_map inj_on_def by blast
  qed
  show ?thesis
    using normalizeListenersLoop_ok [OF l, THEN conjunct2] normalizePoolsLoop_ok [OF p, THEN conjunct2]
      normalizeRulesLoop_ok [OF r, THEN conjunct2] e
    unfolding wf_res_def wf_resources_def s' by simp
qed

lemma wf_res_resources:
  "wf_res (s\<lparr>st_listeners := ls\<rparr>) = wf_resources ls (st_backendPools s) (st_routingRules s)"
  "wf_res (s\<lparr>st_backendPools := ps\<rparr>) = wf_resources (st_listeners s) ps (st_routingRules s)"
  "wf_res (s\<lparr>st_routingRules := rs\<rparr>) = wf_resources (st_listeners s) (st_backendPools s) rs"
  by (simp_all add: wf_res_def)

named_theorems keeps_wf

lemma add_keeps [keeps_wf]:
  "AddListener env l w = (Inr x, w') \<Longrightarrow> wf_res (w_store w) \<Longrightarrow> wf_store (w_store w')"
  "AddBackendPool env p w = (Inr y, w') \<Longrightarrow> wf_res (w_store w) \<Longrightarrow> wf_store (w_store w')"
  "AddRoutingRule env r w = (Inr z, w') \<Longrightarrow> wf_res (w_store w) \<Longrightarrow> wf_store (w_store w')"
  by (auto simp: AddListener_def AddBackendPool_def AddRoutingRule_def Let_def res_simps
      dest!: addListener_wf addPool_wf addRule_wf intro: commit_wf)

lemma ReplaceListener_keeps [keeps_wf]:
  assumes "ReplaceListener env l w = (Inr x, w')" "wf_res (w_store w)"
  shows "wf_store (w_store w')"
proof -
  let ?l = "(normalizeListener l)\<lparr>ln_LastUpdated := e_clock env 0\<rparr>"
  let ?s = "(w_store w)\<lparr>st_listeners := fst (putListener (st_listeners (w_store w)) ?l)\<rparr>"
  have f: "ln_ID l \<noteq> []" "validateListener (normalizeListener l) = Inr ()"
    "\<forall>e \<in> set (st_listeners (w_store w)). ln_ID e = ln_ID l \<or> \<not> sameListener e (normalizeListener l)"
    "commitLocked env (snapshotLocked (w_store w)) (w\<lparr>w_store := ?s\<rparr>) = (Inr (), w')"
    using assms(1) by (auto simp: ReplaceListener_def Let_def res_simps split: if_splits prod.splits)
  have "canon_listener ?l" using f(1,2) canon_normalizeListener by simp
  moreover have "sameListener e ?l = sameListener e (normalizeListener l)" for e by (simp add: sameListener_def)
  ultimately have "wf_res ?s"
    using assms(2) f(3) by (auto simp: wf_res_resources wf_res_def intro!: putListener_wf)
  then show ?thesis using commit_wf [OF f(4)] by simp
qed

lemma ReplaceBackendPool_keeps [keeps_wf]:
  assumes "ReplaceBackendPool env p w = (Inr x, w')" "wf_res (w_store w)"
  shows "wf_store (w_store w')"
proof -
  let ?p = "(normalizeBackendPool p)\<lparr>bp_LastUpdated := e_clock env 0\<rparr>"
  let ?s = "(w_store w)\<lparr>st_backendPools := fst (putBackendPool (st_backendPools (w_store w)) ?p)\<rparr>"
  have f: "bp_ID p \<noteq> []" "validateBackendPool (normalizeBackendPool p) = Inr ()"
    "\<forall>e \<in> set (st_backendPools (w_store w)). bp_ID e = bp_ID p \<or> ToLower (bp_Name e) \<noteq> ToLower (bp_Name (normalizeBackendPool p))"
    "commitLocked env (snapshotLocked (w_store w)) (w\<lparr>w_store := ?s\<rparr>) = (Inr (), w')"
    using assms(1) by (auto simp: ReplaceBackendPool_def EqualFold_def Let_def res_simps split: if_splits prod.splits)
  have "canon_pool ?p" using f(1,2) canon_normalizeBackendPool by simp
  then have "wf_res ?s"
    using assms(2) f(3) by (auto simp: wf_res_resources wf_res_def intro!: putBackendPool_wf)
  then show ?thesis using commit_wf [OF f(4)] by simp
qed

lemma ReplaceRoutingRule_keeps [keeps_wf]:
  assumes "ReplaceRoutingRule env r w = (Inr x, w')" "wf_res (w_store w)"
  shows "wf_store (w_store w')"
proof -
  let ?r = "(normalizeRoutingRule r)\<lparr>rr_LastUpdated := e_clock env 0\<rparr>"
  let ?s = "(w_store w)\<lparr>st_routingRules := fst (putRoutingRule (st_routingRules (w_store w)) ?r)\<rparr>"
  have f: "rr_ID r \<noteq> []" "validateRoutingRuleLocked (st_listeners (w_store w)) (st_backendPools (w_store w))
      (st_routingRules (w_store w)) (normalizeRoutingRule r) (rr_ID r) = Inr ()"
    "commitLocked env (snapshotLocked (w_store w)) (w\<lparr>w_store := ?s\<rparr>) = (Inr (), w')"
    using assms(1) by (auto simp: ReplaceRoutingRule_def Let_def res_simps split: if_splits prod.splits)
  have "rule_ok ls ps ?r = rule_ok ls ps (normalizeRoutingRule r)" for ls ps by (simp add: rule_ok_def)
  moreover have "same_place e ?r = same_place e (normalizeRoutingRule r)" for e by (simp add: same_place_def)
  ultimately have "wf_res ?s"
    using assms(2) f(1,2) by (auto simp: wf_res_resources wf_res_def validateRoutingRuleLocked_iff intro!: putRoutingRule_wf)
  then show ?thesis using commit_wf [OF f(3)] by simp
qed

lemma delete_keeps [keeps_wf]:
  assumes w: "wf_res (w_store w)"
  shows "DeleteListener env i w = (Inr (), w') \<Longrightarrow> wf_store (w_store w')"
    and "DeleteBackendPool env i w = (Inr (), w') \<Longrightarrow> wf_store (w_store w')"
    and "DeleteRoutingRule env i w = (Inr (), w') \<Longrightarrow> wf_store (w_store w')"
proof -
  assume d: "DeleteListener env i w = (Inr (), w')"
  then have "i \<notin> rr_ListenerID ` set (st_routingRules (w_store w))"
    and c: "commitLocked env (snapshotLocked (w_store w)) (w\<lparr>w_store := (w_store w)\<lparr>st_listeners :=
      fst (deleteListenerByID (st_listeners (w_store w)) i)\<rparr>\<rparr>) = (Inr (), w')"
    by (auto simp: DeleteListener_def Let_def res_simps split: if_splits prod.splits)
  then show "wf_store (w_store w')"
    using w delete_listener_wf by (intro commit_wf [OF c]) (simp add: wf_res_resources wf_res_def)
next
  assume d: "DeleteBackendPool env i w = (Inr (), w')"
  then have "i \<notin> rr_BackendPoolID ` set (st_routingRules (w_store w))"
    and c: "commitLocked env (snapshotLocked (w_store w)) (w\<lparr>w_store := (w_store w)\<lparr>st_backendPools :=
      fst (deleteBackendPoolByID (st_backendPools (w_store w)) i)\<rparr>\<rparr>) = (Inr (), w')"
    by (auto simp: DeleteBackendPool_def Let_def res_simps split: if_splits prod.splits)
  then show "wf_store (w_store w')"
    using w delete_pool_wf by (intro commit_wf [OF c]) (simp add: wf_res_resources wf_res_def)
next
  assume d: "DeleteRoutingRule env i w = (Inr (), w')"
  then have c: "commitLocked env (snapshotLocked (w_store w)) (w\<lparr>w_store := (w_store w)\<lparr>st_routingRules :=
      fst (deleteRoutingRuleByID (st_routingRules (w_store w)) i)\<rparr>\<rparr>) = (Inr (), w')"
    by (auto simp: DeleteRoutingRule_def Let_def split: if_splits prod.splits)
  then show "wf_store (w_store w')"
    using w delete_rule_wf by (intro commit_wf [OF c]) (simp add: wf_res_resources wf_res_def)
qed

lemma migrateRouteLocked_wf: "migrateRouteLocked clk route s = (Inr c, s') \<Longrightarrow> wf_res s \<Longrightarrow> wf_store s'"
  unfolding migrateRouteLocked_def Let_def
  by (auto simp: res_simps split: option.splits
      dest!: addListener_wf addPool_wf addRule_wf rebuild_wf)

lemma route_keeps [keeps_wf]:
  assumes w: "wf_res (w_store w)"
  shows "addCompatibilityRoute env route w = (Inr x, w') \<Longrightarrow> wf_store (w_store w')"
    and "replaceCompatibilityRoute env route w = (Inr x, w') \<Longrightarrow> wf_store (w_store w')"
    and "deleteCompatibilityRoute env i w = (Inr (), w') \<Longrightarrow> wf_store (w_store w')"
proof -
  have m: "wf_res s2" if "migrateRouteLocked clk r s1 = (Inr y, s2)" "wf_res s1" for clk r s1 y s2
    using migrateRouteLocked_wf [OF that] by (simp add: wf_store_def)
  have p: "wf_res (pruneCompatibilityResourcesLocked old
      ((w_store w)\<lparr>st_routingRules := fst (deleteRoutingRuleByID (st_routingRules (w_store w)) k)\<rparr>))" for old k
    using w delete_rule_wf by (intro prune_wf) (simp add: wf_res_resources wf_res_def)
  show "addCompatibilityRoute env route w = (Inr x, w') \<Longrightarrow> wf_store (w_store w')"
    using w by (auto simp: addCompatibilityRoute_def Let_def res_simps dest!: m intro: commit_wf)
  show "replaceCompatibilityRoute env route w = (Inr x, w') \<Longrightarrow> wf_store (w_store w')"
    using p by (auto simp: replaceCompatibilityRoute_def Let_def res_simps split: if_splits option.splits
        dest!: m intro: commit_wf)
  show "deleteCompatibilityRoute env i w = (Inr (), w') \<Longrightarrow> wf_store (w_store w')"
    using p by (auto simp: deleteCompatibilityRoute_def Let_def split: option.splits intro: commit_wf)
qed

lemma resources_keeps [keeps_wf]:
  "ReplaceResources env rs w = (Inr (), w') \<Longrightarrow> wf_store (w_store w')"
  "StageResources rs w = (Inr (), w') \<Longrightarrow> wf_store (w_store w')"
  by (auto simp: ReplaceResources_def StageResources_def Let_def res_simps split: if_splits
      dest!: normalizeResourcesLocked_wf rebuild_wf intro: commit_wf)

lemma applied_keeps [keeps_wf]:
  "MarkApplied env snap w = (Inr (), w') \<Longrightarrow> wf_store (w_store w) \<Longrightarrow> wf_store (w_store w')"
  "PersistStaged env w = (Inr (), w') \<Longrightarrow> wf_store (w_store w) \<Longrightarrow> wf_store (w_store w')"
  by (auto simp: MarkApplied_def PersistStaged_def saveLocked_def Let_def res_simps
      split: if_splits prod.splits sum.splits option.splits)

lemma wf_res_empty:
  "wf_res (s\<lparr>st_listeners := [], st_backendPools := [], st_routingRules := [], st_routes := []\<rparr>)"
  by (simp add: wf_res_def wf_resources_def)

lemma wf_NewStore: "wf_store (NewStore path)"
  by (simp add: wf_store_def wf_res_def wf_resources_def NewStore_def)

lemma migrateRoutes_wf: "migrateRoutes clk routes s = (Inr (), s') \<Longrightarrow> wf_res s \<Longrightarrow> wf_res s'"
proof (induction routes arbitrary: clk s)
  case (Cons route routes)
  then obtain c s1 where "migrateRouteLocked clk route s = (Inr c, s1)"
    "migrateRoutes (\<lambda>k. clk (8 + k)) routes s1 = (Inr (), s')" by (auto simp: res_simps)
  with Cons show ?case using migrateRouteLocked_wf by (simp add: wf_store_def)
qed simp

lemma loadResources_wf:
  assumes "loadResources env payload s = (Inr (), s')"
  shows "wf_store s'"
proof -
  let ?s1 = "s\<lparr>st_listeners := [], st_backendPools := [], st_routingRules := [], st_routes := []\<rparr>"
  from assms obtain s2 where "rebuildRoutesLocked s2 = (Inr (), s')" and
    "(if has_resources payload
      then normalizeResourcesLocked (?s1\<lparr>st_listeners := ff_Listeners payload,
             st_backendPools := ff_BackendPools payload, st_routingRules := ff_RoutingRules payload\<rparr>)
      else migrateRoutes (e_clock env) (ff_Routes payload) ?s1) = (Inr (), s2)"
    unfolding loadResources_def Let_def and_then_Inr by auto
  then show ?thesis
    using rebuild_wf normalizeResourcesLocked_wf migrateRoutes_wf wf_res_empty by (metis (no_types, lifting))
qed

lemma loadApplied_wf: "loadApplied env payload s = (Inr (), s') \<Longrightarrow> wf_store s \<Longrightarrow> wf_store s'"
  by (auto simp: loadApplied_def Let_def split: if_splits option.splits prod.splits sum.splits)

lemma Load_keeps [keeps_wf]:
  assumes "Load env w = (Inr (), w')" "wf_store (w_store w)"
  shows "wf_store (w_store w')"
proof (cases "st_path (w_store w) = [] \<or> w_disk w = Absent")
  case True
  with assms show ?thesis by (auto simp: Load_def split: disk.splits)
next
  case False
  then obtain payload where "w_disk w = Holds payload" using assms(1) by (cases "w_disk w") (auto simp: Load_def)
  with assms(1) False show ?thesis
    by (auto simp: Load_def Let_def res_simps split: if_splits
        dest!: loadResources_wf loadApplied_wf save_res(2))
qed

lemma SetRuntimeStatus_wf: "wf_store s \<Longrightarrow> wf_store (SetRuntimeStatus statuses s)"
proof -
  assume w: "wf_store s"
  let ?f = "\<lambda>r. case status_by_id statuses (rr_ID r) of
    None \<Rightarrow> r | Some st \<Rightarrow> r\<lparr>rr_LastError := status_error st\<rparr>"
  let ?g = "\<lambda>r. case status_by_id statuses (rc_ID r) of
    None \<Rightarrow> r | Some st \<Rightarrow> r\<lparr>rc_LastError := status_error st\<rparr>"
  have id: "rr_ID (?f r) = rr_ID r" "place (?f r) = place r" "rule_ok ls ps (?f r) = rule_ok ls ps r" for r ls ps
    by (simp_all split: option.split)
  have wf: "wf_resources (st_listeners s) (st_backendPools s) (map ?f (st_routingRules s))"
    using w id by (simp add: wf_store_def wf_res_def wf_resources_def comp_def)
  have one: "compileRule ls ps (?f r) = Inr (?g route)" if "compileRule ls ps r = Inr route" for ls ps r route
    using that compileRule_frame(1) [OF that]
    by (cases "status_by_id statuses (rr_ID r)") (simp_all add: compileRule_last_error)
  have "compileRoutes (st_listeners s) (st_backendPools s) (map ?f (st_routingRules s)) = Inr (map ?g (st_routes s))"
    using w one unfolding wf_store_def compileRoutes_Inr
    by (auto simp: list_all2_map1 list_all2_map2 intro: list_all2_mono)
  with wf w show ?thesis by (simp add: wf_store_def wf_res_def SetRuntimeStatus_def)
qed

lemma wf_store_res: "wf_store s \<Longrightarrow> wf_res s"
  by (simp add: wf_store_def)

lemma run_op_wf:
  assumes "wf_store (w_store w)" "run_op env oper w = (r, w')"
  shows "wf_store (w_store w')"
proof (cases r)
  case (Inl e)
  with assms run_op_atomic show ?thesis by blast
next
  case (Inr u)
  then show ?thesis
    using assms wf_store_res [OF assms(1)]
    by (cases oper)
      (simp_all add: res_simps keeps_wf, (elim exE, simp add: keeps_wf | elim subst, simp add: SetRuntimeStatus_wf)+)
qed

section \<open>Reachable stores\<close>

inductive reachable :: "World \<Rightarrow> bool" where
  start: "reachable \<lparr>w_store = NewStore path, w_disk = d\<rparr>"
| step: "reachable w \<Longrightarrow> run_op env oper w = (r, w') \<Longrightarrow> reachable w'"

lemma reachable_wf: "reachable w \<Longrightarrow> wf_store (w_store w)"
  by (induction rule: reachable.induct) (auto simp: wf_NewStore dest: run_op_wf)

end
