(* ===== verification/RoutePersistence.thy ===== *)
theory RoutePersistence
  imports RouteInvariant
begin

text \<open>
  The routing store and its file: what an operation writes, what a staged change keeps off the disk, the
  revision counter behind \<open>Pending\<close>, and the restart: loading the file a store has written gives the
  same resources, routes and revisions.
\<close>

section \<open>Canonical rules\<close>

text \<open>A rule that normalisation leaves alone, whatever its runtime error.\<close>

definition canon_rule :: "RoutingRule \<Rightarrow> bool" where
  "canon_rule r \<longleftrightarrow> normalizeRoutingRule r = r"

lemma canon_rule_facts:
  assumes "canon_rule r"
  shows "normalizePathPrefix (rr_PathPrefix r) = rr_PathPrefix r" "normalizeSecurity (rr_Security r) = rr_Security r"
  using assms normalizeRoutingRule_frame(6,7) unfolding canon_rule_def by metis+

lemma canon_rule_last_error [simp]: "canon_rule (r\<lparr>rr_LastError := e\<rparr>) = canon_rule r"
proof
  assume "canon_rule (r\<lparr>rr_LastError := e\<rparr>)"
  then have "(normalizeRoutingRule r)\<lparr>rr_LastError := e\<rparr> = r\<lparr>rr_LastError := e\<rparr>"
    by (simp add: canon_rule_def normalizeRoutingRule_last_error)
  then have "(normalizeRoutingRule r)\<lparr>rr_LastError := e\<rparr>\<lparr>rr_LastError := rr_LastError r\<rparr> =
      r\<lparr>rr_LastError := e\<rparr>\<lparr>rr_LastError := rr_LastError r\<rparr>" by (simp only:)
  moreover have "(normalizeRoutingRule r)\<lparr>rr_LastError := rr_LastError r\<rparr> = normalizeRoutingRule r"
    using normalizeRoutingRule_frame(12) [of r] by (metis (no_types) RoutingRule.surjective RoutingRule.update_convs(15))
  ultimately show "canon_rule r" by (simp add: canon_rule_def)
qed (simp add: canon_rule_def normalizeRoutingRule_last_error)

lemma wf_compile_total:
  assumes "wf_resources ls ps rs" "\<forall>r \<in> set rs. canon_rule r"
  shows "\<exists>routes. compileRoutes ls ps rs = Inr routes"
  using assms canon_rule_facts(2) by (intro compileRoutes_total ballI compileRule_total) (auto simp: wf_resources_def)

section \<open>The file of a store\<close>

lemma persisted_rule_eq: "persisted_rule r = r\<lparr>rr_LastError := []\<rparr>"
  by (simp add: persisted_rule_def unmarshalRoutingRule_def)

lemma persisted_rules: "map persisted_rule rs = clear_errors rs"
  by (simp add: clear_errors_def persisted_rule_eq)

lemma wf_clear_errors: "wf_resources ls ps (clear_errors rs) = wf_resources ls ps rs"
  by (simp add: wf_resources_def clear_errors_def comp_def)

lemma canon_clear_errors: "(\<forall>r \<in> set (clear_errors rs). canon_rule r) = (\<forall>r \<in> set rs. canon_rule r)"
  by (simp add: clear_errors_def)

lemma clear_errors_idem [simp]: "clear_errors (clear_errors rs) = clear_errors rs"
  by (simp add: clear_errors_def comp_def)

lemma compile_clear_errors:
  assumes "compileRoutes ls ps rs = Inr routes"
  shows "compileRoutes ls ps (clear_errors rs) = Inr (map (\<lambda>r. r\<lparr>rc_LastError := []\<rparr>) routes)"
proof -
  have "compileRule ls ps (r\<lparr>rr_LastError := []\<rparr>) = Inr (route\<lparr>rc_LastError := []\<rparr>)"
    if "compileRule ls ps r = Inr route" for r route using that by (simp add: compileRule_last_error)
  then show ?thesis using assms unfolding compileRoutes_Inr clear_errors_def
    by (auto simp: list_all2_map1 list_all2_map2 intro: list_all2_mono)
qed

section \<open>Normalising well-formed resources\<close>

lemma normalizeListenersLoop_id:
  "\<lbrakk>\<forall>l \<in> set ls. canon_listener l; distinct (map ln_ID ls); distinct (map listenerURL ls);
    ln_ID ` set ls \<inter> ids = {}; listenerURL ` set ls \<inter> eps = {}\<rbrakk> \<Longrightarrow>
   normalizeListenersLoop ids eps ls = (Inr (), ls)"
proof (induction ls arbitrary: ids eps)
  case (Cons l ls)
  have "normalizeListenersLoop (insert (ln_ID l) ids) (insert (listenerURL l) eps) ls = (Inr (), ls)"
    using Cons.prems by (intro Cons.IH) auto
  moreover have "normalizeListener l = l" "ln_ID l \<noteq> []" "validateListener l = Inr ()"
    using Cons.prems normalizeListener_canon by (auto simp: canon_listener_def)
  ultimately show ?case using Cons.prems by (simp add: Let_def)
qed simp

lemma normalizePoolsLoop_id:
  "\<lbrakk>\<forall>p \<in> set ps. canon_pool p; distinct (map bp_ID ps); distinct (map (\<lambda>p. ToLower (bp_Name p)) ps);
    bp_ID ` set ps \<inter> ids = {}; (\<lambda>p. ToLower (bp_Name p)) ` set ps \<inter> names = {}\<rbrakk> \<Longrightarrow>
   normalizePoolsLoop ids names ps = (Inr (), ps)"
proof (induction ps arbitrary: ids names)
  case (Cons p ps)
  have "normalizePoolsLoop (insert (bp_ID p) ids) (insert (ToLower (bp_Name p)) names) ps = (Inr (), ps)"
    using Cons.prems by (intro Cons.IH) auto
  moreover have "normalizeBackendPool p = p" "bp_ID p \<noteq> []" "validateBackendPool p = Inr ()"
    using Cons.prems normalizeBackendPool_canon by (auto simp: canon_pool_def)
  ultimately show ?case using Cons.prems by (simp add: Let_def)
qed simp

lemma normalizeRulesLoop_id:
  "\<lbrakk>\<forall>r \<in> set rs. canon_rule r \<and> rr_ID r \<noteq> [] \<and> rule_ok ls ps r; distinct (map rr_ID (before @ rs));
    distinct (map place (before @ rs)); ids = rr_ID ` set before\<rbrakk> \<Longrightarrow>
   normalizeRulesLoop ls ps ids before rs = (Inr (), rs)"
proof (induction rs arbitrary: ids before)
  case (Cons r rs)
  have n: "normalizeRoutingRule r = r" "rr_ID r \<noteq> []" "rule_ok ls ps r" using Cons.prems(1) by (auto simp: canon_rule_def)
  have id: "rr_ID r \<notin> ids" using Cons.prems(2,4) by auto
  have "place r \<notin> place ` set before" "place r \<notin> place ` set rs" using Cons.prems(3) by auto
  then have pl: "\<forall>e \<in> set before. place e \<noteq> place r" "\<forall>e \<in> set rs. place e \<noteq> place r" by (metis imageI)+
  have "normalizeRulesLoop ls ps (insert (rr_ID r) ids) (before @ [r]) rs = (Inr (), rs)"
    using Cons.prems by (intro Cons.IH) auto
  moreover have "validateRoutingRuleLocked ls ps (before @ r # rs) r (rr_ID r) = Inr ()"
    using n(3) pl by (auto simp: validateRoutingRuleLocked_iff same_place_place)
  ultimately show ?case using n id by (simp add: Let_def)
qed simp

lemma distinct_listenerURLs:
  "\<forall>l \<in> set ls. canon_listener l \<Longrightarrow> distinct (map endpoint ls) \<Longrightarrow> distinct (map listenerURL ls)"
  unfolding distinct_map inj_on_def canon_listener_def
  using listenerURL_inj sameListener_endpoint by metis

lemma normalizeResourcesLocked_id:
  assumes "wf_res s" "\<forall>r \<in> set (st_routingRules s). canon_rule r"
  shows "normalizeResourcesLocked s = (Inr (), s)"
proof -
  have "normalizeListenersLoop {} {} (st_listeners s) = (Inr (), st_listeners s)"
    using assms(1) distinct_listenerURLs by (intro normalizeListenersLoop_id) (auto simp: wf_res_def wf_resources_def)
  moreover have "normalizePoolsLoop {} {} (st_backendPools s) = (Inr (), st_backendPools s)"
    using assms(1) by (intro normalizePoolsLoop_id) (auto simp: wf_res_def wf_resources_def)
  moreover have "normalizeRulesLoop (st_listeners s) (st_backendPools s) {} [] (st_routingRules s) = (Inr (), st_routingRules s)"
    using assms by (intro normalizeRulesLoop_id) (auto simp: wf_res_def wf_resources_def)
  ultimately show ?thesis by (simp add: normalizeResourcesLocked_def)
qed

section \<open>Restart\<close>

text \<open>
  What a restart forgets is the runtime errors and the staged flag. The applied snapshot of a store is
  \<open>loadable\<close> when its resources are well-formed, canonical and compile to its routes; the reconciler
  marks nothing else as applied.
\<close>

definition loadable :: "Snapshot \<Rightarrow> bool" where
  "loadable snap \<longleftrightarrow> set_Version (sn_Resources snap) = ResourceSetVersion \<and>
     wf_resources (set_Listeners (sn_Resources snap)) (set_BackendPools (sn_Resources snap)) (set_RoutingRules (sn_Resources snap)) \<and>
     (\<forall>r \<in> set (set_RoutingRules (sn_Resources snap)). canon_rule r) \<and>
     compileRoutes (set_Listeners (sn_Resources snap)) (set_BackendPools (sn_Resources snap))
       (set_RoutingRules (sn_Resources snap)) = Inr (sn_Routes snap)"

definition forget_runtime :: "Store \<Rightarrow> Store" where
  "forget_runtime s =
     s\<lparr>st_staged := False, st_routingRules := clear_errors (st_routingRules s),
       st_routes := map (\<lambda>r. r\<lparr>rc_LastError := []\<rparr>) (st_routes s),
       st_applied := (st_applied s)\<lparr>
         sn_Resources := (sn_Resources (st_applied s))\<lparr>set_RoutingRules := clear_errors (set_RoutingRules (sn_Resources (st_applied s)))\<rparr>,
         sn_Routes := map (\<lambda>r. r\<lparr>rc_LastError := []\<rparr>) (sn_Routes (st_applied s))\<rparr>\<rparr>"

lemma ReplaceResources_fresh:
  assumes "set_Version rs = ResourceSetVersion" "set_RoutingRules rs = clear_errors rules"
    and "wf_resources (set_Listeners rs) (set_BackendPools rs) (set_RoutingRules rs)"
    and "\<forall>r \<in> set (set_RoutingRules rs). canon_rule r"
    and "compileRoutes (set_Listeners rs) (set_BackendPools rs) (set_RoutingRules rs) = Inr routes"
  shows "\<exists>aw. ReplaceResources env rs \<lparr>w_store = NewStore [], w_disk = Absent\<rparr> = (Inr (), aw) \<and>
    DesiredSnapshot (w_store aw) = \<lparr>sn_Resources = rs, sn_Routes = routes, sn_Revision = 1\<rparr>"
proof -
  let ?w = "install False rs \<lparr>w_store = NewStore [], w_disk = Absent\<rparr>"
  have st: "st_listeners (w_store ?w) = set_Listeners rs" "st_backendPools (w_store ?w) = set_BackendPools rs"
    "st_routingRules (w_store ?w) = set_RoutingRules rs" "st_staged (w_store ?w) = False"
    "st_path (w_store ?w) = []" "st_revision (w_store ?w) = 0"
    using assms(2) by (simp_all add: install_def NewStore_def)
  have n: "normalizeResourcesLocked (w_store ?w) = (Inr (), w_store ?w)"
    using assms(3,4) by (intro normalizeResourcesLocked_id) (simp_all add: wf_res_def st)
  have "on_store normalizeResourcesLocked ?w = (Inr (), ?w)" by (simp add: on_store_def n)
  moreover have "\<lparr>set_Version = ResourceSetVersion, set_Listeners = set_Listeners rs,
      set_BackendPools = set_BackendPools rs, set_RoutingRules = set_RoutingRules rs\<rparr> = rs"
    using assms(1) by (cases rs) simp
  moreover have "st_path (NewStore []) = []" by (simp add: NewStore_def)
  ultimately show ?thesis using assms(1,5)
    by (simp add: ReplaceResources_def or_restore_def commit_cases Let_def st DesiredSnapshot_def desiredSnapshotLocked_def)
qed

lemma load_saved:
  assumes path: "st_path s \<noteq> []" and wf: "wf_store s" and canon: "\<forall>r \<in> set (st_routingRules s). canon_rule r"
    and applied: "loadable (st_applied s)" "sn_Revision (st_applied s) \<le> st_revision s"
  shows "Load env \<lparr>w_store = NewStore (st_path s), w_disk = Holds (fileOf s)\<rparr> =
    (Inr (), \<lparr>w_store = forget_runtime s, w_disk = Holds (fileOf s)\<rparr>)"
proof -
  let ?f = "fileOf s"
  let ?rs = "clear_errors (st_routingRules s)"
  let ?routes = "map (\<lambda>r. r\<lparr>rc_LastError := []\<rparr>) (st_routes s)"
  define s1 where "s1 = (NewStore (st_path s))\<lparr>st_listeners := st_listeners s,
    st_backendPools := st_backendPools s, st_routingRules := ?rs, st_routes := []\<rparr>"
  have c: "compileRoutes (st_listeners s) (st_backendPools s) ?rs = Inr ?routes"
    using wf by (intro compile_clear_errors) (simp add: wf_store_def)
  have n: "normalizeResourcesLocked s1 = (Inr (), s1)"
    using wf canon by (intro normalizeResourcesLocked_id)
      (simp_all add: s1_def wf_res_def wf_store_def wf_clear_errors canon_clear_errors)
  have hr: "has_resources ?f" "\<not> ff_Version ?f < 3" by (simp_all add: has_resources_def fileOf_def)
  have lr: "loadResources env ?f (NewStore (st_path s)) = (Inr (), s1\<lparr>st_routes := ?routes\<rparr>)"
  proof -
    have "(NewStore (st_path s))\<lparr>st_listeners := [], st_backendPools := [], st_routingRules := [], st_routes := []\<rparr>\<lparr>
        st_listeners := ff_Listeners ?f, st_backendPools := ff_BackendPools ?f, st_routingRules := ff_RoutingRules ?f\<rparr> = s1"
      by (simp add: s1_def fileOf_def persisted_rules)
    moreover have "rebuildRoutesLocked s1 = (Inr (), s1\<lparr>st_routes := ?routes\<rparr>)"
      using c by (simp add: rebuildRoutesLocked_def s1_def)
    ultimately show ?thesis using n hr by (simp add: loadResources_def Let_def)
  qed
  let ?ap = "st_applied s"
  let ?set = "persisted_set (sn_Resources ?ap)"
  have "\<exists>aw. ReplaceResources env ?set \<lparr>w_store = NewStore [], w_disk = Absent\<rparr> = (Inr (), aw) \<and>
    DesiredSnapshot (w_store aw) = \<lparr>sn_Resources = ?set,
      sn_Routes = map (\<lambda>r. r\<lparr>rc_LastError := []\<rparr>) (sn_Routes ?ap), sn_Revision = 1\<rparr>"
    using applied(1)
    by (intro ReplaceResources_fresh [where rules = "set_RoutingRules (sn_Resources ?ap)"])
      (simp_all add: loadable_def persisted_set_def persisted_rules wf_clear_errors canon_clear_errors compile_clear_errors)
  then obtain aw where aw: "ReplaceResources env ?set \<lparr>w_store = NewStore [], w_disk = Absent\<rparr> = (Inr (), aw)"
    "DesiredSnapshot (w_store aw) = \<lparr>sn_Resources = ?set,
      sn_Routes = map (\<lambda>r. r\<lparr>rc_LastError := []\<rparr>) (sn_Routes ?ap), sn_Revision = 1\<rparr>" by blast
  have la: "loadApplied env ?f (s1\<lparr>st_routes := ?routes\<rparr>) = (Inr (), forget_runtime s)"
    using aw applied(2)
    by (simp add: loadApplied_def fileOf_def Let_def s1_def forget_runtime_def NewStore_def persisted_set_def persisted_rules)
  show ?thesis using path hr lr la
    by (simp add: Load_def on_store_def or_restore_def Let_def NewStore_def fileOf_def)
qed

section \<open>What a commit writes\<close>

lemma word_less_succ: "x \<noteq> - 1 \<Longrightarrow> x < x + 1" for x :: "64 word"
proof -
  assume "x \<noteq> - 1"
  then have "1 + x \<noteq> 0" by (metis add.commute add_eq_0_iff)
  then have "unat (1 + x) = Suc (unat x)" by (rule unatSuc)
  then show ?thesis by (simp add: word_less_nat_alt add.commute)
qed

text \<open>The operations that end in \<open>commitLocked\<close>.\<close>

fun commits :: "routing_op \<Rightarrow> bool" where
  "commits (OpStageResources _) = False"
| "commits (OpMarkApplied _) = False"
| "commits OpPersistStaged = False"
| "commits OpLoad = False"
| "commits (OpSetStatus _) = False"
| "commits _ = True"

text \<open>The fields a locked helper does not touch.\<close>

definition frame :: "Store \<Rightarrow> string \<times> 64 word \<times> Snapshot" where
  "frame s = (st_path s, st_revision s, st_applied s)"

lemma frame_updates [simp]:
  "frame (s\<lparr>st_listeners := a\<rparr>) = frame s" "frame (s\<lparr>st_backendPools := b\<rparr>) = frame s"
  "frame (s\<lparr>st_routingRules := c\<rparr>) = frame s" "frame (s\<lparr>st_routes := d\<rparr>) = frame s"
  "frame (s\<lparr>st_staged := x\<rparr>) = frame s" "frame (pruneCompatibilityResourcesLocked r s) = frame s"
  by (simp_all add: frame_def pruneCompatibilityResourcesLocked_def Let_def)

lemma frame_fields: "frame s = frame t \<Longrightarrow> st_path s = st_path t \<and> st_revision s = st_revision t \<and> st_applied s = st_applied t"
  by (simp add: frame_def)

lemma migrate_frame: "migrateRouteLocked clk route s = (Inr r, s') \<Longrightarrow> frame s' = frame s \<and> st_staged s' = st_staged s"
  by (auto simp: migrateRouteLocked_def Let_def res_simps split: option.splits dest!: add_ok rebuild_res)

lemma normalizeResources_frame:
  "frame (snd (normalizeResourcesLocked s)) = frame s \<and> st_staged (snd (normalizeResourcesLocked s)) = st_staged s"
  by (auto simp: normalizeResourcesLocked_def and_then_def split: prod.splits sum.splits)

lemma normalizeResources_frame':
  "normalizeResourcesLocked s = (r, s') \<Longrightarrow> frame s' = frame s \<and> st_staged s' = st_staged s"
  using normalizeResources_frame [of s] by simp

definition commit_of :: "Env \<Rightarrow> World \<Rightarrow> World \<Rightarrow> bool \<Rightarrow> bool" where
  "commit_of env w w' staged \<longleftrightarrow>
     (\<exists>snap s1. commitLocked env snap (w\<lparr>w_store := s1\<rparr>) = (Inr (), w') \<and> frame s1 = frame (w_store w) \<and> st_staged s1 = staged)"

lemma commit_ofI:
  "commitLocked env snap (w\<lparr>w_store := s1\<rparr>) = (Inr (), w') \<Longrightarrow> frame s1 = frame (w_store w) \<Longrightarrow> st_staged s1 = st \<Longrightarrow>
   commit_of env w w' st"
  by (auto simp: commit_of_def)

named_theorems via_commit

lemma add_commit [via_commit]:
  "AddListener env l w = (Inr x, w') \<Longrightarrow> commit_of env w w' (st_staged (w_store w))"
  "AddBackendPool env p w = (Inr y, w') \<Longrightarrow> commit_of env w w' (st_staged (w_store w))"
  "AddRoutingRule env r w = (Inr z, w') \<Longrightarrow> commit_of env w w' (st_staged (w_store w))"
  by (auto simp: AddListener_def AddBackendPool_def AddRoutingRule_def Let_def res_simps
      dest!: add_ok elim!: commit_ofI)

lemma replace_commit [via_commit]:
  "ReplaceListener env l w = (Inr x, w') \<Longrightarrow> commit_of env w w' (st_staged (w_store w))"
  "ReplaceBackendPool env p w = (Inr y, w') \<Longrightarrow> commit_of env w w' (st_staged (w_store w))"
  "ReplaceRoutingRule env r w = (Inr z, w') \<Longrightarrow> commit_of env w w' (st_staged (w_store w))"
  by (auto simp: ReplaceListener_def ReplaceBackendPool_def ReplaceRoutingRule_def Let_def res_simps
      split: if_splits prod.splits elim!: commit_ofI)

lemma delete_commit [via_commit]:
  "DeleteListener env i w = (Inr u, w') \<Longrightarrow> commit_of env w w' (st_staged (w_store w))"
  "DeleteBackendPool env i w = (Inr u, w') \<Longrightarrow> commit_of env w w' (st_staged (w_store w))"
  "DeleteRoutingRule env i w = (Inr u, w') \<Longrightarrow> commit_of env w w' (st_staged (w_store w))"
  by (auto simp: DeleteListener_def DeleteBackendPool_def DeleteRoutingRule_def Let_def res_simps
      split: if_splits prod.splits elim!: commit_ofI)

lemma route_commit [via_commit]:
  "addCompatibilityRoute env route w = (Inr x, w') \<Longrightarrow> commit_of env w w' (st_staged (w_store w))"
  "replaceCompatibilityRoute env route w = (Inr x, w') \<Longrightarrow> commit_of env w w' (st_staged (w_store w))"
  "deleteCompatibilityRoute env i w = (Inr u, w') \<Longrightarrow> commit_of env w w' (st_staged (w_store w))"
proof -
  have m: "migrateRouteLocked clk r s = (Inr c, s1) \<Longrightarrow> frame s = frame (w_store w) \<Longrightarrow> st_staged s = st_staged (w_store w) \<Longrightarrow>
      commitLocked env snap (w\<lparr>w_store := s1\<rparr>) = (Inr (), w') \<Longrightarrow> commit_of env w w' (st_staged (w_store w))" for clk r s c s1 snap
    by (drule migrate_frame) (auto elim!: commit_ofI)
  have p: "st_staged (pruneCompatibilityResourcesLocked r s) = st_staged s" for r s
    by (simp add: pruneCompatibilityResourcesLocked_def Let_def)
  show "addCompatibilityRoute env route w = (Inr x, w') \<Longrightarrow> commit_of env w w' (st_staged (w_store w))"
    by (auto simp: addCompatibilityRoute_def Let_def res_simps elim!: m)
  show "replaceCompatibilityRoute env route w = (Inr x, w') \<Longrightarrow> commit_of env w w' (st_staged (w_store w))"
    by (auto simp: replaceCompatibilityRoute_def Let_def res_simps p split: if_splits option.splits elim!: m)
  show "deleteCompatibilityRoute env i w = (Inr u, w') \<Longrightarrow> commit_of env w w' (st_staged (w_store w))"
    by (auto simp: deleteCompatibilityRoute_def Let_def p split: option.splits elim!: commit_ofI)
qed

lemma install_frame [simp]:
  "frame (w_store (install b rs w)) = frame (w_store w)" "st_staged (w_store (install b rs w)) = b"
  "(install b rs w)\<lparr>w_store := s\<rparr> = w\<lparr>w_store := s\<rparr>"
  by (simp_all add: install_def)

lemma ReplaceResources_commit:
  "ReplaceResources env rs w = (Inr (), w') \<Longrightarrow> commit_of env w w' False"
  by (auto simp: ReplaceResources_def Let_def res_simps split: if_splits
      dest!: normalizeResources_frame' elim!: commit_ofI)

lemma run_op_commits:
  assumes "run_op env oper w = (Inr (), w')" "commits oper"
  shows "\<exists>st. commit_of env w w' st"
  using assms by (cases oper) (auto simp: res_simps dest: via_commit ReplaceResources_commit)

lemma commit_of_effect:
  assumes "commit_of env w w' st"
  shows "st_revision (w_store w') = st_revision (w_store w) + 1" "st_applied (w_store w') = st_applied (w_store w)"
    "st_path (w_store w') = st_path (w_store w)" "st_staged (w_store w') = st"
    "w_disk w' = (if st \<or> st_path (w_store w) = [] then w_disk w else Holds (fileOf (w_store w')))"
  using assms unfolding commit_of_def by (auto dest!: commit_ok frame_fields)

end
