(* ===== verification/RouteProperties.thy ===== *)
theory RouteProperties
  imports RoutePersistence "HOL-Library.Code_Target_Numeral"
begin

text \<open>
  The properties of the routing store, each with a run of the model that shows its hypotheses can hold.
  The runs start from the example resources below: an HTTPS listener, a pool of two targets of which one
  is an IPv6 address, and a protected rule under a path.
\<close>

section \<open>Example resources\<close>

definition no_route_security :: RouteSecurityConfig where
  "no_route_security = \<lparr>rs_Disabled = False, rs_MaxRequestBodyBytes = 0, rs_AdditionalDeniedMethods = [],
     rs_AdditionalDeniedPathPrefixes = [], rs_AllowedCIDRs = [], rs_BlockedCIDRs = []\<rparr>"

definition shop_listener :: Listener where
  "shop_listener = \<lparr>ln_ID = ''l1'', ln_Name = ''shop'', ln_Hostname = ''Shop.Example.com.'', ln_Port = 0,
     ln_Protocol = ''https'', ln_Source = [], ln_LastUpdated = 0\<rparr>"

definition shop_pool :: BackendPool where
  "shop_pool = \<lparr>bp_ID = ''p1'', bp_Name = ''web'', bp_Targets =
      [\<lparr>bt_Name = [], bt_Address = ''10.0.0.4'', bt_Port = 0, bt_HealthPath = []\<rparr>,
       \<lparr>bt_Name = ''b'', bt_Address = ''[::1]'', bt_Port = 9000, bt_HealthPath = ''/up''\<rparr>],
     bp_Source = [], bp_LastUpdated = 0\<rparr>"

definition shop_rule :: RoutingRule where
  "shop_rule = \<lparr>rr_ID = ''r1'', rr_Name = ''shop'', rr_ListenerID = ''l1'', rr_BackendPoolID = ''p1'',
     rr_BackendPort = 8080, rr_BackendProtocol = [], rr_PathPrefix = ''/api/'', rr_HealthPath = ''/ok'',
     rr_Exposure = ''Protected'', rr_Enabled = True, rr_WebSocket = False, rr_Headers = [],
     rr_Security = no_route_security, rr_Source = [], rr_LastError = [], rr_LastUpdated = 0\<rparr>"

definition good_env :: Env where
  "good_env = \<lparr>e_clock = (\<lambda>k. 7), e_write = None\<rparr>"

definition full_disk :: Env where
  "full_disk = \<lparr>e_clock = (\<lambda>k. 7), e_write = Some ''no space left on device''\<rparr>"

definition fresh_world :: World where
  "fresh_world = \<lparr>w_store = NewStore ''routes.json'', w_disk = Absent\<rparr>"

fun run_ops :: "Env \<Rightarrow> routing_op list \<Rightarrow> World \<Rightarrow> World" where
  "run_ops env [] w = w"
| "run_ops env (oper # rest) w = run_ops env rest (snd (run_op env oper w))"

definition shop_world :: World where
  "shop_world = run_ops good_env [OpAddListener shop_listener, OpAddPool shop_pool, OpAddRule shop_rule] fresh_world"

text \<open>The state the three operations lead to, evaluated once.\<close>

definition shop_store :: Store where
  "shop_store = \<lparr>st_path = ''routes.json'', st_staged = False, st_revision = 3, st_applied = \<lparr>sn_Resources =
     \<lparr>set_Version = 2, set_Listeners = [], set_BackendPools = [], set_RoutingRules = []\<rparr>, sn_Routes = [],
     sn_Revision = 0\<rparr>, st_listeners = [\<lparr>ln_ID = ''l1'', ln_Name = ''shop'', ln_Hostname =
     ''shop.example.com'', ln_Port = 443, ln_Protocol = ''https'', ln_Source = ''explicit'', ln_LastUpdated = 7\<rparr>],
     st_backendPools = [\<lparr>bp_ID = ''p1'', bp_Name = ''web'', bp_Targets = [\<lparr>bt_Name = [], bt_Address =
     ''10.0.0.4'', bt_Port = 0, bt_HealthPath = []\<rparr>, \<lparr>bt_Name = ''b'', bt_Address = ''::1'', bt_Port = 9000,
     bt_HealthPath = ''/up''\<rparr>], bp_Source = ''explicit'', bp_LastUpdated = 7\<rparr>], st_routingRules =
     [\<lparr>rr_ID = ''r1'', rr_Name = ''shop'', rr_ListenerID = ''l1'', rr_BackendPoolID = ''p1'', rr_BackendPort = 8080,
     rr_BackendProtocol = ''http'', rr_PathPrefix = ''/api'', rr_HealthPath = ''/ok'', rr_Exposure = ''protected'',
     rr_Enabled = True, rr_WebSocket = False, rr_Headers = [], rr_Security = \<lparr>rs_Disabled = False,
     rs_MaxRequestBodyBytes = 0, rs_AdditionalDeniedMethods = [], rs_AdditionalDeniedPathPrefixes = [], rs_AllowedCIDRs =
     [], rs_BlockedCIDRs = []\<rparr>, rr_Source = ''explicit'', rr_LastError = [], rr_LastUpdated = 7\<rparr>], st_routes
     = [\<lparr>rc_ID = ''r1'', rc_Name = ''shop'', rc_Host = ''shop.example.com'', rc_ListenerID = ''l1'', rc_ListenerName
     = ''shop'', rc_ListenerPort = 443, rc_ListenerProtocol = ''https'', rc_BackendPoolID = ''p1'', rc_BackendPoolName =
     ''web'', rc_PathPrefix = ''/api'', rc_Exposure = ''protected'', rc_Enabled = True, rc_Public = True, rc_HTTPS = True,
     rc_WebSocket = False, rc_Protected = True, rc_Source = ''explicit'', rc_Headers = [], rc_Security =
     \<lparr>rs_Disabled = False, rs_MaxRequestBodyBytes = 0, rs_AdditionalDeniedMethods = [],
     rs_AdditionalDeniedPathPrefixes = [], rs_AllowedCIDRs = [], rs_BlockedCIDRs = []\<rparr>, rc_Upstreams =
     [\<lparr>up_Name = ''web'', up_URL = ''http://10.0.0.4:8080'', up_HealthPath = ''/ok''\<rparr>, \<lparr>up_Name =
     ''b'', up_URL = ''http://[::1]:9000'', up_HealthPath = ''/up''\<rparr>], rc_Discovered = False, rc_LastError = [],
     rc_LastUpdated = 7\<rparr>]\<rparr>"

lemma shop_world_value [code]: "shop_world = \<lparr>w_store = shop_store, w_disk = Holds (fileOf shop_store)\<rparr>"
  by code_simp

lemma shop_delete: "fst (run_op good_env (OpDeleteRule ''r1'') shop_world) = Inr ()"
  by code_simp

lemma shop_world_reachable: "reachable shop_world"
proof -
  have step: "reachable w \<Longrightarrow> reachable (snd (run_op env oper w))" for w env oper
    using reachable.step [of w env oper] by (cases "run_op env oper w") auto
  have "reachable fresh_world" unfolding fresh_world_def by (rule reachable.start)
  then show ?thesis unfolding shop_world_def run_ops.simps by (intro step)
qed

section \<open>Properties of the store\<close>

text \<open>
  C1: every exported operation of the store that returns an error leaves the store and its file as they
  were, whatever the error and wherever in the operation it arises: validation, a conflict, a rule that does
  not compile, or the write of the file after the resources have been changed in memory.
\<close>

theorem failed_operation_changes_nothing:
  "run_op env oper w = (Inl e, w') \<Longrightarrow> w' = w"
  by (rule run_op_atomic)

lemma failed_operation_changes_nothing_witness:
  "\<exists>w'. run_op full_disk (OpAddListener shop_listener) fresh_world = (Inl ''no space left on device'', w') \<and> w' = fresh_world"
proof -
  have "fst (run_op full_disk (OpAddListener shop_listener) fresh_world) = Inl ''no space left on device''"
    by code_simp
  then obtain w' where w': "run_op full_disk (OpAddListener shop_listener) fresh_world = (Inl ''no space left on device'', w')"
    by (cases "run_op full_disk (OpAddListener shop_listener) fresh_world") auto
  from failed_operation_changes_nothing [OF this] w' show ?thesis by blast
qed

text \<open>
  C2: in every reachable store the listeners, pools and rules are valid, identifiers, endpoints, pool names
  and the listener and path of the rules are unique, every rule refers to a listener and a pool that
  exist, and the served routes are exactly what the rules compile to.
\<close>

theorem reachable_store_consistent:
  assumes "reachable w"
  shows "wf_resources (st_listeners (w_store w)) (st_backendPools (w_store w)) (st_routingRules (w_store w)) \<and>
    compileRoutes (st_listeners (w_store w)) (st_backendPools (w_store w)) (st_routingRules (w_store w)) =
      Inr (st_routes (w_store w))"
  using reachable_wf [OF assms] by (simp_all add: wf_store_def wf_res_def)

lemma reachable_store_consistent_witness:
  "wf_resources (st_listeners (w_store shop_world)) (st_backendPools (w_store shop_world)) (st_routingRules (w_store shop_world)) \<and>
   map rr_ID (st_routingRules (w_store shop_world)) = [''r1'']"
proof
  show "map rr_ID (st_routingRules (w_store shop_world)) = [''r1'']" by code_simp
qed (use reachable_store_consistent [OF shop_world_reachable] in blast)

text \<open>
  C16: in every reachable store, when two of the compiled routes answer the same host, port, protocol and path prefix, then the
  stored prefix of one of their rules is not in normal form, that is, normalising it once more changes it (as
  for the accepted prefix \<open>'/a /'\<close>, which is stored as \<open>'/a '\<close>). Otherwise the proxy never has to choose
  between two routes.
\<close>

theorem reachable_routes_separated:
  assumes "reachable w" "i < length (st_routes (w_store w))" "j < length (st_routes (w_store w))" "i \<noteq> j"
    and "route_place (st_routes (w_store w) ! i) = route_place (st_routes (w_store w) ! j)"
  shows "\<exists>k \<in> {i, j}. k < length (st_routingRules (w_store w)) \<and>
    normalizePathPrefix (rr_PathPrefix (st_routingRules (w_store w) ! k)) \<noteq> rr_PathPrefix (st_routingRules (w_store w) ! k)"
proof (rule ccontr)
  let ?rs = "st_routingRules (w_store w)" and ?routes = "st_routes (w_store w)" and ?ls = "st_listeners (w_store w)"
  let ?ps = "st_backendPools (w_store w)"
  have wf: "wf_resources ?ls ?ps ?rs" and c: "list_all2 (\<lambda>r route. compileRule ?ls ?ps r = Inr route) ?rs ?routes"
    using reachable_wf [OF assms(1)] by (simp_all add: wf_store_def wf_res_def compileRoutes_Inr)
  have len: "length ?rs = length ?routes" using c by (rule list_all2_lengthD)
  have listeners: "\<forall>l \<in> set ?ls. canon_listener l" "distinct (map endpoint ?ls)" "distinct (map place ?rs)"
    using wf by (simp_all add: wf_resources_def)
  assume "\<not> ?thesis"
  then have "\<exists>l \<in> set ?ls. ln_ID l = rr_ListenerID (?rs ! k) \<and> route_place (?routes ! k) = (endpoint l, rr_PathPrefix (?rs ! k))"
    if "k \<in> {i, j}" for k
    using that assms(2,3) c listeners(1) len by (intro compiled_route_place) (auto simp: list_all2_conv_all_nth)
  then obtain l l' where l: "l \<in> set ?ls" "ln_ID l = rr_ListenerID (?rs ! i)" "route_place (?routes ! i) = (endpoint l, rr_PathPrefix (?rs ! i))"
    and l': "l' \<in> set ?ls" "ln_ID l' = rr_ListenerID (?rs ! j)" "route_place (?routes ! j) = (endpoint l', rr_PathPrefix (?rs ! j))"
    by blast
  have "l = l'" using listeners(2) l(1,3) l'(1,3) assms(5) by (auto simp: distinct_map inj_on_def)
  then have "map place ?rs ! i = map place ?rs ! j" using l l' assms(2,3,5) len by (simp add: place_def)
  then show False using listeners(3) assms(2-4) len by (metis length_map nth_eq_iff_index_eq)
qed

text \<open>A rule for \<open>'/a'\<close> and one for \<open>'/a /'\<close> on the same listener.\<close>

definition twin_world :: World where
  "twin_world = run_ops good_env [OpAddRule (shop_rule\<lparr>rr_ID := ''r2'', rr_PathPrefix := ''/a''\<rparr>),
     OpAddRule (shop_rule\<lparr>rr_ID := ''r3'', rr_PathPrefix := ''/a /''\<rparr>)] shop_world"

lemma run_ops_reachable: "reachable w \<Longrightarrow> reachable (run_ops env opers w)"
proof (induction opers arbitrary: w)
  case (Cons oper opers)
  then show ?case using reachable.step [of w env oper] by (cases "run_op env oper w") auto
qed simp

lemma twin_world_reachable: "reachable twin_world"
  unfolding twin_world_def by (intro run_ops_reachable shop_world_reachable)

lemma reachable_routes_separated_witness:
  "route_place (st_routes (w_store twin_world) ! 1) = route_place (st_routes (w_store twin_world) ! 2) \<and>
   rr_PathPrefix (st_routingRules (w_store twin_world) ! 2) = ''/a '' \<and>
   (\<exists>k \<in> {1, 2}. normalizePathPrefix (rr_PathPrefix (st_routingRules (w_store twin_world) ! k)) \<noteq> rr_PathPrefix (st_routingRules (w_store twin_world) ! k))"
proof -
  have "(let s = w_store twin_world in length (st_routes s) = 3 \<and>
      route_place (st_routes s ! 1) = route_place (st_routes s ! 2) \<and> rr_PathPrefix (st_routingRules s ! 2) = ''/a '')" by code_simp
  then have twin: "length (st_routes (w_store twin_world)) = 3"
    "route_place (st_routes (w_store twin_world) ! 1) = route_place (st_routes (w_store twin_world) ! 2)"
    "rr_PathPrefix (st_routingRules (w_store twin_world) ! 2) = ''/a ''" by (simp_all add: Let_def)
  from reachable_routes_separated [OF twin_world_reachable _ _ _ twin(2)] twin show ?thesis by auto
qed

text \<open>
  Consistent resources whose rules are canonical always compile. A commit can therefore only fail on the
  file, never on the rules the store already holds.
\<close>

theorem canonical_resources_compile:
  assumes "wf_resources (st_listeners s) (st_backendPools s) (st_routingRules s)"
    and "\<forall>r \<in> set (st_routingRules s). normalizeRoutingRule r = r"
  shows "\<exists>routes. rebuildRoutesLocked s = (Inr (), s\<lparr>st_routes := routes\<rparr>)"
  using wf_compile_total [OF assms(1)] assms(2) by (auto simp: canon_rule_def rebuildRoutesLocked_def)

lemma canonical_resources_compile_witness:
  "\<exists>routes. rebuildRoutesLocked (w_store shop_world) = (Inr (), (w_store shop_world)\<lparr>st_routes := routes\<rparr>)"
proof (rule canonical_resources_compile)
  show "wf_resources (st_listeners (w_store shop_world)) (st_backendPools (w_store shop_world)) (st_routingRules (w_store shop_world))"
    using reachable_wf [OF shop_world_reachable] by (simp add: wf_store_def wf_res_def)
  have "list_all (\<lambda>r. normalizeRoutingRule r = r) (st_routingRules (w_store shop_world))" by code_simp
  then show "\<forall>r \<in> set (st_routingRules (w_store shop_world)). normalizeRoutingRule r = r" by (simp add: list_all_iff)
qed

text \<open>
  The desired snapshot of a reachable store whose rules are in normal form can be loaded again.
\<close>

lemma desired_loadable:
  assumes "reachable w" "\<forall>r \<in> set (st_routingRules (w_store w)). normalizeRoutingRule r = r"
  shows "loadable (DesiredSnapshot (w_store w))"
  using reachable_wf [OF assms(1)] assms(2)
  by (simp add: loadable_def DesiredSnapshot_def desiredSnapshotLocked_def wf_store_def wf_res_def canon_rule_def)

text \<open>
  C10: a reachable store that is restarted from the file it writes has the same listeners, pools, rules, routes,
  revision and applied snapshot as before; only the runtime errors and the staged flag are forgotten. The
  snapshot it holds as applied is one it had as its desired one earlier, and the rules of both are in normal form: the
  restart normalises them once more, which would change others (such as a rule for \<open>'/a /'\<close>).
\<close>

theorem restart_restores_the_store:
  assumes "reachable w" "st_path (w_store w) \<noteq> []" "\<forall>r \<in> set (st_routingRules (w_store w)). normalizeRoutingRule r = r"
    and "reachable earlier" "\<forall>r \<in> set (st_routingRules (w_store earlier)). normalizeRoutingRule r = r"
    and "AppliedSnapshot (w_store w) = DesiredSnapshot (w_store earlier)" "st_revision (w_store earlier) \<le> st_revision (w_store w)"
  shows "Load env \<lparr>w_store = NewStore (st_path (w_store w)), w_disk = Holds (fileOf (w_store w))\<rparr> =
    (Inr (), \<lparr>w_store = (w_store w)\<lparr>st_staged := False, st_routingRules := clear_errors (st_routingRules (w_store w)),
         st_routes := map (\<lambda>r. r\<lparr>rc_LastError := []\<rparr>) (st_routes (w_store w)),
         st_applied := (st_applied (w_store w))\<lparr>
           sn_Resources := (sn_Resources (st_applied (w_store w)))\<lparr>
             set_RoutingRules := clear_errors (set_RoutingRules (sn_Resources (st_applied (w_store w))))\<rparr>,
           sn_Routes := map (\<lambda>r. r\<lparr>rc_LastError := []\<rparr>) (sn_Routes (st_applied (w_store w)))\<rparr>\<rparr>,
       w_disk = Holds (fileOf (w_store w))\<rparr>)"
proof -
  have "loadable (st_applied (w_store w))" "sn_Revision (st_applied (w_store w)) \<le> st_revision (w_store w)"
    using desired_loadable [OF assms(4,5)] assms(6,7)
    by (simp_all add: AppliedSnapshot_def DesiredSnapshot_def desiredSnapshotLocked_def)
  with load_saved [of "w_store w" env] reachable_wf [OF assms(1)] assms(2,3) show ?thesis
    by (simp add: canon_rule_def forget_runtime_def)
qed

lemma restart_restores_the_store_witness:
  "st_routes (w_store (snd (Load good_env \<lparr>w_store = NewStore ''routes.json'', w_disk = Holds (fileOf (w_store shop_world))\<rparr>))) =
     st_routes (w_store shop_world) \<and> st_revision (w_store shop_world) = 3 \<and> length (st_routes (w_store shop_world)) = 1"
proof -
  have s: "st_path (w_store shop_world) = ''routes.json''" "st_revision (w_store shop_world) = 3" "length (st_routes (w_store shop_world)) = 1"
    "map (\<lambda>r. r\<lparr>rc_LastError := []\<rparr>) (st_routes (w_store shop_world)) = st_routes (w_store shop_world)" by code_simp+
  have canon: "list_all (\<lambda>r. normalizeRoutingRule r = r) (st_routingRules (w_store shop_world))" by code_simp
  have applied: "AppliedSnapshot (w_store shop_world) = DesiredSnapshot (w_store fresh_world)" by code_simp
  have fresh: "st_routingRules (w_store fresh_world) = []" "st_revision (w_store fresh_world) = 0" "reachable fresh_world"
    by (simp_all add: fresh_world_def NewStore_def reachable.start [unfolded NewStore_def])
  have "Load good_env \<lparr>w_store = NewStore (st_path (w_store shop_world)), w_disk = Holds (fileOf (w_store shop_world))\<rparr> =
      (Inr (), \<lparr>w_store = forget_runtime (w_store shop_world), w_disk = Holds (fileOf (w_store shop_world))\<rparr>)"
    unfolding forget_runtime_def
    by (rule restart_restores_the_store [OF shop_world_reachable _ _ fresh(3) _ applied])
      (use s(1) canon fresh in \<open>simp_all add: list_all_iff\<close>)
  with s show ?thesis by (simp add: forget_runtime_def)
qed

text \<open>
  An operation that changes the desired resources raises the revision by one and leaves the applied
  snapshot alone. Unless the store is staged or has no file, the file then holds exactly the new state; a
  staged store does not touch the file.
\<close>

theorem commit_updates_revision_and_file:
  assumes "run_op env oper w = (Inr (), w')" "commits oper"
  shows "st_revision (w_store w') = st_revision (w_store w) + 1 \<and>
    st_applied (w_store w') = st_applied (w_store w) \<and>
    w_disk w' = (if st_staged (w_store w') \<or> st_path (w_store w) = [] then w_disk w else Holds (fileOf (w_store w')))"
proof -
  obtain st where "commit_of env w w' st" using run_op_commits [OF assms] by blast
  from commit_of_effect [OF this] show ?thesis by auto
qed

lemma commit_updates_revision_and_file_witness:
  "\<exists>w'. run_op good_env (OpDeleteRule ''r1'') shop_world = (Inr (), w') \<and>
     w_disk w' = Holds (fileOf (w_store w')) \<and> st_revision (w_store w') = 4"
proof -
  obtain w' where w': "run_op good_env (OpDeleteRule ''r1'') shop_world = (Inr (), w')"
    using shop_delete by (cases "run_op good_env (OpDeleteRule ''r1'') shop_world") auto
  have "snd (run_op good_env (OpDeleteRule ''r1'') shop_world) = w'" using w' by simp
  moreover have "\<not> st_staged (w_store (snd (run_op good_env (OpDeleteRule ''r1'') shop_world)))"
    "st_path (w_store shop_world) \<noteq> []" "st_revision (w_store shop_world) = 3" by code_simp+
  ultimately show ?thesis using commit_updates_revision_and_file [OF w'] w' by simp
qed

text \<open>
  After an operation that changes the desired resources the store is pending, and it is no longer
  pending nor staged once the desired snapshot has been marked as applied; the file then records it. The
  counter has 64 bits, so the first half assumes it has not reached its last value.
\<close>

theorem pending_until_applied:
  assumes "run_op env oper w = (Inr (), w')" "commits oper"
    and "sn_Revision (st_applied (w_store w)) \<le> st_revision (w_store w)" "st_revision (w_store w) \<noteq> - 1"
    and "e_write env' = None" "st_path (w_store w) \<noteq> []"
  shows "Pending (w_store w') \<and>
    (\<exists>w''. MarkApplied env' (DesiredSnapshot (w_store w')) w' = (Inr (), w'') \<and>
       \<not> Pending (w_store w'') \<and> \<not> Staged (w_store w'') \<and>
       AppliedSnapshot (w_store w'') = DesiredSnapshot (w_store w'') \<and>
       w_disk w'' = Holds (fileOf (w_store w'')))"
proof -
  obtain st where c: "commit_of env w w' st" using run_op_commits [OF assms(1,2)] by blast
  note eff = commit_of_effect [OF c]
  have lt: "st_revision (w_store w) < st_revision (w_store w) + 1" using assms(4) by (rule word_less_succ)
  have "Pending (w_store w')" using lt assms(3) eff by (auto simp: Pending_def)
  moreover have "\<not> st_revision (w_store w') < sn_Revision (st_applied (w_store w'))"
    using lt assms(3) eff by (metis order.strict_trans1 order_less_not_sym)
  ultimately show ?thesis using assms(5,6) eff
    by (auto simp: MarkApplied_def Let_def saveLocked_def DesiredSnapshot_def desiredSnapshotLocked_def
        Pending_def Staged_def AppliedSnapshot_def fileOf_def)
qed

lemma pending_until_applied_witness:
  "Pending (w_store (snd (run_op good_env (OpDeleteRule ''r1'') shop_world))) \<and>
   (\<exists>w''. MarkApplied good_env (DesiredSnapshot (w_store (snd (run_op good_env (OpDeleteRule ''r1'') shop_world))))
       (snd (run_op good_env (OpDeleteRule ''r1'') shop_world)) = (Inr (), w'') \<and> \<not> Pending (w_store w''))"
proof -
  have run: "run_op good_env (OpDeleteRule ''r1'') shop_world =
      (Inr (), snd (run_op good_env (OpDeleteRule ''r1'') shop_world))" using shop_delete by (metis prod.collapse)
  have "sn_Revision (st_applied (w_store shop_world)) \<le> st_revision (w_store shop_world)"
    "st_revision (w_store shop_world) \<noteq> - 1" "st_path (w_store shop_world) \<noteq> []" "e_write good_env = None"
    by code_simp+
  with pending_until_applied [OF run] show ?thesis by simp blast
qed

end
