(* ===== verification/JsonModel.thy ===== *)
theory JsonModel
  imports GatewayModel "HOL-Library.AList"
begin

text \<open>
  JSON values as the Go code builds and reads them: a \<open>map[string]any\<close> is an association list of its
  keys, written with \<open>put\<close>. The marshaller sorts the keys, so their order says nothing.
\<close>

section \<open>Values and objects\<close>

datatype json =
    JStr string
  | JInt int
  | JFloat float64
  | JBool bool
  | JArr "json list"
  | JObj "(string \<times> json) list"

type_synonym jobj = "(string \<times> json) list"

definition jstrs :: "string list \<Rightarrow> json" where
  "jstrs xs = JArr (map JStr xs)"

definition put :: "string \<Rightarrow> json \<Rightarrow> jobj \<Rightarrow> jobj" where
  "put k v ob = AList.update k v ob"

lemma map_of_put [simp]: "map_of (put k v ob) = (map_of ob)(k \<mapsto> v)"
  by (simp add: put_def update_conv')

section \<open>Reading a field\<close>

definition arr_at :: "string \<Rightarrow> jobj \<Rightarrow> json list" where
  "arr_at k ob = (case map_of ob k of Some (JArr xs) \<Rightarrow> xs | _ \<Rightarrow> [])"

definition obj_at :: "string \<Rightarrow> jobj \<Rightarrow> jobj" where
  "obj_at k ob = (case map_of ob k of Some (JObj x) \<Rightarrow> x | _ \<Rightarrow> [])"

definition strs_at :: "string \<Rightarrow> jobj \<Rightarrow> string list" where
  "strs_at k ob = map (\<lambda>j. case j of JStr s \<Rightarrow> s | _ \<Rightarrow> []) (arr_at k ob)"

end
