(* ===== verification/CaddyConfig.thy ===== *)
theory CaddyConfig
  imports JsonModel "HOL-Library.Product_Lexorder"
begin

text \<open>
  Rendering the routes into a Caddy configuration, \<open>backend/internal/caddy/config.go\<close>. The
  configuration is the JSON value the renderer marshals: a \<open>map[string]any\<close> is an association list of
  its keys (the marshaller sorts them, so their order says nothing), written with \<open>put\<close>. Errors are
  their messages; the message of a failed \<open>url.Parse\<close> or \<open>net.SplitHostPort\<close> is cut after the value it
  quotes. What Caddy does with the configuration is outside the model.
\<close>

section \<open>Lists and headers\<close>

fun appendUniqueLoop :: "string list \<Rightarrow> string list \<Rightarrow> string list" where
  "appendUniqueLoop output [] = output"
| "appendUniqueLoop output (value # values) =
     (if value \<in> set output then appendUniqueLoop output values
      else appendUniqueLoop (output @ [value]) values)"

definition appendUnique :: "string list \<Rightarrow> string list \<Rightarrow> string list" where
  "appendUnique base values = appendUniqueLoop base values"

definition headerNameIn :: "string \<Rightarrow> string list \<Rightarrow> bool" where
  "headerNameIn name names \<longleftrightarrow> list_ex (\<lambda>candidate. EqualFold name candidate) names"

definition routePathMatchers :: "string \<Rightarrow> string list" where
  "routePathMatchers pathPrefix =
     (let prefix = TrimRight (TrimSpace pathPrefix) ''/'' in
      if prefix = [] then [''/*''] else [prefix, prefix @ ''/*''])"

definition intersectPathPrefixes :: "string \<Rightarrow> string \<Rightarrow> string option" where
  "intersectPathPrefixes left0 right0 =
     (let left = TrimRight (TrimSpace left0) ''/''; right = TrimRight (TrimSpace right0) ''/'' in
      if left = [] then Some right
      else if right = [] then Some left
      else if left = right \<or> HasPrefix left (right @ ''/'') then Some left
      else if HasPrefix right (left @ ''/'') then Some right
      else None)"

fun restrictedLoop :: "string \<Rightarrow> string list \<Rightarrow> string list \<Rightarrow> string list" where
  "restrictedLoop routePrefix output [] = output"
| "restrictedLoop routePrefix output (deniedPrefix # rest) =
     (case intersectPathPrefixes routePrefix deniedPrefix of
        None \<Rightarrow> restrictedLoop routePrefix output rest
      | Some restrictedPrefix \<Rightarrow>
          restrictedLoop routePrefix (appendUnique output (routePathMatchers restrictedPrefix)) rest)"

definition restrictedPathMatchers :: "string \<Rightarrow> string list \<Rightarrow> string list" where
  "restrictedPathMatchers routePrefix deniedPrefixes = restrictedLoop routePrefix [] deniedPrefixes"

section \<open>Credentials\<close>

definition authTokens :: "AuthConfig \<Rightarrow> string list" where
  "authTokens auth =
     (if TrimSpace (au_AdminToken auth) \<noteq> [] then [au_AdminToken auth] else []) @
     filter (\<lambda>token. TrimSpace token \<noteq> []) (au_AdminTokens auth)"

record headerPolicy =
  hp_name :: string
  hp_value :: string

definition protectedHeaderPolicies :: "AuthConfig \<Rightarrow> headerPolicy list" where
  "protectedHeaderPolicies auth =
     (let pr = au_ProtectedRoutes auth;
          fallback = (\<not> pr_AllowBearerToken pr \<and> \<not> pr_AllowAdminTokenHeader pr \<and>
            pr_AdditionalHeaderName pr = [] \<and> pr_AdditionalHeaderValue pr = []);
          allowBearer = (fallback \<or> pr_AllowBearerToken pr);
          allowAdminHeader = (fallback \<or> pr_AllowAdminTokenHeader pr)
      in concat (map (\<lambda>token.
             (if allowBearer then [\<lparr>hp_name = ''Authorization'', hp_value = ''Bearer '' @ token\<rparr>] else []) @
             (if allowAdminHeader then [\<lparr>hp_name = ''X-Admin-Token'', hp_value = token\<rparr>] else []))
           (authTokens auth)) @
         (if pr_AdditionalHeaderName pr \<noteq> [] \<and> pr_AdditionalHeaderValue pr \<noteq> []
          then [\<lparr>hp_name = pr_AdditionalHeaderName pr, hp_value = pr_AdditionalHeaderValue pr\<rparr>] else []))"

fun uniqueHeaderLoop :: "string set \<Rightarrow> headerPolicy list \<Rightarrow> string list" where
  "uniqueHeaderLoop seen [] = []"
| "uniqueHeaderLoop seen (policy # rest) =
     (let key = ToLower (hp_name policy) in
      if key \<in> seen then uniqueHeaderLoop seen rest
      else hp_name policy # uniqueHeaderLoop (insert key seen) rest)"

definition uniqueHeaderNames :: "headerPolicy list \<Rightarrow> string list" where
  "uniqueHeaderNames policies = uniqueHeaderLoop {} policies"

section \<open>One route\<close>

definition routeMatch :: "RouteConfig \<Rightarrow> jobj" where
  "routeMatch route =
     (let m0 = [(''host'', jstrs [rc_Host route])];
          m1 = (if rc_ListenerPort route > 0
                then put ''expression'' (JStr (''{http.request.local.port} == '' @ Itoa (rc_ListenerPort route))) m0 else m0);
          m2 = (if rc_ListenerProtocol route \<noteq> [] then put ''protocol'' (JStr (rc_ListenerProtocol route)) m1 else m1)
      in if rc_PathPrefix route \<noteq> [] then put ''path'' (jstrs (routePathMatchers (rc_PathPrefix route))) m2 else m2)"

definition log_append :: "string \<Rightarrow> string \<Rightarrow> json" where
  "log_append key value = JObj [(''handler'', JStr ''log_append''), (''key'', JStr key), (''value'', JStr value)]"

definition routeLogHandlers :: "RouteConfig \<Rightarrow> json list \<Rightarrow> json list" where
  "routeLogHandlers route final =
     (let lowered = ToLower (TrimSpace (rc_ListenerProtocol route));
          listenerProtocol = (if lowered = [] then (if rc_HTTPS route then ''https'' else ''http'') else lowered);
          fields = [(''route_id'', rc_ID route), (''route_name'', rc_Name route), (''route_host'', rc_Host route),
            (''route_path'', rc_PathPrefix route), (''listener_id'', rc_ListenerID route),
            (''listener_name'', rc_ListenerName route), (''listener_protocol'', listenerProtocol),
            (''listener_port'', ''{http.request.local.port}''), (''backend_pool_id'', rc_BackendPoolID route),
            (''backend_pool_name'', rc_BackendPoolName route)]
      in map (\<lambda>(key, value). log_append key value) (filter (\<lambda>(key, value). value \<noteq> []) fields) @ final)"

definition proxyHandlers :: "RouteConfig \<Rightarrow> int \<Rightarrow> json \<Rightarrow> json list" where
  "proxyHandlers route maxRequestBodyBytes proxy =
     routeLogHandlers route [] @
     (if maxRequestBodyBytes > 0
      then [JObj [(''handler'', JStr ''request_body''), (''max_size'', JInt maxRequestBodyBytes)]] else []) @
     [log_append ''upstream_host'' ''{http.reverse_proxy.upstream.host}'',
      log_append ''upstream_duration_ms'' ''{http.reverse_proxy.upstream.duration_ms}'',
      log_append ''upstream_latency_ms'' ''{http.reverse_proxy.upstream.latency_ms}'',
      proxy]"

text \<open>The loop over the configured headers, in the order the map is visited.\<close>

fun setHeaderLoop :: "string list \<Rightarrow> jobj \<Rightarrow> headers \<Rightarrow> jobj" where
  "setHeaderLoop strip st [] = st"
| "setHeaderLoop strip st ((name0, value) # rest) =
     (let name = TrimSpace name0 in
      if name = [] \<or> headerNameIn name strip then setHeaderLoop strip st rest
      else setHeaderLoop strip (put (if EqualFold name ''Host'' then ''Host'' else name) (jstrs [value]) st) rest)"

definition reverseProxyHandler :: "json list \<Rightarrow> bool \<Rightarrow> string list \<Rightarrow> headers \<Rightarrow> json" where
  "reverseProxyHandler upstreams useTLS stripHeaders setHeaders =
     (let h0 = [(''handler'', JStr ''reverse_proxy''), (''upstreams'', JArr upstreams)];
          h1 = (if useTLS then put ''transport'' (JObj [(''protocol'', JStr ''http''), (''tls'', JObj [])]) h0 else h0);
          r0 = (if stripHeaders \<noteq> [] then [(''delete'', jstrs stripHeaders)] else []);
          st = setHeaderLoop stripHeaders (if useTLS then [(''Host'', jstrs [''{http.request.hostport}''])] else []) setHeaders;
          r1 = (if st \<noteq> [] then put ''set'' (JObj st) r0 else r0)
      in JObj (if r1 \<noteq> [] then put ''headers'' (JObj [(''request'', JObj r1)]) h1 else h1))"

definition upstreamDial :: "string \<Rightarrow> string + (string \<times> bool)" where
  "upstreamDial raw =
     (case url_Parse raw of
        None \<Rightarrow> Inl (''parse '' @ Quote raw)
      | Some parsed \<Rightarrow>
          (if u_Host parsed = [] then Inl (''upstream '' @ Quote raw @ '' must include host'')
           else if ToLower (u_Scheme parsed) = ''http'' then Inr (u_Host parsed, False)
           else if ToLower (u_Scheme parsed) = ''https'' then Inr (u_Host parsed, True)
           else Inl (''upstream '' @ Quote raw @ '' must use http or https'')))"

text \<open>The loop over the upstreams: \<open>None\<close> is \<open>transportSet\<close> still false, \<open>Some useTLS\<close> the transport so far.\<close>

fun dialUpstreams :: "string \<Rightarrow> bool option \<Rightarrow> UpstreamTarget list \<Rightarrow> string + (bool option \<times> json list)" where
  "dialUpstreams rid transport [] = Inr (transport, [])"
| "dialUpstreams rid transport (upstream # rest) =
     (case upstreamDial (up_URL upstream) of
        Inl e \<Rightarrow> Inl (''route '' @ rid @ '': '' @ e)
      | Inr (dial, tls) \<Rightarrow>
          (if transport = Some (\<not> tls)
           then Inl (''route '' @ rid @ '': all upstreams must use the same http or https scheme'')
           else bind_res (dialUpstreams rid (Some tls) rest) (\<lambda>(t, dials).
             Inr (t, JObj [(''dial'', JStr dial)] # dials))))"

definition matchEntry :: "jobj \<Rightarrow> json list \<Rightarrow> json" where
  "matchEntry match handle = JObj [(''match'', JArr [JObj match]), (''handle'', JArr handle), (''terminal'', JBool True)]"

definition static_response :: "int \<Rightarrow> string \<Rightarrow> json" where
  "static_response status body =
     JObj [(''handler'', JStr ''static_response''), (''status_code'', JInt status), (''body'', JStr body)]"

definition nl :: string where
  "nl = [CHR 0x0A]"

definition securityRejection :: "RouteConfig \<Rightarrow> jobj \<Rightarrow> int \<Rightarrow> json" where
  "securityRejection route match status =
     matchEntry match (routeLogHandlers route [static_response status (''request blocked by gateway security policy'' @ nl)])"

definition remote_ip :: "string list \<Rightarrow> json" where
  "remote_ip ranges = JObj [(''ranges'', jstrs ranges)]"

definition renderSecurityEntries :: "RouteConfig \<Rightarrow> SecurityConfig \<Rightarrow> string + (json list \<times> int)" where
  "renderSecurityEntries route security =
     (if \<not> sc_Enabled security \<or> rs_Disabled (rc_Security route) then Inr ([], 0)
      else
        (let maxBytes = (if rs_MaxRequestBodyBytes (rc_Security route) \<noteq> 0
                         then rs_MaxRequestBodyBytes (rc_Security route) else sc_MaxRequestBodyBytes security) in
         if maxBytes < 0
         then Inl (''route '' @ rc_ID route @ '': security maxRequestBodyBytes must not be negative'')
         else
           (let base = routeMatch route;
                blocked = appendUnique (sc_BlockedCIDRs security) (rs_BlockedCIDRs (rc_Security route));
                blockedEntries = (if blocked \<noteq> [] then [securityRejection route (put ''remote_ip'' (remote_ip blocked) base) 403] else []);
                allowedEntries = map (\<lambda>allowed.
                    securityRejection route (put ''not'' (JArr [JObj [(''remote_ip'', remote_ip allowed)]]) base) 403)
                  (filter (\<lambda>allowed. allowed \<noteq> []) [sc_AllowedCIDRs security, rs_AllowedCIDRs (rc_Security route)]);
                methods = appendUnique (sc_DeniedMethods security) (rs_AdditionalDeniedMethods (rc_Security route));
                methodEntries = (if methods \<noteq> [] then [securityRejection route (put ''method'' (jstrs methods) base) 405] else []);
                denied = appendUnique (sc_DeniedPathPrefixes security) (rs_AdditionalDeniedPathPrefixes (rc_Security route));
                paths = restrictedPathMatchers (rc_PathPrefix route) denied;
                pathEntries = (if paths \<noteq> [] then [securityRejection route (put ''path'' (jstrs paths) base) 403] else [])
            in Inr (blockedEntries @ allowedEntries @ methodEntries @ pathEntries, maxBytes))))"

definition renderRoute :: "RouteConfig \<Rightarrow> AuthConfig \<Rightarrow> SecurityConfig \<Rightarrow> string list \<Rightarrow> string + json list" where
  "renderRoute route auth security ranges =
     bind_res (if rc_Exposure route = ''internal''
               then (if ranges = []
                     then Inl (''route '' @ rc_ID route @ '': internal route requires at least one source range'')
                     else Inr (put ''remote_ip'' (remote_ip ranges) (routeMatch route)))
               else Inr (routeMatch route)) (\<lambda>match.
     bind_res (dialUpstreams (rc_ID route) None (rc_Upstreams route)) (\<lambda>(transport, upstreams).
     bind_res (renderSecurityEntries route security) (\<lambda>(securityEntries, maxBytes).
     let useTLS = (transport = Some True); policies = protectedHeaderPolicies auth in
     if \<not> rc_Protected route then
       Inr (securityEntries @ [matchEntry match (proxyHandlers route maxBytes
              (reverseProxyHandler upstreams useTLS [] (rc_Headers route)))])
     else if policies = [] then
       Inr (securityEntries @ [matchEntry match (routeLogHandlers route
              [static_response 503 (''protected route policy is not configured'' @ nl)])])
     else
       Inr (securityEntries @
            map (\<lambda>header. matchEntry (put ''header'' (JObj [(hp_name header, jstrs [hp_value header])]) match)
                   (proxyHandlers route maxBytes
                     (reverseProxyHandler upstreams useTLS (uniqueHeaderNames policies) (rc_Headers route)))) policies @
            [matchEntry match (routeLogHandlers route
              [static_response 401 (''protected route requires gateway token'' @ nl)])]))))"

section \<open>Certificates\<close>

definition azureDNSProvider :: "AzureDNSChallengeConfig \<Rightarrow> jobj" where
  "azureDNSProvider cfg =
     (let p0 = [(''name'', JStr ''azure''), (''subscription_id'', JStr (ac_SubscriptionID cfg)),
                (''resource_group_name'', JStr (ac_ResourceGroup cfg))]
      in if ac_Authentication cfg = ''appregistration''
         then put ''client_secret'' (JStr (ac_ClientSecret cfg))
                (put ''client_id'' (JStr (ac_ClientID cfg)) (put ''tenant_id'' (JStr (ac_TenantID cfg)) p0))
         else p0)"

definition certificateIssuer :: "CertificateConfig \<Rightarrow> bool \<Rightarrow> jobj" where
  "certificateIssuer cfg dnsChallenge =
     (let issuer = ToLower (TrimSpace (ce_Issuer cfg));
          with_email = (\<lambda>ob. if ce_Email cfg \<noteq> [] then put ''email'' (JStr (ce_Email cfg)) ob else ob);
          output =
            (if issuer = ''zerossl'' then with_email [(''module'', JStr ''zerossl'')]
             else if issuer = ''custom'' then
               with_email (if ce_CADirectory cfg \<noteq> []
                 then put ''ca'' (JStr (ce_CADirectory cfg)) [(''module'', JStr ''acme'')] else [(''module'', JStr ''acme'')])
             else
               with_email (put ''ca'' (JStr
                 (if ce_Staging cfg then ''https://acme-staging-v02.api.letsencrypt.org/directory''
                  else if ce_CADirectory cfg \<noteq> [] then ce_CADirectory cfg
                  else ''https://acme-v02.api.letsencrypt.org/directory'')) [(''module'', JStr ''acme'')]))
      in if dnsChallenge
         then put ''challenges'' (JObj [(''dns'', JObj [(''provider'', JObj (azureDNSProvider (dc_Azure (ce_DNSChallenge cfg))))])]) output
         else output)"

definition applyRenewalWindow :: "jobj \<Rightarrow> float64 \<Rightarrow> jobj" where
  "applyRenewalWindow policy ratio =
     (if float_less (Finite 0) ratio \<and> float_less ratio (Finite 1)
      then put ''renewal_window_ratio'' (JFloat ratio) policy else policy)"

definition tlsAutomation :: "CertificateConfig \<Rightarrow> jobj option" where
  "tlsAutomation cfg =
     (let issuer = ToLower (TrimSpace (ce_Issuer cfg)) in
      if issuer = [] \<or> issuer = ''default'' then None
      else
        (let issuers = (\<lambda>dns. JArr [JObj (certificateIssuer cfg dns)]);
             policies =
               (if dc_Provider (ce_DNSChallenge cfg) \<noteq> [] \<and> ce_Subjects cfg \<noteq> []
                then [JObj (applyRenewalWindow [(''subjects'', jstrs (ce_Subjects cfg)), (''issuers'', issuers True)] (ce_RenewalWindowRatio cfg)),
                      JObj (applyRenewalWindow [(''issuers'', issuers False)] (ce_RenewalWindowRatio cfg))]
                else [JObj (applyRenewalWindow [(''issuers'', issuers False)] (ce_RenewalWindowRatio cfg))]);
             output = [(''automation'', JObj [(''policies'', JArr policies)])]
         in Some (if ce_Subjects cfg \<noteq> []
                  then put ''certificates'' (JObj [(''automate'', jstrs (ce_Subjects cfg))]) output else output)))"

definition wildcardCertificateCoversHost :: "string list \<Rightarrow> string \<Rightarrow> bool" where
  "wildcardCertificateCoversHost subjects host0 =
     (let host = TrimSuffix (ToLower (TrimSpace host0)) ''.'' in
      if host = [] \<or> HasPrefix host ''*.'' then False
      else list_ex (\<lambda>subject0.
             let subject = TrimSuffix (ToLower (TrimSpace subject0)) ''.'' in
             if \<not> HasPrefix subject ''*.'' then False
             else let prefix = TrimSuffix host (''.'' @ TrimPrefix subject ''*.'') in
                  prefix \<noteq> host \<and> prefix \<noteq> [] \<and> \<not> Contains prefix ''.'') subjects)"

section \<open>Listener addresses\<close>

definition wildcard_host :: "string \<Rightarrow> bool" where
  "wildcard_host h \<longleftrightarrow> h = [] \<or> h = ''0.0.0.0'' \<or> h = ''::''"

definition listenerAddressesOverlap :: "string \<Rightarrow> string \<Rightarrow> bool" where
  "listenerAddressesOverlap left right =
     (case (SplitHostPort left, SplitHostPort right) of
        (Some (leftHost, leftPort), Some (rightHost, rightPort)) \<Rightarrow>
          leftPort = rightPort \<and> (leftHost = rightHost \<or> wildcard_host leftHost \<or> wildcard_host rightHost)
      | _ \<Rightarrow> left = right)"

definition loopbackTarget :: "string \<Rightarrow> string" where
  "loopbackTarget listen =
     (case SplitHostPort listen of
        None \<Rightarrow> (if HasPrefix listen '':'' then ''127.0.0.1'' @ listen else listen)
      | Some (_, port) \<Rightarrow> JoinHostPort ''127.0.0.1'' port)"

definition listenerAddress :: "GatewayConfig \<Rightarrow> string \<Rightarrow> int \<Rightarrow> string" where
  "listenerAddress cfg protocol port =
     (let base = (if EqualFold protocol ''https'' then gw_HTTPSListen cfg else gw_HTTPListen cfg) in
      case SplitHostPort base of
        None \<Rightarrow> '':'' @ Itoa port
      | Some (host, _) \<Rightarrow> JoinHostPort host (Itoa port))"

definition adminListenFromEndpoint :: "string \<Rightarrow> string" where
  "adminListenFromEndpoint endpoint =
     (case url_Parse endpoint of
        None \<Rightarrow> ''127.0.0.1:2019''
      | Some parsed \<Rightarrow> (if u_Host parsed = [] then ''127.0.0.1:2019'' else u_Host parsed))"

section \<open>The order of the routes\<close>

text \<open>The comparison \<open>sort.SliceStable\<close> is given; strings compare byte by byte.\<close>

definition route_less :: "RouteConfig \<Rightarrow> RouteConfig \<Rightarrow> bool" where
  "route_less left right =
     (let leftHost = ToLower (rc_Host left); rightHost = ToLower (rc_Host right);
          leftWildcard = HasPrefix leftHost ''*.''; rightWildcard = HasPrefix rightHost ''*.''
      in if leftWildcard \<noteq> rightWildcard then \<not> leftWildcard
         else if leftHost \<noteq> rightHost then leftHost < rightHost
         else length (TrimRight (rc_PathPrefix left) ''/'') > length (TrimRight (rc_PathPrefix right) ''/''))"

text \<open>The same order as a key, so that the stable sort is \<open>sort_key\<close>.\<close>

definition route_key :: "RouteConfig \<Rightarrow> bool \<times> string \<times> int" where
  "route_key route =
     (HasPrefix (ToLower (rc_Host route)) ''*.'', ToLower (rc_Host route),
      - int (length (TrimRight (rc_PathPrefix route) ''/'')))"

definition sortRoutes :: "RouteConfig list \<Rightarrow> RouteConfig list" where
  "sortRoutes routes = sort_key route_key routes"

lemma route_less_key: "route_less l r \<longleftrightarrow> route_key l < route_key r"
  by (auto simp: route_less_def route_key_def Let_def less_prod_def')

section \<open>Servers\<close>

text \<open>The two maps of \<open>Render\<close>, keyed by listen address, and the redirects collected for the HTTP server.\<close>

record RenderState =
  rn_servers :: "(string \<times> jobj) list"
  rn_protocols :: "(string \<times> string) list"
  rn_redirects :: "json list"

definition new_server :: "string \<Rightarrow> string \<Rightarrow> jobj" where
  "new_server address protocol =
     (let s0 = [(''listen'', jstrs [address]), (''logs'', JObj []), (''routes'', JArr [])] in
      if protocol = ''http'' then put ''automatic_https'' (JObj [(''disable'', JBool True)]) s0
      else put ''tls_connection_policies'' (JArr [JObj []])
             (put ''automatic_https'' (JObj [(''disable_redirects'', JBool True)]) s0))"

text \<open>
  The closure \<open>ensureServer\<close>. It reports the first conflicting server it meets; Go visits the map in any
  order, which can only change which of several conflicts the message names.
\<close>

definition ensureServer :: "string \<Rightarrow> string \<Rightarrow> RenderState \<Rightarrow> string + RenderState" where
  "ensureServer address protocol st =
     (case find (\<lambda>(existing, existingProtocol). existingProtocol \<noteq> protocol \<and> listenerAddressesOverlap existing address)
             (rn_protocols st) of
        Some (existing, existingProtocol) \<Rightarrow>
          Inl (''listener '' @ address @ '' conflicts with '' @ existingProtocol @ '' on '' @ existing)
      | None \<Rightarrow>
          (if map_of (rn_servers st) address \<noteq> None then Inr st
           else Inr (st\<lparr>rn_protocols := AList.update address protocol (rn_protocols st),
                        rn_servers := AList.update address (new_server address protocol) (rn_servers st)\<rparr>)))"

definition on_server :: "string \<Rightarrow> (jobj \<Rightarrow> jobj) \<Rightarrow> RenderState \<Rightarrow> RenderState" where
  "on_server address f st =
     (case map_of (rn_servers st) address of
        None \<Rightarrow> st
      | Some server \<Rightarrow> st\<lparr>rn_servers := AList.update address (f server) (rn_servers st)\<rparr>)"

definition append_routes :: "json list \<Rightarrow> jobj \<Rightarrow> jobj" where
  "append_routes entries server = put ''routes'' (JArr (arr_at ''routes'' server @ entries)) server"

definition skip_certificate :: "string \<Rightarrow> jobj \<Rightarrow> jobj" where
  "skip_certificate host server =
     (let automatic = obj_at ''automatic_https'' server in
      put ''automatic_https'' (JObj (put ''skip_certificates''
        (jstrs (appendUnique (strs_at ''skip_certificates'' automatic) [host])) automatic)) server)"

definition route_protocol :: "RouteConfig \<Rightarrow> string" where
  "route_protocol route =
     (if rc_ListenerProtocol route = [] then (if rc_HTTPS route then ''https'' else ''http'') else rc_ListenerProtocol route)"

definition route_address :: "GatewayConfig \<Rightarrow> RouteConfig \<Rightarrow> string" where
  "route_address gw route =
     (if rc_ListenerPort route > 0 then listenerAddress gw (route_protocol route) (rc_ListenerPort route)
      else if route_protocol route = ''https'' then gw_HTTPSListen gw else gw_HTTPListen gw)"

definition redirectEntry :: "RouteConfig \<Rightarrow> string \<Rightarrow> json" where
  "redirectEntry route port =
     (let location = ''https://{http.request.host}'' @ (if port \<noteq> ''443'' then '':'' @ port else []);
          match = (if rc_PathPrefix route \<noteq> []
                   then put ''path'' (jstrs (routePathMatchers (rc_PathPrefix route))) [(''host'', jstrs [rc_Host route])]
                   else [(''host'', jstrs [rc_Host route])])
      in JObj [(''match'', JArr [JObj match]), (''terminal'', JBool True),
               (''handle'', JArr [JObj [(''handler'', JStr ''static_response''), (''status_code'', JInt 308),
                  (''headers'', JObj [(''Location'', jstrs [location @ ''{http.request.uri}''])])]])])"

text \<open>One iteration of the loop over the sorted routes.\<close>

definition renderStep :: "AppConfig \<Rightarrow> RouteConfig \<Rightarrow> RenderState \<Rightarrow> string + RenderState" where
  "renderStep cfg route st =
     (if \<not> rc_Enabled route then Inr st
      else
        (let gw = ap_Gateway cfg; protocol = route_protocol route; address = route_address gw route in
         if address = [] then Inl (''route '' @ rc_ID route @ '': no default '' @ protocol @ '' listener is configured'')
         else bind_res (ensureServer address protocol st) (\<lambda>st1.
           let st2 = (if protocol = ''https'' \<and> wildcardCertificateCoversHost (ce_Subjects (gw_Certificate gw)) (rc_Host route)
                      then on_server address (skip_certificate (rc_Host route)) st1 else st1) in
           bind_res (renderRoute route (ap_Auth cfg) (ap_Security cfg) (gw_InternalSourceRanges gw)) (\<lambda>entries.
           let st3 = on_server address (append_routes entries) st2 in
           if protocol = ''https'' \<and> gw_HTTPListen gw \<noteq> [] then
             (case SplitHostPort address of
                None \<Rightarrow> Inl (''listener '' @ address @ '': address '' @ address)
              | Some (_, port) \<Rightarrow> Inr (st3\<lparr>rn_redirects := rn_redirects st3 @ [redirectEntry route port]\<rparr>))
           else Inr st3))))"

fun renderLoop :: "AppConfig \<Rightarrow> RouteConfig list \<Rightarrow> RenderState \<Rightarrow> string + RenderState" where
  "renderLoop cfg [] st = Inr st"
| "renderLoop cfg (route # routes) st = bind_res (renderStep cfg route st) (renderLoop cfg routes)"

definition managementRoute :: "AppConfig \<Rightarrow> RouteConfig" where
  "managementRoute cfg =
     \<lparr>rc_ID = ''management-ui'', rc_Name = [], rc_Host = cc_ManagementHost (ap_Control cfg),
      rc_ListenerID = [], rc_ListenerName = [], rc_ListenerPort = 0, rc_ListenerProtocol = [],
      rc_BackendPoolID = [], rc_BackendPoolName = [], rc_PathPrefix = [], rc_Exposure = ''public'',
      rc_Enabled = True, rc_Public = True, rc_HTTPS = True, rc_WebSocket = False, rc_Protected = False,
      rc_Source = ''management'', rc_Headers = [],
      rc_Security = \<lparr>rs_Disabled = False, rs_MaxRequestBodyBytes = 0, rs_AdditionalDeniedMethods = [],
        rs_AdditionalDeniedPathPrefixes = [], rs_AllowedCIDRs = [], rs_BlockedCIDRs = []\<rparr>,
      rc_Upstreams = [\<lparr>up_Name = ''management-ui'', up_URL = ''http://'' @ loopbackTarget (cc_Listen (ap_Control cfg)),
        up_HealthPath = []\<rparr>],
      rc_Discovered = False, rc_LastError = [], rc_LastUpdated = - 62135596800000000000\<rparr>"

definition renderRoutes :: "AppConfig \<Rightarrow> RouteConfig list \<Rightarrow> string + RouteConfig list" where
  "renderRoutes cfg input =
     (if cc_ManagementHost (ap_Control cfg) \<noteq> [] then
        (if \<not> au_Required (ap_Auth cfg) \<or> authTokens (ap_Auth cfg) = []
         then Inl ''management host requires API authentication and an admin token''
         else Inr (sortRoutes (input @ [managementRoute cfg])))
      else Inr (sortRoutes input))"

text \<open>The state after the loop, with the redirects appended to the HTTP server.\<close>

definition renderServers :: "AppConfig \<Rightarrow> RouteConfig list \<Rightarrow> string + RenderState" where
  "renderServers cfg routeList =
     (let gw = ap_Gateway cfg; st0 = \<lparr>rn_servers = [], rn_protocols = [], rn_redirects = []\<rparr> in
      bind_res (if gw_HTTPListen gw \<noteq> [] then ensureServer (gw_HTTPListen gw) ''http'' st0 else Inr st0) (\<lambda>st1.
      bind_res (if gw_HTTPSListen gw \<noteq> [] then ensureServer (gw_HTTPSListen gw) ''https'' st1 else Inr st1) (\<lambda>st2.
      bind_res (renderLoop cfg routeList st2) (\<lambda>st3.
      let st4 = (if rn_redirects st3 \<noteq> [] then on_server (gw_HTTPListen gw) (append_routes (rn_redirects st3)) st3 else st3) in
      if rn_servers st4 = [] then Inl ''at least one gateway listener is required'' else Inr st4))))"

definition Render :: "AppConfig \<Rightarrow> RouteConfig list \<Rightarrow> string + json" where
  "Render cfg input =
     bind_res (renderRoutes cfg input) (\<lambda>routeList.
     bind_res (renderServers cfg routeList) (\<lambda>st.
     let gw = ap_Gateway cfg;
         http0 = [(''servers'', JObj (map (\<lambda>(address, server). (address, JObj server)) (rn_servers st)))];
         httpApp = (case SplitHostPort (gw_HTTPListen gw) of
             Some (_, port) \<Rightarrow> (case Atoi port of Some number \<Rightarrow> put ''http_port'' (JInt number) http0 | None \<Rightarrow> http0)
           | None \<Rightarrow> http0);
         apps0 = [(''http'', JObj httpApp)];
         apps = (case tlsAutomation (gw_Certificate gw) of Some tls \<Rightarrow> put ''tls'' (JObj tls) apps0 | None \<Rightarrow> apps0)
     in Inr (JObj [(''admin'', JObj [(''listen'', JStr (adminListenFromEndpoint (gw_CaddyAdminEndpoint gw)))]),
                   (''storage'', JObj [(''module'', JStr ''file_system''), (''root'', JStr (gw_CaddyDataDir gw))]),
                   (''apps'', JObj apps)])))"

section \<open>The renderer\<close>

text \<open>The mutex makes each of the three operations one step on the configuration it guards.\<close>

record Renderer =
  rd_cfg :: AppConfig

definition NewRenderer :: "AppConfig \<Rightarrow> Renderer" where
  "NewRenderer cfg = \<lparr>rd_cfg = cfg\<rparr>"

definition UpdateCertificate :: "CertificateConfig \<Rightarrow> Renderer \<Rightarrow> Renderer" where
  "UpdateCertificate cert r =
     r\<lparr>rd_cfg := (rd_cfg r)\<lparr>ap_Gateway := (ap_Gateway (rd_cfg r))\<lparr>gw_Certificate := cert\<rparr>\<rparr>\<rparr>"

definition UpdateConfig :: "AppConfig \<Rightarrow> Renderer \<Rightarrow> Renderer" where
  "UpdateConfig cfg r = r\<lparr>rd_cfg := cfg\<rparr>"

definition Renderer_Render :: "Renderer \<Rightarrow> RouteConfig list \<Rightarrow> string + json" where
  "Renderer_Render r input = Render (rd_cfg r) input"

end
