(* ===== verification/CaddyRoutes.thy ===== *)
theory CaddyRoutes
  imports CaddyConfig
begin

text \<open>
  What the renderer guarantees of the entries of one route: which of them proxy, what guards those, how
  the security policy precedes them, and the path arithmetic behind the denied paths.
\<close>

section \<open>Reading an entry\<close>

definition as_obj :: "json \<Rightarrow> jobj" where
  "as_obj j = (case j of JObj ob \<Rightarrow> ob | _ \<Rightarrow> [])"

text \<open>The conditions of an entry: the keys of its only match object.\<close>

definition match_of :: "json \<Rightarrow> jobj" where
  "match_of e = (case arr_at ''match'' (as_obj e) of [m] \<Rightarrow> as_obj m | _ \<Rightarrow> [])"

definition handlers_of :: "json \<Rightarrow> jobj list" where
  "handlers_of e = map as_obj (arr_at ''handle'' (as_obj e))"

definition is_proxy :: "jobj \<Rightarrow> bool" where
  "is_proxy h \<longleftrightarrow> map_of h ''handler'' = Some (JStr ''reverse_proxy'')"

definition proxies :: "json \<Rightarrow> bool" where
  "proxies e \<longleftrightarrow> list_ex is_proxy (handlers_of e)"

text \<open>The names of the request headers a handler removes before it forwards.\<close>

definition deleted_headers :: "jobj \<Rightarrow> string list" where
  "deleted_headers h = strs_at ''delete'' (obj_at ''request'' (obj_at ''headers'' h))"

definition set_headers :: "jobj \<Rightarrow> jobj" where
  "set_headers h = obj_at ''set'' (obj_at ''request'' (obj_at ''headers'' h))"

lemma entry_simps [simp]:
  "match_of (matchEntry m hs) = m" "handlers_of (matchEntry m hs) = map as_obj hs"
  by (simp_all add: match_of_def handlers_of_def matchEntry_def as_obj_def arr_at_def)

lemma log_append_simps [simp]: "\<not> is_proxy (as_obj (log_append k v))"
  by (simp add: is_proxy_def as_obj_def log_append_def)

lemma static_response_simps [simp]: "\<not> is_proxy (as_obj (static_response s b))"
  by (simp add: is_proxy_def as_obj_def static_response_def)

lemma routeLogHandlers_proxy:
  "h \<in> set (routeLogHandlers route final) \<Longrightarrow> is_proxy (as_obj h) \<Longrightarrow> h \<in> set final"
  by (auto simp: routeLogHandlers_def Let_def)

lemma reverseProxyHandler_is_proxy: "is_proxy (as_obj (reverseProxyHandler ups tls strip hs))"
  by (simp add: is_proxy_def as_obj_def reverseProxyHandler_def Let_def)

lemma proxyHandlers_proxy:
  "h \<in> set (proxyHandlers route n p) \<Longrightarrow> is_proxy (as_obj h) \<Longrightarrow> h = p"
  by (auto simp: proxyHandlers_def is_proxy_def as_obj_def log_append_def split: if_splits
      dest!: routeLogHandlers_proxy [of _ route "[]", unfolded is_proxy_def as_obj_def])

lemma not_proxies_static: "\<not> proxies (matchEntry m (routeLogHandlers route [static_response s b]))"
  by (auto simp: proxies_def list_ex_iff dest: routeLogHandlers_proxy)

lemma securityRejection_simps [simp]:
  "\<not> proxies (securityRejection route m s)" "match_of (securityRejection route m s) = m"
  by (simp_all add: securityRejection_def not_proxies_static)

section \<open>The entries of a route\<close>

definition base_match :: "RouteConfig \<Rightarrow> string list \<Rightarrow> jobj" where
  "base_match route ranges =
     (if rc_Exposure route = ''internal'' then put ''remote_ip'' (remote_ip ranges) (routeMatch route) else routeMatch route)"

lemma renderRoute_cases:
  assumes "renderRoute route auth security ranges = Inr entries"
  obtains sec n tr ups where "renderSecurityEntries route security = Inr (sec, n)"
    "dialUpstreams (rc_ID route) None (rc_Upstreams route) = Inr (tr, ups)"
    "rc_Exposure route = ''internal'' \<Longrightarrow> ranges \<noteq> []"
    "entries = sec @
      (if \<not> rc_Protected route then
         [matchEntry (base_match route ranges) (proxyHandlers route n (reverseProxyHandler ups (tr = Some True) [] (rc_Headers route)))]
       else if protectedHeaderPolicies auth = [] then
         [matchEntry (base_match route ranges) (routeLogHandlers route
            [static_response 503 (''protected route policy is not configured'' @ nl)])]
       else
         map (\<lambda>header. matchEntry (put ''header'' (JObj [(hp_name header, jstrs [hp_value header])]) (base_match route ranges))
                (proxyHandlers route n (reverseProxyHandler ups (tr = Some True)
                   (uniqueHeaderNames (protectedHeaderPolicies auth)) (rc_Headers route)))) (protectedHeaderPolicies auth) @
         [matchEntry (base_match route ranges) (routeLogHandlers route
            [static_response 401 (''protected route requires gateway token'' @ nl)])])"
  using assms unfolding renderRoute_def base_match_def
  by (auto simp: res_simps Let_def split: if_splits prod.splits)

lemma security_entries_eq:
  assumes "renderSecurityEntries route security = Inr (sec, n)" "sc_Enabled security" "\<not> rs_Disabled (rc_Security route)"
  shows "sec =
    (let blocked = appendUnique (sc_BlockedCIDRs security) (rs_BlockedCIDRs (rc_Security route)) in
     if blocked \<noteq> [] then [securityRejection route (put ''remote_ip'' (remote_ip blocked) (routeMatch route)) 403] else []) @
    map (\<lambda>allowed. securityRejection route (put ''not'' (JArr [JObj [(''remote_ip'', remote_ip allowed)]]) (routeMatch route)) 403)
      (filter (\<lambda>allowed. allowed \<noteq> []) [sc_AllowedCIDRs security, rs_AllowedCIDRs (rc_Security route)]) @
    (let methods = appendUnique (sc_DeniedMethods security) (rs_AdditionalDeniedMethods (rc_Security route)) in
     if methods \<noteq> [] then [securityRejection route (put ''method'' (jstrs methods) (routeMatch route)) 405] else []) @
    (let paths = restrictedPathMatchers (rc_PathPrefix route)
           (appendUnique (sc_DeniedPathPrefixes security) (rs_AdditionalDeniedPathPrefixes (rc_Security route))) in
     if paths \<noteq> [] then [securityRejection route (put ''path'' (jstrs paths) (routeMatch route)) 403] else [])"
  using assms unfolding renderSecurityEntries_def Let_def by (simp split: if_splits)

lemma securityEntries_props:
  assumes "renderSecurityEntries route security = Inr (sec, n)" "e \<in> set sec"
  shows "\<not> proxies e" "map_of (match_of e) ''host'' = map_of (routeMatch route) ''host''"
proof -
  have on: "sc_Enabled security" "\<not> rs_Disabled (rc_Security route)"
    using assms by (cases "\<not> sc_Enabled security \<or> rs_Disabled (rc_Security route)"; simp add: renderSecurityEntries_def)+
  show "\<not> proxies e" "map_of (match_of e) ''host'' = map_of (routeMatch route) ''host''"
    using assms(2) unfolding security_entries_eq [OF assms(1) on] Let_def by (auto split: if_splits)
qed

lemma routeMatch_host [simp]: "map_of (routeMatch route) ''host'' = Some (jstrs [rc_Host route])"
  by (simp add: routeMatch_def Let_def)

lemma base_match_host [simp]: "map_of (base_match route ranges) ''host'' = Some (jstrs [rc_Host route])"
  by (simp add: base_match_def)

lemma entry_proxies_handler:
  "proxies (matchEntry m (proxyHandlers route n p)) \<Longrightarrow> h \<in> set (handlers_of (matchEntry m (proxyHandlers route n p))) \<Longrightarrow>
   is_proxy h \<Longrightarrow> h = as_obj p"
  by (auto dest: proxyHandlers_proxy)

text \<open>The shape of an entry that proxies.\<close>

lemma proxy_entry_cases:
  assumes "renderRoute route auth security ranges = Inr entries" "e \<in> set entries" "proxies e"
  obtains (open_route) n tr ups where "\<not> rc_Protected route"
      "e = matchEntry (base_match route ranges) (proxyHandlers route n (reverseProxyHandler ups (tr = Some True) [] (rc_Headers route)))"
  | (guarded) n tr ups p where "rc_Protected route" "p \<in> set (protectedHeaderPolicies auth)"
      "e = matchEntry (put ''header'' (JObj [(hp_name p, jstrs [hp_value p])]) (base_match route ranges))
         (proxyHandlers route n (reverseProxyHandler ups (tr = Some True)
            (uniqueHeaderNames (protectedHeaderPolicies auth)) (rc_Headers route)))"
  using assms
  by (elim renderRoute_cases) (auto simp: not_proxies_static dest: securityEntries_props(1) split: if_splits)

section \<open>Headers\<close>

lemma uniqueHeaderLoop_lower:
  "ToLower ` set (uniqueHeaderLoop seen ps) = (\<lambda>p. ToLower (hp_name p)) ` set ps - seen"
proof (induction seen ps rule: uniqueHeaderLoop.induct)
  case (2 seen policy rest)
  then show ?case by (cases "ToLower (hp_name policy) \<in> seen") (auto simp: Let_def)
qed simp

lemma headerNameIn_iff: "headerNameIn name names \<longleftrightarrow> ToLower name \<in> ToLower ` set names"
  by (auto simp: headerNameIn_def list_ex_iff EqualFold_def)

lemma uniqueHeaderNames_covers:
  "p \<in> set ps \<Longrightarrow> headerNameIn (hp_name p) (uniqueHeaderNames ps)"
  unfolding headerNameIn_iff uniqueHeaderNames_def uniqueHeaderLoop_lower by auto

lemma keys_put: "fst ` set (put k v ob) = insert k (fst ` set ob)"
  by (simp flip: dom_map_of_conv_image_fst)

text \<open>A header the loop sets is not one the handler strips.\<close>

lemma setHeaderLoop_keys:
  "k \<in> fst ` set (setHeaderLoop strip st hs) \<Longrightarrow> k \<in> fst ` set st \<or> \<not> headerNameIn k strip"
proof (induction strip st hs rule: setHeaderLoop.induct)
  case (2 strip st name0 v rest)
  let ?n = "TrimSpace name0"
  show ?case
  proof (cases "?n = [] \<or> headerNameIn ?n strip")
    case True
    with 2 show ?thesis by (auto simp: Let_def)
  next
    case False
    let ?k = "if EqualFold ?n ''Host'' then ''Host'' else ?n"
    have nk: "\<not> headerNameIn ?k strip"
      using False by (auto simp: headerNameIn_iff EqualFold_def)
    have "k \<in> fst ` set (put ?k (jstrs [v]) st) \<or> \<not> headerNameIn k strip"
      using 2 False by (auto simp: Let_def)
    then show ?thesis using nk by (auto simp: keys_put)
  qed
qed simp

lemma obj_at_put [simp]: "obj_at k (put k (JObj x) ob) = x" "k \<noteq> l \<Longrightarrow> obj_at k (put l y ob) = obj_at k ob"
  by (simp_all add: obj_at_def)

lemma arr_at_put [simp]: "arr_at k (put k (JArr x) ob) = x" "k \<noteq> l \<Longrightarrow> arr_at k (put l y ob) = arr_at k ob"
  by (simp_all add: arr_at_def)

lemma strs_at_jstrs: "map_of ob k = Some (jstrs xs) \<Longrightarrow> strs_at k ob = xs"
  by (simp add: strs_at_def arr_at_def jstrs_def comp_def)

lemma request_headers:
  assumes "h1 = [(''handler'', JStr x), (''upstreams'', u)] \<or> h1 = put ''transport'' t [(''handler'', JStr x), (''upstreams'', u)]"
  shows "obj_at ''request'' (obj_at ''headers''
    (if r1 \<noteq> [] then put ''headers'' (JObj [(''request'', JObj r1)]) h1 else h1)) = r1"
proof (cases "r1 = []")
  case True
  have "obj_at ''headers'' h1 = []" using assms by (elim disjE) (simp_all add: obj_at_def)
  with True show ?thesis by (simp add: obj_at_def)
qed (simp add: obj_at_def)

lemma reverseProxyHandler_headers:
  "deleted_headers (as_obj (reverseProxyHandler ups tls strip hs)) = strip"
  "set_headers (as_obj (reverseProxyHandler ups tls strip hs)) =
     setHeaderLoop strip (if tls then [(''Host'', jstrs [''{http.request.hostport}''])] else []) hs"
proof -
  define r0 where "r0 = (if strip \<noteq> [] then [(''delete'', jstrs strip)] else [])"
  define st where "st = setHeaderLoop strip (if tls then [(''Host'', jstrs [''{http.request.hostport}''])] else []) hs"
  define r1 where "r1 = (if st \<noteq> [] then put ''set'' (JObj st) r0 else r0)"
  define h0 where "h0 = [(''handler'', JStr ''reverse_proxy''), (''upstreams'', JArr ups)]"
  define h1 where "h1 = (if tls then put ''transport'' (JObj [(''protocol'', JStr ''http''), (''tls'', JObj [])]) h0 else h0)"
  have "as_obj (reverseProxyHandler ups tls strip hs) =
      (if r1 \<noteq> [] then put ''headers'' (JObj [(''request'', JObj r1)]) h1 else h1)"
    unfolding reverseProxyHandler_def Let_def r0_def [symmetric] st_def [symmetric] r1_def [symmetric] h0_def [symmetric]
      h1_def [symmetric] by (simp add: as_obj_def)
  moreover have "h1 = h0 \<or> h1 = put ''transport'' (JObj [(''protocol'', JStr ''http''), (''tls'', JObj [])]) h0"
    by (simp add: h1_def)
  ultimately have r: "obj_at ''request'' (obj_at ''headers'' (as_obj (reverseProxyHandler ups tls strip hs))) = r1"
    unfolding h0_def by (simp only: request_headers)
  have d: "strs_at ''delete'' r0 = strip" by (cases "strip = []") (simp_all add: r0_def strs_at_jstrs, simp add: strs_at_def arr_at_def)
  show "deleted_headers (as_obj (reverseProxyHandler ups tls strip hs)) = strip"
    unfolding deleted_headers_def r using d by (simp add: r1_def strs_at_def)
  have "obj_at ''set'' r0 = []" by (simp add: r0_def obj_at_def)
  then show "set_headers (as_obj (reverseProxyHandler ups tls strip hs)) =
     setHeaderLoop strip (if tls then [(''Host'', jstrs [''{http.request.hostport}''])] else []) hs"
    unfolding set_headers_def r st_def [symmetric] by (simp add: r1_def)
qed

section \<open>Path prefixes\<close>

text \<open>The paths below a prefix: the prefix itself and what continues it after a slash.\<close>

definition clean_prefix :: "string \<Rightarrow> string" where
  "clean_prefix p = TrimRight (TrimSpace p) ''/''"

definition under :: "string \<Rightarrow> string \<Rightarrow> bool" where
  "under q p \<longleftrightarrow> q = [] \<or> p = q \<or> HasPrefix p (q @ ''/'')"

lemma under_trans: "HasPrefix l (r @ ''/'') \<Longrightarrow> under l p \<Longrightarrow> under r p"
  by (auto simp: under_def HasPrefix_iff)

lemma under_both:
  assumes "under l p" "under r p" "l \<noteq> []" "r \<noteq> []"
  shows "l = r \<or> HasPrefix l (r @ ''/'') \<or> HasPrefix r (l @ ''/'')"
proof -
  have ext: "l = r \<or> HasPrefix r (l @ ''/'')" if pl: "p = l \<or> HasPrefix p (l @ ''/'')" and pr: "p = r \<or> HasPrefix p (r @ ''/'')" and len: "length l \<le> length r" for l r
  proof -
    obtain t where "p = r @ t" using pr by (auto simp: HasPrefix_iff)
    moreover obtain u where "p = l @ u" "u = [] \<or> (\<exists>v. u = ''/'' @ v)" using pl by (auto simp: HasPrefix_iff)
    ultimately show ?thesis using len
      by (auto simp: append_eq_append_conv2 HasPrefix_iff Cons_eq_append_conv)
  qed
  have "p = l \<or> HasPrefix p (l @ ''/'')" "p = r \<or> HasPrefix p (r @ ''/'')" using assms by (auto simp: under_def)
  then show ?thesis using ext [of l r] ext [of r l] by (cases "length l \<le> length r") auto
qed

lemma intersect_under:
  "(case intersectPathPrefixes l r of Some x \<Rightarrow> under x p | None \<Rightarrow> False) \<longleftrightarrow>
     under (clean_prefix l) p \<and> under (clean_prefix r) p"
proof -
  let ?l = "clean_prefix l" and ?r = "clean_prefix r"
  have "under ?l p \<and> under ?r p \<Longrightarrow> ?l \<noteq> [] \<Longrightarrow> ?r \<noteq> [] \<Longrightarrow>
      ?l = ?r \<or> HasPrefix ?l (?r @ ''/'') \<or> HasPrefix ?r (?l @ ''/'')" using under_both by blast
  moreover have "under [] p" by (simp add: under_def)
  ultimately show ?thesis using under_trans [of ?l ?r p] under_trans [of ?r ?l p]
    unfolding intersectPathPrefixes_def Let_def clean_prefix_def [symmetric] by auto
qed

lemma set_appendUnique [simp]: "set (appendUnique base vs) = set base \<union> set vs"
proof -
  have "set (appendUniqueLoop base vs) = set base \<union> set vs"
    by (induction base vs rule: appendUniqueLoop.induct) auto
  then show ?thesis by (simp add: appendUnique_def)
qed

lemma appendUnique_keep_first:
  "appendUniqueLoop out vs = out @ keep_first (set out) vs"
  by (induction out vs rule: appendUniqueLoop.induct) auto

lemma set_restrictedLoop:
  "set (restrictedLoop rp out ds) = set out \<union>
     (\<Union>d \<in> set ds. case intersectPathPrefixes rp d of None \<Rightarrow> {} | Some x \<Rightarrow> set (routePathMatchers x))"
  by (induction rp out ds rule: restrictedLoop.induct) (auto split: option.splits)

text \<open>
  What the renderer relies on of Caddy's path matcher: a pattern without a star matches the path that
  equals it, and a pattern that ends in \<open>/*\<close> the paths that start with what precedes the star.
\<close>

definition path_matcher :: "(string \<Rightarrow> string \<Rightarrow> bool) \<Rightarrow> bool" where
  "path_matcher matches \<longleftrightarrow>
     (\<forall>q p. CHR ''*'' \<notin> set q \<longrightarrow> matches q p = (p = q)) \<and>
     (\<forall>q p. CHR ''*'' \<notin> set q \<longrightarrow> matches (q @ ''/*'') p = HasPrefix p (q @ ''/''))"

lemma routePathMatchers_under:
  assumes "path_matcher matches" "CHR ''*'' \<notin> set x" "HasPrefix p ''/''"
  shows "(\<exists>m \<in> set (routePathMatchers x). matches m p) \<longleftrightarrow> under (clean_prefix x) p"
proof -
  let ?c = "clean_prefix x"
  have star: "CHR ''*'' \<notin> set ?c"
    using assms(2) set_TrimRight [of "TrimSpace x" "''/''"] set_TrimSpace [of x] by (auto simp: clean_prefix_def)
  have "matches ([] @ ''/*'') p = HasPrefix p ([] @ ''/'')"
    using assms(1) unfolding path_matcher_def by (metis empty_iff list.set(1))
  then have root: "matches ''/*'' p" using assms(3) by simp
  have pre: "matches ?c p = (p = ?c)" "matches (?c @ ''/*'') p = HasPrefix p (?c @ ''/'')"
    using assms(1) star unfolding path_matcher_def by blast+
  have "routePathMatchers x = (if ?c = [] then [''/*''] else [?c, ?c @ ''/*''])"
    by (simp add: routePathMatchers_def clean_prefix_def Let_def)
  then show ?thesis using root pre by (auto simp: under_def)
qed

lemma clean_intersect:
  "intersectPathPrefixes l r = Some x \<Longrightarrow> x = clean_prefix l \<or> x = clean_prefix r"
  by (auto simp: intersectPathPrefixes_def clean_prefix_def Let_def split: if_splits)

end
