(* ===== verification/CaddyServers.thy ===== *)
theory CaddyServers
  imports CaddyRoutes "HOL-Library.Multiset"
begin

text \<open>
  The loop of \<open>Render\<close> over the routes: the servers never overlap across protocols, and every server
  holds exactly the entries of the enabled routes of its address, in the order of the sort.
\<close>

section \<open>The order\<close>

lemma sortRoutes_sorted: "i < j \<Longrightarrow> j < length rs \<Longrightarrow> \<not> route_less (sortRoutes rs ! j) (sortRoutes rs ! i)"
proof -
  assume "i < j" "j < length rs"
  moreover have "sorted (map route_key (sortRoutes rs))" by (simp add: sortRoutes_def)
  ultimately have "route_key (sortRoutes rs ! i) \<le> route_key (sortRoutes rs ! j)"
    by (simp add: sorted_iff_nth_mono sortRoutes_def)
  then show ?thesis by (simp add: route_less_key not_less)
qed

lemma set_sortRoutes [simp]: "set (sortRoutes rs) = set rs"
  by (simp add: sortRoutes_def)

lemma mset_sortRoutes [simp]: "mset (sortRoutes rs) = mset rs"
  by (simp add: sortRoutes_def)

section \<open>Overlapping addresses\<close>

lemma listenerAddressesOverlap_refl [simp]: "listenerAddressesOverlap a a"
  by (auto simp: listenerAddressesOverlap_def split: option.split)

lemma listenerAddressesOverlap_sym: "listenerAddressesOverlap a b \<longleftrightarrow> listenerAddressesOverlap b a"
  by (auto simp: listenerAddressesOverlap_def split: option.split)

text \<open>No two servers of different protocols listen on overlapping addresses.\<close>

definition separate :: "RenderState \<Rightarrow> bool" where
  "separate st \<longleftrightarrow>
     (\<forall>a p b q. map_of (rn_protocols st) a = Some p \<longrightarrow> map_of (rn_protocols st) b = Some q \<longrightarrow> p \<noteq> q \<longrightarrow>
        \<not> listenerAddressesOverlap a b) \<and>
     dom (map_of (rn_protocols st)) = dom (map_of (rn_servers st))"

definition routes_of :: "RenderState \<Rightarrow> string \<Rightarrow> json list" where
  "routes_of st a = (case map_of (rn_servers st) a of Some server \<Rightarrow> arr_at ''routes'' server | None \<Rightarrow> [])"

lemma map_of_update: "map_of (AList.update k v al) = (map_of al)(k \<mapsto> v)"
  by (simp add: update_conv')

lemma new_server_routes [simp]: "arr_at ''routes'' (new_server a p) = []"
  by (simp add: new_server_def Let_def arr_at_def)

lemma ensureServer_ok:
  assumes "ensureServer a p st = Inr st'" "separate st"
  shows "separate st'" "map_of (rn_protocols st') a = Some p" "routes_of st' = routes_of st"
    "rn_redirects st' = rn_redirects st" "map_of (rn_servers st') a \<noteq> None"
proof -
  have no: "\<forall>(b, q) \<in> set (rn_protocols st). \<not> (q \<noteq> p \<and> listenerAddressesOverlap b a)"
    using assms(1) by (auto simp: ensureServer_def find_None_iff split: option.splits)
  then have none: "\<not> listenerAddressesOverlap b a" if "map_of (rn_protocols st) b = Some q" "q \<noteq> p" for b q
    using map_of_SomeD [OF that(1)] that(2) by auto
  have st': "st' = (if map_of (rn_servers st) a \<noteq> None then st
      else st\<lparr>rn_protocols := AList.update a p (rn_protocols st), rn_servers := AList.update a (new_server a p) (rn_servers st)\<rparr>)"
    using assms(1) by (auto simp: ensureServer_def split: option.splits if_splits)
  have "separate st' \<and> map_of (rn_protocols st') a = Some p"
  proof (cases "map_of (rn_servers st) a = None")
    case True
    then show ?thesis
      using assms(2) none listenerAddressesOverlap_sym unfolding separate_def st' by (auto simp: map_of_update)
  next
    case False
    then obtain q where q: "map_of (rn_protocols st) a = Some q" using assms(2) unfolding separate_def by blast
    with none [OF q] have "q = p" by auto
    with q False assms(2) show ?thesis by (simp add: st')
  qed
  then show "separate st'" "map_of (rn_protocols st') a = Some p" by auto
  show "routes_of st' = routes_of st" by (rule ext) (auto simp: st' routes_of_def map_of_update)
  show "rn_redirects st' = rn_redirects st" by (simp add: st')
  show "map_of (rn_servers st') a \<noteq> None" by (simp add: st' map_of_update)
qed

lemma on_server_separate: "separate st \<Longrightarrow> separate (on_server a f st)"
  by (auto simp: separate_def on_server_def map_of_update split: option.split)

lemma on_server_redirects [simp]: "rn_redirects (on_server a f st) = rn_redirects st"
  by (simp add: on_server_def split: option.split)

lemma on_server_dom [simp]: "map_of (rn_servers (on_server a f st)) b = None \<longleftrightarrow> map_of (rn_servers st) b = None"
  by (auto simp: on_server_def map_of_update split: option.split)

lemma on_server_dom_Some [simp]:
  "(\<exists>y. map_of (rn_servers (on_server a f st)) b = Some y) \<longleftrightarrow> (\<exists>y. map_of (rn_servers st) b = Some y)"
  by (metis on_server_dom option.exhaust option.distinct(1))

lemma routes_of_append:
  "map_of (rn_servers st) a \<noteq> None \<Longrightarrow>
   routes_of (on_server a (append_routes es) st) b = routes_of st b @ (if b = a then es else [])"
  by (auto simp: on_server_def routes_of_def map_of_update append_routes_def)

lemma routes_of_skip: "routes_of (on_server a (skip_certificate h) st) = routes_of st"
  by (rule ext) (auto simp: on_server_def routes_of_def map_of_update skip_certificate_def Let_def split: option.split)

section \<open>The loop\<close>

definition entries_of :: "AppConfig \<Rightarrow> RouteConfig \<Rightarrow> json list" where
  "entries_of cfg route =
     (case renderRoute route (ap_Auth cfg) (ap_Security cfg) (gw_InternalSourceRanges (ap_Gateway cfg)) of
        Inr es \<Rightarrow> es | Inl _ \<Rightarrow> [])"

definition redirect_of :: "AppConfig \<Rightarrow> RouteConfig \<Rightarrow> json list" where
  "redirect_of cfg route =
     (if rc_Enabled route \<and> route_protocol route = ''https'' \<and> gw_HTTPListen (ap_Gateway cfg) \<noteq> [] then
        (case SplitHostPort (route_address (ap_Gateway cfg) route) of
           Some (_, port) \<Rightarrow> [redirectEntry route port] | None \<Rightarrow> [])
      else [])"

definition routes_at :: "AppConfig \<Rightarrow> RouteConfig list \<Rightarrow> string \<Rightarrow> json list" where
  "routes_at cfg rs a =
     concat (map (entries_of cfg) (filter (\<lambda>r. rc_Enabled r \<and> route_address (ap_Gateway cfg) r = a) rs))"

definition extends :: "AppConfig \<Rightarrow> RouteConfig list \<Rightarrow> RenderState \<Rightarrow> RenderState \<Rightarrow> bool" where
  "extends cfg rs st st' \<longleftrightarrow> separate st' \<and>
     (\<forall>a. routes_of st' a = routes_of st a @ routes_at cfg rs a) \<and>
     rn_redirects st' = rn_redirects st @ concat (map (redirect_of cfg) rs) \<and>
     (\<forall>b. map_of (rn_servers st) b \<noteq> None \<longrightarrow> map_of (rn_servers st') b \<noteq> None) \<and>
     (\<forall>r \<in> set rs. rc_Enabled r \<longrightarrow> map_of (rn_servers st') (route_address (ap_Gateway cfg) r) \<noteq> None \<and>
        renderRoute r (ap_Auth cfg) (ap_Security cfg) (gw_InternalSourceRanges (ap_Gateway cfg)) = Inr (entries_of cfg r))"

lemma renderStep_ok:
  assumes "renderStep cfg route st = Inr st'" "separate st"
  shows "extends cfg [route] st st'"
proof (cases "rc_Enabled route")
  case False
  with assms show ?thesis by (simp add: renderStep_def extends_def routes_at_def redirect_of_def)
next
  case True
  let ?gw = "ap_Gateway cfg"
  let ?a = "route_address ?gw route"
  let ?p = "route_protocol route"
  from assms(1) True obtain st1 where st1: "ensureServer ?a ?p st = Inr st1"
    by (auto simp: renderStep_def Let_def res_simps split: if_splits)
  define st2 where "st2 = (if ?p = ''https'' \<and> wildcardCertificateCoversHost (ce_Subjects (gw_Certificate ?gw)) (rc_Host route)
    then on_server ?a (skip_certificate (rc_Host route)) st1 else st1)"
  from assms(1) True st1 obtain es where
    es: "renderRoute route (ap_Auth cfg) (ap_Security cfg) (gw_InternalSourceRanges ?gw) = Inr es"
    unfolding renderStep_def Let_def by (auto simp: res_simps split: if_splits)
  define st3 where "st3 = on_server ?a (append_routes es) st2"
  note e = ensureServer_ok [OF st1 assms(2)]
  have s2: "separate st2" "routes_of st2 = routes_of st" "rn_redirects st2 = rn_redirects st"
    "map_of (rn_servers st2) ?a \<noteq> None"
    "\<forall>b. map_of (rn_servers st) b \<noteq> None \<longrightarrow> map_of (rn_servers st2) b \<noteq> None"
  proof -
    have "map_of (rn_servers st) b \<noteq> None \<longrightarrow> map_of (rn_servers st1) b \<noteq> None" for b
      using st1 by (auto simp: ensureServer_def map_of_update split: option.splits if_splits)
    then show "\<forall>b. map_of (rn_servers st) b \<noteq> None \<longrightarrow> map_of (rn_servers st2) b \<noteq> None"
      by (auto simp: st2_def)
  qed (use e in \<open>auto simp: st2_def on_server_separate routes_of_skip\<close>)
  have s3: "separate st3" "routes_of st3 b = routes_of st b @ routes_at cfg [route] b" for b
    using s2 es True routes_of_append [OF s2(4), of es b]
    by (auto simp: st3_def on_server_separate routes_at_def entries_of_def)
  have st': "st' = st3\<lparr>rn_redirects := rn_redirects st3 @ redirect_of cfg route\<rparr>"
    using assms(1) True st1 es unfolding renderStep_def Let_def st2_def st3_def redirect_of_def
    by (auto simp: res_simps split: if_splits option.splits)
  have "separate st'" using s3(1) by (simp add: st' separate_def)
  moreover have "routes_of st' b = routes_of st3 b" for b by (simp add: st' routes_of_def)
  moreover have "rn_servers st' = rn_servers st3" "rn_redirects st3 = rn_redirects st"
    using s2(3) by (simp_all add: st' st3_def)
  ultimately show ?thesis using s2 s3 es True by (simp add: extends_def entries_of_def st3_def st')
qed

lemma renderLoop_ok: "renderLoop cfg rs st = Inr st' \<Longrightarrow> separate st \<Longrightarrow> extends cfg rs st st'"
proof (induction rs arbitrary: st)
  case Nil
  then show ?case by (simp add: extends_def routes_at_def)
next
  case (Cons r rs)
  then obtain st1 where "renderStep cfg r st = Inr st1" "renderLoop cfg rs st1 = Inr st'" by (auto simp: res_simps)
  then have "extends cfg [r] st st1" "extends cfg rs st1 st'"
    using Cons renderStep_ok by (auto simp: extends_def)
  then show ?case unfolding extends_def by (auto simp: routes_at_def)
qed

lemma if_Inr: "(if c then Inl e else Inr x) = Inr y \<longleftrightarrow> \<not> c \<and> x = y"
  by simp

lemma renderServers_ok:
  assumes "renderServers cfg rs = Inr st"
  shows "separate st"
    "routes_of st a = routes_at cfg rs a @ (if a = gw_HTTPListen (ap_Gateway cfg) then concat (map (redirect_of cfg) rs) else [])"
    "\<forall>r \<in> set rs. rc_Enabled r \<longrightarrow> map_of (rn_servers st) (route_address (ap_Gateway cfg) r) \<noteq> None \<and>
        renderRoute r (ap_Auth cfg) (ap_Security cfg) (gw_InternalSourceRanges (ap_Gateway cfg)) = Inr (entries_of cfg r)"
proof -
  let ?gw = "ap_Gateway cfg"
  let ?st0 = "\<lparr>rn_servers = [], rn_protocols = [], rn_redirects = []\<rparr>"
  have s0: "separate ?st0" "routes_of ?st0 = (\<lambda>a. [])" by (auto simp: separate_def routes_of_def)
  from assms obtain st1 st2 st3 where
    r1: "(if gw_HTTPListen ?gw \<noteq> [] then ensureServer (gw_HTTPListen ?gw) ''http'' ?st0 else Inr ?st0) = Inr st1" and
    r2: "(if gw_HTTPSListen ?gw \<noteq> [] then ensureServer (gw_HTTPSListen ?gw) ''https'' st1 else Inr st1) = Inr st2" and
    r3: "renderLoop cfg rs st2 = Inr st3" and
    st: "st = (if rn_redirects st3 \<noteq> [] then on_server (gw_HTTPListen ?gw) (append_routes (rn_redirects st3)) st3 else st3)"
    unfolding renderServers_def Let_def bind_res_Inr_iff if_Inr by blast
  have s1: "separate st1" "routes_of st1 = (\<lambda>a. [])" "rn_redirects st1 = []"
    using r1 s0 ensureServer_ok [of "gw_HTTPListen ?gw" "''http''" ?st0 st1] by (auto split: if_splits)
  have h1: "gw_HTTPListen ?gw \<noteq> [] \<longrightarrow> map_of (rn_servers st1) (gw_HTTPListen ?gw) \<noteq> None"
    using r1 s0 ensureServer_ok(5) [of "gw_HTTPListen ?gw" "''http''" ?st0 st1] by auto
  have s2: "separate st2" "routes_of st2 = (\<lambda>a. [])" "rn_redirects st2 = []"
    using r2 s1 ensureServer_ok [of "gw_HTTPSListen ?gw" "''https''" st1 st2] by (auto split: if_splits)
  have h2: "gw_HTTPListen ?gw \<noteq> [] \<longrightarrow> map_of (rn_servers st2) (gw_HTTPListen ?gw) \<noteq> None"
    using h1 r2 by (auto simp: ensureServer_def map_of_update split: option.splits if_splits)
  have x: "extends cfg rs st2 st3" using renderLoop_ok [OF r3 s2(1)] .
  have red: "rn_redirects st3 = concat (map (redirect_of cfg) rs)" using x s2 by (simp add: extends_def)
  have h3: "map_of (rn_servers st3) (gw_HTTPListen ?gw) \<noteq> None" if "rn_redirects st3 \<noteq> []"
  proof -
    from that red have "gw_HTTPListen ?gw \<noteq> []" by (auto simp: redirect_of_def split: if_splits)
    with h2 x show ?thesis unfolding extends_def by blast
  qed
  show "separate st" using x by (simp add: st extends_def on_server_separate)
  show "routes_of st a = routes_at cfg rs a @ (if a = gw_HTTPListen ?gw then concat (map (redirect_of cfg) rs) else [])"
    using x s2 h3 red routes_of_append [OF h3] by (auto simp: st extends_def)
  show "\<forall>r \<in> set rs. rc_Enabled r \<longrightarrow> map_of (rn_servers st) (route_address ?gw r) \<noteq> None \<and>
        renderRoute r (ap_Auth cfg) (ap_Security cfg) (gw_InternalSourceRanges ?gw) = Inr (entries_of cfg r)"
    using x by (simp add: st extends_def)
qed

section \<open>Wildcard certificates\<close>

lemma TrimSuffix_changes: "s \<noteq> [] \<Longrightarrow> TrimSuffix h s \<noteq> h \<longleftrightarrow> HasSuffix h s"
  by (cases "HasSuffix h s") (auto simp: TrimSuffix_id HasSuffix_iff)

lemma wildcardCertificateCoversHost_iff:
  "wildcardCertificateCoversHost subjects host \<longleftrightarrow>
     (\<exists>s \<in> set subjects. \<exists>label suffix.
        TrimSuffix (ToLower (TrimSpace s)) ''.'' = ''*.'' @ suffix \<and>
        TrimSuffix (ToLower (TrimSpace host)) ''.'' = label @ ''.'' @ suffix \<and>
        label \<noteq> [] \<and> CHR ''.'' \<notin> set label \<and> label \<noteq> ''*'')"
proof -
  let ?h = "TrimSuffix (ToLower (TrimSpace host)) ''.''"
  have one: "(if \<not> HasPrefix t ''*.'' then False
      else let prefix = TrimSuffix ?h (''.'' @ TrimPrefix t ''*.'') in prefix \<noteq> ?h \<and> prefix \<noteq> [] \<and> \<not> Contains prefix ''.'') \<longleftrightarrow>
    (\<exists>label suffix. t = ''*.'' @ suffix \<and> ?h = label @ ''.'' @ suffix \<and> label \<noteq> [] \<and> CHR ''.'' \<notin> set label)" for t
  proof (cases "HasPrefix t ''*.''")
    case True
    then obtain suffix where t: "t = ''*.'' @ suffix" by (auto simp: HasPrefix_iff)
    then have "TrimPrefix t ''*.'' = suffix" by (simp add: TrimPrefix_def)
    moreover have "TrimSuffix ?h (''.'' @ suffix) \<noteq> ?h \<longleftrightarrow> HasSuffix ?h (''.'' @ suffix)"
      by (rule TrimSuffix_changes) simp
    moreover have "label = TrimSuffix ?h (''.'' @ suffix)" if "?h = label @ ''.'' @ suffix" for label
      using that TrimSuffix_append [of label "''.'' @ suffix"] by simp
    ultimately show ?thesis using t True
      by (auto simp: Let_def HasSuffix_iff)
  qed (auto simp: HasPrefix_iff)
  have wild: "HasPrefix ?h ''*.'' \<longleftrightarrow> label = ''*''" if "?h = label @ ''.'' @ suffix" "label \<noteq> []" "CHR ''.'' \<notin> set label" for label suffix
    using that by (cases label) (auto simp: HasPrefix_iff append_eq_Cons_conv Cons_eq_append_conv)
  show ?thesis
  proof (cases "?h = [] \<or> HasPrefix ?h ''*.''")
    case True
    have "False" if e: "?h = label @ ''.'' @ suffix" and l: "label \<noteq> []" "CHR ''.'' \<notin> set label" "label \<noteq> ''*''" for label suffix
      using True wild [OF e l(1,2)] l(1,3) e by (metis append_is_Nil_conv)
    moreover have "\<not> wildcardCertificateCoversHost subjects host"
      using True by (auto simp: wildcardCertificateCoversHost_def Let_def)
    ultimately show ?thesis by blast
  next
    case False
    then have "wildcardCertificateCoversHost subjects host \<longleftrightarrow> (\<exists>s \<in> set subjects. \<exists>label suffix.
        TrimSuffix (ToLower (TrimSpace s)) ''.'' = ''*.'' @ suffix \<and> ?h = label @ ''.'' @ suffix \<and>
        label \<noteq> [] \<and> CHR ''.'' \<notin> set label)"
      unfolding wildcardCertificateCoversHost_def Let_def list_ex_iff one [unfolded Let_def] by (simp only: if_False)
    moreover have "label \<noteq> ''*''" if e: "?h = label @ ''.'' @ suffix" and l: "label \<noteq> []" "CHR ''.'' \<notin> set label" for label suffix
      using False wild [OF e l] by blast
    ultimately show ?thesis by blast
  qed
qed

end
