(* ===== verification/CaddyProperties.thy ===== *)
theory CaddyProperties
  imports CaddyServers "HOL-Library.Code_Target_Numeral"
begin

text \<open>
  The properties of the Caddy renderer, each with a concrete rendering that shows its hypotheses can hold.
\<close>

section \<open>Example configuration\<close>

definition plain_security :: RouteSecurityConfig where
  "plain_security = \<lparr>rs_Disabled = False, rs_MaxRequestBodyBytes = 0, rs_AdditionalDeniedMethods = [''TRACE''],
     rs_AdditionalDeniedPathPrefixes = [''/api/admin''], rs_AllowedCIDRs = [], rs_BlockedCIDRs = [''198.51.100.7'']\<rparr>"

definition admin_route :: RouteConfig where
  "admin_route = \<lparr>rc_ID = ''r1'', rc_Name = ''admin'', rc_Host = ''shop.example.com'', rc_ListenerID = ''l1'',
     rc_ListenerName = ''shop'', rc_ListenerPort = 443, rc_ListenerProtocol = ''https'', rc_BackendPoolID = ''p1'',
     rc_BackendPoolName = ''web'', rc_PathPrefix = ''/api'', rc_Exposure = ''protected'', rc_Enabled = True,
     rc_Public = True, rc_HTTPS = True, rc_WebSocket = False, rc_Protected = True, rc_Source = ''explicit'',
     rc_Headers = [(''X-Admin-Token'', ''leak''), (''X-Team'', ''a'')], rc_Security = plain_security,
     rc_Upstreams = [\<lparr>up_Name = ''a'', up_URL = ''http://10.0.0.4:8080'', up_HealthPath = []\<rparr>],
     rc_Discovered = False, rc_LastError = [], rc_LastUpdated = 0\<rparr>"

definition intranet_route :: RouteConfig where
  "intranet_route = admin_route\<lparr>rc_ID := ''r2'', rc_Host := ''intranet.example.com'', rc_Exposure := ''internal'',
     rc_Public := False, rc_Protected := False, rc_PathPrefix := []\<rparr>"

definition token_auth :: AuthConfig where
  "token_auth = \<lparr>au_Required = True, au_AdminToken = ''s3cret'', au_AdminTokens = [],
     au_ProtectedRoutes = \<lparr>pr_AllowBearerToken = False, pr_AllowAdminTokenHeader = False,
       pr_AdditionalHeaderName = [], pr_AdditionalHeaderValue = []\<rparr>\<rparr>"

definition edge_security :: SecurityConfig where
  "edge_security = \<lparr>sc_Enabled = True, sc_MaxRequestBodyBytes = 1048576, sc_DeniedMethods = [''TRACE''],
     sc_DeniedPathPrefixes = [''/api/internal/''], sc_AllowedCIDRs = [], sc_BlockedCIDRs = [''203.0.113.0/24'']\<rparr>"

definition edge_config :: AppConfig where
  "edge_config = \<lparr>ap_Profile = ''vm'', ap_DeploymentMode = ''azure-vm'',
     ap_Control = \<lparr>cc_Listen = ''127.0.0.1:8090'', cc_ManagementHost = []\<rparr>,
     ap_Gateway = \<lparr>gw_HTTPListen = '':80'', gw_HTTPSListen = '':443'', gw_CaddyAdminEndpoint = ''http://127.0.0.1:2019'',
       gw_CaddyBin = ''caddy'', gw_StateDir = ''/s'', gw_CaddyDataDir = ''/d'', gw_CertificateFile = [],
       gw_InternalSourceRanges = [''10.0.0.0/8''],
       gw_Certificate = \<lparr>ce_Issuer = ''default'', ce_Email = [], ce_Staging = False, ce_CADirectory = [],
         ce_Subjects = [''*.example.com''], ce_RenewalWindowRatio = Finite 0,
         ce_DNSChallenge = \<lparr>dc_Provider = [], dc_Azure = \<lparr>ac_SubscriptionID = [], ac_ResourceGroup = [],
           ac_Authentication = [], ac_TenantID = [], ac_ClientID = [], ac_ClientSecret = []\<rparr>\<rparr>\<rparr>\<rparr>,
     ap_Docker = \<lparr>dk_Enabled = False, dk_SocketPath = [], dk_Endpoint = []\<rparr>,
     ap_Azure = \<lparr>az_Enabled = False, az_ManageDNS = False, az_ManageNSG = False, az_SubscriptionID = [],
       az_ResourceGroup = [], az_DNSZoneName = [], az_DNSZones = [], az_NetworkSecurityGroupResourceGroup = [],
       az_NetworkSecurityGroupName = [], az_PublicIPAddress = [], az_NSGPriority = 0, az_NSGSourceAddressPrefixes = []\<rparr>,
     ap_Auth = token_auth, ap_Security = edge_security,
     ap_Health = \<lparr>hc_Enabled = False, hc_TimeoutSeconds = 3, hc_DefaultPath = ''/''\<rparr>,
     ap_Audit = \<lparr>ad_Enabled = False, ad_File = []\<rparr>,
     ap_RoutesFile = [], ap_ReconcileIntervalSeconds = 30\<rparr>"

definition admin_entries :: "json list" where
  "admin_entries = (case renderRoute admin_route token_auth edge_security [] of Inr es \<Rightarrow> es | Inl _ \<Rightarrow> [])"

lemma admin_entries: "renderRoute admin_route token_auth edge_security [] = Inr admin_entries"
proof -
  have "(case renderRoute admin_route token_auth edge_security [] of Inr es \<Rightarrow> True | Inl _ \<Rightarrow> False)" by code_simp
  then show ?thesis by (auto simp: admin_entries_def split: sum.splits)
qed

definition intranet_entries :: "json list" where
  "intranet_entries = (case renderRoute intranet_route token_auth edge_security [''10.0.0.0/8''] of Inr es \<Rightarrow> es | Inl _ \<Rightarrow> [])"

lemma intranet_entries: "renderRoute intranet_route token_auth edge_security [''10.0.0.0/8''] = Inr intranet_entries"
proof -
  have "(case renderRoute intranet_route token_auth edge_security [''10.0.0.0/8''] of Inr es \<Rightarrow> True | Inl _ \<Rightarrow> False)"
    by code_simp
  then show ?thesis by (auto simp: intranet_entries_def split: sum.splits)
qed

section \<open>Guards of the proxying entries\<close>

lemma concat_choices:
  "p \<in> set (concat (map (\<lambda>t. (if x then [f t] else []) @ (if y then [g t] else [])) ts) @ (if z then [c] else [])) \<Longrightarrow>
   (\<exists>t \<in> set ts. p = f t \<or> p = g t) \<or> z \<and> p = c"
  by (auto split: if_splits)

lemma policies_cases:
  "p \<in> set (protectedHeaderPolicies auth) \<Longrightarrow>
   (\<exists>t \<in> set (authTokens auth). p = \<lparr>hp_name = ''Authorization'', hp_value = ''Bearer '' @ t\<rparr> \<or>
      p = \<lparr>hp_name = ''X-Admin-Token'', hp_value = t\<rparr>) \<or>
   (pr_AdditionalHeaderName (au_ProtectedRoutes auth) \<noteq> [] \<and> pr_AdditionalHeaderValue (au_ProtectedRoutes auth) \<noteq> []) \<and>
     p = \<lparr>hp_name = pr_AdditionalHeaderName (au_ProtectedRoutes auth),
          hp_value = pr_AdditionalHeaderValue (au_ProtectedRoutes auth)\<rparr>"
  unfolding protectedHeaderPolicies_def Let_def by (rule concat_choices)

lemma authTokens_iff:
  "t \<in> set (authTokens auth) \<longleftrightarrow> (t = au_AdminToken auth \<or> t \<in> set (au_AdminTokens auth)) \<and> TrimSpace t \<noteq> []"
  by (auto simp: authTokens_def)

lemma protected_entry:
  assumes "renderRoute route auth security ranges = Inr entries" "rc_Protected route"
    and "e \<in> set entries" "h \<in> set (handlers_of e)" "is_proxy h"
  shows "(\<exists>p \<in> set (protectedHeaderPolicies auth).
      map_of (match_of e) ''header'' = Some (JObj [(hp_name p, jstrs [hp_value p])])) \<and>
    map_of (match_of e) ''host'' = Some (jstrs [rc_Host route]) \<and>
    deleted_headers h = uniqueHeaderNames (protectedHeaderPolicies auth) \<and>
    (\<forall>(name, v) \<in> set (set_headers h). name = ''Host'' \<or> \<not> headerNameIn name (deleted_headers h))"
proof -
  have "proxies e" using assms(4,5) by (auto simp: proxies_def list_ex_iff)
  from assms(1,3) this show ?thesis
  proof (cases rule: proxy_entry_cases)
    case (guarded n tr ups p)
    let ?strip = "uniqueHeaderNames (protectedHeaderPolicies auth)"
    let ?h = "reverseProxyHandler ups (tr = Some True) ?strip (rc_Headers route)"
    have h: "h = as_obj ?h" using assms(4,5) guarded(3) entry_proxies_handler \<open>proxies e\<close> by blast
    have d: "deleted_headers h = ?strip" by (simp add: h reverseProxyHandler_headers)
    have "name = ''Host'' \<or> \<not> headerNameIn name ?strip" if "(name, v) \<in> set (set_headers h)" for name v
    proof -
      have "name \<in> fst ` set (setHeaderLoop ?strip
          (if tr = Some True then [(''Host'', jstrs [''{http.request.hostport}''])] else []) (rc_Headers route))"
        using that by (force simp: h reverseProxyHandler_headers)
      from setHeaderLoop_keys [OF this] show ?thesis by (auto split: if_splits)
    qed
    then have "\<forall>(name, v) \<in> set (set_headers h). name = ''Host'' \<or> \<not> headerNameIn name (deleted_headers h)"
      unfolding d by blast
    moreover have "match_of e = put ''header'' (JObj [(hp_name p, jstrs [hp_value p])]) (base_match route ranges)"
      unfolding guarded(3) by simp
    then have "map_of (match_of e) ''header'' = Some (JObj [(hp_name p, jstrs [hp_value p])])"
      "map_of (match_of e) ''host'' = Some (jstrs [rc_Host route])" by simp_all
    ultimately show ?thesis using guarded(2) d by blast
  qed (use assms(2) in simp)
qed

text \<open>
  C3: an entry of a protected route that forwards to the backends matches only requests that carry one of
  the configured credentials in its header; the handler strips every credential header before it
  forwards, and sets none of them from the configured headers, but for \<open>Host\<close>. Without a credential
  no entry of the route forwards.
\<close>

theorem protected_route_needs_credential:
  assumes "renderRoute route auth security ranges = Inr entries" "rc_Protected route"
    and "e \<in> set entries" "h \<in> set (handlers_of e)" "is_proxy h"
  shows "(\<exists>p \<in> set (protectedHeaderPolicies auth).
      map_of (match_of e) ''header'' = Some (JObj [(hp_name p, jstrs [hp_value p])])) \<and>
    map_of (match_of e) ''host'' = Some (jstrs [rc_Host route]) \<and>
    (\<forall>p \<in> set (protectedHeaderPolicies auth). headerNameIn (hp_name p) (deleted_headers h)) \<and>
    (\<forall>(name, v) \<in> set (set_headers h). name = ''Host'' \<or> \<not> headerNameIn name (deleted_headers h))"
  using protected_entry [OF assms] uniqueHeaderNames_covers by fastforce

lemma protected_route_needs_credential_witness:
  "\<exists>e h. e \<in> set admin_entries \<and> h \<in> set (handlers_of e) \<and> is_proxy h \<and>
     (\<exists>p \<in> set (protectedHeaderPolicies token_auth).
        map_of (match_of e) ''header'' = Some (JObj [(hp_name p, jstrs [hp_value p])])) \<and>
     (\<forall>p \<in> set (protectedHeaderPolicies token_auth). headerNameIn (hp_name p) (deleted_headers h))"
proof -
  have "list_ex (\<lambda>e. list_ex is_proxy (handlers_of e)) admin_entries" by code_simp
  then obtain e h where eh: "e \<in> set admin_entries" "h \<in> set (handlers_of e)" "is_proxy h"
    by (auto simp: list_ex_iff)
  have "rc_Protected admin_route" by code_simp
  from protected_route_needs_credential [OF admin_entries this eh] eh show ?thesis by blast
qed

text \<open>The kinds of credentials a protected route accepts; without any choice the two for the tokens.\<close>

definition accepts_bearer :: "AuthConfig \<Rightarrow> bool" where
  "accepts_bearer auth \<longleftrightarrow> (let pr = au_ProtectedRoutes auth in pr_AllowBearerToken pr \<or>
     \<not> pr_AllowAdminTokenHeader pr \<and> pr_AdditionalHeaderName pr = [] \<and> pr_AdditionalHeaderValue pr = [])"

definition accepts_admin_header :: "AuthConfig \<Rightarrow> bool" where
  "accepts_admin_header auth \<longleftrightarrow> (let pr = au_ProtectedRoutes auth in pr_AllowAdminTokenHeader pr \<or>
     \<not> pr_AllowBearerToken pr \<and> pr_AdditionalHeaderName pr = [] \<and> pr_AdditionalHeaderValue pr = [])"

definition accepts_additional :: "AuthConfig \<Rightarrow> bool" where
  "accepts_additional auth \<longleftrightarrow>
     pr_AdditionalHeaderName (au_ProtectedRoutes auth) \<noteq> [] \<and> pr_AdditionalHeaderValue (au_ProtectedRoutes auth) \<noteq> []"

lemma protectedHeaderPolicies_set:
  "set (protectedHeaderPolicies auth) =
     {p. \<exists>t \<in> set (authTokens auth). p = \<lparr>hp_name = ''Authorization'', hp_value = ''Bearer '' @ t\<rparr> \<and> accepts_bearer auth \<or>
        p = \<lparr>hp_name = ''X-Admin-Token'', hp_value = t\<rparr> \<and> accepts_admin_header auth} \<union>
     {p. p = \<lparr>hp_name = pr_AdditionalHeaderName (au_ProtectedRoutes auth),
        hp_value = pr_AdditionalHeaderValue (au_ProtectedRoutes auth)\<rparr> \<and> accepts_additional auth}"
proof -
  have list: "set (concat (map (\<lambda>t. (if x then [f t] else []) @ (if y then [g t] else [])) ts) @ (if z then [c] else [])) =
      {p. \<exists>t \<in> set ts. p = f t \<and> x \<or> p = g t \<and> y} \<union> {p. p = c \<and> z}" for x y z f g c and ts :: "string list"
    by auto
  let ?none = "\<not> pr_AllowBearerToken (au_ProtectedRoutes auth) \<and> \<not> pr_AllowAdminTokenHeader (au_ProtectedRoutes auth) \<and>
      pr_AdditionalHeaderName (au_ProtectedRoutes auth) = [] \<and> pr_AdditionalHeaderValue (au_ProtectedRoutes auth) = []"
  have kinds: "?none \<or> pr_AllowBearerToken (au_ProtectedRoutes auth) \<longleftrightarrow> accepts_bearer auth"
    "?none \<or> pr_AllowAdminTokenHeader (au_ProtectedRoutes auth) \<longleftrightarrow> accepts_admin_header auth"
    by (auto simp: accepts_bearer_def accepts_admin_header_def Let_def)
  show ?thesis
    unfolding protectedHeaderPolicies_def Let_def kinds accepts_additional_def [symmetric] list ..
qed

lemma image_choices:
  assumes "\<And>t. f (g t) = a" "\<And>t. f (h t) = b" "f c = d"
  shows "f ` ({p. \<exists>t \<in> T. p = g t \<and> x \<or> p = h t \<and> y} \<union> {p. p = c \<and> z}) =
    {n. (\<exists>t. t \<in> T) \<and> (n = a \<and> x \<or> n = b \<and> y)} \<union> {n. n = d \<and> z}"
proof -
  have "{p. \<exists>t \<in> T. p = g t \<and> x \<or> p = h t \<and> y} = (if x then g ` T else {}) \<union> (if y then h ` T else {})" by auto
  then have "f ` {p. \<exists>t \<in> T. p = g t \<and> x \<or> p = h t \<and> y} = (if x \<and> T \<noteq> {} then {a} else {}) \<union> (if y \<and> T \<noteq> {} then {b} else {})"
    by (auto simp: image_Un image_image assms image_constant_conv)
  moreover have "f ` {p. p = c \<and> z} = {n. n = d \<and> z}" using assms(3) by auto
  ultimately show ?thesis by (auto simp: image_Un)
qed

text \<open>
  C17: the credentials of the gateway do not reach the upstream. A handler that forwards for a protected route removes exactly
  the headers in which the route accepts a credential: the authorization header when bearer tokens are accepted and a
  non-blank admin token is configured, the admin header likewise, and the additional header when it has a name and a
  value (names are compared without their case); of the headers it sets for the upstream none is one of those, but
  for the \<open>Host\<close> header of an HTTPS upstream. The entry only matches requests with one of the credentials.
\<close>

theorem credentials_are_not_forwarded:
  assumes "renderRoute route auth security ranges = Inr entries" "rc_Protected route"
    and "e \<in> set entries" "h \<in> set (handlers_of e)" "is_proxy h"
  shows "ToLower ` set (deleted_headers h) =
      {name. (\<exists>t. (t = au_AdminToken auth \<or> t \<in> set (au_AdminTokens auth)) \<and> TrimSpace t \<noteq> []) \<and>
         (name = ''authorization'' \<and> accepts_bearer auth \<or> name = ''x-admin-token'' \<and> accepts_admin_header auth)} \<union>
      {name. name = ToLower (pr_AdditionalHeaderName (au_ProtectedRoutes auth)) \<and> accepts_additional auth} \<and>
    (\<forall>(name, v) \<in> set (set_headers h). name = ''Host'' \<or> ToLower name \<notin> ToLower ` set (deleted_headers h)) \<and>
    (\<exists>name v. map_of (match_of e) ''header'' = Some (JObj [(name, jstrs [v])]) \<and>
       ((\<exists>t. (t = au_AdminToken auth \<or> t \<in> set (au_AdminTokens auth)) \<and> TrimSpace t \<noteq> [] \<and>
           (name = ''Authorization'' \<and> v = ''Bearer '' @ t \<and> accepts_bearer auth \<or> name = ''X-Admin-Token'' \<and> v = t \<and> accepts_admin_header auth)) \<or>
        name = pr_AdditionalHeaderName (au_ProtectedRoutes auth) \<and> v = pr_AdditionalHeaderValue (au_ProtectedRoutes auth) \<and>
          accepts_additional auth))"
proof -
  from protected_entry [OF assms] obtain p where
    p: "p \<in> set (protectedHeaderPolicies auth)" "map_of (match_of e) ''header'' = Some (JObj [(hp_name p, jstrs [hp_value p])])"
    and d: "deleted_headers h = uniqueHeaderNames (protectedHeaderPolicies auth)"
    and set: "\<forall>(name, v) \<in> set (set_headers h). name = ''Host'' \<or> \<not> headerNameIn name (deleted_headers h)" by blast
  have names: "ToLower ''Authorization'' = ''authorization''" "ToLower ''X-Admin-Token'' = ''x-admin-token''" by code_simp+
  have "ToLower ` set (deleted_headers h) = (\<lambda>p. ToLower (hp_name p)) ` set (protectedHeaderPolicies auth)"
    unfolding d uniqueHeaderNames_def uniqueHeaderLoop_lower by simp
  also have "\<dots> = {name. (\<exists>t. t \<in> set (authTokens auth)) \<and>
         (name = ''authorization'' \<and> accepts_bearer auth \<or> name = ''x-admin-token'' \<and> accepts_admin_header auth)} \<union>
      {name. name = ToLower (pr_AdditionalHeaderName (au_ProtectedRoutes auth)) \<and> accepts_additional auth}"
    unfolding protectedHeaderPolicies_set by (rule image_choices) (simp_all only: headerPolicy.simps names)
  finally have "ToLower ` set (deleted_headers h) = \<dots>" .
  moreover have "\<exists>name v. map_of (match_of e) ''header'' = Some (JObj [(name, jstrs [v])]) \<and>
       ((\<exists>t. t \<in> set (authTokens auth) \<and>
           (name = ''Authorization'' \<and> v = ''Bearer '' @ t \<and> accepts_bearer auth \<or> name = ''X-Admin-Token'' \<and> v = t \<and> accepts_admin_header auth)) \<or>
        name = pr_AdditionalHeaderName (au_ProtectedRoutes auth) \<and> v = pr_AdditionalHeaderValue (au_ProtectedRoutes auth) \<and>
          accepts_additional auth)"
    using p unfolding protectedHeaderPolicies_set by (intro exI [of _ "hp_name p"] exI [of _ "hp_value p"]) auto
  ultimately show ?thesis using set unfolding authTokens_iff headerNameIn_iff by (intro conjI) simp_all
qed

lemma credentials_are_not_forwarded_witness:
  "\<exists>e h. e \<in> set admin_entries \<and> h \<in> set (handlers_of e) \<and> is_proxy h \<and>
     ToLower ` set (deleted_headers h) = {''authorization'', ''x-admin-token''}"
proof -
  have "list_ex (\<lambda>e. list_ex is_proxy (handlers_of e)) admin_entries" by code_simp
  then obtain e h where eh: "e \<in> set admin_entries" "h \<in> set (handlers_of e)" "is_proxy h"
    by (auto simp: list_ex_iff)
  have "rc_Protected admin_route" by code_simp
  note removed = conjunct1 [OF credentials_are_not_forwarded [OF admin_entries this eh]]
  have "accepts_bearer token_auth" "accepts_admin_header token_auth" "\<not> accepts_additional token_auth"
    "TrimSpace (au_AdminToken token_auth) \<noteq> []" by code_simp+
  then have "ToLower ` set (deleted_headers h) = {''authorization'', ''x-admin-token''}" unfolding removed by auto
  with eh show ?thesis by blast
qed

text \<open>
  C4: an entry of an internal route that forwards to the backends only matches requests from the configured
  source ranges, and there is at least one range.
\<close>

theorem internal_route_needs_source:
  assumes "renderRoute route auth security ranges = Inr entries" "rc_Exposure route = ''internal''"
    and "e \<in> set entries" "proxies e"
  shows "map_of (match_of e) ''remote_ip'' = Some (remote_ip ranges) \<and> ranges \<noteq> []"
proof -
  have "ranges \<noteq> []" using assms(1,2) by (auto elim!: renderRoute_cases)
  moreover have "map_of (base_match route ranges) ''remote_ip'' = Some (remote_ip ranges)"
    using assms(2) by (simp add: base_match_def)
  moreover from assms(1,3,4) have "match_of e = base_match route ranges \<or>
      (\<exists>j. match_of e = put ''header'' j (base_match route ranges))"
    by (cases rule: proxy_entry_cases) auto
  ultimately show ?thesis by auto
qed

lemma internal_route_needs_source_witness:
  "\<exists>e \<in> set intranet_entries. proxies e \<and> map_of (match_of e) ''remote_ip'' = Some (remote_ip [''10.0.0.0/8''])"
proof -
  have "list_ex proxies intranet_entries" by code_simp
  then obtain e where e: "e \<in> set intranet_entries" "proxies e" by (auto simp: list_ex_iff)
  have "rc_Exposure intranet_route = ''internal''" by code_simp
  from internal_route_needs_source [OF intranet_entries this e] e show ?thesis by blast
qed

section \<open>The security policy\<close>

definition rejects :: "json \<Rightarrow> int \<Rightarrow> bool" where
  "rejects e status \<longleftrightarrow> \<not> proxies e \<and>
     list_ex (\<lambda>h. map_of h ''handler'' = Some (JStr ''static_response'') \<and> map_of h ''status_code'' = Some (JInt status)) (handlers_of e)"

lemma securityRejection_rejects [simp]: "rejects (securityRejection route m s) s"
  by (simp add: rejects_def) (simp add: securityRejection_def routeLogHandlers_def static_response_def as_obj_def Let_def)

text \<open>
  C18: when the security policy applies to a route, its rendering starts with entries that never forward, and
  among them one rejects the blocked ranges of the gateway and of the route together, one each rejects
  what is outside the allowed ranges of the gateway and of the route, one rejects the denied
  methods of both, and one the paths both deny, cut to the path of the route.
\<close>

theorem security_policy_precedes_the_proxy:
  assumes "renderRoute route auth security ranges = Inr entries"
    and "sc_Enabled security" "\<not> rs_Disabled (rc_Security route)"
  shows "\<exists>sec rest. entries = sec @ rest \<and> (\<forall>e \<in> set sec. \<not> proxies e) \<and>
    (set (sc_BlockedCIDRs security) \<union> set (rs_BlockedCIDRs (rc_Security route)) \<noteq> {} \<longrightarrow>
      (\<exists>b e. set b = set (sc_BlockedCIDRs security) \<union> set (rs_BlockedCIDRs (rc_Security route)) \<and>
         e \<in> set sec \<and> rejects e 403 \<and> match_of e = put ''remote_ip'' (remote_ip b) (routeMatch route))) \<and>
    (\<forall>a \<in> {sc_AllowedCIDRs security, rs_AllowedCIDRs (rc_Security route)}. a \<noteq> [] \<longrightarrow>
      (\<exists>e \<in> set sec. rejects e 403 \<and> match_of e = put ''not'' (JArr [JObj [(''remote_ip'', remote_ip a)]]) (routeMatch route))) \<and>
    (set (sc_DeniedMethods security) \<union> set (rs_AdditionalDeniedMethods (rc_Security route)) \<noteq> {} \<longrightarrow>
      (\<exists>m e. set m = set (sc_DeniedMethods security) \<union> set (rs_AdditionalDeniedMethods (rc_Security route)) \<and>
         e \<in> set sec \<and> rejects e 405 \<and> match_of e = put ''method'' (jstrs m) (routeMatch route))) \<and>
    (\<forall>paths. paths = restrictedPathMatchers (rc_PathPrefix route)
           (appendUnique (sc_DeniedPathPrefixes security) (rs_AdditionalDeniedPathPrefixes (rc_Security route))) \<longrightarrow>
       paths \<noteq> [] \<longrightarrow> (\<exists>e \<in> set sec. rejects e 403 \<and> match_of e = put ''path'' (jstrs paths) (routeMatch route)))"
proof -
  from assms(1) obtain sec n rest where sec: "renderSecurityEntries route security = Inr (sec, n)" and entries: "entries = sec @ rest"
    by (elim renderRoute_cases) blast
  note eq = security_entries_eq [OF sec assms(2,3)]
  have rej: "rejects (securityRejection route m s) s \<and> match_of (securityRejection route m s) = m" for m s by simp
  let ?b = "appendUnique (sc_BlockedCIDRs security) (rs_BlockedCIDRs (rc_Security route))"
  let ?m = "appendUnique (sc_DeniedMethods security) (rs_AdditionalDeniedMethods (rc_Security route))"
  have "securityRejection route (put ''remote_ip'' (remote_ip ?b) (routeMatch route)) 403 \<in> set sec" if "set ?b \<noteq> {}"
    using that unfolding eq Let_def set_empty by simp
  then have blocked: "\<exists>b e. set b = set (sc_BlockedCIDRs security) \<union> set (rs_BlockedCIDRs (rc_Security route)) \<and>
         e \<in> set sec \<and> rejects e 403 \<and> match_of e = put ''remote_ip'' (remote_ip b) (routeMatch route)"
    if "set (sc_BlockedCIDRs security) \<union> set (rs_BlockedCIDRs (rc_Security route)) \<noteq> {}"
    using that rej set_appendUnique by metis
  have "securityRejection route (put ''method'' (jstrs ?m) (routeMatch route)) 405 \<in> set sec" if "set ?m \<noteq> {}"
    using that unfolding eq Let_def set_empty by simp
  then have methods: "\<exists>m e. set m = set (sc_DeniedMethods security) \<union> set (rs_AdditionalDeniedMethods (rc_Security route)) \<and>
         e \<in> set sec \<and> rejects e 405 \<and> match_of e = put ''method'' (jstrs m) (routeMatch route)"
    if "set (sc_DeniedMethods security) \<union> set (rs_AdditionalDeniedMethods (rc_Security route)) \<noteq> {}"
    using that rej set_appendUnique by metis
  have "securityRejection route (put ''not'' (JArr [JObj [(''remote_ip'', remote_ip a)]]) (routeMatch route)) 403 \<in> set sec"
    if "a \<in> {sc_AllowedCIDRs security, rs_AllowedCIDRs (rc_Security route)}" "a \<noteq> []" for a
    unfolding eq using that by auto
  then have allowed: "\<forall>a \<in> {sc_AllowedCIDRs security, rs_AllowedCIDRs (rc_Security route)}. a \<noteq> [] \<longrightarrow>
      (\<exists>e \<in> set sec. rejects e 403 \<and> match_of e = put ''not'' (JArr [JObj [(''remote_ip'', remote_ip a)]]) (routeMatch route))"
    using rej by meson
  have "securityRejection route (put ''path'' (jstrs p) (routeMatch route)) 403 \<in> set sec"
    if "p = restrictedPathMatchers (rc_PathPrefix route)
        (appendUnique (sc_DeniedPathPrefixes security) (rs_AdditionalDeniedPathPrefixes (rc_Security route)))" "p \<noteq> []" for p
    unfolding eq Let_def that(1) [symmetric] using that(2) by simp
  then have paths: "\<exists>e \<in> set sec. rejects e 403 \<and> match_of e = put ''path'' (jstrs p) (routeMatch route)"
    if "p = restrictedPathMatchers (rc_PathPrefix route)
        (appendUnique (sc_DeniedPathPrefixes security) (rs_AdditionalDeniedPathPrefixes (rc_Security route)))" "p \<noteq> []" for p
    using that rej by meson
  have none: "\<forall>e \<in> set sec. \<not> proxies e" using securityEntries_props(1) [OF sec] by blast
  show ?thesis
    by (intro exI [of _ sec] exI [of _ rest] conjI allI impI entries none allowed blocked methods paths)
qed

lemma security_policy_precedes_the_proxy_witness:
  "\<exists>sec rest. admin_entries = sec @ rest \<and> (\<forall>e \<in> set sec. \<not> proxies e) \<and>
     (\<exists>b e. set b = {''203.0.113.0/24'', ''198.51.100.7''} \<and> e \<in> set sec \<and> rejects e 403 \<and>
        match_of e = put ''remote_ip'' (remote_ip b) (routeMatch admin_route))"
proof -
  have c: "sc_Enabled edge_security" "\<not> rs_Disabled (rc_Security admin_route)" by code_simp+
  have b: "sc_BlockedCIDRs edge_security = [''203.0.113.0/24'']" "rs_BlockedCIDRs (rc_Security admin_route) = [''198.51.100.7'']"
    by (simp_all add: edge_security_def admin_route_def plain_security_def)
  have u: "set (sc_BlockedCIDRs edge_security) \<union> set (rs_BlockedCIDRs (rc_Security admin_route)) = {''203.0.113.0/24'', ''198.51.100.7''}"
    unfolding b list.set by blast
  obtain sec rest where e: "admin_entries = sec @ rest" "\<forall>e \<in> set sec. \<not> proxies e"
    "set (sc_BlockedCIDRs edge_security) \<union> set (rs_BlockedCIDRs (rc_Security admin_route)) \<noteq> {} \<longrightarrow>
      (\<exists>b e. set b = set (sc_BlockedCIDRs edge_security) \<union> set (rs_BlockedCIDRs (rc_Security admin_route)) \<and>
         e \<in> set sec \<and> rejects e 403 \<and> match_of e = put ''remote_ip'' (remote_ip b) (routeMatch admin_route))"
    using security_policy_precedes_the_proxy [OF admin_entries c] by (elim exE conjE) (rule that; assumption)
  from e(3) have "\<exists>b e. set b = {''203.0.113.0/24'', ''198.51.100.7''} \<and> e \<in> set sec \<and> rejects e 403 \<and>
        match_of e = put ''remote_ip'' (remote_ip b) (routeMatch admin_route)"
    unfolding u by (rule mp) (rule insert_not_empty)
  with e(1,2) show ?thesis by (intro exI [of _ sec] exI [of _ rest] conjI)
qed

section \<open>Paths\<close>

text \<open>
  The intersection of two path prefixes covers exactly the paths both cover, and there is none when the
  two have no path in common.
\<close>

theorem intersection_of_path_prefixes:
  "(case intersectPathPrefixes left right of Some x \<Rightarrow> under x p | None \<Rightarrow> False) \<longleftrightarrow>
     under (TrimRight (TrimSpace left) ''/'') p \<and> under (TrimRight (TrimSpace right) ''/'') p"
  using intersect_under [where l = left and r = right and p = p] by (simp only: clean_prefix_def)

text \<open>
  The patterns of the path rejection match exactly the paths that are below the path of the route and
  below a denied prefix. This assumes of Caddy's matcher that a pattern without a star is the path itself
  and that a final \<open>/*\<close> stands for everything below, and that the prefixes have no star and no
  space before their final slashes.
\<close>

theorem denied_paths_cover_the_intersection:
  assumes "path_matcher matches" and "HasPrefix p ''/''"
    and "\<forall>q \<in> insert prefix (set denied). CHR ''*'' \<notin> set q \<and> clean_prefix (clean_prefix q) = clean_prefix q"
  shows "(\<exists>m \<in> set (restrictedPathMatchers prefix denied). matches m p) \<longleftrightarrow>
    under (clean_prefix prefix) p \<and> (\<exists>d \<in> set denied. under (clean_prefix d) p)"
proof -
  have star: "CHR ''*'' \<notin> set (clean_prefix q)" if "q \<in> insert prefix (set denied)" for q
    using assms(3) that set_TrimRight [of "TrimSpace q" "''/''"] set_TrimSpace [of q] by (auto simp: clean_prefix_def)
  have one: "(\<exists>m \<in> (case intersectPathPrefixes prefix d of None \<Rightarrow> {} | Some x \<Rightarrow> set (routePathMatchers x)). matches m p) \<longleftrightarrow>
      under (clean_prefix prefix) p \<and> under (clean_prefix d) p" if "d \<in> set denied" for d
  proof (cases "intersectPathPrefixes prefix d")
    case None
    then show ?thesis using intersect_under [where l = prefix and r = d and p = p] by simp
  next
    case (Some x)
    then have x: "x = clean_prefix prefix \<or> x = clean_prefix d" by (rule clean_intersect)
    then have "CHR ''*'' \<notin> set x" "clean_prefix x = x" using star assms(3) that by auto
    then have "(\<exists>m \<in> set (routePathMatchers x). matches m p) \<longleftrightarrow> under x p"
      using routePathMatchers_under [OF assms(1) _ assms(2)] by metis
    then show ?thesis using intersect_under [where l = prefix and r = d and p = p] Some by simp
  qed
  show ?thesis using one unfolding restrictedPathMatchers_def set_restrictedLoop by auto
qed

definition path_match :: "string \<Rightarrow> string \<Rightarrow> bool" where
  "path_match q p = (if HasSuffix q ''/*'' then HasPrefix p (butlast q) else p = q)"

lemma path_matcher_path_match: "path_matcher path_match"
proof -
  have "HasSuffix (q @ ''/*'') ''/*''" for q by (auto simp: HasSuffix_iff)
  moreover have "butlast (q @ ''/*'') = q @ ''/''" for q by (simp add: butlast_append)
  moreover have "\<not> HasSuffix q ''/*''" if "CHR ''*'' \<notin> set q" for q
    using that by (auto simp: HasSuffix_iff)
  ultimately show ?thesis unfolding path_matcher_def path_match_def by simp
qed

lemma denied_paths_cover_the_intersection_witness:
  "(\<exists>m \<in> set (restrictedPathMatchers ''/api'' [''/api/admin/'', ''/status'']). path_match m ''/api/admin/users'') \<and>
   \<not> (\<exists>m \<in> set (restrictedPathMatchers ''/api'' [''/api/admin/'', ''/status'']). path_match m ''/api/list'')"
proof -
  have h: "\<forall>q \<in> insert ''/api'' (set [''/api/admin/'', ''/status'']). CHR ''*'' \<notin> set q \<and> clean_prefix (clean_prefix q) = clean_prefix q"
    by code_simp
  have p: "HasPrefix ''/api/admin/users'' ''/''" "HasPrefix ''/api/list'' ''/''" by code_simp+
  have "under (clean_prefix ''/api'') ''/api/admin/users'' \<and> (\<exists>d \<in> set [''/api/admin/'', ''/status'']. under (clean_prefix d) ''/api/admin/users'')"
    "\<not> (under (clean_prefix ''/api'') ''/api/list'' \<and> (\<exists>d \<in> set [''/api/admin/'', ''/status'']. under (clean_prefix d) ''/api/list''))"
    by code_simp+
  then show ?thesis
    unfolding denied_paths_cover_the_intersection [OF path_matcher_path_match p(1) h]
      denied_paths_cover_the_intersection [OF path_matcher_path_match p(2) h] by blast
qed

section \<open>Servers\<close>

text \<open>
  C19: no two servers of a rendered configuration that speak different protocols listen on overlapping
  addresses, and every server has a protocol.
\<close>

theorem servers_do_not_conflict:
  assumes "renderServers cfg routes = Inr st"
  shows "(\<forall>a p b q. map_of (rn_protocols st) a = Some p \<longrightarrow> map_of (rn_protocols st) b = Some q \<longrightarrow>
      listenerAddressesOverlap a b \<longrightarrow> p = q) \<and> dom (map_of (rn_protocols st)) = dom (map_of (rn_servers st))"
  using renderServers_ok(1) [OF assms] unfolding separate_def by blast

definition edge_state :: RenderState where
  "edge_state = (case renderServers edge_config [admin_route, intranet_route] of Inr st \<Rightarrow> st | Inl _ \<Rightarrow>
     \<lparr>rn_servers = [], rn_protocols = [], rn_redirects = []\<rparr>)"

lemma edge_state: "renderServers edge_config [admin_route, intranet_route] = Inr edge_state"
  and edge_sizes: "length (rn_servers edge_state) = 2" "length (routes_of edge_state '':80'') = 2"
proof -
  have "(case renderServers edge_config [admin_route, intranet_route] of
      Inr st \<Rightarrow> length (rn_servers st) = 2 \<and> length (routes_of st '':80'') = 2 | Inl _ \<Rightarrow> False)" by code_simp
  then show "renderServers edge_config [admin_route, intranet_route] = Inr edge_state"
    "length (rn_servers edge_state) = 2" "length (routes_of edge_state '':80'') = 2"
    by (auto simp: edge_state_def split: sum.splits)
qed

lemma servers_do_not_conflict_witness:
  "dom (map_of (rn_protocols edge_state)) = dom (map_of (rn_servers edge_state)) \<and> length (rn_servers edge_state) = 2"
proof
  show "length (rn_servers edge_state) = 2" by (rule edge_sizes)
qed (use servers_do_not_conflict [OF edge_state] in blast)

text \<open>
  Every server holds exactly the entries of the enabled routes of its address, in the order of the
  sorted routes, and the HTTP server after them one redirect for each enabled HTTPS route; each enabled
  route has rendered, and a disabled route leaves no trace.
\<close>

theorem servers_hold_the_enabled_routes:
  assumes "renderServers cfg routes = Inr st"
  shows "(\<forall>a. routes_of st a =
      concat (map (entries_of cfg) (filter (\<lambda>r. rc_Enabled r \<and> route_address (ap_Gateway cfg) r = a) routes)) @
      (if a = gw_HTTPListen (ap_Gateway cfg) then concat (map (redirect_of cfg) routes) else [])) \<and>
    (\<forall>r \<in> set routes. rc_Enabled r \<longrightarrow>
      map_of (rn_servers st) (route_address (ap_Gateway cfg) r) \<noteq> None \<and>
      renderRoute r (ap_Auth cfg) (ap_Security cfg) (gw_InternalSourceRanges (ap_Gateway cfg)) = Inr (entries_of cfg r))"
  using renderServers_ok(2,3) [OF assms] by (simp add: routes_at_def)

lemma servers_hold_the_enabled_routes_witness:
  "routes_of edge_state '':443'' = entries_of edge_config admin_route @ entries_of edge_config intranet_route \<and>
   length (routes_of edge_state '':80'') = 2"
proof -
  have r: "route_address (ap_Gateway edge_config) admin_route = '':443''"
    "route_address (ap_Gateway edge_config) intranet_route = '':443''" "rc_Enabled admin_route" "rc_Enabled intranet_route"
    "gw_HTTPListen (ap_Gateway edge_config) \<noteq> '':443''" by code_simp+
  have "routes_of edge_state '':443'' = entries_of edge_config admin_route @ entries_of edge_config intranet_route"
    using servers_hold_the_enabled_routes [OF edge_state] r by simp
  with edge_sizes(2) show ?thesis by blast
qed

text \<open>
  The routes are rendered in a stable order of the same routes: exact hosts before wildcard hosts, and
  for one host the longer path prefix first, so the more specific route is matched first.
\<close>

theorem routes_rendered_most_specific_first:
  "mset (sortRoutes routes) = mset routes \<and>
   (\<forall>i j. i < j \<longrightarrow> j < length routes \<longrightarrow> \<not> route_less (sortRoutes routes ! j) (sortRoutes routes ! i)) \<and>
   (\<forall>r. filter (\<lambda>x. route_key x = route_key r) (sortRoutes routes) = filter (\<lambda>x. route_key x = route_key r) routes)"
  using sortRoutes_sorted by (auto simp: sortRoutes_def sort_key_stable)

lemma routes_rendered_most_specific_first_witness:
  "\<not> route_less (sortRoutes [intranet_route, admin_route] ! 1) (sortRoutes [intranet_route, admin_route] ! 0) \<and>
   route_less admin_route (admin_route\<lparr>rc_Host := ''*.example.com''\<rparr>)"
proof
  show "route_less admin_route (admin_route\<lparr>rc_Host := ''*.example.com''\<rparr>)" by code_simp
  have "(0::nat) < 1" "1 < length [intranet_route, admin_route]" by simp_all
  then show "\<not> route_less (sortRoutes [intranet_route, admin_route] ! 1) (sortRoutes [intranet_route, admin_route] ! 0)"
    using routes_rendered_most_specific_first [of "[intranet_route, admin_route]"] by blast
qed

text \<open>
  The certificate of a route is skipped exactly when a configured wildcard subject covers its host: the
  host is one label below the domain of the wildcard and is not a wildcard itself.
\<close>

theorem wildcard_covers_one_label:
  "wildcardCertificateCoversHost subjects host \<longleftrightarrow>
     (\<exists>s \<in> set subjects. \<exists>label suffix.
        TrimSuffix (ToLower (TrimSpace s)) ''.'' = ''*.'' @ suffix \<and>
        TrimSuffix (ToLower (TrimSpace host)) ''.'' = label @ ''.'' @ suffix \<and>
        label \<noteq> [] \<and> CHR ''.'' \<notin> set label \<and> label \<noteq> ''*'')"
  by (rule wildcardCertificateCoversHost_iff)

end
