(* ===== verification/LogStore.thy ===== *)
theory LogStore
  imports JsonModel
begin

text \<open>
  The in-memory log, \<open>backend/internal/logs/store.go\<close>: a ring buffer bounded in entries and in bytes, and
  the writer that cuts a byte stream into lines. Parameters stand for the library calls whose results the
  package only passes on: the size of a marshalled entry (\<open>None\<close> when it cannot be marshalled), the JSON
  decoder, the time parser and \<open>fmt.Sprint\<close>; every statement holds for all of them. A JSON number is
  an exact rational.
\<close>

section \<open>The ring buffer\<close>

record Entry =
  le_Time :: time
  le_Source :: string
  le_Level :: string
  le_Message :: string
  le_Fields :: jobj

record LogStore =
  lg_entries :: "Entry list"
  lg_sizes :: "nat list"
  lg_start :: nat
  lg_count :: nat
  lg_storedBytes :: nat
  lg_limit :: nat
  lg_byteLimit :: nat

definition maxLineBytes :: nat where
  "maxLineBytes = 64 * 1024"

definition maxStoreBytes :: nat where
  "maxStoreBytes = 8 * 1024 * 1024"

definition log_zero_time :: time where
  "log_zero_time = - 62135596800000000000"

definition zero_entry :: Entry where
  "zero_entry = \<lparr>le_Time = log_zero_time, le_Source = [], le_Level = [], le_Message = [], le_Fields = []\<rparr>"

definition newLogStore :: "nat \<Rightarrow> nat \<Rightarrow> LogStore" where
  "newLogStore limit byteLimit =
     \<lparr>lg_entries = replicate limit zero_entry, lg_sizes = replicate limit 0, lg_start = 0, lg_count = 0,
      lg_storedBytes = 0, lg_limit = limit, lg_byteLimit = byteLimit\<rparr>"

definition NewLogStore :: "int \<Rightarrow> LogStore" where
  "NewLogStore limit = newLogStore (nat (if limit \<le> 0 then 1000 else limit)) maxStoreBytes"

text \<open>The loop of \<open>Add\<close> that evicts the oldest entries until the new one fits.\<close>

function evict :: "nat \<Rightarrow> LogStore \<Rightarrow> LogStore" where
  "evict entrySize s =
     (if lg_count s > 0 \<and> (lg_count s = lg_limit s \<or> lg_storedBytes s + entrySize > lg_byteLimit s)
      then evict entrySize (s\<lparr>lg_storedBytes := lg_storedBytes s - lg_sizes s ! lg_start s,
             lg_entries := (lg_entries s)[lg_start s := zero_entry],
             lg_sizes := (lg_sizes s)[lg_start s := 0],
             lg_start := (lg_start s + 1) mod lg_limit s,
             lg_count := lg_count s - 1\<rparr>)
      else s)"
  by pat_completeness auto
termination
  by (relation "measure (\<lambda>(_, s). lg_count s)") auto

declare evict.simps [simp del]

definition store_entry :: "Entry \<Rightarrow> nat \<Rightarrow> LogStore \<Rightarrow> LogStore" where
  "store_entry entry entrySize s0 =
     (let s = evict entrySize s0; index = (lg_start s + lg_count s) mod lg_limit s in
      s\<lparr>lg_entries := (lg_entries s)[index := entry],
        lg_sizes := (lg_sizes s)[index := entrySize],
        lg_storedBytes := lg_storedBytes s + entrySize,
        lg_count := lg_count s + 1\<rparr>)"

definition clean_entry :: "time \<Rightarrow> Entry \<Rightarrow> Entry" where
  "clean_entry now entry =
     (let e1 = (if le_Time entry = log_zero_time then entry\<lparr>le_Time := now\<rparr> else entry);
          level = ToLower (TrimSpace (le_Level e1))
      in e1\<lparr>le_Level := (if level = [] then ''info'' else level),
            le_Source := TrimSpace (le_Source e1), le_Message := TrimSpace (le_Message e1)\<rparr>)"

definition Add :: "(Entry \<Rightarrow> nat option) \<Rightarrow> time \<Rightarrow> Entry \<Rightarrow> LogStore \<Rightarrow> LogStore" where
  "Add marshalled now entry0 s =
     (let entry = clean_entry now entry0 in
      case marshalled entry of
        None \<Rightarrow> s
      | Some entrySize \<Rightarrow> (if entrySize > lg_byteLimit s then s else store_entry entry entrySize s))"

definition ReadLast :: "int \<Rightarrow> LogStore \<Rightarrow> Entry list" where
  "ReadLast limit0 s =
     (let l1 = (if limit0 \<le> 0 \<or> limit0 > int (lg_limit s) then min 200 (lg_limit s) else nat limit0);
          limit = (if l1 > lg_count s then lg_count s else l1)
      in map (\<lambda>offset. lg_entries s ! ((lg_start s + lg_count s - 1 - offset + lg_limit s) mod lg_limit s)) [0..<limit])"

section \<open>Parsing a line\<close>

definition stringField :: "(json \<Rightarrow> string) \<Rightarrow> jobj \<Rightarrow> string \<Rightarrow> string" where
  "stringField sprint fs key = (case map_of fs key of None \<Rightarrow> [] | Some v \<Rightarrow> sprint v)"

definition trunc :: "rat \<Rightarrow> int" where
  "trunc r = (if r < 0 then - \<lfloor>- r\<rfloor> else \<lfloor>r\<rfloor>)"

definition parseEntry :: "(string \<Rightarrow> jobj option) \<Rightarrow> (string \<Rightarrow> time option) \<Rightarrow> (json \<Rightarrow> string) \<Rightarrow>
    time \<Rightarrow> string \<Rightarrow> string \<Rightarrow> string \<Rightarrow> Entry" where
  "parseEntry decode parse_time sprint now source defaultLevel line =
     (let entry = \<lparr>le_Time = now, le_Source = source, le_Level = defaultLevel, le_Message = line, le_Fields = []\<rparr> in
      case decode line of
        None \<Rightarrow> entry
      | Some fs \<Rightarrow>
          (let e1 = (case map_of fs ''time'' of
                 Some (JStr v) \<Rightarrow> (case parse_time v of Some t \<Rightarrow> entry\<lparr>le_Time := t\<rparr> | None \<Rightarrow> entry) | _ \<Rightarrow> entry);
               e2 = (case map_of fs ''ts'' of
                 Some (JFloat (Finite v)) \<Rightarrow>
                   (let seconds = trunc v; nanoseconds = trunc ((v - of_int seconds) * 1000000000)
                    in e1\<lparr>le_Time := seconds * 1000000000 + nanoseconds\<rparr>) | _ \<Rightarrow> e1);
               e3 = (case map_of fs ''level'' of
                 Some (JStr v) \<Rightarrow> if v \<noteq> [] then e2\<lparr>le_Level := v\<rparr> else e2 | _ \<Rightarrow> e2);
               e4 = (case map_of fs ''msg'' of
                 Some (JStr v) \<Rightarrow> if v \<noteq> [] then e3\<lparr>le_Message := v\<rparr> else e3 | _ \<Rightarrow> e3);
               c0 = stringField sprint fs ''component'';
               component = (if c0 = [] then stringField sprint fs ''logger'' else c0);
               e5 = (if component \<noteq> [] then e4\<lparr>le_Source := TrimSuffix source ''/'' @ ''/'' @ component\<rparr> else e4);
               rest = filter (\<lambda>(k, _). k \<notin> {''time'', ''ts'', ''level'', ''msg'', ''component'', ''logger''}) fs
           in if rest \<noteq> [] then e5\<lparr>le_Fields := rest\<rparr> else e5))"

section \<open>The line writer\<close>

record lineWriter =
  lw_source :: string
  lw_level :: string
  lw_pending :: string
  lw_dropping :: bool

definition newline :: char where
  "newline = CHR 0x0A"

definition writePart :: "string \<Rightarrow> lineWriter \<Rightarrow> lineWriter" where
  "writePart part w =
     (if lw_dropping w then w
      else
        (let available = maxLineBytes - length (lw_pending w) in
         if length part > available
         then w\<lparr>lw_pending := lw_pending w @ take available part, lw_dropping := True\<rparr>
         else w\<lparr>lw_pending := lw_pending w @ part\<rparr>))"

text \<open>The loop of \<open>Write\<close>: the completed lines it passes to \<open>addLine\<close>, and the writer afterwards.\<close>

function writeLines :: "string \<Rightarrow> lineWriter \<Rightarrow> string list \<times> lineWriter" where
  "writeLines data w =
     (if data = [] then ([], w)
      else
        (case IndexByte data newline of
           None \<Rightarrow> ([], writePart data w)
         | Some i \<Rightarrow>
             (let w1 = writePart (take i data) w;
                  (lines, w2) = writeLines (drop (Suc i) data) (w1\<lparr>lw_pending := [], lw_dropping := False\<rparr>)
              in (lw_pending w1 # lines, w2))))"
  by pat_completeness auto
termination
  by (relation "measure (\<lambda>(data, _). length data)") auto

declare writeLines.simps [simp del]

definition addLine :: "(string \<Rightarrow> jobj option) \<Rightarrow> (string \<Rightarrow> time option) \<Rightarrow> (json \<Rightarrow> string) \<Rightarrow> (Entry \<Rightarrow> nat option) \<Rightarrow>
    time \<Rightarrow> lineWriter \<Rightarrow> string \<Rightarrow> LogStore \<Rightarrow> LogStore" where
  "addLine decode parse_time sprint marshalled now w line0 s =
     (let line = TrimSpace line0 in
      if line = [] then s
      else Add marshalled now (parseEntry decode parse_time sprint now (lw_source w) (lw_level w) line) s)"

text \<open>\<open>Write\<close> takes all of the data; the clock reading of each line is an argument.\<close>

fun addLines :: "(time \<Rightarrow> lineWriter \<Rightarrow> string \<Rightarrow> LogStore \<Rightarrow> LogStore) \<Rightarrow> (nat \<Rightarrow> time) \<Rightarrow> lineWriter \<Rightarrow> string list \<Rightarrow> LogStore \<Rightarrow> LogStore" where
  "addLines add clk w [] s = s"
| "addLines add clk w (line # lines) s = addLines add (\<lambda>k. clk (Suc k)) w lines (add (clk 0) w line s)"

definition Write :: "(time \<Rightarrow> lineWriter \<Rightarrow> string \<Rightarrow> LogStore \<Rightarrow> LogStore) \<Rightarrow> (nat \<Rightarrow> time) \<Rightarrow> string \<Rightarrow>
    lineWriter \<Rightarrow> LogStore \<Rightarrow> nat \<times> lineWriter \<times> LogStore" where
  "Write add clk data w s =
     (case writeLines data w of (lines, w') \<Rightarrow> (length data, w', addLines add clk w lines s))"

section \<open>The bounded queue it implements\<close>

text \<open>
  The abstract log is the list of its entries with their sizes, oldest first. Adding an entry drops as
  few of the oldest as needed for the number of entries and for the bytes.
\<close>

definition ring_index :: "LogStore \<Rightarrow> nat \<Rightarrow> nat" where
  "ring_index s i = (lg_start s + i) mod lg_limit s"

definition contents :: "LogStore \<Rightarrow> (Entry \<times> nat) list" where
  "contents s = map (\<lambda>i. (lg_entries s ! ring_index s i, lg_sizes s ! ring_index s i)) [0..<lg_count s]"

definition bytes :: "(Entry \<times> nat) list \<Rightarrow> nat" where
  "bytes xs = sum_list (map snd xs)"

fun make_room :: "nat \<Rightarrow> nat \<Rightarrow> nat \<Rightarrow> (Entry \<times> nat) list \<Rightarrow> (Entry \<times> nat) list" where
  "make_room limit byteLimit n [] = []"
| "make_room limit byteLimit n (x # xs) =
     (if limit \<le> length (x # xs) \<or> byteLimit < bytes (x # xs) + n then make_room limit byteLimit n xs else x # xs)"

definition log_ok :: "LogStore \<Rightarrow> bool" where
  "log_ok s \<longleftrightarrow> 0 < lg_limit s \<and> length (lg_entries s) = lg_limit s \<and> length (lg_sizes s) = lg_limit s \<and>
     lg_start s < lg_limit s \<and> lg_count s \<le> lg_limit s \<and> lg_storedBytes s = bytes (contents s) \<and>
     lg_storedBytes s \<le> lg_byteLimit s"

lemma length_contents [simp]: "length (contents s) = lg_count s"
  by (simp add: contents_def)

lemma mod_add_inj:
  fixes n :: nat
  assumes "i < n" "j < n" "(a + i) mod n = (a + j) mod n"
  shows "i = j"
proof -
  have one: "i = j" if "i \<le> j" "j < n" "(a + j) mod n = (a + i) mod n" for i j
  proof -
    have "n dvd (a + j) - (a + i)" using that by (simp add: mod_eq_dvd_iff_nat)
    then have "n dvd j - i" by simp
    with that show ?thesis by (auto dest: dvd_imp_le)
  qed
  show ?thesis using one [of i j] one [of j i] assms by (cases "i \<le> j") auto
qed

lemma ring_index_less [simp]: "log_ok s \<Longrightarrow> ring_index s i < lg_limit s"
  by (simp add: ring_index_def log_ok_def)

definition drop_oldest :: "LogStore \<Rightarrow> LogStore" where
  "drop_oldest s =
     s\<lparr>lg_storedBytes := lg_storedBytes s - lg_sizes s ! lg_start s,
       lg_entries := (lg_entries s)[lg_start s := zero_entry],
       lg_sizes := (lg_sizes s)[lg_start s := 0],
       lg_start := (lg_start s + 1) mod lg_limit s,
       lg_count := lg_count s - 1\<rparr>"

lemma drop_oldest_fields [simp]:
  "lg_limit (drop_oldest s) = lg_limit s" "lg_byteLimit (drop_oldest s) = lg_byteLimit s"
  "lg_count (drop_oldest s) = lg_count s - 1"
  by (simp_all add: drop_oldest_def)

lemma contents_Cons:
  assumes "log_ok s" "lg_count s = Suc k"
  shows "contents s = (lg_entries s ! lg_start s, lg_sizes s ! lg_start s) #
    map (\<lambda>i. (lg_entries s ! ring_index s (Suc i), lg_sizes s ! ring_index s (Suc i))) [0..<k]"
proof -
  have "[0..<Suc k] = 0 # map Suc [0..<k]" by (simp add: upt_conv_Cons map_Suc_upt del: upt_Suc)
  moreover have "ring_index s 0 = lg_start s" using assms(1) by (simp add: ring_index_def log_ok_def)
  ultimately show ?thesis using assms(2) by (simp add: contents_def comp_def)
qed

lemma drop_oldest_contents:
  assumes "log_ok s" "0 < lg_count s"
  shows "contents (drop_oldest s) = tl (contents s)" "log_ok (drop_oldest s)"
proof -
  obtain k where k: "lg_count s = Suc k" using assms(2) by (cases "lg_count s") auto
  have ok: "0 < lg_limit s" "lg_start s < lg_limit s" "lg_count s \<le> lg_limit s"
    "length (lg_entries s) = lg_limit s" "length (lg_sizes s) = lg_limit s" using assms(1) by (auto simp: log_ok_def)
  have idx: "ring_index (drop_oldest s) i = ring_index s (Suc i)" for i
    by (simp add: ring_index_def drop_oldest_def mod_add_left_eq)
  have ne: "lg_start s \<noteq> ring_index s (Suc i)" if "i < k" for i
  proof
    assume "lg_start s = ring_index s (Suc i)"
    then have "(lg_start s + Suc i) mod lg_limit s = (lg_start s + 0) mod lg_limit s"
      using ok by (simp add: ring_index_def)
    from mod_add_inj [OF _ _ this] that k ok show False by simp
  qed
  show c: "contents (drop_oldest s) = tl (contents s)"
    unfolding contents_Cons [OF assms(1) k] using k ne
    by (auto simp: contents_def idx) (auto simp: drop_oldest_def)
  have "bytes (contents s) = lg_sizes s ! lg_start s + bytes (tl (contents s))"
    unfolding contents_Cons [OF assms(1) k] by (simp add: bytes_def)
  then have "lg_storedBytes (drop_oldest s) = bytes (contents (drop_oldest s))"
    using assms(1) unfolding c by (simp add: log_ok_def drop_oldest_def)
  moreover have "lg_storedBytes (drop_oldest s) \<le> lg_storedBytes s"
    "length (lg_entries (drop_oldest s)) = lg_limit s" "length (lg_sizes (drop_oldest s)) = lg_limit s"
    "lg_start (drop_oldest s) < lg_limit s" using ok by (simp_all add: drop_oldest_def)
  ultimately show "log_ok (drop_oldest s)"
    using assms(1) ok unfolding log_ok_def drop_oldest_fields by linarith
qed

lemma evict_unfold:
  "evict n s = (if lg_count s > 0 \<and> (lg_count s = lg_limit s \<or> lg_storedBytes s + n > lg_byteLimit s)
    then evict n (drop_oldest s) else s)"
  by (subst evict.simps) (simp add: drop_oldest_def)

lemma make_room_step:
  "xs \<noteq> [] \<Longrightarrow> make_room l b n xs = (if l \<le> length xs \<or> b < bytes xs + n then make_room l b n (tl xs) else xs)"
  by (cases xs) auto

lemma evict_contents:
  "log_ok s \<Longrightarrow> contents (evict n s) = make_room (lg_limit s) (lg_byteLimit s) n (contents s) \<and> log_ok (evict n s) \<and>
    lg_limit (evict n s) = lg_limit s \<and> lg_byteLimit (evict n s) = lg_byteLimit s \<and>
    (lg_count (evict n s) = 0 \<or> lg_count (evict n s) < lg_limit s \<and> lg_storedBytes (evict n s) + n \<le> lg_byteLimit s)"
proof (induction "lg_count s" arbitrary: s)
  case 0
  then have "contents s = []" by (simp add: contents_def)
  with 0 show ?case by (subst (1 2 3 4 5 6 7) evict_unfold) simp
next
  case (Suc k)
  have ne: "contents s \<noteq> []" using Suc.hyps(2) by (metis length_contents list.size(3) nat.distinct(1))
  have full: "lg_limit s \<le> length (contents s) \<longleftrightarrow> lg_count s = lg_limit s" using Suc.prems by (auto simp: log_ok_def)
  show ?case
  proof (cases "lg_count s = lg_limit s \<or> lg_storedBytes s + n > lg_byteLimit s")
    case True
    then have e: "evict n s = evict n (drop_oldest s)" using Suc.hyps(2) by (subst evict_unfold) simp
    note d = drop_oldest_contents [OF Suc.prems, unfolded Suc.hyps(2) [symmetric]]
    have "make_room (lg_limit s) (lg_byteLimit s) n (contents s) = make_room (lg_limit s) (lg_byteLimit s) n (tl (contents s))"
      using True Suc.prems full ne by (subst make_room_step) (auto simp: log_ok_def)
    with Suc.hyps(1) [of "drop_oldest s"] d Suc.hyps(2) e show ?thesis by simp
  next
    case False
    then have e: "evict n s = s" by (subst evict_unfold) simp
    have "make_room (lg_limit s) (lg_byteLimit s) n (contents s) = contents s"
      using False Suc.prems full ne by (subst make_room_step) (auto simp: log_ok_def)
    with e Suc.prems False show ?thesis by (auto simp: log_ok_def)
  qed
qed

lemma append_contents:
  assumes "log_ok s" "lg_count s < lg_limit s" "lg_storedBytes s + n \<le> lg_byteLimit s"
    and "t = s\<lparr>lg_entries := (lg_entries s)[(lg_start s + lg_count s) mod lg_limit s := e],
      lg_sizes := (lg_sizes s)[(lg_start s + lg_count s) mod lg_limit s := n],
      lg_storedBytes := lg_storedBytes s + n, lg_count := lg_count s + 1\<rparr>"
  shows "contents t = contents s @ [(e, n)]" "log_ok t"
proof -
  have ok: "0 < lg_limit s" "lg_start s < lg_limit s" "length (lg_entries s) = lg_limit s" "length (lg_sizes s) = lg_limit s"
    using assms(1) by (auto simp: log_ok_def)
  have idx: "ring_index t i = ring_index s i" for i by (simp add: ring_index_def assms(4))
  have ne: "ring_index s (lg_count s) \<noteq> ring_index s i" if "i < lg_count s" for i
  proof
    assume "ring_index s (lg_count s) = ring_index s i"
    from mod_add_inj [OF _ _ this [unfolded ring_index_def]] assms(2) that show False by simp
  qed
  have at: "(lg_start s + lg_count s) mod lg_limit s = ring_index s (lg_count s)" by (simp add: ring_index_def)
  have fields: "lg_entries t = (lg_entries s)[ring_index s (lg_count s) := e]" "lg_sizes t = (lg_sizes s)[ring_index s (lg_count s) := n]"
    "lg_count t = Suc (lg_count s)" by (simp_all add: assms(4) ring_index_def)
  show c: "contents t = contents s @ [(e, n)]"
    using ne ok ring_index_less [OF assms(1), of "lg_count s"] by (simp add: contents_def idx fields)
  have "bytes (contents t) = bytes (contents s) + n" by (simp add: c bytes_def)
  moreover have "lg_storedBytes t = lg_storedBytes s + n" "lg_limit t = lg_limit s" "lg_byteLimit t = lg_byteLimit s"
    "lg_start t = lg_start s" "length (lg_entries t) = lg_limit s" "length (lg_sizes t) = lg_limit s"
    using ok by (simp_all add: assms(4))
  ultimately show "log_ok t" using assms(1,2,3) fields(3) unfolding log_ok_def by simp
qed

text \<open>Storing an entry is adding it to the queue after room has been made.\<close>

lemma store_entry_contents:
  assumes "log_ok s" "n \<le> lg_byteLimit s"
  shows "contents (store_entry e n s) = make_room (lg_limit s) (lg_byteLimit s) n (contents s) @ [(e, n)]"
    and "log_ok (store_entry e n s)"
proof -
  let ?s = "evict n s"
  note ev = evict_contents [OF assms(1), of n]
  have room: "lg_count ?s < lg_limit ?s" "lg_storedBytes ?s + n \<le> lg_byteLimit ?s"
    using ev assms by (auto simp: log_ok_def contents_def bytes_def)
  have t: "store_entry e n s = ?s\<lparr>lg_entries := (lg_entries ?s)[(lg_start ?s + lg_count ?s) mod lg_limit ?s := e],
      lg_sizes := (lg_sizes ?s)[(lg_start ?s + lg_count ?s) mod lg_limit ?s := n],
      lg_storedBytes := lg_storedBytes ?s + n, lg_count := lg_count ?s + 1\<rparr>"
    by (simp add: store_entry_def Let_def)
  from append_contents [OF _ room t] ev
  show "contents (store_entry e n s) = make_room (lg_limit s) (lg_byteLimit s) n (contents s) @ [(e, n)]"
    and "log_ok (store_entry e n s)" by simp_all
qed

lemma log_ok_newLogStore: "0 < limit \<Longrightarrow> log_ok (newLogStore limit byteLimit) \<and> contents (newLogStore limit byteLimit) = []"
  by (simp add: log_ok_def newLogStore_def contents_def bytes_def)

lemma readLast_contents:
  assumes "log_ok s"
  shows "ReadLast limit s =
    take (if limit \<le> 0 \<or> limit > int (lg_limit s) then min 200 (lg_limit s) else nat limit) (rev (map fst (contents s)))"
proof -
  have ok: "0 < lg_limit s" "lg_start s < lg_limit s" "lg_count s \<le> lg_limit s" using assms by (auto simp: log_ok_def)
  have idx: "(lg_start s + lg_count s - Suc i) mod lg_limit s = ring_index s (lg_count s - Suc i)" if "i < lg_count s" for i
    using that by (simp add: ring_index_def)
  have main: "map (\<lambda>i. lg_entries s ! ((lg_start s + lg_count s - 1 - i + lg_limit s) mod lg_limit s)) [0..<min m (lg_count s)] =
      take m (rev (map fst (contents s)))" for m
    by (rule nth_equalityI) (auto simp: idx rev_nth contents_def)
  define m where "m = (if limit \<le> 0 \<or> limit > int (lg_limit s) then min 200 (lg_limit s) else nat limit)"
  have "(if m > lg_count s then lg_count s else m) = min m (lg_count s)" by (simp add: min_def)
  then have "ReadLast limit s = map (\<lambda>i. lg_entries s ! ((lg_start s + lg_count s - 1 - i + lg_limit s) mod lg_limit s))
      [0..<min m (lg_count s)]"
    unfolding ReadLast_def Let_def m_def [symmetric] by simp
  then show ?thesis unfolding main m_def .
qed

section \<open>The line writer\<close>

text \<open>The writer one byte at a time: what it emits and its state.\<close>

definition writeByte :: "char \<Rightarrow> lineWriter \<Rightarrow> string list \<times> lineWriter" where
  "writeByte c w =
     (if c = newline then ([lw_pending w], w\<lparr>lw_pending := [], lw_dropping := False\<rparr>)
      else if lw_dropping w then ([], w)
      else if length (lw_pending w) < maxLineBytes then ([], w\<lparr>lw_pending := lw_pending w @ [c]\<rparr>)
      else ([], w\<lparr>lw_dropping := True\<rparr>))"

fun writeBytes :: "string \<Rightarrow> lineWriter \<Rightarrow> string list \<times> lineWriter" where
  "writeBytes [] w = ([], w)"
| "writeBytes (c # cs) w =
     (case writeByte c w of (l1, w1) \<Rightarrow> (case writeBytes cs w1 of (l2, w2) \<Rightarrow> (l1 @ l2, w2)))"

lemma writeBytes_append:
  "writeBytes (a @ b) w = (case writeBytes a w of (l1, w1) \<Rightarrow> (case writeBytes b w1 of (l2, w2) \<Rightarrow> (l1 @ l2, w2)))"
  by (induction a arbitrary: w) (auto split: prod.splits)

lemma writePart_Cons:
  "c \<noteq> newline \<Longrightarrow> length (lw_pending w) \<le> maxLineBytes \<Longrightarrow> writePart (c # cs) w = writePart cs (snd (writeByte c w))"
proof (cases "length (lw_pending w) < maxLineBytes")
  case True
  then obtain k where k: "maxLineBytes - length (lw_pending w) = Suc k" by (metis Suc_diff_Suc)
  then have "maxLineBytes - Suc (length (lw_pending w)) = k" by simp
  moreover assume "c \<noteq> newline"
  ultimately show ?thesis using True k by (auto simp: writePart_def writeByte_def Let_def)
next
  case False
  assume "c \<noteq> newline" "length (lw_pending w) \<le> maxLineBytes"
  with False show ?thesis by (auto simp: writePart_def writeByte_def Let_def)
qed

lemma writeByte_pending: "length (lw_pending w) \<le> maxLineBytes \<Longrightarrow> length (lw_pending (snd (writeByte c w))) \<le> maxLineBytes"
  by (auto simp: writeByte_def)

lemma writeBytes_part:
  "newline \<notin> set part \<Longrightarrow> length (lw_pending w) \<le> maxLineBytes \<Longrightarrow> writeBytes part w = ([], writePart part w)"
proof (induction part arbitrary: w)
  case Nil
  then show ?case by (simp add: writePart_def Let_def)
next
  case (Cons c cs)
  have "fst (writeByte c w) = []" using Cons.prems by (auto simp: writeByte_def)
  then obtain w1 where w1: "writeByte c w = ([], w1)" by (cases "writeByte c w") auto
  have "length (lw_pending w1) \<le> maxLineBytes" using writeByte_pending [OF Cons.prems(2), of c] w1 by simp
  with Cons w1 show ?case using writePart_Cons [of c w cs] by auto
qed

lemma writePart_pending: "length (lw_pending w) \<le> maxLineBytes \<Longrightarrow> length (lw_pending (writePart part w)) \<le> maxLineBytes"
  by (auto simp: writePart_def Let_def)

lemma IndexByte_split: "IndexByte s b = Some i \<Longrightarrow> s = take i s @ b # drop (Suc i) s \<and> b \<notin> set (take i s)"
proof (induction s arbitrary: i)
  case (Cons c s)
  then show ?case by (cases i) (auto split: if_splits)
qed simp

lemma writeLines_bytes:
  "length (lw_pending w) \<le> maxLineBytes \<Longrightarrow> writeLines data w = writeBytes data w"
proof (induction data arbitrary: w rule: length_induct)
  case (1 data)
  show ?case
  proof (cases "IndexByte data newline")
    case None
    then have "writeBytes data w = ([], writePart data w)"
      using 1 by (intro writeBytes_part) (simp_all add: IndexByte_None)
    moreover have "writeLines data w = (if data = [] then ([], w) else ([], writePart data w))"
      by (subst writeLines.simps) (simp only: None option.case)
    ultimately show ?thesis by (auto simp: writePart_def Let_def)
  next
    case (Some i)
    note sp = IndexByte_split [OF Some]
    let ?p = "take i data" and ?r = "drop (Suc i) data"
    let ?w = "(writePart ?p w)\<lparr>lw_pending := [], lw_dropping := False\<rparr>"
    have ne: "data \<noteq> []" using Some by auto
    have "length ?r < length data" using ne by (cases data) auto
    then have ih: "writeLines ?r ?w = writeBytes ?r ?w" using 1 by simp
    have "writeBytes ?p w = ([], writePart ?p w)" using sp 1 by (intro writeBytes_part) auto
    then have "writeBytes (?p @ newline # ?r) w = (case writeBytes ?r ?w of (l, w2) \<Rightarrow> (lw_pending (writePart ?p w) # l, w2))"
      by (simp add: writeBytes_append writeByte_def split: prod.splits)
    then have "writeBytes data w = (case writeBytes ?r ?w of (l, w2) \<Rightarrow> (lw_pending (writePart ?p w) # l, w2))"
      using sp by simp
    then show ?thesis using Some ne ih by (subst writeLines.simps) (simp add: Let_def)
  qed
qed

lemma writeBytes_pending:
  "length (lw_pending w) \<le> maxLineBytes \<Longrightarrow> length (lw_pending (snd (writeBytes data w))) \<le> maxLineBytes"
proof (induction data arbitrary: w)
  case (Cons c cs)
  from Cons.IH [OF writeByte_pending [OF Cons.prems, of c]] show ?case by (auto split: prod.splits)
qed simp

end
