(* ===== verification/LogProperties.thy ===== *)
theory LogProperties
  imports LogStore "HOL-Library.Code_Target_Numeral"
begin

text \<open>The properties of the in-memory log, with concrete runs of the ring buffer and of the writer.\<close>

definition said :: "string \<Rightarrow> Entry" where
  "said m = \<lparr>le_Time = 1, le_Source = ''caddy'', le_Level = ''INFO'', le_Message = m, le_Fields = []\<rparr>"

definition message_size :: "Entry \<Rightarrow> nat option" where
  "message_size e = Some (length (le_Message e))"

definition small_log :: LogStore where
  "small_log = Add message_size 9 (said ''ccc'') (Add message_size 9 (said ''bb'') (Add message_size 9 (said ''a'') (newLogStore 3 6)))"

lemma small_log_ok: "log_ok small_log"
proof -
  have step: "log_ok s \<Longrightarrow> log_ok (Add m now e s)" for m now e s
    using store_entry_contents(2) by (auto simp: Add_def Let_def split: option.splits)
  have "log_ok (newLogStore 3 6)" using log_ok_newLogStore [of 3 6] by simp
  then show ?thesis unfolding small_log_def by (intro step)
qed

text \<open>
  C29: the ring buffer is a bounded queue. Adding an entry cleans it, drops an entry that cannot be marshalled
  or is larger than the whole log, and otherwise drops the oldest entries until the new one fits and appends
  it; the number of entries and the stored bytes never exceed their limits.
\<close>

theorem log_is_a_bounded_queue:
  assumes "log_ok s"
  shows "contents (Add marshalled now e s) =
      (case marshalled (clean_entry now e) of
         Some n \<Rightarrow> (if n \<le> lg_byteLimit s
                    then make_room (lg_limit s) (lg_byteLimit s) n (contents s) @ [(clean_entry now e, n)] else contents s)
       | None \<Rightarrow> contents s) \<and>
    log_ok (Add marshalled now e s) \<and> length (contents (Add marshalled now e s)) \<le> lg_limit (Add marshalled now e s) \<and>
    bytes (contents (Add marshalled now e s)) \<le> lg_byteLimit (Add marshalled now e s)"
proof -
  have "log_ok (Add marshalled now e s)"
    using assms store_entry_contents(2) by (auto simp: Add_def Let_def split: option.splits)
  then show ?thesis using assms store_entry_contents(1)
    by (auto simp: Add_def Let_def log_ok_def split: option.splits)
qed

lemma log_is_a_bounded_queue_witness:
  "map (\<lambda>(e, n). (le_Message e, n)) (contents (Add message_size 9 (said ''dddd'') small_log)) = [(''dddd'', 4)] \<and>
   log_ok (Add message_size 9 (said ''dddd'') small_log)"
proof
  show "map (\<lambda>(e, n). (le_Message e, n)) (contents (Add message_size 9 (said ''dddd'') small_log)) = [(''dddd'', 4)]"
    by code_simp
qed (use log_is_a_bounded_queue [OF small_log_ok] in blast)

text \<open>
  Making room for an entry drops the fewest of the oldest entries: what is left is a tail of the log
  that leaves room for it, or is empty, and no longer tail does.
\<close>

theorem eviction_is_minimal:
  "\<exists>k \<le> length xs. make_room limit byteLimit n xs = drop k xs \<and>
     (k = length xs \<or> length (drop k xs) < limit \<and> bytes (drop k xs) + n \<le> byteLimit) \<and>
     (\<forall>j < k. \<not> (length (drop j xs) < limit \<and> bytes (drop j xs) + n \<le> byteLimit))"
proof (induction xs)
  case Nil
  show ?case by (intro exI [of _ 0]) simp
next
  case (Cons x xs)
  show ?case
  proof (cases "limit \<le> length (x # xs) \<or> byteLimit < bytes (x # xs) + n")
    case True
    from Cons.IH obtain k where k: "k \<le> length xs" "make_room limit byteLimit n xs = drop k xs"
      "k = length xs \<or> length (drop k xs) < limit \<and> bytes (drop k xs) + n \<le> byteLimit"
      "\<forall>j < k. \<not> (length (drop j xs) < limit \<and> bytes (drop j xs) + n \<le> byteLimit)" by blast
    have "\<not> (length (drop j (x # xs)) < limit \<and> bytes (drop j (x # xs)) + n \<le> byteLimit)" if "j < Suc k" for j
      using that k(4) True by (cases j) auto
    with k True show ?thesis by (intro exI [of _ "Suc k"]) auto
  next
    case False
    then show ?thesis by (intro exI [of _ 0]) auto
  qed
qed

lemma eviction_is_minimal_witness:
  "\<exists>k \<le> length (contents small_log). make_room 3 6 4 (contents small_log) = drop k (contents small_log)"
  using eviction_is_minimal [of "contents small_log" 3 6 4] by blast

text \<open>
  Reading the log returns the newest entries first, as many as asked for, at most 200 when the
  request is not a usable number.
\<close>

theorem read_last_returns_the_newest:
  assumes "log_ok s"
  shows "ReadLast limit s =
    take (if limit \<le> 0 \<or> limit > int (lg_limit s) then min 200 (lg_limit s) else nat limit) (rev (map fst (contents s)))"
  using assms by (rule readLast_contents)

lemma read_last_returns_the_newest_witness:
  "ReadLast 2 small_log = take 2 (rev (map fst (contents small_log))) \<and> map le_Message (ReadLast 2 small_log) = [''ccc'', ''bb'']"
proof
  show "map le_Message (ReadLast 2 small_log) = [''ccc'', ''bb'']" by code_simp
  have "\<not> (2::int) \<le> 0 \<and> \<not> int (lg_limit small_log) < 2" by code_simp
  then show "ReadLast 2 small_log = take 2 (rev (map fst (contents small_log)))"
    using read_last_returns_the_newest [OF small_log_ok, of 2] by simp
qed

definition fresh_writer :: "string \<Rightarrow> string \<Rightarrow> lineWriter" where
  "fresh_writer source level = \<lparr>lw_source = source, lw_level = level, lw_pending = [], lw_dropping = False\<rparr>"

text \<open>
  How a stream is cut into writes does not matter: writing two chunks emits the same lines and leaves
  the writer in the same state as writing them at once, and the pending line never outgrows its bound.
\<close>

theorem writes_are_chunk_independent:
  assumes "length (lw_pending w) \<le> maxLineBytes"
  shows "writeLines (a @ b) w =
      (case writeLines a w of (l1, w1) \<Rightarrow> (case writeLines b w1 of (l2, w2) \<Rightarrow> (l1 @ l2, w2))) \<and>
    length (lw_pending (snd (writeLines a w))) \<le> maxLineBytes"
  using assms writeBytes_pending [OF assms, of a]
  by (auto simp: writeLines_bytes writeBytes_append split: prod.splits)

lemma writes_are_chunk_independent_witness:
  "writeLines (''on'' @ [CHR ''e'', newline]) (fresh_writer ''caddy'' ''info'') =
     (case writeLines ''on'' (fresh_writer ''caddy'' ''info'') of (l1, w1) \<Rightarrow>
        (case writeLines [CHR ''e'', newline] w1 of (l2, w2) \<Rightarrow> (l1 @ l2, w2)))"
proof -
  have "length (lw_pending (fresh_writer ''caddy'' ''info'')) \<le> maxLineBytes" by (simp add: fresh_writer_def)
  from writes_are_chunk_independent [OF this] show ?thesis by blast
qed

lemma writeBytes_line:
  "newline \<notin> set l \<Longrightarrow> length (lw_pending w) \<le> maxLineBytes \<Longrightarrow> lw_pending w = [] \<Longrightarrow> \<not> lw_dropping w \<Longrightarrow>
   writeBytes (l @ newline # cs) w =
     (case writeBytes cs (w\<lparr>lw_pending := [], lw_dropping := False\<rparr>) of (ls, w2) \<Rightarrow> (take maxLineBytes l # ls, w2))"
  using writeBytes_part [of l w] by (auto simp: writeBytes_append writeByte_def writePart_def Let_def split: prod.splits)

text \<open>
  From a fresh writer the emitted lines are the lines of the stream in order, each cut to the line bound,
  and the unfinished rest stays pending.
\<close>

theorem stream_is_cut_into_lines:
  assumes "\<forall>l \<in> set (rest # lines). newline \<notin> set l"
  shows "writeLines (concat (map (\<lambda>l. l @ [newline]) lines) @ rest) (fresh_writer source level) =
    (map (take maxLineBytes) lines, (fresh_writer source level)\<lparr>lw_pending := take maxLineBytes rest, lw_dropping := maxLineBytes < length rest\<rparr>)"
proof -
  let ?w = "fresh_writer source level"
  have w: "lw_pending ?w = []" "\<not> lw_dropping ?w" "?w\<lparr>lw_pending := [], lw_dropping := False\<rparr> = ?w"
    by (simp_all add: fresh_writer_def)
  have "writeBytes (concat (map (\<lambda>l. l @ [newline]) lines) @ rest) ?w =
      (map (take maxLineBytes) lines, ?w\<lparr>lw_pending := take maxLineBytes rest, lw_dropping := maxLineBytes < length rest\<rparr>)"
    using assms
  proof (induction lines)
    case Nil
    then have "writeBytes rest ?w = ([], writePart rest ?w)" using w by (intro writeBytes_part) auto
    then show ?case by (auto simp: writePart_def Let_def fresh_writer_def)
  next
    case (Cons l lines)
    then show ?case using writeBytes_line [of l ?w "concat (map (\<lambda>l. l @ [newline]) lines) @ rest"] w by simp
  qed
  then show ?thesis using w by (simp add: writeLines_bytes)
qed

lemma stream_is_cut_into_lines_witness:
  "writeLines (concat (map (\<lambda>l. l @ [newline]) [''a'', ''bc'']) @ ''d'') (fresh_writer ''caddy'' ''info'') =
     ([''a'', ''bc''], (fresh_writer ''caddy'' ''info'')\<lparr>lw_pending := ''d'', lw_dropping := False\<rparr>)"
proof -
  have "\<forall>l \<in> set (''d'' # [''a'', ''bc'']). newline \<notin> set l" by code_simp
  from stream_is_cut_into_lines [OF this, of "''caddy''" "''info''"] show ?thesis by (simp add: maxLineBytes_def)
qed

end
