(* ===== verification/AdminAuth.thy ===== *)
theory AdminAuth
  imports GatewayModel "HOL-Library.Code_Target_Numeral"
begin

text \<open>
  The authentication of the management API, \<open>backend/internal/auth/auth.go\<close>. A request is the function
  \<open>Header.Get\<close> of its headers; the outcome is either the call of the next handler or the status and
  message \<open>writeAuthError\<close> writes.
\<close>

section \<open>Definitions\<close>

datatype outcome = Serve | AuthError int string

definition tokensConfigured :: "AuthConfig \<Rightarrow> bool" where
  "tokensConfigured cfg = (if au_AdminToken cfg \<noteq> [] then True else list_ex (\<lambda>token. token \<noteq> []) (au_AdminTokens cfg))"

definition tokenAllowed :: "AuthConfig \<Rightarrow> string \<Rightarrow> bool" where
  "tokenAllowed cfg provided =
     (if au_AdminToken cfg \<noteq> [] \<and> provided = au_AdminToken cfg then True
      else list_ex (\<lambda>token. token \<noteq> [] \<and> provided = token) (au_AdminTokens cfg))"

definition tokenFromRequest :: "(string \<Rightarrow> string) \<Rightarrow> string" where
  "tokenFromRequest get =
     (if get ''X-Admin-Token'' \<noteq> [] then get ''X-Admin-Token''
      else
        (let v = get ''Authorization'' in
         if HasPrefix (ToLower v) ''bearer '' then TrimSpace (drop 7 v) else []))"

definition Middleware :: "AuthConfig \<Rightarrow> (string \<Rightarrow> string) \<Rightarrow> outcome" where
  "Middleware cfg get =
     (if \<not> au_Required cfg then Serve
      else if \<not> tokensConfigured cfg then AuthError 503 ''admin token is not configured''
      else
        (let provided = tokenFromRequest get in
         if provided = [] \<or> \<not> tokenAllowed cfg provided then AuthError 401 ''invalid admin token'' else Serve))"

section \<open>What the middleware lets through\<close>

text \<open>The token of a request: the admin header, or without one what follows the scheme of the authorization header.\<close>

definition carries :: "(string \<Rightarrow> string) \<Rightarrow> string \<Rightarrow> bool" where
  "carries get token \<longleftrightarrow>
     get ''X-Admin-Token'' = token \<and> token \<noteq> [] \<or>
     get ''X-Admin-Token'' = [] \<and>
       (\<exists>scheme credentials. get ''Authorization'' = scheme @ credentials \<and> ToLower scheme = ''bearer '' \<and>
          TrimSpace credentials = token)"

lemma bearer_split:
  "HasPrefix (ToLower v) ''bearer '' \<longleftrightarrow> (\<exists>scheme rest. v = scheme @ rest \<and> ToLower scheme = ''bearer '')"
proof
  assume "HasPrefix (ToLower v) ''bearer ''"
  then have "ToLower (take 7 v) = ''bearer ''" by (simp add: HasPrefix_def ToLower_def take_map eval_nat_numeral)
  then show "\<exists>scheme rest. v = scheme @ rest \<and> ToLower scheme = ''bearer ''" by (metis append_take_drop_id)
next
  assume "\<exists>scheme rest. v = scheme @ rest \<and> ToLower scheme = ''bearer ''"
  then show "HasPrefix (ToLower v) ''bearer ''" by (auto simp: HasPrefix_def ToLower_def)
qed

lemma bearer_rest:
  assumes "ToLower scheme = ''bearer ''"
  shows "drop 7 (scheme @ rest) = rest"
proof -
  have "length (ToLower scheme) = 7" by (simp add: assms)
  then show ?thesis by (simp add: ToLower_def)
qed

lemma tokenFromRequest_carries:
  assumes "token \<noteq> []"
  shows "tokenFromRequest get = token \<longleftrightarrow> carries get token"
proof (cases "get ''X-Admin-Token'' = [] \<and> HasPrefix (ToLower (get ''Authorization'')) ''bearer ''")
  case True
  then obtain scheme rest where v: "get ''Authorization'' = scheme @ rest" "ToLower scheme = ''bearer ''"
    using bearer_split by blast
  have "scheme = scheme' \<and> rest = rest'" if "get ''Authorization'' = scheme' @ rest'" "ToLower scheme' = ''bearer ''" for scheme' rest'
    using that v bearer_rest [OF v(2), of rest] bearer_rest [OF that(2), of rest'] by simp
  then have "carries get token \<longleftrightarrow> TrimSpace rest = token" using True assms v unfolding carries_def by metis
  moreover have "tokenFromRequest get = TrimSpace rest"
    using True bearer_rest [OF v(2), of rest] by (simp del: drop_append add: tokenFromRequest_def v(1))
  ultimately show ?thesis by simp
next
  case False
  then show ?thesis
    using assms bearer_split [of "get ''Authorization''"] by (auto simp: tokenFromRequest_def carries_def Let_def)
qed

text \<open>
  C30: when authentication is not required the middleware serves every request. When it is, the middleware answers 503 if
  no token is configured; otherwise it serves the requests that carry a configured, non-empty token in the admin header
  or, without that header, as a bearer token (the case of the scheme and blanks around the token do not
  matter), and answers 401 to all others.
\<close>

theorem middleware_serves_configured_tokens:
  "Middleware cfg get =
     (if \<not> au_Required cfg then Serve
      else if \<forall>token \<in> insert (au_AdminToken cfg) (set (au_AdminTokens cfg)). token = [] then AuthError 503 ''admin token is not configured''
      else if \<exists>token \<in> insert (au_AdminToken cfg) (set (au_AdminTokens cfg)). token \<noteq> [] \<and>
          (get ''X-Admin-Token'' = token \<or>
           get ''X-Admin-Token'' = [] \<and>
             (\<exists>scheme credentials. get ''Authorization'' = scheme @ credentials \<and> ToLower scheme = ''bearer '' \<and>
                TrimSpace credentials = token))
        then Serve
      else AuthError 401 ''invalid admin token'')"
proof -
  have configured: "tokensConfigured cfg \<longleftrightarrow> \<not> (\<forall>token \<in> insert (au_AdminToken cfg) (set (au_AdminTokens cfg)). token = [])"
    by (auto simp: tokensConfigured_def list_ex_iff)
  have "(tokenFromRequest get \<noteq> [] \<and> tokenAllowed cfg (tokenFromRequest get)) \<longleftrightarrow>
      (\<exists>token \<in> insert (au_AdminToken cfg) (set (au_AdminTokens cfg)). token \<noteq> [] \<and> carries get token)"
    by (auto simp: tokenAllowed_def list_ex_iff simp flip: tokenFromRequest_carries)
  then show ?thesis
    by (auto simp: Middleware_def configured carries_def Let_def)
qed

definition sample_auth :: AuthConfig where
  "sample_auth = \<lparr>au_Required = True, au_AdminToken = [], au_AdminTokens = [''t1''],
     au_ProtectedRoutes = \<lparr>pr_AllowBearerToken = False, pr_AllowAdminTokenHeader = False,
       pr_AdditionalHeaderName = [], pr_AdditionalHeaderValue = []\<rparr>\<rparr>"

definition bearer_request :: "string \<Rightarrow> string" where
  "bearer_request name = (if name = ''Authorization'' then ''BEARER t1 '' else [])"

lemma middleware_serves_configured_tokens_witness:
  "Middleware sample_auth bearer_request = Serve \<and>
   Middleware sample_auth (\<lambda>name. if name = ''X-Admin-Token'' then ''other'' else bearer_request name) = AuthError 401 ''invalid admin token''"
proof
  have tokens: "insert (au_AdminToken sample_auth) (set (au_AdminTokens sample_auth)) = {[], ''t1''}" "au_Required sample_auth"
    by (simp_all add: sample_auth_def)
  have "bearer_request ''Authorization'' = ''BEARER '' @ ''t1 ''" "ToLower ''BEARER '' = ''bearer ''" "TrimSpace ''t1 '' = ''t1''"
    by code_simp+
  then have "\<exists>scheme credentials. bearer_request ''Authorization'' = scheme @ credentials \<and> ToLower scheme = ''bearer '' \<and>
      TrimSpace credentials = ''t1''" by blast
  moreover have "bearer_request ''X-Admin-Token'' = []" by (simp add: bearer_request_def)
  ultimately show "Middleware sample_auth bearer_request = Serve"
    unfolding middleware_serves_configured_tokens [of sample_auth bearer_request] tokens(1) using tokens(2) by simp
  show "Middleware sample_auth (\<lambda>name. if name = ''X-Admin-Token'' then ''other'' else bearer_request name) = AuthError 401 ''invalid admin token''"
    unfolding middleware_serves_configured_tokens tokens(1) using tokens(2) by simp
qed

end
