(* ===== verification/Reconcile.thy ===== *)
theory Reconcile
  imports RoutePersistence CaddyConfig
begin

text \<open>
  The reconciler, \<open>backend/internal/reconcile/reconciler.go\<close>. Its state holds the configuration, the
  renderer, the routes of the last successful discovery, the routing store with its file, and the
  configuration that Caddy runs, which the loader sets. A sync has two parts: the first runs under
  \<open>syncMu\<close>, which keeps other syncs out but not the operations of the routing store: these can run
  between the two snapshots a sync reads and between the snapshots and the commit. The second part
  (health checks, Azure, \<open>finish\<close>) runs after the mutex is released and interleaves with everything.

  The discoverer, the loader, the health checker and the Azure manager are interfaces of the package:
  their answers are the environment of a step. The audit record and the log lines are left out.
\<close>

section \<open>State and environment\<close>

record Reconciler =
  rec_cfg :: AppConfig
  rec_renderer :: Renderer
  rec_world :: World
  rec_runtime :: json
  rec_lastDiscovered :: "RouteConfig list"
  rec_generation :: "64 word"
  rec_last :: ReconcileResult

text \<open>
  \<open>sv_reader\<close> is \<open>None\<close> when the loader has no \<open>Config\<close> method, otherwise its answer: an error, or the
  configuration it read (\<open>None\<close> for an empty body); \<open>sv_discover\<close> is \<open>None\<close> without a discoverer.
  \<open>sv_load k active new\<close> is the outcome of the \<open>k\<close>th load of the sync: the error and the configuration
  that is active afterwards. \<open>sv_between\<close> and \<open>sv_during\<close> are what other goroutines do to the routing
  store between the two snapshots and between the snapshots and the commit.
\<close>

record SyncEnv =
  sv_now :: time
  sv_reader :: "(string + json option) option"
  sv_discover :: "(string + RouteConfig list) option"
  sv_load :: "nat \<Rightarrow> json \<Rightarrow> json \<Rightarrow> string option \<times> json"
  sv_between :: "World \<Rightarrow> World"
  sv_during :: "World \<Rightarrow> World"

type_synonym commit = "Snapshot \<Rightarrow> World \<Rightarrow> (string + unit) \<times> World"

definition no_azure_result :: AzureResult where
  "no_azure_result = \<lparr>ar_Enabled = False, ar_DNSRecords = 0, ar_DNSDeleted = 0, ar_NSGRules = 0, ar_NSGDeleted = 0,
     ar_PublicIPAddress = [], ar_Warnings = [], ar_Error = []\<rparr>"

definition new_result :: "time \<Rightarrow> string \<Rightarrow> int \<Rightarrow> ReconcileResult" where
  "new_result started profile explicit =
     \<lparr>re_StartedAt = started, re_FinishedAt = zero_time, re_Duration = 0, re_Profile = profile, re_ExplicitRoutes = explicit,
      re_DiscoveredRoutes = 0, re_AppliedRoutes = 0, re_HealthChecks = 0, re_UnhealthyRoutes = 0, re_CaddyLoaded = False,
      re_RouteHealth = None, re_Azure = no_azure_result, re_Error = []\<rparr>"

section \<open>Configuration updates\<close>

definition Rec_UpdateCertificate :: "CertificateConfig \<Rightarrow> Reconciler \<Rightarrow> Reconciler" where
  "Rec_UpdateCertificate cert r =
     r\<lparr>rec_cfg := (rec_cfg r)\<lparr>ap_Gateway := (ap_Gateway (rec_cfg r))\<lparr>gw_Certificate := cert\<rparr>\<rparr>,
       rec_renderer := UpdateCertificate cert (rec_renderer r)\<rparr>"

definition Rec_UpdateConfig :: "AppConfig \<Rightarrow> Reconciler \<Rightarrow> Reconciler" where
  "Rec_UpdateConfig cfg r = r\<lparr>rec_cfg := cfg, rec_renderer := UpdateConfig cfg (rec_renderer r)\<rparr>"

definition configSnapshot :: "Reconciler \<Rightarrow> AppConfig" where
  "configSnapshot r = rec_cfg r"

definition load_runtime :: "SyncEnv \<Rightarrow> nat \<Rightarrow> json \<Rightarrow> Reconciler \<Rightarrow> string option \<times> Reconciler" where
  "load_runtime env k config r =
     (case sv_load env k (rec_runtime r) config of (e, active) \<Rightarrow> (e, r\<lparr>rec_runtime := active\<rparr>))"

section \<open>The part of a sync under the mutex\<close>

text \<open>The closure \<open>restoreRuntime\<close>: it acts on the reconciler and on the result.\<close>

definition restoreRuntime :: "SyncEnv \<Rightarrow> AppConfig option \<Rightarrow> AppConfig \<Rightarrow> Snapshot \<Rightarrow> RouteConfig list \<Rightarrow> json option \<Rightarrow>
    ReconcileResult \<Rightarrow> Reconciler \<Rightarrow> ReconcileResult \<times> Reconciler" where
  "restoreRuntime env candidate previousConfig previous previousDiscovered previousRuntime result r0 =
     (let r = (if candidate \<noteq> None then Rec_UpdateConfig previousConfig r0 else r0);
          rollbackRoutes = sn_Routes previous @ previousDiscovered;
          rollback = (case previousRuntime of Some b \<Rightarrow> Inr b | None \<Rightarrow> Renderer_Render (rec_renderer r) rollbackRoutes);
          failed = (\<lambda>e. result\<lparr>re_Error := re_Error result @ ''; restore previous runtime configuration: '' @ e\<rparr>)
      in case rollback of
           Inl e \<Rightarrow> (failed e, r)
         | Inr config \<Rightarrow>
             (case load_runtime env 1 config r of
                (Some e, r1) \<Rightarrow> (failed e, r1)
              | (None, r1) \<Rightarrow> (result\<lparr>re_CaddyLoaded := False, re_AppliedRoutes := int (length rollbackRoutes)\<rparr>, r1)))"

definition discovered :: "SyncEnv \<Rightarrow> Reconciler \<Rightarrow> RouteConfig list \<times> Reconciler" where
  "discovered env r =
     (case sv_discover env of
        None \<Rightarrow> ([], r)
      | Some (Inl e) \<Rightarrow> (rec_lastDiscovered r, r)
      | Some (Inr routes) \<Rightarrow> (routes, r\<lparr>rec_lastDiscovered := routes\<rparr>))"

definition beginGeneration :: "Reconciler \<Rightarrow> Reconciler" where
  "beginGeneration r = r\<lparr>rec_generation := rec_generation r + 1\<rparr>"

definition default_commit :: "Env \<Rightarrow> bool \<Rightarrow> commit option \<Rightarrow> commit option" where
  "default_commit env preservePendingRoutes commit =
     (case commit of Some c \<Rightarrow> Some c | None \<Rightarrow> if \<not> preservePendingRoutes then Some (MarkApplied env) else None)"

text \<open>
  \<open>sync\<close> up to the release of the mutex: the result so far, whether the sync goes on to the checks, the
  routes it applied, and the reconciler. A sync that does not go on only has to be finished.
\<close>

definition syncLocked :: "SyncEnv \<Rightarrow> Env \<Rightarrow> bool \<Rightarrow> AppConfig option \<Rightarrow> commit option \<Rightarrow> Reconciler \<Rightarrow>
    ReconcileResult \<times> bool \<times> RouteConfig list \<times> Reconciler" where
  "syncLocked env wenv preservePendingRoutes candidate commit0 r0 =
     (let r1 = beginGeneration r0;
          previousConfig = configSnapshot r1;
          previous = AppliedSnapshot (w_store (rec_world r1));
          previousDiscovered = rec_lastDiscovered r1
      in case (if candidate \<noteq> None then sv_reader env else None) of
           Some (Inl e) \<Rightarrow>
             ((new_result (sv_now env) (ap_Profile previousConfig) 0)\<lparr>re_Error := ''read previous runtime configuration: '' @ e\<rparr>,
              False, [], r1)
         | reading \<Rightarrow>
             (let previousRuntime = (case reading of Some (Inr b) \<Rightarrow> b | _ \<Rightarrow> None);
                  r2 = (case candidate of Some c \<Rightarrow> Rec_UpdateConfig c r1 | None \<Rightarrow> r1)\<lparr>rec_world := sv_between env (rec_world r1)\<rparr>;
                  cfg = configSnapshot r2;
                  snapshot = (if preservePendingRoutes then previous else DesiredSnapshot (w_store (rec_world r2)));
                  explicitRoutes = sn_Routes snapshot;
                  (discoveredRoutes, r3) = discovered env (r2\<lparr>rec_world := sv_during env (rec_world r2)\<rparr>);
                  result = (new_result (sv_now env) (ap_Profile cfg) (int (length explicitRoutes)))
                    \<lparr>re_DiscoveredRoutes := int (length discoveredRoutes)\<rparr>;
                  allRoutes = explicitRoutes @ discoveredRoutes
              in case Renderer_Render (rec_renderer r3) allRoutes of
                   Inl e \<Rightarrow>
                     (result\<lparr>re_Error := e\<rparr>, False, [],
                      if candidate \<noteq> None then Rec_UpdateConfig previousConfig r3 else r3)
                 | Inr rendered \<Rightarrow>
                     (case load_runtime env 0 rendered r3 of
                        (Some e, r4) \<Rightarrow>
                          (if candidate \<noteq> None
                           then (case restoreRuntime env candidate previousConfig previous previousDiscovered previousRuntime
                                        (result\<lparr>re_Error := e\<rparr>) r4 of (res, r5) \<Rightarrow> (res, False, [], r5))
                           else (result\<lparr>re_Error := e\<rparr>, False, [], r4))
                      | (None, r4) \<Rightarrow>
                          (let loaded = result\<lparr>re_AppliedRoutes := int (length allRoutes), re_CaddyLoaded := True\<rparr> in
                           case default_commit wenv preservePendingRoutes commit0 of
                             None \<Rightarrow> (loaded, True, allRoutes, r4)
                           | Some commit \<Rightarrow>
                               (case commit snapshot (rec_world r4) of
                                  (Inl e, w) \<Rightarrow>
                                    (case restoreRuntime env candidate previousConfig previous previousDiscovered previousRuntime
                                       (loaded\<lparr>re_Error := ''persist applied configuration: '' @ e\<rparr>) (r4\<lparr>rec_world := w\<rparr>) of
                                       (res, r5) \<Rightarrow> (res, False, [], r5))
                                | (Inr _, w) \<Rightarrow> (loaded, True, allRoutes, r4\<lparr>rec_world := w\<rparr>))))))"

definition Sync :: "SyncEnv \<Rightarrow> Env \<Rightarrow> Reconciler \<Rightarrow> ReconcileResult \<times> bool \<times> RouteConfig list \<times> Reconciler" where
  "Sync env wenv r = syncLocked env wenv False None None r"

definition SyncWithoutPendingRoutingChanges :: "SyncEnv \<Rightarrow> Env \<Rightarrow> Reconciler \<Rightarrow> ReconcileResult \<times> bool \<times> RouteConfig list \<times> Reconciler" where
  "SyncWithoutPendingRoutingChanges env wenv r = syncLocked env wenv True None None r"

definition SyncWithCommit :: "SyncEnv \<Rightarrow> Env \<Rightarrow> AppConfig option \<Rightarrow> commit option \<Rightarrow> Reconciler \<Rightarrow> ReconcileResult \<times> bool \<times> RouteConfig list \<times> Reconciler" where
  "SyncWithCommit env wenv cfg commit r = syncLocked env wenv False cfg commit r"

definition SyncConfigWithCommit :: "SyncEnv \<Rightarrow> Env \<Rightarrow> AppConfig \<Rightarrow> (World \<Rightarrow> (string + unit) \<times> World) \<Rightarrow> Reconciler \<Rightarrow> ReconcileResult \<times> bool \<times> RouteConfig list \<times> Reconciler" where
  "SyncConfigWithCommit env wenv cfg commit r = syncLocked env wenv True (Some cfg) (Some (\<lambda>_. commit)) r"

definition RoutingChangesPending :: "Reconciler \<Rightarrow> bool" where
  "RoutingChangesPending r \<longleftrightarrow> Pending (w_store (rec_world r))"

section \<open>The checks after the mutex\<close>

definition with_health :: "RouteHealthStatus list option \<Rightarrow> ReconcileResult \<Rightarrow> ReconcileResult" where
  "with_health statuses result =
     (let sts = (case statuses of Some sts \<Rightarrow> sts | None \<Rightarrow> []) in
      result\<lparr>re_RouteHealth := statuses, re_HealthChecks := int (length sts),
             re_UnhealthyRoutes := re_UnhealthyRoutes result + int (length (filter (\<lambda>st. \<not> hs_Healthy st) sts))\<rparr>)"

definition azureRoutes :: "AppConfig \<Rightarrow> RouteConfig list \<Rightarrow> RouteConfig list" where
  "azureRoutes cfg routes =
     routes @ (if cc_ManagementHost (ap_Control cfg) \<noteq> [] then
       [(managementRoute cfg)\<lparr>rc_Exposure := ''protected'', rc_Protected := True, rc_Upstreams := []\<rparr>] else [])"

text \<open>
  \<open>checker\<close> is \<open>None\<close> without a health checker, otherwise its answer (which may be nil); \<open>azure\<close> is \<open>None\<close>
  without a manager, \<open>Some None\<close> when the checks were cancelled by then, otherwise the manager.
\<close>

definition syncChecks :: "RouteHealthStatus list option option \<Rightarrow> (RouteConfig list \<Rightarrow> AzureResult) option option \<Rightarrow>
    AppConfig \<Rightarrow> RouteConfig list \<Rightarrow> ReconcileResult \<Rightarrow> ReconcileResult" where
  "syncChecks checker azure cfg allRoutes result0 =
     (let result = (case checker of None \<Rightarrow> result0 | Some statuses \<Rightarrow> with_health statuses result0) in
      case azure of
        None \<Rightarrow> result
      | Some run \<Rightarrow>
          (let a = (case run of Some reconcile \<Rightarrow> reconcile (azureRoutes cfg allRoutes) | None \<Rightarrow> re_Azure result);
               result1 = result\<lparr>re_Azure := a\<rparr>
           in if ar_Error a \<noteq> [] then result1\<lparr>re_Error := ar_Error a\<rparr> else result1))"

definition finish :: "time \<Rightarrow> ReconcileResult \<Rightarrow> 64 word \<Rightarrow> Reconciler \<Rightarrow> ReconcileResult \<times> Reconciler" where
  "finish now result0 generation r =
     (let result = result0\<lparr>re_FinishedAt := now, re_Duration := now - re_StartedAt result0\<rparr> in
      if rec_generation r = generation then
        (let w = rec_world r;
             w' = (case re_RouteHealth result of
                     Some statuses \<Rightarrow> (if re_CaddyLoaded result then w\<lparr>w_store := SetRuntimeStatus statuses (w_store w)\<rparr> else w)
                   | None \<Rightarrow> w)
         in (result, r\<lparr>rec_world := w', rec_last := result\<rparr>))
      else (result, r))"

definition Last :: "Reconciler \<Rightarrow> ReconcileResult" where
  "Last r = rec_last r"

text \<open>\<open>inspect\<close> reads what \<open>WithRuntimeConfig\<close> gives it under the mutex; it answers with its error, if any.\<close>

definition WithRuntimeConfig :: "(string + json option) option \<Rightarrow> (json option \<Rightarrow> string option) \<Rightarrow> string option" where
  "WithRuntimeConfig reader inspect =
     (case reader of
        None \<Rightarrow> Some ''active Caddy configuration is unavailable''
      | Some (Inl e) \<Rightarrow> Some e
      | Some (Inr data) \<Rightarrow> inspect data)"

text \<open>The wait between two rounds of \<open>Run\<close>, in nanoseconds: the product is a 64-bit \<open>time.Duration\<close>.\<close>

definition run_interval :: "Reconciler \<Rightarrow> int" where
  "run_interval r =
     (let interval = sint (word_of_int (ap_ReconcileIntervalSeconds (configSnapshot r) * 1000000000) :: 64 word) in
      if interval \<le> 0 then 30 * 1000000000 else interval)"

section \<open>A sync in flight\<close>

text \<open>What a sync carries from the release of the mutex to its end.\<close>

record Flight =
  fl_generation :: "64 word"
  fl_goes :: bool
  fl_cfg :: AppConfig
  fl_routes :: "RouteConfig list"
  fl_result :: ReconcileResult

definition launch :: "ReconcileResult \<times> bool \<times> RouteConfig list \<times> Reconciler \<Rightarrow> Flight \<times> Reconciler" where
  "launch out =
     (case out of (result, goes, routes, r) \<Rightarrow>
       (\<lparr>fl_generation = rec_generation r, fl_goes = goes, fl_cfg = configSnapshot r, fl_routes = routes, fl_result = result\<rparr>, r))"

definition complete :: "time \<Rightarrow> RouteHealthStatus list option option \<Rightarrow> (RouteConfig list \<Rightarrow> AzureResult) option option \<Rightarrow>
    Flight \<Rightarrow> Reconciler \<Rightarrow> ReconcileResult \<times> Reconciler" where
  "complete now checker azure f r =
     finish now (if fl_goes f then syncChecks checker azure (fl_cfg f) (fl_routes f) (fl_result f) else fl_result f)
       (fl_generation f) r"

end
