(* ===== verification/ReconcileFacts.thy ===== *)
theory ReconcileFacts
  imports Reconcile
begin

text \<open>
  What a sync does on each of its ways: the facts the properties of the reconciler rest on. A sync that
  goes on has rendered, loaded and committed; one that does not has left or restored what it found.
\<close>

section \<open>The inputs of a sync\<close>

definition sync_world :: "SyncEnv \<Rightarrow> Reconciler \<Rightarrow> World" where
  "sync_world env r = sv_during env (sv_between env (rec_world r))"

definition sync_snapshot :: "SyncEnv \<Rightarrow> bool \<Rightarrow> Reconciler \<Rightarrow> Snapshot" where
  "sync_snapshot env preserve r =
     (if preserve then AppliedSnapshot (w_store (rec_world r)) else DesiredSnapshot (w_store (sv_between env (rec_world r))))"

definition sync_discovered :: "SyncEnv \<Rightarrow> Reconciler \<Rightarrow> RouteConfig list" where
  "sync_discovered env r =
     (case sv_discover env of None \<Rightarrow> [] | Some (Inl e) \<Rightarrow> rec_lastDiscovered r | Some (Inr routes) \<Rightarrow> routes)"

definition sync_routes :: "SyncEnv \<Rightarrow> bool \<Rightarrow> Reconciler \<Rightarrow> RouteConfig list" where
  "sync_routes env preserve r = sn_Routes (sync_snapshot env preserve r) @ sync_discovered env r"

definition sync_last :: "SyncEnv \<Rightarrow> Reconciler \<Rightarrow> RouteConfig list" where
  "sync_last env r = (case sv_discover env of Some (Inr routes) \<Rightarrow> routes | _ \<Rightarrow> rec_lastDiscovered r)"

definition sync_config :: "AppConfig option \<Rightarrow> Reconciler \<Rightarrow> AppConfig" where
  "sync_config candidate r = (case candidate of Some c \<Rightarrow> c | None \<Rightarrow> rec_cfg r)"

text \<open>The renderer holds the configuration of the reconciler.\<close>

definition aligned :: "Reconciler \<Rightarrow> bool" where
  "aligned r \<longleftrightarrow> rd_cfg (rec_renderer r) = rec_cfg r"

lemma aligned_updates [simp]:
  "aligned (Rec_UpdateConfig c r)" "aligned (beginGeneration r) = aligned r"
  "aligned (r\<lparr>rec_world := w\<rparr>) = aligned r" "aligned (r\<lparr>rec_lastDiscovered := ds\<rparr>) = aligned r"
  "aligned (r\<lparr>rec_runtime := j\<rparr>) = aligned r" "aligned (r\<lparr>rec_last := res\<rparr>) = aligned r"
  by (simp_all add: aligned_def Rec_UpdateConfig_def UpdateConfig_def beginGeneration_def)

lemma discovered_eq: "discovered env r = (sync_discovered env r, r\<lparr>rec_lastDiscovered := sync_last env r\<rparr>)"
  by (simp add: discovered_def sync_discovered_def sync_last_def split: option.split sum.split)

section \<open>The prepared reconciler\<close>

text \<open>The reconciler when the routes are rendered, and whether the sync gets there.\<close>

definition prepared :: "SyncEnv \<Rightarrow> AppConfig option \<Rightarrow> Reconciler \<Rightarrow> Reconciler" where
  "prepared env candidate r =
     (case candidate of Some c \<Rightarrow> Rec_UpdateConfig c (beginGeneration r) | None \<Rightarrow> beginGeneration r)
       \<lparr>rec_world := sync_world env r, rec_lastDiscovered := sync_last env r\<rparr>"

definition unreadable :: "SyncEnv \<Rightarrow> AppConfig option \<Rightarrow> string option" where
  "unreadable env candidate = (case sv_reader env of Some (Inl e) \<Rightarrow> if candidate \<noteq> None then Some e else None | _ \<Rightarrow> None)"

definition read_runtime :: "SyncEnv \<Rightarrow> AppConfig option \<Rightarrow> json option" where
  "read_runtime env candidate = (case sv_reader env of Some (Inr b) \<Rightarrow> if candidate \<noteq> None then b else None | _ \<Rightarrow> None)"

text \<open>The result of a sync before it loads, and the closure \<open>restoreRuntime\<close> with what it captured.\<close>

definition base_result :: "SyncEnv \<Rightarrow> bool \<Rightarrow> AppConfig option \<Rightarrow> Reconciler \<Rightarrow> ReconcileResult" where
  "base_result env preserve candidate r =
     (new_result (sv_now env) (ap_Profile (sync_config candidate r)) (int (length (sn_Routes (sync_snapshot env preserve r)))))
       \<lparr>re_DiscoveredRoutes := int (length (sync_discovered env r))\<rparr>"

definition roll_back :: "SyncEnv \<Rightarrow> AppConfig option \<Rightarrow> Reconciler \<Rightarrow> ReconcileResult \<Rightarrow> Reconciler \<Rightarrow> ReconcileResult \<times> Reconciler" where
  "roll_back env candidate r = restoreRuntime env candidate (rec_cfg r) (AppliedSnapshot (w_store (rec_world r)))
     (rec_lastDiscovered r) (read_runtime env candidate)"

lemma prepared_simps [simp]:
  "rec_cfg (prepared env candidate r) = sync_config candidate r"
  "rec_world (prepared env candidate r) = sync_world env r"
  "rec_lastDiscovered (prepared env candidate r) = sync_last env r"
  "rec_runtime (prepared env candidate r) = rec_runtime r"
  "rec_generation (prepared env candidate r) = rec_generation r + 1"
  "rec_last (prepared env candidate r) = rec_last r"
  "aligned r \<Longrightarrow> rd_cfg (rec_renderer (prepared env candidate r)) = sync_config candidate r"
  by (simp_all add: prepared_def sync_config_def beginGeneration_def Rec_UpdateConfig_def UpdateConfig_def aligned_def split: option.split)

lemma aligned_prepared [simp]: "aligned r \<Longrightarrow> aligned (prepared env candidate r)"
  by (simp add: aligned_def)

lemma updateConfig_simps [simp]:
  "rec_world (Rec_UpdateConfig c r) = rec_world r" "rec_lastDiscovered (Rec_UpdateConfig c r) = rec_lastDiscovered r"
  "rec_cfg (Rec_UpdateConfig c r) = c" "rec_runtime (Rec_UpdateConfig c r) = rec_runtime r"
  "rec_generation (Rec_UpdateConfig c r) = rec_generation r" "rec_last (Rec_UpdateConfig c r) = rec_last r"
  "rec_world (beginGeneration r) = rec_world r" "rec_lastDiscovered (beginGeneration r) = rec_lastDiscovered r"
  "rec_cfg (beginGeneration r) = rec_cfg r" "rec_runtime (beginGeneration r) = rec_runtime r"
  "rec_generation (beginGeneration r) = rec_generation r + 1" "rec_last (beginGeneration r) = rec_last r"
  by (simp_all add: Rec_UpdateConfig_def beginGeneration_def)

lemma sync_discovered_cong: "rec_lastDiscovered r = rec_lastDiscovered r' \<Longrightarrow>
    sync_discovered env r = sync_discovered env r' \<and> sync_last env r = sync_last env r'"
  by (simp add: sync_discovered_def sync_last_def split: option.split sum.split)

lemma discovered_prepared:
  assumes "r2 = (case candidate of Some c \<Rightarrow> Rec_UpdateConfig c (beginGeneration r) | None \<Rightarrow> beginGeneration r)
       \<lparr>rec_world := sv_between env (rec_world (beginGeneration r))\<rparr>"
  shows "discovered env (r2\<lparr>rec_world := sv_during env (rec_world r2)\<rparr>) = (sync_discovered env r, prepared env candidate r)"
proof -
  have "rec_lastDiscovered r2 = rec_lastDiscovered r" using assms by (simp split: option.split)
  then have "rec_lastDiscovered (r2\<lparr>rec_world := sv_during env (rec_world r2)\<rparr>) = rec_lastDiscovered r" by simp
  note cong = sync_discovered_cong [OF this, of env]
  have "r2\<lparr>rec_world := sv_during env (rec_world r2), rec_lastDiscovered := sync_last env r\<rparr> = prepared env candidate r"
    using assms by (simp add: prepared_def sync_world_def)
  then show ?thesis by (simp add: discovered_eq cong)
qed

lemma syncLocked_eq:
  "syncLocked env wenv preserve candidate commit r =
     (case unreadable env candidate of
        Some e \<Rightarrow> ((new_result (sv_now env) (ap_Profile (rec_cfg r)) 0)\<lparr>re_Error := ''read previous runtime configuration: '' @ e\<rparr>,
                   False, [], beginGeneration r)
      | None \<Rightarrow>
          (let r3 = prepared env candidate r; all = sync_routes env preserve r; result = base_result env preserve candidate r;
               undo = (\<lambda>res r4. case roll_back env candidate r res r4 of (res', r5) \<Rightarrow> (res', False, [], r5)) in
           case Renderer_Render (rec_renderer r3) all of
             Inl e \<Rightarrow> (result\<lparr>re_Error := e\<rparr>, False, [], if candidate \<noteq> None then Rec_UpdateConfig (rec_cfg r) r3 else r3)
           | Inr rendered \<Rightarrow>
               (case load_runtime env 0 rendered r3 of
                  (Some e, r4) \<Rightarrow> (if candidate \<noteq> None then undo (result\<lparr>re_Error := e\<rparr>) r4 else (result\<lparr>re_Error := e\<rparr>, False, [], r4))
                | (None, r4) \<Rightarrow>
                    (let loaded = result\<lparr>re_AppliedRoutes := int (length all), re_CaddyLoaded := True\<rparr> in
                     case default_commit wenv preserve commit of
                       None \<Rightarrow> (loaded, True, all, r4)
                     | Some c \<Rightarrow>
                         (case c (sync_snapshot env preserve r) (rec_world r4) of
                            (Inl e, w) \<Rightarrow> undo (loaded\<lparr>re_Error := ''persist applied configuration: '' @ e\<rparr>) (r4\<lparr>rec_world := w\<rparr>)
                          | (Inr _, w) \<Rightarrow> (loaded, True, all, r4\<lparr>rec_world := w\<rparr>))))))"
proof -
  define r2 where "r2 = (case candidate of Some c \<Rightarrow> Rec_UpdateConfig c (beginGeneration r) | None \<Rightarrow> beginGeneration r)
       \<lparr>rec_world := sv_between env (rec_world (beginGeneration r))\<rparr>"
  have cfg: "configSnapshot r2 = sync_config candidate r"
    by (simp add: r2_def configSnapshot_def sync_config_def split: option.split)
  have snap: "(if preserve then AppliedSnapshot (w_store (rec_world (beginGeneration r))) else DesiredSnapshot (w_store (rec_world r2)))
      = sync_snapshot env preserve r"
    by (simp add: r2_def sync_snapshot_def)
  have prev: "configSnapshot (beginGeneration r) = rec_cfg r" by (simp add: configSnapshot_def)
  have reading: "sv_reader env = None \<or> (\<exists>e. sv_reader env = Some (Inl e)) \<or> (\<exists>b. sv_reader env = Some (Inr b))"
    by (metis not_None_eq old.sum.exhaust)
  show ?thesis
    unfolding syncLocked_def unreadable_def
    apply (simp only: Let_def r2_def [symmetric] cfg snap prev discovered_prepared [OF r2_def] sync_routes_def [symmetric] prod.case)
    using reading by (elim disjE exE; cases candidate; simp add: roll_back_def [abs_def] base_result_def read_runtime_def Let_def
          cong: option.case_cong sum.case_cong prod.case_cong)
qed

section \<open>A sync that goes on\<close>

text \<open>It has rendered its routes, loaded them, and committed in the world the other operations left.\<close>

lemma load_runtime_eq: "load_runtime env k config r = (fst (sv_load env k (rec_runtime r) config),
    r\<lparr>rec_runtime := snd (sv_load env k (rec_runtime r) config)\<rparr>)"
  by (simp add: load_runtime_def split: prod.split)

lemma sync_success:
  assumes "syncLocked env wenv preserve candidate commit r = (res, True, all, r')"
  obtains config w where
    "all = sync_routes env preserve r"
    "Renderer_Render (rec_renderer (prepared env candidate r)) all = Inr config"
    "fst (sv_load env 0 (rec_runtime r) config) = None"
    "case default_commit wenv preserve commit of None \<Rightarrow> w = sync_world env r
       | Some c \<Rightarrow> c (sync_snapshot env preserve r) (sync_world env r) = (Inr (), w)"
    "r' = (prepared env candidate r)\<lparr>rec_runtime := snd (sv_load env 0 (rec_runtime r) config), rec_world := w\<rparr>"
    "res = (base_result env preserve candidate r)\<lparr>re_AppliedRoutes := int (length all), re_CaddyLoaded := True\<rparr>"
proof -
  from assms obtain config where
    c: "Renderer_Render (rec_renderer (prepared env candidate r)) (sync_routes env preserve r) = Inr config"
    "fst (sv_load env 0 (rec_runtime r) config) = None" and u: "unreadable env candidate = None"
    by (auto simp: syncLocked_eq Let_def load_runtime_eq split: option.splits sum.splits prod.splits if_splits)
  let ?r4 = "(prepared env candidate r)\<lparr>rec_runtime := snd (sv_load env 0 (rec_runtime r) config)\<rparr>"
  show thesis
  proof (cases "default_commit wenv preserve commit")
    case None
    with assms c u have "all = sync_routes env preserve r" "r' = ?r4"
      "res = (base_result env preserve candidate r)\<lparr>re_AppliedRoutes := int (length all), re_CaddyLoaded := True\<rparr>"
      by (auto simp: syncLocked_eq Let_def load_runtime_eq)
    then show thesis using c None by (intro that [of config "sync_world env r"]) (auto simp: prepared_def split: option.split)
  next
    case (Some cm)
    with assms c u obtain w where "all = sync_routes env preserve r" "r' = ?r4\<lparr>rec_world := w\<rparr>"
      "res = (base_result env preserve candidate r)\<lparr>re_AppliedRoutes := int (length all), re_CaddyLoaded := True\<rparr>"
      "cm (sync_snapshot env preserve r) (sync_world env r) = (Inr (), w)"
      by (auto simp: syncLocked_eq Let_def load_runtime_eq split: sum.splits prod.splits)
    then show thesis using c Some by (intro that [of config w]) auto
  qed
qed

section \<open>A sync that stops\<close>

text \<open>
  Without a candidate configuration: the read-only part changed nothing, or the commit failed and the
  routes of the applied snapshot are rendered and loaded again.
\<close>

lemma sync_failure_plain:
  assumes "syncLocked env wenv preserve None commit r = (res, False, all, r')"
  obtains (render) e where "Render (rd_cfg (rec_renderer r)) (sync_routes env preserve r) = Inl e" "r' = prepared env None r" "re_Error res = e"
  | (load) e config where "Render (rd_cfg (rec_renderer r)) (sync_routes env preserve r) = Inr config"
      "sv_load env 0 (rec_runtime r) config = (Some e, rec_runtime r')" "r' = (prepared env None r)\<lparr>rec_runtime := rec_runtime r'\<rparr>"
      "re_Error res = e"
  | (commit) e config w cm where "Render (rd_cfg (rec_renderer r)) (sync_routes env preserve r) = Inr config"
      "fst (sv_load env 0 (rec_runtime r) config) = None" "default_commit wenv preserve commit = Some cm"
      "cm (sync_snapshot env preserve r) (sync_world env r) = (Inl e, w)"
      "(res, r') = roll_back env None r
         ((base_result env preserve None r)\<lparr>re_AppliedRoutes := int (length (sync_routes env preserve r)), re_CaddyLoaded := True,
            re_Error := ''persist applied configuration: '' @ e\<rparr>)
         ((prepared env None r)\<lparr>rec_runtime := snd (sv_load env 0 (rec_runtime r) config), rec_world := w\<rparr>)"
proof -
  have u: "unreadable env None = None" by (simp add: unreadable_def split: option.split sum.split)
  have p: "Renderer_Render (rec_renderer (prepared env None r)) = Render (rd_cfg (rec_renderer r))"
    by (simp add: fun_eq_iff Renderer_Render_def prepared_def beginGeneration_def)
  show thesis
  proof (cases "Render (rd_cfg (rec_renderer r)) (sync_routes env preserve r)")
    case (Inl e)
    with assms u show thesis by (intro render) (auto simp: syncLocked_eq p Let_def)
  next
    case (Inr config)
    show thesis
    proof (cases "fst (sv_load env 0 (rec_runtime r) config)")
      case (Some e)
      with Inr assms u show thesis
        by (intro load [of config e]) (auto simp: syncLocked_eq p Let_def load_runtime_eq prod_eq_iff)
    next
      case None
      with Inr assms u show thesis
        by (auto simp: syncLocked_eq p Let_def load_runtime_eq split: option.splits sum.splits prod.splits intro!: commit)
    qed
  qed
qed

text \<open>
  With a candidate configuration: the configuration and the renderer are back at what they were, and the
  runtime is the old one unless the rollback itself fails. The loader keeps the active configuration when
  it reports an error and activates the new one otherwise, which is what Caddy documents for \<open>/load\<close>.
\<close>

definition atomic_loader :: "SyncEnv \<Rightarrow> bool" where
  "atomic_loader env \<longleftrightarrow>
     (\<forall>k active new. snd (sv_load env k active new) = (if fst (sv_load env k active new) = None then new else active))"

lemma roll_back_fields:
  "roll_back env candidate r res r4 = (res', r5) \<Longrightarrow>
   rec_world r5 = rec_world r4 \<and> rec_lastDiscovered r5 = rec_lastDiscovered r4 \<and>
   rec_generation r5 = rec_generation r4 \<and> rec_last r5 = rec_last r4 \<and>
   rec_cfg r5 = (if candidate \<noteq> None then rec_cfg r else rec_cfg r4) \<and> (aligned r4 \<longrightarrow> aligned r5)"
  by (auto simp: roll_back_def restoreRuntime_def Let_def load_runtime_eq split: sum.splits option.splits if_splits)

lemma roll_back_reloads:
  assumes "roll_back env candidate r res r4 = (res', r5)" "read_runtime env candidate = Some old"
    and "atomic_loader env" "fst (sv_load env 1 (rec_runtime r4) old) = None"
  shows "rec_runtime r5 = old \<and> re_CaddyLoaded res' = False \<and> re_Error res' = re_Error res"
  using assms by (auto simp: roll_back_def restoreRuntime_def Let_def load_runtime_eq atomic_loader_def
      split: sum.splits option.splits if_splits)

lemma prepared_world: "(prepared env candidate r)\<lparr>rec_runtime := j\<rparr> =
    (prepared env candidate r)\<lparr>rec_runtime := j, rec_world := sync_world env r\<rparr>"
  by (simp add: prepared_def split: option.split)

lemma sync_stop_cases:
  assumes "syncLocked env wenv preserve candidate commit r = (res, False, all, r')"
  obtains (before) "\<not> re_CaddyLoaded res" "rec_runtime r' = rec_runtime r"
      "r' = beginGeneration r \<or> r' = Rec_UpdateConfig (rec_cfg r) (prepared env candidate r) \<or>
       candidate = None \<and> r' = prepared env None r"
  | (load) j where "\<not> re_CaddyLoaded res" "candidate = None" "r' = (prepared env None r)\<lparr>rec_runtime := j\<rparr>"
  | (undone) res0 j w where "roll_back env candidate r res0 ((prepared env candidate r)\<lparr>rec_runtime := j, rec_world := w\<rparr>) = (res, r')"
      "w = sync_world env r \<or> (\<exists>c. default_commit wenv preserve commit = Some c \<and> w = snd (c (sync_snapshot env preserve r) (sync_world env r)))"
proof (cases "unreadable env candidate")
  case (Some e)
  with assms show thesis by (intro before) (auto simp: syncLocked_eq new_result_def)
next
  case None
  note eq = syncLocked_eq [of env wenv preserve candidate commit r, unfolded None Let_def load_runtime_eq, simplified]
  show thesis
  proof (cases "Renderer_Render (rec_renderer (prepared env candidate r)) (sync_routes env preserve r)")
    case (Inl e)
    with assms eq show thesis by (intro before) (auto simp: base_result_def new_result_def split: if_splits)
  next
    case (Inr config)
    show thesis
    proof (cases "fst (sv_load env 0 (rec_runtime r) config)")
      case (Some e)
      show thesis
      proof (cases "candidate = None")
        case True
        with assms eq Inr Some show thesis by (intro load) (auto simp: base_result_def new_result_def)
      next
        case False
        with assms eq Inr Some have "\<exists>res0. roll_back env candidate r res0
            ((prepared env candidate r)\<lparr>rec_runtime := snd (sv_load env 0 (rec_runtime r) config)\<rparr>) = (res, r')"
          by (auto split: prod.splits)
        then show thesis by (subst (asm) prepared_world) (elim exE, erule undone, simp)
      qed
    next
      case None
      let ?j = "snd (sv_load env 0 (rec_runtime r) config)"
      from assms eq Inr None
      have "\<exists>res0 w. roll_back env candidate r res0 ((prepared env candidate r)\<lparr>rec_runtime := ?j, rec_world := w\<rparr>) = (res, r') \<and>
          (\<exists>c. default_commit wenv preserve commit = Some c \<and> w = snd (c (sync_snapshot env preserve r) (sync_world env r)))"
        by (cases "default_commit wenv preserve commit") (auto split: sum.splits prod.splits)
      then show thesis by (elim exE conjE) (rule undone, assumption, blast)
    qed
  qed
qed

lemma sync_stop_fields:
  assumes "syncLocked env wenv preserve candidate commit r = (res, False, all, r')" "aligned r"
  shows "rec_cfg r' = rec_cfg r \<and> aligned r' \<and> rec_generation r' = rec_generation r + 1 \<and> rec_last r' = rec_last r"
  using assms(1)
proof (cases rule: sync_stop_cases)
  case before
  then show ?thesis using assms(2) by (auto simp: sync_config_def)
next
  case load
  then show ?thesis using assms(2) by (simp add: sync_config_def)
next
  case undone
  from roll_back_fields [OF undone(1)] assms(2) show ?thesis by (auto simp: sync_config_def)
qed

lemma sync_stop_runtime:
  assumes "syncLocked env wenv preserve (Some c) commit r = (res, False, all, r')" "atomic_loader env"
    and "sv_reader env = Some (Inr (Some (rec_runtime r)))" "\<forall>active. fst (sv_load env 1 active (rec_runtime r)) = None"
  shows "rec_runtime r' = rec_runtime r \<and> \<not> re_CaddyLoaded res"
  using assms(1)
proof (cases rule: sync_stop_cases)
  case before
  then show ?thesis by simp
next
  case load
  then show ?thesis by simp
next
  case undone
  have rd: "read_runtime env (Some c) = Some (rec_runtime r)" using assms(3) by (simp add: read_runtime_def)
  from roll_back_reloads [OF undone(1) rd assms(2)] assms(4) show ?thesis by auto
qed

lemma sync_stop_world:
  assumes "syncLocked env wenv preserve candidate commit r = (res, False, all, r')"
  shows "rec_world r' = rec_world r \<or> rec_world r' = sync_world env r \<or>
    (\<exists>c. default_commit wenv preserve commit = Some c \<and> rec_world r' = snd (c (sync_snapshot env preserve r) (sync_world env r)))"
  using assms
proof (cases rule: sync_stop_cases)
  case before
  then show ?thesis by auto
next
  case load
  then show ?thesis by simp
next
  case undone
  from roll_back_fields [OF undone(1)] undone(2) show ?thesis by auto
qed

end
