(* ===== verification/ReconcileProperties.thy ===== *)
theory ReconcileProperties
  imports ReconcileFacts RouteProperties CaddyProperties
begin

text \<open>
  The properties of the reconciler: what a successful sync leaves behind, what a failed one undoes, how
  syncs and edits of the routing store interleave. The examples run on the example store and configuration of
  the routing and rendering theories.
\<close>

section \<open>The store as the reconciler sees it\<close>

text \<open>
  The reconciler relies on four laws of the routing store: marking a snapshot as applied records exactly
  that snapshot and keeps the desired one, a failed mark changes nothing, and an edit keeps the applied
  snapshot and raises the revision of the desired one by one.
\<close>

locale snapshot_store =
  fixes desired applied :: "'w \<Rightarrow> Snapshot"
    and mark :: "Snapshot \<Rightarrow> 'w \<Rightarrow> ('e + unit) \<times> 'w"
    and edit :: "'w \<Rightarrow> 'w \<Rightarrow> bool"
  assumes mark_applies: "mark s w = (Inr u, w') \<Longrightarrow> applied w' = s \<and> desired w' = desired w"
    and mark_fails: "mark s w = (Inl e, w') \<Longrightarrow> w' = w"
    and edit_applied: "edit w w' \<Longrightarrow> applied w' = applied w"
    and edit_revision: "edit w w' \<Longrightarrow> sn_Revision (desired w') = sn_Revision (desired w) + 1"
begin

lemma edits_applied: "(edit ^^ n) w w' \<Longrightarrow> applied w' = applied w"
  by (induction n arbitrary: w') (auto dest: edit_applied)

lemma edits_revision: "(edit ^^ n) w w' \<Longrightarrow> sn_Revision (desired w') = sn_Revision (desired w) + of_nat n"
  by (induction n arbitrary: w') (auto simp: add_ac dest: edit_revision)

lemma mark_after_edits:
  assumes "(edit ^^ n) w w1" "mark (desired w) w1 = (Inr u, w2)"
  shows "applied w2 = desired w \<and> (sn_Revision (desired w2) = sn_Revision (applied w2) \<longleftrightarrow> 2 ^ 64 dvd n)"
proof -
  have "applied w2 = desired w" "desired w2 = desired w1" using mark_applies [OF assms(2)] by auto
  moreover have "sn_Revision (desired w1) = sn_Revision (desired w) + of_nat n" by (rule edits_revision [OF assms(1)])
  moreover have "(of_nat n :: 64 word) = 0 \<longleftrightarrow> 2 ^ 64 dvd n" by (simp add: word_of_nat_eq_0_iff)
  ultimately show ?thesis by simp
qed

end

definition desired_of :: "World \<Rightarrow> Snapshot" where
  "desired_of w = DesiredSnapshot (w_store w)"

definition applied_of :: "World \<Rightarrow> Snapshot" where
  "applied_of w = AppliedSnapshot (w_store w)"

text \<open>An edit: a routing operation that ends in a commit and succeeds.\<close>

definition edits :: "World \<Rightarrow> World \<Rightarrow> bool" where
  "edits w w' \<longleftrightarrow> (\<exists>env oper. commits oper \<and> run_op env oper w = (Inr (), w'))"

lemma MarkApplied_applies:
  "MarkApplied env s w = (Inr u, w') \<Longrightarrow> st_applied (w_store w') = s \<and> st_revision (w_store w') = st_revision (w_store w) \<and>
   DesiredSnapshot (w_store w') = DesiredSnapshot (w_store w)"
  by (auto simp: MarkApplied_def Let_def saveLocked_def DesiredSnapshot_def desiredSnapshotLocked_def
      split: if_splits option.splits)

interpretation rstore: snapshot_store desired_of applied_of "MarkApplied env" edits
proof unfold_locales
  fix s w u w' assume "MarkApplied env s w = (Inr u, w')"
  then show "applied_of w' = s \<and> desired_of w' = desired_of w"
    using MarkApplied_applies by (simp add: applied_of_def desired_of_def AppliedSnapshot_def)
next
  fix w w' assume "edits w w'"
  then obtain env0 st where c: "commit_of env0 w w' st" unfolding edits_def using run_op_commits by blast
  show "applied_of w' = applied_of w" "sn_Revision (desired_of w') = sn_Revision (desired_of w) + 1"
    using commit_of_effect [OF c]
    by (simp_all add: applied_of_def AppliedSnapshot_def desired_of_def DesiredSnapshot_def desiredSnapshotLocked_def)
qed (rule MarkApplied_atomic)

lemma Pending_revisions: "Pending (w_store w) \<longleftrightarrow> sn_Revision (desired_of w) \<noteq> sn_Revision (applied_of w)"
  by (simp add: Pending_def desired_of_def DesiredSnapshot_def desiredSnapshotLocked_def applied_of_def AppliedSnapshot_def)

section \<open>Examples\<close>

definition shop_reconciler :: Reconciler where
  "shop_reconciler = \<lparr>rec_cfg = edge_config, rec_renderer = NewRenderer edge_config, rec_world = shop_world,
     rec_runtime = JObj [], rec_lastDiscovered = [], rec_generation = 0, rec_last = new_result 0 [] 0\<rparr>"

definition quiet_sync :: SyncEnv where
  "quiet_sync = \<lparr>sv_now = 5, sv_reader = Some (Inr (Some (JObj []))), sv_discover = None, sv_load = (\<lambda>k active new. (None, new)),
     sv_between = (\<lambda>w. w), sv_during = (\<lambda>w. w)\<rparr>"

definition refused_sync :: SyncEnv where
  "refused_sync = quiet_sync\<lparr>sv_load := (\<lambda>k active new. if k = 0 then (Some ''bad config'', active) else (None, new))\<rparr>"

definition busy_sync :: SyncEnv where
  "busy_sync = quiet_sync\<lparr>sv_during := (\<lambda>w. snd (run_op good_env (OpDeleteRule ''r1'') w))\<rparr>"

lemma atomic_examples: "atomic_loader quiet_sync" "atomic_loader refused_sync" "atomic_loader busy_sync"
  by (simp_all add: atomic_loader_def quiet_sync_def refused_sync_def busy_sync_def)

lemma aligned_shop: "aligned shop_reconciler"
  by (simp add: aligned_def shop_reconciler_def NewRenderer_def)

lemma shop_cfg: "rec_cfg shop_reconciler = edge_config"
  by (simp add: shop_reconciler_def)

lemma run_of: "fst (snd out) = b \<Longrightarrow> out = (fst out, b, fst (snd (snd out)), snd (snd (snd out)))"
  by (metis prod.collapse)

section \<open>A successful sync\<close>

text \<open>
  C20: a sync that succeeds serves exactly the desired routes it read together with the discovered ones (those
  of the last successful discovery when the discovery fails): Caddy runs their rendering under the current
  configuration, the store records that snapshot as applied, and the result reports no error.
\<close>

theorem sync_installs_the_snapshot:
  assumes "aligned r" "atomic_loader env" "Sync env wenv r = (res, True, all, r')"
  shows "all = sn_Routes (DesiredSnapshot (w_store (sv_between env (rec_world r)))) @ sync_discovered env r \<and>
    Render (rec_cfg r) all = Inr (rec_runtime r') \<and>
    AppliedSnapshot (w_store (rec_world r')) = DesiredSnapshot (w_store (sv_between env (rec_world r))) \<and>
    rec_cfg r' = rec_cfg r \<and> rec_lastDiscovered r' = sync_last env r \<and>
    re_Error res = [] \<and> re_CaddyLoaded res \<and> re_AppliedRoutes res = int (length all)"
proof -
  from assms(3) obtain config w where f:
    "all = sync_routes env False r" "Renderer_Render (rec_renderer (prepared env None r)) all = Inr config"
    "fst (sv_load env 0 (rec_runtime r) config) = None"
    "MarkApplied wenv (sync_snapshot env False r) (sync_world env r) = (Inr (), w)"
    "r' = (prepared env None r)\<lparr>rec_runtime := snd (sv_load env 0 (rec_runtime r) config), rec_world := w\<rparr>"
    "res = (base_result env False None r)\<lparr>re_AppliedRoutes := int (length all), re_CaddyLoaded := True\<rparr>"
    unfolding Sync_def by (rule sync_success) (simp add: default_commit_def)
  have "snd (sv_load env 0 (rec_runtime r) config) = config" using f(3) assms(2) by (simp add: atomic_loader_def)
  then show ?thesis using f assms(1) MarkApplied_applies [OF f(4)]
    by (simp add: sync_routes_def sync_snapshot_def AppliedSnapshot_def Renderer_Render_def sync_config_def
        base_result_def new_result_def)
qed

lemma shop_sync_goes: "fst (snd (Sync quiet_sync good_env shop_reconciler)) = True"
  and shop_sync_routes: "length (fst (snd (snd (Sync quiet_sync good_env shop_reconciler)))) = 1"
proof -
  have "(case Sync quiet_sync good_env shop_reconciler of (res, goes, all, r) \<Rightarrow> goes \<and> length all = 1)" by code_simp
  then show "fst (snd (Sync quiet_sync good_env shop_reconciler)) = True"
    "length (fst (snd (snd (Sync quiet_sync good_env shop_reconciler)))) = 1"
    by (simp_all add: case_prod_beta)
qed

lemma sync_installs_the_snapshot_witness:
  "\<exists>res all r'. Sync quiet_sync good_env shop_reconciler = (res, True, all, r') \<and> length all = 1 \<and>
     Render edge_config all = Inr (rec_runtime r')"
proof -
  note run = run_of [OF shop_sync_goes]
  have "Render edge_config (fst (snd (snd (Sync quiet_sync good_env shop_reconciler)))) =
      Inr (rec_runtime (snd (snd (snd (Sync quiet_sync good_env shop_reconciler)))))"
    using sync_installs_the_snapshot [OF aligned_shop atomic_examples(1) run] unfolding shop_cfg by (elim conjE)
  with run shop_sync_routes show ?thesis by blast
qed

text \<open>
  C21: edits other users make while a sync is loading are not lost: when \<open>n\<close> edits were committed between the
  snapshot and the commit of a successful sync, the store records the older snapshot as applied and is
  pending afterwards, unless the number of edits is a multiple of \<open>2 ^ 64\<close>, which the revision cannot tell
  from no edit at all.
\<close>

theorem edits_during_a_sync_stay_pending:
  assumes "Sync env wenv r = (res, True, all, r')"
    and "(edits ^^ n) (sv_between env (rec_world r)) (sv_during env (sv_between env (rec_world r)))"
  shows "AppliedSnapshot (w_store (rec_world r')) = DesiredSnapshot (w_store (sv_between env (rec_world r))) \<and>
    (Pending (w_store (rec_world r')) \<longleftrightarrow> \<not> 2 ^ 64 dvd n)"
proof -
  from assms(1) have "MarkApplied wenv (desired_of (sv_between env (rec_world r))) (sync_world env r) = (Inr (), rec_world r')"
    unfolding Sync_def desired_of_def by (rule sync_success) (simp add: default_commit_def sync_snapshot_def)
  from rstore.mark_after_edits [OF assms(2) this [unfolded sync_world_def]] show ?thesis
    unfolding Pending_revisions applied_of_def desired_of_def by (elim conjE) simp
qed

lemma busy_edit: "edits shop_world (snd (run_op good_env (OpDeleteRule ''r1'') shop_world))"
  using shop_delete unfolding edits_def by (intro exI [of _ good_env] exI [of _ "OpDeleteRule ''r1''"]) (simp add: prod_eq_iff)

lemma edits_during_a_sync_stay_pending_witness:
  "Pending (w_store (rec_world (snd (snd (snd (Sync busy_sync good_env shop_reconciler))))))"
proof -
  have "fst (snd (Sync busy_sync good_env shop_reconciler)) = True" by code_simp
  note run = run_of [OF this]
  have "(edits ^^ 1) (sv_between busy_sync (rec_world shop_reconciler)) (sv_during busy_sync (sv_between busy_sync (rec_world shop_reconciler)))"
    using busy_edit by (simp add: busy_sync_def quiet_sync_def shop_reconciler_def eq_OO)
  from edits_during_a_sync_stay_pending [OF run this] show ?thesis by simp
qed

text \<open>
  A sync that preserves pending changes (the periodic one, and a change of the settings) serves the applied
  routes, never the pending ones, and neither marks nor edits anything in the store itself: what it leaves
  there is what the other operations did.
\<close>

theorem periodic_sync_ignores_pending_edits:
  assumes "aligned r" "atomic_loader env" "SyncWithoutPendingRoutingChanges env wenv r = (res, goes, all, r')"
  shows "rec_world r' = sync_world env r \<and>
    (goes \<longrightarrow> all = sn_Routes (AppliedSnapshot (w_store (rec_world r))) @ sync_discovered env r \<and>
       Render (rec_cfg r) all = Inr (rec_runtime r')) \<and>
    (\<not> goes \<longrightarrow> rec_runtime r' = rec_runtime r)"
proof (cases goes)
  case True
  with assms(3) have "syncLocked env wenv True None None r = (res, True, all, r')"
    by (simp add: SyncWithoutPendingRoutingChanges_def)
  then obtain config where f: "all = sync_routes env True r" "Renderer_Render (rec_renderer (prepared env None r)) all = Inr config"
    "fst (sv_load env 0 (rec_runtime r) config) = None"
    "r' = (prepared env None r)\<lparr>rec_runtime := snd (sv_load env 0 (rec_runtime r) config), rec_world := sync_world env r\<rparr>"
    by (rule sync_success) (simp add: default_commit_def)
  have "snd (sv_load env 0 (rec_runtime r) config) = config" using f(3) assms(2) by (simp add: atomic_loader_def)
  then show ?thesis using True f assms(1)
    by (simp add: sync_routes_def sync_snapshot_def Renderer_Render_def sync_config_def)
next
  case False
  with assms(3) have "syncLocked env wenv True None None r = (res, False, all, r')"
    by (simp add: SyncWithoutPendingRoutingChanges_def)
  then show ?thesis
  proof (cases rule: sync_failure_plain)
    case render
    then show ?thesis using False by simp
  next
    case (load e config)
    then have "rec_runtime r' = rec_runtime r" using assms(2) by (metis atomic_loader_def fst_conv option.distinct(1) snd_conv)
    moreover have "rec_world r' = sync_world env r" using load(3) by (metis Reconciler.select_convs(3) Reconciler.surjective Reconciler.update_convs(4) prepared_simps(2))
    ultimately show ?thesis using False by simp
  next
    case commit
    then show ?thesis by (simp add: default_commit_def)
  qed
qed

lemma periodic_sync_ignores_pending_edits_witness:
  "\<exists>res r'. SyncWithoutPendingRoutingChanges quiet_sync good_env shop_reconciler = (res, True, [], r') \<and>
     rec_world r' = shop_world \<and> Pending (w_store shop_world)"
proof -
  have "fst (snd (SyncWithoutPendingRoutingChanges quiet_sync good_env shop_reconciler)) = True" by code_simp
  note run = run_of [OF this]
  have "fst (snd (snd (SyncWithoutPendingRoutingChanges quiet_sync good_env shop_reconciler))) = []" "Pending (w_store shop_world)"
    by code_simp+
  moreover have "sync_world quiet_sync shop_reconciler = shop_world"
    by (simp add: sync_world_def quiet_sync_def shop_reconciler_def)
  ultimately show ?thesis
    using periodic_sync_ignores_pending_edits [OF aligned_shop atomic_examples(1) run] run by metis
qed

section \<open>A failed sync\<close>

text \<open>
  C22: a change of the configuration that fails is undone. Whatever fails (reading the active configuration,
  rendering, loading, or the commit after the load), the reconciler and its renderer have the configuration
  they had; and when Caddy takes the configuration back that was read before the change, it runs that one
  and the result says that nothing was loaded.
\<close>

theorem failed_configuration_change_is_undone:
  assumes "aligned r" "atomic_loader env" "SyncWithCommit env wenv (Some cfg) commit r = (res, False, all, r')"
  shows "rec_cfg r' = rec_cfg r \<and> rd_cfg (rec_renderer r') = rec_cfg r \<and>
    (sv_reader env = Some (Inr (Some (rec_runtime r))) \<longrightarrow> (\<forall>active. fst (sv_load env 1 active (rec_runtime r)) = None) \<longrightarrow>
       rec_runtime r' = rec_runtime r \<and> \<not> re_CaddyLoaded res)"
  using assms sync_stop_fields [of env wenv False "Some cfg" commit r res all r']
    sync_stop_runtime [of env wenv False cfg commit r res all r']
  by (auto simp: SyncWithCommit_def aligned_def)

lemma failed_configuration_change_is_undone_witness:
  "\<exists>res all r'. SyncWithCommit refused_sync good_env (Some (edge_config\<lparr>ap_ReconcileIntervalSeconds := 5\<rparr>)) None shop_reconciler = (res, False, all, r') \<and>
     rec_cfg r' = edge_config \<and> rec_runtime r' = JObj []"
proof -
  let ?out = "SyncWithCommit refused_sync good_env (Some (edge_config\<lparr>ap_ReconcileIntervalSeconds := 5\<rparr>)) None shop_reconciler"
  have "fst (snd ?out) = False" by code_simp
  note run = run_of [OF this]
  have env: "sv_reader refused_sync = Some (Inr (Some (rec_runtime shop_reconciler)))"
    "\<forall>active. fst (sv_load refused_sync 1 active (rec_runtime shop_reconciler)) = None" "rec_runtime shop_reconciler = JObj []"
    by (simp_all add: refused_sync_def quiet_sync_def shop_reconciler_def)
  show ?thesis
    using failed_configuration_change_is_undone [OF aligned_shop atomic_examples(2) run] run env unfolding shop_cfg by metis
qed

text \<open>
  When the routes have been loaded but cannot be recorded as applied, the sync loads the rendering of the
  applied routes and the previously discovered ones again, and leaves the store as the other operations
  left it: the pending changes stay pending and are not served.
\<close>

theorem failed_commit_restores_the_applied_routes:
  assumes "aligned r" "atomic_loader env" "Sync env wenv r = (res, False, all, r')"
    and "\<And>active config. fst (sv_load env 1 active config) = None"
    and "Render (rec_cfg r) (sync_routes env False r) = Inr new" "fst (sv_load env 0 (rec_runtime r) new) = None"
    and "Render (rec_cfg r) (sn_Routes (AppliedSnapshot (w_store (rec_world r))) @ rec_lastDiscovered r) = Inr old"
  shows "rec_runtime r' = old \<and> rec_world r' = sync_world env r \<and> re_Error res \<noteq> [] \<and> \<not> re_CaddyLoaded res"
proof -
  have cfg: "rd_cfg (rec_renderer r) = rec_cfg r" using assms(1) by (simp add: aligned_def)
  from assms(3) have "syncLocked env wenv False None None r = (res, False, all, r')" by (simp add: Sync_def)
  then show ?thesis
  proof (cases rule: sync_failure_plain)
    case render
    then show ?thesis using assms(5) cfg by simp
  next
    case load
    then show ?thesis using assms(5,6) cfg by simp
  next
    case (commit e config w cm)
    from commit(3,4) have w: "w = sync_world env r" by (auto simp: default_commit_def dest: MarkApplied_atomic)
    have "load_runtime env 1 old r4 = (None, r4\<lparr>rec_runtime := old\<rparr>)" for r4
      using assms(2,4) by (simp add: load_runtime_eq atomic_loader_def)
    then show ?thesis using commit(5) assms(7) assms(1)
      by (auto simp: roll_back_def restoreRuntime_def read_runtime_def Let_def w Renderer_Render_def sync_config_def
          split: option.splits sum.splits)
  qed
qed

lemma failed_commit_restores_the_applied_routes_witness:
  "\<exists>res all r' old. Sync quiet_sync full_disk shop_reconciler = (res, False, all, r') \<and>
     Render edge_config [] = Inr old \<and> rec_runtime r' = old \<and> rec_world r' = shop_world"
proof -
  have stop: "fst (snd (Sync quiet_sync full_disk shop_reconciler)) = False" by code_simp
  have loads: "fst (sv_load quiet_sync k active config) = None" for k active config by (simp add: quiet_sync_def)
  have none: "sn_Routes (AppliedSnapshot (w_store (rec_world shop_reconciler))) @ rec_lastDiscovered shop_reconciler = []"
    by code_simp
  have "(case Render edge_config (sync_routes quiet_sync False shop_reconciler) of Inr j \<Rightarrow> True | Inl e \<Rightarrow> False)" by code_simp
  then obtain new where new: "Render (rec_cfg shop_reconciler) (sync_routes quiet_sync False shop_reconciler) = Inr new"
    by (auto simp: shop_cfg split: sum.splits)
  have "(case Render edge_config [] of Inr j \<Rightarrow> True | Inl e \<Rightarrow> False)" by code_simp
  then obtain old where old: "Render edge_config [] = Inr old" by (auto split: sum.splits)
  have "sync_world quiet_sync shop_reconciler = shop_world"
    by (simp add: sync_world_def quiet_sync_def shop_reconciler_def)
  then show ?thesis
    using failed_commit_restores_the_applied_routes [OF aligned_shop atomic_examples(1) run_of [OF stop] loads new loads, unfolded none shop_cfg, OF old]
      run_of [OF stop] old by metis
qed

end
