(* ===== verification/GatewaySystem.thy ===== *)
theory GatewaySystem
  imports ReconcileProperties
begin

text \<open>
  The gateway as a transition system: syncs that start and end, edits of the routing store and renewals of
  the certificate configuration, in any order. The part of a sync after the mutex is a flight, which ends at
  any later time; the ghost list \<open>gt_recorded\<close> collects the generations of the syncs whose result was
  recorded, the latest first.
\<close>

section \<open>Steps\<close>

record Gateway =
  gt_rec :: Reconciler
  gt_flights :: "Flight list"
  gt_recorded :: "64 word list"

text \<open>What runs between the snapshots and the commit of a sync, and the commit itself, are operations of the store.\<close>

definition keeps_store :: "SyncEnv \<Rightarrow> commit option \<Rightarrow> bool" where
  "keeps_store env commit \<longleftrightarrow>
     (\<forall>w. reachable w \<longrightarrow> reachable (sv_between env w) \<and> reachable (sv_during env w)) \<and>
     (\<forall>c s w. commit = Some c \<longrightarrow> reachable w \<longrightarrow> reachable (snd (c s w)))"

inductive gateway_step :: "Gateway \<Rightarrow> Gateway \<Rightarrow> bool" where
  start: "rec_generation (gt_rec g) \<noteq> - 1 \<Longrightarrow> keeps_store env commit \<Longrightarrow>
    launch (syncLocked env wenv preserve candidate commit (gt_rec g)) = (f, r') \<Longrightarrow>
    gateway_step g (g\<lparr>gt_rec := r', gt_flights := f # gt_flights g\<rparr>)"
| finished: "f \<in> set (gt_flights g) \<Longrightarrow> complete now checker azure f (gt_rec g) = (res, r') \<Longrightarrow>
    gateway_step g (g\<lparr>gt_rec := r', gt_flights := remove1 f (gt_flights g),
      gt_recorded := (if rec_generation (gt_rec g) = fl_generation f then fl_generation f # gt_recorded g else gt_recorded g)\<rparr>)"
| edit: "run_op env oper (rec_world (gt_rec g)) = (x, w') \<Longrightarrow> gateway_step g (g\<lparr>gt_rec := (gt_rec g)\<lparr>rec_world := w'\<rparr>\<rparr>)"
| certificate: "gateway_step g (g\<lparr>gt_rec := Rec_UpdateCertificate cert (gt_rec g)\<rparr>)"

inductive gateway_reachable :: "Gateway \<Rightarrow> bool" where
  init: "aligned r \<Longrightarrow> reachable (rec_world r) \<Longrightarrow> rec_generation r = 0 \<Longrightarrow>
    gateway_reachable \<lparr>gt_rec = r, gt_flights = [], gt_recorded = []\<rparr>"
| step: "gateway_reachable g \<Longrightarrow> gateway_step g g' \<Longrightarrow> gateway_reachable g'"

section \<open>The invariant\<close>

definition generations :: "Gateway \<Rightarrow> 64 word list" where
  "generations g = map fl_generation (gt_flights g)"

definition in_order :: "Gateway \<Rightarrow> bool" where
  "in_order g \<longleftrightarrow> distinct (generations g) \<and> (\<forall>k \<in> set (generations g) \<union> set (gt_recorded g). k \<le> rec_generation (gt_rec g)) \<and>
     set (generations g) \<inter> set (gt_recorded g) = {} \<and> sorted_wrt (>) (gt_recorded g)"

lemma run_op_reachable: "reachable w \<Longrightarrow> reachable (snd (run_op env oper w))"
  using reachable.step [of w env oper] by (cases "run_op env oper w") auto

lemma MarkApplied_reachable: "reachable w \<Longrightarrow> reachable (snd (MarkApplied env s w))"
  using run_op_reachable [of w env "OpMarkApplied s"] by simp

lemma finish_fields:
  "complete now checker azure f r = (res, r') \<Longrightarrow>
   rec_generation r' = rec_generation r \<and> rec_cfg r' = rec_cfg r \<and> rec_renderer r' = rec_renderer r \<and>
   (rec_world r' = rec_world r \<or> (\<exists>sts. rec_world r' = (rec_world r)\<lparr>w_store := SetRuntimeStatus sts (w_store (rec_world r))\<rparr>))"
  by (auto simp: complete_def finish_def Let_def split: option.splits if_splits)

lemma complete_result:
  "complete now checker azure f r = (res, r') \<Longrightarrow>
   (if rec_generation r = fl_generation f then Last r' = res else r' = r)"
  by (auto simp: complete_def finish_def Let_def Last_def)

lemma status_reachable: "reachable w \<Longrightarrow> reachable (w\<lparr>w_store := SetRuntimeStatus sts (w_store w)\<rparr>)"
  using run_op_reachable [of w undefined "OpSetStatus sts"] by simp

text \<open>What the first part of a sync keeps, whether it goes on or not.\<close>

lemma sync_keeps:
  assumes "syncLocked env wenv preserve candidate commit r = (res, goes, all, r')" "aligned r" "keeps_store env commit"
    and "reachable (rec_world r)"
  shows "aligned r' \<and> rec_generation r' = rec_generation r + 1 \<and> reachable (rec_world r')"
proof -
  have w: "reachable (sync_world env r)" using assms(3,4) by (simp add: keeps_store_def sync_world_def)
  have commits: "reachable (snd (c s v))" if "default_commit wenv preserve commit = Some c" "reachable v" for c s v
    using that assms(3) MarkApplied_reachable by (auto simp: default_commit_def keeps_store_def split: option.splits if_splits)
  show ?thesis
  proof (cases goes)
    case True
    with assms(1) have "syncLocked env wenv preserve candidate commit r = (res, True, all, r')" by simp
    then show ?thesis
    proof (rule sync_success)
      fix config v assume f: "case default_commit wenv preserve commit of None \<Rightarrow> v = sync_world env r
          | Some c \<Rightarrow> c (sync_snapshot env preserve r) (sync_world env r) = (Inr (), v)"
        "r' = (prepared env candidate r)\<lparr>rec_runtime := snd (sv_load env 0 (rec_runtime r) config), rec_world := v\<rparr>"
      have "reachable v"
        using f(1) w commits [of _ "sync_world env r" "sync_snapshot env preserve r"]
        by (cases "default_commit wenv preserve commit") auto
      with f(2) assms(2) show ?thesis by simp
    qed
  next
    case False
    with assms(1) have stop: "syncLocked env wenv preserve candidate commit r = (res, False, all, r')" by simp
    have "reachable (rec_world r')" using sync_stop_world [OF stop] w assms(4) commits by auto
    with sync_stop_fields [OF stop assms(2)] show ?thesis by simp
  qed
qed

lemma update_certificate_keeps [simp]:
  "aligned r \<Longrightarrow> aligned (Rec_UpdateCertificate cert r)" "rec_world (Rec_UpdateCertificate cert r) = rec_world r"
  "rec_generation (Rec_UpdateCertificate cert r) = rec_generation r"
  by (simp_all add: aligned_def Rec_UpdateCertificate_def UpdateCertificate_def)

lemma gateway_step_keeps:
  assumes "gateway_step g g'" "aligned (gt_rec g)" "reachable (rec_world (gt_rec g))"
  shows "aligned (gt_rec g') \<and> reachable (rec_world (gt_rec g'))"
  using assms
proof (cases rule: gateway_step.cases)
  case (start env commit wenv preserve candidate f r')
  then obtain res goes all where s: "syncLocked env wenv preserve candidate commit (gt_rec g) = (res, goes, all, r')"
    by (auto simp: launch_def split: prod.splits)
  from sync_keeps [OF s assms(2) start(3) assms(3)] start(1) show ?thesis by simp
next
  case (finished f now checker azure res r')
  from finish_fields [OF finished(3)] finished(1) assms(2,3) show ?thesis by (auto simp: aligned_def status_reachable)
next
  case (edit env oper x w')
  then show ?thesis using assms(2) run_op_reachable [OF assms(3), of env oper] by simp
next
  case certificate
  then show ?thesis using assms(2,3) by simp
qed

lemma launch_fields:
  "launch out = (f, r') \<Longrightarrow> r' = snd (snd (snd out)) \<and> fl_generation f = rec_generation r'"
  by (auto simp: launch_def split: prod.splits)

lemma gateway_step_order:
  assumes "gateway_step g g'" "aligned (gt_rec g)" "reachable (rec_world (gt_rec g))" "in_order g"
  shows "in_order g'"
  using assms(1)
proof (cases rule: gateway_step.cases)
  case (start env commit wenv preserve candidate f r')
  then obtain res goes all where s: "syncLocked env wenv preserve candidate commit (gt_rec g) = (res, goes, all, r')"
    and f: "fl_generation f = rec_generation r'"
    by (auto simp: launch_def split: prod.splits)
  have next_gen: "rec_generation r' = rec_generation (gt_rec g) + 1" using sync_keeps [OF s assms(2) start(3) assms(3)] by simp
  have lt: "k < rec_generation r'" if "k \<le> rec_generation (gt_rec g)" for k
    using that word_less_succ [OF start(2)] next_gen by simp
  then show ?thesis using assms(4) start(1) f
    by (auto simp: in_order_def generations_def less_imp_le dest: lt)
next
  case (finished f now checker azure res r')
  have gen: "rec_generation r' = rec_generation (gt_rec g)" using finish_fields [OF finished(3)] by simp
  have d: "distinct (map fl_generation (gt_flights g))" using assms(4) by (simp add: in_order_def generations_def)
  have rest: "fl_generation ` set (remove1 f (gt_flights g)) = fl_generation ` set (gt_flights g) - {fl_generation f}"
    "distinct (map fl_generation (remove1 f (gt_flights g)))"
    using d finished(2) by (auto simp: distinct_map inj_on_def distinct_remove1)
  have old: "k < fl_generation f" if "k \<in> set (gt_recorded g)" "rec_generation (gt_rec g) = fl_generation f" for k
    using that assms(4) finished(2) by (force simp: in_order_def generations_def order_less_le)
  show ?thesis using assms(4) finished(1) gen rest old
    by (auto simp: in_order_def generations_def dest: in_set_remove1)
next
  case edit
  then show ?thesis using assms(4) by (simp add: in_order_def generations_def)
next
  case certificate
  then show ?thesis using assms(4) by (simp add: in_order_def generations_def)
qed

lemma gateway_reachable_keeps:
  assumes "gateway_reachable g"
  shows "aligned (gt_rec g) \<and> reachable (rec_world (gt_rec g)) \<and> in_order g"
  using assms
proof (induction rule: gateway_reachable.induct)
  case (init r)
  then show ?case by (simp add: in_order_def generations_def)
next
  case (step g g')
  then show ?case using gateway_step_keeps gateway_step_order by blast
qed

section \<open>Properties\<close>

definition shop_gateway :: Gateway where
  "shop_gateway = \<lparr>gt_rec = shop_reconciler, gt_flights = [], gt_recorded = []\<rparr>"

lemma shop_gateway_reachable: "gateway_reachable shop_gateway"
  unfolding shop_gateway_def using aligned_shop shop_world_reachable
  by (intro gateway_reachable.init) (simp_all add: shop_reconciler_def)

definition after_sync :: "Gateway \<Rightarrow> Gateway" where
  "after_sync g = (case launch (Sync quiet_sync good_env (gt_rec g)) of (f, r) \<Rightarrow> g\<lparr>gt_rec := r, gt_flights := f # gt_flights g\<rparr>)"

lemma quiet_keeps_store: "keeps_store quiet_sync None"
  by (simp add: keeps_store_def quiet_sync_def)

lemma after_sync_reachable:
  "gateway_reachable g \<Longrightarrow> rec_generation (gt_rec g) \<noteq> - 1 \<Longrightarrow> gateway_reachable (after_sync g)"
  unfolding after_sync_def Sync_def
  using gateway_reachable.step gateway_step.start [OF _ quiet_keeps_store] by (auto split: prod.split)

lemma after_sync_fields:
  assumes "gateway_reachable g"
  obtains f where "gt_flights (after_sync g) = f # gt_flights g" "fl_generation f = rec_generation (gt_rec g) + 1"
    "rec_generation (gt_rec (after_sync g)) = rec_generation (gt_rec g) + 1"
proof -
  obtain res goes all r' where s: "syncLocked quiet_sync good_env False None None (gt_rec g) = (res, goes, all, r')"
    by (metis prod.collapse)
  have "rec_generation r' = rec_generation (gt_rec g) + 1"
    using sync_keeps [OF s _ quiet_keeps_store] gateway_reachable_keeps [OF assms] by simp
  moreover define f where "f = fst (launch (res, goes, all, r'))"
  then have "launch (res, goes, all, r') = (f, r')" by (simp add: launch_def)
  ultimately show thesis using launch_fields [of "(res, goes, all, r')" f r']
    by (intro that [of f]) (simp_all add: after_sync_def Sync_def s)
qed

definition two_syncs :: Gateway where
  "two_syncs = after_sync (after_sync shop_gateway)"

lemma two_syncs_flights:
  obtains a b where "gt_flights two_syncs = [b, a]" "fl_generation a = 1" "fl_generation b = 2"
    "rec_generation (gt_rec two_syncs) = 2" "gateway_reachable two_syncs"
proof -
  have start: "rec_generation (gt_rec shop_gateway) = 0" "gt_flights shop_gateway = []"
    by (simp_all add: shop_gateway_def shop_reconciler_def)
  obtain a where a: "gt_flights (after_sync shop_gateway) = [a]" "fl_generation a = 1"
      "rec_generation (gt_rec (after_sync shop_gateway)) = 1"
    using after_sync_fields [OF shop_gateway_reachable] start by auto
  have r1: "gateway_reachable (after_sync shop_gateway)"
    using after_sync_reachable [OF shop_gateway_reachable] start by simp
  obtain b where "gt_flights two_syncs = [b, a]" "fl_generation b = 2" "rec_generation (gt_rec two_syncs) = 2"
    using after_sync_fields [OF r1] a unfolding two_syncs_def by auto
  moreover have "gateway_reachable two_syncs" unfolding two_syncs_def using after_sync_reachable [OF r1] a(3) by simp
  ultimately show thesis using a(2) by (intro that)
qed

text \<open>
  Whatever syncs, edits, renewals and configuration changes the gateway has run, in whatever order and
  with whatever failures, the routing store is consistent and the renderer works with the configuration of
  the reconciler.
\<close>

theorem gateway_stays_consistent:
  assumes "gateway_reachable g"
  shows "wf_store (w_store (rec_world (gt_rec g))) \<and> rd_cfg (rec_renderer (gt_rec g)) = rec_cfg (gt_rec g)"
  using gateway_reachable_keeps [OF assms] reachable_wf by (simp add: aligned_def)

lemma gateway_stays_consistent_witness:
  "wf_store (w_store (rec_world (gt_rec two_syncs))) \<and> length (gt_flights two_syncs) = 2"
  by (rule two_syncs_flights) (simp add: gateway_stays_consistent)

end
