(* ===== verification/SyncOrder.thy ===== *)
theory SyncOrder
  imports GatewaySystem
begin

text \<open>
  The order in which the syncs of the gateway report: a sync that ends after a newer one has begun leaves no trace
  (the generation check of \<open>finish\<close> in \<open>backend/internal/reconcile/reconciler.go\<close>).
\<close>

section \<open>Older and newer syncs\<close>

text \<open>A step in which a sync begins; \<open>f\<close> is what it carries to its end.\<close>

definition begins :: "Gateway \<Rightarrow> Flight \<Rightarrow> Gateway \<Rightarrow> bool" where
  "begins g f g' \<longleftrightarrow> gateway_step g g' \<and> gt_flights g' = f # gt_flights g"

definition other_step :: "Gateway \<Rightarrow> Gateway \<Rightarrow> bool" where
  "other_step g g' \<longleftrightarrow> gateway_step g g' \<and> (\<forall>f. \<not> begins g f g')"

lemma steps_reachable: "gateway_step\<^sup>*\<^sup>* g g' \<Longrightarrow> gateway_reachable g \<Longrightarrow> gateway_reachable g'"
  by (induction rule: rtranclp_induct) (auto intro: gateway_reachable.step)

lemma shorter_flights: "remove1 f fs \<noteq> f' # fs"
  by (auto dest!: arg_cong [where f = length] simp: length_remove1 split: if_splits)

lemma step_generation:
  assumes "gateway_reachable g" "gateway_step g g'"
  shows "\<exists>f. begins g f g' \<and> rec_generation (gt_rec g) < rec_generation (gt_rec g') \<and> fl_generation f = rec_generation (gt_rec g') \<or>
    other_step g g' \<and> rec_generation (gt_rec g') = rec_generation (gt_rec g)"
  using assms(2)
proof (cases rule: gateway_step.cases)
  case (start env commit wenv preserve candidate f r')
  then obtain res goes all where s: "syncLocked env wenv preserve candidate commit (gt_rec g) = (res, goes, all, r')"
    and f: "fl_generation f = rec_generation r'" by (auto simp: launch_def split: prod.splits)
  have "rec_generation r' = rec_generation (gt_rec g) + 1"
    using sync_keeps [OF s _ start(3)] gateway_reachable_keeps [OF assms(1)] by simp
  then show ?thesis using assms(2) start(1) f word_less_succ [OF start(2)] by (intro exI [of _ f]) (simp add: begins_def)
next
  case (finished f now checker azure res r')
  then show ?thesis using assms(2) finish_fields [OF finished(3)] by (auto simp: other_step_def begins_def shorter_flights)
qed (use assms(2) in \<open>auto simp: other_step_def begins_def\<close>)

lemma begins_generation:
  assumes "gateway_reachable g" "begins g f g'"
  shows "rec_generation (gt_rec g) < rec_generation (gt_rec g') \<and> fl_generation f = rec_generation (gt_rec g')"
proof -
  have h: "gateway_step g g'" "gt_flights g' = f # gt_flights g" "\<not> other_step g g'"
    using assms(2) by (auto simp: begins_def other_step_def)
  with step_generation [OF assms(1) h(1)] show ?thesis by (auto simp: begins_def)
qed

lemma steps_generation:
  assumes "gateway_step\<^sup>*\<^sup>* g g'" "gateway_reachable g"
  shows "rec_generation (gt_rec g) \<le> rec_generation (gt_rec g')"
  using assms
proof (induction rule: rtranclp_induct)
  case (step h h')
  then have "gateway_reachable h" using steps_reachable by blast
  from step_generation [OF this step(2)] step show ?case by (metis order.strict_implies_order order.trans)
qed simp

lemma other_steps_generation:
  assumes "other_step\<^sup>*\<^sup>* g g'" "gateway_reachable g"
  shows "rec_generation (gt_rec g') = rec_generation (gt_rec g) \<and> gateway_reachable g'"
  using assms
proof (induction rule: rtranclp_induct)
  case (step h h')
  then have h: "gateway_reachable h" "gateway_step h h'" "\<And>f. \<not> begins h f h'" by (auto simp: other_step_def)
  from step_generation [OF h(1,2)] h step show ?case by (auto intro: gateway_reachable.step)
qed simp

text \<open>
  C23: syncs end in any order, but only the newest one reports. When another sync has begun while a sync was under way, then
  the end of the older one changes nothing, neither the last result nor the status of the routes, whether the newer one
  is still under way or has ended by then. When no sync has begun since, its result is recorded.
\<close>

theorem superseded_sync_leaves_no_trace:
  assumes "gateway_reachable g" "f \<in> set (gt_flights g)" "complete now checker azure f (gt_rec g) = (res, r')"
  shows "((\<exists>g1 newer g2. gateway_reachable g1 \<and> f \<in> set (gt_flights g1) \<and> begins g1 newer g2 \<and> gateway_step\<^sup>*\<^sup>* g2 g) \<longrightarrow>
      r' = gt_rec g) \<and>
    ((\<exists>g1 g2. gateway_reachable g1 \<and> begins g1 f g2 \<and> other_step\<^sup>*\<^sup>* g2 g) \<longrightarrow> Last r' = res)"
proof (intro conjI impI)
  assume "\<exists>g1 newer g2. gateway_reachable g1 \<and> f \<in> set (gt_flights g1) \<and> begins g1 newer g2 \<and> gateway_step\<^sup>*\<^sup>* g2 g"
  then obtain g1 newer g2 where h: "gateway_reachable g1" "f \<in> set (gt_flights g1)" "begins g1 newer g2" "gateway_step\<^sup>*\<^sup>* g2 g" by blast
  have "gateway_reachable g2" using h(1,3) by (auto simp: begins_def intro: gateway_reachable.step)
  then have "rec_generation (gt_rec g1) < rec_generation (gt_rec g)"
    using begins_generation [OF h(1,3)] steps_generation [OF h(4)] by (metis order.strict_trans2)
  moreover have "fl_generation f \<le> rec_generation (gt_rec g1)"
    using gateway_reachable_keeps [OF h(1)] h(2) by (auto simp: in_order_def generations_def)
  ultimately have "rec_generation (gt_rec g) \<noteq> fl_generation f" by auto
  then show "r' = gt_rec g" using complete_result [OF assms(3)] by simp
next
  assume "\<exists>g1 g2. gateway_reachable g1 \<and> begins g1 f g2 \<and> other_step\<^sup>*\<^sup>* g2 g"
  then obtain g1 g2 where h: "gateway_reachable g1" "begins g1 f g2" "other_step\<^sup>*\<^sup>* g2 g" by blast
  have "gateway_reachable g2" using h(1,2) by (auto simp: begins_def intro: gateway_reachable.step)
  then have "rec_generation (gt_rec g) = fl_generation f"
    using begins_generation [OF h(1,2)] other_steps_generation [OF h(3)] by simp
  then show "Last r' = res" using complete_result [OF assms(3)] by simp
qed

text \<open>Two syncs, of which the second has begun during the first and has ended; the first is still under way.\<close>

definition newer_ended :: "Flight \<Rightarrow> Gateway" where
  "newer_ended b = two_syncs\<lparr>gt_rec := snd (complete 9 None None b (gt_rec two_syncs)), gt_flights := remove1 b (gt_flights two_syncs),
     gt_recorded := [2]\<rparr>"

lemma superseded_sync_leaves_no_trace_witness:
  "\<exists>older newer. gt_flights two_syncs = [newer, older] \<and> gt_flights (newer_ended newer) = [older] \<and>
     snd (complete 9 None None older (gt_rec (newer_ended newer))) = gt_rec (newer_ended newer) \<and>
     Last (snd (complete 9 None None newer (gt_rec two_syncs))) = fst (complete 9 None None newer (gt_rec two_syncs))"
proof (rule two_syncs_flights)
  fix a b assume f: "gt_flights two_syncs = [b, a]" "fl_generation a = 1" "fl_generation b = 2"
    "rec_generation (gt_rec two_syncs) = 2" "gateway_reachable two_syncs"
  let ?one = "after_sync shop_gateway"
  have start: "rec_generation (gt_rec shop_gateway) \<noteq> - 1" "gt_flights shop_gateway = []" "rec_generation (gt_rec shop_gateway) = 0"
    by (simp_all add: shop_gateway_def shop_reconciler_def)
  obtain a' where a': "gt_flights ?one = [a']" "rec_generation (gt_rec ?one) = 1"
    using after_sync_fields [OF shop_gateway_reachable] start by auto
  have one: "gateway_reachable ?one" by (rule after_sync_reachable [OF shop_gateway_reachable start(1)])
  have step: "gateway_step ?one two_syncs"
    unfolding two_syncs_def after_sync_def [of ?one] Sync_def
    using gateway_step.start [OF _ quiet_keeps_store] a'(2) by (auto split: prod.split)
  have flights: "gt_flights two_syncs = b # gt_flights ?one"
  proof -
    obtain c where "gt_flights two_syncs = c # gt_flights ?one" unfolding two_syncs_def by (rule after_sync_fields [OF one])
    with f(1) show ?thesis by simp
  qed
  then have begins: "begins ?one b two_syncs" and a: "a \<in> set (gt_flights ?one)" using step f(1) a'(1) by (simp_all add: begins_def)
  have ended: "gateway_step two_syncs (newer_ended b)"
  proof -
    have "gt_recorded two_syncs = []"
      by (auto simp: two_syncs_def after_sync_def shop_gateway_def split: prod.split)
    then show ?thesis
      using gateway_step.finished [of b two_syncs 9 None None, OF _ prod.collapse [symmetric]] f by (simp add: newer_ended_def)
  qed
  have left: "gt_flights (newer_ended b) = [a]" using f(1) by (simp add: newer_ended_def)
  have "snd (complete 9 None None a (gt_rec (newer_ended b))) = gt_rec (newer_ended b)"
    using superseded_sync_leaves_no_trace [OF gateway_reachable.step [OF f(5) ended] _ prod.collapse [symmetric], of a 9 None None]
      left one a begins ended by auto
  moreover have "Last (snd (complete 9 None None b (gt_rec two_syncs))) = fst (complete 9 None None b (gt_rec two_syncs))"
    using superseded_sync_leaves_no_trace [OF f(5) _ prod.collapse [symmetric], of b 9 None None] f(1) one begins by auto
  ultimately show ?thesis using f(1) left by blast
qed

end
