(* ===== verification/ConfigModel.thy ===== *)
theory ConfigModel
  imports RouteValidation
begin

text \<open>
  The configuration of the gateway, \<open>backend/internal/config/config.go\<close>: the defaults, the environment,
  normalisation and validation. Reading the configuration file into the defaults, \<open>strconv.ParseFloat\<close>
  and the JSON decoder of the DNS zones are parameters. The error messages are those of the source.
\<close>

section \<open>String lists\<close>

definition compactStrings :: "string list \<Rightarrow> string list" where
  "compactStrings parts = filter (\<lambda>p. p \<noteq> []) (map TrimSpace parts)"

definition splitCSV :: "string \<Rightarrow> string list" where
  "splitCSV text = compactStrings (Split text (CHR '',''))"

definition parseBool :: "string \<Rightarrow> bool" where
  "parseBool text \<longleftrightarrow> ToLower (TrimSpace text) \<in> {''1'', ''true'', ''yes'', ''y'', ''on''}"

definition config_uniqueStrings :: "string list \<Rightarrow> string list" where
  "config_uniqueStrings values = keep_first {} values"

definition config_normalizeMethods :: "string list \<Rightarrow> string list" where
  "config_normalizeMethods methods = config_uniqueStrings (map ToUpper (compactStrings methods))"

definition config_normalizePathPrefixes :: "string list \<Rightarrow> string list" where
  "config_normalizePathPrefixes prefixes =
     config_uniqueStrings (map (\<lambda>p. if p \<noteq> ''/'' then TrimRight p ''/'' else p) (compactStrings prefixes))"

section \<open>Checks\<close>

definition config_token_byte :: "char \<Rightarrow> bool" where
  "config_token_byte c \<longleftrightarrow> is_upper c \<or> is_digit c \<or> c \<in> set ''!#$%&*+-.^_`|~'' \<or> c = CHR 0x27"

definition config_validHTTPToken :: "string \<Rightarrow> bool" where
  "config_validHTTPToken text \<longleftrightarrow> text \<noteq> [] \<and> list_all config_token_byte text"

definition validateMethods :: "string \<Rightarrow> string list \<Rightarrow> string + unit" where
  "validateMethods field methods =
     each_ok (\<lambda>m. guard_err (\<not> config_validHTTPToken m) (field @ '' contains invalid HTTP method '' @ Quote m)) methods"

definition validatePathPrefixes :: "string \<Rightarrow> string list \<Rightarrow> string + unit" where
  "validatePathPrefixes field prefixes =
     each_ok (\<lambda>p. guard_err (\<not> HasPrefix p ''/'' \<or> Contains p ''*'')
       (field @ '' entry '' @ Quote p @ '' must start with / and must not contain wildcards'')) prefixes"

definition source_range :: "string \<Rightarrow> bool" where
  "source_range s \<longleftrightarrow> ParseIP s \<noteq> None \<or> ParseCIDR_ok s"

definition validateCIDRs :: "string \<Rightarrow> string list \<Rightarrow> string + unit" where
  "validateCIDRs field ranges =
     each_ok (\<lambda>s. guard_err (\<not> source_range s) (field @ '' contains invalid IP or CIDR '' @ Quote s)) ranges"

definition validateCaddyAdminEndpoint :: "string \<Rightarrow> string + unit" where
  "validateCaddyAdminEndpoint endpoint =
     (case url_Parse endpoint of
        None \<Rightarrow> Inl ''gateway.caddyAdminEndpoint must be an http(s) URL with a loopback host''
      | Some parsed \<Rightarrow>
          (if u_Scheme parsed = [] \<or> u_Host parsed = [] then Inl ''gateway.caddyAdminEndpoint must be an http(s) URL with a loopback host''
           else if ToLower (u_Scheme parsed) \<noteq> ''http'' \<and> ToLower (u_Scheme parsed) \<noteq> ''https''
           then Inl ''gateway.caddyAdminEndpoint must use http or https''
           else if Hostname parsed = [] then Inl ''gateway.caddyAdminEndpoint must include a host''
           else if EqualFold (Hostname parsed) ''localhost'' then Inr ()
           else (case ParseIP (Hostname parsed) of
               Some ip \<Rightarrow> if is_loopback ip then Inr () else Inl ''gateway.caddyAdminEndpoint must use a loopback host''
             | None \<Rightarrow> Inl ''gateway.caddyAdminEndpoint must use a loopback host'')))"

section \<open>Certificates\<close>

definition normalizeCertificateSubjects :: "string list \<Rightarrow> string list" where
  "normalizeCertificateSubjects subjects = keep_first {} (filter (\<lambda>s. s \<noteq> []) (map canon_name subjects))"

definition defaultIssuer :: "CertificateConfig \<Rightarrow> CertificateConfig" where
  "defaultIssuer cert =
     (if ce_Issuer cert = [] \<or> ce_Issuer cert = ''default'' then cert\<lparr>ce_Issuer := ''letsencrypt''\<rparr> else cert)"

text \<open>The Azure part: the default authentication, and no application secrets with a managed identity.\<close>

definition defaultChallenge :: "DNSChallengeConfig \<Rightarrow> DNSChallengeConfig" where
  "defaultChallenge dns0 =
     (let dns = (if dc_Provider dns0 = ''azure'' \<and> ac_Authentication (dc_Azure dns0) = []
                 then dns0\<lparr>dc_Azure := (dc_Azure dns0)\<lparr>ac_Authentication := ''managedidentity''\<rparr>\<rparr> else dns0)
      in if ac_Authentication (dc_Azure dns) = ''managedidentity''
         then dns\<lparr>dc_Azure := (dc_Azure dns)\<lparr>ac_TenantID := [], ac_ClientID := [], ac_ClientSecret := []\<rparr>\<rparr>
         else dns)"

definition trimChallenge :: "DNSChallengeConfig \<Rightarrow> DNSChallengeConfig" where
  "trimChallenge dns =
     \<lparr>dc_Provider = ToLower (TrimSpace (dc_Provider dns)),
      dc_Azure = \<lparr>ac_SubscriptionID = TrimSpace (ac_SubscriptionID (dc_Azure dns)),
        ac_ResourceGroup = TrimSpace (ac_ResourceGroup (dc_Azure dns)),
        ac_Authentication = ToLower (TrimSpace (ac_Authentication (dc_Azure dns))),
        ac_TenantID = TrimSpace (ac_TenantID (dc_Azure dns)),
        ac_ClientID = TrimSpace (ac_ClientID (dc_Azure dns)),
        ac_ClientSecret = TrimSpace (ac_ClientSecret (dc_Azure dns))\<rparr>\<rparr>"

definition NormalizeCertificateConfig :: "CertificateConfig \<Rightarrow> CertificateConfig" where
  "NormalizeCertificateConfig cert =
     defaultIssuer (cert\<lparr>ce_Issuer := ToLower (TrimSpace (ce_Issuer cert)),
       ce_Email := TrimSpace (ce_Email cert),
       ce_CADirectory := TrimSpace (ce_CADirectory cert),
       ce_Subjects := normalizeCertificateSubjects (ce_Subjects cert),
       ce_DNSChallenge := defaultChallenge (trimChallenge (ce_DNSChallenge cert))\<rparr>)"

text \<open>The two nested loops of \<open>certificateAzureDNSResourceGroup\<close>: the length of the best zone and its group.\<close>

definition subject_in_zone :: "string \<Rightarrow> string \<Rightarrow> bool" where
  "subject_in_zone zoneName subject0 =
     (let subject = TrimPrefix (TrimSuffix (ToLower (TrimSpace subject0)) ''.'') ''*.'' in
      subject = zoneName \<or> HasSuffix subject (''.'' @ zoneName))"

fun bestZone :: "string list \<Rightarrow> AzureDNSZoneConfig list \<Rightarrow> int \<times> string \<Rightarrow> int \<times> string" where
  "bestZone subjects [] best = best"
| "bestZone subjects (zone # zones) best =
     (let zoneName = canon_name (zn_Name zone) in
      bestZone subjects zones
        (if zoneName \<noteq> [] \<and> list_ex (subject_in_zone zoneName) subjects \<and> int (length zoneName) > fst best
         then (int (length zoneName), TrimSpace (zn_ResourceGroup zone)) else best))"

definition certificateAzureDNSResourceGroup :: "string list \<Rightarrow> AzureConfig \<Rightarrow> string" where
  "certificateAzureDNSResourceGroup subjects azure =
     (let resourceGroup = snd (bestZone subjects (az_DNSZones azure) (- 1, [])) in
      if resourceGroup \<noteq> [] then resourceGroup
      else case az_DNSZones azure of
        [] \<Rightarrow> TrimSpace (az_ResourceGroup azure)
      | [zone] \<Rightarrow> TrimSpace (zn_ResourceGroup zone)
      | _ \<Rightarrow> [])"

definition ApplyAzureCertificateDefaults :: "CertificateConfig \<Rightarrow> AzureConfig \<Rightarrow> CertificateConfig" where
  "ApplyAzureCertificateDefaults cert0 azure =
     (let cert = NormalizeCertificateConfig cert0; dns = ce_DNSChallenge cert; a = dc_Azure dns in
      if dc_Provider dns \<noteq> ''azure'' then cert
      else cert\<lparr>ce_DNSChallenge := dns\<lparr>dc_Azure := a\<lparr>
        ac_SubscriptionID := (if ac_SubscriptionID a = [] then TrimSpace (az_SubscriptionID azure) else ac_SubscriptionID a),
        ac_ResourceGroup := (if ac_ResourceGroup a = [] then certificateAzureDNSResourceGroup (ce_Subjects cert) azure
                             else ac_ResourceGroup a)\<rparr>\<rparr>\<rparr>)"

definition subject_label :: "string \<Rightarrow> bool" where
  "subject_label label \<longleftrightarrow> label \<noteq> [] \<and> length label \<le> 63 \<and> hd label \<noteq> CHR ''-'' \<and> last label \<noteq> CHR ''-'' \<and>
     list_all (\<lambda>c. is_lower c \<or> is_digit c \<or> c = CHR ''-'') label"

definition validateCertificateSubject :: "string \<Rightarrow> string + unit" where
  "validateCertificateSubject subject =
     (let name = (if HasPrefix subject ''*.'' then TrimPrefix subject ''*.'' else subject);
          labels = Split name (CHR ''.'') in
      if Contains name ''*'' \<or> name = [] \<or> 253 < length name
      then Inl (''certificate subject '' @ Quote subject @ '' must be a DNS name with at most one left-most wildcard'')
      else if length labels < 2 then Inl (''certificate subject '' @ Quote subject @ '' must be a fully qualified DNS name'')
      else each_ok (\<lambda>label. guard_err (\<not> subject_label label) (''certificate subject '' @ Quote subject @ '' is not a valid DNS name'')) labels)"

definition ratio_outside :: "float64 \<Rightarrow> bool" where
  "ratio_outside r \<longleftrightarrow> float_less r (Finite 0) \<or> (r \<noteq> NaN \<and> \<not> float_less r (Finite 1))"

definition validateSubjects :: "CertificateConfig \<Rightarrow> string + unit" where
  "validateSubjects cert =
     each_ok (\<lambda>subject. bind_res (validateCertificateSubject subject) (\<lambda>_.
       guard_err (HasPrefix subject ''*.'' \<and> dc_Provider (ce_DNSChallenge cert) = [])
         (''wildcard certificate subject '' @ Quote subject @ '' requires a DNS challenge''))) (ce_Subjects cert)"

definition validateChallenge :: "CertificateConfig \<Rightarrow> string + unit" where
  "validateChallenge cert =
     (let provider = dc_Provider (ce_DNSChallenge cert); azure = dc_Azure (ce_DNSChallenge cert) in
      if provider = [] then Inr ()
      else if provider \<noteq> ''azure'' then Inl (''unsupported DNS challenge provider '' @ Quote provider)
      else if ce_Issuer cert = ''zerossl'' then Inl ''ZeroSSL does not support configurable DNS challenges; use letsencrypt or custom ACME''
      else if ce_Subjects cert = [] then Inl ''DNS challenge requires at least one certificate subject''
      else if ac_SubscriptionID azure = [] \<or> ac_ResourceGroup azure = []
      then Inl ''Azure DNS challenge requires subscriptionId and resourceGroup''
      else if ac_Authentication azure = ''managedidentity'' then Inr ()
      else if ac_Authentication azure = ''appregistration'' then
        (if ac_TenantID azure = [] \<or> ac_ClientID azure = [] \<or> ac_ClientSecret azure = []
         then Inl ''Azure DNS App Registration requires tenantId, clientId, and clientSecret'' else Inr ())
      else Inl (''unsupported Azure DNS authentication '' @ Quote (ac_Authentication azure)))"

definition ValidateCertificateConfig :: "CertificateConfig \<Rightarrow> string + unit" where
  "ValidateCertificateConfig cert0 =
     (let cert = NormalizeCertificateConfig cert0 in
      if ratio_outside (ce_RenewalWindowRatio cert)
      then Inl ''gateway.certificate.renewalWindowRatio must be 0 or between 0 and 1''
      else if ce_Issuer cert = ''custom'' \<and> ce_CADirectory cert = []
      then Inl ''gateway.certificate.caDirectory is required when certificate issuer is custom''
      else if ce_Issuer cert \<notin> {''default'', ''letsencrypt'', ''zerossl'', ''custom''}
      then Inl (''unsupported certificate issuer '' @ Quote (ce_Issuer cert))
      else bind_res (validateSubjects cert) (\<lambda>_. validateChallenge cert))"

section \<open>Normalisation\<close>

definition appendConfigZone :: "string \<Rightarrow> AzureDNSZoneConfig list \<Rightarrow> AzureDNSZoneConfig \<Rightarrow> AzureDNSZoneConfig list" where
  "appendConfigZone defaultGroup zones zone =
     (let name = canon_name (zn_Name zone);
          group0 = TrimSpace (zn_ResourceGroup zone);
          group = (if group0 = [] then TrimSpace defaultGroup else group0)
      in if name = [] then zones
         else if name \<in> zn_Name ` set zones then zones
         else zones @ [\<lparr>zn_Name = name, zn_ResourceGroup = group\<rparr>])"

definition normalizeDNSZones :: "AzureConfig \<Rightarrow> AzureDNSZoneConfig list" where
  "normalizeDNSZones cfg =
     (let zones = foldl (appendConfigZone (az_ResourceGroup cfg)) [] (az_DNSZones cfg) in
      if az_DNSZoneName cfg \<noteq> []
      then appendConfigZone (az_ResourceGroup cfg) zones \<lparr>zn_Name = az_DNSZoneName cfg, zn_ResourceGroup = az_ResourceGroup cfg\<rparr>
      else zones)"

definition normalizeAzure :: "AzureConfig \<Rightarrow> AzureConfig" where
  "normalizeAzure azure =
     (let group = TrimSpace (az_ResourceGroup azure);
          nsgGroup = TrimSpace (az_NetworkSecurityGroupResourceGroup azure);
          a = azure\<lparr>az_SubscriptionID := TrimSpace (az_SubscriptionID azure), az_ResourceGroup := group,
                az_NetworkSecurityGroupResourceGroup := (if nsgGroup = [] then group else nsgGroup),
                az_NetworkSecurityGroupName := TrimSpace (az_NetworkSecurityGroupName azure),
                az_NSGSourceAddressPrefixes := compactStrings (az_NSGSourceAddressPrefixes azure)\<rparr>
      in a\<lparr>az_DNSZones := normalizeDNSZones a\<rparr>)"

definition normalizeSecurityConfig :: "SecurityConfig \<Rightarrow> SecurityConfig" where
  "normalizeSecurityConfig sec =
     sec\<lparr>sc_DeniedMethods := config_normalizeMethods (sc_DeniedMethods sec),
         sc_DeniedPathPrefixes := config_normalizePathPrefixes (sc_DeniedPathPrefixes sec),
         sc_AllowedCIDRs := compactStrings (sc_AllowedCIDRs sec),
         sc_BlockedCIDRs := compactStrings (sc_BlockedCIDRs sec)\<rparr>"

definition normalizeConfig :: "AppConfig \<Rightarrow> AppConfig" where
  "normalizeConfig cfg =
     (let azure = normalizeAzure (ap_Azure cfg); gw = ap_Gateway cfg in
      cfg\<lparr>ap_Azure := azure,
          ap_Gateway := gw\<lparr>gw_Certificate := ApplyAzureCertificateDefaults (gw_Certificate gw) azure,
            gw_InternalSourceRanges := compactStrings (gw_InternalSourceRanges gw)\<rparr>,
          ap_Auth := (ap_Auth cfg)\<lparr>au_AdminTokens := compactStrings (au_AdminTokens (ap_Auth cfg))\<rparr>,
          ap_Security := normalizeSecurityConfig (ap_Security cfg)\<rparr>)"

section \<open>Validation\<close>

definition validateAzure :: "AzureConfig \<Rightarrow> string + unit" where
  "validateAzure azure =
     (if az_NSGPriority azure \<noteq> 0 \<and> (sint (az_NSGPriority azure) < 100 \<or> 4096 < sint (az_NSGPriority azure))
      then Inl ''azure nsgPriority must be between 100 and 4096''
      else if az_Enabled azure \<and> az_ManageDNS azure then
        (if az_DNSZones azure = [] then Inl ''azure dnsZones must contain at least one DNS zone when DNS management is enabled''
         else each_ok (\<lambda>zone. guard_err (zn_Name zone = [] \<or> zn_ResourceGroup zone = [])
                ''each azure dnsZones entry requires name and resourceGroup'') (az_DNSZones azure))
      else Inr ())"

definition validateSecurityConfig :: "SecurityConfig \<Rightarrow> string + unit" where
  "validateSecurityConfig sec =
     (if sc_MaxRequestBodyBytes sec < 0 then Inl ''security.maxRequestBodyBytes must not be negative''
      else bind_res (validateMethods ''security.deniedMethods'' (sc_DeniedMethods sec)) (\<lambda>_.
        bind_res (validatePathPrefixes ''security.deniedPathPrefixes'' (sc_DeniedPathPrefixes sec)) (\<lambda>_.
        bind_res (validateCIDRs ''security.allowedCidrs'' (sc_AllowedCIDRs sec)) (\<lambda>_.
        validateCIDRs ''security.blockedCidrs'' (sc_BlockedCIDRs sec)))))"

definition validateConfig :: "AppConfig \<Rightarrow> string + unit" where
  "validateConfig cfg =
     (let gw = ap_Gateway cfg; pr = au_ProtectedRoutes (ap_Auth cfg) in
      bind_res (ValidateCertificateConfig (gw_Certificate gw)) (\<lambda>_.
      bind_res (validateCaddyAdminEndpoint (gw_CaddyAdminEndpoint gw)) (\<lambda>_.
      if gw_InternalSourceRanges gw = [] then Inl ''gateway.internalSourceRanges must contain at least one IP or CIDR range''
      else bind_res (each_ok (\<lambda>s. guard_err (\<not> source_range s) (''gateway.internalSourceRanges contains invalid IP or CIDR '' @ Quote s))
                       (gw_InternalSourceRanges gw)) (\<lambda>_.
        if (pr_AdditionalHeaderName pr = []) \<noteq> (pr_AdditionalHeaderValue pr = [])
        then Inl ''protected route custom header requires both name and value''
        else bind_res (validateSecurityConfig (ap_Security cfg)) (\<lambda>_. validateAzure (ap_Azure cfg))))))"

text \<open>The pointer argument is updated before the checks, so the normalised configuration is there on an error too.\<close>

definition NormalizeAndValidate :: "AppConfig \<Rightarrow> (string + unit) \<times> AppConfig" where
  "NormalizeAndValidate cfg0 =
     (let cfg = normalizeConfig cfg0 in
      (if ap_Profile cfg \<noteq> ProfileVM then Inl (''unsupported profile '' @ Quote (ap_Profile cfg))
       else if ap_DeploymentMode cfg \<noteq> ModeContainerSocket \<and> ap_DeploymentMode cfg \<noteq> ModeAzureVM
       then Inl (''unsupported deployment mode '' @ Quote (ap_DeploymentMode cfg))
       else if cc_Listen (ap_Control cfg) = [] then Inl ''control.listen is required''
       else if gw_CaddyAdminEndpoint (ap_Gateway cfg) = [] then Inl ''gateway.caddyAdminEndpoint is required''
       else validateConfig cfg, cfg))"

end
