(* ===== verification/ConfigLoad.thy ===== *)
theory ConfigLoad
  imports ConfigModel
begin

text \<open>
  Where the configuration comes from: the defaults, the configuration file, the environment, then the saved
  settings and the saved certificate policy (\<open>backend/internal/config/config.go\<close>, \<open>settings_store.go\<close>,
  \<open>certificate_store.go\<close>). The environment is a map; a variable that is not set is missing.
\<close>

section \<open>Paths\<close>

text \<open>\<open>path.Clean\<close> segment by segment, with the segments kept so far in reverse order.\<close>

fun clean_segments :: "bool \<Rightarrow> string list \<Rightarrow> string list \<Rightarrow> string list" where
  "clean_segments rooted out [] = rev out"
| "clean_segments rooted out (s # rest) =
     (if s = [] \<or> s = ''.'' then clean_segments rooted out rest
      else if s = ''..'' then
        (case out of
           [] \<Rightarrow> clean_segments rooted (if rooted then [] else [s]) rest
         | t # out' \<Rightarrow> clean_segments rooted (if t = ''..'' then s # out else out') rest)
      else clean_segments rooted (s # out) rest)"

definition path_Clean :: "string \<Rightarrow> string" where
  "path_Clean path =
     (if path = [] then ''.''
      else let rooted = HasPrefix path ''/''; body = Join (clean_segments rooted [] (Split path (CHR ''/''))) ''/'' in
        if rooted then ''/'' @ body else if body = [] then ''.'' else body)"

definition path_Join :: "string list \<Rightarrow> string" where
  "path_Join elems =
     (let parts = filter (\<lambda>e. e \<noteq> []) elems in if parts = [] then [] else path_Clean (Join parts ''/''))"

section \<open>The environment\<close>

type_synonym environ = "string \<rightharpoonup> string"

definition Getenv :: "environ \<Rightarrow> string \<Rightarrow> string" where
  "Getenv env key = (case env key of Some v \<Rightarrow> v | None \<Rightarrow> [])"

definition envOr :: "environ \<Rightarrow> string \<Rightarrow> string \<Rightarrow> string" where
  "envOr env key fallback = (if Getenv env key \<noteq> [] then Getenv env key else fallback)"

fun firstEnv :: "environ \<Rightarrow> string list \<Rightarrow> string" where
  "firstEnv env [] = []"
| "firstEnv env (key # keys) = (if Getenv env key \<noteq> [] then Getenv env key else firstEnv env keys)"

definition defaults :: "environ \<Rightarrow> AppConfig" where
  "defaults env =
     \<lparr>ap_Profile = ProfileVM, ap_DeploymentMode = ModeContainerSocket,
      ap_Control = \<lparr>cc_Listen = '':8080'', cc_ManagementHost = []\<rparr>,
      ap_Gateway = \<lparr>gw_HTTPListen = '':80'', gw_HTTPSListen = '':443'', gw_CaddyAdminEndpoint = ''http://127.0.0.1:2019'',
        gw_CaddyBin = ''caddy'', gw_StateDir = ''/data/platform'', gw_CaddyDataDir = ''/data/caddy'',
        gw_CertificateFile = ''/data/platform/certificate.json'',
        gw_InternalSourceRanges = [''10.0.0.0/8'', ''172.16.0.0/12'', ''192.168.0.0/16'', ''127.0.0.0/8'', ''::1/128'',
          ''fc00::/7'', ''fe80::/10''],
        gw_Certificate = \<lparr>ce_Issuer = ''letsencrypt'', ce_Email = [], ce_Staging = False, ce_CADirectory = [],
          ce_Subjects = [], ce_RenewalWindowRatio = Finite 0,
          ce_DNSChallenge = \<lparr>dc_Provider = [], dc_Azure = \<lparr>ac_SubscriptionID = [], ac_ResourceGroup = [],
            ac_Authentication = [], ac_TenantID = [], ac_ClientID = [], ac_ClientSecret = []\<rparr>\<rparr>\<rparr>\<rparr>,
      ap_Docker = \<lparr>dk_Enabled = True, dk_SocketPath = ''/var/run/docker.sock'', dk_Endpoint = []\<rparr>,
      ap_Azure = \<lparr>az_Enabled = False, az_ManageDNS = True, az_ManageNSG = True, az_SubscriptionID = [],
        az_ResourceGroup = [], az_DNSZoneName = [], az_DNSZones = [], az_NetworkSecurityGroupResourceGroup = [],
        az_NetworkSecurityGroupName = [], az_PublicIPAddress = [], az_NSGPriority = 120,
        az_NSGSourceAddressPrefixes = [''*'']\<rparr>,
      ap_Auth = \<lparr>au_Required = True, au_AdminToken = [], au_AdminTokens = [],
        au_ProtectedRoutes = \<lparr>pr_AllowBearerToken = True, pr_AllowAdminTokenHeader = True,
          pr_AdditionalHeaderName = [], pr_AdditionalHeaderValue = []\<rparr>\<rparr>,
      ap_Security = \<lparr>sc_Enabled = True, sc_MaxRequestBodyBytes = 10 * 1024 * 1024, sc_DeniedMethods = [''TRACE'', ''CONNECT''],
        sc_DeniedPathPrefixes = [''/.git'', ''/.env''], sc_AllowedCIDRs = [], sc_BlockedCIDRs = []\<rparr>,
      ap_Health = \<lparr>hc_Enabled = True, hc_TimeoutSeconds = 3, hc_DefaultPath = ''/''\<rparr>,
      ap_Audit = \<lparr>ad_Enabled = True, ad_File = ''/data/platform/audit.jsonl''\<rparr>,
      ap_RoutesFile = envOr env ''GATEWAY_ROUTES_FILE'' ''/data/platform/routes.json'',
      ap_ReconcileIntervalSeconds = 30\<rparr>"

text \<open>
  \<open>applyEnv\<close> is a sequence of tests, each reading one variable and, when it is there, changing one field.
  A test is a pair of the read and of the change; \<open>Set\<close> and \<open>First\<close> ask for a non-empty value, \<open>Found\<close>
  for a variable that is set at all.
\<close>

datatype env_read = Set string | First "string list" | Found string

fun read_env :: "environ \<Rightarrow> env_read \<Rightarrow> string option" where
  "read_env env (Set key) = (if Getenv env key \<noteq> [] then Some (Getenv env key) else None)"
| "read_env env (First keys) = (if firstEnv env keys \<noteq> [] then Some (firstEnv env keys) else None)"
| "read_env env (Found key) = env key"

type_synonym env_step = "env_read \<times> (string \<Rightarrow> AppConfig \<Rightarrow> string + AppConfig)"

definition assign :: "((string \<Rightarrow> string) \<Rightarrow> 'a \<Rightarrow> 'a) \<Rightarrow> (('a \<Rightarrow> 'a) \<Rightarrow> AppConfig \<Rightarrow> AppConfig) \<Rightarrow> string \<Rightarrow> AppConfig \<Rightarrow> string + AppConfig" where
  "assign field part v cfg = Inr (part (field (\<lambda>_. v)) cfg)"

definition assign_with :: "(string \<Rightarrow> 'b) \<Rightarrow> (('b \<Rightarrow> 'b) \<Rightarrow> 'a \<Rightarrow> 'a) \<Rightarrow> (('a \<Rightarrow> 'a) \<Rightarrow> AppConfig \<Rightarrow> AppConfig) \<Rightarrow> string \<Rightarrow> AppConfig \<Rightarrow> string + AppConfig" where
  "assign_with f field part v cfg = Inr (part (field (\<lambda>_. f v)) cfg)"

text \<open>An integer variable that does not parse or is not positive is ignored.\<close>

definition assign_positive :: "(int \<Rightarrow> AppConfig \<Rightarrow> AppConfig) \<Rightarrow> string \<Rightarrow> AppConfig \<Rightarrow> string + AppConfig" where
  "assign_positive f v cfg = Inr (case Atoi v of Some n \<Rightarrow> (if n > 0 then f n cfg else cfg) | None \<Rightarrow> cfg)"

definition in_certificate :: "(CertificateConfig \<Rightarrow> CertificateConfig) \<Rightarrow> AppConfig \<Rightarrow> AppConfig" where
  "in_certificate f = ap_Gateway_update (gw_Certificate_update f)"

definition in_challenge :: "(AzureDNSChallengeConfig \<Rightarrow> AzureDNSChallengeConfig) \<Rightarrow> AppConfig \<Rightarrow> AppConfig" where
  "in_challenge f = in_certificate (ce_DNSChallenge_update (dc_Azure_update f))"

definition in_protected :: "(ProtectedRouteConfig \<Rightarrow> ProtectedRouteConfig) \<Rightarrow> AppConfig \<Rightarrow> AppConfig" where
  "in_protected f = ap_Auth_update (au_ProtectedRoutes_update f)"

text \<open>The two decoders of the standard library.\<close>

record Decoders =
  dec_ParseFloat :: "string \<Rightarrow> string + float64"
  dec_DNSZones :: "string \<Rightarrow> string + AzureDNSZoneConfig list"

definition gateway_steps :: "Decoders \<Rightarrow> env_step list" where
  "gateway_steps d =
     [(Set ''GATEWAY_PROFILE'', \<lambda>v cfg. Inr (cfg\<lparr>ap_Profile := ToLower v\<rparr>)),
      (Set ''GATEWAY_DEPLOYMENT_MODE'', \<lambda>v cfg. Inr (cfg\<lparr>ap_DeploymentMode := ToLower (TrimSpace v)\<rparr>)),
      (Set ''GATEWAY_CONTROL_LISTEN'', assign cc_Listen_update ap_Control_update),
      (Set ''GATEWAY_MANAGEMENT_HOST'', assign cc_ManagementHost_update ap_Control_update),
      (Set ''GATEWAY_HTTP_LISTEN'', assign gw_HTTPListen_update ap_Gateway_update),
      (Set ''GATEWAY_HTTPS_LISTEN'', assign gw_HTTPSListen_update ap_Gateway_update),
      (Set ''GATEWAY_CADDY_ADMIN_ENDPOINT'', assign gw_CaddyAdminEndpoint_update ap_Gateway_update),
      (Set ''GATEWAY_CADDY_BIN'', assign gw_CaddyBin_update ap_Gateway_update),
      (Set ''GATEWAY_STATE_DIR'', assign gw_StateDir_update ap_Gateway_update),
      (Set ''GATEWAY_CADDY_DATA_DIR'', assign gw_CaddyDataDir_update ap_Gateway_update),
      (Set ''GATEWAY_CERTIFICATE_FILE'', assign gw_CertificateFile_update ap_Gateway_update),
      (Set ''GATEWAY_INTERNAL_SOURCE_RANGES'', assign_with splitCSV gw_InternalSourceRanges_update ap_Gateway_update),
      (Set ''GATEWAY_CERTIFICATE_ISSUER'', assign_with (ToLower \<circ> TrimSpace) ce_Issuer_update in_certificate),
      (Set ''GATEWAY_CERTIFICATE_EMAIL'', assign ce_Email_update in_certificate),
      (Set ''GATEWAY_CERTIFICATE_STAGING'', assign_with parseBool ce_Staging_update in_certificate),
      (Set ''GATEWAY_CERTIFICATE_CA_DIRECTORY'', assign ce_CADirectory_update in_certificate),
      (Set ''GATEWAY_CERTIFICATE_SUBJECTS'', assign_with splitCSV ce_Subjects_update in_certificate),
      (Set ''GATEWAY_CERTIFICATE_RENEWAL_WINDOW_RATIO'', \<lambda>v cfg.
         case dec_ParseFloat d (TrimSpace v) of
           Inl e \<Rightarrow> Inl (''parse GATEWAY_CERTIFICATE_RENEWAL_WINDOW_RATIO: '' @ e)
         | Inr ratio \<Rightarrow> Inr (in_certificate (ce_RenewalWindowRatio_update (\<lambda>_. ratio)) cfg)),
      (Set ''GATEWAY_CERTIFICATE_DNS_PROVIDER'', assign dc_Provider_update (\<lambda>f. in_certificate (ce_DNSChallenge_update f))),
      (Set ''GATEWAY_CERTIFICATE_AZURE_SUBSCRIPTION_ID'', assign ac_SubscriptionID_update in_challenge),
      (Set ''GATEWAY_CERTIFICATE_AZURE_RESOURCE_GROUP'', assign ac_ResourceGroup_update in_challenge),
      (Set ''GATEWAY_CERTIFICATE_AZURE_AUTHENTICATION'', assign ac_Authentication_update in_challenge),
      (Set ''GATEWAY_CERTIFICATE_AZURE_TENANT_ID'', assign ac_TenantID_update in_challenge),
      (Set ''GATEWAY_CERTIFICATE_AZURE_CLIENT_ID'', assign ac_ClientID_update in_challenge),
      (Set ''GATEWAY_CERTIFICATE_AZURE_CLIENT_SECRET'', assign ac_ClientSecret_update in_challenge),
      (Set ''GATEWAY_ROUTES_FILE'', \<lambda>v cfg. Inr (cfg\<lparr>ap_RoutesFile := v\<rparr>)),
      (Set ''GATEWAY_DOCKER_SOCKET'', assign dk_SocketPath_update ap_Docker_update),
      (Set ''GATEWAY_DOCKER_ENDPOINT'', assign_with (\<lambda>v. TrimRight v ''/'') dk_Endpoint_update ap_Docker_update),
      (Set ''GATEWAY_DOCKER_ENABLED'', assign_with parseBool dk_Enabled_update ap_Docker_update),
      (Set ''GATEWAY_ADMIN_TOKEN'', assign au_AdminToken_update ap_Auth_update),
      (Set ''GATEWAY_ADMIN_TOKENS'', assign_with splitCSV au_AdminTokens_update ap_Auth_update),
      (Set ''GATEWAY_PROTECTED_ALLOW_BEARER'', assign_with parseBool pr_AllowBearerToken_update in_protected),
      (Set ''GATEWAY_PROTECTED_ALLOW_ADMIN_HEADER'', assign_with parseBool pr_AllowAdminTokenHeader_update in_protected),
      (Set ''GATEWAY_PROTECTED_HEADER_NAME'', assign pr_AdditionalHeaderName_update in_protected),
      (Set ''GATEWAY_PROTECTED_HEADER_VALUE'', assign pr_AdditionalHeaderValue_update in_protected)]"

text \<open>\<open>int32(priority)\<close> keeps the low 32 bits.\<close>

definition azure_steps :: "Decoders \<Rightarrow> env_step list" where
  "azure_steps d =
     [(Set ''GATEWAY_AZURE_ENABLED'', assign_with parseBool az_Enabled_update ap_Azure_update),
      (Set ''GATEWAY_AZURE_MANAGE_DNS'', assign_with parseBool az_ManageDNS_update ap_Azure_update),
      (Set ''GATEWAY_AZURE_MANAGE_NSG'', assign_with parseBool az_ManageNSG_update ap_Azure_update),
      (First [''GATEWAY_AZURE_SUBSCRIPTION_ID'', ''AZURE_SUBSCRIPTION_ID''], assign az_SubscriptionID_update ap_Azure_update),
      (Set ''GATEWAY_AZURE_RESOURCE_GROUP'', assign az_ResourceGroup_update ap_Azure_update),
      (Set ''GATEWAY_AZURE_DNS_ZONE'', assign az_DNSZoneName_update ap_Azure_update),
      (Set ''GATEWAY_AZURE_DNS_ZONES'', \<lambda>v cfg.
         case dec_DNSZones d v of
           Inl e \<Rightarrow> Inl (''parse GATEWAY_AZURE_DNS_ZONES: '' @ e)
         | Inr zones \<Rightarrow> Inr (ap_Azure_update (az_DNSZones_update (\<lambda>_. zones)) cfg)),
      (Set ''GATEWAY_AZURE_NSG_RESOURCE_GROUP'', assign az_NetworkSecurityGroupResourceGroup_update ap_Azure_update),
      (Set ''GATEWAY_AZURE_NSG_NAME'', assign az_NetworkSecurityGroupName_update ap_Azure_update),
      (Set ''GATEWAY_PUBLIC_IP_ADDRESS'', assign az_PublicIPAddress_update ap_Azure_update),
      (Set ''GATEWAY_AZURE_NSG_PRIORITY'', assign_positive (\<lambda>n. ap_Azure_update (az_NSGPriority_update (\<lambda>_. word_of_int n)))),
      (Set ''GATEWAY_AZURE_NSG_SOURCE_PREFIXES'', assign_with splitCSV az_NSGSourceAddressPrefixes_update ap_Azure_update)]"

definition other_steps :: "env_step list" where
  "other_steps =
     [(Set ''GATEWAY_AUTH_REQUIRED'', assign_with parseBool au_Required_update ap_Auth_update),
      (Set ''GATEWAY_SECURITY_ENABLED'', assign_with parseBool sc_Enabled_update ap_Security_update),
      (Set ''GATEWAY_SECURITY_MAX_REQUEST_BODY_BYTES'', \<lambda>v cfg.
         case Atoi (TrimSpace v) of
           Some n \<Rightarrow> (if n < 0 then Inl ''GATEWAY_SECURITY_MAX_REQUEST_BODY_BYTES must be a non-negative integer''
                      else Inr (ap_Security_update (sc_MaxRequestBodyBytes_update (\<lambda>_. n)) cfg))
         | None \<Rightarrow> Inl ''GATEWAY_SECURITY_MAX_REQUEST_BODY_BYTES must be a non-negative integer''),
      (Found ''GATEWAY_SECURITY_DENIED_METHODS'', assign_with splitCSV sc_DeniedMethods_update ap_Security_update),
      (Found ''GATEWAY_SECURITY_DENIED_PATH_PREFIXES'', assign_with splitCSV sc_DeniedPathPrefixes_update ap_Security_update),
      (Found ''GATEWAY_SECURITY_ALLOWED_CIDRS'', assign_with splitCSV sc_AllowedCIDRs_update ap_Security_update),
      (Found ''GATEWAY_SECURITY_BLOCKED_CIDRS'', assign_with splitCSV sc_BlockedCIDRs_update ap_Security_update),
      (Set ''GATEWAY_HEALTH_ENABLED'', assign_with parseBool hc_Enabled_update ap_Health_update),
      (Set ''GATEWAY_HEALTH_TIMEOUT_SECONDS'', assign_positive (\<lambda>n. ap_Health_update (hc_TimeoutSeconds_update (\<lambda>_. n)))),
      (Set ''GATEWAY_HEALTH_DEFAULT_PATH'', assign hc_DefaultPath_update ap_Health_update),
      (Set ''GATEWAY_AUDIT_ENABLED'', assign_with parseBool ad_Enabled_update ap_Audit_update),
      (Set ''GATEWAY_AUDIT_FILE'', assign ad_File_update ap_Audit_update),
      (Set ''GATEWAY_RECONCILE_SECONDS'', assign_positive (\<lambda>n. ap_ReconcileIntervalSeconds_update (\<lambda>_. n)))]"

fun run_steps :: "environ \<Rightarrow> env_step list \<Rightarrow> AppConfig \<Rightarrow> string + AppConfig" where
  "run_steps env [] cfg = Inr cfg"
| "run_steps env ((r, f) # steps) cfg =
     (case read_env env r of
        None \<Rightarrow> run_steps env steps cfg
      | Some v \<Rightarrow> bind_res (f v cfg) (run_steps env steps))"

definition applyEnv :: "Decoders \<Rightarrow> environ \<Rightarrow> AppConfig \<Rightarrow> string + AppConfig" where
  "applyEnv d env cfg = run_steps env (gateway_steps d @ azure_steps d @ other_steps) cfg"

section \<open>Saved settings\<close>

record SettingsAuth =
  sa_Required :: bool
  sa_AdminToken :: string
  sa_AdminTokens :: "string list"
  sa_AllowBearerToken :: bool
  sa_AllowAdminTokenHeader :: bool
  sa_AdditionalHeaderName :: string
  sa_AdditionalHeaderValue :: string

text \<open>\<open>DockerEnabled\<close> is a pointer: \<open>None\<close> is nil.\<close>

record Settings =
  se_DeploymentMode :: DeploymentMode
  se_DockerEnabled :: "bool option"
  se_Azure :: AzureConfig
  se_Security :: SecurityConfig
  se_InternalSourceRanges :: "string list"
  se_Auth :: SettingsAuth

definition settingsFileName :: string where
  "settingsFileName = ''settings.json''"

definition SettingsPath :: "AppConfig \<Rightarrow> string" where
  "SettingsPath cfg =
     (if gw_StateDir (ap_Gateway cfg) = [] then [] else path_Join [gw_StateDir (ap_Gateway cfg), settingsFileName])"

definition SettingsFromConfig :: "AppConfig \<Rightarrow> Settings" where
  "SettingsFromConfig cfg =
     (let auth = ap_Auth cfg; pr = au_ProtectedRoutes auth in
      \<lparr>se_DeploymentMode = ap_DeploymentMode cfg, se_DockerEnabled = Some (dk_Enabled (ap_Docker cfg)),
       se_Azure = ap_Azure cfg, se_Security = ap_Security cfg,
       se_InternalSourceRanges = gw_InternalSourceRanges (ap_Gateway cfg),
       se_Auth = \<lparr>sa_Required = au_Required auth, sa_AdminToken = au_AdminToken auth, sa_AdminTokens = au_AdminTokens auth,
         sa_AllowBearerToken = pr_AllowBearerToken pr, sa_AllowAdminTokenHeader = pr_AllowAdminTokenHeader pr,
         sa_AdditionalHeaderName = pr_AdditionalHeaderName pr, sa_AdditionalHeaderValue = pr_AdditionalHeaderValue pr\<rparr>\<rparr>)"

definition ApplySettings :: "Settings \<Rightarrow> AppConfig \<Rightarrow> AppConfig" where
  "ApplySettings settings cfg =
     (let auth = se_Auth settings in
      cfg\<lparr>ap_DeploymentMode := se_DeploymentMode settings,
          ap_Docker := (case se_DockerEnabled settings of
             Some b \<Rightarrow> (ap_Docker cfg)\<lparr>dk_Enabled := b\<rparr> | None \<Rightarrow> ap_Docker cfg),
          ap_Azure := se_Azure settings, ap_Security := se_Security settings,
          ap_Gateway := (ap_Gateway cfg)\<lparr>gw_InternalSourceRanges := se_InternalSourceRanges settings\<rparr>,
          ap_Auth := \<lparr>au_Required = sa_Required auth, au_AdminToken = sa_AdminToken auth, au_AdminTokens = sa_AdminTokens auth,
            au_ProtectedRoutes = \<lparr>pr_AllowBearerToken = sa_AllowBearerToken auth,
              pr_AllowAdminTokenHeader = sa_AllowAdminTokenHeader auth,
              pr_AdditionalHeaderName = sa_AdditionalHeaderName auth,
              pr_AdditionalHeaderValue = sa_AdditionalHeaderValue auth\<rparr>\<rparr>\<rparr>)"

text \<open>
  A file of decoded values: missing, unreadable, not parsable, or holding a value. A store is its path; the
  empty path, which a nil store shares, is a store without a file.
\<close>

datatype 'v json_file = Absent | Unreadable string | Unparsable string | Saved 'v

definition load_json :: "string \<Rightarrow> string \<Rightarrow> (string \<Rightarrow> 'v json_file) \<Rightarrow> string + 'v option" where
  "load_json what path disk =
     (if path = [] then Inr None
      else case disk path of
        Absent \<Rightarrow> Inr None
      | Unreadable e \<Rightarrow> Inl (''read '' @ what @ '': '' @ e)
      | Unparsable e \<Rightarrow> Inl (''parse '' @ what @ '': '' @ e)
      | Saved v \<Rightarrow> Inr (Some v))"

definition SettingsStore_Load :: "string \<Rightarrow> (string \<Rightarrow> Settings json_file) \<Rightarrow> string + Settings option" where
  "SettingsStore_Load = load_json ''settings''"

definition CertificateStore_Load :: "string \<Rightarrow> (string \<Rightarrow> CertificateConfig json_file) \<Rightarrow> string + CertificateConfig option" where
  "CertificateStore_Load = load_json ''certificate config''"

text \<open>The write is atomic: it leaves the old file on an error. \<open>failed\<close> is the outcome of the write.\<close>

definition SettingsStore_Save :: "string \<Rightarrow> Settings \<Rightarrow> string option \<Rightarrow> (string \<Rightarrow> Settings json_file) \<Rightarrow>
    (string + unit) \<times> (string \<Rightarrow> Settings json_file)" where
  "SettingsStore_Save path settings failed disk =
     (if path = [] then (Inl ''settings file is not configured'', disk)
      else case failed of
        Some e \<Rightarrow> (Inl (''save settings: '' @ e), disk)
      | None \<Rightarrow> (Inr (), disk(path := Saved settings)))"

definition CertificateStore_Save :: "string \<Rightarrow> CertificateConfig \<Rightarrow> string option \<Rightarrow> (string \<Rightarrow> CertificateConfig json_file) \<Rightarrow>
    (string + unit) \<times> (string \<Rightarrow> CertificateConfig json_file)" where
  "CertificateStore_Save path certificate failed disk =
     (if path = [] then (Inl ''certificate config file is not configured'', disk)
      else case failed of
        Some e \<Rightarrow> (Inl (''save certificate config: '' @ e), disk)
      | None \<Rightarrow> (Inr (), disk(path := Saved certificate)))"

section \<open>Loading\<close>

text \<open>
  What \<open>Load\<close> reads. \<open>cf_merge\<close> is \<open>mergeFile\<close> on the decoder: the defaults with the fields of the file, or
  the error.
\<close>

record ConfigSources =
  cf_decoders :: Decoders
  cf_merge :: "string \<Rightarrow> AppConfig \<Rightarrow> string + AppConfig"
  cf_settings :: "string \<Rightarrow> Settings json_file"
  cf_certificates :: "string \<Rightarrow> CertificateConfig json_file"

definition loadSaved :: "ConfigSources \<Rightarrow> AppConfig \<Rightarrow> string + AppConfig" where
  "loadSaved src cfg =
     bind_res (SettingsStore_Load (SettingsPath cfg) (cf_settings src)) (\<lambda>settings.
     let cfg1 = (case settings of Some s \<Rightarrow> ApplySettings s cfg | None \<Rightarrow> cfg) in
     bind_res (CertificateStore_Load (gw_CertificateFile (ap_Gateway cfg1)) (cf_certificates src)) (\<lambda>certificate.
     Inr (case certificate of Some c \<Rightarrow> ap_Gateway_update (gw_Certificate_update (\<lambda>_. c)) cfg1 | None \<Rightarrow> cfg1)))"

definition Load_config :: "ConfigSources \<Rightarrow> environ \<Rightarrow> string + AppConfig" where
  "Load_config src env =
     (let cfg0 = defaults env; path = Getenv env ''GATEWAY_CONFIG_FILE'' in
      bind_res (if path \<noteq> [] then cf_merge src path cfg0 else Inr cfg0) (\<lambda>cfg1.
      bind_res (applyEnv (cf_decoders src) env cfg1) (\<lambda>cfg2.
      bind_res (loadSaved src cfg2) (\<lambda>cfg3.
      case NormalizeAndValidate cfg3 of (Inl e, cfg) \<Rightarrow> Inl e | (Inr _, cfg) \<Rightarrow> Inr cfg))))"

end
