(* ===== verification/ConfigFacts.thy ===== *)
theory ConfigFacts
  imports ConfigLoad
begin

text \<open>
  What normalisation does when it is repeated, what an accepted configuration satisfies, and what a restart
  reads back.
\<close>

section \<open>Lists of strings\<close>

lemma compactStrings_idem [norm_idem]: "compactStrings (compactStrings xs) = compactStrings xs"
proof -
  have "map TrimSpace (compactStrings xs) = compactStrings xs"
    by (auto simp: compactStrings_def intro!: map_idI)
  then show ?thesis by (simp add: compactStrings_def)
qed

lemma compactStrings_trimmed: "x \<in> set (compactStrings xs) \<Longrightarrow> TrimSpace x = x \<and> x \<noteq> []"
  by (auto simp: compactStrings_def)

lemma compactStrings_id: "\<forall>x \<in> set xs. TrimSpace x = x \<and> x \<noteq> [] \<Longrightarrow> compactStrings xs = xs"
  by (induction xs) (simp_all add: compactStrings_def)

lemma keep_first_distinct: "distinct xs \<Longrightarrow> keep_first {} xs = xs"
  by (simp add: keep_first_id)

lemma config_normalizeMethods_props:
  assumes "x \<in> set (config_normalizeMethods xs)"
  shows "TrimSpace x = x \<and> x \<noteq> [] \<and> ToUpper x = x"
proof -
  obtain y where "y \<in> set (compactStrings xs)" "x = ToUpper y"
    using assms by (auto simp: config_normalizeMethods_def config_uniqueStrings_def)
  then show ?thesis using compactStrings_trimmed [of y xs] by (simp add: TrimSpace_ToUpper)
qed

lemma config_normalizeMethods_idem [norm_idem]: "config_normalizeMethods (config_normalizeMethods xs) = config_normalizeMethods xs"
proof -
  let ?ys = "config_normalizeMethods xs"
  have "compactStrings ?ys = ?ys" using config_normalizeMethods_props by (intro compactStrings_id) blast
  moreover have "map ToUpper ?ys = ?ys" using config_normalizeMethods_props by (intro map_idI) blast
  moreover have "distinct ?ys" by (simp add: config_normalizeMethods_def config_uniqueStrings_def)
  ultimately show ?thesis by (simp add: config_normalizeMethods_def config_uniqueStrings_def keep_first_distinct)
qed

lemma config_normalizePathPrefixes_idem:
  assumes "\<forall>p \<in> set (config_normalizePathPrefixes xs). TrimSpace p = p \<and> p \<noteq> []"
  shows "config_normalizePathPrefixes (config_normalizePathPrefixes xs) = config_normalizePathPrefixes xs"
proof -
  let ?ys = "config_normalizePathPrefixes xs"
  have "compactStrings ?ys = ?ys" using assms by (intro compactStrings_id) blast
  moreover have "map (\<lambda>p. if p \<noteq> ''/'' then TrimRight p ''/'' else p) ?ys = ?ys"
    by (rule map_idI) (auto simp: config_normalizePathPrefixes_def config_uniqueStrings_def)
  moreover have "distinct ?ys" by (simp add: config_normalizePathPrefixes_def config_uniqueStrings_def)
  ultimately show ?thesis
    by (simp add: config_normalizePathPrefixes_def config_uniqueStrings_def keep_first_distinct)
qed

section \<open>Certificates\<close>

lemma defaultIssuer_simps [simp]:
  "ce_Email (defaultIssuer c) = ce_Email c" "ce_CADirectory (defaultIssuer c) = ce_CADirectory c"
  "ce_Subjects (defaultIssuer c) = ce_Subjects c" "ce_DNSChallenge (defaultIssuer c) = ce_DNSChallenge c"
  "ce_RenewalWindowRatio (defaultIssuer c) = ce_RenewalWindowRatio c" "ce_Staging (defaultIssuer c) = ce_Staging c"
  by (simp_all add: defaultIssuer_def)

lemma defaultIssuer_issuer: "ce_Issuer (defaultIssuer c) = (if ce_Issuer c = [] \<or> ce_Issuer c = ''default'' then ''letsencrypt'' else ce_Issuer c)"
  by (simp add: defaultIssuer_def)

text \<open>A field that is trimmed, or trimmed and in lower case.\<close>

definition trimmed_challenge :: "DNSChallengeConfig \<Rightarrow> bool" where
  "trimmed_challenge dns \<longleftrightarrow> trimChallenge dns = dns"

lemma lower_letters: "ToLower ''managedidentity'' = ''managedidentity''" "TrimSpace ''managedidentity'' = ''managedidentity''"
  "ToLower ''azure'' = ''azure''" "TrimSpace ''azure'' = ''azure''"
  "ToLower ''letsencrypt'' = ''letsencrypt''" "TrimSpace ''letsencrypt'' = ''letsencrypt''"
  by code_simp+

lemma ToLower_TrimSpace_idem: "ToLower (TrimSpace (ToLower (TrimSpace s))) = ToLower (TrimSpace s)"
  by (simp add: TrimSpace_ToLower)

lemma trim_default_challenge: "trimmed_challenge (defaultChallenge (trimChallenge dns))"
  by (cases dns rule: DNSChallengeConfig.cases)
    (simp add: trimmed_challenge_def defaultChallenge_def trimChallenge_def Let_def ToLower_TrimSpace_idem lower_letters del: ToLower_simps)

lemma defaultChallenge_idem: "defaultChallenge (defaultChallenge dns) = defaultChallenge dns"
  by (simp add: defaultChallenge_def Let_def)

lemma normalizeCertificateSubjects_idem:
  assumes "\<forall>s \<in> set (normalizeCertificateSubjects xs). canon_name s = s"
  shows "normalizeCertificateSubjects (normalizeCertificateSubjects xs) = normalizeCertificateSubjects xs"
proof -
  let ?ys = "normalizeCertificateSubjects xs"
  have "map canon_name ?ys = ?ys" using assms by (intro map_idI) blast
  moreover have "filter (\<lambda>s. s \<noteq> []) ?ys = ?ys" by (auto simp: normalizeCertificateSubjects_def)
  moreover have "distinct ?ys" by (simp add: normalizeCertificateSubjects_def)
  ultimately show ?thesis by (simp add: normalizeCertificateSubjects_def keep_first_distinct)
qed

text \<open>A certificate configuration that normalisation leaves alone.\<close>

lemma NormalizeCertificateConfig_fields:
  "ce_Subjects (NormalizeCertificateConfig c) = normalizeCertificateSubjects (ce_Subjects c)"
  "ce_RenewalWindowRatio (NormalizeCertificateConfig c) = ce_RenewalWindowRatio c"
  "ce_Email (NormalizeCertificateConfig c) = TrimSpace (ce_Email c)"
  "ce_CADirectory (NormalizeCertificateConfig c) = TrimSpace (ce_CADirectory c)"
  "ce_Staging (NormalizeCertificateConfig c) = ce_Staging c"
  "ce_DNSChallenge (NormalizeCertificateConfig c) = defaultChallenge (trimChallenge (ce_DNSChallenge c))"
  "ce_Issuer (NormalizeCertificateConfig c) =
     (if ToLower (TrimSpace (ce_Issuer c)) = [] \<or> ToLower (TrimSpace (ce_Issuer c)) = ''default'' then ''letsencrypt''
      else ToLower (TrimSpace (ce_Issuer c)))"
  by (simp_all add: NormalizeCertificateConfig_def defaultIssuer_issuer)

lemma CertificateConfig_eqI:
  "ce_Issuer (a :: CertificateConfig) = ce_Issuer b \<Longrightarrow> ce_Email a = ce_Email b \<Longrightarrow> ce_Staging a = ce_Staging b \<Longrightarrow>
   ce_CADirectory a = ce_CADirectory b \<Longrightarrow> ce_Subjects a = ce_Subjects b \<Longrightarrow>
   ce_RenewalWindowRatio a = ce_RenewalWindowRatio b \<Longrightarrow> ce_DNSChallenge a = ce_DNSChallenge b \<Longrightarrow> a = b"
  by (cases a rule: CertificateConfig.cases, cases b rule: CertificateConfig.cases) simp

lemma NormalizeCertificateConfig_id:
  assumes "normalizeCertificateSubjects (ce_Subjects c) = ce_Subjects c"
    and "trimmed_challenge (ce_DNSChallenge c)" "defaultChallenge (ce_DNSChallenge c) = ce_DNSChallenge c"
    and "ToLower (TrimSpace (ce_Issuer c)) = ce_Issuer c" "ce_Issuer c \<noteq> []" "ce_Issuer c \<noteq> ''default''"
    and "TrimSpace (ce_Email c) = ce_Email c" "TrimSpace (ce_CADirectory c) = ce_CADirectory c"
  shows "NormalizeCertificateConfig c = c"
  using assms by (intro CertificateConfig_eqI) (simp_all add: NormalizeCertificateConfig_fields trimmed_challenge_def)

section \<open>Azure\<close>

lemma canon_name_Nil [simp]: "canon_name [] = []"
  by code_simp

lemma appendConfigZone_props:
  "distinct (map zn_Name zs) \<Longrightarrow> distinct (map zn_Name (appendConfigZone g zs z))"
  "\<forall>z \<in> set zs. zn_Name z \<noteq> [] \<and> TrimSpace (zn_ResourceGroup z) = zn_ResourceGroup z \<and> (zn_ResourceGroup z = [] \<longrightarrow> TrimSpace g = []) \<Longrightarrow>
   \<forall>z \<in> set (appendConfigZone g zs z'). zn_Name z \<noteq> [] \<and> TrimSpace (zn_ResourceGroup z) = zn_ResourceGroup z \<and>
     (zn_ResourceGroup z = [] \<longrightarrow> TrimSpace g = [])"
  "canon_name (zn_Name z) = [] \<or> canon_name (zn_Name z) \<in> zn_Name ` set (appendConfigZone g zs z)"
  by (auto simp: appendConfigZone_def Let_def)

definition zones_normal :: "string \<Rightarrow> AzureDNSZoneConfig list \<Rightarrow> bool" where
  "zones_normal g zs \<longleftrightarrow> distinct (map zn_Name zs) \<and>
     (\<forall>z \<in> set zs. zn_Name z \<noteq> [] \<and> TrimSpace (zn_ResourceGroup z) = zn_ResourceGroup z \<and>
        (zn_ResourceGroup z = [] \<longrightarrow> TrimSpace g = []))"

lemma zones_normal_append: "zones_normal g zs \<Longrightarrow> zones_normal g (appendConfigZone g zs z)"
  using appendConfigZone_props(1,2) unfolding zones_normal_def by blast

lemma zones_normal_foldl: "zones_normal g zs \<Longrightarrow> zones_normal g (foldl (appendConfigZone g) zs ys)"
  by (induction ys arbitrary: zs) (auto simp: zones_normal_append)

lemma zones_normal_normalize: "zones_normal (az_ResourceGroup cfg) (normalizeDNSZones cfg)"
proof -
  have "zones_normal g []" for g by (simp add: zones_normal_def)
  then show ?thesis by (simp add: normalizeDNSZones_def Let_def zones_normal_append zones_normal_foldl)
qed

lemma appendConfigZone_new:
  assumes "canon_name (zn_Name z) = zn_Name z" "zn_Name z \<noteq> []" "TrimSpace (zn_ResourceGroup z) = zn_ResourceGroup z"
    and "zn_ResourceGroup z = [] \<longrightarrow> TrimSpace g = []" "zn_Name z \<notin> zn_Name ` set zs"
  shows "appendConfigZone g zs z = zs @ [z]"
  using assms by (cases z rule: AzureDNSZoneConfig.cases) (auto simp: appendConfigZone_def Let_def)

lemma foldl_zones_id:
  "\<forall>z \<in> set ys. canon_name (zn_Name z) = zn_Name z \<Longrightarrow> zones_normal g (zs @ ys) \<Longrightarrow> foldl (appendConfigZone g) zs ys = zs @ ys"
proof (induction ys arbitrary: zs)
  case (Cons y ys)
  have "appendConfigZone g zs y = zs @ [y]"
    using Cons.prems by (intro appendConfigZone_new) (auto simp: zones_normal_def)
  then show ?case using Cons.IH [of "zs @ [y]"] Cons.prems by simp
qed simp

text \<open>The zone of the single name field is there after the first normalisation.\<close>

lemma normalizeDNSZones_idem:
  assumes "\<forall>z \<in> set (normalizeDNSZones cfg). canon_name (zn_Name z) = zn_Name z" "az_ResourceGroup cfg' = az_ResourceGroup cfg"
    and "az_DNSZones cfg' = normalizeDNSZones cfg" "az_DNSZoneName cfg' = az_DNSZoneName cfg"
  shows "normalizeDNSZones cfg' = normalizeDNSZones cfg"
proof -
  let ?zs = "normalizeDNSZones cfg" and ?g = "az_ResourceGroup cfg"
  have "foldl (appendConfigZone ?g) [] ?zs = ?zs"
    using foldl_zones_id [of ?zs ?g "[]"] assms(1) zones_normal_normalize by simp
  moreover have "appendConfigZone ?g ?zs \<lparr>zn_Name = az_DNSZoneName cfg, zn_ResourceGroup = ?g\<rparr> = ?zs" if "az_DNSZoneName cfg \<noteq> []"
  proof -
    have "canon_name (az_DNSZoneName cfg) = [] \<or> canon_name (az_DNSZoneName cfg) \<in> zn_Name ` set ?zs"
      using that appendConfigZone_props(3) [of "\<lparr>zn_Name = az_DNSZoneName cfg, zn_ResourceGroup = ?g\<rparr>"]
      by (simp add: normalizeDNSZones_def Let_def)
    then show ?thesis by (auto simp: appendConfigZone_def Let_def)
  qed
  ultimately show ?thesis using assms(2-4) by (simp add: normalizeDNSZones_def [of cfg'] Let_def)
qed


lemma bestZone_trimmed: "TrimSpace (snd b) = snd b \<Longrightarrow> TrimSpace (snd (bestZone subjects zones b)) = snd (bestZone subjects zones b)"
  by (induction zones arbitrary: b) (auto simp: Let_def)

lemma certificateAzureDNSResourceGroup_trimmed:
  "TrimSpace (certificateAzureDNSResourceGroup subjects azure) = certificateAzureDNSResourceGroup subjects azure"
  using bestZone_trimmed [of "(- 1, [])"] by (simp add: certificateAzureDNSResourceGroup_def Let_def split: list.split)

lemma trimmed_challenge_iff:
  "trimmed_challenge dns \<longleftrightarrow> ToLower (TrimSpace (dc_Provider dns)) = dc_Provider dns \<and>
     TrimSpace (ac_SubscriptionID (dc_Azure dns)) = ac_SubscriptionID (dc_Azure dns) \<and>
     TrimSpace (ac_ResourceGroup (dc_Azure dns)) = ac_ResourceGroup (dc_Azure dns) \<and>
     ToLower (TrimSpace (ac_Authentication (dc_Azure dns))) = ac_Authentication (dc_Azure dns) \<and>
     TrimSpace (ac_TenantID (dc_Azure dns)) = ac_TenantID (dc_Azure dns) \<and>
     TrimSpace (ac_ClientID (dc_Azure dns)) = ac_ClientID (dc_Azure dns) \<and>
     TrimSpace (ac_ClientSecret (dc_Azure dns)) = ac_ClientSecret (dc_Azure dns)"
  by (cases dns rule: DNSChallengeConfig.cases, cases "dc_Azure dns" rule: AzureDNSChallengeConfig.cases)
    (simp add: trimmed_challenge_def trimChallenge_def)

text \<open>What the certificate defaults add to the normalised certificate.\<close>

lemma defaults_fields:
  fixes c :: CertificateConfig and azure :: AzureConfig
  defines "n \<equiv> NormalizeCertificateConfig c" and "d \<equiv> ApplyAzureCertificateDefaults c azure"
  shows "ce_Issuer d = ce_Issuer n" "ce_Email d = ce_Email n" "ce_Staging d = ce_Staging n" "ce_CADirectory d = ce_CADirectory n"
    "ce_Subjects d = ce_Subjects n" "ce_RenewalWindowRatio d = ce_RenewalWindowRatio n"
    "dc_Provider (ce_DNSChallenge d) = dc_Provider (ce_DNSChallenge n)"
    "ac_Authentication (dc_Azure (ce_DNSChallenge d)) = ac_Authentication (dc_Azure (ce_DNSChallenge n))"
    "ac_TenantID (dc_Azure (ce_DNSChallenge d)) = ac_TenantID (dc_Azure (ce_DNSChallenge n))"
    "ac_ClientID (dc_Azure (ce_DNSChallenge d)) = ac_ClientID (dc_Azure (ce_DNSChallenge n))"
    "ac_ClientSecret (dc_Azure (ce_DNSChallenge d)) = ac_ClientSecret (dc_Azure (ce_DNSChallenge n))"
    "ac_SubscriptionID (dc_Azure (ce_DNSChallenge d)) =
       (if dc_Provider (ce_DNSChallenge n) = ''azure'' \<and> ac_SubscriptionID (dc_Azure (ce_DNSChallenge n)) = []
        then TrimSpace (az_SubscriptionID azure) else ac_SubscriptionID (dc_Azure (ce_DNSChallenge n)))"
    "ac_ResourceGroup (dc_Azure (ce_DNSChallenge d)) =
       (if dc_Provider (ce_DNSChallenge n) = ''azure'' \<and> ac_ResourceGroup (dc_Azure (ce_DNSChallenge n)) = []
        then certificateAzureDNSResourceGroup (ce_Subjects n) azure else ac_ResourceGroup (dc_Azure (ce_DNSChallenge n)))"
  by (simp_all add: n_def d_def ApplyAzureCertificateDefaults_def Let_def)

lemma DNSChallengeConfig_eqI:
  "dc_Provider (a :: DNSChallengeConfig) = dc_Provider b \<Longrightarrow> dc_Azure a = dc_Azure b \<Longrightarrow> a = b"
  by (cases a rule: DNSChallengeConfig.cases, cases b rule: DNSChallengeConfig.cases) simp

lemma AzureDNSChallengeConfig_eqI:
  "ac_SubscriptionID (a :: AzureDNSChallengeConfig) = ac_SubscriptionID b \<Longrightarrow> ac_ResourceGroup a = ac_ResourceGroup b \<Longrightarrow>
   ac_Authentication a = ac_Authentication b \<Longrightarrow> ac_TenantID a = ac_TenantID b \<Longrightarrow> ac_ClientID a = ac_ClientID b \<Longrightarrow>
   ac_ClientSecret a = ac_ClientSecret b \<Longrightarrow> a = b"
  by (cases a rule: AzureDNSChallengeConfig.cases, cases b rule: AzureDNSChallengeConfig.cases) simp

text \<open>A managed identity has no secrets, and the default authentication is filled in.\<close>

definition settled_challenge :: "DNSChallengeConfig \<Rightarrow> bool" where
  "settled_challenge dns \<longleftrightarrow>
     (dc_Provider dns = ''azure'' \<longrightarrow> ac_Authentication (dc_Azure dns) \<noteq> []) \<and>
     (ac_Authentication (dc_Azure dns) = ''managedidentity'' \<longrightarrow>
        ac_TenantID (dc_Azure dns) = [] \<and> ac_ClientID (dc_Azure dns) = [] \<and> ac_ClientSecret (dc_Azure dns) = [])"

lemma settled_default: "settled_challenge (defaultChallenge dns)"
  by (simp add: settled_challenge_def defaultChallenge_def Let_def)

lemma settled_id: "settled_challenge dns \<Longrightarrow> defaultChallenge dns = dns"
  by (intro DNSChallengeConfig_eqI AzureDNSChallengeConfig_eqI) (auto simp: settled_challenge_def defaultChallenge_def Let_def)

lemma ApplyAzureCertificateDefaults_normal:
  assumes "\<forall>s \<in> set (ce_Subjects (ApplyAzureCertificateDefaults c azure)). canon_name s = s"
  shows "NormalizeCertificateConfig (ApplyAzureCertificateDefaults c azure) = ApplyAzureCertificateDefaults c azure"
proof (rule NormalizeCertificateConfig_id)
  let ?d = "ApplyAzureCertificateDefaults c azure" and ?n = "NormalizeCertificateConfig c"
  show "normalizeCertificateSubjects (ce_Subjects ?d) = ce_Subjects ?d"
    using assms normalizeCertificateSubjects_idem [of "ce_Subjects c"] by (simp add: defaults_fields NormalizeCertificateConfig_fields)
  have "trimmed_challenge (ce_DNSChallenge ?n)" by (simp add: NormalizeCertificateConfig_fields trim_default_challenge)
  then show "trimmed_challenge (ce_DNSChallenge ?d)"
    by (auto simp: trimmed_challenge_iff defaults_fields certificateAzureDNSResourceGroup_trimmed)
  have "settled_challenge (ce_DNSChallenge ?n)" by (simp add: NormalizeCertificateConfig_fields settled_default)
  then show "defaultChallenge (ce_DNSChallenge ?d) = ce_DNSChallenge ?d"
    by (intro settled_id) (simp add: settled_challenge_def defaults_fields)
  show "ToLower (TrimSpace (ce_Issuer ?d)) = ce_Issuer ?d"
    by (simp add: defaults_fields NormalizeCertificateConfig_fields ToLower_TrimSpace_idem lower_letters del: ToLower_simps)
  show "ce_Issuer ?d \<noteq> []" "ce_Issuer ?d \<noteq> ''default''" by (simp_all add: defaults_fields NormalizeCertificateConfig_fields)
  show "TrimSpace (ce_Email ?d) = ce_Email ?d" "TrimSpace (ce_CADirectory ?d) = ce_CADirectory ?d"
    by (simp_all add: defaults_fields NormalizeCertificateConfig_fields)
qed

lemma ApplyAzureCertificateDefaults_idem:
  assumes "\<forall>s \<in> set (ce_Subjects (ApplyAzureCertificateDefaults c azure)). canon_name s = s"
  shows "ApplyAzureCertificateDefaults (ApplyAzureCertificateDefaults c azure) azure = ApplyAzureCertificateDefaults c azure"
proof -
  let ?d = "ApplyAzureCertificateDefaults c azure" and ?n = "NormalizeCertificateConfig c"
  have n: "NormalizeCertificateConfig ?d = ?d" by (rule ApplyAzureCertificateDefaults_normal [OF assms])
  have "ce_DNSChallenge (ApplyAzureCertificateDefaults ?d azure) = ce_DNSChallenge ?d"
    by (intro DNSChallengeConfig_eqI AzureDNSChallengeConfig_eqI; simp only: defaults_fields [of ?d] n)
      (simp_all add: defaults_fields [of c])
  then show ?thesis by (intro CertificateConfig_eqI) (simp_all only: defaults_fields [of ?d] n)
qed

section \<open>The whole configuration\<close>

text \<open>
  Names with more than one trailing dot, or white space before it, take more than one pass to become
  canonical, and so does a path prefix with white space before its trailing slashes.
\<close>

definition canonical_config :: "AppConfig \<Rightarrow> bool" where
  "canonical_config cfg \<longleftrightarrow>
     (\<forall>z \<in> set (az_DNSZones (ap_Azure cfg)). canon_name (zn_Name z) = zn_Name z) \<and>
     (\<forall>s \<in> set (ce_Subjects (gw_Certificate (ap_Gateway cfg))). canon_name s = s) \<and>
     (\<forall>p \<in> set (sc_DeniedPathPrefixes (ap_Security cfg)). TrimSpace p = p \<and> p \<noteq> [])"

lemma normalizeConfig_fields [simp]:
  "ap_Azure (normalizeConfig cfg) = normalizeAzure (ap_Azure cfg)"
  "gw_Certificate (ap_Gateway (normalizeConfig cfg)) = ApplyAzureCertificateDefaults (gw_Certificate (ap_Gateway cfg)) (normalizeAzure (ap_Azure cfg))"
  "gw_InternalSourceRanges (ap_Gateway (normalizeConfig cfg)) = compactStrings (gw_InternalSourceRanges (ap_Gateway cfg))"
  "ap_Security (normalizeConfig cfg) = normalizeSecurityConfig (ap_Security cfg)"
  "ap_Profile (normalizeConfig cfg) = ap_Profile cfg" "ap_DeploymentMode (normalizeConfig cfg) = ap_DeploymentMode cfg"
  "ap_Control (normalizeConfig cfg) = ap_Control cfg" "ap_Docker (normalizeConfig cfg) = ap_Docker cfg"
  by (simp_all add: normalizeConfig_def Let_def)

lemma normalizeAzure_idem:
  assumes "\<forall>z \<in> set (az_DNSZones (normalizeAzure a)). canon_name (zn_Name z) = zn_Name z"
  shows "normalizeAzure (normalizeAzure a) = normalizeAzure a"
proof -
  define b where "b = a\<lparr>az_SubscriptionID := TrimSpace (az_SubscriptionID a), az_ResourceGroup := TrimSpace (az_ResourceGroup a),
      az_NetworkSecurityGroupResourceGroup := (if TrimSpace (az_NetworkSecurityGroupResourceGroup a) = [] then TrimSpace (az_ResourceGroup a)
        else TrimSpace (az_NetworkSecurityGroupResourceGroup a)),
      az_NetworkSecurityGroupName := TrimSpace (az_NetworkSecurityGroupName a),
      az_NSGSourceAddressPrefixes := compactStrings (az_NSGSourceAddressPrefixes a)\<rparr>"
  define c where "c = b\<lparr>az_DNSZones := normalizeDNSZones b\<rparr>"
  have a: "normalizeAzure a = c" by (simp add: normalizeAzure_def b_def c_def Let_def)
  have c: "az_ResourceGroup c = az_ResourceGroup b" "az_DNSZones c = normalizeDNSZones b" "az_DNSZoneName c = az_DNSZoneName b"
    by (simp_all add: c_def)
  have again: "normalizeDNSZones c = normalizeDNSZones b"
    by (rule normalizeDNSZones_idem [OF _ c(1) c(2) c(3)]) (use assms a c(2) in simp)
  have same: "c\<lparr>az_SubscriptionID := TrimSpace (az_SubscriptionID c), az_ResourceGroup := TrimSpace (az_ResourceGroup c),
      az_NetworkSecurityGroupResourceGroup := (if TrimSpace (az_NetworkSecurityGroupResourceGroup c) = [] then TrimSpace (az_ResourceGroup c)
        else TrimSpace (az_NetworkSecurityGroupResourceGroup c)),
      az_NetworkSecurityGroupName := TrimSpace (az_NetworkSecurityGroupName c),
      az_NSGSourceAddressPrefixes := compactStrings (az_NSGSourceAddressPrefixes c)\<rparr> = c"
    by (simp add: c_def b_def compactStrings_idem)
  have "normalizeAzure c = c\<lparr>az_DNSZones := normalizeDNSZones c\<rparr>"
    unfolding normalizeAzure_def Let_def same by simp
  also have "\<dots> = c" unfolding again by (simp add: c_def)
  finally show ?thesis by (simp add: a)
qed

lemma normalizeSecurityConfig_idem:
  assumes "\<forall>p \<in> set (sc_DeniedPathPrefixes (normalizeSecurityConfig sec)). TrimSpace p = p \<and> p \<noteq> []"
  shows "normalizeSecurityConfig (normalizeSecurityConfig sec) = normalizeSecurityConfig sec"
  using assms config_normalizePathPrefixes_idem [of "sc_DeniedPathPrefixes sec"]
  by (simp add: normalizeSecurityConfig_def norm_idem)

lemma normalizeConfig_idem:
  assumes "canonical_config (normalizeConfig cfg)"
  shows "normalizeConfig (normalizeConfig cfg) = normalizeConfig cfg"
proof -
  let ?n = "normalizeConfig cfg"
  have azure: "normalizeAzure (normalizeAzure (ap_Azure cfg)) = normalizeAzure (ap_Azure cfg)"
    using assms by (intro normalizeAzure_idem) (simp add: canonical_config_def)
  have cert: "ApplyAzureCertificateDefaults (gw_Certificate (ap_Gateway ?n)) (normalizeAzure (ap_Azure cfg)) = gw_Certificate (ap_Gateway ?n)"
    using assms by (simp add: canonical_config_def ApplyAzureCertificateDefaults_idem)
  have sec: "normalizeSecurityConfig (ap_Security ?n) = ap_Security ?n"
    using assms by (simp add: canonical_config_def normalizeSecurityConfig_idem)
  have "normalizeConfig ?n = ?n\<lparr>ap_Azure := ap_Azure ?n,
      ap_Gateway := (ap_Gateway ?n)\<lparr>gw_Certificate := gw_Certificate (ap_Gateway ?n),
        gw_InternalSourceRanges := gw_InternalSourceRanges (ap_Gateway ?n)\<rparr>,
      ap_Auth := (ap_Auth ?n)\<lparr>au_AdminTokens := au_AdminTokens (ap_Auth ?n)\<rparr>, ap_Security := ap_Security ?n\<rparr>"
    unfolding normalizeConfig_def [of ?n] Let_def
    using azure cert sec by (simp add: compactStrings_idem normalizeConfig_def Let_def)
  also have "\<dots> = ?n" by simp
  finally show ?thesis .
qed

end
