(* ===== verification/AzureManager.thy ===== *)
theory AzureManager
  imports GatewayModel
begin

text \<open>
  The Azure side of the gateway, \<open>backend/internal/azure/manager.go\<close>: which DNS zone a host belongs to,
  which ports the security rule opens, and the reconciliation of DNS A records and of the security rule.
  The two Azure clients are parameters: functions on a state \<open>'c\<close> that stands for the service. A nil
  pointer is \<open>None\<close>. A metadata map is the function of its keys.
\<close>

section \<open>What the service stores\<close>

text \<open>The fields of the SDK types the code reads or writes; \<open>sp_Rest\<close> stands for the other fields of a rule.\<close>

record RecordSetProperties =
  rp_TTL :: "int option"
  rp_Metadata :: "string \<rightharpoonup> string option"
  rp_ARecords :: "string option option list"
  rp_TargetResource :: "string option"

record RecordSet =
  dr_Name :: "string option"
  dr_Etag :: "string option"
  dr_Properties :: "RecordSetProperties option"

record SecurityRuleProperties =
  sp_Description :: "string option"
  sp_Protocol :: "string option"
  sp_SourcePortRange :: "string option"
  sp_DestinationPortRanges :: "string list"
  sp_DestinationAddressPrefix :: "string option"
  sp_Access :: "string option"
  sp_Priority :: "32 word option"
  sp_Direction :: "string option"
  sp_SourceAddressPrefix :: "string option"
  sp_SourceAddressPrefixes :: "string list option"
  sp_ProvisioningState :: "string option"
  sp_Rest :: "string option"

record azure_error =
  ae_NotFound :: bool
  ae_Message :: string

definition isNotFound :: "azure_error \<Rightarrow> bool" where
  "isNotFound e = ae_NotFound e"

text \<open>The condition of a write: \<open>IfNoneMatch "*"\<close> or \<open>IfMatch\<close> an entity tag.\<close>

datatype condition = IfNoneMatch | IfMatch "string option"

text \<open>
  The clients. The list is the sequence of pages the pager yields, each a page or an error. The two
  operations on the rule that poll give the error of starting them or of polling to the end.
\<close>

record 'c AzureClients =
  dns_Get :: "string \<Rightarrow> string \<Rightarrow> string \<Rightarrow> 'c \<Rightarrow> (azure_error + RecordSet) \<times> 'c"
  dns_CreateOrUpdate :: "string \<Rightarrow> string \<Rightarrow> string \<Rightarrow> RecordSetProperties \<Rightarrow> condition \<Rightarrow> 'c \<Rightarrow> azure_error option \<times> 'c"
  dns_Pages :: "string \<Rightarrow> string \<Rightarrow> 'c \<Rightarrow> (azure_error + RecordSet option list) list \<times> 'c"
  dns_Delete :: "string \<Rightarrow> string \<Rightarrow> string \<Rightarrow> condition \<Rightarrow> 'c \<Rightarrow> azure_error option \<times> 'c"
  nsg_Get :: "string \<Rightarrow> string \<Rightarrow> string \<Rightarrow> 'c \<Rightarrow> (azure_error + SecurityRuleProperties option) \<times> 'c"
  nsg_CreateOrUpdate :: "string \<Rightarrow> string \<Rightarrow> string \<Rightarrow> SecurityRuleProperties \<Rightarrow> 'c \<Rightarrow> (azure_error option \<times> azure_error option) \<times> 'c"
  nsg_Delete :: "string \<Rightarrow> string \<Rightarrow> string \<Rightarrow> 'c \<Rightarrow> (azure_error option \<times> azure_error option) \<times> 'c"

text \<open>\<open>mg_dns\<close> and \<open>mg_nsg\<close> say whether the client was created.\<close>

record Manager =
  mg_cfg :: AppConfig
  mg_instanceID :: string
  mg_dns :: bool
  mg_nsg :: bool

definition managedNSGRuleName :: string where
  "managedNSGRuleName = ''Allow-AIDockerFarm-Gateway-HTTPHTTPS''"

definition managedDNSMetadataKey :: string where
  "managedDNSMetadataKey = ''managed-by''"

definition managedDNSMetadataValue :: string where
  "managedDNSMetadataValue = ''ai-docker-farm-gateway''"

definition managedDNSOwnerKey :: string where
  "managedDNSOwnerKey = ''gateway-instance-id''"

text \<open>
  \<open>NewManager\<close>: the credential, the identity and the clients are made by the SDK and by the identity file;
  their errors are arguments. The result is nil when Azure is not enabled.
\<close>

definition NewManager :: "string option \<Rightarrow> (string + string) \<Rightarrow> string option \<Rightarrow> string option \<Rightarrow> AppConfig \<Rightarrow> string + Manager option" where
  "NewManager credential_error instance_id dns_error nsg_error cfg =
     (if \<not> az_Enabled (ap_Azure cfg) then Inr None
      else if az_SubscriptionID (ap_Azure cfg) = [] then Inl ''azure subscriptionId is required when Azure is enabled''
      else case credential_error of Some e \<Rightarrow> Inl e
      | None \<Rightarrow> (case instance_id of
          Inl e \<Rightarrow> Inl (''load Azure resource owner: '' @ e)
        | Inr owner \<Rightarrow>
            (if az_ManageDNS (ap_Azure cfg) \<and> dns_error \<noteq> None then Inl (the dns_error)
             else if az_ManageNSG (ap_Azure cfg) \<and> nsg_error \<noteq> None then Inl (the nsg_error)
             else Inr (Some \<lparr>mg_cfg = cfg, mg_instanceID = owner, mg_dns = az_ManageDNS (ap_Azure cfg), mg_nsg = az_ManageNSG (ap_Azure cfg)\<rparr>))))"

section \<open>Hosts and zones\<close>

definition publicAzureRoutes :: "RouteConfig list \<Rightarrow> RouteConfig list" where
  "publicAzureRoutes routes = filter (\<lambda>route. rc_Enabled route \<and> rc_Public route \<and> rc_Host route \<noteq> []) routes"

text \<open>\<open>IP.To4\<close> succeeds for an IPv4 address and for an IPv6 address that maps one.\<close>

definition To4_ok :: "ip_addr \<Rightarrow> bool" where
  "To4_ok a = (case a of IPv4 bs \<Rightarrow> True | IPv6 gs z \<Rightarrow> take 5 gs = [0, 0, 0, 0, 0] \<and> gs ! 5 = 65535)"

definition publicIPAddress :: "AzureConfig \<Rightarrow> string + string" where
  "publicIPAddress cfg =
     (let ip = TrimSpace (az_PublicIPAddress cfg) in
      if ip \<noteq> [] then
        (case ParseIP ip of
           Some parsed \<Rightarrow> if To4_ok parsed then Inr ip else Inl (''publicIpAddress '' @ Quote ip @ '' must be a valid IPv4 address'')
         | None \<Rightarrow> Inl (''publicIpAddress '' @ Quote ip @ '' must be a valid IPv4 address''))
      else Inl ''publicIpAddress is required when Azure DNS management has public routes'')"

definition clean_name :: "string \<Rightarrow> string" where
  "clean_name name = TrimSuffix (ToLower (TrimSpace name)) ''.''"

definition relativeRecordName :: "string \<Rightarrow> string \<Rightarrow> string option" where
  "relativeRecordName host0 zone0 =
     (let host = clean_name host0; zone = clean_name zone0 in
      if host = [] \<or> zone = [] then None
      else if host = zone then Some ''@''
      else let suffix = ''.'' @ zone in
        if HasSuffix host suffix then Some (TrimSuffix host suffix) else None)"

text \<open>The closure \<open>appendZone\<close> of \<open>configuredDNSZones\<close>: the map \<open>seen\<close> holds the names of the zones so far.\<close>

definition appendZone :: "string \<Rightarrow> AzureDNSZoneConfig list \<Rightarrow> AzureDNSZoneConfig \<Rightarrow> AzureDNSZoneConfig list" where
  "appendZone defaultGroup zones zone0 =
     (let name = clean_name (zn_Name zone0);
          group0 = TrimSpace (zn_ResourceGroup zone0);
          group = (if group0 = [] then TrimSpace defaultGroup else group0)
      in if name = [] \<or> group = [] then zones
         else if name \<in> zn_Name ` set zones then zones
         else zones @ [\<lparr>zn_Name = name, zn_ResourceGroup = group\<rparr>])"

definition configuredDNSZones :: "AzureConfig \<Rightarrow> AzureDNSZoneConfig list" where
  "configuredDNSZones cfg =
     (let zones = foldl (appendZone (az_ResourceGroup cfg)) [] (az_DNSZones cfg) in
      if az_DNSZoneName cfg \<noteq> []
      then appendZone (az_ResourceGroup cfg) zones \<lparr>zn_Name = az_DNSZoneName cfg, zn_ResourceGroup = az_ResourceGroup cfg\<rparr>
      else zones)"

fun selectLoop :: "string \<Rightarrow> AzureDNSZoneConfig \<Rightarrow> AzureDNSZoneConfig list \<Rightarrow> AzureDNSZoneConfig" where
  "selectLoop host selected [] = selected"
| "selectLoop host selected (zone # rest) =
     (case relativeRecordName host (zn_Name zone) of
        None \<Rightarrow> selectLoop host selected rest
      | Some _ \<Rightarrow> selectLoop host
          (if zn_Name selected = [] \<or> length (zn_Name zone) > length (zn_Name selected) then zone else selected) rest)"

definition selectDNSZone :: "string \<Rightarrow> AzureDNSZoneConfig list \<Rightarrow> AzureDNSZoneConfig option" where
  "selectDNSZone host zones =
     (let selected = selectLoop host \<lparr>zn_Name = [], zn_ResourceGroup = []\<rparr> zones in
      if zn_Name selected \<noteq> [] then Some selected else None)"

definition dnsZoneKey :: "AzureDNSZoneConfig \<Rightarrow> string" where
  "dnsZoneKey zone = zn_ResourceGroup zone @ [CHR 0x00] @ zn_Name zone"

definition nsgResourceGroup :: "AzureConfig \<Rightarrow> string" where
  "nsgResourceGroup cfg =
     (let resourceGroup = TrimSpace (az_NetworkSecurityGroupResourceGroup cfg) in
      if resourceGroup \<noteq> [] then resourceGroup else TrimSpace (az_ResourceGroup cfg))"

section \<open>Ownership\<close>

definition managedDNSMetadata :: "string \<Rightarrow> (string \<rightharpoonup> string option)" where
  "managedDNSMetadata host = [managedDNSMetadataKey \<mapsto> Some managedDNSMetadataValue, ''route-host'' \<mapsto> Some host]"

definition dnsMetadata :: "string \<Rightarrow> string \<Rightarrow> (string \<rightharpoonup> string option)" where
  "dnsMetadata owner host = (managedDNSMetadata host)(managedDNSOwnerKey \<mapsto> Some owner)"

text \<open>Reading a key of the metadata: a missing key gives the nil pointer.\<close>

definition metadata_at :: "RecordSetProperties \<Rightarrow> string \<Rightarrow> string option" where
  "metadata_at p key = (case rp_Metadata p key of Some v \<Rightarrow> v | None \<Rightarrow> None)"

definition isManagedDNSRecord :: "RecordSet option \<Rightarrow> bool" where
  "isManagedDNSRecord record =
     (case record of None \<Rightarrow> False
      | Some r \<Rightarrow> (case dr_Properties r of None \<Rightarrow> False | Some p \<Rightarrow> metadata_at p managedDNSMetadataKey = Some managedDNSMetadataValue))"

definition record_owner :: "RecordSet option \<Rightarrow> string option" where
  "record_owner record =
     (case record of None \<Rightarrow> None
      | Some r \<Rightarrow> (case dr_Properties r of None \<Rightarrow> None | Some p \<Rightarrow> metadata_at p managedDNSOwnerKey))"

definition ownsDNSRecord :: "string \<Rightarrow> RecordSet option \<Rightarrow> bool" where
  "ownsDNSRecord owner record =
     (if \<not> isManagedDNSRecord record \<or> owner = [] then False else record_owner record = Some owner)"

definition recordSetRelativeName :: "RecordSet option \<Rightarrow> string option" where
  "recordSetRelativeName record =
     (case record of None \<Rightarrow> None
      | Some r \<Rightarrow> (case dr_Name r of None \<Rightarrow> None
        | Some raw \<Rightarrow> (let name = TrimSpace raw in
            if name = [] then None
            else if CHR ''/'' \<in> set name then Some (last (Split name (CHR ''/''))) else Some name)))"

section \<open>DNS records\<close>

text \<open>What the loops of \<open>reconcileDNS\<close> carry; \<open>desiredByZone\<close> is the set of pairs of a zone key and a name.\<close>

record DNSProgress =
  dp_count :: int
  dp_deleted :: int
  dp_warnings :: "string list"
  dp_desired :: "(string \<times> string) list"

definition desired_properties :: "string \<Rightarrow> string \<Rightarrow> string \<Rightarrow> RecordSetProperties" where
  "desired_properties owner host publicIP =
     \<lparr>rp_TTL = Some 300, rp_Metadata = dnsMetadata owner host, rp_ARecords = [Some (Some publicIP)], rp_TargetResource = None\<rparr>"

definition up_to_date :: "string \<Rightarrow> RecordSet \<Rightarrow> bool" where
  "up_to_date publicIP existing =
     (case dr_Properties existing of None \<Rightarrow> False
      | Some p \<Rightarrow> rp_TTL p = Some 300 \<and> rp_ARecords p = [Some (Some publicIP)] \<and> rp_TargetResource p = None)"

text \<open>The body of the loop over the routes for a host with a zone: the error that ends it, or the next progress.\<close>

definition writeRecord :: "'c AzureClients \<Rightarrow> string \<Rightarrow> string \<Rightarrow> string \<Rightarrow> AzureDNSZoneConfig \<Rightarrow> string \<Rightarrow> condition \<Rightarrow>
    DNSProgress \<Rightarrow> 'c \<Rightarrow> (string option \<times> DNSProgress) \<times> 'c" where
  "writeRecord az owner publicIP host zone name options p c =
     (case dns_CreateOrUpdate az (zn_ResourceGroup zone) (zn_Name zone) name (desired_properties owner host publicIP) options c of
        (Some e, c1) \<Rightarrow> ((Some (''reconcile DNS record '' @ host @ '' in zone '' @ zn_Name zone @ '': '' @ ae_Message e), p), c1)
      | (None, c1) \<Rightarrow> ((None, p\<lparr>dp_count := dp_count p + 1\<rparr>), c1))"

definition reconcileRecord :: "'c AzureClients \<Rightarrow> string \<Rightarrow> string \<Rightarrow> string \<Rightarrow> AzureDNSZoneConfig \<Rightarrow> DNSProgress \<Rightarrow> 'c \<Rightarrow>
    (string option \<times> DNSProgress) \<times> 'c" where
  "reconcileRecord az owner publicIP host zone p0 c0 =
     (let name = (case relativeRecordName host (zn_Name zone) of Some n \<Rightarrow> n | None \<Rightarrow> []) in
      if (dnsZoneKey zone, name) \<in> set (dp_desired p0) then ((None, p0), c0)
      else
        (let p = p0\<lparr>dp_desired := (dnsZoneKey zone, name) # dp_desired p0\<rparr> in
         case dns_Get az (zn_ResourceGroup zone) (zn_Name zone) name c0 of
           (Inr existing, c) \<Rightarrow>
             (if \<not> ownsDNSRecord owner (Some existing)
              then ((Some (''DNS record '' @ host @ '' is not owned by this gateway; explicit ownership migration is required''), p), c)
              else if up_to_date publicIP existing then ((None, p\<lparr>dp_count := dp_count p + 1\<rparr>), c)
              else if dr_Etag existing = None \<or> dr_Etag existing = Some []
              then ((Some (''DNS record '' @ host @ '' has no ETag; refusing unconditional update''), p), c)
              else writeRecord az owner publicIP host zone name (IfMatch (dr_Etag existing)) p c)
         | (Inl e, c) \<Rightarrow>
             (if \<not> isNotFound e then ((Some (''read DNS record '' @ host @ '': '' @ ae_Message e), p), c)
              else writeRecord az owner publicIP host zone name IfNoneMatch p c)))"

fun reconcileRecords :: "'c AzureClients \<Rightarrow> string \<Rightarrow> string \<Rightarrow> AzureDNSZoneConfig list \<Rightarrow> RouteConfig list \<Rightarrow> DNSProgress \<Rightarrow> 'c \<Rightarrow>
    (string option \<times> DNSProgress) \<times> 'c" where
  "reconcileRecords az owner publicIP zones [] p c = ((None, p), c)"
| "reconcileRecords az owner publicIP zones (route # routes) p c =
     (case selectDNSZone (rc_Host route) zones of
        None \<Rightarrow> reconcileRecords az owner publicIP zones routes
          (p\<lparr>dp_warnings := dp_warnings p @ [''host '' @ rc_Host route @ '' is outside all configured DNS zones'']\<rparr>) c
      | Some zone \<Rightarrow>
          (case reconcileRecord az owner publicIP (rc_Host route) zone p c of
             ((Some e, p1), c1) \<Rightarrow> ((Some e, p1), c1)
           | ((None, p1), c1) \<Rightarrow> reconcileRecords az owner publicIP zones routes p1 c1))"

text \<open>The loop over the records of a page of \<open>cleanupDNS\<close>.\<close>

fun cleanupRecords :: "'c AzureClients \<Rightarrow> string \<Rightarrow> AzureDNSZoneConfig \<Rightarrow> string set \<Rightarrow> RecordSet option list \<Rightarrow> int \<Rightarrow> string list \<Rightarrow> 'c \<Rightarrow>
    (string option \<times> int \<times> string list) \<times> 'c" where
  "cleanupRecords az owner zone desired [] deleted warnings c = ((None, deleted, warnings), c)"
| "cleanupRecords az owner zone desired (record # rest) deleted warnings c =
     (if \<not> ownsDNSRecord owner record then
        cleanupRecords az owner zone desired rest deleted
          (if isManagedDNSRecord record \<and> record_owner record = None
           then warnings @ [''legacy managed DNS record was retained because its instance owner is unknown''] else warnings) c
      else case recordSetRelativeName record of
        None \<Rightarrow> cleanupRecords az owner zone desired rest deleted
          (warnings @ [''managed DNS record without a relative name was skipped'']) c
      | Some name \<Rightarrow>
          (if name \<in> desired then cleanupRecords az owner zone desired rest deleted warnings c
           else
             (let etag = (case record of Some r \<Rightarrow> dr_Etag r | None \<Rightarrow> None) in
              if etag = None \<or> etag = Some []
              then ((Some (''DNS record '' @ name @ '' has no ETag; refusing unconditional delete''), deleted, warnings), c)
              else case dns_Delete az (zn_ResourceGroup zone) (zn_Name zone) name (IfMatch etag) c of
                (Some e, c1) \<Rightarrow>
                  (if \<not> isNotFound e
                   then ((Some (''delete Azure DNS record '' @ name @ '' in zone '' @ zn_Name zone @ '': '' @ ae_Message e), deleted, warnings), c1)
                   else cleanupRecords az owner zone desired rest (deleted + 1) warnings c1)
              | (None, c1) \<Rightarrow> cleanupRecords az owner zone desired rest (deleted + 1) warnings c1)))"

fun cleanupPages :: "'c AzureClients \<Rightarrow> string \<Rightarrow> AzureDNSZoneConfig \<Rightarrow> string set \<Rightarrow> (azure_error + RecordSet option list) list \<Rightarrow>
    int \<Rightarrow> string list \<Rightarrow> 'c \<Rightarrow> (string option \<times> int \<times> string list) \<times> 'c" where
  "cleanupPages az owner zone desired [] deleted warnings c = ((None, deleted, warnings), c)"
| "cleanupPages az owner zone desired (Inl e # pages) deleted warnings c =
     ((Some (''list Azure DNS A records in zone '' @ zn_Name zone @ '': '' @ ae_Message e), deleted, warnings), c)"
| "cleanupPages az owner zone desired (Inr records # pages) deleted warnings c =
     (case cleanupRecords az owner zone desired records deleted warnings c of
        ((Some e, d, w), c1) \<Rightarrow> ((Some e, d, w), c1)
      | ((None, d, w), c1) \<Rightarrow> cleanupPages az owner zone desired pages d w c1)"

definition cleanupDNS :: "'c AzureClients \<Rightarrow> string \<Rightarrow> AzureDNSZoneConfig \<Rightarrow> string set \<Rightarrow> 'c \<Rightarrow> (string option \<times> int \<times> string list) \<times> 'c" where
  "cleanupDNS az owner zone desired c =
     (case dns_Pages az (zn_ResourceGroup zone) (zn_Name zone) c of (pages, c1) \<Rightarrow> cleanupPages az owner zone desired pages 0 [] c1)"

definition desired_in :: "DNSProgress \<Rightarrow> AzureDNSZoneConfig \<Rightarrow> string set" where
  "desired_in p zone = snd ` set (filter (\<lambda>(key, name). key = dnsZoneKey zone) (dp_desired p))"

fun cleanupZones :: "'c AzureClients \<Rightarrow> string \<Rightarrow> AzureDNSZoneConfig list \<Rightarrow> DNSProgress \<Rightarrow> 'c \<Rightarrow> (string option \<times> DNSProgress) \<times> 'c" where
  "cleanupZones az owner [] p c = ((None, p), c)"
| "cleanupZones az owner (zone # zones) p c =
     (case cleanupDNS az owner zone (desired_in p zone) c of
        ((e, d, w), c1) \<Rightarrow>
          (let p1 = p\<lparr>dp_deleted := dp_deleted p + d, dp_warnings := dp_warnings p @ w\<rparr> in
           if e \<noteq> None then ((e, p1), c1) else cleanupZones az owner zones p1 c1))"

definition no_progress :: DNSProgress where
  "no_progress = \<lparr>dp_count = 0, dp_deleted = 0, dp_warnings = [], dp_desired = []\<rparr>"

definition reconcileDNS :: "'c AzureClients \<Rightarrow> Manager \<Rightarrow> RouteConfig list \<Rightarrow> string \<Rightarrow> 'c \<Rightarrow> (string option \<times> DNSProgress) \<times> 'c" where
  "reconcileDNS az m routes publicIP c =
     (let zones = configuredDNSZones (ap_Azure (mg_cfg m)); owner = mg_instanceID m in
      if \<not> mg_dns m then ((None, no_progress), c)
      else if owner = [] then ((Some ''Azure DNS owner identity is unavailable'', no_progress), c)
      else if zones = [] then ((Some ''at least one DNS zone is required for Azure DNS reconciliation'', no_progress), c)
      else case reconcileRecords az owner publicIP zones routes no_progress c of
        ((Some e, p), c1) \<Rightarrow> ((Some e, p), c1)
      | ((None, p), c1) \<Rightarrow> cleanupZones az owner zones p c1)"

section \<open>The security rule\<close>

definition publicNSGPorts :: "RouteConfig list \<Rightarrow> int list" where
  "publicNSGPorts routes =
     (if routes = [] then []
      else sorted_list_of_set ({80, 443} \<union>
        set (filter (\<lambda>port. 0 < port \<and> port \<le> 65535) (map rc_ListenerPort routes))))"

definition toPtrs :: "string list \<Rightarrow> string list" where
  "toPtrs values =
     (let trimmed = filter (\<lambda>v. v \<noteq> []) (map TrimSpace values) in if trimmed = [] then [''*''] else trimmed)"

definition nsgRuleProperties :: "AzureConfig \<Rightarrow> int list \<Rightarrow> SecurityRuleProperties" where
  "nsgRuleProperties cfg destinationPorts =
     (let priority = (if sint (az_NSGPriority cfg) \<le> 0 then 120 else az_NSGPriority cfg);
          sources = (if az_NSGSourceAddressPrefixes cfg = [] then [''*''] else az_NSGSourceAddressPrefixes cfg);
          ports = (if destinationPorts = [] then [''80'', ''443''] else map Itoa destinationPorts)
      in \<lparr>sp_Description = Some ''Managed by AI Docker Farm Gateway'', sp_Protocol = Some ''Tcp'', sp_SourcePortRange = Some ''*'',
          sp_DestinationPortRanges = ports, sp_DestinationAddressPrefix = Some ''*'', sp_Access = Some ''Allow'',
          sp_Priority = Some priority, sp_Direction = Some ''Inbound'',
          sp_SourceAddressPrefix = (if length sources = 1 then Some (sources ! 0) else None),
          sp_SourceAddressPrefixes = (if length sources = 1 then None else Some (toPtrs sources)),
          sp_ProvisioningState = None, sp_Rest = None\<rparr>)"

definition nsgRuleName :: "string \<Rightarrow> string" where
  "nsgRuleName owner = managedNSGRuleName @ ''-'' @ owner"

definition nsgOwnerDescription :: "string \<Rightarrow> string" where
  "nsgOwnerDescription owner = ''Managed by AI Docker Farm Gateway; instance='' @ owner"

definition ownsNSGRule :: "string \<Rightarrow> SecurityRuleProperties option \<Rightarrow> bool" where
  "ownsNSGRule owner rule \<longleftrightarrow>
     owner \<noteq> [] \<and> (case rule of None \<Rightarrow> False | Some p \<Rightarrow> sp_Description p = Some (nsgOwnerDescription owner))"

definition deleteNSGRule :: "'c AzureClients \<Rightarrow> Manager \<Rightarrow> 'c \<Rightarrow> (string option \<times> int) \<times> 'c" where
  "deleteNSGRule az m c0 =
     (let cfg = ap_Azure (mg_cfg m); name = nsgRuleName (mg_instanceID m) in
      case nsg_Get az (nsgResourceGroup cfg) (az_NetworkSecurityGroupName cfg) name c0 of
        (Inl e, c) \<Rightarrow> (if isNotFound e then ((None, 0), c) else ((Some (''read NSG rule '' @ name @ '': '' @ ae_Message e), 0), c))
      | (Inr existing, c) \<Rightarrow>
          (if \<not> ownsNSGRule (mg_instanceID m) existing
           then ((Some (''NSG rule '' @ name @ '' is not owned by this gateway''), 0), c)
           else case nsg_Delete az (nsgResourceGroup cfg) (az_NetworkSecurityGroupName cfg) name c of
             ((Some e, _), c1) \<Rightarrow>
               (if isNotFound e then ((None, 0), c1) else ((Some (''delete NSG rule '' @ name @ '': '' @ ae_Message e), 0), c1))
           | ((None, Some e), c1) \<Rightarrow>
               (if isNotFound e then ((None, 0), c1) else ((Some (''wait for NSG rule delete '' @ name @ '': '' @ ae_Message e), 0), c1))
           | ((None, None), c1) \<Rightarrow> ((None, 1), c1)))"

definition putNSGRule :: "'c AzureClients \<Rightarrow> Manager \<Rightarrow> SecurityRuleProperties \<Rightarrow> 'c \<Rightarrow> (string option \<times> int \<times> int) \<times> 'c" where
  "putNSGRule az m properties c =
     (let cfg = ap_Azure (mg_cfg m); name = nsgRuleName (mg_instanceID m) in
      case nsg_CreateOrUpdate az (nsgResourceGroup cfg) (az_NetworkSecurityGroupName cfg) name properties c of
        ((Some e, _), c1) \<Rightarrow> ((Some (''reconcile NSG rule '' @ name @ '': '' @ ae_Message e), 0, 0), c1)
      | ((None, Some e), c1) \<Rightarrow> ((Some (''wait for NSG rule '' @ name @ '': '' @ ae_Message e), 0, 0), c1)
      | ((None, None), c1) \<Rightarrow> ((None, 1, 0), c1))"

definition reconcileNSG :: "'c AzureClients \<Rightarrow> Manager \<Rightarrow> int list \<Rightarrow> 'c \<Rightarrow> (string option \<times> int \<times> int) \<times> 'c" where
  "reconcileNSG az m destinationPorts c0 =
     (let cfg = ap_Azure (mg_cfg m); owner = mg_instanceID m; name = nsgRuleName owner in
      if \<not> mg_nsg m then ((None, 0, 0), c0)
      else if owner = [] then ((Some ''Azure NSG owner identity is unavailable'', 0, 0), c0)
      else if nsgResourceGroup cfg = [] \<or> az_NetworkSecurityGroupName cfg = []
      then ((Some ''networkSecurityGroupResourceGroup and networkSecurityGroupName are required for Azure NSG reconciliation'', 0, 0), c0)
      else if destinationPorts = [] then
        (case deleteNSGRule az m c0 of ((e, deleted), c) \<Rightarrow> ((e, 0, deleted), c))
      else
        (let properties = (nsgRuleProperties cfg destinationPorts)\<lparr>sp_Description := Some (nsgOwnerDescription owner)\<rparr> in
         case nsg_Get az (nsgResourceGroup cfg) (az_NetworkSecurityGroupName cfg) name c0 of
           (Inr existing, c) \<Rightarrow>
             (if \<not> ownsNSGRule owner existing then ((Some (''NSG rule '' @ name @ '' is not owned by this gateway''), 0, 0), c)
              else if map_option (\<lambda>p. p\<lparr>sp_ProvisioningState := None\<rparr>) existing = Some properties then ((None, 1, 0), c)
              else putNSGRule az m properties c)
         | (Inl e, c) \<Rightarrow>
             (if \<not> isNotFound e then ((Some (''read NSG rule '' @ name @ '': '' @ ae_Message e), 0, 0), c)
              else putNSGRule az m properties c)))"

section \<open>The reconciliation\<close>

definition reconcileAzureDNS :: "'c AzureClients \<Rightarrow> Manager \<Rightarrow> RouteConfig list \<Rightarrow> string \<Rightarrow> AzureResult \<Rightarrow> 'c \<Rightarrow> AzureResult \<times> 'c" where
  "reconcileAzureDNS az m publicRoutes publicIP result c =
     (case reconcileDNS az m publicRoutes publicIP c of
        ((e, p), c1) \<Rightarrow>
          (result\<lparr>ar_DNSRecords := dp_count p, ar_DNSDeleted := dp_deleted p, ar_Warnings := ar_Warnings result @ dp_warnings p,
             ar_Error := (case e of Some msg \<Rightarrow> msg | None \<Rightarrow> ar_Error result)\<rparr>, c1))"

definition reconcileAzureNSG :: "'c AzureClients \<Rightarrow> Manager \<Rightarrow> RouteConfig list \<Rightarrow> AzureResult \<Rightarrow> 'c \<Rightarrow> AzureResult \<times> 'c" where
  "reconcileAzureNSG az m publicRoutes result c =
     (case reconcileNSG az m (publicNSGPorts publicRoutes) c of
        ((e, rules, deleted), c1) \<Rightarrow>
          (result\<lparr>ar_NSGRules := rules, ar_NSGDeleted := deleted,
             ar_Error := (case e of Some msg \<Rightarrow> msg | None \<Rightarrow> ar_Error result)\<rparr>, c1))"

text \<open>Every message is non-empty, so a result with an error is one with a non-empty \<open>Error\<close>.\<close>

definition Manager_Reconcile :: "'c AzureClients \<Rightarrow> Manager \<Rightarrow> RouteConfig list \<Rightarrow> 'c \<Rightarrow> AzureResult \<times> 'c" where
  "Manager_Reconcile az m routes c0 =
     (let cfg = ap_Azure (mg_cfg m);
          publicRoutes = publicAzureRoutes routes;
          result0 = \<lparr>ar_Enabled = True, ar_DNSRecords = 0, ar_DNSDeleted = 0, ar_NSGRules = 0, ar_NSGDeleted = 0,
            ar_PublicIPAddress = [],
            ar_Warnings = (if publicRoutes = [] then [''no public routes require Azure reconciliation''] else []), ar_Error = []\<rparr>
      in case (if publicRoutes \<noteq> [] \<and> az_ManageDNS cfg then publicIPAddress cfg else Inr []) of
           Inl e \<Rightarrow> (result0\<lparr>ar_Error := e\<rparr>, c0)
         | Inr publicIP \<Rightarrow>
             (let result1 = result0\<lparr>ar_PublicIPAddress := publicIP\<rparr>;
                  (result2, c2) = (if az_ManageDNS cfg then reconcileAzureDNS az m publicRoutes publicIP result1 c0 else (result1, c0))
              in if ar_Error result2 \<noteq> [] then (result2, c2)
                 else if az_ManageNSG cfg then reconcileAzureNSG az m publicRoutes result2 c2 else (result2, c2)))"

end
