(* ===== verification/AzureFacts.thy ===== *)
theory AzureFacts
  imports AzureManager
begin

text \<open>
  What the reconciliation of Azure does to the records and rules the service stores, under the documented
  contract of the service: the conditions of a write are checked by the service, a write touches only the
  resource it names, and a listing is complete unless a page fails.
\<close>

section \<open>The contract of the service\<close>

type_synonym dns_key = "string \<times> string \<times> string"

definition meets :: "condition \<Rightarrow> RecordSet option \<Rightarrow> bool" where
  "meets options record = (case options of IfNoneMatch \<Rightarrow> record = None | IfMatch tag \<Rightarrow> (\<exists>r. record = Some r \<and> dr_Etag r = tag))"

text \<open>
  A failed write may still have taken effect: an error only says that the outcome was not confirmed.
\<close>

definition get_ok :: "'c AzureClients \<Rightarrow> ('c \<Rightarrow> dns_key \<rightharpoonup> RecordSet) \<Rightarrow> bool" where
  "get_ok az recs \<longleftrightarrow>
     (\<forall>rg z n c r c'. dns_Get az rg z n c = (r, c') \<longrightarrow> recs c' = recs c \<and>
        (case r of Inr x \<Rightarrow> recs c (rg, z, n) = Some x | Inl e \<Rightarrow> isNotFound e \<longrightarrow> recs c (rg, z, n) = None))"

definition put_ok :: "'c AzureClients \<Rightarrow> ('c \<Rightarrow> dns_key \<rightharpoonup> RecordSet) \<Rightarrow> bool" where
  "put_ok az recs \<longleftrightarrow>
     (\<forall>rg z n props options c e c'. dns_CreateOrUpdate az rg z n props options c = (e, c') \<longrightarrow>
        e \<noteq> None \<and> recs c' = recs c \<or>
        meets options (recs c (rg, z, n)) \<and> (\<exists>x. recs c' = (recs c)((rg, z, n) \<mapsto> x) \<and> dr_Properties x = Some props))"

definition delete_ok :: "'c AzureClients \<Rightarrow> ('c \<Rightarrow> dns_key \<rightharpoonup> RecordSet) \<Rightarrow> bool" where
  "delete_ok az recs \<longleftrightarrow>
     (\<forall>rg z n options c e c'. dns_Delete az rg z n options c = (e, c') \<longrightarrow>
        (case e of None \<Rightarrow> recs c' (rg, z, n) = None | Some err \<Rightarrow> isNotFound err \<longrightarrow> recs c' (rg, z, n) = None) \<and>
        (recs c' = recs c \<or> meets options (recs c (rg, z, n)) \<and> recs c' = (recs c)((rg, z, n) := None)))"

definition pages_ok :: "'c AzureClients \<Rightarrow> ('c \<Rightarrow> dns_key \<rightharpoonup> RecordSet) \<Rightarrow> bool" where
  "pages_ok az recs \<longleftrightarrow>
     (\<forall>rg z c pages c'. dns_Pages az rg z c = (pages, c') \<longrightarrow> recs c' = recs c \<and>
        (\<forall>page x. Inr page \<in> set pages \<longrightarrow> Some x \<in> set page \<longrightarrow>
           (\<exists>n. recordSetRelativeName (Some x) = Some n \<and> recs c (rg, z, n) = Some x)) \<and>
        ((\<forall>e. Inl e \<notin> set pages) \<longrightarrow>
           (\<forall>n x. recs c (rg, z, n) = Some x \<longrightarrow> recordSetRelativeName (Some x) = Some n \<and>
              (\<exists>page. Inr page \<in> set pages \<and> Some x \<in> set page))))"

definition dns_contract :: "'c AzureClients \<Rightarrow> ('c \<Rightarrow> dns_key \<rightharpoonup> RecordSet) \<Rightarrow> bool" where
  "dns_contract az recs \<longleftrightarrow> get_ok az recs \<and> put_ok az recs \<and> delete_ok az recs \<and> pages_ok az recs"

lemma get_contract: "dns_contract az recs \<Longrightarrow> dns_Get az rg z n c = (r, c') \<Longrightarrow> recs c' = recs c \<and>
    (case r of Inr x \<Rightarrow> recs c (rg, z, n) = Some x | Inl e \<Rightarrow> isNotFound e \<longrightarrow> recs c (rg, z, n) = None)"
  unfolding dns_contract_def get_ok_def by blast

lemma put_contract: "dns_contract az recs \<Longrightarrow> dns_CreateOrUpdate az rg z n props options c = (e, c') \<Longrightarrow>
    e \<noteq> None \<and> recs c' = recs c \<or>
    meets options (recs c (rg, z, n)) \<and> (\<exists>x. recs c' = (recs c)((rg, z, n) \<mapsto> x) \<and> dr_Properties x = Some props)"
  unfolding dns_contract_def put_ok_def by blast

lemma delete_contract: "dns_contract az recs \<Longrightarrow> dns_Delete az rg z n options c = (e, c') \<Longrightarrow>
    (case e of None \<Rightarrow> recs c' (rg, z, n) = None | Some err \<Rightarrow> isNotFound err \<longrightarrow> recs c' (rg, z, n) = None) \<and>
    (recs c' = recs c \<or> meets options (recs c (rg, z, n)) \<and> recs c' = (recs c)((rg, z, n) := None))"
  unfolding dns_contract_def delete_ok_def by blast

lemma pages_contract:
  assumes "dns_contract az recs" "dns_Pages az rg z c = (pages, c')"
  shows "recs c' = recs c"
    and "Inr page \<in> set pages \<Longrightarrow> Some x \<in> set page \<Longrightarrow> \<exists>n. recordSetRelativeName (Some x) = Some n \<and> recs c (rg, z, n) = Some x"
    and "\<forall>e. Inl e \<notin> set pages \<Longrightarrow> recs c (rg, z, n) = Some x \<Longrightarrow>
      recordSetRelativeName (Some x) = Some n \<and> (\<exists>page. Inr page \<in> set pages \<and> Some x \<in> set page)"
  using assms unfolding dns_contract_def pages_ok_def by blast+

section \<open>Records the gateway writes\<close>

definition good_record :: "string \<Rightarrow> string \<Rightarrow> RecordSet \<Rightarrow> bool" where
  "good_record owner publicIP x \<longleftrightarrow> ownsDNSRecord owner (Some x) \<and> up_to_date publicIP x"

lemma desired_is_good:
  "owner \<noteq> [] \<Longrightarrow> dr_Properties x = Some (desired_properties owner host publicIP) \<Longrightarrow> good_record owner publicIP x"
  by (simp add: good_record_def ownsDNSRecord_def isManagedDNSRecord_def record_owner_def metadata_at_def
      desired_properties_def up_to_date_def dnsMetadata_def managedDNSMetadata_def managedDNSMetadataKey_def
      managedDNSOwnerKey_def managedDNSMetadataValue_def)

text \<open>One write: nothing but its key changes, and that key only if it was absent or owned.\<close>

definition record_key :: "string \<Rightarrow> AzureDNSZoneConfig \<Rightarrow> dns_key" where
  "record_key host zone = (zn_ResourceGroup zone, zn_Name zone, (case relativeRecordName host (zn_Name zone) of Some n \<Rightarrow> n | None \<Rightarrow> []))"

definition written :: "('c \<Rightarrow> dns_key \<rightharpoonup> RecordSet) \<Rightarrow> string \<Rightarrow> string \<Rightarrow> dns_key \<Rightarrow> 'c \<Rightarrow> 'c \<Rightarrow> bool" where
  "written recs owner publicIP k c c' \<longleftrightarrow>
     (\<exists>x. recs c' = (recs c)(k \<mapsto> x) \<and> good_record owner publicIP x \<and> (\<forall>y. recs c k = Some y \<longrightarrow> ownsDNSRecord owner (Some y)))"

lemma writeRecord_effect:
  assumes "dns_contract az recs" "owner \<noteq> []" "writeRecord az owner publicIP host zone n options p c = ((e, p'), c')"
    and "\<And>y. meets options (recs c (zn_ResourceGroup zone, zn_Name zone, n)) \<Longrightarrow> recs c (zn_ResourceGroup zone, zn_Name zone, n) = Some y \<Longrightarrow>
      ownsDNSRecord owner (Some y)"
  shows "(recs c' = recs c \<and> e \<noteq> None \<or> written recs owner publicIP (zn_ResourceGroup zone, zn_Name zone, n) c c') \<and>
    dp_desired p' = dp_desired p"
proof -
  obtain r where r: "dns_CreateOrUpdate az (zn_ResourceGroup zone) (zn_Name zone) n (desired_properties owner host publicIP) options c = (r, c')"
    and e: "(e = None) = (r = None)" and p: "dp_desired p' = dp_desired p"
    using assms(3) by (auto simp: writeRecord_def split: prod.splits option.splits)
  from put_contract [OF assms(1) r] show ?thesis
    using assms(4) desired_is_good [OF assms(2)] e p unfolding written_def by blast
qed

lemma reconcileRecord_effect:
  assumes "dns_contract az recs" "owner \<noteq> []" "reconcileRecord az owner publicIP host zone p c = ((e, p'), c')"
  shows "if (dnsZoneKey zone, snd (snd (record_key host zone))) \<in> set (dp_desired p) then e = None \<and> p' = p \<and> recs c' = recs c
    else dp_desired p' = (dnsZoneKey zone, snd (snd (record_key host zone))) # dp_desired p \<and>
      (recs c' = recs c \<and> (e = None \<longrightarrow> (\<exists>x. recs c (record_key host zone) = Some x \<and> good_record owner publicIP x)) \<or>
       written recs owner publicIP (record_key host zone) c c')"
proof -
  define name where "name = (case relativeRecordName host (zn_Name zone) of Some n \<Rightarrow> n | None \<Rightarrow> [])"
  have key: "record_key host zone = (zn_ResourceGroup zone, zn_Name zone, name)" by (simp add: record_key_def name_def)
  note unfolded = assms(3) [unfolded reconcileRecord_def, folded name_def, unfolded Let_def]
  show ?thesis
  proof (cases "(dnsZoneKey zone, name) \<in> set (dp_desired p)")
    case True
    then show ?thesis using unfolded by (simp add: key)
  next
    case False
    obtain r c1 where r: "dns_Get az (zn_ResourceGroup zone) (zn_Name zone) name c = (r, c1)" by fastforce
    note got = get_contract [OF assms(1) r]
    show ?thesis
    proof (cases r)
      case (Inl err)
      show ?thesis
      proof (cases "isNotFound err")
        case True
        then have absent: "recs c1 (zn_ResourceGroup zone, zn_Name zone, name) = None" using got Inl by simp
        have "writeRecord az owner publicIP host zone name IfNoneMatch (p\<lparr>dp_desired := (dnsZoneKey zone, name) # dp_desired p\<rparr>) c1 = ((e, p'), c')"
          using unfolded False r Inl True by simp
        from writeRecord_effect [OF assms(1,2) this] absent False got show ?thesis by (auto simp: key written_def)
      next
        case n: False
        then show ?thesis using unfolded False r Inl got by (auto simp: key)
      qed
    next
      case (Inr existing)
      then have here: "recs c1 (zn_ResourceGroup zone, zn_Name zone, name) = Some existing" using got by simp
      show ?thesis
      proof (cases "ownsDNSRecord owner (Some existing) \<and> \<not> up_to_date publicIP existing \<and> dr_Etag existing \<noteq> None \<and> dr_Etag existing \<noteq> Some []")
        case True
        then have "writeRecord az owner publicIP host zone name (IfMatch (dr_Etag existing)) (p\<lparr>dp_desired := (dnsZoneKey zone, name) # dp_desired p\<rparr>) c1 = ((e, p'), c')"
          using unfolded False r Inr by auto
        from writeRecord_effect [OF assms(1,2) this] here True False got show ?thesis by (auto simp: key written_def)
      next
        case n: False
        then show ?thesis using unfolded False r Inr got by (auto simp: key good_record_def split: if_splits)
      qed
    qed
  qed
qed

section \<open>All records\<close>

definition unowned_kept :: "('c \<Rightarrow> dns_key \<rightharpoonup> RecordSet) \<Rightarrow> string \<Rightarrow> 'c \<Rightarrow> 'c \<Rightarrow> bool" where
  "unowned_kept recs owner c c' \<longleftrightarrow> (\<forall>k y. recs c k = Some y \<longrightarrow> \<not> ownsDNSRecord owner (Some y) \<longrightarrow> recs c' k = Some y)"

definition good_at :: "('c \<Rightarrow> dns_key \<rightharpoonup> RecordSet) \<Rightarrow> string \<Rightarrow> string \<Rightarrow> 'c \<Rightarrow> dns_key \<Rightarrow> bool" where
  "good_at recs owner publicIP c k \<longleftrightarrow> (\<exists>x. recs c k = Some x \<and> good_record owner publicIP x)"

lemma kept_refl [simp]: "recs c' = recs c \<Longrightarrow> unowned_kept recs owner c c'"
  by (simp add: unowned_kept_def)

lemma kept_trans: "unowned_kept recs owner c c1 \<Longrightarrow> unowned_kept recs owner c1 c' \<Longrightarrow> unowned_kept recs owner c c'"
  unfolding unowned_kept_def by blast

lemma written_kept: "written recs owner publicIP k c c' \<Longrightarrow> unowned_kept recs owner c c'"
  by (auto simp: written_def unowned_kept_def)

lemma written_good: "written recs owner publicIP k c c' \<Longrightarrow> good_at recs owner publicIP c' j \<longleftrightarrow> j = k \<or> good_at recs owner publicIP c j"
  by (auto simp: written_def good_at_def)

text \<open>The desired pair of a route.\<close>

definition desired_pair :: "AzureDNSZoneConfig list \<Rightarrow> RouteConfig \<Rightarrow> (string \<times> string) set" where
  "desired_pair zones route =
     (case selectDNSZone (rc_Host route) zones of None \<Rightarrow> {}
      | Some zone \<Rightarrow> {(dnsZoneKey zone, snd (snd (record_key (rc_Host route) zone)))})"

definition all_desired_good :: "('c \<Rightarrow> dns_key \<rightharpoonup> RecordSet) \<Rightarrow> string \<Rightarrow> string \<Rightarrow> AzureDNSZoneConfig list \<Rightarrow> (string \<times> string) set \<Rightarrow> 'c \<Rightarrow> bool" where
  "all_desired_good recs owner publicIP zones desired c \<longleftrightarrow>
     (\<forall>zone \<in> set zones. \<forall>n. (dnsZoneKey zone, n) \<in> desired \<longrightarrow> good_at recs owner publicIP c (zn_ResourceGroup zone, zn_Name zone, n))"

lemma record_key_zone: "record_key host zone = (zn_ResourceGroup zone, zn_Name zone, snd (snd (record_key host zone)))"
  by (simp add: record_key_def)

lemma selectLoop_in: "selectLoop host selected zones = selected \<or> selectLoop host selected zones \<in> set zones"
  by (induction host selected zones rule: selectLoop.induct) (auto split: option.split)

lemma selectDNSZone_in: "selectDNSZone host zones = Some zone \<Longrightarrow> zone \<in> set zones"
  using selectLoop_in [of host "\<lparr>zn_Name = [], zn_ResourceGroup = []\<rparr>" zones]
  by (auto simp: selectDNSZone_def Let_def split: if_splits)

lemma reconcileRecord_step:
  assumes "dns_contract az recs" "owner \<noteq> []" "inj_on dnsZoneKey (set zones)" "zone \<in> set zones"
    and "reconcileRecord az owner publicIP host zone p c = ((e, p'), c')"
    and "all_desired_good recs owner publicIP zones (set (dp_desired p)) c"
  shows "unowned_kept recs owner c c'"
    and "e = None \<Longrightarrow> all_desired_good recs owner publicIP zones (set (dp_desired p')) c' \<and>
      set (dp_desired p') = insert (dnsZoneKey zone, snd (snd (record_key host zone))) (set (dp_desired p))"
proof -
  note eff = reconcileRecord_effect [OF assms(1,2,5)]
  show "unowned_kept recs owner c c'" using eff by (auto split: if_splits intro: written_kept)
  assume e: "e = None"
  show "all_desired_good recs owner publicIP zones (set (dp_desired p')) c' \<and>
      set (dp_desired p') = insert (dnsZoneKey zone, snd (snd (record_key host zone))) (set (dp_desired p))"
  proof (cases "(dnsZoneKey zone, snd (snd (record_key host zone))) \<in> set (dp_desired p)")
    case True
    then show ?thesis using eff e assms(6) by (auto simp: all_desired_good_def good_at_def)
  next
    case False
    have same: "z = zone" if "z \<in> set zones" "dnsZoneKey z = dnsZoneKey zone" for z
      using assms(3,4) that by (auto dest: inj_onD)
    have "recs c' = recs c \<and> good_at recs owner publicIP c (record_key host zone) \<or>
        written recs owner publicIP (record_key host zone) c c'"
      using eff False e by (simp add: good_at_def)
    then have new: "good_at recs owner publicIP c' (record_key host zone)"
      and old: "\<And>j. good_at recs owner publicIP c j \<Longrightarrow> good_at recs owner publicIP c' j"
      using written_good [of recs owner publicIP "record_key host zone" c c'] unfolding good_at_def by metis+
    have set: "set (dp_desired p') = insert (dnsZoneKey zone, snd (snd (record_key host zone))) (set (dp_desired p))"
      using eff False by simp
    have "good_at recs owner publicIP c' (zn_ResourceGroup z, zn_Name z, n)"
      if "z \<in> set zones" "(dnsZoneKey z, n) \<in> set (dp_desired p')" for z n
    proof (cases "(dnsZoneKey z, n) \<in> set (dp_desired p)")
      case True
      then show ?thesis using assms(6) that(1) old by (simp add: all_desired_good_def)
    next
      case False
      with that set have "z = zone" "n = snd (snd (record_key host zone))" using same by auto
      then show ?thesis using new record_key_zone [of host zone] by simp
    qed
    then show ?thesis using set by (simp add: all_desired_good_def)
  qed
qed

lemma reconcileRecords_effect:
  assumes "dns_contract az recs" "owner \<noteq> []" "inj_on dnsZoneKey (set zones)"
  shows "reconcileRecords az owner publicIP zones routes p c = ((e, p'), c') \<Longrightarrow>
    all_desired_good recs owner publicIP zones (set (dp_desired p)) c \<Longrightarrow>
    unowned_kept recs owner c c' \<and>
    (e = None \<longrightarrow> all_desired_good recs owner publicIP zones (set (dp_desired p')) c' \<and>
       set (dp_desired p') = set (dp_desired p) \<union> (\<Union>route \<in> set routes. desired_pair zones route))"
proof (induction routes arbitrary: p c)
  case Nil
  then show ?case by auto
next
  case (Cons route routes)
  show ?case
  proof (cases "selectDNSZone (rc_Host route) zones")
    case None
    let ?p = "p\<lparr>dp_warnings := dp_warnings p @ [''host '' @ rc_Host route @ '' is outside all configured DNS zones'']\<rparr>"
    from Cons.prems(1) None have "reconcileRecords az owner publicIP zones routes ?p c = ((e, p'), c')" by simp
    note ih = Cons.IH [OF this, simplified, OF Cons.prems(2)]
    moreover have "desired_pair zones route = {}" using None by (simp add: desired_pair_def)
    ultimately show ?thesis by (auto simp only: list.set image_insert Union_insert Un_empty_left)
  next
    case (Some zone)
    obtain e1 p1 c1 where one: "reconcileRecord az owner publicIP (rc_Host route) zone p c = ((e1, p1), c1)"
      by (metis prod.collapse)
    note step = reconcileRecord_step [OF assms selectDNSZone_in [OF Some] one Cons.prems(2)]
    show ?thesis
    proof (cases e1)
      case None
      with Cons.prems(1) Some one have "reconcileRecords az owner publicIP zones routes p1 c1 = ((e, p'), c')" by simp
      from Cons.IH [OF this] step None Some show ?thesis by (auto simp: desired_pair_def dest: kept_trans)
    next
      case s: (Some msg)
      with Cons.prems(1) Some one step show ?thesis by auto
    qed
  qed
qed

section \<open>Cleaning up a zone\<close>

definition zone_key :: "AzureDNSZoneConfig \<Rightarrow> string \<Rightarrow> dns_key" where
  "zone_key zone n = (zn_ResourceGroup zone, zn_Name zone, n)"

text \<open>Records may disappear, but only owned ones of the zone that are not desired.\<close>

definition shrinks :: "('c \<Rightarrow> dns_key \<rightharpoonup> RecordSet) \<Rightarrow> string \<Rightarrow> AzureDNSZoneConfig \<Rightarrow> string set \<Rightarrow> 'c \<Rightarrow> 'c \<Rightarrow> bool" where
  "shrinks recs owner zone desired c c' \<longleftrightarrow>
     (\<forall>k. recs c' k = recs c k \<or>
        recs c' k = None \<and> (\<exists>n y. k = zone_key zone n \<and> n \<notin> desired \<and> recs c k = Some y \<and> ownsDNSRecord owner (Some y)))"

lemma shrinks_refl [simp]: "recs c' = recs c \<Longrightarrow> shrinks recs owner zone desired c c'"
  by (simp add: shrinks_def)

lemma shrinks_trans: "shrinks recs owner zone desired c c1 \<Longrightarrow> shrinks recs owner zone desired c1 c' \<Longrightarrow> shrinks recs owner zone desired c c'"
  unfolding shrinks_def by (metis (no_types))

lemma shrinks_kept: "shrinks recs owner zone desired c c' \<Longrightarrow> unowned_kept recs owner c c'"
  unfolding shrinks_def unowned_kept_def by (metis option.distinct(1) option.inject)

lemma shrinks_back: "shrinks recs owner zone desired c c' \<Longrightarrow> recs c' k = Some x \<Longrightarrow> recs c k = Some x"
  unfolding shrinks_def by (metis option.distinct(1))

text \<open>A listed record is still stored under its name, or nothing is.\<close>

definition listed :: "('c \<Rightarrow> dns_key \<rightharpoonup> RecordSet) \<Rightarrow> AzureDNSZoneConfig \<Rightarrow> RecordSet option set \<Rightarrow> 'c \<Rightarrow> bool" where
  "listed recs zone xs c \<longleftrightarrow>
     (\<forall>x n. Some x \<in> xs \<longrightarrow> recordSetRelativeName (Some x) = Some n \<longrightarrow> recs c (zone_key zone n) = Some x \<or> recs c (zone_key zone n) = None)"

lemma listed_shrinks: "listed recs zone xs c \<Longrightarrow> shrinks recs owner zone desired c c' \<Longrightarrow> listed recs zone xs c'"
  unfolding listed_def shrinks_def by metis

text \<open>What a finished loop over \<open>xs\<close> guarantees: no owned record of \<open>xs\<close> outside the desired names is left.\<close>

definition cleaned :: "('c \<Rightarrow> dns_key \<rightharpoonup> RecordSet) \<Rightarrow> string \<Rightarrow> AzureDNSZoneConfig \<Rightarrow> string set \<Rightarrow> RecordSet option set \<Rightarrow> 'c \<Rightarrow> bool" where
  "cleaned recs owner zone desired xs c \<longleftrightarrow>
     (\<forall>x n. Some x \<in> xs \<longrightarrow> ownsDNSRecord owner (Some x) \<longrightarrow> recordSetRelativeName (Some x) = Some n \<longrightarrow> n \<notin> desired \<longrightarrow>
        recs c (zone_key zone n) = None)"

lemma cleaned_shrinks: "cleaned recs owner zone desired xs c \<Longrightarrow> shrinks recs owner zone desired c c' \<Longrightarrow> cleaned recs owner zone desired xs c'"
  unfolding cleaned_def shrinks_def by (metis option.distinct(1))

lemma cleaned_insert: "cleaned recs owner zone desired xs c \<Longrightarrow>
    (\<And>r n. x = Some r \<Longrightarrow> ownsDNSRecord owner x \<Longrightarrow> recordSetRelativeName x = Some n \<Longrightarrow> n \<notin> desired \<Longrightarrow> recs c (zone_key zone n) = None) \<Longrightarrow>
    cleaned recs owner zone desired (insert x xs) c"
  unfolding cleaned_def by auto

lemma delete_shrinks:
  assumes "dns_contract az recs" "dns_Delete az (zn_ResourceGroup zone) (zn_Name zone) n options c = (e, c')"
    and "n \<notin> desired" "recs c (zone_key zone n) = Some x \<or> recs c (zone_key zone n) = None" "ownsDNSRecord owner (Some x)"
  shows "shrinks recs owner zone desired c c'"
    and "(case e of None \<Rightarrow> True | Some err \<Rightarrow> isNotFound err) \<Longrightarrow> recs c' (zone_key zone n) = None"
proof -
  note del = delete_contract [OF assms(1,2), folded zone_key_def]
  have "recs c' = recs c \<or> recs c' = (recs c)(zone_key zone n := None)" using del by blast
  then show "shrinks recs owner zone desired c c'"
  proof
    assume eq: "recs c' = (recs c)(zone_key zone n := None)"
    show ?thesis unfolding shrinks_def
    proof
      fix k
      show "recs c' k = recs c k \<or> recs c' k = None \<and>
          (\<exists>n y. k = zone_key zone n \<and> n \<notin> desired \<and> recs c k = Some y \<and> ownsDNSRecord owner (Some y))"
        using assms(3-5) eq by (cases "k = zone_key zone n") auto
    qed
  qed simp
  show "(case e of None \<Rightarrow> True | Some err \<Rightarrow> isNotFound err) \<Longrightarrow> recs c' (zone_key zone n) = None"
    using del by (auto split: option.splits)
qed

lemma cleanupRecords_effect:
  assumes "dns_contract az recs"
  shows "cleanupRecords az owner zone desired xs d w c = ((e, d', w'), c') \<Longrightarrow> listed recs zone (set xs) c \<Longrightarrow>
    shrinks recs owner zone desired c c' \<and> (e = None \<longrightarrow> cleaned recs owner zone desired (set xs) c')"
proof (induction xs arbitrary: d w c)
  case Nil
  then show ?case by (auto simp: cleaned_def)
next
  case (Cons rcd rest)
  have rest: "listed recs zone (set rest) c" using Cons.prems(2) by (simp add: listed_def)
  show ?case
  proof (cases "ownsDNSRecord owner rcd \<and> recordSetRelativeName rcd \<noteq> None \<and> the (recordSetRelativeName rcd) \<notin> desired")
    case False
    then obtain d1 w1 where "cleanupRecords az owner zone desired rest d1 w1 c = ((e, d', w'), c')"
      using Cons.prems(1) by (auto split: option.splits if_splits)
    from Cons.IH [OF this rest] False show ?thesis by (auto intro: cleaned_insert)
  next
    case True
    then obtain x n where x: "rcd = Some x" "recordSetRelativeName (Some x) = Some n" "n \<notin> desired" "ownsDNSRecord owner (Some x)"
      by (cases rcd) (auto simp: recordSetRelativeName_def)
    have stored: "recs c (zone_key zone n) = Some x \<or> recs c (zone_key zone n) = None" using Cons.prems(2) x by (simp add: listed_def)
    show ?thesis
    proof (cases "dr_Etag x = None \<or> dr_Etag x = Some []")
      case True
      then show ?thesis using Cons.prems(1) x by auto
    next
      case tagged: False
      obtain err c1 where del: "dns_Delete az (zn_ResourceGroup zone) (zn_Name zone) n (IfMatch (dr_Etag x)) c = (err, c1)" by fastforce
      note sh = delete_shrinks [OF assms del x(3) stored x(4)]
      show ?thesis
      proof (cases "case err of None \<Rightarrow> True | Some e \<Rightarrow> isNotFound e")
        case True
        with Cons.prems(1) x tagged del have "cleanupRecords az owner zone desired rest (d + 1) w c1 = ((e, d', w'), c')"
          by (auto split: option.splits)
        note ih = Cons.IH [OF this listed_shrinks [OF rest sh(1)]]
        have gone: "recs c' (zone_key zone n) = None" using sh(2) [OF True] ih by (metis shrinks_def option.distinct(1))
        show ?thesis using ih sh(1) gone x(1,2) by (auto intro: shrinks_trans cleaned_insert)
      next
        case False
        with Cons.prems(1) x tagged del sh(1) show ?thesis by (auto split: option.splits)
      qed
    qed
  qed
qed

definition page_records :: "(azure_error + RecordSet option list) list \<Rightarrow> RecordSet option set" where
  "page_records pages = {x. \<exists>page. Inr page \<in> set pages \<and> x \<in> set page}"

lemma page_records_simps [simp]:
  "page_records [] = {}" "page_records (Inl e # pages) = page_records pages"
  "page_records (Inr page # pages) = set page \<union> page_records pages"
  by (auto simp: page_records_def)

lemma listed_Un: "listed recs zone (xs \<union> ys) c \<longleftrightarrow> listed recs zone xs c \<and> listed recs zone ys c"
  by (simp only: listed_def Un_iff imp_disjL all_conj_distrib)

lemma cleaned_Un: "cleaned recs owner zone desired (xs \<union> ys) c \<longleftrightarrow>
    cleaned recs owner zone desired xs c \<and> cleaned recs owner zone desired ys c"
  by (auto simp: cleaned_def)

lemma cleanupPages_effect:
  assumes "dns_contract az recs"
  shows "cleanupPages az owner zone desired pages d w c = ((e, d', w'), c') \<Longrightarrow> listed recs zone (page_records pages) c \<Longrightarrow>
    shrinks recs owner zone desired c c' \<and>
    (e = None \<longrightarrow> (\<forall>err. Inl err \<notin> set pages) \<and> cleaned recs owner zone desired (page_records pages) c')"
proof (induction pages arbitrary: d w c)
  case Nil
  then show ?case by (auto simp: cleaned_def)
next
  case (Cons page pages)
  show ?case
  proof (cases page)
    case (Inl err)
    with Cons.prems show ?thesis by auto
  next
    case (Inr xs)
    obtain e1 d1 w1 c1 where one: "cleanupRecords az owner zone desired xs d w c = ((e1, d1, w1), c1)" by (metis prod.collapse)
    have l: "listed recs zone (set xs) c" "listed recs zone (page_records pages) c" using Cons.prems(2) Inr by (simp_all add: listed_Un)
    note eff = cleanupRecords_effect [OF assms one l(1)]
    show ?thesis
    proof (cases e1)
      case None
      with Cons.prems(1) Inr one have "cleanupPages az owner zone desired pages d1 w1 c1 = ((e, d', w'), c')" by simp
      from Cons.IH [OF this] eff None l(2) Inr show ?thesis
        by (auto simp: cleaned_Un intro: shrinks_trans cleaned_shrinks listed_shrinks)
    next
      case (Some m)
      with Cons.prems(1) Inr one eff show ?thesis by auto
    qed
  qed
qed

definition tidy :: "('c \<Rightarrow> dns_key \<rightharpoonup> RecordSet) \<Rightarrow> string \<Rightarrow> AzureDNSZoneConfig \<Rightarrow> string set \<Rightarrow> 'c \<Rightarrow> bool" where
  "tidy recs owner zone desired c \<longleftrightarrow>
     (\<forall>n x. recs c (zone_key zone n) = Some x \<longrightarrow> ownsDNSRecord owner (Some x) \<longrightarrow> n \<in> desired)"

lemma cleanupDNS_effect:
  assumes "dns_contract az recs" "cleanupDNS az owner zone desired c = ((e, d, w), c')"
  shows "shrinks recs owner zone desired c c' \<and> (e = None \<longrightarrow> tidy recs owner zone desired c')"
proof -
  obtain pages c1 where pages: "dns_Pages az (zn_ResourceGroup zone) (zn_Name zone) c = (pages, c1)"
    and run: "cleanupPages az owner zone desired pages 0 [] c1 = ((e, d, w), c')"
    using assms(2) by (auto simp: cleanupDNS_def split: prod.splits)
  note P = pages_contract [OF assms(1) pages, folded zone_key_def]
  have "listed recs zone (page_records pages) c1"
    unfolding listed_def page_records_def
  proof (intro allI impI)
    fix x n assume "Some x \<in> {x. \<exists>page. Inr page \<in> set pages \<and> x \<in> set page}" "recordSetRelativeName (Some x) = Some n"
    then show "recs c1 (zone_key zone n) = Some x \<or> recs c1 (zone_key zone n) = None" using P(1,2) by fastforce
  qed
  note eff = cleanupPages_effect [OF assms(1) run this]
  have "n \<in> desired" if "e = None" "recs c' (zone_key zone n) = Some x" "ownsDNSRecord owner (Some x)" for n x
  proof (rule ccontr)
    assume "n \<notin> desired"
    have "recs c (zone_key zone n) = Some x" using shrinks_back [of recs owner zone desired c1 c'] eff that(2) P(1) by simp
    then have "recordSetRelativeName (Some x) = Some n" "Some x \<in> page_records pages"
      using P(3) eff that(1) by (auto simp: page_records_def)
    then show False using eff that \<open>n \<notin> desired\<close> by (auto simp: cleaned_def)
  qed
  then show ?thesis using eff P(1) by (auto simp: tidy_def shrinks_def)
qed

lemma desired_in_iff: "n \<in> desired_in p zone \<longleftrightarrow> (dnsZoneKey zone, n) \<in> set (dp_desired p)"
  by (force simp: desired_in_def)

lemma zone_key_eq: "zone_key z n = zone_key z' n' \<Longrightarrow> n = n' \<and> dnsZoneKey z = dnsZoneKey z'"
  by (simp add: zone_key_def dnsZoneKey_def)

lemma shrinks_good:
  assumes "shrinks recs owner zone (desired_in p zone) c c'" "all_desired_good recs owner publicIP zones (set (dp_desired p)) c"
  shows "all_desired_good recs owner publicIP zones (set (dp_desired p)) c'"
proof -
  have "good_at recs owner publicIP c' (zone_key z n)" if "z \<in> set zones" "(dnsZoneKey z, n) \<in> set (dp_desired p)" for z n
  proof -
    have "good_at recs owner publicIP c (zone_key z n)" using assms(2) that by (simp add: all_desired_good_def zone_key_def)
    moreover have "recs c' (zone_key z n) = recs c (zone_key z n)"
      using assms(1) that(2) unfolding shrinks_def by (metis desired_in_iff zone_key_eq)
    ultimately show ?thesis by (simp add: good_at_def)
  qed
  then show ?thesis by (simp add: all_desired_good_def zone_key_def)
qed

lemma cleanupZones_effect:
  assumes "dns_contract az recs"
  shows "cleanupZones az owner rest p c = ((e, p'), c') \<Longrightarrow>
    unowned_kept recs owner c c' \<and> dp_desired p' = dp_desired p \<and> (\<forall>k x. recs c' k = Some x \<longrightarrow> recs c k = Some x) \<and>
    (all_desired_good recs owner publicIP zones (set (dp_desired p)) c \<longrightarrow> all_desired_good recs owner publicIP zones (set (dp_desired p)) c') \<and>
    (e = None \<longrightarrow> (\<forall>zone \<in> set rest. tidy recs owner zone (desired_in p zone) c'))"
proof (induction rest arbitrary: p c)
  case Nil
  then show ?case by auto
next
  case (Cons zone rest)
  obtain e1 d1 w1 c1 where one: "cleanupDNS az owner zone (desired_in p zone) c = ((e1, d1, w1), c1)" by (metis prod.collapse)
  note eff = cleanupDNS_effect [OF assms one]
  let ?p = "p\<lparr>dp_deleted := dp_deleted p + d1, dp_warnings := dp_warnings p @ w1\<rparr>"
  have here: "unowned_kept recs owner c c1" "\<forall>k x. recs c1 k = Some x \<longrightarrow> recs c k = Some x"
    using shrinks_kept [OF conjunct1 [OF eff]] shrinks_back [OF conjunct1 [OF eff]] by auto
  note good = shrinks_good [OF conjunct1 [OF eff], of publicIP zones]
  show ?case
  proof (cases e1)
    case None
    with Cons.prems one have "cleanupZones az owner rest ?p c1 = ((e, p'), c')" by (simp add: Let_def)
    note ih = Cons.IH [OF this]
    have "desired_in ?p = desired_in p" by (simp add: fun_eq_iff desired_in_def)
    moreover have "tidy recs owner zone (desired_in p zone) c'" using eff None ih unfolding tidy_def by blast
    ultimately show ?thesis using ih here good by (auto intro: kept_trans)
  next
    case (Some m)
    with Cons.prems one here good show ?thesis by (auto simp: Let_def)
  qed
qed

section \<open>The whole DNS reconciliation\<close>

lemma appendZone_names: "distinct (map zn_Name zs) \<Longrightarrow> distinct (map zn_Name (appendZone g zs z))"
  by (simp add: appendZone_def Let_def)

lemma configuredDNSZones_distinct: "distinct (map zn_Name (configuredDNSZones cfg))"
proof -
  have "distinct (map zn_Name zs) \<Longrightarrow> distinct (map zn_Name (foldl (appendZone g) zs ys))" for g zs ys
    by (induction ys arbitrary: zs) (auto simp: appendZone_names)
  then show ?thesis by (simp add: configuredDNSZones_def Let_def appendZone_names)
qed

text \<open>Zone names without a zero byte have distinct keys.\<close>

lemma dnsZoneKey_inj:
  assumes "\<forall>z \<in> set zones. CHR 0x00 \<notin> set (zn_Name z)" "distinct (map zn_Name zones)"
  shows "inj_on dnsZoneKey (set zones)"
proof (rule inj_onI)
  fix y z assume yz: "y \<in> set zones" "z \<in> set zones" "dnsZoneKey y = dnsZoneKey z"
  have "takeWhile (\<lambda>c. c \<noteq> CHR 0x00) (rev (dnsZoneKey x)) = rev (zn_Name x)" if "x \<in> set zones" for x
    using assms(1) that unfolding dnsZoneKey_def rev_append by (subst append_assoc, subst takeWhile_append2) auto
  then have "zn_Name y = zn_Name z" using yz by (metis rev_is_rev_conv)
  then show "y = z" using assms(2) yz(1,2) by (auto simp: distinct_map dest: inj_onD)
qed

lemma reconcileRecords_kept:
  assumes "dns_contract az recs" "owner \<noteq> []"
  shows "reconcileRecords az owner publicIP zones routes p c = ((e, p'), c') \<Longrightarrow> unowned_kept recs owner c c'"
proof (induction routes arbitrary: p c)
  case (Cons route routes)
  show ?case
  proof (cases "selectDNSZone (rc_Host route) zones")
    case None
    with Cons.prems show ?thesis by (auto intro: Cons.IH)
  next
    case (Some zone)
    obtain e1 p1 c1 where one: "reconcileRecord az owner publicIP (rc_Host route) zone p c = ((e1, p1), c1)"
      by (metis prod.collapse)
    have kept: "unowned_kept recs owner c c1"
      using reconcileRecord_effect [OF assms one] by (auto split: if_splits intro: written_kept)
    show ?thesis
    proof (cases e1)
      case None
      with Cons.prems Some one have "reconcileRecords az owner publicIP zones routes p1 c1 = ((e, p'), c')" by simp
      from kept_trans [OF kept Cons.IH [OF this]] show ?thesis .
    next
      case s: (Some msg)
      with Cons.prems Some one kept show ?thesis by simp
    qed
  qed
qed simp

lemma reconcileDNS_kept:
  assumes "dns_contract az recs" "reconcileDNS az m routes publicIP c = ((e, p), c')"
  shows "unowned_kept recs (mg_instanceID m) c c'"
proof (cases "mg_dns m \<and> mg_instanceID m \<noteq> [] \<and> configuredDNSZones (ap_Azure (mg_cfg m)) \<noteq> []")
  case False
  then show ?thesis using assms(2) by (auto simp: reconcileDNS_def Let_def split: if_splits)
next
  case True
  obtain e1 p1 c1 where one: "reconcileRecords az (mg_instanceID m) publicIP (configuredDNSZones (ap_Azure (mg_cfg m))) routes no_progress c = ((e1, p1), c1)"
    by (metis prod.collapse)
  have kept: "unowned_kept recs (mg_instanceID m) c c1" using reconcileRecords_kept [OF assms(1) _ one] True by blast
  show ?thesis
  proof (cases e1)
    case None
    with assms(2) True one have "cleanupZones az (mg_instanceID m) (configuredDNSZones (ap_Azure (mg_cfg m))) p1 c1 = ((e, p), c')"
      by (simp add: reconcileDNS_def Let_def)
    from kept_trans [OF kept] cleanupZones_effect [OF assms(1) this, of undefined "[]"] show ?thesis by blast
  next
    case (Some msg)
    with assms(2) True one kept show ?thesis by (auto simp: reconcileDNS_def Let_def)
  qed
qed

lemma reconcileDNS_success:
  assumes "dns_contract az recs" "inj_on dnsZoneKey (set (configuredDNSZones (ap_Azure (mg_cfg m))))"
    and "reconcileDNS az m routes publicIP c = ((None, p), c')" "mg_dns m"
  shows "all_desired_good recs (mg_instanceID m) publicIP (configuredDNSZones (ap_Azure (mg_cfg m))) (set (dp_desired p)) c' \<and>
    set (dp_desired p) = (\<Union>route \<in> set routes. desired_pair (configuredDNSZones (ap_Azure (mg_cfg m))) route) \<and>
    (\<forall>zone \<in> set (configuredDNSZones (ap_Azure (mg_cfg m))). tidy recs (mg_instanceID m) zone (desired_in p zone) c')"
proof -
  let ?zones = "configuredDNSZones (ap_Azure (mg_cfg m))" and ?owner = "mg_instanceID m"
  have start: "all_desired_good recs ?owner publicIP ?zones (set (dp_desired no_progress)) c"
    by (simp add: all_desired_good_def no_progress_def)
  obtain e1 p1 c1 where one: "reconcileRecords az ?owner publicIP ?zones routes no_progress c = ((e1, p1), c1)" by (metis prod.collapse)
  have owner: "?owner \<noteq> []" and e1: "e1 = None" and clean: "cleanupZones az ?owner ?zones p1 c1 = ((None, p), c')"
    using assms(3,4) one by (auto simp: reconcileDNS_def Let_def split: if_splits option.splits)
  note eff = reconcileRecords_effect [OF assms(1) owner assms(2) one start]
  note cl = cleanupZones_effect [OF assms(1) clean, of publicIP ?zones]
  have "desired_in p = desired_in p1" using cl by (simp add: fun_eq_iff desired_in_def)
  then show ?thesis using cl eff e1 by (auto simp: no_progress_def)
qed

section \<open>Running it again\<close>

lemma reconcileRecord_good:
  assumes "dns_contract az recs" "reconcileRecord az owner publicIP host zone p c = ((e, p'), c')"
    and "good_at recs owner publicIP c (record_key host zone)"
  shows "recs c' = recs c \<and> (e = None \<longrightarrow> set (dp_desired p') = insert (dnsZoneKey zone, snd (snd (record_key host zone))) (set (dp_desired p)))"
proof -
  define name where "name = (case relativeRecordName host (zn_Name zone) of Some n \<Rightarrow> n | None \<Rightarrow> [])"
  have key: "record_key host zone = (zn_ResourceGroup zone, zn_Name zone, name)" by (simp add: record_key_def name_def)
  note unfolded = assms(2) [unfolded reconcileRecord_def, folded name_def, unfolded Let_def]
  obtain r c1 where r: "dns_Get az (zn_ResourceGroup zone) (zn_Name zone) name c = (r, c1)" by fastforce
  note got = get_contract [OF assms(1) r]
  obtain x where x: "recs c (zn_ResourceGroup zone, zn_Name zone, name) = Some x" "ownsDNSRecord owner (Some x)" "up_to_date publicIP x"
    using assms(3) by (auto simp: good_at_def good_record_def key)
  show ?thesis using unfolded r got x by (cases r) (auto simp: key split: if_splits)
qed

lemma reconcileRecords_again:
  assumes "dns_contract az recs"
  shows "reconcileRecords az owner publicIP zones routes p c = ((e, p'), c') \<Longrightarrow>
    \<forall>route \<in> set routes. \<forall>zone. selectDNSZone (rc_Host route) zones = Some zone \<longrightarrow>
      good_at recs owner publicIP c (record_key (rc_Host route) zone) \<Longrightarrow>
    recs c' = recs c \<and>
    (e = None \<longrightarrow> set (dp_desired p') = set (dp_desired p) \<union> (\<Union>route \<in> set routes. desired_pair zones route))"
proof (induction routes arbitrary: p c)
  case (Cons route routes)
  show ?case
  proof (cases "selectDNSZone (rc_Host route) zones")
    case None
    let ?p = "p\<lparr>dp_warnings := dp_warnings p @ [''host '' @ rc_Host route @ '' is outside all configured DNS zones'']\<rparr>"
    from Cons.prems(1) None have "reconcileRecords az owner publicIP zones routes ?p c = ((e, p'), c')" by simp
    note ih = Cons.IH [OF this]
    have "desired_pair zones route = {}" using None by (simp add: desired_pair_def)
    then show ?thesis using ih Cons.prems(2) by simp
  next
    case (Some zone)
    obtain e1 p1 c1 where one: "reconcileRecord az owner publicIP (rc_Host route) zone p c = ((e1, p1), c1)"
      by (metis prod.collapse)
    have "good_at recs owner publicIP c (record_key (rc_Host route) zone)" using Cons.prems(2) Some by simp
    note good = reconcileRecord_good [OF assms one this]
    show ?thesis
    proof (cases e1)
      case None
      with Cons.prems(1) Some one have rest: "reconcileRecords az owner publicIP zones routes p1 c1 = ((e, p'), c')" by simp
      have "\<forall>route \<in> set routes. \<forall>zone. selectDNSZone (rc_Host route) zones = Some zone \<longrightarrow>
          good_at recs owner publicIP c1 (record_key (rc_Host route) zone)"
        using Cons.prems(2) good by (simp add: good_at_def)
      from Cons.IH [OF rest this] good None Some show ?thesis by (auto simp: desired_pair_def)
    next
      case s: (Some msg)
      with Cons.prems(1) Some one good show ?thesis by auto
    qed
  qed
qed auto

lemma shrinks_tidy: "shrinks recs owner zone desired c c' \<Longrightarrow> tidy recs owner zone desired c \<Longrightarrow> recs c' = recs c"
  unfolding shrinks_def tidy_def by (metis ext)

lemma cleanupZones_again:
  assumes "dns_contract az recs"
  shows "cleanupZones az owner rest p c = ((e, p'), c') \<Longrightarrow> \<forall>zone \<in> set rest. tidy recs owner zone (desired_in p zone) c \<Longrightarrow>
    recs c' = recs c"
proof (induction rest arbitrary: p c)
  case (Cons zone rest)
  obtain e1 d1 w1 c1 where one: "cleanupDNS az owner zone (desired_in p zone) c = ((e1, d1, w1), c1)" by (metis prod.collapse)
  have same: "recs c1 = recs c" using shrinks_tidy [OF conjunct1 [OF cleanupDNS_effect [OF assms one]]] Cons.prems(2) by simp
  let ?p = "p\<lparr>dp_deleted := dp_deleted p + d1, dp_warnings := dp_warnings p @ w1\<rparr>"
  have des: "desired_in ?p = desired_in p" by (simp add: fun_eq_iff desired_in_def)
  have tidy1: "\<forall>zone \<in> set rest. tidy recs owner zone (desired_in ?p zone) c1" using Cons.prems(2) same unfolding des by (simp add: tidy_def)
  show ?case
  proof (cases e1)
    case None
    with Cons.prems(1) one have "cleanupZones az owner rest ?p c1 = ((e, p'), c')" by (simp add: Let_def)
    from Cons.IH [OF this tidy1] same show ?thesis by simp
  next
    case (Some msg)
    with Cons.prems(1) one same show ?thesis by (simp add: Let_def)
  qed
qed simp

lemma reconcileDNS_again:
  assumes "dns_contract az recs" "inj_on dnsZoneKey (set (configuredDNSZones (ap_Azure (mg_cfg m))))" "mg_dns m"
    and "reconcileDNS az m routes publicIP c = ((None, p), c1)" "reconcileDNS az m routes publicIP c1 = ((e, p2), c2)"
  shows "recs c2 = recs c1"
proof -
  let ?zones = "configuredDNSZones (ap_Azure (mg_cfg m))" and ?owner = "mg_instanceID m"
  note ok = reconcileDNS_success [OF assms(1,2,4,3)]
  have good: "\<forall>route \<in> set routes. \<forall>zone. selectDNSZone (rc_Host route) ?zones = Some zone \<longrightarrow>
      good_at recs ?owner publicIP c1 (record_key (rc_Host route) zone)"
  proof (intro ballI allI impI)
    fix route zone assume r: "route \<in> set routes" "selectDNSZone (rc_Host route) ?zones = Some zone"
    then have "(dnsZoneKey zone, snd (snd (record_key (rc_Host route) zone))) \<in> set (dp_desired p)"
      using ok by (force simp: desired_pair_def)
    then have "good_at recs ?owner publicIP c1 (zn_ResourceGroup zone, zn_Name zone, snd (snd (record_key (rc_Host route) zone)))"
      using ok selectDNSZone_in [OF r(2)] unfolding all_desired_good_def by blast
    then show "good_at recs ?owner publicIP c1 (record_key (rc_Host route) zone)"
      by (subst record_key_zone)
  qed
  obtain e1 p1 c' where one: "reconcileRecords az ?owner publicIP ?zones routes no_progress c1 = ((e1, p1), c')" by (metis prod.collapse)
  note again = reconcileRecords_again [OF assms(1) one good]
  show ?thesis
  proof (cases "?owner = [] \<or> ?zones = [] \<or> e1 \<noteq> None")
    case True
    then show ?thesis using assms(3,5) one again by (auto simp: reconcileDNS_def Let_def split: if_splits option.splits)
  next
    case False
    then have clean: "cleanupZones az ?owner ?zones p1 c' = ((e, p2), c2)"
      using assms(3,5) one by (simp add: reconcileDNS_def Let_def)
    have "set (dp_desired p1) = set (dp_desired p)" using again ok False by (simp add: no_progress_def)
    then have "desired_in p1 zone = desired_in p zone" for zone by (auto simp: desired_in_iff)
    then have "\<forall>zone \<in> set ?zones. tidy recs ?owner zone (desired_in p1 zone) c'" using ok again by (simp add: tidy_def)
    from cleanupZones_again [OF assms(1) clean this] again show ?thesis by simp
  qed
qed

end
