(* ===== verification/AzureProperties.thy ===== *)
theory AzureProperties
  imports AzureFacts CaddyProperties "HOL-Library.Code_Target_Numeral"
begin

text \<open>
  The properties of the Azure reconciliation, under the contract of the service, and a small service that
  meets the contract: a list of records and a list of rules, with entity tags that count the writes.
\<close>

section \<open>The contract of both services\<close>

type_synonym nsg_key = "string \<times> string \<times> string"

text \<open>A rule operation touches only the rule it names; one that reports no error has taken effect.\<close>

definition nsg_contract :: "'c AzureClients \<Rightarrow> ('c \<Rightarrow> nsg_key \<rightharpoonup> SecurityRuleProperties option) \<Rightarrow> bool" where
  "nsg_contract az rules \<longleftrightarrow>
     (\<forall>rg g n c r c'. nsg_Get az rg g n c = (r, c') \<longrightarrow> rules c' = rules c \<and>
        (case r of Inr x \<Rightarrow> rules c (rg, g, n) = Some x | Inl e \<Rightarrow> isNotFound e \<longrightarrow> rules c (rg, g, n) = None)) \<and>
     (\<forall>rg g n p c e c'. nsg_CreateOrUpdate az rg g n p c = (e, c') \<longrightarrow>
        (e \<noteq> (None, None) \<and> rules c' = rules c) \<or> rules c' = (rules c)((rg, g, n) \<mapsto> Some p)) \<and>
     (\<forall>rg g n c e c'. nsg_Delete az rg g n c = (e, c') \<longrightarrow>
        ((e \<noteq> (None, None) \<and> rules c' = rules c) \<or> rules c' = (rules c)((rg, g, n) := None)) \<and>
        (\<forall>x. (fst e = Some x \<or> fst e = None \<and> snd e = Some x) \<longrightarrow> isNotFound x \<longrightarrow> rules c' (rg, g, n) = None))"

lemma nsg_get:
  assumes "nsg_contract az rules" "nsg_Get az rg g n c = (r, c')"
  shows "rules c' = rules c" "r = Inr x \<Longrightarrow> rules c (rg, g, n) = Some x"
    "r = Inl e \<Longrightarrow> isNotFound e \<Longrightarrow> rules c (rg, g, n) = None"
proof -
  have *: "rules c' = rules c \<and> (case r of Inr x \<Rightarrow> rules c (rg, g, n) = Some x | Inl e \<Rightarrow> isNotFound e \<longrightarrow> rules c (rg, g, n) = None)"
    using assms(1) [unfolded nsg_contract_def, THEN conjunct1, rule_format, OF assms(2)] .
  show "rules c' = rules c" "r = Inr x \<Longrightarrow> rules c (rg, g, n) = Some x"
    "r = Inl e \<Longrightarrow> isNotFound e \<Longrightarrow> rules c (rg, g, n) = None" using * by auto
qed

lemma nsg_put:
  assumes "nsg_contract az rules" "nsg_CreateOrUpdate az rg g n p c = (e, c')"
  shows "(e \<noteq> (None, None) \<and> rules c' = rules c) \<or> rules c' = (rules c)((rg, g, n) \<mapsto> Some p)"
  using assms(1) [unfolded nsg_contract_def, THEN conjunct2, THEN conjunct1, rule_format, OF assms(2)] .

lemma nsg_del:
  assumes "nsg_contract az rules" "nsg_Delete az rg g n c = (e, c')"
  shows "(e \<noteq> (None, None) \<and> rules c' = rules c) \<or> rules c' = (rules c)((rg, g, n) := None)"
    and "fst e = Some x \<or> fst e = None \<and> snd e = Some x \<Longrightarrow> isNotFound x \<Longrightarrow> rules c' (rg, g, n) = None"
proof -
  have *: "((e \<noteq> (None, None) \<and> rules c' = rules c) \<or> rules c' = (rules c)((rg, g, n) := None)) \<and>
      (\<forall>x. (fst e = Some x \<or> fst e = None \<and> snd e = Some x) \<longrightarrow> isNotFound x \<longrightarrow> rules c' (rg, g, n) = None)"
    using assms(1) [unfolded nsg_contract_def, THEN conjunct2, THEN conjunct2, rule_format, OF assms(2)] by blast
  show "(e \<noteq> (None, None) \<and> rules c' = rules c) \<or> rules c' = (rules c)((rg, g, n) := None)"
    using * by (rule conjunct1)
  show "fst e = Some x \<or> fst e = None \<and> snd e = Some x \<Longrightarrow> isNotFound x \<Longrightarrow> rules c' (rg, g, n) = None"
    using * by blast
qed

text \<open>The two services do not touch each other's resources.\<close>

definition apart :: "'c AzureClients \<Rightarrow> ('c \<Rightarrow> dns_key \<rightharpoonup> RecordSet) \<Rightarrow> ('c \<Rightarrow> nsg_key \<rightharpoonup> SecurityRuleProperties option) \<Rightarrow> bool" where
  "apart az recs rules \<longleftrightarrow>
     (\<forall>a b n c. rules (snd (dns_Get az a b n c)) = rules c) \<and>
     (\<forall>a b n p q c. rules (snd (dns_CreateOrUpdate az a b n p q c)) = rules c) \<and>
     (\<forall>a b n q c. rules (snd (dns_Delete az a b n q c)) = rules c) \<and>
     (\<forall>a b c. rules (snd (dns_Pages az a b c)) = rules c) \<and>
     (\<forall>a b n c. recs (snd (nsg_Get az a b n c)) = recs c) \<and>
     (\<forall>a b n p c. recs (snd (nsg_CreateOrUpdate az a b n p c)) = recs c) \<and>
     (\<forall>a b n c. recs (snd (nsg_Delete az a b n c)) = recs c)"

definition azure_contract :: "'c AzureClients \<Rightarrow> ('c \<Rightarrow> dns_key \<rightharpoonup> RecordSet) \<Rightarrow> ('c \<Rightarrow> nsg_key \<rightharpoonup> SecurityRuleProperties option) \<Rightarrow> bool" where
  "azure_contract az recs rules \<longleftrightarrow> dns_contract az recs \<and> nsg_contract az rules \<and> apart az recs rules"

definition rules_kept :: "('c \<Rightarrow> nsg_key \<rightharpoonup> SecurityRuleProperties option) \<Rightarrow> string \<Rightarrow> 'c \<Rightarrow> 'c \<Rightarrow> bool" where
  "rules_kept rules owner c c' \<longleftrightarrow> (\<forall>k r. rules c k = Some r \<longrightarrow> \<not> ownsNSGRule owner r \<longrightarrow> rules c' k = Some r)"

section \<open>Frames\<close>

lemma apart_dns:
  assumes "apart az recs rules"
  shows "dns_Get az a b n c = (r, c') \<Longrightarrow> rules c' = rules c"
    and "dns_CreateOrUpdate az a b n p q c = (x, c') \<Longrightarrow> rules c' = rules c"
    and "dns_Delete az a b n q c = (x, c') \<Longrightarrow> rules c' = rules c"
    and "dns_Pages az a b c = (y, c') \<Longrightarrow> rules c' = rules c"
    and "nsg_Get az a b n c = (z, c') \<Longrightarrow> recs c' = recs c"
    and "nsg_CreateOrUpdate az a b n w c = (v, c') \<Longrightarrow> recs c' = recs c"
    and "nsg_Delete az a b n c = (v, c') \<Longrightarrow> recs c' = recs c"
  using assms unfolding apart_def by (metis snd_conv)+

lemma writeRecord_rules:
  assumes "apart az recs rules" "writeRecord az owner ip host zone n q p c = (r, c')"
  shows "rules c' = rules c"
  using assms(2) apart_dns(2) [OF assms(1)] by (auto simp: writeRecord_def split: prod.splits option.splits)

lemma reconcileRecord_rules:
  assumes "apart az recs rules" "reconcileRecord az owner ip host zone p c = (r, c')"
  shows "rules c' = rules c"
proof (cases "dns_Get az (zn_ResourceGroup zone) (zn_Name zone) (case relativeRecordName host (zn_Name zone) of Some n \<Rightarrow> n | None \<Rightarrow> []) c")
  case (Pair q c1)
  have "rules c1 = rules c" by (rule apart_dns(1) [OF assms(1) Pair])
  moreover have "c' = c \<or> c' = c1 \<or> (\<exists>n o' p1. writeRecord az owner ip host zone n o' p1 c1 = (r, c'))"
    using assms(2) Pair unfolding reconcileRecord_def Let_def
    by (simp split: if_splits sum.splits; blast)
  ultimately show ?thesis using writeRecord_rules [OF assms(1)] by metis
qed

lemma reconcileRecords_rules:
  "apart az recs rules \<Longrightarrow> reconcileRecords az owner ip zones routes p c = (r, c') \<Longrightarrow> rules c' = rules c"
proof (induction routes arbitrary: p c)
  case (Cons route routes)
  show ?case
  proof (cases "selectDNSZone (rc_Host route) zones")
    case None
    with Cons show ?thesis by simp
  next
    case (Some zone)
    obtain e1 p1 c1 where one: "reconcileRecord az owner ip (rc_Host route) zone p c = ((e1, p1), c1)" by (metis prod.collapse)
    from reconcileRecord_rules [OF Cons.prems(1) one] Cons Some one show ?thesis by (cases e1) auto
  qed
qed simp

lemma cleanupRecords_rules:
  assumes "apart az recs rules"
  shows "cleanupRecords az owner zone desired xs d w c = (r, c') \<Longrightarrow> rules c' = rules c"
proof (induction xs arbitrary: d w c)
  case (Cons x xs)
  have "(\<exists>d1 w1. cleanupRecords az owner zone desired xs d1 w1 c = (r, c')) \<or> c' = c \<or>
      (\<exists>n q e c1. dns_Delete az (zn_ResourceGroup zone) (zn_Name zone) n q c = (e, c1) \<and>
         (c' = c1 \<or> (\<exists>d1 w1. cleanupRecords az owner zone desired xs d1 w1 c1 = (r, c'))))"
    using Cons.prems by (simp add: Let_def split: if_splits option.splits prod.splits; blast)
  then show ?case using Cons.IH apart_dns(3) [OF assms] by metis
qed simp

lemma cleanupPages_rules:
  "apart az recs rules \<Longrightarrow> cleanupPages az owner zone desired pages d w c = (r, c') \<Longrightarrow> rules c' = rules c"
proof (induction az owner zone desired pages d w c rule: cleanupPages.induct)
  case (3 az owner zone desired xs pages d w c)
  obtain e1 d1 w1 c1 where one: "cleanupRecords az owner zone desired xs d w c = ((e1, d1, w1), c1)" by (metis prod.collapse)
  from cleanupRecords_rules [OF 3(2) one] 3 one show ?case by (cases e1) auto
qed auto

lemma cleanupZones_rules:
  "apart az recs rules \<Longrightarrow> cleanupZones az owner zones p c = (r, c') \<Longrightarrow> rules c' = rules c"
proof (induction zones arbitrary: p c)
  case (Cons zone zones)
  obtain e1 d1 w1 c1 where one: "cleanupDNS az owner zone (desired_in p zone) c = ((e1, d1, w1), c1)" by (metis prod.collapse)
  then have "rules c1 = rules c" using apart_dns(4) [OF Cons.prems(1)] cleanupPages_rules [OF Cons.prems(1)]
    unfolding cleanupDNS_def by (metis (mono_tags, lifting) case_prod_conv surj_pair)
  with Cons one show ?case by (cases e1) (auto simp: Let_def)
qed simp

lemma reconcileDNS_rules:
  assumes "apart az recs rules" "reconcileDNS az m routes ip c = (r, c')"
  shows "rules c' = rules c"
proof -
  obtain e1 p1 c1 where one: "reconcileRecords az (mg_instanceID m) ip (configuredDNSZones (ap_Azure (mg_cfg m))) routes no_progress c = ((e1, p1), c1)"
    by (metis prod.collapse)
  from reconcileRecords_rules [OF assms(1) one] assms(2) one show ?thesis
    by (cases e1) (auto simp: reconcileDNS_def Let_def split: if_splits dest: cleanupZones_rules [OF assms(1)])
qed

lemma reconcileNSG_effect:
  assumes "azure_contract az recs rules" "reconcileNSG az m ports c = (r, c')"
  shows "recs c' = recs c \<and> rules_kept rules (mg_instanceID m) c c'"
proof -
  let ?cfg = "ap_Azure (mg_cfg m)"
  let ?key = "(nsgResourceGroup ?cfg, az_NetworkSecurityGroupName ?cfg, nsgRuleName (mg_instanceID m))"
  have ap: "apart az recs rules" and nc: "nsg_contract az rules" using assms(1) by (simp_all add: azure_contract_def)
  obtain q c1 where get: "nsg_Get az (nsgResourceGroup ?cfg) (az_NetworkSecurityGroupName ?cfg) (nsgRuleName (mg_instanceID m)) c = (q, c1)"
    by fastforce
  have got: "recs c1 = recs c" "rules c1 = rules c"
    "case q of Inr x \<Rightarrow> rules c ?key = Some x | Inl e \<Rightarrow> isNotFound e \<longrightarrow> rules c ?key = None"
    using apart_dns(5) [OF ap get] nsg_get [OF nc get] by (simp_all split: sum.split)
  have put: "recs c2 = recs c1 \<and> (rules c2 = rules c1 \<or> rules c2 = (rules c1)(?key \<mapsto> Some p))"
    if "nsg_CreateOrUpdate az (nsgResourceGroup ?cfg) (az_NetworkSecurityGroupName ?cfg) (nsgRuleName (mg_instanceID m)) p c1 = (e, c2)" for p e c2
    using apart_dns(6) [OF ap that] nsg_put [OF nc that] by blast
  have del: "recs c2 = recs c1 \<and> (rules c2 = rules c1 \<or> rules c2 = (rules c1)(?key := None))"
    if "nsg_Delete az (nsgResourceGroup ?cfg) (az_NetworkSecurityGroupName ?cfg) (nsgRuleName (mg_instanceID m)) c1 = (e, c2)" for e c2
    using apart_dns(7) [OF ap that] nsg_del(1) [OF nc that] by blast
  have changed: "recs c' = recs c \<and> (rules c' = rules c \<or>
      (\<forall>x. rules c ?key = Some x \<longrightarrow> ownsNSGRule (mg_instanceID m) x) \<and> (\<exists>v. rules c' = (rules c)(?key := v)))"
  proof (cases "mg_nsg m \<and> mg_instanceID m \<noteq> [] \<and> nsgResourceGroup ?cfg \<noteq> [] \<and> az_NetworkSecurityGroupName ?cfg \<noteq> []")
    case False
    then show ?thesis using assms(2) by (auto simp: reconcileNSG_def Let_def split: if_splits)
  next
    case True
    have mine: "(\<forall>x. rules c ?key = Some x \<longrightarrow> ownsNSGRule (mg_instanceID m) x)"
      if "case q of Inr x \<Rightarrow> ownsNSGRule (mg_instanceID m) x | Inl e \<Rightarrow> isNotFound e"
      using that got(3) by (cases q) auto
    show ?thesis
    proof (cases "(case q of Inr x \<Rightarrow> ownsNSGRule (mg_instanceID m) x | Inl e \<Rightarrow> isNotFound e) \<and> c' \<noteq> c1")
      case False
      then have "c' = c1" using assms(2) True get
        by (cases q) (auto simp: reconcileNSG_def deleteNSGRule_def Let_def split: if_splits)
      then show ?thesis using got by simp
    next
      case acts: True
      have "(\<exists>p e. nsg_CreateOrUpdate az (nsgResourceGroup ?cfg) (az_NetworkSecurityGroupName ?cfg) (nsgRuleName (mg_instanceID m)) p c1 = (e, c')) \<or>
          (\<exists>e. nsg_Delete az (nsgResourceGroup ?cfg) (az_NetworkSecurityGroupName ?cfg) (nsgRuleName (mg_instanceID m)) c1 = (e, c'))"
        using assms(2) True get acts
        by (cases q) (auto simp: reconcileNSG_def deleteNSGRule_def putNSGRule_def Let_def split: if_splits prod.splits option.splits)
      then show ?thesis using put del mine acts got by metis
    qed
  qed
  then show ?thesis by (auto simp: rules_kept_def)
qed

section \<open>A service that meets the contract\<close>

record MemoryAzure =
  ma_records :: "(dns_key \<times> RecordSet) list"
  ma_rules :: "(nsg_key \<times> SecurityRuleProperties option) list"
  ma_writes :: nat

text \<open>A record is stored under the name it has.\<close>

definition ma_recs :: "MemoryAzure \<Rightarrow> dns_key \<rightharpoonup> RecordSet" where
  "ma_recs s k = (case map_of (ma_records s) k of
     Some x \<Rightarrow> if recordSetRelativeName (Some x) = Some (snd (snd k)) then Some x else None | None \<Rightarrow> None)"

definition ma_rule :: "MemoryAzure \<Rightarrow> nsg_key \<rightharpoonup> SecurityRuleProperties option" where
  "ma_rule s = map_of (ma_rules s)"

definition missing :: azure_error where
  "missing = \<lparr>ae_NotFound = True, ae_Message = ''404''\<rparr>"

definition refused :: azure_error where
  "refused = \<lparr>ae_NotFound = False, ae_Message = ''412''\<rparr>"

definition ma_meets :: "condition \<Rightarrow> RecordSet option \<Rightarrow> bool" where
  "ma_meets q x = (case q of IfNoneMatch \<Rightarrow> (case x of None \<Rightarrow> True | Some _ \<Rightarrow> False)
     | IfMatch tag \<Rightarrow> (case x of None \<Rightarrow> False | Some r \<Rightarrow> dr_Etag r = tag))"

definition stored :: "string \<Rightarrow> nat \<Rightarrow> RecordSetProperties \<Rightarrow> RecordSet" where
  "stored n k p = \<lparr>dr_Name = Some n, dr_Etag = Some (''w'' @ Itoa (int k)), dr_Properties = Some p\<rparr>"

definition memory_azure :: "MemoryAzure AzureClients" where
  "memory_azure = \<lparr>
     dns_Get = (\<lambda>rg z n s. (case ma_recs s (rg, z, n) of Some x \<Rightarrow> Inr x | None \<Rightarrow> Inl missing, s)),
     dns_CreateOrUpdate = (\<lambda>rg z n p q s.
       if ma_meets q (ma_recs s (rg, z, n)) \<and> recordSetRelativeName (Some (stored n (ma_writes s) p)) = Some n
       then (None, s\<lparr>ma_records := ((rg, z, n), stored n (ma_writes s) p) # ma_records s, ma_writes := ma_writes s + 1\<rparr>)
       else (Some refused, s)),
     dns_Pages = (\<lambda>rg z s. ([Inr (filter (\<lambda>x. \<not> Option.is_none x)
        (map (\<lambda>(k, x). ma_recs s k) (filter (\<lambda>((a, b, n), x). a = rg \<and> b = z) (ma_records s))))], s)),
     dns_Delete = (\<lambda>rg z n q s. case ma_recs s (rg, z, n) of None \<Rightarrow> (Some missing, s)
       | Some x \<Rightarrow> if ma_meets q (Some x) then (None, s\<lparr>ma_records := filter (\<lambda>(k, y). k \<noteq> (rg, z, n)) (ma_records s)\<rparr>)
                  else (Some refused, s)),
     nsg_Get = (\<lambda>rg g n s. (case ma_rule s (rg, g, n) of Some x \<Rightarrow> Inr x | None \<Rightarrow> Inl missing, s)),
     nsg_CreateOrUpdate = (\<lambda>rg g n p s. ((None, None), s\<lparr>ma_rules := ((rg, g, n), Some p) # ma_rules s\<rparr>)),
     nsg_Delete = (\<lambda>rg g n s. ((None, None), s\<lparr>ma_rules := filter (\<lambda>(k, y). k \<noteq> (rg, g, n)) (ma_rules s)\<rparr>))\<rparr>"

lemma ma_meets_meets: "ma_meets q x = meets q x"
  by (simp add: ma_meets_def meets_def split: condition.split option.split)

lemma map_of_filter_other: "map_of (filter (\<lambda>(k, y). k \<noteq> key) xs) = (map_of xs)(key := None)"
  by (induction xs) (auto simp: fun_eq_iff)

lemma ma_recs_put: "recordSetRelativeName (Some x) = Some (snd (snd k)) \<Longrightarrow>
    ma_recs (s\<lparr>ma_records := (k, x) # ma_records s, ma_writes := w\<rparr>) = (ma_recs s)(k \<mapsto> x)"
  by (simp add: fun_eq_iff ma_recs_def)

lemma ma_recs_del: "ma_recs (s\<lparr>ma_records := filter (\<lambda>(k, y). k \<noteq> key) (ma_records s)\<rparr>) = (ma_recs s)(key := None)"
  by (simp add: fun_eq_iff ma_recs_def map_of_filter_other)

lemma ma_recs_named: "ma_recs s k = Some x \<Longrightarrow> recordSetRelativeName (Some x) = Some (snd (snd k)) \<and> (k, x) \<in> set (ma_records s)"
  by (auto simp: ma_recs_def split: option.splits if_splits dest: map_of_SomeD)

lemma memory_get: "get_ok memory_azure ma_recs"
  by (auto simp: get_ok_def memory_azure_def split: option.split)

lemma memory_put: "put_ok memory_azure ma_recs"
  unfolding put_ok_def
proof (intro allI impI)
  fix rg z n p q c e c' assume put: "dns_CreateOrUpdate memory_azure rg z n p q c = (e, c')"
  let ?x = "stored n (ma_writes c) p"
  show "e \<noteq> None \<and> ma_recs c' = ma_recs c \<or>
      meets q (ma_recs c (rg, z, n)) \<and> (\<exists>x. ma_recs c' = (ma_recs c)((rg, z, n) \<mapsto> x) \<and> dr_Properties x = Some p)"
  proof (cases "ma_meets q (ma_recs c (rg, z, n)) \<and> recordSetRelativeName (Some ?x) = Some n")
    case True
    then have c': "c' = c\<lparr>ma_records := ((rg, z, n), ?x) # ma_records c, ma_writes := ma_writes c + 1\<rparr>"
      using put by (simp add: memory_azure_def)
    have "ma_recs c' = (ma_recs c)((rg, z, n) \<mapsto> ?x)" unfolding c' by (rule ma_recs_put) (use True in simp)
    moreover have "dr_Properties ?x = Some p" by (simp add: stored_def)
    ultimately show ?thesis using True ma_meets_meets by blast
  next
    case False
    then show ?thesis using put by (auto simp: memory_azure_def)
  qed
qed

lemma memory_delete: "delete_ok memory_azure ma_recs"
  unfolding delete_ok_def
proof (intro allI impI)
  fix rg z n q c e c' assume del: "dns_Delete memory_azure rg z n q c = (e, c')"
  show "(case e of None \<Rightarrow> ma_recs c' (rg, z, n) = None | Some err \<Rightarrow> isNotFound err \<longrightarrow> ma_recs c' (rg, z, n) = None) \<and>
      (ma_recs c' = ma_recs c \<or> meets q (ma_recs c (rg, z, n)) \<and> ma_recs c' = (ma_recs c)((rg, z, n) := None))"
  proof (cases "ma_recs c (rg, z, n)")
    case None
    then have "e = Some missing" "c' = c" using del by (simp_all add: memory_azure_def)
    then show ?thesis using None by simp
  next
    case (Some x)
    show ?thesis
    proof (cases "ma_meets q (Some x)")
      case True
      then have e: "e = None" and c': "c' = c\<lparr>ma_records := filter (\<lambda>(k, y). k \<noteq> (rg, z, n)) (ma_records c)\<rparr>"
        using del Some by (simp_all add: memory_azure_def)
      have "ma_recs c' = (ma_recs c)((rg, z, n) := None)" unfolding c' by (rule ma_recs_del)
      then show ?thesis using e Some True ma_meets_meets by simp
    next
      case False
      then have "e = Some refused" "c' = c" using del Some by (simp_all add: memory_azure_def)
      then show ?thesis by (simp add: refused_def isNotFound_def)
    qed
  qed
qed

definition ma_page :: "string \<Rightarrow> string \<Rightarrow> MemoryAzure \<Rightarrow> RecordSet option list" where
  "ma_page rg z s = filter (\<lambda>x. \<not> Option.is_none x) (map (\<lambda>(k, x). ma_recs s k) (filter (\<lambda>((a, b, n), x). a = rg \<and> b = z) (ma_records s)))"

lemma ma_page_iff: "Some x \<in> set (ma_page rg z s) \<longleftrightarrow> (\<exists>n. ma_recs s (rg, z, n) = Some x)"
proof
  assume "Some x \<in> set (ma_page rg z s)"
  then show "\<exists>n. ma_recs s (rg, z, n) = Some x" unfolding ma_page_def by fastforce
next
  assume "\<exists>n. ma_recs s (rg, z, n) = Some x"
  then obtain n where n: "ma_recs s (rg, z, n) = Some x" by blast
  then have "((rg, z, n), x) \<in> set (filter (\<lambda>((a, b, n), x). a = rg \<and> b = z) (ma_records s))" using ma_recs_named [OF n] by simp
  then have "ma_recs s (rg, z, n) \<in> set (map (\<lambda>(k, x). ma_recs s k) (filter (\<lambda>((a, b, n), x). a = rg \<and> b = z) (ma_records s)))"
    by (metis (mono_tags, lifting) case_prod_conv image_eqI list.set_map)
  then show "Some x \<in> set (ma_page rg z s)" using n by (simp add: ma_page_def)
qed

lemma memory_pages_eq: "dns_Pages memory_azure rg z s = ([Inr (ma_page rg z s)], s)"
  by (simp add: memory_azure_def ma_page_def)

lemma memory_pages: "pages_ok memory_azure ma_recs"
  unfolding pages_ok_def memory_pages_eq using ma_recs_named ma_page_iff by fastforce

lemma memory_nsg: "nsg_contract memory_azure ma_rule"
  unfolding nsg_contract_def
proof (intro conjI allI impI)
  fix rg g n c c' and e :: "azure_error option \<times> azure_error option" and p and r :: "azure_error + SecurityRuleProperties option"
  show "ma_rule c' = ma_rule c" "case r of Inr x \<Rightarrow> ma_rule c (rg, g, n) = Some x | Inl e \<Rightarrow> isNotFound e \<longrightarrow> ma_rule c (rg, g, n) = None"
    if "nsg_Get memory_azure rg g n c = (r, c')"
    using that by (auto simp: memory_azure_def split: option.splits)
  show "(e \<noteq> (None, None) \<and> ma_rule c' = ma_rule c) \<or> ma_rule c' = (ma_rule c)((rg, g, n) \<mapsto> Some p)"
    if "nsg_CreateOrUpdate memory_azure rg g n p c = (e, c')"
    using that by (auto simp: memory_azure_def ma_rule_def)
  assume "nsg_Delete memory_azure rg g n c = (e, c')"
  then have "e = (None, None)" "ma_rule c' = (ma_rule c)((rg, g, n) := None)"
    by (auto simp: memory_azure_def ma_rule_def map_of_filter_other)
  then show "(e \<noteq> (None, None) \<and> ma_rule c' = ma_rule c) \<or> ma_rule c' = (ma_rule c)((rg, g, n) := None)"
    and "fst e = Some x \<or> fst e = None \<and> snd e = Some x \<Longrightarrow> isNotFound x \<Longrightarrow> ma_rule c' (rg, g, n) = None" for x
    by simp_all
qed

lemma memory_apart: "apart memory_azure ma_recs ma_rule"
  unfolding apart_def
proof (intro conjI allI)
  fix a b n c
  show "ma_rule (snd (dns_Get memory_azure a b n c)) = ma_rule c" by (simp add: memory_azure_def)
  show "ma_rule (snd (dns_CreateOrUpdate memory_azure a b n p q c)) = ma_rule c" for p q by (simp add: memory_azure_def ma_rule_def)
  show "ma_rule (snd (dns_Delete memory_azure a b n q c)) = ma_rule c" for q
    by (simp add: memory_azure_def ma_rule_def split: option.split)
  show "ma_rule (snd (dns_Pages memory_azure a b c)) = ma_rule c" by (simp add: memory_azure_def)
  show "ma_recs (snd (nsg_Get memory_azure a b n c)) = ma_recs c" by (simp add: memory_azure_def)
  show "ma_recs (snd (nsg_CreateOrUpdate memory_azure a b n p c)) = ma_recs c" for p by (simp add: memory_azure_def ma_recs_def fun_eq_iff)
  show "ma_recs (snd (nsg_Delete memory_azure a b n c)) = ma_recs c" by (simp add: memory_azure_def ma_recs_def fun_eq_iff)
qed

lemma memory_azure_contract: "azure_contract memory_azure ma_recs ma_rule"
  by (simp add: azure_contract_def dns_contract_def memory_get memory_put memory_delete memory_pages memory_nsg memory_apart)

section \<open>The parts of the reconciliation\<close>

lemma reconcileAzureDNS_keeps:
  assumes "azure_contract az recs rules" "reconcileAzureDNS az m rs ip r0 c = (r1, c1)"
  shows "unowned_kept recs (mg_instanceID m) c c1 \<and> rules c1 = rules c"
proof -
  obtain e p c' where dns: "reconcileDNS az m rs ip c = ((e, p), c')" by (metis prod.collapse)
  then have "c1 = c'" using assms(2) by (simp add: reconcileAzureDNS_def)
  have contract: "dns_contract az recs" "apart az recs rules" using assms(1) by (simp_all add: azure_contract_def)
  from reconcileDNS_kept [OF contract(1) dns] reconcileDNS_rules [OF contract(2) dns] \<open>c1 = c'\<close> show ?thesis by simp
qed

lemma reconcileAzureNSG_keeps:
  assumes "azure_contract az recs rules" "reconcileAzureNSG az m rs r0 c = (r1, c1)"
  shows "recs c1 = recs c \<and> rules_kept rules (mg_instanceID m) c c1"
proof -
  obtain e n d c' where nsg: "reconcileNSG az m (publicNSGPorts rs) c = ((e, n, d), c')" by (metis prod.collapse)
  then have "c1 = c'" using assms(2) by (simp add: reconcileAzureNSG_def)
  then show ?thesis using reconcileNSG_effect [OF assms(1) nsg] by simp
qed

text \<open>The reconciliation runs the DNS part, then the rule part, each at most once.\<close>

lemma Manager_Reconcile_parts:
  assumes "Manager_Reconcile az m routes c = (result, c')"
  obtains c2 where "c2 = c \<or> (\<exists>ip r0 r1. reconcileAzureDNS az m (publicAzureRoutes routes) ip r0 c = (r1, c2))"
    and "c' = c2 \<or> (\<exists>r0 r1. reconcileAzureNSG az m (publicAzureRoutes routes) r0 c2 = (r1, c'))"
proof (cases "if publicAzureRoutes routes \<noteq> [] \<and> az_ManageDNS (ap_Azure (mg_cfg m)) then publicIPAddress (ap_Azure (mg_cfg m)) else Inr []")
  case (Inl e)
  then have "c' = c" using assms unfolding Manager_Reconcile_def Let_def by simp
  then show thesis using that by blast
next
  case (Inr ip)
  obtain r1 where "(case (if az_ManageDNS (ap_Azure (mg_cfg m)) then reconcileAzureDNS az m (publicAzureRoutes routes) ip r1 c else (r1, c)) of
      (r2, c2) \<Rightarrow> if ar_Error r2 \<noteq> [] then (r2, c2)
        else if az_ManageNSG (ap_Azure (mg_cfg m)) then reconcileAzureNSG az m (publicAzureRoutes routes) r2 c2 else (r2, c2)) = (result, c')"
    using assms unfolding Manager_Reconcile_def Let_def Inr sum.case by blast
  moreover obtain r2 c2 where dns: "(if az_ManageDNS (ap_Azure (mg_cfg m)) then reconcileAzureDNS az m (publicAzureRoutes routes) ip r1 c else (r1, c)) = (r2, c2)"
    by fastforce
  ultimately have "c' = c2 \<or> (\<exists>r0 r1. reconcileAzureNSG az m (publicAzureRoutes routes) r0 c2 = (r1, c'))" by (auto split: if_splits)
  moreover have "c2 = c \<or> (\<exists>ip r0 r1. reconcileAzureDNS az m (publicAzureRoutes routes) ip r0 c = (r1, c2))"
    using dns by (auto split: if_splits)
  ultimately show thesis using that by blast
qed

section \<open>Which zone a host belongs to\<close>

lemma clean_name_nil: "clean_name [] = []"
  by code_simp

lemma relative_nonempty: "relativeRecordName host z = Some n \<Longrightarrow> z \<noteq> []"
  by (auto simp: relativeRecordName_def clean_name_nil Let_def split: if_splits)

definition covers_host :: "string \<Rightarrow> AzureDNSZoneConfig \<Rightarrow> bool" where
  "covers_host host zone = (relativeRecordName host (zn_Name zone) \<noteq> None)"

definition longest_first :: "string \<Rightarrow> AzureDNSZoneConfig list \<Rightarrow> AzureDNSZoneConfig \<Rightarrow> bool" where
  "longest_first host zones zone \<longleftrightarrow> (\<exists>before after. zones = before @ zone # after \<and> covers_host host zone \<and>
     (\<forall>y \<in> set before. covers_host host y \<longrightarrow> length (zn_Name y) < length (zn_Name zone)) \<and>
     (\<forall>y \<in> set after. covers_host host y \<longrightarrow> length (zn_Name y) \<le> length (zn_Name zone)))"

lemma selectLoop_spec:
  "(selectLoop host selected zones = selected \<and>
      (\<forall>y \<in> set zones. covers_host host y \<longrightarrow> length (zn_Name y) \<le> length (zn_Name selected))) \<or>
   (length (zn_Name selected) < length (zn_Name (selectLoop host selected zones)) \<and> longest_first host zones (selectLoop host selected zones))"
proof (induction zones arbitrary: selected)
  case (Cons zone rest)
  show ?case
  proof (cases "covers_host host zone")
    case False
    then have "selectLoop host selected (zone # rest) = selectLoop host selected rest" by (simp add: covers_host_def)
    moreover have "longest_first host (zone # rest) z" if "longest_first host rest z" for z
      using that False unfolding longest_first_def by (metis append_Cons set_ConsD)
    ultimately show ?thesis using Cons.IH [of selected] False by auto
  next
    case True
    then obtain n where n: "relativeRecordName host (zn_Name zone) = Some n" by (auto simp: covers_host_def)
    show ?thesis
    proof (cases "length (zn_Name selected) < length (zn_Name zone)")
      case False
      then have "selectLoop host selected (zone # rest) = selectLoop host selected rest"
        using n relative_nonempty [OF n] by auto
      moreover have "longest_first host (zone # rest) z" if first: "longest_first host rest z" and longer: "length (zn_Name selected) < length (zn_Name z)" for z
      proof -
        obtain b' a' where "rest = b' @ z # a'" "covers_host host z"
          "\<forall>y \<in> set b'. covers_host host y \<longrightarrow> length (zn_Name y) < length (zn_Name z)"
          "\<forall>y \<in> set a'. covers_host host y \<longrightarrow> length (zn_Name y) \<le> length (zn_Name z)"
          using first unfolding longest_first_def by blast
        then show ?thesis unfolding longest_first_def using False longer by (intro exI [of _ "zone # b'"] exI [of _ a']) auto
      qed
      ultimately show ?thesis using Cons.IH [of selected] False by auto
    next
      case longer: True
      then have step: "selectLoop host selected (zone # rest) = selectLoop host zone rest" using n by simp
      consider "selectLoop host zone rest = zone" "\<forall>y \<in> set rest. covers_host host y \<longrightarrow> length (zn_Name y) \<le> length (zn_Name zone)"
        | "length (zn_Name zone) < length (zn_Name (selectLoop host zone rest))" "longest_first host rest (selectLoop host zone rest)"
        using Cons.IH [of zone] by blast
      then show ?thesis
      proof cases
        case 1
        then have "longest_first host (zone # rest) zone" using True unfolding longest_first_def by (intro exI [of _ "[]"] exI [of _ rest]) auto
        then show ?thesis using 1 step longer by simp
      next
        case 2
        let ?z = "selectLoop host zone rest"
        obtain b a where "rest = b @ ?z # a" "covers_host host ?z"
          "\<forall>y \<in> set b. covers_host host y \<longrightarrow> length (zn_Name y) < length (zn_Name ?z)"
          "\<forall>y \<in> set a. covers_host host y \<longrightarrow> length (zn_Name y) \<le> length (zn_Name ?z)"
          using 2(2) unfolding longest_first_def by blast
        then have "longest_first host (zone # rest) ?z"
          unfolding longest_first_def using 2(1) by (intro exI [of _ "zone # b"] exI [of _ a]) auto
        then show ?thesis using 2(1) step longer by simp
      qed
    qed
  qed
qed simp

section \<open>The rule\<close>

definition rule_key :: "Manager \<Rightarrow> nsg_key" where
  "rule_key m = (nsgResourceGroup (ap_Azure (mg_cfg m)), az_NetworkSecurityGroupName (ap_Azure (mg_cfg m)), nsgRuleName (mg_instanceID m))"

definition opens :: "string \<Rightarrow> int list \<Rightarrow> SecurityRuleProperties \<Rightarrow> bool" where
  "opens owner ports p \<longleftrightarrow> sp_DestinationPortRanges p = map Itoa ports \<and> sp_Access p = Some ''Allow'' \<and>
     sp_Direction p = Some ''Inbound'' \<and> sp_Protocol p = Some ''Tcp'' \<and> ownsNSGRule owner (Some p)"

lemma deleteNSGRule_success:
  assumes "nsg_contract az rules" "deleteNSGRule az m c = ((None, d), c')"
  shows "rules c' (rule_key m) = None"
proof -
  let ?cfg = "ap_Azure (mg_cfg m)" and ?name = "nsgRuleName (mg_instanceID m)"
  obtain q c1 where get: "nsg_Get az (nsgResourceGroup ?cfg) (az_NetworkSecurityGroupName ?cfg) ?name c = (q, c1)" by fastforce
  obtain e c2 where del: "nsg_Delete az (nsgResourceGroup ?cfg) (az_NetworkSecurityGroupName ?cfg) ?name c1 = (e, c2)" by fastforce
  have got: "rules c1 = rules c" "\<And>e. q = Inl e \<Longrightarrow> isNotFound e \<Longrightarrow> rules c (rule_key m) = None"
    using nsg_get [OF assms(1) get] by (auto simp: rule_key_def)
  have deleted: "rules c2 (rule_key m) = None" if "e = (None, None) \<or> (\<exists>x. (fst e = Some x \<or> fst e = None \<and> snd e = Some x) \<and> isNotFound x)"
    using nsg_del [OF assms(1) del] that unfolding rule_key_def by (metis fun_upd_same)
  show ?thesis
  proof (cases q)
    case (Inl x)
    then show ?thesis using assms(2) get got by (auto simp: deleteNSGRule_def Let_def split: if_splits)
  next
    case (Inr x)
    obtain e1 e2 where e: "e = (e1, e2)" by fastforce
    have "c' = c2 \<and> (e = (None, None) \<or> (\<exists>x. (fst e = Some x \<or> fst e = None \<and> snd e = Some x) \<and> isNotFound x))"
      using assms(2) get del Inr unfolding deleteNSGRule_def Let_def e
      by (cases e1; cases e2) (auto split: if_splits)
    then show ?thesis using deleted by simp
  qed
qed

lemma putNSGRule_success:
  assumes "nsg_contract az rules" "putNSGRule az m p c = ((None, n, d), c')"
  shows "rules c' (rule_key m) = Some (Some p)"
proof -
  let ?cfg = "ap_Azure (mg_cfg m)" and ?name = "nsgRuleName (mg_instanceID m)"
  obtain e1 e2 c2 where put: "nsg_CreateOrUpdate az (nsgResourceGroup ?cfg) (az_NetworkSecurityGroupName ?cfg) ?name p c = ((e1, e2), c2)"
    by (metis prod.collapse)
  then have "e1 = None" "e2 = None" "c' = c2"
    using assms(2) by (cases e1; cases e2; simp add: putNSGRule_def Let_def)+
  then show ?thesis using nsg_put [OF assms(1) put] by (simp add: rule_key_def)
qed

lemma wanted_rule_opens:
  assumes "owner \<noteq> []" "ports \<noteq> []" "map_option (\<lambda>p. p\<lparr>sp_ProvisioningState := None\<rparr>) r =
      Some ((nsgRuleProperties cfg ports)\<lparr>sp_Description := Some (nsgOwnerDescription owner)\<rparr>)"
  shows "\<exists>p. r = Some p \<and> opens owner ports p"
proof -
  obtain p where p: "r = Some p" "p\<lparr>sp_ProvisioningState := None\<rparr> =
      (nsgRuleProperties cfg ports)\<lparr>sp_Description := Some (nsgOwnerDescription owner)\<rparr>" using assms(3) by auto
  have same: "f p = f (p\<lparr>sp_ProvisioningState := None\<rparr>)"
    if "f = sp_Access \<or> f = sp_Direction \<or> f = sp_Protocol \<or> f = sp_Description" for f
    using that by (cases p) auto
  have "sp_DestinationPortRanges p = sp_DestinationPortRanges (p\<lparr>sp_ProvisioningState := None\<rparr>)" by simp
  then have "opens owner ports p" unfolding opens_def ownsNSGRule_def using assms(1,2) same [of sp_Access] same [of sp_Direction]
      same [of sp_Protocol] same [of sp_Description] unfolding p(2)
    by (simp add: nsgRuleProperties_def Let_def)
  then show ?thesis using p(1) by blast
qed

lemma reconcileNSG_success:
  assumes "nsg_contract az rules" "mg_nsg m" "reconcileNSG az m ports c = ((None, n, d), c')"
  shows "if ports = [] then rules c' (rule_key m) = None
    else \<exists>p. rules c' (rule_key m) = Some (Some p) \<and> opens (mg_instanceID m) ports p"
proof -
  let ?cfg = "ap_Azure (mg_cfg m)" and ?name = "nsgRuleName (mg_instanceID m)" and ?owner = "mg_instanceID m"
  let ?want = "(nsgRuleProperties ?cfg ports)\<lparr>sp_Description := Some (nsgOwnerDescription ?owner)\<rparr>"
  have guard: "?owner \<noteq> []" "nsgResourceGroup ?cfg \<noteq> []" "az_NetworkSecurityGroupName ?cfg \<noteq> []"
    using assms(2,3) by (auto simp: reconcileNSG_def Let_def split: if_splits)
  show ?thesis
  proof (cases "ports = []")
    case True
    obtain e1 d1 c1 where del: "deleteNSGRule az m c = ((e1, d1), c1)" by (metis prod.collapse)
    then have "deleteNSGRule az m c = ((None, d1), c')"
      using assms(2,3) guard True by (simp add: reconcileNSG_def Let_def)
    from deleteNSGRule_success [OF assms(1) this] True show ?thesis by simp
  next
    case False
    obtain q c1 where get: "nsg_Get az (nsgResourceGroup ?cfg) (az_NetworkSecurityGroupName ?cfg) ?name c = (q, c1)" by fastforce
    have got: "rules c1 = rules c" "\<And>x. q = Inr x \<Longrightarrow> rules c (rule_key m) = Some x"
      using nsg_get [OF assms(1) get] by (auto simp: rule_key_def)
    have new: "\<exists>p. Some ?want = Some p \<and> opens ?owner ports p"
      by (rule wanted_rule_opens [OF guard(1) False]) (simp add: nsgRuleProperties_def Let_def)
    have run: "(\<exists>x. q = Inr x \<and> map_option (\<lambda>p. p\<lparr>sp_ProvisioningState := None\<rparr>) x = Some ?want \<and> c' = c1) \<or>
        putNSGRule az m ?want c1 = ((None, n, d), c')"
      using assms(2,3) guard False get by (cases q) (auto simp: reconcileNSG_def Let_def split: if_splits)
    then show ?thesis
    proof
      assume "\<exists>x. q = Inr x \<and> map_option (\<lambda>p. p\<lparr>sp_ProvisioningState := None\<rparr>) x = Some ?want \<and> c' = c1"
      then obtain x where x: "q = Inr x" "map_option (\<lambda>p. p\<lparr>sp_ProvisioningState := None\<rparr>) x = Some ?want" "c' = c1" by blast
      from wanted_rule_opens [OF guard(1) False x(2)] got x False show ?thesis by auto
    next
      assume "putNSGRule az m ?want c1 = ((None, n, d), c')"
      from putNSGRule_success [OF assms(1) this] new False show ?thesis by auto
    qed
  qed
qed

section \<open>An example\<close>

text \<open>A gateway for two zones, with a record it no longer needs, a record and a rule of somebody else.\<close>

definition edge_azure :: AzureConfig where
  "edge_azure = \<lparr>az_Enabled = True, az_ManageDNS = True, az_ManageNSG = True, az_SubscriptionID = ''sub'',
     az_ResourceGroup = ''rg'', az_DNSZoneName = ''example.com'',
     az_DNSZones = [\<lparr>zn_Name = '' Shop.Example.com.'', zn_ResourceGroup = ''dns''\<rparr>],
     az_NetworkSecurityGroupResourceGroup = [], az_NetworkSecurityGroupName = ''nsg'',
     az_PublicIPAddress = ''20.1.2.3'', az_NSGPriority = 0, az_NSGSourceAddressPrefixes = []\<rparr>"

definition edge_manager :: Manager where
  "edge_manager = \<lparr>mg_cfg = edge_config\<lparr>ap_Azure := edge_azure\<rparr>, mg_instanceID = ''gw1'', mg_dns = True, mg_nsg = True\<rparr>"

definition foreign_record :: RecordSet where
  "foreign_record = \<lparr>dr_Name = Some ''www'', dr_Etag = Some ''f'', dr_Properties = Some
     \<lparr>rp_TTL = Some 60, rp_Metadata = Map.empty, rp_ARecords = [Some (Some ''9.9.9.9'')], rp_TargetResource = None\<rparr>\<rparr>"

definition stale_record :: RecordSet where
  "stale_record = stored ''old'' 0 (desired_properties ''gw1'' ''old.example.com'' ''20.1.2.3'')"

definition ssh_rule :: SecurityRuleProperties where
  "ssh_rule = (nsgRuleProperties edge_azure [22])\<lparr>sp_Description := Some ''ssh''\<rparr>"

definition edge_service :: MemoryAzure where
  "edge_service = \<lparr>ma_records = [((''rg'', ''example.com'', ''www''), foreign_record), ((''rg'', ''example.com'', ''old''), stale_record)],
     ma_rules = [((''rg'', ''nsg'', ''Allow-SSH''), Some ssh_rule)], ma_writes = 1\<rparr>"

section \<open>Properties\<close>

text \<open>
  C24: whatever the reconciliation of Azure does and however it ends, every DNS record and every security rule
  this gateway instance does not own is as it was: records without its metadata, records of another
  instance, and a rule of the same name that someone else wrote.
\<close>

theorem azure_leaves_foreign_resources_alone:
  assumes "azure_contract az recs rules" "Manager_Reconcile az m routes c = (result, c')"
  shows "unowned_kept recs (mg_instanceID m) c c' \<and> rules_kept rules (mg_instanceID m) c c'"
proof -
  from Manager_Reconcile_parts [OF assms(2)] obtain c2
    where dns: "c2 = c \<or> (\<exists>ip r0 r1. reconcileAzureDNS az m (publicAzureRoutes routes) ip r0 c = (r1, c2))"
      and nsg: "c' = c2 \<or> (\<exists>r0 r1. reconcileAzureNSG az m (publicAzureRoutes routes) r0 c2 = (r1, c'))" .
  have "unowned_kept recs (mg_instanceID m) c c2 \<and> rules c2 = rules c"
    using dns reconcileAzureDNS_keeps [OF assms(1)] by (metis kept_refl)
  moreover have "recs c' = recs c2 \<and> rules_kept rules (mg_instanceID m) c2 c'"
    using nsg reconcileAzureNSG_keeps [OF assms(1)] unfolding rules_kept_def by metis
  ultimately show ?thesis unfolding unowned_kept_def rules_kept_def by metis
qed

theorem azure_leaves_foreign_resources_alone_witness:
  "ma_recs (snd (Manager_Reconcile memory_azure edge_manager [admin_route] edge_service)) (''rg'', ''example.com'', ''www'') = Some foreign_record \<and>
   ma_rule (snd (Manager_Reconcile memory_azure edge_manager [admin_route] edge_service)) (''rg'', ''nsg'', ''Allow-SSH'') = Some (Some ssh_rule)"
proof -
  obtain result c' where run: "Manager_Reconcile memory_azure edge_manager [admin_route] edge_service = (result, c')" by fastforce
  have "ma_recs edge_service (''rg'', ''example.com'', ''www'') = Some foreign_record"
    by (simp add: edge_service_def ma_recs_def foreign_record_def recordSetRelativeName_def Let_def) code_simp
  moreover have "\<not> ownsDNSRecord (mg_instanceID edge_manager) (Some foreign_record)" by code_simp
  moreover have "ma_rule edge_service (''rg'', ''nsg'', ''Allow-SSH'') = Some (Some ssh_rule)" by (simp add: edge_service_def ma_rule_def)
  moreover have "\<not> ownsNSGRule (mg_instanceID edge_manager) (Some ssh_rule)" by code_simp
  ultimately show ?thesis
    using azure_leaves_foreign_resources_alone [OF memory_azure_contract run]
    unfolding unowned_kept_def rules_kept_def run by simp
qed

text \<open>
  A host is published in the zone with the longest name that covers it, the first of those in the
  configuration; no zone is chosen exactly when none covers the host.
\<close>

theorem host_gets_its_longest_zone:
  "case selectDNSZone host zones of
     Some zone \<Rightarrow> longest_first host zones zone
   | None \<Rightarrow> (\<forall>zone \<in> set zones. relativeRecordName host (zn_Name zone) = None)"
proof -
  let ?none = "\<lparr>zn_Name = [], zn_ResourceGroup = []\<rparr> :: AzureDNSZoneConfig"
  consider "selectLoop host ?none zones = ?none" "\<forall>y \<in> set zones. covers_host host y \<longrightarrow> length (zn_Name y) \<le> 0"
    | "zn_Name (selectLoop host ?none zones) \<noteq> []" "longest_first host zones (selectLoop host ?none zones)"
    using selectLoop_spec [of host ?none zones] by fastforce
  then show ?thesis
  proof cases
    case 1
    then have "\<forall>zone \<in> set zones. relativeRecordName host (zn_Name zone) = None"
      using relative_nonempty unfolding covers_host_def by fastforce
    then show ?thesis using 1(1) by (simp add: selectDNSZone_def)
  next
    case 2
    then show ?thesis by (simp add: selectDNSZone_def Let_def)
  qed
qed

theorem host_gets_its_longest_zone_witness:
  "longest_first ''shop.example.com'' (configuredDNSZones edge_azure) \<lparr>zn_Name = ''shop.example.com'', zn_ResourceGroup = ''dns''\<rparr>"
proof -
  have "selectDNSZone ''shop.example.com'' (configuredDNSZones edge_azure) =
      Some \<lparr>zn_Name = ''shop.example.com'', zn_ResourceGroup = ''dns''\<rparr>" by code_simp
  then show ?thesis using host_gets_its_longest_zone [where host = "''shop.example.com''" and zones = "configuredDNSZones edge_azure"] by simp
qed

lemma converged:
  assumes "azure_contract az recs rules" "mg_dns m"
    and "\<forall>zone \<in> set (configuredDNSZones (ap_Azure (mg_cfg m))). CHR 0x00 \<notin> set (zn_Name zone)"
    and "reconcileDNS az m routes publicIP c = ((None, p), c1)"
  shows "\<forall>route \<in> set routes. \<forall>zone. selectDNSZone (rc_Host route) (configuredDNSZones (ap_Azure (mg_cfg m))) = Some zone \<longrightarrow>
      (\<exists>x. recs c1 (record_key (rc_Host route) zone) = Some x \<and> ownsDNSRecord (mg_instanceID m) (Some x) \<and> up_to_date publicIP x)"
    and "\<forall>zone \<in> set (configuredDNSZones (ap_Azure (mg_cfg m))). \<forall>n x.
      recs c1 (zn_ResourceGroup zone, zn_Name zone, n) = Some x \<longrightarrow> ownsDNSRecord (mg_instanceID m) (Some x) \<longrightarrow>
      (\<exists>route \<in> set routes. selectDNSZone (rc_Host route) (configuredDNSZones (ap_Azure (mg_cfg m))) = Some zone \<and>
         record_key (rc_Host route) zone = (zn_ResourceGroup zone, zn_Name zone, n))"
    and "recs (snd (reconcileDNS az m routes publicIP c1)) = recs c1"
proof -
  let ?zones = "configuredDNSZones (ap_Azure (mg_cfg m))" and ?owner = "mg_instanceID m"
  have contract: "dns_contract az recs" using assms(1) by (simp add: azure_contract_def)
  have inj: "inj_on dnsZoneKey (set ?zones)" by (rule dnsZoneKey_inj [OF assms(3) configuredDNSZones_distinct])
  note ok = reconcileDNS_success [OF contract inj assms(4,2)]
  show "\<forall>route \<in> set routes. \<forall>zone. selectDNSZone (rc_Host route) ?zones = Some zone \<longrightarrow>
      (\<exists>x. recs c1 (record_key (rc_Host route) zone) = Some x \<and> ownsDNSRecord ?owner (Some x) \<and> up_to_date publicIP x)"
  proof (intro ballI allI impI)
    fix route zone assume r: "route \<in> set routes" "selectDNSZone (rc_Host route) ?zones = Some zone"
    then have "(dnsZoneKey zone, snd (snd (record_key (rc_Host route) zone))) \<in> set (dp_desired p)"
      using ok by (force simp: desired_pair_def)
    then have "good_at recs ?owner publicIP c1 (record_key (rc_Host route) zone)"
      using ok selectDNSZone_in [OF r(2)] record_key_zone [of "rc_Host route" zone] unfolding all_desired_good_def by metis
    then show "\<exists>x. recs c1 (record_key (rc_Host route) zone) = Some x \<and> ownsDNSRecord ?owner (Some x) \<and> up_to_date publicIP x"
      by (simp add: good_at_def good_record_def)
  qed
  show "\<forall>zone \<in> set ?zones. \<forall>n x. recs c1 (zn_ResourceGroup zone, zn_Name zone, n) = Some x \<longrightarrow> ownsDNSRecord ?owner (Some x) \<longrightarrow>
      (\<exists>route \<in> set routes. selectDNSZone (rc_Host route) ?zones = Some zone \<and>
         record_key (rc_Host route) zone = (zn_ResourceGroup zone, zn_Name zone, n))"
  proof (intro ballI allI impI)
    fix zone n x assume z: "zone \<in> set ?zones" "recs c1 (zn_ResourceGroup zone, zn_Name zone, n) = Some x" "ownsDNSRecord ?owner (Some x)"
    then have "n \<in> desired_in p zone" using ok unfolding tidy_def zone_key_def by blast
    then obtain route where r: "route \<in> set routes" "(dnsZoneKey zone, n) \<in> desired_pair ?zones route"
      using ok by (auto simp: desired_in_iff)
    then obtain y where y: "selectDNSZone (rc_Host route) ?zones = Some y" "dnsZoneKey zone = dnsZoneKey y"
      "n = snd (snd (record_key (rc_Host route) y))" by (auto simp: desired_pair_def split: option.splits)
    then have "y = zone" using inj z(1) selectDNSZone_in by (metis inj_onD)
    then show "\<exists>route \<in> set routes. selectDNSZone (rc_Host route) ?zones = Some zone \<and>
        record_key (rc_Host route) zone = (zn_ResourceGroup zone, zn_Name zone, n)"
      using r(1) y record_key_zone by metis
  qed
  obtain e p2 c2 where again: "reconcileDNS az m routes publicIP c1 = ((e, p2), c2)" by (metis prod.collapse)
  from reconcileDNS_again [OF contract inj assms(2,4) again]
  show "recs (snd (reconcileDNS az m routes publicIP c1)) = recs c1" by (simp add: again)
qed

text \<open>
  C25: a DNS reconciliation that succeeds leaves, for every public host that lies in a configured zone, a
  record that is owned by this instance and points to the public address, and no other record owned by this
  instance in those zones; running it again changes no record.
\<close>

theorem dns_reconciliation_converges:
  assumes "azure_contract az recs rules" "mg_dns m"
    and "\<forall>zone \<in> set (configuredDNSZones (ap_Azure (mg_cfg m))). CHR 0x00 \<notin> set (zn_Name zone)"
    and "reconcileDNS az m routes publicIP c = ((None, p), c1)"
  shows "(\<forall>route \<in> set routes. \<forall>zone. selectDNSZone (rc_Host route) (configuredDNSZones (ap_Azure (mg_cfg m))) = Some zone \<longrightarrow>
      (\<exists>x. recs c1 (record_key (rc_Host route) zone) = Some x \<and> ownsDNSRecord (mg_instanceID m) (Some x) \<and> up_to_date publicIP x)) \<and>
    (\<forall>zone \<in> set (configuredDNSZones (ap_Azure (mg_cfg m))). \<forall>n x.
      recs c1 (zn_ResourceGroup zone, zn_Name zone, n) = Some x \<longrightarrow> ownsDNSRecord (mg_instanceID m) (Some x) \<longrightarrow>
      (\<exists>route \<in> set routes. selectDNSZone (rc_Host route) (configuredDNSZones (ap_Azure (mg_cfg m))) = Some zone \<and>
         record_key (rc_Host route) zone = (zn_ResourceGroup zone, zn_Name zone, n))) \<and>
    recs (snd (reconcileDNS az m routes publicIP c1)) = recs c1"
  using converged [OF assms] by (intro conjI)

theorem dns_reconciliation_converges_witness:
  "fst (fst (reconcileDNS memory_azure edge_manager [admin_route] ''20.1.2.3'' edge_service)) = None \<and>
   (\<exists>x. ma_recs (snd (reconcileDNS memory_azure edge_manager [admin_route] ''20.1.2.3'' edge_service)) (''dns'', ''shop.example.com'', ''@'') = Some x \<and>
      ownsDNSRecord ''gw1'' (Some x) \<and> up_to_date ''20.1.2.3'' x)"
proof -
  let ?zone = "\<lparr>zn_Name = ''shop.example.com'', zn_ResourceGroup = ''dns''\<rparr> :: AzureDNSZoneConfig"
  have ok: "fst (fst (reconcileDNS memory_azure edge_manager [admin_route] ''20.1.2.3'' edge_service)) = None" by code_simp
  then obtain p c1 where run: "reconcileDNS memory_azure edge_manager [admin_route] ''20.1.2.3'' edge_service = ((None, p), c1)"
    by (metis prod.collapse)
  have zones: "\<forall>zone \<in> set (configuredDNSZones (ap_Azure (mg_cfg edge_manager))). CHR 0x00 \<notin> set (zn_Name zone)" by code_simp
  have zone: "selectDNSZone (rc_Host admin_route) (configuredDNSZones (ap_Azure (mg_cfg edge_manager))) = Some ?zone" by code_simp
  have key: "record_key (rc_Host admin_route) ?zone = (''dns'', ''shop.example.com'', ''@'')" by code_simp
  have on: "mg_dns edge_manager" "mg_instanceID edge_manager = ''gw1''" by (simp_all add: edge_manager_def)
  from dns_reconciliation_converges [OF memory_azure_contract on(1) zones run] zone
  show ?thesis using ok by (simp add: run key on(2))
qed

text \<open>
  A reconciliation of the security rule that succeeds leaves the rule of this instance allowing inbound
  TCP to exactly 80, 443 and the listener ports of the public routes, or no rule when no route is public.
\<close>

theorem security_rule_opens_the_public_ports:
  assumes "azure_contract az recs rules" "mg_nsg m"
    and "reconcileNSG az m (publicNSGPorts (publicAzureRoutes routes)) c = ((None, n, d), c')"
  shows "if publicAzureRoutes routes = [] then rules c' (rule_key m) = None
    else \<exists>p ports. rules c' (rule_key m) = Some (Some p) \<and> opens (mg_instanceID m) ports p \<and> sorted_wrt (<) ports \<and>
      set ports = {80, 443} \<union> {port. \<exists>route \<in> set routes. rc_Enabled route \<and> rc_Public route \<and> rc_Host route \<noteq> [] \<and>
        port = rc_ListenerPort route \<and> 1 \<le> port \<and> port \<le> 65535}"
proof -
  have nc: "nsg_contract az rules" using assms(1) by (simp add: azure_contract_def)
  let ?ports = "publicNSGPorts (publicAzureRoutes routes)"
  let ?set = "{80, 443} \<union> {port. \<exists>route \<in> set routes. rc_Enabled route \<and> rc_Public route \<and> rc_Host route \<noteq> [] \<and>
        port = rc_ListenerPort route \<and> 1 \<le> port \<and> port \<le> 65535}"
  have ports: "publicAzureRoutes routes \<noteq> [] \<Longrightarrow> set ?ports = ?set" "publicAzureRoutes routes = [] \<longleftrightarrow> ?ports = []" "sorted_wrt (<) ?ports"
  proof -
    show "set ?ports = ?set" if "publicAzureRoutes routes \<noteq> []"
      using that by (auto simp: publicNSGPorts_def publicAzureRoutes_def simp del: sorted_list_of_set_insert_remove)
    then show "publicAzureRoutes routes = [] \<longleftrightarrow> ?ports = []" by (cases "publicAzureRoutes routes = []") (auto simp: publicNSGPorts_def)
    show "sorted_wrt (<) ?ports" by (simp add: publicNSGPorts_def del: sorted_list_of_set_insert_remove)
  qed
  show ?thesis
  proof (cases "publicAzureRoutes routes = []")
    case True
    then show ?thesis using reconcileNSG_success [OF nc assms(2,3)] ports(2) by simp
  next
    case False
    then obtain p where "rules c' (rule_key m) = Some (Some p)" "opens (mg_instanceID m) ?ports p"
      using reconcileNSG_success [OF nc assms(2,3)] ports(2) by auto
    then show ?thesis using False ports(1,3) by auto
  qed
qed

theorem security_rule_opens_the_public_ports_witness:
  "\<exists>p ports. ma_rule (snd (reconcileNSG memory_azure edge_manager (publicNSGPorts (publicAzureRoutes [admin_route])) edge_service)) (rule_key edge_manager) = Some (Some p) \<and>
     opens ''gw1'' ports p \<and> set ports = {80, 443}"
proof -
  have "fst (fst (reconcileNSG memory_azure edge_manager (publicNSGPorts (publicAzureRoutes [admin_route])) edge_service)) = None" by code_simp
  then obtain n d c' where run: "reconcileNSG memory_azure edge_manager (publicNSGPorts (publicAzureRoutes [admin_route])) edge_service = ((None, n, d), c')"
    by (metis prod.collapse)
  have on: "mg_nsg edge_manager" "mg_instanceID edge_manager = ''gw1''" by (simp_all add: edge_manager_def)
  have some: "publicAzureRoutes [admin_route] \<noteq> []" by (simp add: publicAzureRoutes_def admin_route_def)
  have same: "{80, 443} \<union> {port. \<exists>route \<in> set [admin_route]. rc_Enabled route \<and> rc_Public route \<and> rc_Host route \<noteq> [] \<and>
      port = rc_ListenerPort route \<and> 1 \<le> port \<and> port \<le> 65535} = {80, 443}"
    by (auto simp: admin_route_def)
  from security_rule_opens_the_public_ports [OF memory_azure_contract on(1) run] some
  show ?thesis unfolding same run on(2) by auto
qed

end
