(* ===== verification/ConfigProperties.thy ===== *)
theory ConfigProperties
  imports ConfigFacts AzureProperties
begin

text \<open>
  The properties of the configuration: what an accepted configuration guarantees to the renderer and to the
  Azure reconciliation, and what a restart reads back.
\<close>

section \<open>Accepted configurations\<close>

definition loopback_endpoint :: "string \<Rightarrow> bool" where
  "loopback_endpoint text \<longleftrightarrow>
     (\<exists>u. url_Parse text = Some u \<and> ToLower (u_Scheme u) \<in> {''http'', ''https''} \<and>
        (EqualFold (Hostname u) ''localhost'' \<or> (\<exists>ip. ParseIP (Hostname u) = Some ip \<and> is_loopback ip)))"

lemma validateCaddyAdminEndpoint_ok:
  assumes "validateCaddyAdminEndpoint e = Inr ()"
  shows "loopback_endpoint e"
proof -
  obtain u where u: "url_Parse e = Some u" using assms by (cases "url_Parse e") (auto simp: validateCaddyAdminEndpoint_def)
  then have "ToLower (u_Scheme u) = ''http'' \<or> ToLower (u_Scheme u) = ''https''"
    and "EqualFold (Hostname u) ''localhost'' \<or> (\<exists>ip. ParseIP (Hostname u) = Some ip \<and> is_loopback ip)"
    using assms by (auto simp: validateCaddyAdminEndpoint_def split: if_splits option.splits)
  then show ?thesis using u unfolding loopback_endpoint_def by auto
qed

lemma accepted_parts:
  assumes "NormalizeAndValidate cfg0 = (Inr (), cfg)"
  shows "cfg = normalizeConfig cfg0" "validateConfig cfg = Inr ()" "ap_Profile cfg = ProfileVM"
    "ap_DeploymentMode cfg \<in> {ModeContainerSocket, ModeAzureVM}" "cc_Listen (ap_Control cfg) \<noteq> []"
    "gw_CaddyAdminEndpoint (ap_Gateway cfg) \<noteq> []"
  using assms by (auto simp: NormalizeAndValidate_def Let_def split: if_splits)

lemma accepted_intro:
  assumes "normalizeConfig cfg = cfg" "validateConfig cfg = Inr ()" "ap_Profile cfg = ProfileVM"
    "ap_DeploymentMode cfg \<in> {ModeContainerSocket, ModeAzureVM}" "cc_Listen (ap_Control cfg) \<noteq> []"
    "gw_CaddyAdminEndpoint (ap_Gateway cfg) \<noteq> []"
  shows "NormalizeAndValidate cfg = (Inr (), cfg)"
  using assms by (auto simp: NormalizeAndValidate_def Let_def)

lemma validateConfig_parts:
  assumes "validateConfig cfg = Inr ()"
  shows "ValidateCertificateConfig (gw_Certificate (ap_Gateway cfg)) = Inr ()"
    "loopback_endpoint (gw_CaddyAdminEndpoint (ap_Gateway cfg))"
    "gw_InternalSourceRanges (ap_Gateway cfg) \<noteq> []" "\<forall>s \<in> set (gw_InternalSourceRanges (ap_Gateway cfg)). source_range s"
    "pr_AdditionalHeaderName (au_ProtectedRoutes (ap_Auth cfg)) = [] \<longleftrightarrow> pr_AdditionalHeaderValue (au_ProtectedRoutes (ap_Auth cfg)) = []"
    "validateSecurityConfig (ap_Security cfg) = Inr ()" "validateAzure (ap_Azure cfg) = Inr ()"
  using assms validateCaddyAdminEndpoint_ok
  by (auto simp: validateConfig_def Let_def res_simps split: if_splits)

lemma validateSecurityConfig_parts:
  assumes "validateSecurityConfig sec = Inr ()"
  shows "0 \<le> sc_MaxRequestBodyBytes sec" "\<forall>m \<in> set (sc_DeniedMethods sec). config_validHTTPToken m"
    "\<forall>p \<in> set (sc_DeniedPathPrefixes sec). HasPrefix p ''/'' \<and> CHR ''*'' \<notin> set p"
    "\<forall>s \<in> set (sc_AllowedCIDRs sec) \<union> set (sc_BlockedCIDRs sec). source_range s"
  using assms by (auto simp: validateSecurityConfig_def validateMethods_def validatePathPrefixes_def validateCIDRs_def res_simps
      split: if_splits)

lemma validateAzure_parts:
  assumes "validateAzure azure = Inr ()"
  shows "az_NSGPriority azure = 0 \<or> 100 \<le> sint (az_NSGPriority azure) \<and> sint (az_NSGPriority azure) \<le> 4096"
    "az_Enabled azure \<Longrightarrow> az_ManageDNS azure \<Longrightarrow> az_DNSZones azure \<noteq> [] \<and> (\<forall>z \<in> set (az_DNSZones azure). zn_Name z \<noteq> [] \<and> zn_ResourceGroup z \<noteq> [])"
  using assms by (auto simp: validateAzure_def split: if_splits)

section \<open>Certificates\<close>

lemma TrimSpace_wildcard: "\<exists>t'. TrimSpace (''*.'' @ t) = ''*.'' @ t'"
proof -
  have "dropWhile is_space (''*.'' @ t) = ''*.'' @ t" by (simp add: is_space_def)
  moreover have "\<exists>t'. rev (dropWhile is_space (rev (''*.'' @ t))) = ''*.'' @ t'"
  proof (cases "\<forall>c \<in> set (rev t). is_space c")
    case True
    then have "dropWhile is_space (rev t @ ''.*'') = ''.*''" by (subst dropWhile_append2) (auto simp: is_space_def)
    then show ?thesis by simp
  next
    case False
    then obtain c where "c \<in> set (rev t)" "\<not> is_space c" by blast
    then have "dropWhile is_space (rev t @ ''.*'') = dropWhile is_space (rev t) @ ''.*''" by (rule dropWhile_append1)
    then show ?thesis by simp
  qed
  ultimately show ?thesis by (simp add: TrimSpace_def)
qed

lemma canon_wildcard:
  assumes "HasPrefix s ''*.''"
  shows "canon_name s = ''*'' \<or> HasPrefix (canon_name s) ''*.''"
proof -
  obtain t where "s = ''*.'' @ t" using assms by (auto simp: HasPrefix_iff)
  then obtain t' where "TrimSpace s = ''*.'' @ t'" using TrimSpace_wildcard by blast
  then have l: "ToLower (TrimSpace s) = ''*.'' @ ToLower t'" by (simp add: lower_byte_def is_upper_def)
  show ?thesis
  proof (cases "ToLower t'" rule: rev_cases)
    case Nil
    then show ?thesis using l by (simp add: canon_name_def TrimSuffix_def HasSuffix_def)
  next
    case (snoc ys y)
    then have "ToLower (TrimSpace s) = (''*.'' @ ys) @ [y]" using l by simp
    then show ?thesis
      by (cases "y = CHR ''.''") (simp_all add: canon_name_def TrimSuffix_def HasSuffix_def HasPrefix_def)
  qed
qed

text \<open>Validation normalises once more, which only changes the subjects.\<close>

lemma ValidateCertificateConfig_defaults:
  fixes c :: CertificateConfig and azure :: AzureConfig
  defines "d \<equiv> ApplyAzureCertificateDefaults c azure"
  shows "ce_Issuer (NormalizeCertificateConfig d) = ce_Issuer d"
    "ce_DNSChallenge (NormalizeCertificateConfig d) = ce_DNSChallenge d"
    "ce_Subjects (NormalizeCertificateConfig d) = normalizeCertificateSubjects (ce_Subjects d)"
proof -
  let ?n = "NormalizeCertificateConfig c"
  have "trimmed_challenge (ce_DNSChallenge ?n)" by (simp add: NormalizeCertificateConfig_fields trim_default_challenge)
  then have t: "trimmed_challenge (ce_DNSChallenge d)"
    unfolding d_def by (auto simp: trimmed_challenge_iff defaults_fields certificateAzureDNSResourceGroup_trimmed)
  have "settled_challenge (ce_DNSChallenge ?n)" by (simp add: NormalizeCertificateConfig_fields settled_default)
  then have s: "defaultChallenge (ce_DNSChallenge d) = ce_DNSChallenge d"
    unfolding d_def by (intro settled_id) (simp add: settled_challenge_def defaults_fields)
  show "ce_DNSChallenge (NormalizeCertificateConfig d) = ce_DNSChallenge d"
    using t s by (simp add: NormalizeCertificateConfig_fields trimmed_challenge_def)
  have i: "ToLower (TrimSpace (ce_Issuer d)) = ce_Issuer d" "ce_Issuer d \<noteq> []" "ce_Issuer d \<noteq> ''default''"
    by (simp_all add: d_def defaults_fields NormalizeCertificateConfig_fields ToLower_TrimSpace_idem lower_letters del: ToLower_simps)
  show "ce_Issuer (NormalizeCertificateConfig d) = ce_Issuer d" by (simp only: NormalizeCertificateConfig_fields i) simp
  show "ce_Subjects (NormalizeCertificateConfig d) = normalizeCertificateSubjects (ce_Subjects d)"
    by (simp add: NormalizeCertificateConfig_fields)
qed

definition usable_challenge :: "DNSChallengeConfig \<Rightarrow> bool" where
  "usable_challenge dns \<longleftrightarrow> dc_Provider dns = ''azure'' \<and>
     ac_SubscriptionID (dc_Azure dns) \<noteq> [] \<and> ac_ResourceGroup (dc_Azure dns) \<noteq> [] \<and>
     (ac_Authentication (dc_Azure dns) = ''managedidentity'' \<or>
      ac_Authentication (dc_Azure dns) = ''appregistration'' \<and> ac_TenantID (dc_Azure dns) \<noteq> [] \<and>
        ac_ClientID (dc_Azure dns) \<noteq> [] \<and> ac_ClientSecret (dc_Azure dns) \<noteq> [])"

lemma wildcard_needs_challenge:
  assumes "ValidateCertificateConfig c = Inr ()" "s \<in> set (ce_Subjects c)" "HasPrefix s ''*.''"
  shows "usable_challenge (ce_DNSChallenge (NormalizeCertificateConfig c)) \<and> ce_Issuer (NormalizeCertificateConfig c) \<noteq> ''zerossl''"
proof -
  let ?n = "NormalizeCertificateConfig c"
  have subjects: "validateSubjects ?n = Inr ()" and challenge: "validateChallenge ?n = Inr ()"
    using assms(1) by (auto simp: ValidateCertificateConfig_def Let_def res_simps split: if_splits)
  have "canon_name s \<noteq> []" using canon_wildcard [OF assms(3)] by auto
  then have "canon_name s \<in> set (ce_Subjects ?n)"
    using assms(2) by (simp add: NormalizeCertificateConfig_fields normalizeCertificateSubjects_def)
  then have ok: "validateCertificateSubject (canon_name s) = Inr ()"
    and prov: "\<not> (HasPrefix (canon_name s) ''*.'' \<and> dc_Provider (ce_DNSChallenge ?n) = [])"
    using subjects by (auto simp: validateSubjects_def res_simps)
  have "canon_name s \<noteq> ''*''" using ok by (auto simp: validateCertificateSubject_def Let_def split: if_splits)
  then have "dc_Provider (ce_DNSChallenge ?n) \<noteq> []" using canon_wildcard [OF assms(3)] prov by blast
  then show ?thesis using challenge by (auto simp: validateChallenge_def usable_challenge_def Let_def split: if_splits)
qed


section \<open>Restarts\<close>

lemma path_Join_nonempty: "d \<noteq> [] \<Longrightarrow> path_Join (d # ds) \<noteq> []"
  by (simp add: path_Join_def path_Clean_def Let_def)

text \<open>Saved settings and a certificate policy, put together, replace all that normalisation may change.\<close>

definition with_saved :: "Settings \<Rightarrow> CertificateConfig \<Rightarrow> AppConfig \<Rightarrow> AppConfig" where
  "with_saved settings certificate cfg = ap_Gateway_update (gw_Certificate_update (\<lambda>_. certificate)) (ApplySettings settings cfg)"

definition frame_of where
  "frame_of (cfg :: AppConfig) =
     (ap_Profile cfg, ap_Control cfg,
      (gw_HTTPListen (ap_Gateway cfg), gw_HTTPSListen (ap_Gateway cfg), gw_CaddyAdminEndpoint (ap_Gateway cfg),
       gw_CaddyBin (ap_Gateway cfg), gw_StateDir (ap_Gateway cfg), gw_CaddyDataDir (ap_Gateway cfg),
       gw_CertificateFile (ap_Gateway cfg)),
      (dk_SocketPath (ap_Docker cfg), dk_Endpoint (ap_Docker cfg)), ap_Health cfg, ap_Audit cfg,
      ap_RoutesFile cfg, ap_ReconcileIntervalSeconds cfg)"

definition same_frame :: "AppConfig \<Rightarrow> AppConfig \<Rightarrow> bool" where
  "same_frame a b \<longleftrightarrow> frame_of a = frame_of b"

lemma same_frame_trans: "same_frame a b \<Longrightarrow> same_frame b c \<Longrightarrow> same_frame a c"
  by (simp add: same_frame_def)

lemma same_frame_sym: "same_frame a b \<Longrightarrow> same_frame b a"
  by (simp add: same_frame_def)

lemma same_frame_normalize: "same_frame (normalizeConfig cfg) cfg"
  by (simp add: same_frame_def frame_of_def normalizeConfig_def Let_def)

lemma same_frame_settings: "same_frame (ApplySettings s cfg) cfg"
  by (simp add: same_frame_def frame_of_def ApplySettings_def Let_def split: option.split)

lemma same_frame_certificate: "same_frame (ap_Gateway_update (gw_Certificate_update f) cfg) cfg"
  by (simp add: same_frame_def frame_of_def)

lemma same_frame_saved: "same_frame (with_saved s c cfg) cfg"
  unfolding with_saved_def by (rule same_frame_trans [OF same_frame_certificate same_frame_settings])

lemma same_frame_paths:
  assumes "same_frame a b"
  shows "SettingsPath a = SettingsPath b" "gw_CertificateFile (ap_Gateway a) = gw_CertificateFile (ap_Gateway b)"
  using assms by (auto simp: same_frame_def frame_of_def SettingsPath_def Let_def)

lemma GatewayConfig_eqI:
  "gw_HTTPListen (a :: GatewayConfig) = gw_HTTPListen b \<Longrightarrow> gw_HTTPSListen a = gw_HTTPSListen b \<Longrightarrow>
   gw_CaddyAdminEndpoint a = gw_CaddyAdminEndpoint b \<Longrightarrow> gw_CaddyBin a = gw_CaddyBin b \<Longrightarrow> gw_StateDir a = gw_StateDir b \<Longrightarrow>
   gw_CaddyDataDir a = gw_CaddyDataDir b \<Longrightarrow> gw_CertificateFile a = gw_CertificateFile b \<Longrightarrow>
   gw_InternalSourceRanges a = gw_InternalSourceRanges b \<Longrightarrow> gw_Certificate a = gw_Certificate b \<Longrightarrow> a = b"
  by (cases a rule: GatewayConfig.cases, cases b rule: GatewayConfig.cases) simp

lemma DockerConfig_eqI:
  "dk_Enabled (a :: DockerConfig) = dk_Enabled b \<Longrightarrow> dk_SocketPath a = dk_SocketPath b \<Longrightarrow> dk_Endpoint a = dk_Endpoint b \<Longrightarrow> a = b"
  by (cases a rule: DockerConfig.cases, cases b rule: DockerConfig.cases) simp

lemma AppConfig_eqI:
  "ap_Profile (a :: AppConfig) = ap_Profile b \<Longrightarrow> ap_DeploymentMode a = ap_DeploymentMode b \<Longrightarrow> ap_Control a = ap_Control b \<Longrightarrow>
   ap_Gateway a = ap_Gateway b \<Longrightarrow> ap_Docker a = ap_Docker b \<Longrightarrow> ap_Azure a = ap_Azure b \<Longrightarrow> ap_Auth a = ap_Auth b \<Longrightarrow>
   ap_Security a = ap_Security b \<Longrightarrow> ap_Health a = ap_Health b \<Longrightarrow> ap_Audit a = ap_Audit b \<Longrightarrow> ap_RoutesFile a = ap_RoutesFile b \<Longrightarrow>
   ap_ReconcileIntervalSeconds a = ap_ReconcileIntervalSeconds b \<Longrightarrow> a = b"
  by (cases a rule: AppConfig.cases, cases b rule: AppConfig.cases) simp

lemma with_saved_frame:
  assumes "same_frame cfg base"
  shows "with_saved (SettingsFromConfig cfg) (gw_Certificate (ap_Gateway cfg)) base = cfg"
proof (rule AppConfig_eqI)
  let ?w = "with_saved (SettingsFromConfig cfg) (gw_Certificate (ap_Gateway cfg)) base"
  show "ap_Gateway ?w = ap_Gateway cfg"
    using assms by (intro GatewayConfig_eqI)
      (simp_all add: same_frame_def frame_of_def with_saved_def ApplySettings_def SettingsFromConfig_def Let_def)
  show "ap_Docker ?w = ap_Docker cfg"
    using assms by (intro DockerConfig_eqI)
      (simp_all add: same_frame_def frame_of_def with_saved_def ApplySettings_def SettingsFromConfig_def Let_def)
qed (use assms in \<open>simp_all add: same_frame_def frame_of_def with_saved_def ApplySettings_def SettingsFromConfig_def Let_def\<close>)

text \<open>The configuration before the saved files are read.\<close>

definition base_config :: "ConfigSources \<Rightarrow> environ \<Rightarrow> string + AppConfig" where
  "base_config src env =
     (let cfg0 = defaults env; path = Getenv env ''GATEWAY_CONFIG_FILE'' in
      bind_res (if path \<noteq> [] then cf_merge src path cfg0 else Inr cfg0) (applyEnv (cf_decoders src) env))"

lemma Load_config_eq:
  "Load_config src env = bind_res (base_config src env) (\<lambda>cfg2. bind_res (loadSaved src cfg2) (\<lambda>cfg3.
      case NormalizeAndValidate cfg3 of (Inl e, cfg) \<Rightarrow> Inl e | (Inr _, cfg) \<Rightarrow> Inr cfg))"
proof -
  have assoc: "bind_res (bind_res a f) g = bind_res a (\<lambda>x. bind_res (f x) g)" for a f g by (cases a) auto
  show ?thesis by (simp add: Load_config_def base_config_def Let_def assoc)
qed

lemma loadSaved_frame:
  assumes "loadSaved src base = Inr cfg"
  shows "same_frame cfg base"
proof -
  obtain settings certificate where "cfg = (case certificate of
        Some c \<Rightarrow> ap_Gateway_update (gw_Certificate_update (\<lambda>_. c)) (case settings of Some s \<Rightarrow> ApplySettings s base | None \<Rightarrow> base)
      | None \<Rightarrow> (case settings of Some s \<Rightarrow> ApplySettings s base | None \<Rightarrow> base))"
    using assms by (auto simp: loadSaved_def Let_def res_simps)
  then show ?thesis
    using same_frame_settings same_frame_certificate same_frame_trans by (auto split: option.splits simp: same_frame_def)
qed

lemma Load_config_frame:
  assumes "Load_config src env = Inr cfg"
  obtains base where "base_config src env = Inr base" "same_frame cfg base"
proof -
  obtain base cfg3 where b: "base_config src env = Inr base" "loadSaved src base = Inr cfg3"
    "(case NormalizeAndValidate cfg3 of (Inl e, cfg) \<Rightarrow> Inl e | (Inr _, cfg) \<Rightarrow> Inr cfg) = Inr cfg"
    using assms by (auto simp: Load_config_eq res_simps)
  then have "NormalizeAndValidate cfg3 = (Inr (), cfg)" by (auto split: prod.splits sum.splits)
  then have "cfg = normalizeConfig cfg3" by (rule accepted_parts(1))
  then show thesis using that b same_frame_normalize loadSaved_frame same_frame_trans by blast
qed


lemma restart_reads_back:
  assumes load: "Load_config src env = Inr cfg"
    and accepted: "NormalizeAndValidate (with_saved settings certificate cfg) = (Inr (), cfg')"
    and paths: "gw_StateDir (ap_Gateway cfg) \<noteq> []" "gw_CertificateFile (ap_Gateway cfg) \<noteq> []"
  shows "Load_config (src\<lparr>cf_settings := (cf_settings src)(SettingsPath cfg := Saved (SettingsFromConfig cfg')),
      cf_certificates := (cf_certificates src)(gw_CertificateFile (ap_Gateway cfg) := Saved (gw_Certificate (ap_Gateway cfg')))\<rparr>) env =
    (case NormalizeAndValidate cfg' of (Inl e, c) \<Rightarrow> Inl e | (Inr _, c) \<Rightarrow> Inr c)"
    (is "Load_config ?src env = _")
proof -
  obtain base where base: "base_config src env = Inr base" "same_frame cfg base" using Load_config_frame [OF load] .
  have base': "base_config ?src env = Inr base" using base(1) by (auto simp: base_config_def Let_def)
  have cfg': "cfg' = normalizeConfig (with_saved settings certificate cfg)" by (rule accepted_parts(1) [OF accepted])
  have frame: "same_frame cfg' base"
    unfolding cfg' by (rule same_frame_trans [OF same_frame_trans [OF same_frame_normalize same_frame_saved] base(2)])
  have "SettingsPath cfg \<noteq> []" using paths(1) path_Join_nonempty by (simp add: SettingsPath_def)
  then have settings: "SettingsStore_Load (SettingsPath base) (cf_settings ?src) = Inr (Some (SettingsFromConfig cfg'))"
    using same_frame_paths(1) [OF base(2)] by (simp add: SettingsStore_Load_def load_json_def)
  have certfile: "gw_CertificateFile (ap_Gateway (ApplySettings (SettingsFromConfig cfg') base)) = gw_CertificateFile (ap_Gateway cfg)"
    using same_frame_paths(2) [OF same_frame_trans [OF same_frame_settings same_frame_sym [OF base(2)]]] .
  have "CertificateStore_Load (gw_CertificateFile (ap_Gateway (ApplySettings (SettingsFromConfig cfg') base))) (cf_certificates ?src) =
      Inr (Some (gw_Certificate (ap_Gateway cfg')))"
    unfolding certfile using paths(2) by (simp add: CertificateStore_Load_def load_json_def)
  then have "loadSaved ?src base = Inr (with_saved (SettingsFromConfig cfg') (gw_Certificate (ap_Gateway cfg')) base)"
    unfolding loadSaved_def settings by (simp add: with_saved_def)
  then have saved: "loadSaved ?src base = Inr cfg'" unfolding with_saved_frame [OF frame] .
  then show ?thesis by (simp add: Load_config_eq base' saved)
qed

lemma canonical_accepted_again:
  assumes "NormalizeAndValidate cfg = (Inr (), cfg')" "canonical_config cfg'"
  shows "NormalizeAndValidate cfg' = (Inr (), cfg')"
proof (rule accepted_intro)
  show "normalizeConfig cfg' = cfg'"
    using assms(2) unfolding accepted_parts(1) [OF assms(1)] by (rule normalizeConfig_idem)
qed (rule accepted_parts [OF assms(1)])+


section \<open>Zones\<close>

lemma clean_canon: "clean_name = canon_name"
  by (simp add: fun_eq_iff clean_name_def canon_name_def)

lemma appendZone_new:
  assumes "canon_name (zn_Name z) = zn_Name z" "zn_Name z \<noteq> []" "TrimSpace (zn_ResourceGroup z) = zn_ResourceGroup z"
    and "zn_ResourceGroup z \<noteq> []" "zn_Name z \<notin> zn_Name ` set zs"
  shows "appendZone g zs z = zs @ [z]"
  using assms by (cases z rule: AzureDNSZoneConfig.cases) (simp add: appendZone_def clean_canon Let_def)

lemma foldl_appendZone_id:
  "\<forall>z \<in> set ys. canon_name (zn_Name z) = zn_Name z \<and> zn_ResourceGroup z \<noteq> [] \<Longrightarrow> zones_normal g (zs @ ys) \<Longrightarrow>
   foldl (appendZone g) zs ys = zs @ ys"
proof (induction ys arbitrary: zs)
  case (Cons y ys)
  have "appendZone g zs y = zs @ [y]"
    using Cons.prems by (intro appendZone_new) (auto simp: zones_normal_def)
  then show ?case using Cons.IH [of "zs @ [y]"] Cons.prems by simp
qed simp

lemma normalizeAzure_zones: "\<exists>b. az_DNSZones (normalizeAzure a) = normalizeDNSZones b \<and>
    az_ResourceGroup (normalizeAzure a) = az_ResourceGroup b \<and> az_DNSZoneName (normalizeAzure a) = az_DNSZoneName b"
proof -
  have "\<exists>b. normalizeAzure a = b\<lparr>az_DNSZones := normalizeDNSZones b\<rparr>"
    unfolding normalizeAzure_def Let_def by (rule exI, rule refl)
  then obtain b where "normalizeAzure a = b\<lparr>az_DNSZones := normalizeDNSZones b\<rparr>" by blast
  then show ?thesis by (intro exI [of _ b]) simp
qed

lemma named_zone_known: "az_DNSZoneName b \<noteq> [] \<Longrightarrow>
    canon_name (az_DNSZoneName b) = [] \<or> canon_name (az_DNSZoneName b) \<in> zn_Name ` set (normalizeDNSZones b)"
  using appendConfigZone_props(3) [of "\<lparr>zn_Name = az_DNSZoneName b, zn_ResourceGroup = az_ResourceGroup b\<rparr>"]
  by (simp add: normalizeDNSZones_def Let_def)

lemma normalized_zones_configured:
  assumes "\<forall>z \<in> set (az_DNSZones (normalizeAzure a)). canon_name (zn_Name z) = zn_Name z \<and> zn_ResourceGroup z \<noteq> []"
  shows "configuredDNSZones (normalizeAzure a) = az_DNSZones (normalizeAzure a)"
proof -
  obtain b where b: "az_DNSZones (normalizeAzure a) = normalizeDNSZones b" "az_ResourceGroup (normalizeAzure a) = az_ResourceGroup b"
    "az_DNSZoneName (normalizeAzure a) = az_DNSZoneName b" using normalizeAzure_zones [of a] by blast
  have loop: "foldl (appendZone (az_ResourceGroup b)) [] (normalizeDNSZones b) = normalizeDNSZones b"
    using foldl_appendZone_id [of "normalizeDNSZones b" "az_ResourceGroup b" "[]"] assms zones_normal_normalize by (simp add: b)
  have "appendZone (az_ResourceGroup b) (normalizeDNSZones b) \<lparr>zn_Name = az_DNSZoneName b, zn_ResourceGroup = az_ResourceGroup b\<rparr> =
      normalizeDNSZones b" if "az_DNSZoneName b \<noteq> []"
    using named_zone_known [OF that] by (auto simp: appendZone_def clean_canon Let_def)
  then show ?thesis by (simp add: configuredDNSZones_def b loop Let_def)
qed

section \<open>Properties\<close>

text \<open>
  C26: an accepted configuration talks to Caddy only over the loopback interface, has source ranges for
  internal routes, and only ranges, methods, path prefixes, sizes and priorities that are valid.
\<close>

theorem accepted_configuration_is_safe:
  assumes "NormalizeAndValidate cfg0 = (Inr (), cfg)"
  shows "loopback_endpoint (gw_CaddyAdminEndpoint (ap_Gateway cfg)) \<and>
    gw_InternalSourceRanges (ap_Gateway cfg) \<noteq> [] \<and>
    (\<forall>s \<in> set (gw_InternalSourceRanges (ap_Gateway cfg)) \<union> set (sc_AllowedCIDRs (ap_Security cfg)) \<union> set (sc_BlockedCIDRs (ap_Security cfg)).
       source_range s) \<and>
    (\<forall>m \<in> set (sc_DeniedMethods (ap_Security cfg)). config_validHTTPToken m \<and> ToUpper m = m) \<and>
    (\<forall>p \<in> set (sc_DeniedPathPrefixes (ap_Security cfg)). HasPrefix p ''/'' \<and> CHR ''*'' \<notin> set p) \<and>
    0 \<le> sc_MaxRequestBodyBytes (ap_Security cfg) \<and>
    (pr_AdditionalHeaderName (au_ProtectedRoutes (ap_Auth cfg)) = [] \<longleftrightarrow> pr_AdditionalHeaderValue (au_ProtectedRoutes (ap_Auth cfg)) = []) \<and>
    (az_NSGPriority (ap_Azure cfg) = 0 \<or> 100 \<le> sint (az_NSGPriority (ap_Azure cfg)) \<and> sint (az_NSGPriority (ap_Azure cfg)) \<le> 4096)"
proof -
  note parts = validateConfig_parts [OF accepted_parts(2) [OF assms]]
  have "\<forall>m \<in> set (sc_DeniedMethods (ap_Security cfg)). ToUpper m = m"
    using config_normalizeMethods_props unfolding accepted_parts(1) [OF assms] by (auto simp: normalizeSecurityConfig_def)
  then show ?thesis using parts validateSecurityConfig_parts [OF parts(6)] validateAzure_parts(1) [OF parts(7)] by blast
qed

theorem accepted_configuration_is_safe_witness:
  "loopback_endpoint (gw_CaddyAdminEndpoint (ap_Gateway (normalizeConfig (defaults Map.empty))))"
proof -
  have "NormalizeAndValidate (defaults Map.empty) = (Inr (), normalizeConfig (defaults Map.empty))" by code_simp
  from accepted_configuration_is_safe [OF this] show ?thesis by blast
qed

text \<open>
  When an accepted configuration has a wildcard certificate subject, Caddy is told to issue the subjects
  with the DNS challenge first, and the challenge has all that its authentication needs.
\<close>

theorem accepted_wildcards_use_dns_challenge:
  assumes "NormalizeAndValidate cfg0 = (Inr (), cfg)" "cert = gw_Certificate (ap_Gateway cfg)"
    and "s \<in> set (ce_Subjects cert)" "HasPrefix s ''*.''"
  shows "usable_challenge (ce_DNSChallenge cert) \<and> ce_Issuer cert \<noteq> ''zerossl'' \<and>
    (\<exists>tls policies. tlsAutomation cert = Some tls \<and> map_of tls ''automation'' = Some (JObj [(''policies'', JArr policies)]) \<and>
       hd policies = JObj (applyRenewalWindow [(''subjects'', jstrs (ce_Subjects cert)),
         (''issuers'', JArr [JObj (certificateIssuer cert True)])] (ce_RenewalWindowRatio cert)))"
proof -
  have cert: "cert = ApplyAzureCertificateDefaults (gw_Certificate (ap_Gateway cfg0)) (normalizeAzure (ap_Azure cfg0))"
    using accepted_parts(1) [OF assms(1)] assms(2) by simp
  note same = ValidateCertificateConfig_defaults [of "gw_Certificate (ap_Gateway cfg0)" "normalizeAzure (ap_Azure cfg0)", folded cert]
  have "ValidateCertificateConfig cert = Inr ()"
    using validateConfig_parts(1) [OF accepted_parts(2) [OF assms(1)]] assms(2) by simp
  from wildcard_needs_challenge [OF this assms(3,4)] have usable: "usable_challenge (ce_DNSChallenge cert)" "ce_Issuer cert \<noteq> ''zerossl''"
    using same by simp_all
  have issuer: "ToLower (TrimSpace (ce_Issuer cert)) = ce_Issuer cert" "ce_Issuer cert \<noteq> []" "ce_Issuer cert \<noteq> ''default''"
    by (simp_all add: cert defaults_fields NormalizeCertificateConfig_fields ToLower_TrimSpace_idem lower_letters del: ToLower_simps)
  have "dc_Provider (ce_DNSChallenge cert) \<noteq> []" "ce_Subjects cert \<noteq> []" using usable(1) assms(3) by (auto simp: usable_challenge_def)
  then show ?thesis using usable issuer by (auto simp: tlsAutomation_def Let_def map_of_put)
qed

definition wildcard_config :: AppConfig where
  "wildcard_config = ap_Azure_update (\<lambda>_. edge_azure) (in_certificate (\<lambda>c. c\<lparr>ce_Subjects := [''*.Shop.example.com''],
     ce_DNSChallenge := (ce_DNSChallenge c)\<lparr>dc_Provider := '' Azure''\<rparr>\<rparr>) (defaults Map.empty))"

theorem accepted_wildcards_use_dns_challenge_witness:
  "usable_challenge (ce_DNSChallenge (gw_Certificate (ap_Gateway (normalizeConfig wildcard_config)))) \<and>
   ac_ResourceGroup (dc_Azure (ce_DNSChallenge (gw_Certificate (ap_Gateway (normalizeConfig wildcard_config))))) = ''dns''"
proof -
  have ok: "NormalizeAndValidate wildcard_config = (Inr (), normalizeConfig wildcard_config)" by code_simp
  have s: "''*.shop.example.com'' \<in> set (ce_Subjects (gw_Certificate (ap_Gateway (normalizeConfig wildcard_config))))" by code_simp
  have group: "ac_ResourceGroup (dc_Azure (ce_DNSChallenge (gw_Certificate (ap_Gateway (normalizeConfig wildcard_config))))) = ''dns''" by code_simp
  from accepted_wildcards_use_dns_challenge [OF ok refl s] group show ?thesis by simp
qed

text \<open>
  With Azure DNS management on, the zones the reconciliation uses are the zones of the accepted
  configuration, when their names are canonical, and there is at least one.
\<close>

theorem accepted_zones_are_reconciled:
  assumes "NormalizeAndValidate cfg0 = (Inr (), cfg)" "az_Enabled (ap_Azure cfg)" "az_ManageDNS (ap_Azure cfg)"
    and "\<forall>z \<in> set (az_DNSZones (ap_Azure cfg)). canon_name (zn_Name z) = zn_Name z"
  shows "configuredDNSZones (ap_Azure cfg) = az_DNSZones (ap_Azure cfg) \<and> configuredDNSZones (ap_Azure cfg) \<noteq> []"
proof -
  have azure: "ap_Azure cfg = normalizeAzure (ap_Azure cfg0)" using accepted_parts(1) [OF assms(1)] by simp
  note zones = validateAzure_parts(2) [OF validateConfig_parts(7) [OF accepted_parts(2) [OF assms(1)]] assms(2,3)]
  have "configuredDNSZones (ap_Azure cfg) = az_DNSZones (ap_Azure cfg)"
    unfolding azure by (rule normalized_zones_configured) (use zones assms(4) azure in auto)
  then show ?thesis using zones by simp
qed

theorem accepted_zones_are_reconciled_witness:
  "configuredDNSZones (ap_Azure (normalizeConfig wildcard_config)) =
     [\<lparr>zn_Name = ''shop.example.com'', zn_ResourceGroup = ''dns''\<rparr>, \<lparr>zn_Name = ''example.com'', zn_ResourceGroup = ''rg''\<rparr>]"
proof -
  have ok: "NormalizeAndValidate wildcard_config = (Inr (), normalizeConfig wildcard_config)" by code_simp
  have on: "az_Enabled (ap_Azure (normalizeConfig wildcard_config))" "az_ManageDNS (ap_Azure (normalizeConfig wildcard_config))" by code_simp+
  have zones: "az_DNSZones (ap_Azure (normalizeConfig wildcard_config)) =
      [\<lparr>zn_Name = ''shop.example.com'', zn_ResourceGroup = ''dns''\<rparr>, \<lparr>zn_Name = ''example.com'', zn_ResourceGroup = ''rg''\<rparr>]" by code_simp
  have "canon_name ''shop.example.com'' = ''shop.example.com''" "canon_name ''example.com'' = ''example.com''" by code_simp+
  then show ?thesis using accepted_zones_are_reconciled [OF ok on] zones by simp
qed

text \<open>
  C27: after a change of the settings and of the certificate policy that was accepted and saved, a restart in the same
  environment works with what was saved, normalised and validated once more. That is the configuration of before the
  restart when its zone names, certificate subjects and denied path prefixes are in normal form; a denied prefix
  \<open>'/x /'\<close> for example is saved as \<open>'/x '\<close> and becomes \<open>'/x'\<close>.
\<close>

theorem settings_survive_restart:
  assumes "Load_config src env = Inr cfg" "NormalizeAndValidate (with_saved settings certificate cfg) = (Inr (), cfg')"
    and "gw_StateDir (ap_Gateway cfg) \<noteq> []" "gw_CertificateFile (ap_Gateway cfg) \<noteq> []"
    and "SettingsStore_Save (SettingsPath cfg) (SettingsFromConfig cfg') None (cf_settings src) = (Inr (), settingsDisk)"
    and "CertificateStore_Save (gw_CertificateFile (ap_Gateway cfg)) (gw_Certificate (ap_Gateway cfg')) None (cf_certificates src) =
      (Inr (), certificateDisk)"
  shows "Load_config (src\<lparr>cf_settings := settingsDisk, cf_certificates := certificateDisk\<rparr>) env =
      (case NormalizeAndValidate cfg' of (Inl e, c) \<Rightarrow> Inl e | (Inr _, c) \<Rightarrow> Inr c) \<and>
    ((\<forall>z \<in> set (az_DNSZones (ap_Azure cfg')). canon_name (zn_Name z) = zn_Name z) \<and>
     (\<forall>s \<in> set (ce_Subjects (gw_Certificate (ap_Gateway cfg'))). canon_name s = s) \<and>
     (\<forall>p \<in> set (sc_DeniedPathPrefixes (ap_Security cfg')). TrimSpace p = p \<and> p \<noteq> []) \<longrightarrow>
       Load_config (src\<lparr>cf_settings := settingsDisk, cf_certificates := certificateDisk\<rparr>) env = Inr cfg')"
proof -
  have "settingsDisk = (cf_settings src)(SettingsPath cfg := Saved (SettingsFromConfig cfg'))"
    using assms(5) by (simp add: SettingsStore_Save_def split: if_splits)
  moreover have "certificateDisk = (cf_certificates src)(gw_CertificateFile (ap_Gateway cfg) := Saved (gw_Certificate (ap_Gateway cfg')))"
    using assms(6) by (simp add: CertificateStore_Save_def split: if_splits)
  ultimately have "Load_config (src\<lparr>cf_settings := settingsDisk, cf_certificates := certificateDisk\<rparr>) env =
      (case NormalizeAndValidate cfg' of (Inl e, c) \<Rightarrow> Inl e | (Inr _, c) \<Rightarrow> Inr c)"
    using restart_reads_back [OF assms(1-4)] by simp
  then show ?thesis using canonical_accepted_again [OF assms(2)] by (simp add: canonical_config_def)
qed

definition empty_sources :: ConfigSources where
  "empty_sources = \<lparr>cf_decoders = \<lparr>dec_ParseFloat = (\<lambda>s. Inr (Finite 0)), dec_DNSZones = (\<lambda>s. Inr [])\<rparr>,
     cf_merge = (\<lambda>path cfg. Inr cfg), cf_settings = (\<lambda>path. Absent), cf_certificates = (\<lambda>path. Absent)\<rparr>"

text \<open>The configuration of a start with nothing but an admin token in the environment.\<close>

definition start_environ :: environ where
  "start_environ = [''GATEWAY_ADMIN_TOKEN'' \<mapsto> ''s3cret'']"

definition start_config :: AppConfig where
  "start_config = normalizeConfig (ap_Auth_update (au_AdminToken_update (\<lambda>_. ''s3cret'')) (defaults Map.empty))"

lemma start_defaults: "defaults start_environ = defaults Map.empty"
  by (simp add: defaults_def start_environ_def envOr_def Getenv_def)

lemma start_applies: "applyEnv d start_environ cfg = Inr (ap_Auth_update (au_AdminToken_update (\<lambda>_. ''s3cret'')) cfg)"
  by (simp add: applyEnv_def gateway_steps_def azure_steps_def other_steps_def start_environ_def Getenv_def assign_def)

lemma start_loads: "Load_config empty_sources start_environ = Inr start_config"
proof -
  let ?cfg = "ap_Auth_update (au_AdminToken_update (\<lambda>_. ''s3cret'')) (defaults Map.empty)"
  have "loadSaved empty_sources ?cfg = Inr ?cfg" "NormalizeAndValidate ?cfg = (Inr (), start_config)" by code_simp+
  moreover have "Getenv start_environ ''GATEWAY_CONFIG_FILE'' = []" by (simp add: start_environ_def Getenv_def)
  ultimately show ?thesis by (simp add: Load_config_def start_applies start_defaults)
qed

theorem settings_survive_restart_witness:
  "\<exists>settingsDisk certificateDisk.
     Load_config (empty_sources\<lparr>cf_settings := settingsDisk, cf_certificates := certificateDisk\<rparr>) start_environ =
       Inr (normalizeConfig (with_saved (SettingsFromConfig wildcard_config) (gw_Certificate (ap_Gateway wildcard_config))
         start_config))"
proof -
  let ?cfg = start_config
  let ?new = "with_saved (SettingsFromConfig wildcard_config) (gw_Certificate (ap_Gateway wildcard_config)) ?cfg"
  have ok: "NormalizeAndValidate ?new = (Inr (), normalizeConfig ?new)" by code_simp
  have "canonical_config (normalizeConfig ?new)" by code_simp
  then have canon: "(\<forall>z \<in> set (az_DNSZones (ap_Azure (normalizeConfig ?new))). canon_name (zn_Name z) = zn_Name z) \<and>
     (\<forall>s \<in> set (ce_Subjects (gw_Certificate (ap_Gateway (normalizeConfig ?new)))). canon_name s = s) \<and>
     (\<forall>p \<in> set (sc_DeniedPathPrefixes (ap_Security (normalizeConfig ?new))). TrimSpace p = p \<and> p \<noteq> [])"
    by (simp only: canonical_config_def)
  have dirs: "gw_StateDir (ap_Gateway ?cfg) \<noteq> []" "gw_CertificateFile (ap_Gateway ?cfg) \<noteq> []" by code_simp+
  have path: "SettingsPath ?cfg \<noteq> []" by code_simp
  have "SettingsStore_Save (SettingsPath ?cfg) (SettingsFromConfig (normalizeConfig ?new)) None (cf_settings empty_sources) =
      (Inr (), (cf_settings empty_sources)(SettingsPath ?cfg := Saved (SettingsFromConfig (normalizeConfig ?new))))"
    using path by (simp add: SettingsStore_Save_def)
  moreover have "CertificateStore_Save (gw_CertificateFile (ap_Gateway ?cfg)) (gw_Certificate (ap_Gateway (normalizeConfig ?new))) None (cf_certificates empty_sources) =
      (Inr (), (cf_certificates empty_sources)(gw_CertificateFile (ap_Gateway ?cfg) := Saved (gw_Certificate (ap_Gateway (normalizeConfig ?new)))))"
    using dirs by (simp add: CertificateStore_Save_def)
  ultimately show ?thesis using settings_survive_restart [OF start_loads ok dirs] canon by blast
qed

end
