(* ===== verification/DockerDiscovery.thy ===== *)
theory DockerDiscovery
  imports CaddyProperties ConfigModel "HOL-Library.Multiset" "HOL-Library.Code_Target_Numeral"
begin

text \<open>
  Discovery of routes from container labels, \<open>backend/internal/docker/discovery.go\<close> and \<open>network.go\<close>.
  The answer of the Docker daemon, decoded, and the host name are arguments. A Go map is the list of its
  entries in the order the range loop visits them.
\<close>

section \<open>What the daemon answers\<close>

record portPayload =
  pp_PrivatePort :: int
  pp_PublicPort :: int
  pp_Type :: string

text \<open>A network of a container: its name and the address, \<open>None\<close> when the entry does not decode.\<close>

record containerPayload =
  pl_ID :: string
  pl_Names :: "string list"
  pl_Image :: string
  pl_Labels :: headers
  pl_State :: string
  pl_Status :: string
  pl_Ports :: "portPayload list"
  pl_Networks :: "(string \<times> string option) list"

datatype docker_answer =
  RequestFailed string
| CallFailed string
| Answered int string "string + containerPayload list"

section \<open>Services\<close>

definition label :: "headers \<Rightarrow> string \<Rightarrow> string" where
  "label labels key = (case map_of labels key of Some v \<Rightarrow> v | None \<Rightarrow> [])"

definition labelTrue :: "string \<Rightarrow> bool" where
  "labelTrue text \<longleftrightarrow> ToLower (TrimSpace text) \<in> {''1'', ''true'', ''yes'', ''y'', ''on''}"

definition cleanName :: "string list \<Rightarrow> string" where
  "cleanName names = (case names of [] \<Rightarrow> ''unknown'' | n # _ \<Rightarrow> TrimPrefix n ''/'')"

definition shortID :: "string \<Rightarrow> string" where
  "shortID i = (if length i \<le> 12 then i else take 12 i)"

text \<open>The loop over the ports: a port seen before only fills in a missing public port.\<close>

definition same_port :: "int \<Rightarrow> string \<Rightarrow> ContainerPort \<Rightarrow> bool" where
  "same_port private portType p \<longleftrightarrow> cp_PrivatePort p = private \<and> cp_Type p = portType"

fun merge_port :: "int \<Rightarrow> string \<Rightarrow> int \<Rightarrow> ContainerPort list \<Rightarrow> ContainerPort list" where
  "merge_port private portType public [] = [\<lparr>cp_PrivatePort = private, cp_PublicPort = public, cp_Type = portType\<rparr>]"
| "merge_port private portType public (p # ports) =
     (if same_port private portType p
      then (if cp_PublicPort p = 0 \<and> public > 0 then p\<lparr>cp_PublicPort := public\<rparr> else p) # ports
      else p # merge_port private portType public ports)"

definition merge_ports :: "portPayload list \<Rightarrow> ContainerPort list" where
  "merge_ports ports =
     foldl (\<lambda>out p. merge_port (pp_PrivatePort p) (ToLower (TrimSpace (pp_Type p))) (pp_PublicPort p) out) [] ports"

text \<open>The sorts compare keys that are distinct, so the order of an unstable sort is the one here.\<close>

definition sort_ports :: "ContainerPort list \<Rightarrow> ContainerPort list" where
  "sort_ports ports = sort_key (\<lambda>p. (cp_PrivatePort p, cp_Type p)) ports"

definition endpoints_of :: "(string \<times> string option) list \<Rightarrow> NetworkEndpoint list" where
  "endpoints_of networks =
     concat (map (\<lambda>(name, address). case address of
        Some a \<Rightarrow> [\<lparr>ne_Name = name, ne_Address = TrimSpace a\<rparr>] | None \<Rightarrow> []) networks)"

definition toService :: "containerPayload \<Rightarrow> ContainerService" where
  "toService container =
     (let networks = pl_Networks container; endpoints = endpoints_of networks in
      \<lparr>cs_ID = pl_ID container, cs_Name = cleanName (pl_Names container), cs_Image = pl_Image container,
       cs_State = pl_State container, cs_Status = pl_Status container,
       cs_Ports = sort_ports (merge_ports (pl_Ports container)), cs_Labels = pl_Labels container,
       cs_Networks = sort (map fst networks), cs_NetworkEndpoints = sort_key ne_Name endpoints,
       cs_NetworkAddresses = sort (filter (\<lambda>a. a \<noteq> []) (map ne_Address endpoints)),
       cs_BindPolicy = None, cs_RouteHint = None, cs_RouteWarning = []\<rparr>)"

section \<open>Networks\<close>

definition GatewayContainer :: "string option \<Rightarrow> ContainerService list \<Rightarrow> ContainerService option" where
  "GatewayContainer hostname containers =
     (case hostname of
        None \<Rightarrow> None
      | Some h \<Rightarrow> (if h = [] then None
          else find (\<lambda>c. cs_ID c = h \<or> HasPrefix (cs_ID c) h \<or> cs_Name c = h) containers))"

definition SharedNetworks :: "string list \<Rightarrow> string list \<Rightarrow> string list" where
  "SharedNetworks containerNetworks gatewayNetworks =
     sort (filter (\<lambda>n. n \<in> set gatewayNetworks \<and> n \<noteq> ''host'' \<and> n \<noteq> ''none'') containerNetworks)"

fun endpoint_address :: "NetworkEndpoint list \<Rightarrow> string list \<Rightarrow> string option" where
  "endpoint_address endpoints [] = None"
| "endpoint_address endpoints (network # rest) =
     (case find (\<lambda>e. ne_Name e = network \<and> TrimSpace (ne_Address e) \<noteq> []) endpoints of
        Some e \<Rightarrow> Some (TrimSpace (ne_Address e))
      | None \<Rightarrow> endpoint_address endpoints rest)"

definition SharedNetworkAddress :: "ContainerService \<Rightarrow> string list \<Rightarrow> string" where
  "SharedNetworkAddress container gatewayNetworks =
     (let shared = SharedNetworks (cs_Networks container) gatewayNetworks in
      case endpoint_address (cs_NetworkEndpoints container) shared of
        Some address \<Rightarrow> address
      | None \<Rightarrow>
          (if list_ex (\<lambda>n. n \<noteq> ''bridge'') shared then
             (let name = TrimSpace (label (cs_Labels container) ''com.docker.compose.service'') in
              if name \<noteq> [] then name else cs_Name container)
           else []))"

section \<open>Routes\<close>

definition zero_route :: RouteConfig where
  "zero_route =
     \<lparr>rc_ID = [], rc_Name = [], rc_Host = [], rc_ListenerID = [], rc_ListenerName = [], rc_ListenerPort = 0,
      rc_ListenerProtocol = [], rc_BackendPoolID = [], rc_BackendPoolName = [], rc_PathPrefix = [], rc_Exposure = [],
      rc_Enabled = False, rc_Public = False, rc_HTTPS = False, rc_WebSocket = False, rc_Protected = False, rc_Source = [],
      rc_Headers = [],
      rc_Security = \<lparr>rs_Disabled = False, rs_MaxRequestBodyBytes = 0, rs_AdditionalDeniedMethods = [],
        rs_AdditionalDeniedPathPrefixes = [], rs_AllowedCIDRs = [], rs_BlockedCIDRs = []\<rparr>,
      rc_Upstreams = [], rc_Discovered = False, rc_LastError = [], rc_LastUpdated = - 62135596800000000000\<rparr>"

definition route_port :: "ContainerService \<Rightarrow> string" where
  "route_port service =
     (let port = label (cs_Labels service) ''caddy.port'' in
      if port = [] then
        (case find (\<lambda>p. cp_Type p = ''tcp'') (cs_Ports service) of Some p \<Rightarrow> Itoa (cp_PrivatePort p) | None \<Rightarrow> [])
      else port)"

definition routeFromLabels :: "ContainerService \<Rightarrow> string list \<Rightarrow> RouteConfig option" where
  "routeFromLabels service gatewayNetworks =
     (let labels = cs_Labels service;
          host = TrimSpace (label labels ''caddy.host'');
          port = route_port service;
          exposure0 = ToLower (label labels ''exposure.mode'');
          exposure = (if exposure0 = [] then ''public'' else exposure0);
          address = SharedNetworkAddress service gatewayNetworks
      in if \<not> labelTrue (label labels ''caddy.enable'') then None
         else if host = [] then None
         else case Atoi port of
           None \<Rightarrow> None
         | Some n \<Rightarrow>
             (if n < 1 \<or> 65535 < n then None
              else if address = [] then None
              else Some (zero_route\<lparr>rc_ID := ''docker-'' @ shortID (cs_ID service), rc_Host := ToLower host,
                rc_Exposure := exposure, rc_Enabled := True,
                rc_Public := (exposure = [] \<or> exposure = ''public'' \<or> exposure = ''protected''),
                rc_HTTPS := True, rc_WebSocket := labelTrue (label labels ''caddy.websocket''),
                rc_Protected := (exposure = ''protected''), rc_Source := ''docker'', rc_Discovered := True,
                rc_Upstreams := [\<lparr>up_Name = address, up_URL = ''http://'' @ JoinHostPort address port,
                  up_HealthPath = TrimSpace (label labels ''caddy.health_path'')\<rparr>]\<rparr>)))"

text \<open>One iteration of the loop over the services.\<close>

definition annotate :: "ContainerService option \<Rightarrow> ContainerService \<Rightarrow> ContainerService" where
  "annotate gateway service =
     (if \<not> labelTrue (label (cs_Labels service) ''caddy.enable'') then service
      else case gateway of
        None \<Rightarrow> service\<lparr>cs_RouteWarning := ''automatic route skipped: gateway container could not be identified''\<rparr>
      | Some g \<Rightarrow>
          (if cs_ID service = cs_ID g then service
           else case routeFromLabels service (cs_Networks g) of
             Some route \<Rightarrow> service\<lparr>cs_RouteHint := Some route\<rparr>
           | None \<Rightarrow> service\<lparr>cs_RouteWarning := ''automatic route skipped: no reachable shared-network address or invalid routing labels''\<rparr>))"

definition route_hints :: "ContainerService list \<Rightarrow> RouteConfig list" where
  "route_hints services = concat (map (\<lambda>s. case cs_RouteHint s of Some r \<Rightarrow> [r] | None \<Rightarrow> []) services)"

definition Discover :: "string option \<Rightarrow> docker_answer \<Rightarrow> string + ContainerService list \<times> RouteConfig list" where
  "Discover hostname answer =
     (case answer of
        RequestFailed e \<Rightarrow> Inl e
      | CallFailed e \<Rightarrow> Inl (''docker list containers: '' @ e)
      | Answered http status body \<Rightarrow>
          (if http < 200 \<or> 300 \<le> http then Inl (''docker list containers returned '' @ status)
           else case body of
             Inl e \<Rightarrow> Inl e
           | Inr payload \<Rightarrow>
               (let services0 = map toService payload;
                    services = map (annotate (GatewayContainer hostname services0)) services0
                in Inr (sort_key cs_Name services, route_hints services))))"

section \<open>The order of the map\<close>

text \<open>The order in which the range loop visits the networks does not change the service.\<close>

lemma mset_concat_map: "mset xs = mset ys \<Longrightarrow> mset (concat (map f xs)) = mset (concat (map f ys))"
proof -
  assume eq: "mset xs = mset ys"
  have "mset (concat (map f zs)) = (\<Sum>z \<in># mset zs. mset (f z))" for zs by (induction zs) simp_all
  then show ?thesis using eq by simp
qed

lemma sort_mset: "mset xs = mset ys \<Longrightarrow> sort xs = sort (ys :: string list)"
  by (metis sorted_list_of_multiset_mset)

lemma endpoint_names: "map ne_Name (endpoints_of networks) = map fst (filter (\<lambda>(n, a). a \<noteq> None) networks)"
  by (induction networks) (auto simp: endpoints_of_def split: option.split)

lemma toService_order:
  assumes "mset (pl_Networks c) = mset networks" "distinct (map fst networks)"
  shows "toService (c\<lparr>pl_Networks := networks\<rparr>) = toService c"
proof -
  have names: "mset (map fst (pl_Networks c)) = mset (map fst networks)" using assms(1) by simp
  have ends: "mset (endpoints_of (pl_Networks c)) = mset (endpoints_of networks)"
    using mset_concat_map [OF assms(1)] by (simp add: endpoints_of_def)
  have "distinct (map fst (filter P networks))" for P
    using assms(2) by (induction networks) auto
  then have "distinct (map ne_Name (endpoints_of networks))" by (simp add: endpoint_names)
  then have "inj_on ne_Name (set (endpoints_of networks))" by (simp add: distinct_map)
  then have "sort_key ne_Name (endpoints_of networks) = sort_key ne_Name (endpoints_of (pl_Networks c))"
    by (intro sort_key_inj_key_eq) (simp_all add: ends)
  moreover have "mset (filter (\<lambda>a. a \<noteq> []) (map ne_Address (endpoints_of (pl_Networks c)))) =
      mset (filter (\<lambda>a. a \<noteq> []) (map ne_Address (endpoints_of networks)))" using ends by (simp only: mset_filter mset_map)
  ultimately show ?thesis using sort_mset [OF names] sort_mset by (simp add: toService_def Let_def)
qed

section \<open>Properties\<close>

text \<open>An address of the container in a network it shares with the gateway.\<close>

definition reachable_address :: "ContainerService \<Rightarrow> string list \<Rightarrow> string \<Rightarrow> bool" where
  "reachable_address service gatewayNetworks address \<longleftrightarrow>
     (\<exists>network. network \<in> set (cs_Networks service) \<and> network \<in> set gatewayNetworks \<and> network \<notin> {''host'', ''none''} \<and>
        ((\<exists>e \<in> set (cs_NetworkEndpoints service). ne_Name e = network \<and> TrimSpace (ne_Address e) = address) \<or>
         network \<noteq> ''bridge'' \<and> (address = cs_Name service \<or> address = TrimSpace (label (cs_Labels service) ''com.docker.compose.service''))))"

lemma endpoint_address_Some:
  "endpoint_address endpoints networks = Some a \<Longrightarrow>
     \<exists>n \<in> set networks. \<exists>e \<in> set endpoints. ne_Name e = n \<and> TrimSpace (ne_Address e) = a \<and> a \<noteq> []"
proof (induction networks)
  case (Cons n networks)
  show ?case
  proof (cases "find (\<lambda>e. ne_Name e = n \<and> TrimSpace (ne_Address e) \<noteq> []) endpoints")
    case None
    then show ?thesis using Cons by auto
  next
    case (Some e)
    then have "a = TrimSpace (ne_Address e)" using Cons.prems by simp
    then show ?thesis using Some by (auto simp: find_Some_iff)
  qed
qed simp

lemma SharedNetworkAddress_reachable:
  assumes "SharedNetworkAddress service gatewayNetworks \<noteq> []"
  shows "reachable_address service gatewayNetworks (SharedNetworkAddress service gatewayNetworks)"
proof (cases "endpoint_address (cs_NetworkEndpoints service) (SharedNetworks (cs_Networks service) gatewayNetworks)")
  case (Some a)
  from endpoint_address_Some [OF this] show ?thesis
    using Some unfolding reachable_address_def SharedNetworkAddress_def SharedNetworks_def Let_def by auto
next
  case None
  then obtain n where n: "n \<in> set (SharedNetworks (cs_Networks service) gatewayNetworks)" "n \<noteq> ''bridge''"
    using assms by (auto simp: SharedNetworkAddress_def Let_def list_ex_iff split: if_splits)
  then have "SharedNetworkAddress service gatewayNetworks = cs_Name service \<or>
      SharedNetworkAddress service gatewayNetworks = TrimSpace (label (cs_Labels service) ''com.docker.compose.service'')"
    using None by (auto simp: SharedNetworkAddress_def Let_def list_ex_iff)
  then show ?thesis using n unfolding reachable_address_def SharedNetworks_def by auto
qed

lemma routeFromLabels_Some:
  assumes "routeFromLabels service gatewayNetworks = Some route"
  shows "labelTrue (label (cs_Labels service) ''caddy.enable'')" "rc_Host route \<noteq> []" "rc_Source route = ''docker''"
    "\<exists>address port. rc_Upstreams route = [\<lparr>up_Name = address, up_URL = ''http://'' @ JoinHostPort address (route_port service),
        up_HealthPath = TrimSpace (label (cs_Labels service) ''caddy.health_path'')\<rparr>] \<and>
      reachable_address service gatewayNetworks address \<and> Atoi (route_port service) = Some port \<and> 1 \<le> port \<and> port \<le> 65535"
proof -
  obtain n where n: "labelTrue (label (cs_Labels service) ''caddy.enable'')" "Atoi (route_port service) = Some n" "1 \<le> n" "n \<le> 65535"
    "TrimSpace (label (cs_Labels service) ''caddy.host'') \<noteq> []" "SharedNetworkAddress service gatewayNetworks \<noteq> []"
    and r: "rc_Host route = ToLower (TrimSpace (label (cs_Labels service) ''caddy.host''))" "rc_Source route = ''docker''"
    "rc_Upstreams route = [\<lparr>up_Name = SharedNetworkAddress service gatewayNetworks,
       up_URL = ''http://'' @ JoinHostPort (SharedNetworkAddress service gatewayNetworks) (route_port service),
       up_HealthPath = TrimSpace (label (cs_Labels service) ''caddy.health_path'')\<rparr>]"
    using assms unfolding routeFromLabels_def Let_def by (force split: if_splits option.splits)
  show "labelTrue (label (cs_Labels service) ''caddy.enable'')" "rc_Source route = ''docker''" by fact+
  show "rc_Host route \<noteq> []" using n r by simp
  show "\<exists>address port. rc_Upstreams route = [\<lparr>up_Name = address, up_URL = ''http://'' @ JoinHostPort address (route_port service),
        up_HealthPath = TrimSpace (label (cs_Labels service) ''caddy.health_path'')\<rparr>] \<and>
      reachable_address service gatewayNetworks address \<and> Atoi (route_port service) = Some port \<and> 1 \<le> port \<and> port \<le> 65535"
    using n r SharedNetworkAddress_reachable [OF n(6)] by blast
qed

lemma annotate_hint:
  assumes "cs_RouteHint service = None" "cs_RouteHint (annotate gateway service) = Some route"
  obtains g where "gateway = Some g" "cs_ID service \<noteq> cs_ID g" "routeFromLabels service (cs_Networks g) = Some route"
    "annotate gateway service = service\<lparr>cs_RouteHint := Some route\<rparr>"
  using assms unfolding annotate_def by (auto split: if_splits option.splits)

text \<open>
  C28: every automatic route belongs to a running container that asks for one with its label and is not the
  gateway; its single upstream is an address the container has in a network it shares with the gateway,
  never the host's network, with a valid port.
\<close>

theorem discovered_routes_are_reachable:
  assumes "Discover hostname (Answered http status (Inr payload)) = Inr (services, routes)" "route \<in> set routes"
  shows "\<exists>service gateway. service \<in> set services \<and> GatewayContainer hostname (map toService payload) = Some gateway \<and>
    cs_RouteHint service = Some route \<and> cs_ID service \<noteq> cs_ID gateway \<and>
    labelTrue (label (cs_Labels service) ''caddy.enable'') \<and>
    (\<exists>address port. rc_Upstreams route = [\<lparr>up_Name = address, up_URL = ''http://'' @ JoinHostPort address (route_port service),
        up_HealthPath = TrimSpace (label (cs_Labels service) ''caddy.health_path'')\<rparr>] \<and>
      reachable_address service (cs_Networks gateway) address \<and> Atoi (route_port service) = Some port \<and> 1 \<le> port \<and> port \<le> 65535)"
proof -
  let ?services = "map toService payload"
  let ?gateway = "GatewayContainer hostname ?services"
  have run: "services = sort_key cs_Name (map (annotate ?gateway) ?services)" "routes = route_hints (map (annotate ?gateway) ?services)"
    using assms(1) by (auto simp: Discover_def Let_def split: if_splits)
  obtain container where c: "container \<in> set payload" "cs_RouteHint (annotate ?gateway (toService container)) = Some route"
    using assms(2) run(2) by (auto simp: route_hints_def split: option.splits)
  have "cs_RouteHint (toService container) = None" by (simp add: toService_def Let_def)
  from annotate_hint [OF this c(2)] obtain g where g: "?gateway = Some g" "cs_ID (toService container) \<noteq> cs_ID g"
    "routeFromLabels (toService container) (cs_Networks g) = Some route"
    "annotate ?gateway (toService container) = toService container\<lparr>cs_RouteHint := Some route\<rparr>" .
  let ?s = "toService container\<lparr>cs_RouteHint := Some route\<rparr>"
  have "?s \<in> set services" using run(1) c(1) g(4) by force
  moreover have "route_port ?s = route_port (toService container)" "reachable_address ?s = reachable_address (toService container)"
    by (simp_all add: route_port_def reachable_address_def fun_eq_iff Let_def)
  ultimately show ?thesis using g routeFromLabels_Some [OF g(3)]
    by (intro exI [of _ ?s] exI [of _ g]) simp
qed

definition web_container :: containerPayload where
  "web_container = \<lparr>pl_ID = ''0123456789abcdef'', pl_Names = [''/web''], pl_Image = ''web:1'',
     pl_Labels = [(''caddy.enable'', ''true''), (''caddy.host'', ''Web.Example.com''), (''exposure.mode'', ''protected'')],
     pl_State = ''running'', pl_Status = ''Up'',
     pl_Ports = [\<lparr>pp_PrivatePort = 8080, pp_PublicPort = 0, pp_Type = ''tcp''\<rparr>],
     pl_Networks = [(''host'', Some []), (''edge'', Some ''172.20.0.5'')]\<rparr>"

definition gateway_container :: containerPayload where
  "gateway_container = \<lparr>pl_ID = ''feedbeef'', pl_Names = [''/gateway''], pl_Image = ''gateway:1'', pl_Labels = [],
     pl_State = ''running'', pl_Status = ''Up'', pl_Ports = [], pl_Networks = [(''edge'', Some ''172.20.0.2'')]\<rparr>"

definition web_route :: RouteConfig where
  "web_route = zero_route\<lparr>rc_ID := ''docker-0123456789ab'', rc_Host := ''web.example.com'', rc_Exposure := ''protected'',
     rc_Enabled := True, rc_Public := True, rc_HTTPS := True, rc_Protected := True, rc_Source := ''docker'',
     rc_Discovered := True, rc_Upstreams := [\<lparr>up_Name = ''172.20.0.5'', up_URL = ''http://172.20.0.5:8080'', up_HealthPath = []\<rparr>]\<rparr>"

theorem discovered_routes_are_reachable_witness:
  "snd (projr (Discover (Some ''gateway'') (Answered 200 ''200 OK'' (Inr [web_container, gateway_container])))) = [web_route] \<and>
   (\<exists>service gateway. GatewayContainer (Some ''gateway'') (map toService [web_container, gateway_container]) = Some gateway \<and>
      cs_RouteHint service = Some web_route \<and> reachable_address service (cs_Networks gateway) ''172.20.0.5'')"
proof -
  have routes: "snd (projr (Discover (Some ''gateway'') (Answered 200 ''200 OK'' (Inr [web_container, gateway_container])))) = [web_route]"
    by code_simp
  obtain services where run: "Discover (Some ''gateway'') (Answered 200 ''200 OK'' (Inr [web_container, gateway_container])) =
      Inr (services, [web_route])"
    using routes by (auto simp: Discover_def Let_def)
  have ups: "rc_Upstreams web_route = [\<lparr>up_Name = ''172.20.0.5'', up_URL = ''http://172.20.0.5:8080'', up_HealthPath = []\<rparr>]"
    by (simp add: web_route_def)
  from discovered_routes_are_reachable [OF run, of web_route] show ?thesis unfolding routes ups by auto
qed

section \<open>Labels the checks let through\<close>

text \<open>
  The exposure label is put into lower case but not trimmed, and an unknown value is not refused. A
  container labelled \<open>"internal "\<close> gets a route that is proxied for every source address.
\<close>

definition padded_route :: RouteConfig where
  "padded_route = web_route\<lparr>rc_Exposure := ''internal '', rc_Public := False, rc_Protected := False\<rparr>"

definition padded_entries :: "json list" where
  "padded_entries = (case renderRoute padded_route token_auth edge_security [''10.0.0.0/8''] of Inr es \<Rightarrow> es | Inl _ \<Rightarrow> [])"

theorem padded_exposure_label_is_unrestricted:
  "routeFromLabels (toService (web_container\<lparr>pl_Labels := [(''caddy.enable'', ''true''), (''caddy.host'', ''web.example.com''),
       (''exposure.mode'', ''internal '')]\<rparr>)) [''edge''] = Some padded_route \<and>
   list_ex (\<lambda>e. proxies e \<and> map fst (match_of e) = [''host'']) padded_entries"
  by (intro conjI; code_simp)

text \<open>
  A port label with a sign is a number for \<open>strconv.Atoi\<close> but not a port of a URL: the route is accepted,
  and rendering it fails, which fails the whole configuration.
\<close>

definition signed_service :: ContainerService where
  "signed_service = toService (web_container\<lparr>pl_Labels := [(''caddy.enable'', ''true''), (''caddy.host'', ''web.example.com''),
     (''caddy.port'', ''+80'')]\<rparr>)"

theorem signed_port_label_breaks_rendering:
  "case routeFromLabels signed_service [''edge''] of
     None \<Rightarrow> False
   | Some route \<Rightarrow> renderRoute route token_auth edge_security [''10.0.0.0/8''] =
       Inl (''route docker-0123456789ab: parse '' @ Quote ''http://172.20.0.5:+80'')"
  by code_simp

end
