(* ===== verification/HealthChecker.thy ===== *)
theory HealthChecker
  imports ConfigModel "HOL-Library.Multiset"
begin

text \<open>
  The health checks of the upstreams, \<open>backend/internal/health/checker.go\<close>. The outcome of a request is an
  argument, and so is the order in which the workers finish their jobs.
\<close>

section \<open>The checked address\<close>

definition maxConcurrentChecks :: nat where
  "maxConcurrentChecks = 8"

text \<open>The path the request is sent to; the rest of the URL is the upstream's, without query and fragment.\<close>

definition health_path :: "HealthConfig \<Rightarrow> UpstreamTarget \<Rightarrow> URL \<Rightarrow> string" where
  "health_path cfg upstream parsed =
     (let p0 = TrimSpace (up_HealthPath upstream);
          p1 = (if p0 = [] then TrimSpace (hc_DefaultPath cfg) else p0);
          p2 = (if p1 = [] then u_Path parsed else p1);
          p3 = (if p2 = [] then ''/'' else p2)
      in if HasPrefix p3 ''/'' then p3 else ''/'' @ p3)"

definition healthURL :: "HealthConfig \<Rightarrow> UpstreamTarget \<Rightarrow> string + URL" where
  "healthURL cfg upstream =
     (case url_Parse (up_URL upstream) of
        None \<Rightarrow> Inl (''parse '' @ Quote (up_URL upstream))
      | Some parsed \<Rightarrow>
          (if u_Scheme parsed = [] \<or> u_Host parsed = []
           then Inl (''upstream URL '' @ Quote (up_URL upstream) @ '' must include scheme and host'')
           else Inr (parsed\<lparr>u_Path := health_path cfg upstream parsed\<rparr>)))"

section \<open>One upstream\<close>

text \<open>
  What happens around a request: the context may have ended before it, the request may not be made or may
  fail, or it is answered with a status code and line.
\<close>

datatype probe_result = ContextEnded string | ProbeFailed string | Responded int string

definition checkUpstream :: "HealthConfig \<Rightarrow> (URL \<Rightarrow> probe_result) \<Rightarrow> string option \<Rightarrow> UpstreamTarget \<Rightarrow> string option" where
  "checkUpstream cfg probe ended upstream =
     (case ended of
        Some e \<Rightarrow> Some e
      | None \<Rightarrow>
          (case healthURL cfg upstream of
             Inl e \<Rightarrow> Some e
           | Inr address \<Rightarrow>
               (case probe address of
                  ContextEnded e \<Rightarrow> Some e
                | ProbeFailed e \<Rightarrow> Some e
                | Responded http status \<Rightarrow>
                    (if http < 200 \<or> 400 \<le> http then Some (''health check returned '' @ status) else None))))"

section \<open>All routes\<close>

text \<open>
  What a worker meets while it serves the job: the time it starts at, the state of the context before each
  upstream, and the answers.
\<close>

record job_run =
  jr_now :: time
  jr_ended :: "nat \<Rightarrow> string option"
  jr_probe :: "nat \<Rightarrow> URL \<Rightarrow> probe_result"

fun checkUpstreams :: "HealthConfig \<Rightarrow> job_run \<Rightarrow> nat \<Rightarrow> UpstreamTarget list \<Rightarrow> RouteHealthStatus \<Rightarrow> RouteHealthStatus" where
  "checkUpstreams cfg run i [] status = status"
| "checkUpstreams cfg run i (upstream # rest) status =
     (case checkUpstream cfg (jr_probe run i) (jr_ended run i) upstream of
        Some e \<Rightarrow> status\<lparr>hs_Healthy := False, hs_Error := up_Name upstream @ '': '' @ e\<rparr>
      | None \<Rightarrow> checkUpstreams cfg run (i + 1) rest status)"

definition checkRoute :: "HealthConfig \<Rightarrow> job_run \<Rightarrow> RouteConfig \<Rightarrow> RouteHealthStatus" where
  "checkRoute cfg run route =
     checkUpstreams cfg run 0 (rc_Upstreams route)
       \<lparr>hs_RouteID = rc_ID route, hs_Host = rc_Host route, hs_Healthy = True, hs_CheckedAt = jr_now run, hs_Error = []\<rparr>"

definition active_routes :: "RouteConfig list \<Rightarrow> RouteConfig list" where
  "active_routes routes = filter (\<lambda>route. rc_Enabled route \<and> rc_Upstreams route \<noteq> []) routes"

definition no_status :: RouteHealthStatus where
  "no_status = \<lparr>hs_RouteID = [], hs_Host = [], hs_Healthy = False, hs_CheckedAt = - 62135596800000000000, hs_Error = []\<rparr>"

text \<open>
  The workers write their own slots of the slice. \<open>order\<close> is the order of these writes, \<open>None\<close> in the
  result stands for the nil slice of a checker that is off.
\<close>

definition run_jobs :: "HealthConfig \<Rightarrow> (nat \<Rightarrow> job_run) \<Rightarrow> RouteConfig list \<Rightarrow> nat list \<Rightarrow> RouteHealthStatus list \<Rightarrow> RouteHealthStatus list" where
  "run_jobs cfg runs active order statuses =
     foldl (\<lambda>out i. out[i := checkRoute cfg (runs i) (active ! i)]) statuses order"

definition Check :: "HealthConfig \<Rightarrow> (nat \<Rightarrow> job_run) \<Rightarrow> nat list \<Rightarrow> RouteConfig list \<Rightarrow> RouteHealthStatus list option" where
  "Check cfg runs order routes =
     (if \<not> hc_Enabled cfg then None
      else let active = active_routes routes in
        Some (run_jobs cfg runs active order (replicate (length active) no_status)))"

section \<open>The order of the workers\<close>

lemma run_jobs_nth:
  "length (run_jobs cfg runs active order sts) = length sts"
  "i < length sts \<Longrightarrow> run_jobs cfg runs active order sts ! i =
     (if i \<in> set order then checkRoute cfg (runs i) (active ! i) else sts ! i)"
proof (induction order arbitrary: sts)
  case (Cons j order)
  case 1
  show ?case using Cons.IH(1) by (simp add: run_jobs_def)
  case 2
  then show ?case using Cons.IH(2) [of "sts[j := checkRoute cfg (runs j) (active ! j)]"]
    by (auto simp: run_jobs_def nth_list_update)
qed (simp_all add: run_jobs_def)

lemma checkUpstreams_all:
  "\<forall>j < length us. checkUpstream cfg (jr_probe run (k + j)) (jr_ended run (k + j)) (us ! j) = None \<Longrightarrow>
   checkUpstreams cfg run k us st = st"
proof (induction us arbitrary: k)
  case (Cons u us)
  have "checkUpstream cfg (jr_probe run k) (jr_ended run k) u = None" using Cons.prems by (metis add_0_right length_Cons nth_Cons_0 zero_less_Suc)
  moreover have "\<forall>j < length us. checkUpstream cfg (jr_probe run (k + 1 + j)) (jr_ended run (k + 1 + j)) (us ! j) = None"
  proof (intro allI impI)
    fix j assume "j < length us"
    then show "checkUpstream cfg (jr_probe run (k + 1 + j)) (jr_ended run (k + 1 + j)) (us ! j) = None"
      using Cons.prems [rule_format, of "Suc j"] by simp
  qed
  ultimately show ?case using Cons.IH [of "k + 1"] by simp
qed simp

lemma checkUpstreams_some:
  "j < length us \<Longrightarrow> checkUpstream cfg (jr_probe run (k + j)) (jr_ended run (k + j)) (us ! j) \<noteq> None \<Longrightarrow>
   \<not> hs_Healthy (checkUpstreams cfg run k us st)"
proof (induction us arbitrary: k j)
  case (Cons u us)
  show ?case
  proof (cases "checkUpstream cfg (jr_probe run k) (jr_ended run k) u")
    case None
    then obtain i where "j = Suc i" using Cons.prems(2) by (cases j) auto
    then show ?thesis using Cons.IH [of i "k + 1"] Cons.prems None by simp
  next
    case (Some e)
    then show ?thesis by simp
  qed
qed simp

lemma checkRoute_healthy:
  "hs_Healthy (checkRoute cfg run route) \<longleftrightarrow>
     (\<forall>j < length (rc_Upstreams route). checkUpstream cfg (jr_probe run j) (jr_ended run j) (rc_Upstreams route ! j) = None)"
  unfolding checkRoute_def
  using checkUpstreams_all [of "rc_Upstreams route" cfg run 0] checkUpstreams_some [of _ "rc_Upstreams route" cfg run 0]
  by (metis (no_types, lifting) RouteHealthStatus.select_convs(3) add_0)

text \<open>Whatever order the workers finish in, the statuses are those of the active routes, in their order.\<close>

lemma Check_any_order:
  assumes "mset order = mset [0..<length (active_routes routes)]" "hc_Enabled cfg"
  shows "Check cfg runs order routes =
    Some (map (\<lambda>i. checkRoute cfg (runs i) (active_routes routes ! i)) [0..<length (active_routes routes)])"
proof -
  have "set order = {0..<length (active_routes routes)}" using assms(1) by (metis atLeastLessThan_upt set_mset_mset)
  then have "run_jobs cfg runs (active_routes routes) order (replicate (length (active_routes routes)) no_status) =
      map (\<lambda>i. checkRoute cfg (runs i) (active_routes routes ! i)) [0..<length (active_routes routes)]"
    by (intro nth_equalityI) (simp_all add: run_jobs_nth)
  then show ?thesis using assms(2) by (simp add: Check_def Let_def)
qed

end
