(* ===== verification/CertificatePolicy.thy ===== *)
theory CertificatePolicy
  imports ConfigLoad LogStore "HOL-Library.Code_Target_Numeral"
begin

text \<open>
  Which stored certificates are still in use: \<open>backend/internal/certificate/policy.go\<close>, \<open>events.go\<close> and the
  check of the served certificates in \<open>archive.go\<close>. The runtime configuration is the decoded struct that
  \<open>ParsePolicy\<close> declares; a map is the list of its entries in the order of the range loop.
\<close>

section \<open>Names\<close>

definition normalizeName :: "string \<Rightarrow> string" where
  "normalizeName name = TrimSuffix (ToLower (TrimSpace name)) ''.''"

definition identifier_byte :: "char \<Rightarrow> bool" where
  "identifier_byte c \<longleftrightarrow> c \<in> {CHR ''.'', CHR ''-'', CHR ''*'', CHR '':''} \<or> is_lower c \<or> is_upper c \<or> is_digit c"

definition safeIdentifier :: "string \<Rightarrow> bool" where
  "safeIdentifier text \<longleftrightarrow> text \<noteq> [] \<and> length text \<le> 253 \<and> list_all identifier_byte text"

definition Covers :: "string \<Rightarrow> string \<Rightarrow> bool" where
  "Covers subject0 host0 =
     (let subject = normalizeName subject0; host = normalizeName host0 in
      if subject = host then True
      else if \<not> HasPrefix subject ''*.'' \<or> HasPrefix host ''*.'' then False
      else let suffix = TrimPrefix subject ''*'' in
        HasSuffix host suffix \<and> TrimSuffix host suffix \<noteq> [] \<and> CHR ''.'' \<notin> set (TrimSuffix host suffix))"

section \<open>The runtime configuration\<close>

record AutomationPolicy =
  au_OnDemand :: bool
  au_Managers :: string

record AutomaticHTTPS =
  ah_Disabled :: bool
  ah_DisableCertificates :: bool
  ah_Skip :: "string list"
  ah_SkipCertificates :: "string list"

record RuntimeRoute =
  ro_Match :: "string list list"
  ro_Handle :: "string list"

text \<open>\<open>sr_TLS\<close> has the keys of each connection policy.\<close>

record RuntimeServer =
  sr_Listen :: "string list"
  sr_TLS :: "string list list"
  sr_Automatic :: AutomaticHTTPS
  sr_Routes :: "RuntimeRoute list"

text \<open>A certificate loader has its name and its contents, decoded as a list of names.\<close>

record RuntimeConfig =
  rt_StorageModule :: string
  rt_StorageRoot :: string
  rt_Certificates :: "(string \<times> (string + string list)) list"
  rt_Policies :: "AutomationPolicy list"
  rt_Servers :: "RuntimeServer list"

record PolicyEndpoint =
  ep_Address :: string
  ep_Host :: string

record Policy =
  po_ManagedSubjects :: "string list"
  po_Endpoints :: "PolicyEndpoint list"
  po_verified :: bool

fun fold_res :: "('a \<Rightarrow> 's \<Rightarrow> string + 's) \<Rightarrow> 'a list \<Rightarrow> 's \<Rightarrow> string + 's" where
  "fold_res f [] s = Inr s"
| "fold_res f (x # xs) s = bind_res (f x s) (fold_res f xs)"

definition load_subjects :: "string \<times> (string + string list) \<Rightarrow> Policy \<Rightarrow> string + Policy" where
  "load_subjects entry policy =
     (if fst entry \<noteq> ''automate'' then Inl ''manual certificate loaders require operator review''
      else map_sum id (\<lambda>subjects. policy\<lparr>po_ManagedSubjects := subjects\<rparr>) (snd entry))"

definition add_endpoint :: "string \<Rightarrow> string \<Rightarrow> Policy \<Rightarrow> string + Policy" where
  "add_endpoint host address policy =
     (case SplitHostPort address of
        None \<Rightarrow> Inl (''unsupported TLS listener: '' @ address)
      | Some (listen0, port) \<Rightarrow>
          (let listen1 = (if listen0 = [] \<or> listen0 = ''0.0.0.0'' then ''127.0.0.1'' else listen0);
               listen = (if listen1 = ''::'' then ''::1'' else listen1)
           in case ParseIP listen of
             None \<Rightarrow> Inl ''non-loopback TLS listener requires operator review''
           | Some ip \<Rightarrow>
               (if \<not> is_loopback ip then Inl ''non-loopback TLS listener requires operator review''
                else Inr (policy\<lparr>po_Endpoints := po_Endpoints policy @ [\<lparr>ep_Address = JoinHostPort listen port, ep_Host = host\<rparr>]\<rparr>))))"

definition auto_managed :: "AutomaticHTTPS \<Rightarrow> string \<Rightarrow> bool" where
  "auto_managed a host \<longleftrightarrow> \<not> ah_Disabled a \<and> \<not> ah_DisableCertificates a \<and> host \<notin> set (ah_Skip a) \<and> host \<notin> set (ah_SkipCertificates a)"

definition parse_host :: "RuntimeServer \<Rightarrow> string \<Rightarrow> Policy \<Rightarrow> string + Policy" where
  "parse_host server host0 policy =
     (let host = normalizeName host0 in
      if host = [] \<or> ContainsAny host (''{} /'' @ [CHR 0x5C])
      then Inl ''invalid runtime certificate hostname''
      else bind_res (fold_res (add_endpoint host) (sr_Listen server) policy) (\<lambda>p.
        Inr (if auto_managed (sr_Automatic server) host
             then p\<lparr>po_ManagedSubjects := po_ManagedSubjects p @ [host]\<rparr> else p)))"

definition parse_match :: "RuntimeServer \<Rightarrow> string list \<Rightarrow> Policy \<Rightarrow> string + Policy" where
  "parse_match server hosts policy =
     (if hosts = [] then Inl ''TLS route has no explicit hostname'' else fold_res (parse_host server) hosts policy)"

definition parse_route :: "RuntimeServer \<Rightarrow> RuntimeRoute \<Rightarrow> Policy \<Rightarrow> string + Policy" where
  "parse_route server route policy =
     (if ro_Match route = [] then Inl ''catch-all TLS routes require operator review''
      else if ''subroute'' \<in> set (ro_Handle route) then Inl ''nested TLS routes require operator review''
      else fold_res (parse_match server) (ro_Match route) policy)"

definition parse_server :: "RuntimeServer \<Rightarrow> Policy \<Rightarrow> string + Policy" where
  "parse_server server policy =
     (if sr_TLS server = [] then
        (if \<not> ah_Disabled (sr_Automatic server) then Inl ''implicit TLS listeners require operator review'' else Inr policy)
      else if \<exists>connection \<in> set (sr_TLS server). connection \<noteq> [] then Inl ''custom TLS connection policies require operator review''
      else if sr_Listen server = [] then Inl ''TLS listener address is missing''
      else fold_res (parse_route server) (sr_Routes server) policy)"

definition check_subjects :: "Policy \<Rightarrow> string + Policy" where
  "check_subjects policy =
     (let subjects = map normalizeName (po_ManagedSubjects policy) in
      if \<exists>s \<in> set subjects. \<not> safeIdentifier s then Inl ''invalid runtime certificate subject''
      else Inr (policy\<lparr>po_ManagedSubjects := subjects\<rparr>))"

text \<open>A name that another name covers as a wildcard is left out, unless it was asked for explicitly.\<close>

definition reduce_subjects :: "string list \<Rightarrow> string list \<Rightarrow> string list" where
  "reduce_subjects explicit allSubjects =
     remdups_adj (sort (filter (\<lambda>subject. \<not> list_ex (\<lambda>wildcard. normalizeName wildcard \<noteq> subject \<and> Covers wildcard subject) allSubjects \<or>
         subject \<in> set explicit) (map normalizeName allSubjects)))"

definition ParsePolicy :: "(string + RuntimeConfig) \<Rightarrow> string \<Rightarrow> string + Policy" where
  "ParsePolicy decoded storageDirectory =
     bind_res decoded (\<lambda>config.
      if rt_StorageModule config \<noteq> ''file_system'' \<or> path_Clean (rt_StorageRoot config) \<noteq> path_Clean storageDirectory
      then Inl ''active certificate storage does not match the inspected directory''
      else
       bind_res (fold_res load_subjects (rt_Certificates config) \<lparr>po_ManagedSubjects = [], po_Endpoints = [], po_verified = True\<rparr>) (\<lambda>p1.
       if \<exists>a \<in> set (rt_Policies config). au_OnDemand a \<or> au_Managers a \<noteq> []
       then Inl ''dynamic certificate management requires operator review''
       else
        bind_res (check_subjects p1) (\<lambda>p2.
        bind_res (fold_res parse_server (rt_Servers config) p2) (\<lambda>p3.
        Inr (p3\<lparr>po_ManagedSubjects := reduce_subjects (po_ManagedSubjects p2) (po_ManagedSubjects p3)\<rparr>)))))"

section \<open>The inventory\<close>

record CertStatus =
  ct_ID :: string
  ct_State :: string
  ct_Subjects :: "string list"
  ct_Issuer :: string
  ct_SerialNumber :: string
  ct_NotBefore :: time
  ct_NotAfter :: time
  ct_RemainingSeconds :: int
  ct_RenewalWindowStart :: time
  ct_CertificateFile :: string
  ct_PrivateKeyFile :: string
  ct_MetadataFile :: string
  ct_FingerprintSHA256 :: string
  ct_Usage :: string
  ct_CoveredBy :: "string list"
  ct_CanArchive :: bool

record CertSnapshot =
  sp_StorageDirectory :: string
  sp_ScannedAt :: time
  sp_Certificates :: "CertStatus list"
  sp_Warnings :: "string list"
  sp_PolicyKnown :: bool

text \<open>The two nested loops: the usage and the list of covering names so far.\<close>

definition classify_pair :: "string \<Rightarrow> string \<Rightarrow> string \<times> string list \<Rightarrow> string \<times> string list" where
  "classify_pair subject managed acc =
     (if Covers subject managed then (''managed'', snd acc)
      else if Covers managed subject then (fst acc, snd acc @ [managed]) else acc)"

definition classify_names :: "string list \<Rightarrow> string list \<Rightarrow> string \<times> string list" where
  "classify_names subjects managedSubjects =
     foldl (\<lambda>acc subject. foldl (\<lambda>acc managed. classify_pair subject managed acc) acc managedSubjects) (''unreferenced'', []) subjects"

definition classify_status :: "Policy \<Rightarrow> string list \<Rightarrow> CertStatus \<Rightarrow> CertStatus" where
  "classify_status policy warnings status =
     (let (usage0, covered) = classify_names (ct_Subjects status) (po_ManagedSubjects policy);
          usage = (if usage0 \<noteq> ''managed'' \<and> covered \<noteq> [] then ''covered'' else usage0)
      in status\<lparr>ct_Usage := usage, ct_CoveredBy := remdups_adj (sort covered),
           ct_CanArchive := (po_verified policy \<and> usage \<noteq> ''managed'' \<and> ct_Subjects status \<noteq> [] \<and> warnings = [])\<rparr>)"

definition Classify :: "Policy \<Rightarrow> CertSnapshot \<Rightarrow> CertSnapshot" where
  "Classify policy snapshot =
     snapshot\<lparr>sp_PolicyKnown := True,
       sp_Certificates := map (classify_status policy (sp_Warnings snapshot)) (sp_Certificates snapshot)\<rparr>"

section \<open>The served certificates\<close>

record ServedCertificate =
  sv_Fingerprint :: string
  sv_NotBefore :: time
  sv_NotAfter :: time
  sv_HostnameOk :: bool

text \<open>
  Connecting to an endpoint fails, or the handshake shows a certificate or none. \<open>sv_HostnameOk\<close> is the
  answer of \<open>VerifyHostname\<close>.
\<close>

datatype handshake = DialFailed string | NoCertificate | Shows ServedCertificate

text \<open>The inner loop over the subjects: affected or not, or the error for a wildcard route.\<close>

fun affected_loop :: "PolicyEndpoint \<Rightarrow> string list \<Rightarrow> bool \<Rightarrow> string + bool" where
  "affected_loop pe [] affected = Inr affected"
| "affected_loop pe (subject # rest) affected =
     (if Covers subject (ep_Host pe) \<or> Covers (ep_Host pe) subject then
        (if CHR ''*'' \<in> set (ep_Host pe) then Inl ''wildcard routes require operator review before archiving''
         else affected_loop pe rest True)
      else affected_loop pe rest affected)"

definition verify_endpoint :: "(PolicyEndpoint \<Rightarrow> handshake) \<Rightarrow> (PolicyEndpoint \<Rightarrow> time) \<Rightarrow> CertStatus \<Rightarrow> PolicyEndpoint \<Rightarrow> string option" where
  "verify_endpoint dial now target pe =
     (case dial pe of
        DialFailed e \<Rightarrow> Some (''cannot verify certificate served for '' @ ep_Host pe @ '': '' @ e)
      | NoCertificate \<Rightarrow> Some (''no certificate served for '' @ ep_Host pe)
      | Shows served \<Rightarrow>
          (if sv_Fingerprint served = ct_FingerprintSHA256 target then Some (''certificate is still served for '' @ ep_Host pe)
           else if \<not> sv_HostnameOk served \<or> now pe < sv_NotBefore served \<or> sv_NotAfter served \<le> now pe
           then Some (''replacement certificate for '' @ ep_Host pe @ '' is not valid'') else None))"

fun verify_loop :: "(PolicyEndpoint \<Rightarrow> handshake) \<Rightarrow> (PolicyEndpoint \<Rightarrow> time) \<Rightarrow> CertStatus \<Rightarrow> PolicyEndpoint list \<Rightarrow> PolicyEndpoint set \<Rightarrow> string option" where
  "verify_loop dial now target [] checked = None"
| "verify_loop dial now target (pe # rest) checked =
     (case affected_loop pe (ct_Subjects target) False of
        Inl e \<Rightarrow> Some e
      | Inr affected \<Rightarrow>
          (if \<not> affected \<or> pe \<in> checked then verify_loop dial now target rest checked
           else case verify_endpoint dial now target pe of
             Some e \<Rightarrow> Some e
           | None \<Rightarrow> verify_loop dial now target rest (insert pe checked)))"

text \<open>One handshake and one reading of the clock for each endpoint; \<open>None\<close> is the nil error.\<close>

definition verifyNotServing :: "(PolicyEndpoint \<Rightarrow> handshake) \<Rightarrow> (PolicyEndpoint \<Rightarrow> time) \<Rightarrow> CertStatus \<Rightarrow> Policy \<Rightarrow> string option" where
  "verifyNotServing dial now target policy = verify_loop dial now target (po_Endpoints policy) {}"

section \<open>Certificate events\<close>

record CertEvent =
  ev_Time :: time
  ev_Operation :: string
  ev_Outcome :: string
  ev_Subjects :: "string list"
  ev_ErrorCode :: string
  ev_RetryAt :: "time option"

definition event_operation :: "Entry \<Rightarrow> string option" where
  "event_operation entry =
     (if \<not> HasPrefix (le_Source entry) ''caddy/'' then None
      else if HasSuffix (le_Source entry) ''/tls.renew'' then Some ''renew''
      else if HasSuffix (le_Source entry) ''/tls.obtain'' then Some ''obtain'' else None)"

definition event_outcome :: "Entry \<Rightarrow> string option" where
  "event_outcome entry =
     (let m = le_Message entry in
      if m = ''certificate renewed successfully'' \<or> m = ''certificate obtained successfully'' then Some ''success''
      else if m = ''will retry'' then Some ''retry''
      else if le_Level entry = ''error'' then Some ''failure''
      else if m = ''renewing certificate'' \<or> m = ''obtaining certificate'' then Some ''started'' else None)"

definition event_subjects :: "Entry \<Rightarrow> string list" where
  "event_subjects entry =
     (case map_of (le_Fields entry) ''identifier'' of Some (JStr s) \<Rightarrow> (if safeIdentifier s then [s] else []) | _ \<Rightarrow> []) @
     (case map_of (le_Fields entry) ''identifiers'' of
        Some (JArr xs) \<Rightarrow> concat (map (\<lambda>x. case x of JStr s \<Rightarrow> (if safeIdentifier s then [s] else []) | _ \<Rightarrow> []) xs)
      | _ \<Rightarrow> [])"

text \<open>\<open>strings.Cut\<close> of the text at \<open>"] "\<close>.\<close>

fun cut_bracket :: "string \<Rightarrow> (string \<times> string) option" where
  "cut_bracket [] = None"
| "cut_bracket (c # s) =
     (if HasPrefix (c # s) ''] '' then Some ([], drop 2 (c # s))
      else map_option (\<lambda>(a, b). (c # a, b)) (cut_bracket s))"

definition detail_subject :: "string \<Rightarrow> string list" where
  "detail_subject detail =
     (if \<not> HasPrefix detail ''['' then []
      else case cut_bracket (tl detail) of
        None \<Rightarrow> []
      | Some (identifier, remainder) \<Rightarrow>
          (if safeIdentifier identifier \<and> (HasPrefix remainder ''renew:'' \<or> HasPrefix remainder ''obtain:'') then [identifier] else []))"

definition error_code :: "string \<Rightarrow> string" where
  "error_code detail =
     (if Contains detail ''rate'' \<and> Contains detail ''limit'' then ''rate_limit''
      else if Contains detail ''unauthorized'' \<or> Contains detail ''403'' \<or> Contains detail ''credential'' then ''authorization''
      else if Contains detail ''dns'' \<or> Contains detail ''propagation'' then ''dns''
      else if Contains detail ''timeout'' \<or> Contains detail ''connection'' then ''network'' else ''other'')"

text \<open>
  \<open>sprint\<close> is \<open>fmt.Sprint\<close> on the field, \<open>None\<close> for a missing one. \<open>retry\<close> is the time the
  \<open>retrying_in\<close> field gives: its product with a second is rounded as \<open>float64\<close> does.
\<close>

record EventReaders =
  er_sprint :: "json option \<Rightarrow> string"
  er_nanoseconds :: "rat \<Rightarrow> int"

definition event_retry :: "EventReaders \<Rightarrow> Entry \<Rightarrow> time option" where
  "event_retry readers entry =
     (case map_of (le_Fields entry) ''retrying_in'' of
        Some (JFloat (Finite seconds)) \<Rightarrow>
          (if 0 \<le> seconds \<and> seconds < 86400 * 365 then Some (le_Time entry + er_nanoseconds readers seconds) else None)
      | _ \<Rightarrow> None)"

definition event_of :: "EventReaders \<Rightarrow> Entry \<Rightarrow> CertEvent option" where
  "event_of readers entry =
     (case event_operation entry of
        None \<Rightarrow> None
      | Some operation \<Rightarrow>
          (case event_outcome entry of
             None \<Rightarrow> None
           | Some outcome \<Rightarrow>
               (let subjects = event_subjects entry;
                    detail = ToLower (er_sprint readers (map_of (le_Fields entry) ''error''));
                    bad = (outcome = ''failure'' \<or> outcome = ''retry'')
                in Some \<lparr>ev_Time = le_Time entry, ev_Operation = operation, ev_Outcome = outcome,
                     ev_Subjects = (if bad \<and> subjects = [] then detail_subject detail else subjects),
                     ev_ErrorCode = (if bad then error_code detail else []), ev_RetryAt = event_retry readers entry\<rparr>)))"

definition RecentEvents :: "EventReaders \<Rightarrow> Entry list \<Rightarrow> CertEvent list" where
  "RecentEvents readers entries = take 50 (List.map_filter (event_of readers) entries)"

end
