(* ===== verification/CertificateProperties.thy ===== *)
theory CertificateProperties
  imports CertificatePolicy
begin

text \<open>
  What the policy and the inventory guarantee before a certificate is archived: every host whose certificate
  Caddy manages stays covered by another managed name, and no endpoint still serves the certificate.
\<close>

section \<open>The hosts Caddy manages\<close>

definition server_hosts :: "RuntimeServer \<Rightarrow> string set" where
  "server_hosts server =
     {h. sr_TLS server \<noteq> [] \<and> auto_managed (sr_Automatic server) h \<and>
        (\<exists>route \<in> set (sr_Routes server). \<exists>match \<in> set (ro_Match route). h \<in> normalizeName ` set match)}"

definition explicit_subjects :: "RuntimeConfig \<Rightarrow> string set" where
  "explicit_subjects config =
     {s. \<exists>entry \<in> set (rt_Certificates config). \<exists>names. snd entry = Inr names \<and> s \<in> normalizeName ` set names}"

definition auto_hosts :: "RuntimeConfig \<Rightarrow> string set" where
  "auto_hosts config = (\<Union>server \<in> set (rt_Servers config). server_hosts server)"

text \<open>Names that one pass of normalisation makes canonical: no second trailing dot, no inner white space at it.\<close>

definition canonical_names :: "RuntimeConfig \<Rightarrow> bool" where
  "canonical_names config \<longleftrightarrow> (\<forall>h \<in> auto_hosts config \<union> explicit_subjects config. normalizeName h = h)"

section \<open>The loops\<close>

lemma fold_res_collect:
  assumes "\<And>x s s'. x \<in> set xs \<Longrightarrow> f x s = Inr s' \<Longrightarrow> g s' = g s \<union> A x"
  shows "fold_res f xs s = Inr s' \<Longrightarrow> g s' = g s \<union> (\<Union>x \<in> set xs. A x)"
  using assms
proof (induction xs arbitrary: s)
  case (Cons x xs)
  obtain s1 where s1: "f x s = Inr s1" "fold_res f xs s1 = Inr s'" using Cons.prems(1) by (auto simp: res_simps)
  have "g s1 = g s \<union> A x" using Cons.prems(2) [OF _ s1(1)] by simp
  moreover have "g s' = g s1 \<union> (\<Union>x \<in> set xs. A x)" using Cons.IH [OF s1(2)] Cons.prems(2) by simp
  ultimately show ?case by auto
qed simp

abbreviation subjects_of :: "Policy \<Rightarrow> string set" where
  "subjects_of policy \<equiv> set (po_ManagedSubjects policy)"

lemma fold_subjects:
  assumes "fold_res f xs s = Inr s'" "\<And>x s s'. f x s = Inr s' \<Longrightarrow> subjects_of s' = subjects_of s \<union> A x"
  shows "subjects_of s' = subjects_of s \<union> (\<Union>x \<in> set xs. A x)"
  by (rule fold_res_collect [where g = subjects_of and A = A, OF assms(2) assms(1)])

lemma add_endpoint_subjects: "add_endpoint host address p = Inr p' \<Longrightarrow> subjects_of p' = subjects_of p \<union> {}"
  by (auto simp: add_endpoint_def Let_def split: option.splits prod.splits if_splits)

lemma parse_host_subjects:
  assumes "parse_host server host p = Inr p'"
  shows "subjects_of p' = subjects_of p \<union> (if auto_managed (sr_Automatic server) (normalizeName host) then {normalizeName host} else {})"
proof -
  define h where "h = normalizeName host"
  have "(if h = [] \<or> ContainsAny h (''{} /'' @ [CHR 0x5C]) then Inl ''invalid runtime certificate hostname''
      else bind_res (fold_res (add_endpoint h) (sr_Listen server) p) (\<lambda>p.
        Inr (if auto_managed (sr_Automatic server) h then p\<lparr>po_ManagedSubjects := po_ManagedSubjects p @ [h]\<rparr> else p))) = Inr p'"
    using assms unfolding parse_host_def Let_def h_def .
  then have "bind_res (fold_res (add_endpoint h) (sr_Listen server) p) (\<lambda>p.
      Inr (if auto_managed (sr_Automatic server) h then p\<lparr>po_ManagedSubjects := po_ManagedSubjects p @ [h]\<rparr> else p)) = Inr p'"
    by (simp only: split: if_splits) simp_all
  then obtain q where q: "fold_res (add_endpoint h) (sr_Listen server) p = Inr q"
    "p' = (if auto_managed (sr_Automatic server) h then q\<lparr>po_ManagedSubjects := po_ManagedSubjects q @ [h]\<rparr> else q)"
    unfolding bind_res_Inr_iff by blast
  have "subjects_of q = subjects_of p"
    using fold_res_collect [where g = subjects_of and A = "\<lambda>_. {}", OF add_endpoint_subjects q(1)] by simp
  then show ?thesis unfolding h_def [symmetric] using q(2) by simp
qed

definition host_names :: "RuntimeServer \<Rightarrow> string \<Rightarrow> string set" where
  "host_names server h = (if auto_managed (sr_Automatic server) (normalizeName h) then {normalizeName h} else {})"

lemma parse_match_subjects:
  assumes "parse_match server hosts p = Inr p'"
  shows "subjects_of p' = subjects_of p \<union> (\<Union>h \<in> set hosts. host_names server h)"
proof -
  have "fold_res (parse_host server) hosts p = Inr p'" using assms by (simp add: parse_match_def split: if_splits)
  moreover have "subjects_of s' = subjects_of s \<union> host_names server h" if "parse_host server h s = Inr s'" for h s s'
    using parse_host_subjects [OF that] by (simp add: host_names_def)
  ultimately show ?thesis by (rule fold_subjects)
qed

lemma parse_route_subjects:
  assumes "parse_route server route p = Inr p'"
  shows "subjects_of p' = subjects_of p \<union> (\<Union>m \<in> set (ro_Match route). \<Union>h \<in> set m. host_names server h)"
proof -
  have "fold_res (parse_match server) (ro_Match route) p = Inr p'" using assms by (simp add: parse_route_def split: if_splits)
  then show ?thesis
    by (rule fold_subjects [where A = "\<lambda>m. \<Union>h \<in> set m. host_names server h"]) (rule parse_match_subjects)
qed

lemma parse_server_subjects:
  assumes "parse_server server p = Inr p'"
  shows "subjects_of p' = subjects_of p \<union> server_hosts server"
proof (cases "sr_TLS server = []")
  case True
  then show ?thesis using assms by (auto simp: parse_server_def server_hosts_def split: if_splits)
next
  case False
  then have "fold_res (parse_route server) (sr_Routes server) p = Inr p'"
    using assms by (simp add: parse_server_def split: if_splits)
  then have "subjects_of p' = subjects_of p \<union> (\<Union>r \<in> set (sr_Routes server). \<Union>m \<in> set (ro_Match r). \<Union>h \<in> set m. host_names server h)"
    by (rule fold_subjects [where A = "\<lambda>r. \<Union>m \<in> set (ro_Match r). \<Union>h \<in> set m. host_names server h"]) (rule parse_route_subjects)
  moreover have "(\<Union>r \<in> set (sr_Routes server). \<Union>m \<in> set (ro_Match r). \<Union>h \<in> set m. host_names server h) = server_hosts server"
    using False by (auto simp: server_hosts_def host_names_def split: if_splits)
  ultimately show ?thesis by simp
qed

lemma load_subjects_managed:
  assumes "fold_res load_subjects entries p = Inr p'" "s \<in> subjects_of p'"
  shows "s \<in> subjects_of p \<or> (\<exists>entry \<in> set entries. \<exists>names. snd entry = Inr names \<and> s \<in> set names)"
  using assms
proof (induction entries arbitrary: p)
  case (Cons e entries)
  obtain q where q: "load_subjects e p = Inr q" "fold_res load_subjects entries q = Inr p'" using Cons.prems(1) by (auto simp: res_simps)
  obtain names where "snd e = Inr names" "po_ManagedSubjects q = names"
    using q(1) by (cases "snd e") (auto simp: load_subjects_def split: if_splits)
  then show ?case using Cons.IH [OF q(2) Cons.prems(2)] by auto
qed simp

section \<open>Names that cover others\<close>

lemma Covers_self: "Covers h h"
  by (simp add: Covers_def)

lemma set_reduce:
  "m \<in> set (reduce_subjects explicit names) \<longleftrightarrow>
     m \<in> normalizeName ` set names \<and> (\<not> (\<exists>w \<in> set names. normalizeName w \<noteq> m \<and> Covers w m) \<or> m \<in> set explicit)"
  by (auto simp: reduce_subjects_def list_ex_iff)

lemma reduce_covers:
  assumes "\<forall>n \<in> set names. normalizeName n = n" "h \<in> set names"
  shows "\<exists>m \<in> set (reduce_subjects explicit names). Covers m h"
proof (cases "\<exists>w \<in> set names. normalizeName w \<noteq> h \<and> Covers w h")
  case False
  then have "h \<in> set (reduce_subjects explicit names)" using assms by (force simp: set_reduce)
  then show ?thesis using Covers_self by blast
next
  case True
  then obtain w where w: "w \<in> set names" "normalizeName w \<noteq> h" "Covers w h" by blast
  then have star: "HasPrefix w ''*.''" using assms by (auto simp: Covers_def Let_def split: if_splits)
  have "\<not> (\<exists>v \<in> set names. normalizeName v \<noteq> w \<and> Covers v w)"
    using assms w(1) star by (auto simp: Covers_def Let_def split: if_splits)
  then have "w \<in> set (reduce_subjects explicit names)" using assms(1) w(1) by (force simp: set_reduce)
  then show ?thesis using w(3) by blast
qed

lemma ParsePolicy_covers:
  assumes "ParsePolicy (Inr config) dir = Inr policy" "canonical_names config" "h \<in> auto_hosts config"
  shows "\<exists>m \<in> subjects_of policy. Covers m h"
proof -
  obtain p1 p2 p3 where p: "fold_res load_subjects (rt_Certificates config) \<lparr>po_ManagedSubjects = [], po_Endpoints = [], po_verified = True\<rparr> = Inr p1"
    "check_subjects p1 = Inr p2" "fold_res parse_server (rt_Servers config) p2 = Inr p3"
    "policy = p3\<lparr>po_ManagedSubjects := reduce_subjects (po_ManagedSubjects p2) (po_ManagedSubjects p3)\<rparr>"
    using assms(1) by (auto simp: ParsePolicy_def res_simps split: if_splits)
  have p2: "po_ManagedSubjects p2 = map normalizeName (po_ManagedSubjects p1)"
    using p(2) by (auto simp: check_subjects_def Let_def split: if_splits)
  have all: "subjects_of p3 = subjects_of p2 \<union> auto_hosts config"
    using fold_res_collect [where g = subjects_of, OF parse_server_subjects p(3)] by (simp add: auto_hosts_def)
  have "subjects_of p2 \<subseteq> explicit_subjects config"
  proof
    fix s assume "s \<in> subjects_of p2"
    then obtain n where n: "n \<in> subjects_of p1" "s = normalizeName n" by (auto simp: p2)
    have "\<exists>entry \<in> set (rt_Certificates config). \<exists>names. snd entry = Inr names \<and> n \<in> set names"
      using load_subjects_managed [OF p(1) n(1)] by simp
    then show "s \<in> explicit_subjects config" using n(2) by (auto simp: explicit_subjects_def)
  qed
  then have "\<forall>n \<in> subjects_of p3. normalizeName n = n" using assms(2) all by (auto simp: canonical_names_def)
  then show ?thesis using reduce_covers [of "po_ManagedSubjects p3" h] all assms(3) by (simp add: p(4))
qed

section \<open>The inventory\<close>

lemma classify_pair_managed: "fst (classify_pair s m acc) = ''managed'' \<longleftrightarrow> fst acc = ''managed'' \<or> Covers s m"
  by (simp add: classify_pair_def)

lemma classify_inner: "fst (foldl (\<lambda>acc m. classify_pair s m acc) acc ms) = ''managed'' \<longleftrightarrow> fst acc = ''managed'' \<or> (\<exists>m \<in> set ms. Covers s m)"
  by (induction ms arbitrary: acc) (auto simp: classify_pair_managed)

lemma classify_names_managed:
  "fst (classify_names subjects managed) = ''managed'' \<longleftrightarrow> (\<exists>s \<in> set subjects. \<exists>m \<in> set managed. Covers s m)"
proof -
  have "fst (foldl (\<lambda>acc s. foldl (\<lambda>acc m. classify_pair s m acc) acc managed) acc subjects) = ''managed'' \<longleftrightarrow>
      fst acc = ''managed'' \<or> (\<exists>s \<in> set subjects. \<exists>m \<in> set managed. Covers s m)" for acc
    by (induction subjects arbitrary: acc) (auto simp: classify_inner)
  then show ?thesis by (simp add: classify_names_def)
qed

lemma archivable_covers_nothing:
  assumes "status \<in> set (sp_Certificates (Classify policy snapshot))" "ct_CanArchive status"
    and "s \<in> set (ct_Subjects status)" "m \<in> subjects_of policy"
  shows "\<not> Covers s m"
proof -
  obtain original where o: "status = classify_status policy (sp_Warnings snapshot) original"
    using assms(1) by (auto simp: Classify_def)
  then have "ct_Subjects status = ct_Subjects original" by (simp add: classify_status_def Let_def split: prod.split)
  moreover have "fst (classify_names (ct_Subjects original) (po_ManagedSubjects policy)) \<noteq> ''managed''"
    using assms(2) by (auto simp: o classify_status_def Let_def split: prod.splits if_splits)
  ultimately show ?thesis using assms(3,4) classify_names_managed by metis
qed

section \<open>The served certificates\<close>

definition affected :: "CertStatus \<Rightarrow> PolicyEndpoint \<Rightarrow> bool" where
  "affected target pe \<longleftrightarrow> (\<exists>s \<in> set (ct_Subjects target). Covers s (ep_Host pe) \<or> Covers (ep_Host pe) s)"

lemma affected_loop_Inr:
  "affected_loop pe subjects b = Inr r \<Longrightarrow> r = (b \<or> (\<exists>s \<in> set subjects. Covers s (ep_Host pe) \<or> Covers (ep_Host pe) s))"
  by (induction subjects arbitrary: b) (auto split: if_splits)

definition serves_replacement :: "(PolicyEndpoint \<Rightarrow> handshake) \<Rightarrow> (PolicyEndpoint \<Rightarrow> time) \<Rightarrow> CertStatus \<Rightarrow> PolicyEndpoint \<Rightarrow> bool" where
  "serves_replacement dial now target pe \<longleftrightarrow>
     (\<exists>served. dial pe = Shows served \<and> sv_Fingerprint served \<noteq> ct_FingerprintSHA256 target \<and> sv_HostnameOk served \<and>
        sv_NotBefore served \<le> now pe \<and> now pe < sv_NotAfter served)"

lemma verify_endpoint_None: "verify_endpoint dial now target pe = None \<Longrightarrow> serves_replacement dial now target pe"
  by (auto simp: verify_endpoint_def serves_replacement_def split: handshake.splits if_splits)

lemma verify_loop_None:
  "verify_loop dial now target endpoints checked = None \<Longrightarrow> \<forall>pe \<in> checked. serves_replacement dial now target pe \<Longrightarrow>
   pe \<in> set endpoints \<Longrightarrow> affected target pe \<Longrightarrow> serves_replacement dial now target pe"
proof (induction endpoints arbitrary: checked)
  case (Cons e rest)
  obtain b where b: "affected_loop e (ct_Subjects target) False = Inr b"
    using Cons.prems(1) by (cases "affected_loop e (ct_Subjects target) False") auto
  have hit: "b = affected target e" using affected_loop_Inr [OF b] by (simp add: affected_def)
  show ?case
  proof (cases "b \<and> e \<notin> checked")
    case True
    then have v: "verify_endpoint dial now target e = None" "verify_loop dial now target rest (insert e checked) = None"
      using Cons.prems(1) b by (auto split: option.splits)
    then have "\<forall>pe \<in> insert e checked. serves_replacement dial now target pe" using Cons.prems(2) verify_endpoint_None by auto
    then show ?thesis using Cons.IH [OF v(2)] Cons.prems(3,4) by auto
  next
    case False
    then have "verify_loop dial now target rest checked = None" using Cons.prems(1) b by auto
    then show ?thesis using Cons.IH Cons.prems False hit by auto
  qed
qed simp

section \<open>Property\<close>

text \<open>
  When the checks of an archive request pass, every host whose certificate Caddy manages is covered by a
  managed name that the certificate does not cover, so Caddy keeps another certificate for it, and every
  endpoint the certificate could serve shows another certificate that is valid when it is checked.
\<close>

theorem archived_certificates_are_not_needed:
  assumes "ParsePolicy (Inr config) dir = Inr policy" "canonical_names config"
    and "status \<in> set (sp_Certificates (Classify policy snapshot))" "ct_CanArchive status"
    and "verifyNotServing dial now status policy = None"
  shows "(\<forall>h \<in> auto_hosts config. \<exists>m \<in> set (po_ManagedSubjects policy). Covers m h \<and> (\<forall>s \<in> set (ct_Subjects status). \<not> Covers s m)) \<and>
    (\<forall>pe \<in> set (po_Endpoints policy). affected status pe \<longrightarrow> serves_replacement dial now status pe)"
proof (intro conjI ballI impI)
  fix h assume "h \<in> auto_hosts config"
  from ParsePolicy_covers [OF assms(1,2) this]
  show "\<exists>m \<in> set (po_ManagedSubjects policy). Covers m h \<and> (\<forall>s \<in> set (ct_Subjects status). \<not> Covers s m)"
    using archivable_covers_nothing [OF assms(3,4)] by blast
next
  fix pe assume "pe \<in> set (po_Endpoints policy)" "affected status pe"
  then show "serves_replacement dial now status pe"
    using verify_loop_None [of dial now status "po_Endpoints policy" "{}" pe] assms(5) by (simp add: verifyNotServing_def)
qed

definition edge_server :: RuntimeServer where
  "edge_server = \<lparr>sr_Listen = ['':443''], sr_TLS = [[]],
     sr_Automatic = \<lparr>ah_Disabled = False, ah_DisableCertificates = False, ah_Skip = [], ah_SkipCertificates = []\<rparr>,
     sr_Routes = [\<lparr>ro_Match = [[''shop.example.com'']], ro_Handle = [''reverse_proxy'']\<rparr>]\<rparr>"

definition edge_runtime :: RuntimeConfig where
  "edge_runtime = \<lparr>rt_StorageModule = ''file_system'', rt_StorageRoot = ''/data/caddy/'',
     rt_Certificates = [(''automate'', Inr [''*.example.com''])], rt_Policies = [], rt_Servers = [edge_server]\<rparr>"

definition edge_policy :: Policy where
  "edge_policy = \<lparr>po_ManagedSubjects = [''*.example.com''],
     po_Endpoints = [\<lparr>ep_Address = ''127.0.0.1:443'', ep_Host = ''shop.example.com''\<rparr>], po_verified = True\<rparr>"

definition old_certificate :: CertStatus where
  "old_certificate = \<lparr>ct_ID = ''1'', ct_State = ''valid'', ct_Subjects = [''shop.example.com''], ct_Issuer = ''Example CA'',
     ct_SerialNumber = ''1f'', ct_NotBefore = 0, ct_NotAfter = 100, ct_RemainingSeconds = 0, ct_RenewalWindowStart = 67,
     ct_CertificateFile = ''/data/caddy/certificates/x/shop/shop.crt'', ct_PrivateKeyFile = [], ct_MetadataFile = [],
     ct_FingerprintSHA256 = ''aa'', ct_Usage = ''unknown'', ct_CoveredBy = [], ct_CanArchive = False\<rparr>"

definition wildcard_handshake :: "PolicyEndpoint \<Rightarrow> handshake" where
  "wildcard_handshake pe = Shows \<lparr>sv_Fingerprint = ''bb'', sv_NotBefore = 0, sv_NotAfter = 100, sv_HostnameOk = True\<rparr>"

lemma edge_names: "canonical_names edge_runtime" "''shop.example.com'' \<in> auto_hosts edge_runtime"
proof -
  have "auto_hosts edge_runtime = {''shop.example.com''}"
  proof -
    have "normalizeName ''shop.example.com'' = ''shop.example.com''" by code_simp
    then show ?thesis
      by (auto simp: auto_hosts_def edge_runtime_def server_hosts_def edge_server_def auto_managed_def)
  qed
  moreover have "explicit_subjects edge_runtime = {''*.example.com''}"
  proof -
    have "normalizeName ''*.example.com'' = ''*.example.com''" by code_simp
    then show ?thesis by (auto simp: explicit_subjects_def edge_runtime_def)
  qed
  moreover have "normalizeName ''shop.example.com'' = ''shop.example.com''" "normalizeName ''*.example.com'' = ''*.example.com''" by code_simp+
  ultimately show "canonical_names edge_runtime" "''shop.example.com'' \<in> auto_hosts edge_runtime"
    by (simp_all add: canonical_names_def)
qed

theorem archived_certificates_are_not_needed_witness:
  "ParsePolicy (Inr edge_runtime) ''/data/caddy'' = Inr edge_policy \<and>
   (\<exists>m \<in> set (po_ManagedSubjects edge_policy). Covers m ''shop.example.com'' \<and> \<not> Covers ''shop.example.com'' m)"
proof -
  let ?status = "classify_status edge_policy [] old_certificate"
  let ?snapshot = "\<lparr>sp_StorageDirectory = ''/data/caddy'', sp_ScannedAt = 50, sp_Certificates = [old_certificate], sp_Warnings = [], sp_PolicyKnown = False\<rparr> :: CertSnapshot"
  have parse: "ParsePolicy (Inr edge_runtime) ''/data/caddy'' = Inr edge_policy" by code_simp
  have status: "?status \<in> set (sp_Certificates (Classify edge_policy ?snapshot))" by (simp add: Classify_def)
  have can: "ct_CanArchive ?status" by code_simp
  have served: "verifyNotServing wildcard_handshake (\<lambda>_. 50) ?status edge_policy = None" by code_simp
  have "ct_Subjects ?status = [''shop.example.com'']" by code_simp
  then show ?thesis
    using parse archived_certificates_are_not_needed [OF parse edge_names(1) status can served] edge_names(2) by auto
qed

end
