(* ===== verification/Findings.thy ===== *)
theory Findings
  imports ConfigProperties DockerDiscovery RouteProperties
begin

text \<open>
  Concrete inputs on which the code does not do what its checks, comments or names promise. Each theorem
  evaluates the model on one input.
\<close>

section \<open>Normalisation that is not idempotent\<close>

text \<open>
  Validation normalises the certificate configuration once more and checks the result, but the value that is
  kept is the one normalised once: a subject with two trailing dots is accepted and kept with one, which is
  not a name the check accepts.
\<close>

definition dotted_config :: AppConfig where
  "dotted_config = in_certificate (\<lambda>c. c\<lparr>ce_Subjects := [''shop.example.com..'']\<rparr>) (defaults Map.empty)"

theorem accepted_subject_is_not_valid:
  "fst (NormalizeAndValidate dotted_config) = Inr () \<and>
   ce_Subjects (gw_Certificate (ap_Gateway (snd (NormalizeAndValidate dotted_config)))) = [''shop.example.com.''] \<and>
   validateCertificateSubject ''shop.example.com.'' \<noteq> Inr ()"
  by (intro conjI; code_simp)

text \<open>A zone named by two dots passes the check for at least one zone, and the reconciliation then finds none.\<close>

definition dot_zone_config :: AppConfig where
  "dot_zone_config = ap_Azure_update (\<lambda>_. edge_azure\<lparr>az_DNSZoneName := [], az_DNSZones := [\<lparr>zn_Name = ''..'', zn_ResourceGroup = ''rg''\<rparr>]\<rparr>)
     (defaults Map.empty)"

theorem accepted_zones_may_be_empty:
  "fst (NormalizeAndValidate dot_zone_config) = Inr () \<and>
   configuredDNSZones (ap_Azure (snd (NormalizeAndValidate dot_zone_config))) = []"
  by (intro conjI; code_simp)

text \<open>A path prefix with white space before its trailing slash takes two passes.\<close>

theorem path_prefix_takes_two_passes:
  "normalizePathPrefix ''/a /'' = ''/a '' \<and> normalizePathPrefix (normalizePathPrefix ''/a /'') = ''/a''"
  by (intro conjI; code_simp)

text \<open>
  A rule for \<open>'/a'\<close> and one for \<open>'/a /'\<close> are accepted side by side. The routing file then cannot be loaded: the second prefix
  has become \<open>'/a'\<close> too, and the gateway does not start.
\<close>

theorem padded_prefix_prevents_restart:
  "reachable twin_world \<and> \<not> Staged (w_store twin_world) \<and> w_disk twin_world = Holds (fileOf (w_store twin_world)) \<and>
   (\<exists>e. fst (Load good_env \<lparr>w_store = NewStore ''routes.json'', w_disk = w_disk twin_world\<rparr>) = Inl e)"
proof (intro conjI)
  show "reachable twin_world" by (rule twin_world_reachable)
  have "(case fst (Load good_env \<lparr>w_store = NewStore ''routes.json'', w_disk = w_disk twin_world\<rparr>) of Inl e \<Rightarrow> True | Inr _ \<Rightarrow> False)"
    by code_simp
  then show "\<exists>e. fst (Load good_env \<lparr>w_store = NewStore ''routes.json'', w_disk = w_disk twin_world\<rparr>) = Inl e"
    by (auto split: sum.splits)
qed code_simp+

section \<open>Numbers\<close>

text \<open>The comparisons of the renewal window let a NaN through.\<close>

theorem renewal_ratio_may_be_nan:
  "ValidateCertificateConfig ((gw_Certificate (ap_Gateway (defaults Map.empty)))\<lparr>ce_RenewalWindowRatio := NaN\<rparr>) = Inr ()"
  by code_simp

text \<open>The priority from the environment is cut to 32 bits before the range check: \<open>4294967396\<close> becomes 100.\<close>

theorem nsg_priority_wraps:
  "(case applyEnv (cf_decoders empty_sources) [''GATEWAY_AZURE_NSG_PRIORITY'' \<mapsto> ''4294967396''] (defaults Map.empty) of
      Inl _ \<Rightarrow> False | Inr cfg \<Rightarrow> az_NSGPriority (ap_Azure cfg) = 100 \<and> fst (NormalizeAndValidate cfg) = Inr ())"
  by code_simp

section \<open>Addresses\<close>

text \<open>The address of the A records may be an IPv6 literal that maps an IPv4 address.\<close>

theorem public_address_may_be_ipv6:
  "publicIPAddress (edge_azure\<lparr>az_PublicIPAddress := ''::ffff:20.1.2.3''\<rparr>) = Inr ''::ffff:20.1.2.3''"
  by code_simp

end
