(* ===== verification/AuditLog.thy ===== *)
theory AuditLog
  imports LogStore "HOL-Library.Code_Target_Numeral"
begin

text \<open>
  The audit log, \<open>backend/internal/audit/audit.go\<close>: events are appended to a file as lines of JSON, and
  the last events are read from its end, one block at a time. The JSON codec of an event is a parameter,
  as are the outcomes of the file operations. Bytes are characters.
\<close>

section \<open>Writing\<close>

record AuditEvent =
  ae_Time :: time
  ae_Event :: string
  ae_Fields :: jobj

text \<open>The codec: \<open>json.Marshal\<close> and \<open>json.Unmarshal\<close>, which gives \<open>None\<close> for a line it rejects.\<close>

record AuditCodec =
  co_encode :: "AuditEvent \<Rightarrow> string + string"
  co_decode :: "string \<Rightarrow> AuditEvent option"

text \<open>The file operations of one record; \<open>aw_write\<close> gives the bytes a write leaves and its error.\<close>

record AuditWrite =
  aw_mkdir :: "string option"
  aw_open :: "string option"
  aw_write :: "string \<Rightarrow> nat \<times> string option"

text \<open>The file is \<open>None\<close> when it does not exist; opening it for appending creates it.\<close>

definition audit_on :: "AuditConfig option \<Rightarrow> bool" where
  "audit_on cfg = (case cfg of None \<Rightarrow> False | Some c \<Rightarrow> ad_Enabled c \<and> ad_File c \<noteq> [])"

definition Record :: "AuditCodec \<Rightarrow> AuditWrite \<Rightarrow> AuditConfig option \<Rightarrow> time \<Rightarrow> string \<Rightarrow> jobj \<Rightarrow>
    string option \<Rightarrow> (string + unit) \<times> string option" where
  "Record codec aw cfg now event fs content =
     (if \<not> audit_on cfg then (Inr (), content)
      else case co_encode codec \<lparr>ae_Time = now, ae_Event = event, ae_Fields = fs\<rparr> of
        Inl e \<Rightarrow> (Inl e, content)
      | Inr data \<Rightarrow>
          (case aw_mkdir aw of
             Some e \<Rightarrow> (Inl e, content)
           | None \<Rightarrow>
               (case aw_open aw of
                  Some e \<Rightarrow> (Inl e, content)
                | None \<Rightarrow>
                    (let line = data @ [newline]; old = (case content of Some c \<Rightarrow> c | None \<Rightarrow> []) in
                     case aw_write aw line of
                       (n, Some e) \<Rightarrow> (Inl e, Some (old @ take n line))
                     | (n, None) \<Rightarrow> (Inr (), Some (old @ line))))))"

section \<open>Reading\<close>

definition auditBlockSize :: nat where
  "auditBlockSize = 64 * 1024"

definition maxLineSize :: nat where
  "maxLineSize = 1024 * 1024"

definition too_long :: string where
  "too_long = ''read audit log: line exceeds '' @ dec_nat maxLineSize @ '' bytes''"

text \<open>The closure \<open>parse\<close> on the events so far.\<close>

definition parse_line :: "(string \<Rightarrow> AuditEvent option) \<Rightarrow> string \<Rightarrow> AuditEvent list \<Rightarrow> string + AuditEvent list" where
  "parse_line decode line events =
     (if line = [] then Inr events
      else if length line > maxLineSize then Inl too_long
      else case decode line of None \<Rightarrow> Inr events | Some event \<Rightarrow> Inr (events @ [event]))"

text \<open>The inner loop cuts the complete lines off the end of the data.\<close>

lemma LastIndexByte_less [termination_simp]: "LastIndexByte s b = Some i \<Longrightarrow> i < length s"
  by (induction s arbitrary: i) (auto split: option.splits if_splits)

lemma bind_res_cong [fundef_cong]:
  "r = r' \<Longrightarrow> (\<And>x. r' = Inr x \<Longrightarrow> f x = g x) \<Longrightarrow> bind_res r f = bind_res r' g"
  by (cases r') auto

function cut_lines :: "(string \<Rightarrow> AuditEvent option) \<Rightarrow> nat \<Rightarrow> string \<Rightarrow> AuditEvent list \<Rightarrow> string + string \<times> AuditEvent list" where
  "cut_lines decode limit data events =
     (if length events < limit then
        (case LastIndexByte data newline of
           None \<Rightarrow> Inr (data, events)
         | Some separator \<Rightarrow>
             bind_res (parse_line decode (drop (separator + 1) data) events) (\<lambda>events1. cut_lines decode limit (take separator data) events1))
      else Inr (data, events))"
  by pat_completeness auto
termination
  by (relation "measure (\<lambda>(decode, limit, data, events). length data)") (auto simp: LastIndexByte_less)

declare cut_lines.simps [simp del]

text \<open>\<open>reader offset count\<close> is \<open>ReadAt\<close>: \<open>count\<close> bytes at \<open>offset\<close>, or its error.\<close>

type_synonym reader_at = "nat \<Rightarrow> nat \<Rightarrow> string + string"

partial_function (option) readLast_loop ::
  "reader_at \<Rightarrow> (string \<Rightarrow> AuditEvent option) \<Rightarrow> nat \<Rightarrow> nat \<Rightarrow> string \<Rightarrow> AuditEvent list \<Rightarrow> (string + AuditEvent list) option" where
  "readLast_loop reader decode limit left remainder events =
     (if 0 < left \<and> length events < limit then
        (let count = min auditBlockSize left; left1 = left - count in
         case reader left1 count of
           Inl e \<Rightarrow> Some (Inl (''read audit log: '' @ e))
         | Inr block \<Rightarrow>
             (case cut_lines decode limit (block @ remainder) events of
                Inl e \<Rightarrow> Some (Inl e)
              | Inr (data, events1) \<Rightarrow>
                  (if length events1 = limit then Some (Inr events1)
                   else if length data > maxLineSize then Some (Inl too_long)
                   else case (if left1 = 0 then parse_line decode data events1 else Inr events1) of
                     Inl e \<Rightarrow> Some (Inl e)
                   | Inr events2 \<Rightarrow> readLast_loop reader decode limit left1 data events2)))
      else Some (Inr events))"

declare readLast_loop.simps [code]

definition readLast :: "reader_at \<Rightarrow> (string \<Rightarrow> AuditEvent option) \<Rightarrow> nat \<Rightarrow> nat \<Rightarrow> (string + AuditEvent list) option" where
  "readLast reader decode left limit =
     map_option (map_sum id rev) (readLast_loop reader decode limit left [] [])"

text \<open>
  \<open>ReadLast\<close> of the logger. The file does not exist, does not open, has no size, or it is read: \<open>Readable\<close>
  holds its size when it was opened and \<open>ReadAt\<close>.
\<close>

datatype audit_file = Missing | OpenError string | StatError string | Readable nat reader_at

definition audit_limit :: "int \<Rightarrow> nat" where
  "audit_limit limit = nat (if limit \<le> 0 \<or> 500 < limit then 100 else limit)"

definition audit_ReadLast :: "AuditCodec \<Rightarrow> AuditConfig option \<Rightarrow> audit_file \<Rightarrow> int \<Rightarrow> (string + AuditEvent list) option" where
  "audit_ReadLast codec cfg f limit =
     (if \<not> audit_on cfg then Some (Inr [])
      else case f of
        Missing \<Rightarrow> Some (Inr [])
      | OpenError e \<Rightarrow> Some (Inl e)
      | StatError e \<Rightarrow> Some (Inl e)
      | Readable left reader \<Rightarrow> readLast reader (co_decode codec) left (audit_limit limit))"

text \<open>A regular file: \<open>ReadAt\<close> gives the bytes there are and fails at the end of the file.\<close>

definition file_ReadAt :: "string \<Rightarrow> reader_at" where
  "file_ReadAt content offset count =
     (if offset + count \<le> length content then Inr (take count (drop offset content)) else Inl ''EOF'')"

section \<open>The lines of a file, newest first\<close>

fun newest :: "(string \<Rightarrow> AuditEvent option) \<Rightarrow> nat \<Rightarrow> string list \<Rightarrow> AuditEvent list \<Rightarrow> string + AuditEvent list" where
  "newest decode limit [] events = Inr events"
| "newest decode limit (line # lines) events =
     (if length events < limit then bind_res (parse_line decode line events) (newest decode limit lines) else Inr events)"

definition lines_back :: "string \<Rightarrow> string list" where
  "lines_back content = rev (Split content newline)"

lemma newest_full [simp]: "limit \<le> length events \<Longrightarrow> newest decode limit lines events = Inr events"
  by (cases lines) auto

lemma Split_snoc: "c \<notin> set b \<Longrightarrow> Split (a @ c # b) c = Split a c @ [b]"
proof (induction a)
  case Nil
  then show ?case by (simp add: Split_no_sep)
next
  case (Cons x a)
  obtain w ws where "Split a c = w # ws" by (rule Split_cases)
  with Cons show ?case by simp
qed

lemma Split_last: "c \<notin> set b \<Longrightarrow> \<exists>ws w. Split (a @ b) c = ws @ [w @ b]"
proof (induction a)
  case Nil
  then show ?case by (simp add: Split_no_sep)
next
  case (Cons x a)
  then obtain ws w where s: "Split (a @ b) c = ws @ [w @ b]" by blast
  then show ?case
  proof (cases "x = c")
    case True
    then show ?thesis using s by (intro exI [of _ "[] # ws"]) auto
  next
    case False
    then show ?thesis using s
      by (cases ws) (auto intro: exI [of _ "[]"] exI [of _ "x # w"] exI [of _ "(x # hd ws) # tl ws"])
  qed
qed

lemma LastIndexByte_split:
  "LastIndexByte s b = Some i \<Longrightarrow> s = take i s @ b # drop (i + 1) s \<and> b \<notin> set (drop (i + 1) s)"
proof (induction s arbitrary: i)
  case (Cons c s)
  then show ?case by (cases "LastIndexByte s b") (auto split: if_splits simp: LastIndexByte_None)
qed simp


lemma parse_line_length: "parse_line decode line events = Inr events' \<Longrightarrow> length events' \<le> Suc (length events)"
  by (auto simp: parse_line_def split: if_splits option.splits)

text \<open>What the inner loop leaves has no newline, unless there are enough events.\<close>

lemma cut_lines_keeps:
  "\<lbrakk>cut_lines decode limit data events = Inr (data', events'); length events \<le> limit\<rbrakk> \<Longrightarrow>
   length events' \<le> limit \<and> (length events' = limit \<or> newline \<notin> set data')"
proof (induction decode limit data events arbitrary: data' events' rule: cut_lines.induct)
  case (1 decode limit data events)
  show ?case
  proof (cases "length events < limit")
    case True
    show ?thesis
    proof (cases "LastIndexByte data newline")
      case None
      then have "newline \<notin> set data" by (simp add: LastIndexByte_None)
      then show ?thesis using 1(2,3) True None by (simp add: cut_lines.simps [of decode limit data] option.case_eq_if)
    next
      case (Some i)
      then obtain ev where ev: "parse_line decode (drop (i + 1) data) events = Inr ev"
        "cut_lines decode limit (take i data) ev = Inr (data', events')"
        using 1(2) True by (auto simp: cut_lines.simps [of decode limit data] res_simps)
      then have "length ev \<le> limit" using True parse_line_length by fastforce
      with 1(1) [OF True Some ev] show ?thesis .
    qed
  next
    case False
    then show ?thesis using 1(2,3) by (simp add: cut_lines.simps [of decode limit data])
  qed
qed

text \<open>Cutting lines off the end of the data is reading the lines of what stands before it and of the data.\<close>

lemma cut_lines_newest:
  "newest decode limit (lines_back (P @ data)) events =
     bind_res (cut_lines decode limit data events) (\<lambda>(data', events'). newest decode limit (lines_back (P @ data')) events')"
proof (induction decode limit data events rule: cut_lines.induct)
  case (1 decode limit data events)
  show ?case
  proof (cases "length events < limit")
    case True
    show ?thesis
    proof (cases "LastIndexByte data newline")
      case None
      then have "cut_lines decode limit data events = Inr (data, events)"
        by (simp add: cut_lines.simps [of decode limit data] option.case_eq_if)
      then show ?thesis by simp
    next
      case (Some i)
      let ?line = "drop (i + 1) data"
      have d: "data = take i data @ newline # ?line" "newline \<notin> set ?line" using LastIndexByte_split [OF Some] by auto
      have "Split (P @ data) newline = Split (P @ take i data) newline @ [?line]"
        using Split_snoc [OF d(2), of "P @ take i data"] d(1) by (metis append.assoc)
      then have bk: "lines_back (P @ data) = ?line # lines_back (P @ take i data)" by (simp add: lines_back_def)
      show ?thesis
      proof (cases "parse_line decode ?line events")
        case (Inl e)
        then show ?thesis using True Some by (simp add: bk cut_lines.simps [of decode limit data])
      next
        case (Inr ev)
        then show ?thesis using 1 [OF True Some Inr] True Some by (simp add: bk cut_lines.simps [of decode limit data])
      qed
    qed
  next
    case False
    then show ?thesis by (simp add: cut_lines.simps [of decode limit data])
  qed
qed

lemma lines_back_last: "newline \<notin> set b \<Longrightarrow> \<exists>w ws. lines_back (a @ b) = (w @ b) # ws"
proof -
  assume "newline \<notin> set b"
  then obtain ws w where "Split (a @ b) newline = ws @ [w @ b]" using Split_last by blast
  then show ?thesis by (simp add: lines_back_def)
qed

section \<open>The loop over the blocks\<close>

lemma readLast_loop_newest:
  assumes "0 < left" "left \<le> length content" "newline \<notin> set remainder" "length events \<le> limit"
  shows "readLast_loop (file_ReadAt content) decode limit left remainder events =
    Some (newest decode limit (lines_back (take left content @ remainder)) events)"
  using assms
proof (induction left arbitrary: remainder events rule: less_induct)
  case (less left)
  show ?case
  proof (cases "length events < limit")
    case True
    define left1 where "left1 = left - min auditBlockSize left"
    define block where "block = take (min auditBlockSize left) (drop left1 content)"
    have s1: "left1 < left" using less.prems(1) by (simp add: left1_def auditBlockSize_def)
    have "take left content = take left1 content @ block"
      unfolding block_def using take_add [of left1 "min auditBlockSize left" content] by (simp add: left1_def)
    then have cut: "newest decode limit (lines_back (take left content @ remainder)) events =
        bind_res (cut_lines decode limit (block @ remainder) events)
          (\<lambda>(data, events1). newest decode limit (lines_back (take left1 content @ data)) events1)"
      using cut_lines_newest [of decode limit "take left1 content" "block @ remainder" events] by simp
    have reader: "file_ReadAt content left1 (min auditBlockSize left) = Inr block"
      using less.prems(2) by (simp add: file_ReadAt_def block_def left1_def)
    note step = readLast_loop.simps [of "file_ReadAt content" decode limit left remainder events]
    show ?thesis
    proof (cases "cut_lines decode limit (block @ remainder) events")
      case (Inl e)
      then show ?thesis using less.prems(1) True reader cut by (simp add: step Let_def flip: left1_def)
    next
      case (Inr out)
      obtain data events1 where out: "out = (data, events1)" by fastforce
      have k: "length events1 \<le> limit" "length events1 = limit \<or> newline \<notin> set data"
        using cut_lines_keeps [OF Inr [unfolded out] less.prems(4)] by auto
      show ?thesis
      proof (cases "length events1 = limit")
        case True
        then show ?thesis using less.prems(1) \<open>length events < limit\<close> reader cut Inr out
          by (simp add: step Let_def flip: left1_def)
      next
        case False
        with k have clean: "newline \<notin> set data" "length events1 < limit" by auto
        then obtain w ws where bk: "lines_back (take left1 content @ data) = (w @ data) # ws"
          using lines_back_last by blast
        consider (long) "length data > maxLineSize" | (start) "length data \<le> maxLineSize" "left1 = 0"
          | (more) "length data \<le> maxLineSize" "0 < left1" by linarith
        then show ?thesis
        proof cases
          case long
          then have "parse_line decode (w @ data) events1 = Inl too_long" by (auto simp: parse_line_def maxLineSize_def)
          then show ?thesis using long less.prems(1) True reader cut Inr out clean bk
            by (simp add: step Let_def flip: left1_def)
        next
          case start
          have "lines_back data = [data]" using clean(1) by (simp add: lines_back_def Split_no_sep)
          then show ?thesis using start less.prems(1) True reader cut Inr out clean False
            by (simp add: step Let_def readLast_loop.simps [of _ _ _ 0] split: sum.split flip: left1_def)
        next
          case more
          have "readLast_loop (file_ReadAt content) decode limit left1 data events1 =
              Some (newest decode limit (lines_back (take left1 content @ data)) events1)"
            using less.IH [OF s1 more(2)] s1 less.prems(2) clean by simp
          then show ?thesis using more less.prems(1) True reader cut Inr out clean False
            by (simp add: step Let_def flip: left1_def)
        qed
      qed
    qed
  next
    case False
    then show ?thesis using less.prems(4) by (simp add: readLast_loop.simps [of _ _ _ left])
  qed
qed

lemma readLast_loop_returns: "\<exists>r. readLast_loop reader decode limit left remainder events = Some r"
proof (induction left arbitrary: remainder events rule: less_induct)
  case (less left)
  have "\<exists>r. readLast_loop reader decode limit (left - min auditBlockSize left) rem evs = Some r" if "0 < left" for rem evs
    using less.IH [of "left - min auditBlockSize left"] that by (simp add: auditBlockSize_def)
  then show ?case
    by (auto simp: readLast_loop.simps [of _ _ _ left] Let_def split: sum.split)
qed

section \<open>The events at the end of a file\<close>

text \<open>
  What a reader promises: going back from the end of the file, the events of the lines that decode, until
  there are enough; a line above the limit that comes first is an error.
\<close>

definition line_event :: "(string \<Rightarrow> AuditEvent option) \<Rightarrow> string \<Rightarrow> AuditEvent option" where
  "line_event decode line = (if line = [] then None else decode line)"

definition audit_tail :: "(string \<Rightarrow> AuditEvent option) \<Rightarrow> nat \<Rightarrow> string \<Rightarrow> string + AuditEvent list" where
  "audit_tail decode limit content =
     (let lines = rev (Split content newline);
          readable = takeWhile (\<lambda>line. length line \<le> maxLineSize) lines;
          events = List.map_filter (line_event decode) readable
      in if limit \<le> length events \<or> readable = lines then Inr (rev (take limit events)) else Inl too_long)"

lemma line_event_simps [simp]:
  "line_event decode [] = None" "line \<noteq> [] \<Longrightarrow> line_event decode line = decode line"
  by (simp_all add: line_event_def)

lemma newest_tail:
  assumes "length events \<le> limit"
  shows "newest decode limit lines events =
    (let readable = takeWhile (\<lambda>line. length line \<le> maxLineSize) lines;
         all = events @ List.map_filter (line_event decode) readable
     in if limit \<le> length all \<or> readable = lines then Inr (take limit all) else Inl too_long)"
  using assms
proof (induction lines arbitrary: events)
  case Nil
  then show ?case by (simp add: List.map_filter_simps)
next
  case (Cons line lines)
  show ?case
  proof (cases "length events < limit")
    case True
    then have IH: "newest decode limit lines (events @ ev) = (let readable = takeWhile (\<lambda>line. length line \<le> maxLineSize) lines;
         all = (events @ ev) @ List.map_filter (line_event decode) readable
       in if limit \<le> length all \<or> readable = lines then Inr (take limit all) else Inl too_long)"
      if "length ev \<le> 1" for ev using Cons.IH [of "events @ ev"] that by simp
    consider (empty) "line = []" | (long) "line \<noteq> []" "maxLineSize < length line"
      | (skipped) "line \<noteq> []" "length line \<le> maxLineSize" "decode line = None"
      | (event) e where "line \<noteq> []" "length line \<le> maxLineSize" "decode line = Some e"
      by (cases "line = []"; cases "length line \<le> maxLineSize"; cases "decode line") simp_all
    then show ?thesis
    proof cases
      case empty
      then show ?thesis using True IH [of "[]"] by (simp add: parse_line_def Let_def List.map_filter_simps)
    next
      case long
      then show ?thesis using True by (simp add: parse_line_def Let_def List.map_filter_simps)
    next
      case skipped
      then show ?thesis using True IH [of "[]"] by (simp add: parse_line_def Let_def List.map_filter_simps)
    next
      case event
      then show ?thesis using True IH [of "[e]"] by (simp add: parse_line_def Let_def List.map_filter_simps)
    qed
  next
    case False
    then show ?thesis using Cons.prems by simp
  qed
qed

lemma audit_reads_tail:
  "readLast (file_ReadAt (content @ appended)) decode (length content) limit = Some (audit_tail decode limit content)"
proof -
  have "readLast_loop (file_ReadAt (content @ appended)) decode limit (length content) [] [] =
      Some (newest decode limit (lines_back content) [])"
  proof (cases "content = []")
    case True
    have "newest decode limit [[]] [] = Inr []" by (simp add: parse_line_def)
    then show ?thesis using True by (simp add: readLast_loop.simps lines_back_def)
  next
    case False
    then show ?thesis using readLast_loop_newest [of "length content" "content @ appended" "[]" "[]" limit decode] by simp
  qed
  then show ?thesis by (simp add: readLast_def newest_tail lines_back_def audit_tail_def Let_def)
qed

text \<open>
  C33: reading the audit log by blocks from its end gives exactly the events of the last lines, in the order
  of the file, also when the file has grown since its size was taken, and an error exactly when a line above
  the limit comes before there are enough events.
\<close>

theorem audit_reads_the_tail:
  "readLast (file_ReadAt (content @ appended)) decode (length content) limit = Some (audit_tail decode limit content)"
  by (rule audit_reads_tail)

section \<open>The reading ends\<close>

lemma newest_length: "newest decode limit lines events = Inr es \<Longrightarrow> length events \<le> limit \<Longrightarrow> length es \<le> limit"
proof (induction lines arbitrary: events)
  case (Cons line lines)
  then show ?case using parse_line_length by (fastforce simp: res_simps split: if_splits)
qed simp

lemma readLast_loop_length:
  "readLast_loop reader decode limit left rest events = Some (Inr es) \<Longrightarrow> length events \<le> limit \<Longrightarrow> length es \<le> limit"
proof (induction left arbitrary: rest events rule: less_induct)
  case (less left)
  note step = readLast_loop.simps [of reader decode limit left rest events]
  show ?case
  proof (cases "0 < left \<and> length events < limit")
    case True
    define left1 where "left1 = left - min auditBlockSize left"
    have s1: "left1 < left" using True by (simp add: left1_def auditBlockSize_def)
    obtain block where block: "reader left1 (min auditBlockSize left) = Inr block"
      using less.prems(1) True by (cases "reader left1 (min auditBlockSize left)") (auto simp: step Let_def simp flip: left1_def)
    obtain data events1 where cut: "cut_lines decode limit (block @ rest) events = Inr (data, events1)"
      using less.prems(1) True block
      by (cases "cut_lines decode limit (block @ rest) events") (auto simp: step Let_def simp flip: left1_def)
    have k: "length events1 \<le> limit" using cut_lines_keeps [OF cut less.prems(2)] by simp
    show ?thesis
    proof (cases "length events1 = limit")
      case True
      then show ?thesis using less.prems(1) \<open>0 < left \<and> length events < limit\<close> block cut
        by (simp add: step Let_def flip: left1_def)
    next
      case False
      then obtain events2 where e2: "(if left1 = 0 then parse_line decode data events1 else Inr events1) = Inr events2"
          "readLast_loop reader decode limit left1 data events2 = Some (Inr es)"
        using less.prems(1) True block cut
        by (auto simp: step Let_def simp flip: left1_def split: if_splits sum.splits)
      then have "length events2 \<le> limit" using k False parse_line_length by (fastforce split: if_splits)
      then show ?thesis using less.IH [OF s1 e2(2)] by simp
    qed
  next
    case False
    then show ?thesis using less.prems by (auto simp: step)
  qed
qed

text \<open>
  A request for audit events is answered, with an error or with at most 500 events, whatever the file
  holds and whatever its reads return.
\<close>

theorem audit_reading_returns:
  "\<exists>r. audit_ReadLast codec cfg f limit = Some r \<and> (case r of Inl e \<Rightarrow> True | Inr events \<Rightarrow> length events \<le> 500)"
proof (cases "audit_on cfg")
  case True
  have bound: "audit_limit limit \<le> 500" by (simp add: audit_limit_def nat_le_iff)
  have "\<exists>r. readLast reader decode left (audit_limit limit) = Some r \<and> (case r of Inl e \<Rightarrow> True | Inr events \<Rightarrow> length events \<le> 500)"
    for reader decode left
  proof -
    obtain r where r: "readLast_loop reader decode (audit_limit limit) left [] [] = Some r"
      using readLast_loop_returns by blast
    then show ?thesis using readLast_loop_length [of reader decode "audit_limit limit" left "[]" "[]"] bound
      by (cases r) (force simp: readLast_def)+
  qed
  then show ?thesis using True by (cases f) (simp_all add: audit_ReadLast_def)
next
  case False
  then show ?thesis by (simp add: audit_ReadLast_def)
qed

section \<open>What was recorded is read back\<close>

definition good_write :: AuditWrite where
  "good_write = \<lparr>aw_mkdir = None, aw_open = None, aw_write = (\<lambda>data. (length data, None))\<rparr>"

fun record_all :: "AuditCodec \<Rightarrow> AuditConfig option \<Rightarrow> AuditEvent list \<Rightarrow> string option \<Rightarrow> string option" where
  "record_all codec cfg [] content = content"
| "record_all codec cfg (e # es) content =
     record_all codec cfg es (snd (Record codec good_write cfg (ae_Time e) (ae_Event e) (ae_Fields e) content))"

text \<open>The codec on one event: a line of JSON that is not too long and decodes to the event.\<close>

definition line_ok :: "AuditCodec \<Rightarrow> AuditEvent \<Rightarrow> bool" where
  "line_ok codec e \<longleftrightarrow>
     (case co_encode codec e of
        Inl m \<Rightarrow> False
      | Inr line \<Rightarrow> line \<noteq> [] \<and> length line \<le> maxLineSize \<and> newline \<notin> set line \<and> co_decode codec line = Some e)"

definition line_of :: "AuditCodec \<Rightarrow> AuditEvent \<Rightarrow> string" where
  "line_of codec e = (case co_encode codec e of Inl m \<Rightarrow> [] | Inr line \<Rightarrow> line)"

lemma record_one:
  assumes "audit_on cfg" "line_ok codec e"
  shows "Record codec good_write cfg (ae_Time e) (ae_Event e) (ae_Fields e) (Some c) = (Inr (), Some (c @ line_of codec e @ [newline]))"
    "Record codec good_write cfg (ae_Time e) (ae_Event e) (ae_Fields e) None = (Inr (), Some (line_of codec e @ [newline]))"
proof -
  have eq: "\<lparr>ae_Time = ae_Time e, ae_Event = ae_Event e, ae_Fields = ae_Fields e\<rparr> = e" by (cases e) simp
  show "Record codec good_write cfg (ae_Time e) (ae_Event e) (ae_Fields e) (Some c) = (Inr (), Some (c @ line_of codec e @ [newline]))"
    "Record codec good_write cfg (ae_Time e) (ae_Event e) (ae_Fields e) None = (Inr (), Some (line_of codec e @ [newline]))"
    using assms by (auto simp: eq Record_def line_ok_def line_of_def good_write_def split: sum.splits)
qed

lemma record_all_content:
  assumes "audit_on cfg" "\<forall>e \<in> set es. line_ok codec e"
  shows "record_all codec cfg es (Some c) = Some (c @ concat (map (\<lambda>e. line_of codec e @ [newline]) es))"
  using assms(2) by (induction es arbitrary: c) (simp_all add: record_one [OF assms(1)])

lemma Split_recorded:
  "\<forall>e \<in> set es. line_ok codec e \<Longrightarrow>
   Split (concat (map (\<lambda>e. line_of codec e @ [newline]) es)) newline = map (line_of codec) es @ [[]]"
proof (induction es)
  case (Cons e es)
  then have "newline \<notin> set (line_of codec e)" by (auto simp: line_ok_def line_of_def split: sum.splits)
  with Cons show ?case by (simp add: Split_append)
qed simp

lemma map_filter_recorded:
  "\<forall>e \<in> set es. line_ok codec e \<Longrightarrow> List.map_filter (line_event (co_decode codec)) (map (line_of codec) es) = es"
  by (induction es) (auto simp: List.map_filter_simps line_event_def line_ok_def line_of_def split: sum.splits)

lemma tail_recorded:
  assumes "\<forall>e \<in> set es. line_ok codec e"
  shows "audit_tail (co_decode codec) limit (concat (map (\<lambda>e. line_of codec e @ [newline]) es)) =
    Inr (drop (length es - limit) es)"
proof -
  have tw: "takeWhile (\<lambda>line. length line \<le> maxLineSize) (rev (map (line_of codec) es)) = rev (map (line_of codec) es)"
    by (subst takeWhile_eq_all_conv) (use assms in \<open>auto simp: line_ok_def line_of_def split: sum.splits\<close>)
  have "List.map_filter (line_event (co_decode codec)) (rev (map (line_of codec) es)) = rev es"
    using map_filter_recorded [of "rev es" codec] assms by (simp add: rev_map)
  moreover have "\<forall>e \<in> set es. length (line_of codec e) \<le> maxLineSize"
    using assms by (auto simp: line_ok_def line_of_def split: sum.splits)
  ultimately show ?thesis
    by (simp add: audit_tail_def Let_def Split_recorded [OF assms] List.map_filter_simps take_rev tw)
qed

text \<open>
  The events that were recorded, in a log that starts empty, are read back in their order: all of them,
  or the last ones up to the limit.
\<close>

theorem recorded_events_are_read:
  assumes "audit_on cfg" "\<forall>e \<in> set events. line_ok codec e" "record_all codec cfg events None = Some content"
  shows "audit_ReadLast codec cfg (Readable (length content) (file_ReadAt content)) limit =
    Some (Inr (drop (length events - audit_limit limit) events))"
proof (cases events)
  case (Cons e es)
  then have "content = concat (map (\<lambda>e. line_of codec e @ [newline]) events)"
    using assms record_all_content [OF assms(1), of es codec] by (simp add: record_one [OF assms(1)])
  then show ?thesis
    using assms(1) audit_reads_tail [of content "[]" "co_decode codec" "audit_limit limit"] tail_recorded [OF assms(2)]
    by (simp add: audit_ReadLast_def)
qed (use assms(3) in simp)

text \<open>A codec for events without fields: the name in braces.\<close>

definition brace_codec :: AuditCodec where
  "brace_codec = \<lparr>co_encode = (\<lambda>e. Inr (CHR ''{'' # ae_Event e @ ''}'')),
     co_decode = (\<lambda>line. if HasPrefix line ''{'' \<and> HasSuffix line ''}'' \<and> CHR ''{'' \<notin> set (tl line)
       then Some \<lparr>ae_Time = 0, ae_Event = butlast (tl line), ae_Fields = []\<rparr> else None)\<rparr>"

definition audit_cfg :: AuditConfig where
  "audit_cfg = \<lparr>ad_Enabled = True, ad_File = ''audit.jsonl''\<rparr>"

definition plain_event :: "string \<Rightarrow> AuditEvent" where
  "plain_event name = \<lparr>ae_Time = 0, ae_Event = name, ae_Fields = []\<rparr>"

theorem recorded_events_are_read_witness:
  "audit_ReadLast brace_codec (Some audit_cfg)
     (Readable 12 (file_ReadAt (''{ab}'' @ [newline] @ ''{c}'' @ [newline] @ ''{}'' @ [newline]))) 2 =
   Some (Inr [plain_event ''c'', plain_event []])"
proof -
  let ?es = "[plain_event ''ab'', plain_event ''c'', plain_event []]"
  let ?c = "''{ab}'' @ [newline] @ ''{c}'' @ [newline] @ ''{}'' @ [newline]"
  have on: "audit_on (Some audit_cfg)" by code_simp
  have ok: "\<forall>e \<in> set ?es. line_ok brace_codec e" by code_simp
  have rec: "record_all brace_codec (Some audit_cfg) ?es None = Some ?c" by code_simp
  have n: "length ?c = 12" "audit_limit 2 = 2" by (simp_all add: audit_limit_def)
  have "audit_ReadLast brace_codec (Some audit_cfg) (Readable (length ?c) (file_ReadAt ?c)) 2 =
      Some (Inr (drop (length ?es - audit_limit 2) ?es))" by (rule recorded_events_are_read [OF on ok rec])
  then show ?thesis unfolding n by simp
qed

text \<open>
  A write that fails after some bytes leaves them without a newline. The next event is appended to them, its
  write succeeds, and reading skips the line that holds both.
\<close>

theorem event_after_torn_write_is_lost:
  "\<exists>torn content. Record brace_codec (good_write\<lparr>aw_write := (\<lambda>data. (2, Some ''no space left on device''))\<rparr>) (Some audit_cfg) 0 ''ab'' [] None =
       (Inl ''no space left on device'', torn) \<and>
     Record brace_codec good_write (Some audit_cfg) 0 ''c'' [] torn = (Inr (), Some content) \<and>
     audit_ReadLast brace_codec (Some audit_cfg) (Readable (length content) (file_ReadAt content)) 100 = Some (Inr [])"
proof -
  let ?torn = "Some ''{a''" and ?content = "''{a{c}'' @ [newline]"
  have "Record brace_codec (good_write\<lparr>aw_write := (\<lambda>data. (2, Some ''no space left on device''))\<rparr>) (Some audit_cfg) 0 ''ab'' [] None =
       (Inl ''no space left on device'', ?torn)" by code_simp
  moreover have "Record brace_codec good_write (Some audit_cfg) 0 ''c'' [] ?torn = (Inr (), Some ?content)" by code_simp
  moreover have "audit_tail (co_decode brace_codec) 100 ?content = Inr []" by code_simp
  then have "audit_ReadLast brace_codec (Some audit_cfg) (Readable (length ?content) (file_ReadAt ?content)) 100 = Some (Inr [])"
    using audit_reads_tail [of ?content "[]" "co_decode brace_codec" 100]
    by (simp add: audit_ReadLast_def audit_limit_def audit_on_def audit_cfg_def)
  ultimately show ?thesis by blast
qed

end
