(* ===== verification/ConfigBundle.thy ===== *)
theory ConfigBundle
  imports ConfigLoad RouteStore "HOL-Library.Multiset" "HOL-Library.Code_Target_Numeral"
begin

text \<open>
  The configuration bundle, \<open>backend/internal/config/bundle.go\<close>: the archive that an administrator exports
  and imports. The zip package and the JSON codecs of the four documents are parameters; an archive is the
  list of its entries as the zip reader shows them.
\<close>

section \<open>Bundles\<close>

definition ConfigurationBundleFormat :: string where
  "ConfigurationBundleFormat = ''caddyproxy-config''"

definition ConfigurationBundleVersion :: int where
  "ConfigurationBundleVersion = 1"

definition bundleManifestName :: string where "bundleManifestName = ''manifest.json''"
definition bundleRoutesName :: string where "bundleRoutesName = ''routes.json''"
definition bundleSettingsName :: string where "bundleSettingsName = ''settings.json''"
definition bundleCertificatePolicyName :: string where "bundleCertificatePolicyName = ''certificate-policy.json''"

definition maxBundleEntryBytes :: nat where
  "maxBundleEntryBytes = 1048576"

definition maxBundleTotalBytes :: nat where
  "maxBundleTotalBytes = 4194304"

definition configurationBundleFiles :: "string list" where
  "configurationBundleFiles = [bundleManifestName, bundleRoutesName, bundleSettingsName, bundleCertificatePolicyName]"

record ConfigurationBundleManifest =
  bm_Format :: string
  bm_Version :: int
  bm_ExportedAt :: time
  bm_Files :: "string list"
  bm_CertificateMaterialIncluded :: bool
  bm_SecretsIncluded :: bool

record ConfigurationBundle =
  cb_Manifest :: ConfigurationBundleManifest
  cb_Routes :: ResourceSet
  cb_Settings :: Settings
  cb_CertificatePolicy :: CertificateConfig

section \<open>Archives\<close>

text \<open>
  An entry of an archive: the size its header declares, the error of opening it, the bytes its reader gives,
  the error that follows them (if any), and the error of closing it.
\<close>

record zip_entry =
  ze_Name :: string
  ze_IsDir :: bool
  ze_Symlink :: bool
  ze_UncompressedSize :: "64 word"
  ze_Open :: "string option"
  ze_Data :: string
  ze_ReadError :: "string option"
  ze_Close :: "string option"

text \<open>\<open>io.ReadAll\<close> of \<open>io.LimitReader\<close>: an error behind the limit is not seen.\<close>

definition read_limited :: "nat \<Rightarrow> zip_entry \<Rightarrow> string + string" where
  "read_limited n e =
     (if n \<le> length (ze_Data e) then Inr (take n (ze_Data e))
      else case ze_ReadError e of Some err \<Rightarrow> Inl err | None \<Rightarrow> Inr (ze_Data e))"

text \<open>The codecs. A decoder gives the value and what follows it in the text.\<close>

record BundleCodec =
  bc_zip_read :: "string \<Rightarrow> string + zip_entry list"
  bc_zip_write :: "(string \<times> string) list \<Rightarrow> string"
  bc_enc_Manifest :: "ConfigurationBundleManifest \<Rightarrow> string + string"
  bc_enc_Routes :: "ResourceSet \<Rightarrow> string + string"
  bc_enc_Settings :: "Settings \<Rightarrow> string + string"
  bc_enc_Policy :: "CertificateConfig \<Rightarrow> string + string"
  bc_dec_Manifest :: "string \<Rightarrow> string + ConfigurationBundleManifest \<times> string"
  bc_dec_Routes :: "string \<Rightarrow> string + ResourceSet \<times> string"
  bc_dec_Settings :: "string \<Rightarrow> string + Settings \<times> string"
  bc_dec_Policy :: "string \<Rightarrow> string + CertificateConfig \<times> string"

text \<open>The errors of the zip writer: creating the entry of a name, and closing the archive.\<close>

record ZipWriter =
  zw_create :: "string \<Rightarrow> string option"
  zw_close :: "string option"

section \<open>Export\<close>

definition without_secrets :: "Settings \<Rightarrow> Settings" where
  "without_secrets settings =
     settings\<lparr>se_Auth := (se_Auth settings)\<lparr>sa_AdminToken := [], sa_AdminTokens := [],
       sa_AdditionalHeaderName := [], sa_AdditionalHeaderValue := []\<rparr>\<rparr>"

definition without_client_secret :: "CertificateConfig \<Rightarrow> CertificateConfig" where
  "without_client_secret cert =
     cert\<lparr>ce_DNSChallenge := (ce_DNSChallenge cert)\<lparr>dc_Azure := (dc_Azure (ce_DNSChallenge cert))\<lparr>ac_ClientSecret := []\<rparr>\<rparr>\<rparr>"

definition export_manifest :: "time \<Rightarrow> ConfigurationBundleManifest" where
  "export_manifest exportedAt =
     \<lparr>bm_Format = ConfigurationBundleFormat, bm_Version = ConfigurationBundleVersion, bm_ExportedAt = exportedAt,
      bm_Files = configurationBundleFiles, bm_CertificateMaterialIncluded = False, bm_SecretsIncluded = False\<rparr>"

definition writeConfigurationBundleEntry :: "ZipWriter \<Rightarrow> string \<Rightarrow> string + string \<Rightarrow> (string \<times> string) list \<Rightarrow> string + (string \<times> string) list" where
  "writeConfigurationBundleEntry zw name encoded archive =
     (case zw_create zw name of
        Some e \<Rightarrow> Inl (''create configuration archive entry '' @ Quote name @ '': '' @ e)
      | None \<Rightarrow>
          (case encoded of
             Inl e \<Rightarrow> Inl (''encode configuration archive entry '' @ Quote name @ '': '' @ e)
           | Inr text \<Rightarrow> Inr (archive @ [(name, text)])))"

fun write_entries :: "ZipWriter \<Rightarrow> (string \<times> (string + string)) list \<Rightarrow> (string \<times> string) list \<Rightarrow> string + (string \<times> string) list" where
  "write_entries zw [] archive = Inr archive"
| "write_entries zw ((name, encoded) # rest) archive =
     bind_res (writeConfigurationBundleEntry zw name encoded archive) (\<lambda>archive1. write_entries zw rest archive1)"

definition ExportConfigurationBundle :: "BundleCodec \<Rightarrow> ZipWriter \<Rightarrow> ResourceSet \<Rightarrow> Settings \<Rightarrow> CertificateConfig \<Rightarrow> time \<Rightarrow> string + string" where
  "ExportConfigurationBundle codec zw routeResources settings certificatePolicy exportedAt =
     bind_res (write_entries zw
         [(bundleManifestName, bc_enc_Manifest codec (export_manifest exportedAt)),
          (bundleRoutesName, bc_enc_Routes codec routeResources),
          (bundleSettingsName, bc_enc_Settings codec (without_secrets settings)),
          (bundleCertificatePolicyName, bc_enc_Policy codec (without_client_secret certificatePolicy))] []) (\<lambda>archive.
       case zw_close zw of
         Some e \<Rightarrow> Inl (''close configuration archive: '' @ e)
       | None \<Rightarrow> Inr (bc_zip_write codec archive))"

section \<open>Import\<close>

definition json_space :: "char \<Rightarrow> bool" where
  "json_space c \<longleftrightarrow> c \<in> {CHR '' '', CHR 0x09, CHR 0x0A, CHR 0x0D}"

text \<open>The second \<open>Decode\<close> answers \<open>io.EOF\<close> exactly when only white space is left.\<close>

definition decodeConfigurationBundleJSON :: "(string \<Rightarrow> string + 'a \<times> string) \<Rightarrow> string \<Rightarrow> string + 'a" where
  "decodeConfigurationBundleJSON decode data =
     bind_res (decode data) (\<lambda>(target, rest).
       if list_all json_space rest then Inr target else Inl ''contains trailing JSON data'')"

text \<open>One entry of the loop: the files so far and their total size, a 64-bit sum.\<close>

definition read_entry :: "zip_entry \<Rightarrow> (string \<rightharpoonup> string) \<times> 64 word \<Rightarrow> string + (string \<rightharpoonup> string) \<times> 64 word" where
  "read_entry e acc =
     (let (entries, total) = acc; name = ze_Name e in
      if name \<notin> set configurationBundleFiles then Inl (''configuration archive contains unsupported file '' @ Quote name)
      else if entries name \<noteq> None then Inl (''configuration archive contains duplicate file '' @ Quote name)
      else if ze_IsDir e \<or> ze_Symlink e then Inl (''configuration archive entry '' @ Quote name @ '' must be a regular file'')
      else if ze_UncompressedSize e > of_nat maxBundleEntryBytes \<or> total + ze_UncompressedSize e > of_nat maxBundleTotalBytes
      then Inl ''configuration archive exceeds the uncompressed size limit''
      else case ze_Open e of
        Some err \<Rightarrow> Inl (''open configuration archive entry '' @ Quote name @ '': '' @ err)
      | None \<Rightarrow>
          (case read_limited (maxBundleEntryBytes + 1) e of
             Inl err \<Rightarrow> Inl (''read configuration archive entry '' @ Quote name @ '': '' @ err)
           | Inr content \<Rightarrow>
               (case ze_Close e of
                  Some err \<Rightarrow> Inl (''close configuration archive entry '' @ Quote name @ '': '' @ err)
                | None \<Rightarrow>
                    (if length content > maxBundleEntryBytes
                     then Inl (''configuration archive entry '' @ Quote name @ '' exceeds the size limit'')
                     else Inr (entries(name \<mapsto> content), total + of_nat (length content))))))"

fun read_entries :: "zip_entry list \<Rightarrow> (string \<rightharpoonup> string) \<times> 64 word \<Rightarrow> string + (string \<rightharpoonup> string) \<times> 64 word" where
  "read_entries [] acc = Inr acc"
| "read_entries (e # rest) acc = bind_res (read_entry e acc) (\<lambda>acc1. read_entries rest acc1)"

definition entry_text :: "(string \<rightharpoonup> string) \<Rightarrow> string \<Rightarrow> string" where
  "entry_text entries name = (case entries name of Some c \<Rightarrow> c | None \<Rightarrow> [])"

definition in_file :: "string \<Rightarrow> string + 'a \<Rightarrow> string + 'a" where
  "in_file name r = (case r of Inl e \<Rightarrow> Inl (''parse '' @ name @ '': '' @ e) | Inr x \<Rightarrow> Inr x)"

definition decode_bundle :: "BundleCodec \<Rightarrow> (string \<rightharpoonup> string) \<Rightarrow> string + ConfigurationBundle" where
  "decode_bundle codec entries =
     bind_res (in_file bundleManifestName
         (decodeConfigurationBundleJSON (bc_dec_Manifest codec) (entry_text entries bundleManifestName))) (\<lambda>manifest.
     if bm_Format manifest \<noteq> ConfigurationBundleFormat \<or> bm_Version manifest \<noteq> ConfigurationBundleVersion
     then Inl (''unsupported configuration bundle format '' @ Quote (bm_Format manifest) @ '' version '' @ Itoa (bm_Version manifest))
     else if bm_Files manifest \<noteq> configurationBundleFiles \<or> bm_CertificateMaterialIncluded manifest \<or> bm_SecretsIncluded manifest
     then Inl ''configuration bundle manifest does not match the supported safe file set''
     else
      bind_res (in_file bundleRoutesName
         (decodeConfigurationBundleJSON (bc_dec_Routes codec) (entry_text entries bundleRoutesName))) (\<lambda>routes.
      bind_res (in_file bundleSettingsName
         (decodeConfigurationBundleJSON (bc_dec_Settings codec) (entry_text entries bundleSettingsName))) (\<lambda>settings.
      bind_res (in_file bundleCertificatePolicyName
         (decodeConfigurationBundleJSON (bc_dec_Policy codec) (entry_text entries bundleCertificatePolicyName))) (\<lambda>policy.
      Inr \<lparr>cb_Manifest = manifest, cb_Routes = routes, cb_Settings = settings, cb_CertificatePolicy = policy\<rparr>))))"

definition ParseConfigurationBundle :: "BundleCodec \<Rightarrow> string \<Rightarrow> string + ConfigurationBundle" where
  "ParseConfigurationBundle codec data =
     (case bc_zip_read codec data of
        Inl e \<Rightarrow> Inl (''open configuration archive: '' @ e)
      | Inr files \<Rightarrow>
          (if length files \<noteq> length configurationBundleFiles
           then Inl (''configuration archive must contain exactly '' @ Itoa (int (length configurationBundleFiles)) @ '' files'')
           else bind_res (read_entries files (Map.empty, 0)) (\<lambda>(entries, total). decode_bundle codec entries)))"

section \<open>What an accepted archive holds\<close>

definition regular_entry :: "zip_entry \<Rightarrow> bool" where
  "regular_entry e \<longleftrightarrow> \<not> ze_IsDir e \<and> \<not> ze_Symlink e \<and> unat (ze_UncompressedSize e) \<le> maxBundleEntryBytes \<and>
     length (ze_Data e) \<le> maxBundleEntryBytes \<and> ze_Open e = None \<and> ze_ReadError e = None \<and> ze_Close e = None"

lemma read_limited_short:
  "read_limited (Suc n) e = Inr c \<Longrightarrow> length c \<le> n \<Longrightarrow> c = ze_Data e \<and> ze_ReadError e = None"
  by (auto simp: read_limited_def split: if_splits option.splits)

lemma read_entry_ok:
  assumes "read_entry e (m, t) = Inr acc"
  shows "ze_Name e \<in> set configurationBundleFiles \<and> m (ze_Name e) = None \<and> regular_entry e \<and>
    acc = (m(ze_Name e \<mapsto> ze_Data e), t + of_nat (length (ze_Data e)))"
proof -
  from assms obtain c where c: "read_limited (Suc maxBundleEntryBytes) e = Inr c" "length c \<le> maxBundleEntryBytes"
      "ze_Name e \<in> set configurationBundleFiles" "m (ze_Name e) = None" "\<not> ze_IsDir e" "\<not> ze_Symlink e"
      "\<not> ze_UncompressedSize e > of_nat maxBundleEntryBytes" "ze_Open e = None" "ze_Close e = None"
      "acc = (m(ze_Name e \<mapsto> c), t + of_nat (length c))"
    by (auto simp: read_entry_def Let_def split: if_splits option.splits sum.splits)
  moreover have "unat (of_nat maxBundleEntryBytes :: 64 word) = maxBundleEntryBytes" by (simp add: maxBundleEntryBytes_def)
  ultimately show ?thesis using read_limited_short [OF c(1,2)]
    by (auto simp: regular_entry_def not_less word_le_nat_alt)
qed

lemma read_entries_ok:
  "read_entries files (m, t) = Inr (m', t') \<Longrightarrow>
   distinct (map ze_Name files) \<and> set (map ze_Name files) \<subseteq> set configurationBundleFiles \<and>
   (\<forall>e \<in> set files. m (ze_Name e) = None \<and> regular_entry e \<and> m' (ze_Name e) = Some (ze_Data e)) \<and>
   (\<forall>n. n \<notin> set (map ze_Name files) \<longrightarrow> m' n = m n) \<and>
   t' = t + of_nat (sum_list (map (\<lambda>e. length (ze_Data e)) files))"
proof (induction files arbitrary: m t)
  case (Cons e files)
  then obtain acc where acc: "read_entry e (m, t) = Inr acc" "read_entries files acc = Inr (m', t')"
    by (auto simp: res_simps)
  note ok = read_entry_ok [OF acc(1)]
  then have "read_entries files (m(ze_Name e \<mapsto> ze_Data e), t + of_nat (length (ze_Data e))) = Inr (m', t')"
    using acc(2) by simp
  from Cons.IH [OF this] ok show ?case by (fastforce simp: add.assoc split: if_splits)
qed simp

lemma accepted_entries:
  assumes "read_entries files (Map.empty, 0) = Inr (m, t)" "length files = length configurationBundleFiles"
  shows "mset (map ze_Name files) = mset configurationBundleFiles"
    and "\<forall>e \<in> set files. regular_entry e \<and> m (ze_Name e) = Some (ze_Data e)"
    and "unat t = sum_list (map (\<lambda>e. length (ze_Data e)) files)"
    and "sum_list (map (\<lambda>e. length (ze_Data e)) files) \<le> maxBundleTotalBytes"
proof -
  note ok = read_entries_ok [OF assms(1)]
  have d: "distinct configurationBundleFiles" by code_simp
  have "card (set (map ze_Name files)) = card (set configurationBundleFiles)"
    using ok assms(2) d by (simp add: distinct_card flip: set_map)
  then have "set (map ze_Name files) = set configurationBundleFiles" using ok by (intro card_subset_eq) auto
  then show "mset (map ze_Name files) = mset configurationBundleFiles"
    using ok d by (metis set_eq_iff_mset_eq_distinct)
  show reg: "\<forall>e \<in> set files. regular_entry e \<and> m (ze_Name e) = Some (ze_Data e)" using ok by blast
  have "sum_list (map (\<lambda>e. length (ze_Data e)) files) \<le> sum_list (map (\<lambda>e. maxBundleEntryBytes) files)"
    using reg by (intro sum_list_mono) (simp add: regular_entry_def)
  also have "\<dots> = maxBundleTotalBytes"
    using assms(2) by (simp add: sum_list_triv maxBundleEntryBytes_def maxBundleTotalBytes_def configurationBundleFiles_def)
  finally show total: "sum_list (map (\<lambda>e. length (ze_Data e)) files) \<le> maxBundleTotalBytes" .
  then have "sum_list (map (\<lambda>e. length (ze_Data e)) files) < 2 ^ 64" by (simp add: maxBundleTotalBytes_def)
  then show "unat t = sum_list (map (\<lambda>e. length (ze_Data e)) files)"
    using ok by (simp add: of_nat_inverse)
qed

definition safe_manifest :: "ConfigurationBundleManifest \<Rightarrow> bool" where
  "safe_manifest m \<longleftrightarrow> bm_Format m = ConfigurationBundleFormat \<and> bm_Version m = ConfigurationBundleVersion \<and>
     bm_Files m = configurationBundleFiles \<and> \<not> bm_CertificateMaterialIncluded m \<and> \<not> bm_SecretsIncluded m"

lemma decode_bundle_manifest: "decode_bundle codec entries = Inr bundle \<Longrightarrow> safe_manifest (cb_Manifest bundle)"
  by (auto simp: decode_bundle_def res_simps safe_manifest_def split: if_splits)

text \<open>
  C34: an archive that is accepted holds exactly the four files, each once and each a regular file of at most
  1 MiB, with at most 4 MiB together, so that the 64-bit total is exact; its manifest has the supported
  format and declares neither certificate material nor secrets.
\<close>

theorem accepted_archive_is_bounded:
  assumes "ParseConfigurationBundle codec data = Inr bundle"
  shows "safe_manifest (cb_Manifest bundle) \<and>
    (\<exists>files entries total. bc_zip_read codec data = Inr files \<and> read_entries files (Map.empty, 0) = Inr (entries, total) \<and>
       mset (map ze_Name files) = mset configurationBundleFiles \<and> (\<forall>e \<in> set files. regular_entry e) \<and>
       unat total = sum_list (map (\<lambda>e. length (ze_Data e)) files) \<and> unat total \<le> maxBundleTotalBytes \<and>
       decode_bundle codec entries = Inr bundle)"
proof -
  obtain files m t where f: "bc_zip_read codec data = Inr files" "length files = length configurationBundleFiles"
      "read_entries files (Map.empty, 0) = Inr (m, t)" "decode_bundle codec m = Inr bundle"
    using assms by (auto simp: ParseConfigurationBundle_def res_simps split: sum.splits if_splits)
  note a = accepted_entries [OF f(3,2)]
  have "unat t \<le> maxBundleTotalBytes" using a(3,4) by simp
  then show ?thesis using f a(1,2,3) decode_bundle_manifest [OF f(4)] by blast
qed

section \<open>Round trip\<close>

definition zip_file :: "string \<times> string \<Rightarrow> zip_entry" where
  "zip_file f = \<lparr>ze_Name = fst f, ze_IsDir = False, ze_Symlink = False, ze_UncompressedSize = of_nat (length (snd f)),
     ze_Open = None, ze_Data = snd f, ze_ReadError = None, ze_Close = None\<rparr>"

text \<open>The contract of the codecs: the reader shows what the writer wrote, and a decoder reads back a value.\<close>

definition zip_ok :: "BundleCodec \<Rightarrow> (string \<times> string) list \<Rightarrow> bool" where
  "zip_ok codec archive \<longleftrightarrow> bc_zip_read codec (bc_zip_write codec archive) = Inr (map zip_file archive)"

definition doc_ok :: "('a \<Rightarrow> string + string) \<Rightarrow> (string \<Rightarrow> string + 'a \<times> string) \<Rightarrow> 'a \<Rightarrow> string \<Rightarrow> bool" where
  "doc_ok enc dec x text \<longleftrightarrow> enc x = Inr text \<and> dec text = Inr (x, [CHR 0x0A])"

lemma doc_ok_decode: "doc_ok enc dec x text \<Longrightarrow> decodeConfigurationBundleJSON dec text = Inr x"
  by (simp add: doc_ok_def decodeConfigurationBundleJSON_def json_space_def)

lemma read_entry_file:
  assumes "fst f \<in> set configurationBundleFiles" "m (fst f) = None" "length (snd f) \<le> maxBundleEntryBytes"
    and "unat t + length (snd f) \<le> maxBundleTotalBytes"
  shows "read_entry (zip_file f) (m, t) = Inr (m(fst f \<mapsto> snd f), t + of_nat (length (snd f)))"
proof -
  have n: "length (snd f) < 2 ^ 64" using assms(3) by (simp add: maxBundleEntryBytes_def)
  then have u: "unat (of_nat (length (snd f)) :: 64 word) = length (snd f)" by (simp add: of_nat_inverse)
  have e: "\<not> (of_nat (length (snd f)) :: 64 word) > of_nat maxBundleEntryBytes"
    using assms(3) u by (simp add: word_less_nat_alt maxBundleEntryBytes_def)
  have "unat (t + of_nat (length (snd f)) :: 64 word) = unat t + length (snd f)"
    using assms(4) u by (subst unat_add_lem [THEN iffD1]) (simp_all add: maxBundleTotalBytes_def)
  then have "\<not> t + of_nat (length (snd f)) > (of_nat maxBundleTotalBytes :: 64 word)"
    using assms(4) by (simp add: word_less_nat_alt maxBundleTotalBytes_def)
  then show ?thesis using assms(1-3) e
    by (simp add: read_entry_def zip_file_def read_limited_def Let_def)
qed

lemma write_entries_ok:
  assumes "\<forall>n. zw_create zw n = None"
  shows "write_entries zw (map (\<lambda>(n, t). (n, Inr t)) docs) archive = Inr (archive @ docs)"
  using assms by (induction docs arbitrary: archive) (auto simp: writeConfigurationBundleEntry_def)

lemma export_manifest_fields:
  "export_manifest exportedAt = \<lparr>bm_Format = ''caddyproxy-config'', bm_Version = 1, bm_ExportedAt = exportedAt,
     bm_Files = [''manifest.json'', ''routes.json'', ''settings.json'', ''certificate-policy.json''],
     bm_CertificateMaterialIncluded = False, bm_SecretsIncluded = False\<rparr>"
  by (simp add: export_manifest_def ConfigurationBundleFormat_def ConfigurationBundleVersion_def configurationBundleFiles_def
      bundleManifestName_def bundleRoutesName_def bundleSettingsName_def bundleCertificatePolicyName_def)

lemma bundle_names: "bundleRoutesName \<noteq> bundleManifestName" "bundleSettingsName \<noteq> bundleManifestName"
  "bundleSettingsName \<noteq> bundleRoutesName" "bundleCertificatePolicyName \<noteq> bundleManifestName"
  "bundleCertificatePolicyName \<noteq> bundleRoutesName" "bundleCertificatePolicyName \<noteq> bundleSettingsName"
  by code_simp+

text \<open>The four files of an archive, each within its limit, read in turn.\<close>

lemma read_four_files:
  assumes "list_all (\<lambda>text. length text \<le> maxBundleEntryBytes) [m, r, t, p]"
  shows "read_entries (map zip_file (zip configurationBundleFiles [m, r, t, p])) (Map.empty, 0) =
    Inr ([bundleManifestName \<mapsto> m, bundleRoutesName \<mapsto> r, bundleSettingsName \<mapsto> t, bundleCertificatePolicyName \<mapsto> p],
      of_nat (length m + length r + length t + length p))"
proof -
  have len: "length m \<le> maxBundleEntryBytes" "length r \<le> maxBundleEntryBytes" "length t \<le> maxBundleEntryBytes"
    "length p \<le> maxBundleEntryBytes" using assms by auto
  have u: "unat (of_nat n :: 64 word) = n" if "n \<le> maxBundleTotalBytes" for n
    using that by (simp add: unat_of_nat maxBundleTotalBytes_def)
  have step: "read_entry (zip_file (n, x)) (mp, of_nat k) = Inr (mp(n \<mapsto> x), of_nat (k + length x))"
    if "n \<in> set configurationBundleFiles" "mp n = None" "length x \<le> maxBundleEntryBytes" "k \<le> 3 * maxBundleEntryBytes" for n x mp k
    using read_entry_file [of "(n, x)" mp "of_nat k"] that u [of k]
    by (simp add: maxBundleTotalBytes_def maxBundleEntryBytes_def)
  show ?thesis
    using step [of bundleManifestName Map.empty m 0] step [of bundleRoutesName "[bundleManifestName \<mapsto> m]" r "length m"]
      step [of bundleSettingsName "[bundleManifestName \<mapsto> m, bundleRoutesName \<mapsto> r]" t "length m + length r"]
      step [of bundleCertificatePolicyName "[bundleManifestName \<mapsto> m, bundleRoutesName \<mapsto> r, bundleSettingsName \<mapsto> t]" p
        "length m + length r + length t"] len bundle_names
    by (simp add: configurationBundleFiles_def)
qed

text \<open>
  C35: a bundle that is exported is read back with the same routes, settings and certificate policy, except that the
  admin token, the list of admin tokens, the name and the value of the additional header and the client secret
  of the DNS challenge are empty. The hypotheses are the round trips of the zip library and of the JSON of the four
  documents as they are written, and the size limit of each document.
\<close>

theorem exported_bundle_is_read_back:
  assumes "ExportConfigurationBundle codec zw rs settings policy exportedAt = Inr data"
    and "zw_create zw = (\<lambda>n. None)"
    and "public = settings\<lparr>se_Auth := (se_Auth settings)\<lparr>sa_AdminToken := [], sa_AdminTokens := [],
      sa_AdditionalHeaderName := [], sa_AdditionalHeaderValue := []\<rparr>\<rparr>"
    and "open_policy = policy\<lparr>ce_DNSChallenge := (ce_DNSChallenge policy)\<lparr>dc_Azure := (dc_Azure (ce_DNSChallenge policy))
      \<lparr>ac_ClientSecret := []\<rparr>\<rparr>\<rparr>"
    and "doc_ok (bc_enc_Manifest codec) (bc_dec_Manifest codec) (export_manifest exportedAt) m"
    and "doc_ok (bc_enc_Routes codec) (bc_dec_Routes codec) rs r"
    and "doc_ok (bc_enc_Settings codec) (bc_dec_Settings codec) public t"
    and "doc_ok (bc_enc_Policy codec) (bc_dec_Policy codec) open_policy p"
    and "zip_ok codec (zip configurationBundleFiles [m, r, t, p])"
    and "list_all (\<lambda>text. length text \<le> maxBundleEntryBytes) [m, r, t, p]"
  shows "ParseConfigurationBundle codec data =
    Inr \<lparr>cb_Manifest = \<lparr>bm_Format = ''caddyproxy-config'', bm_Version = 1, bm_ExportedAt = exportedAt,
        bm_Files = [''manifest.json'', ''routes.json'', ''settings.json'', ''certificate-policy.json''],
        bm_CertificateMaterialIncluded = False, bm_SecretsIncluded = False\<rparr>,
      cb_Routes = rs, cb_Settings = public, cb_CertificatePolicy = open_policy\<rparr>"
proof -
  have public: "without_secrets settings = public" and open_policy: "without_client_secret policy = open_policy"
    by (simp_all add: assms(3,4) without_secrets_def without_client_secret_def)
  let ?archive = "zip configurationBundleFiles [m, r, t, p]"
  have "write_entries zw (map (\<lambda>(n, x). (n, Inr x)) ?archive) [] = Inr ([] @ ?archive)"
    using assms(2) by (intro write_entries_ok) simp
  then have "data = bc_zip_write codec ?archive"
    using assms(1,5-8)
    by (auto simp: ExportConfigurationBundle_def public open_policy doc_ok_def configurationBundleFiles_def split: option.splits)
  then have read: "bc_zip_read codec data = Inr (map zip_file ?archive)" using assms(9) by (simp add: zip_ok_def)
  define e where "e = [bundleManifestName \<mapsto> m, bundleRoutesName \<mapsto> r, bundleSettingsName \<mapsto> t, bundleCertificatePolicyName \<mapsto> p]"
  have "entry_text e bundleManifestName = m" "entry_text e bundleRoutesName = r" "entry_text e bundleSettingsName = t"
    "entry_text e bundleCertificatePolicyName = p" using bundle_names by (simp_all add: e_def entry_text_def)
  then have "decode_bundle codec e = Inr \<lparr>cb_Manifest = export_manifest exportedAt, cb_Routes = rs,
      cb_Settings = public, cb_CertificatePolicy = open_policy\<rparr>"
    using assms(5-8) by (simp add: decode_bundle_def in_file_def doc_ok_decode) (simp add: export_manifest_def)
  then show ?thesis
    using read read_four_files [OF assms(10)]
    by (simp only: export_manifest_fields [symmetric] e_def) (simp add: ParseConfigurationBundle_def configurationBundleFiles_def)
qed

section \<open>Witnesses\<close>

text \<open>
  A codec: the archive is its names and texts, each ended by a zero byte; the four documents have a fixed
  text each, that of the bundle below.
\<close>

definition NUL :: char where
  "NUL = CHR 0x00"

fun pair_up :: "string list \<Rightarrow> (string \<times> string) list" where
  "pair_up (n # t # rest) = (n, t) # pair_up rest"
| "pair_up _ = []"

definition sample_settings :: Settings where
  "sample_settings =
     \<lparr>se_DeploymentMode = ModeAzureVM, se_DockerEnabled = Some False,
      se_Azure = ap_Azure (defaults Map.empty), se_Security = ap_Security (defaults Map.empty),
      se_InternalSourceRanges = [''10.0.0.0/8''],
      se_Auth = \<lparr>sa_Required = True, sa_AdminToken = ''s3cret'', sa_AdminTokens = [''t1''], sa_AllowBearerToken = True,
        sa_AllowAdminTokenHeader = True, sa_AdditionalHeaderName = ''X-Team'', sa_AdditionalHeaderValue = ''blue''\<rparr>\<rparr>"

definition sample_routes :: ResourceSet where
  "sample_routes = \<lparr>set_Version = 3, set_Listeners = [], set_BackendPools = [], set_RoutingRules = []\<rparr>"

definition sample_policy :: CertificateConfig where
  "sample_policy = (gw_Certificate (ap_Gateway (defaults Map.empty)))\<lparr>ce_DNSChallenge :=
     \<lparr>dc_Provider = ''azure'', dc_Azure = \<lparr>ac_SubscriptionID = ''sub'', ac_ResourceGroup = ''dns'',
        ac_Authentication = ''appregistration'', ac_TenantID = ''tenant'', ac_ClientID = ''client'', ac_ClientSecret = ''k3y''\<rparr>\<rparr>\<rparr>"

text \<open>
  The functions of the codec have names of their own, so that the evaluator leaves those alone that are not applied.
\<close>

definition text_unzip :: "string \<Rightarrow> string + zip_entry list" where
  "text_unzip data = Inr (map zip_file (pair_up (Split data NUL)))"

definition text_zip :: "(string \<times> string) list \<Rightarrow> string" where
  "text_zip archive = concat (map (\<lambda>(n, t). n @ [NUL] @ t @ [NUL]) archive)"

definition decoded_manifest :: "string \<Rightarrow> string + ConfigurationBundleManifest \<times> string" where
  "decoded_manifest t = Inr (export_manifest 7, [CHR 0x0A])"

definition decoded_routes :: "string \<Rightarrow> string + ResourceSet \<times> string" where
  "decoded_routes t = Inr (sample_routes, [CHR 0x0A])"

definition decoded_settings :: "string \<Rightarrow> string + Settings \<times> string" where
  "decoded_settings t = Inr (without_secrets sample_settings, [CHR 0x0A])"

definition decoded_policy :: "string \<Rightarrow> string + CertificateConfig \<times> string" where
  "decoded_policy t = Inr (without_client_secret sample_policy, [CHR 0x0A])"

definition text_codec :: BundleCodec where
  "text_codec =
     \<lparr>bc_zip_read = text_unzip, bc_zip_write = text_zip,
      bc_enc_Manifest = (\<lambda>_. Inr ''manifest''), bc_enc_Routes = (\<lambda>_. Inr ''routes''),
      bc_enc_Settings = (\<lambda>_. Inr ''settings''), bc_enc_Policy = (\<lambda>_. Inr ''policy''),
      bc_dec_Manifest = decoded_manifest, bc_dec_Routes = decoded_routes,
      bc_dec_Settings = decoded_settings, bc_dec_Policy = decoded_policy\<rparr>"

lemmas text_codec_defs = text_codec_def text_unzip_def text_zip_def decoded_manifest_def decoded_routes_def
  decoded_settings_def decoded_policy_def

definition good_zip :: ZipWriter where
  "good_zip = \<lparr>zw_create = (\<lambda>n. None), zw_close = None\<rparr>"

definition sample_export :: string where
  "sample_export = (case ExportConfigurationBundle text_codec good_zip sample_routes sample_settings sample_policy 7 of
     Inl e \<Rightarrow> [] | Inr data \<Rightarrow> data)"

definition sample_bundle :: ConfigurationBundle where
  "sample_bundle = \<lparr>cb_Manifest = export_manifest 7, cb_Routes = sample_routes, cb_Settings = without_secrets sample_settings,
     cb_CertificatePolicy = without_client_secret sample_policy\<rparr>"

theorem exported_bundle_is_read_back_witness:
  "ParseConfigurationBundle text_codec sample_export = Inr sample_bundle \<and>
   sa_AdminToken (se_Auth sample_settings) = ''s3cret'' \<and> sa_AdminToken (se_Auth (cb_Settings sample_bundle)) = []"
proof -
  have export: "ExportConfigurationBundle text_codec good_zip sample_routes sample_settings sample_policy 7 = Inr sample_export"
    by code_simp
  have ok: "zip_ok text_codec (zip configurationBundleFiles [''manifest'', ''routes'', ''settings'', ''policy''])" by code_simp
  have docs: "doc_ok (bc_enc_Manifest text_codec) (bc_dec_Manifest text_codec) (export_manifest 7) ''manifest''"
    "doc_ok (bc_enc_Routes text_codec) (bc_dec_Routes text_codec) sample_routes ''routes''"
    "doc_ok (bc_enc_Settings text_codec) (bc_dec_Settings text_codec) (without_secrets sample_settings) ''settings''"
    "doc_ok (bc_enc_Policy text_codec) (bc_dec_Policy text_codec) (without_client_secret sample_policy) ''policy''"
    by (simp_all add: doc_ok_def text_codec_defs)
  have size: "list_all (\<lambda>text. length text \<le> maxBundleEntryBytes) [''manifest'', ''routes'', ''settings'', ''policy'']" by code_simp
  have "zw_create good_zip = (\<lambda>n. None)" by (simp add: good_zip_def)
  from exported_bundle_is_read_back [OF export this refl refl docs [unfolded without_secrets_def without_client_secret_def] ok size]
  show ?thesis
    by (simp add: sample_bundle_def without_secrets_def without_client_secret_def export_manifest_def sample_settings_def
        ConfigurationBundleFormat_def ConfigurationBundleVersion_def configurationBundleFiles_def
        bundleManifestName_def bundleRoutesName_def bundleSettingsName_def bundleCertificatePolicyName_def)
qed

theorem accepted_archive_is_bounded_witness:
  "\<exists>files. bc_zip_read text_codec sample_export = Inr files \<and> mset (map ze_Name files) = mset configurationBundleFiles"
proof -
  have "ParseConfigurationBundle text_codec sample_export = Inr sample_bundle" by code_simp
  from accepted_archive_is_bounded [OF this] show ?thesis by blast
qed

text \<open>The export does not check the limits of the import: with a large document it succeeds all the same.\<close>

theorem large_export_is_refused:
  assumes "bc_zip_read codec data = Inr (map zip_file (zip configurationBundleFiles [m, r, t, p]))"
    and "length m \<le> maxBundleEntryBytes" "maxBundleEntryBytes < length r" "length r < 2 ^ 64"
  shows "ParseConfigurationBundle codec data = Inl ''configuration archive exceeds the uncompressed size limit''"
proof -
  have first: "read_entry (zip_file (bundleManifestName, m)) (Map.empty, 0) = Inr ([bundleManifestName \<mapsto> m], of_nat (length m))"
    using read_entry_file [of "(bundleManifestName, m)" Map.empty 0] assms(2)
    by (simp add: configurationBundleFiles_def maxBundleTotalBytes_def maxBundleEntryBytes_def)
  have "unat (of_nat (length r) :: 64 word) = length r" using assms(4) by (simp add: unat_of_nat)
  then have "(of_nat (length r) :: 64 word) > of_nat maxBundleEntryBytes"
    using assms(3) by (simp add: word_less_nat_alt maxBundleEntryBytes_def)
  moreover have "bundleRoutesName \<noteq> bundleManifestName" by code_simp
  ultimately have "read_entry (zip_file (bundleRoutesName, r)) ([bundleManifestName \<mapsto> m], of_nat (length m)) =
      Inl ''configuration archive exceeds the uncompressed size limit''"
    by (simp add: read_entry_def zip_file_def configurationBundleFiles_def)
  then show ?thesis using assms(1) first
    by (simp add: ParseConfigurationBundle_def configurationBundleFiles_def)
qed

end
