(* ===== verification/AzurePermissions.thy ===== *)
theory AzurePermissions
  imports AzureManager ConfigLoad LogStore "HOL-Library.Code_Target_Numeral"
begin

text \<open>
  The Azure diagnostics: the check of the effective permissions (\<open>backend/internal/azure/permissions.go\<close>),
  the status of the configuration (\<open>status.go\<close>) and the file with the identity of the instance
  (\<open>identity.go\<close>). The credential, the answers of Azure and the operations on the file are parameters.
\<close>

section \<open>Patterns of actions\<close>

text \<open>
  \<open>azureActionMatches\<close> quotes the pattern as a regular expression in which only the star is special: it
  stands for any text without a newline.
\<close>

function glob :: "string \<Rightarrow> string \<Rightarrow> bool" where
  "glob [] s = (s = [])"
| "c \<noteq> CHR ''*'' \<Longrightarrow> glob (c # p) s = (case s of [] \<Rightarrow> False | d # s' \<Rightarrow> c = d \<and> glob p s')"
| "glob (CHR ''*'' # p) s = (glob p s \<or> (case s of [] \<Rightarrow> False | d # s' \<Rightarrow> d \<noteq> newline \<and> glob (CHR ''*'' # p) s'))"
  by (auto, metis list.exhaust)
termination
  by (relation "measure (\<lambda>(p, s). length p + length s)") auto

lemmas glob_star = glob.simps(3)
declare glob.simps(3) [simp del]

lemma glob_code [code]:
  "glob p s = (case p of
     [] \<Rightarrow> s = []
   | c # p' \<Rightarrow>
       (if c = CHR ''*'' then glob p' s \<or> (case s of [] \<Rightarrow> False | d # s' \<Rightarrow> d \<noteq> newline \<and> glob p s')
        else case s of [] \<Rightarrow> False | d # s' \<Rightarrow> c = d \<and> glob p' s'))"
proof (cases p)
  case (Cons c p')
  then show ?thesis by (cases "c = CHR ''*''") (simp_all add: glob_star [of p' s] cong: list.case_cong)
qed simp

definition azureActionMatches :: "string \<Rightarrow> string \<Rightarrow> bool" where
  "azureActionMatches pattern action = glob (ToLower (TrimSpace pattern)) (ToLower (TrimSpace action))"

text \<open>A block of permissions: what it allows and what it takes back.\<close>

record permissionBlock =
  pb_actions :: "string list"
  pb_notActions :: "string list"

definition matchesAnyAction :: "string list \<Rightarrow> string \<Rightarrow> bool" where
  "matchesAnyAction patterns action = list_ex (\<lambda>pattern. azureActionMatches pattern action) patterns"

definition actionAllowed :: "string \<Rightarrow> permissionBlock list \<Rightarrow> bool" where
  "actionAllowed action permissions =
     list_ex (\<lambda>b. matchesAnyAction (pb_actions b) action \<and> \<not> matchesAnyAction (pb_notActions b) action) permissions"

definition missingActions :: "string list \<Rightarrow> permissionBlock list \<Rightarrow> string list" where
  "missingActions required permissions = filter (\<lambda>action. \<not> actionAllowed action permissions) required"

section \<open>Requests\<close>

definition azureManagementEndpoint :: string where
  "azureManagementEndpoint = ''https://management.azure.com''"

definition dnsRequiredActions :: "string list" where
  "dnsRequiredActions = [''Microsoft.Network/dnsZones/A/read'', ''Microsoft.Network/dnsZones/A/write'',
     ''Microsoft.Network/dnsZones/A/delete'']"

definition networkRequiredActions :: "string list" where
  "networkRequiredActions = [''Microsoft.Network/networkSecurityGroups/securityRules/read'',
     ''Microsoft.Network/networkSecurityGroups/securityRules/write'',
     ''Microsoft.Network/networkSecurityGroups/securityRules/delete'']"

record permissionTarget =
  tg_name :: string
  tg_resourceGroup :: string
  tg_provider :: string
  tg_resourceType :: string
  tg_requiredActions :: "string list"

text \<open>\<open>url.PathEscape\<close>.\<close>

definition upper_hex :: "nat \<Rightarrow> char" where
  "upper_hex d = char_of (if d < 10 then 48 + d else 55 + d)"

definition path_unreserved :: "char \<Rightarrow> bool" where
  "path_unreserved c \<longleftrightarrow> is_lower c \<or> is_upper c \<or> is_digit c \<or> c \<in> set ''-_.~$&+:=@''"

definition PathEscape :: "string \<Rightarrow> string" where
  "PathEscape s = concat (map (\<lambda>c. if path_unreserved c then [c]
     else [CHR ''%'', upper_hex (code c div 16), upper_hex (code c mod 16)]) s)"

definition permissionsURL :: "string \<Rightarrow> string \<Rightarrow> permissionTarget \<Rightarrow> string" where
  "permissionsURL endpoint subscriptionID target =
     TrimRight endpoint ''/'' @ ''/subscriptions/'' @ PathEscape subscriptionID @ ''/resourceGroups/'' @
     PathEscape (tg_resourceGroup target) @ ''/providers/'' @ PathEscape (tg_provider target) @ ''/'' @
     PathEscape (tg_resourceType target) @ ''/'' @ PathEscape (tg_name target) @
     ''/providers/Microsoft.Authorization/permissions?api-version=2022-04-01''"

definition azureResourceScope :: "string \<Rightarrow> permissionTarget \<Rightarrow> string" where
  "azureResourceScope subscriptionID target =
     ''/subscriptions/'' @ subscriptionID @ ''/resourceGroups/'' @ tg_resourceGroup target @ ''/providers/'' @
     tg_provider target @ ''/'' @ tg_resourceType target @ ''/'' @ tg_name target"

text \<open>
  The answer to one request: no request can be made of the link, the call fails, the status is not a
  success (with the status text and the body), the body does not decode, or it is a page with the next link.
\<close>

datatype page_answer =
  BadLink string | PageCallFailed string | PageStatus string string | PageUndecodable string
| Page "permissionBlock list" string

text \<open>\<open>svc n link\<close> is the answer to the \<open>n\<close>th request.\<close>

partial_function (option) list_pages ::
  "string \<Rightarrow> (nat \<Rightarrow> string \<Rightarrow> page_answer) \<Rightarrow> nat \<Rightarrow> string \<Rightarrow> permissionBlock list \<Rightarrow> (string + permissionBlock list) option" where
  "list_pages name svc n nextLink permissions =
     (if nextLink = [] then Some (Inr permissions)
      else case svc n nextLink of
        BadLink e \<Rightarrow> Some (Inl (''create effective permissions request for '' @ name @ '': '' @ e))
      | PageCallFailed e \<Rightarrow> Some (Inl (''get effective permissions for '' @ name @ '': '' @ e))
      | PageStatus status body \<Rightarrow>
          Some (Inl (''get effective permissions for '' @ name @ '': Azure returned '' @ status @ '': '' @ TrimSpace body))
      | PageUndecodable e \<Rightarrow> Some (Inl (''decode effective permissions for '' @ name @ '': '' @ e))
      | Page blocks link \<Rightarrow> list_pages name svc (n + 1) link (permissions @ blocks))"

declare list_pages.simps [code]

record PermissionService =
  ps_token :: "string + string"
  ps_answer :: "nat \<Rightarrow> string \<Rightarrow> page_answer"

definition listPermissions :: "PermissionService \<Rightarrow> string \<Rightarrow> string \<Rightarrow> permissionTarget \<Rightarrow> (string + permissionBlock list) option" where
  "listPermissions svc endpoint subscriptionID target =
     (case ps_token svc of
        Inl e \<Rightarrow> Some (Inl (''authenticate with DefaultAzureCredential: '' @ e))
      | Inr token \<Rightarrow> list_pages (tg_name target) (ps_answer svc) 0 (permissionsURL endpoint subscriptionID target) [])"

section \<open>The check\<close>

record PermissionTargetResult =
  pt_Name :: string
  pt_ResourceGroup :: string
  pt_Scope :: string
  pt_Granted :: bool
  pt_RequiredActions :: "string list"
  pt_MissingActions :: "string list"
  pt_Error :: string

record PermissionGroupResult =
  pg_Configured :: bool
  pg_Targets :: "PermissionTargetResult list"

record PermissionCheckResult =
  pc_CheckedAt :: time
  pc_Credential :: string
  pc_DNS :: PermissionGroupResult
  pc_Network :: PermissionGroupResult

definition checkPermissionTarget :: "PermissionService \<Rightarrow> string \<Rightarrow> string \<Rightarrow> permissionTarget \<Rightarrow> PermissionTargetResult option" where
  "checkPermissionTarget svc endpoint subscriptionID target =
     map_option (\<lambda>listed.
       let result = \<lparr>pt_Name = tg_name target, pt_ResourceGroup = tg_resourceGroup target,
             pt_Scope = azureResourceScope subscriptionID target, pt_Granted = False,
             pt_RequiredActions = tg_requiredActions target, pt_MissingActions = [], pt_Error = []\<rparr>
       in case listed of
            Inl e \<Rightarrow> result\<lparr>pt_Error := e\<rparr>
          | Inr permissions \<Rightarrow>
              (let missing = missingActions (tg_requiredActions target) permissions in
               result\<lparr>pt_MissingActions := missing, pt_Granted := missing = []\<rparr>))
     (listPermissions svc endpoint subscriptionID target)"

fun check_targets :: "(permissionTarget \<Rightarrow> PermissionService) \<Rightarrow> string \<Rightarrow> string \<Rightarrow> permissionTarget list \<Rightarrow> PermissionTargetResult list option" where
  "check_targets svc endpoint subscriptionID [] = Some []"
| "check_targets svc endpoint subscriptionID (t # ts) =
     (case checkPermissionTarget (svc t) endpoint subscriptionID t of
        None \<Rightarrow> None
      | Some r \<Rightarrow> map_option ((#) r) (check_targets svc endpoint subscriptionID ts))"

definition dns_target :: "AzureDNSZoneConfig \<Rightarrow> permissionTarget" where
  "dns_target zone = \<lparr>tg_name = zn_Name zone, tg_resourceGroup = zn_ResourceGroup zone, tg_provider = ''Microsoft.Network'',
     tg_resourceType = ''dnsZones'', tg_requiredActions = dnsRequiredActions\<rparr>"

definition network_target :: "string \<Rightarrow> string \<Rightarrow> permissionTarget" where
  "network_target name resourceGroup = \<lparr>tg_name = name, tg_resourceGroup = resourceGroup, tg_provider = ''Microsoft.Network'',
     tg_resourceType = ''networkSecurityGroups'', tg_requiredActions = networkRequiredActions\<rparr>"

text \<open>\<open>Check\<close>: the result is there beside the error, as in the code; \<open>None\<close> is a check that does not return.\<close>

definition PermissionCheck :: "(permissionTarget \<Rightarrow> PermissionService) \<Rightarrow> string \<Rightarrow> time \<Rightarrow> AzureConfig \<Rightarrow>
    (PermissionCheckResult \<times> string option) option" where
  "PermissionCheck svc endpoint now cfg =
     (let dns = az_Enabled cfg \<and> az_ManageDNS cfg; network = az_Enabled cfg \<and> az_ManageNSG cfg;
          result = \<lparr>pc_CheckedAt = now, pc_Credential = ''DefaultAzureCredential'',
            pc_DNS = \<lparr>pg_Configured = dns, pg_Targets = []\<rparr>, pc_Network = \<lparr>pg_Configured = network, pg_Targets = []\<rparr>\<rparr>;
          subscriptionID = TrimSpace (az_SubscriptionID cfg); zones = configuredDNSZones cfg
      in if \<not> dns \<and> \<not> network then Some (result, None)
         else if subscriptionID = [] then Some (result, Some ''azure subscriptionId is required to check permissions'')
         else if dns \<and> zones = []
         then Some (result, Some ''at least one DNS zone with a resource group is required to check DNS permissions'')
         else
           (case (if dns then check_targets svc endpoint subscriptionID (map dns_target zones) else Some []) of
              None \<Rightarrow> None
            | Some dnsTargets \<Rightarrow>
                (let result1 = result\<lparr>pc_DNS := (pc_DNS result)\<lparr>pg_Targets := dnsTargets\<rparr>\<rparr>;
                     resourceGroup = nsgResourceGroup cfg; name = TrimSpace (az_NetworkSecurityGroupName cfg)
                 in if \<not> network then Some (result1, None)
                    else if resourceGroup = [] \<or> name = []
                    then Some (result1, Some ''Azure networkSecurityGroupResourceGroup and networkSecurityGroupName are required to check network permissions'')
                    else map_option (\<lambda>targets. (result1\<lparr>pc_Network := (pc_Network result1)\<lparr>pg_Targets := targets\<rparr>\<rparr>, None))
                           (check_targets svc endpoint subscriptionID [network_target name resourceGroup]))))"

section \<open>Status\<close>

record AzureStatus =
  as_Enabled :: bool
  as_Configured :: bool
  as_ManageDNS :: bool
  as_ManageNSG :: bool
  as_Mode :: string
  as_Capabilities :: "string list"
  as_MissingSettings :: "string list"
  as_NextActions :: "string list"
  as_Warnings :: "string list"

definition missing_settings :: "AzureConfig \<Rightarrow> string list" where
  "missing_settings cfg =
     (if az_Enabled cfg \<and> az_SubscriptionID cfg = [] then [''subscriptionId''] else []) @
     (if az_Enabled cfg \<and> az_ManageDNS cfg \<and> configuredDNSZones cfg = [] then [''dnsZones''] else []) @
     (if az_Enabled cfg \<and> az_ManageDNS cfg \<and> az_PublicIPAddress cfg = [] then [''publicIpAddress''] else []) @
     (if az_Enabled cfg \<and> az_ManageNSG cfg \<and> az_NetworkSecurityGroupName cfg = [] then [''networkSecurityGroupName''] else []) @
     (if az_Enabled cfg \<and> az_ManageNSG cfg \<and> nsgResourceGroup cfg = [] then [''networkSecurityGroupResourceGroup''] else [])"

definition StatusForConfig :: "AppConfig \<Rightarrow> AzureStatus" where
  "StatusForConfig cfg =
     (let azure = ap_Azure cfg; missing = missing_settings azure; configured = az_Enabled azure \<and> missing = [] in
      \<lparr>as_Enabled = az_Enabled azure, as_Configured = configured, as_ManageDNS = az_ManageDNS azure,
       as_ManageNSG = az_ManageNSG azure, as_Mode = ap_DeploymentMode cfg,
       as_Capabilities = [''DefaultAzureCredential'', ''Azure DNS A record reconciliation'',
         ''VM NSG listener-port reconciliation'', ''NSG priority and source-prefix policy''],
       as_MissingSettings = missing,
       as_NextActions =
         (if \<not> az_Enabled azure then [''Enable Azure integration'', ''Assign the required managed identity roles'']
          else if \<not> configured
          then [''Set the missing Azure settings, including DNS zones and the ingress public IP'', ''Assign the required managed identity roles'']
          else [''Run Apply to reconcile the enabled Azure resources'']),
       as_Warnings = (if \<not> az_Enabled azure then [''Azure managers are disabled''] else [])\<rparr>)"

section \<open>The identity of the instance\<close>

text \<open>
  The file \<open>azure-instance-id\<close>: missing, unreadable, or its text. \<open>id_prepare\<close> is the outcome of everything
  up to the link: the error of a step, or the random bytes whose hexadecimal digits the temporary file holds. \<open>id_link\<close> is the error of the link when the
  file is still missing; another process may have made it in the meantime: \<open>id_other\<close> is its text.
\<close>

datatype id_file = NoIdentity | IdentityError string | IdentityText string

record IdentityEnv =
  id_prepare :: "string + string"
  id_link :: "string option"
  id_other :: "string option"
  id_reread :: "string option"

definition hex_EncodeToString :: "string \<Rightarrow> string" where
  "hex_EncodeToString bs = concat (map (\<lambda>c. [hex_digit (code c div 16), hex_digit (code c mod 16)]) bs)"

definition hex_byte :: "char \<Rightarrow> bool" where
  "hex_byte c \<longleftrightarrow> is_digit c \<or> c \<in> set ''abcdefABCDEF''"

definition identifier_of :: "string \<Rightarrow> string \<Rightarrow> string + string" where
  "identifier_of path text =
     (let identifier = TrimSpace text in
      if list_all hex_byte identifier \<and> length identifier = 2 * 16 then Inr identifier
      else Inl (''invalid Azure instance identity in '' @ path))"

text \<open>\<open>os.Link\<close> creates the file only when it is not there; an existing one is left as it is.\<close>

definition loadInstanceID :: "IdentityEnv \<Rightarrow> string \<Rightarrow> id_file \<Rightarrow> (string + string) \<times> id_file" where
  "loadInstanceID env directory f =
     (if directory = [] then (Inl ''state directory is required for Azure resource ownership'', f)
      else
       (let path = path_Join [directory, ''azure-instance-id''] in
        case f of
          IdentityError e \<Rightarrow> (Inl e, f)
        | IdentityText text \<Rightarrow> (identifier_of path text, f)
        | NoIdentity \<Rightarrow>
            (case id_prepare env of
               Inl e \<Rightarrow> (Inl e, f)
             | Inr random \<Rightarrow>
                 (let temporary = hex_EncodeToString random @ [newline];
                      present = (case id_other env of Some text \<Rightarrow> IdentityText text | None \<Rightarrow> NoIdentity);
                      linked = (if present \<noteq> NoIdentity then Inr present
                                else case id_link env of Some e \<Rightarrow> Inl e | None \<Rightarrow> Inr (IdentityText temporary))
                  in case linked of
                       Inl e \<Rightarrow> (Inl e, present)
                     | Inr f1 \<Rightarrow>
                         (case id_reread env of
                            Some e \<Rightarrow> (Inl e, f1)
                          | None \<Rightarrow> (case f1 of IdentityText text \<Rightarrow> (identifier_of path text, f1) | _ \<Rightarrow> (Inl path, f1)))))))"

section \<open>What a pattern matches\<close>

text \<open>The text a pattern stands for when its stars are replaced, from left to right, by the given texts.\<close>

fun expand :: "string \<Rightarrow> string list \<Rightarrow> string option" where
  "expand [] [] = Some []"
| "expand [] (g # gs) = None"
| "expand (c # p) gaps =
     (if c = CHR ''*'' then (case gaps of [] \<Rightarrow> None | g # gs \<Rightarrow> map_option ((@) g) (expand p gs))
      else map_option ((#) c) (expand p gaps))"

lemma glob_expand: "glob p s \<longleftrightarrow> (\<exists>gaps. expand p gaps = Some s \<and> (\<forall>g \<in> set gaps. newline \<notin> set g))"
proof (induction p s rule: glob.induct)
  case (1 s)
  have "expand [] gaps = Some s \<longleftrightarrow> gaps = [] \<and> s = []" for gaps by (cases gaps) auto
  then show ?case by auto
next
  case (2 c p s)
  have ex: "expand (c # p) gaps = map_option ((#) c) (expand p gaps)" for gaps using 2(1) by simp
  show ?case
  proof (cases s)
    case Nil
    then show ?thesis using 2(1) by (simp add: ex)
  next
    case (Cons d s')
    have IH: "glob p s' \<longleftrightarrow> (\<exists>gaps. expand p gaps = Some s' \<and> (\<forall>g \<in> set gaps. newline \<notin> set g))" by (rule 2(2) [OF Cons])
    have l: "glob (c # p) s \<longleftrightarrow> c = d \<and> glob p s'" using 2(1) Cons by simp
    have r: "expand (c # p) gaps = Some s \<longleftrightarrow> c = d \<and> expand p gaps = Some s'" for gaps
      using Cons 2(1) by (cases "expand p gaps") auto
    show ?thesis unfolding l r IH by blast
  qed
next
  case (3 p s)
  show ?case
  proof
    assume "glob (CHR ''*'' # p) s"
    then consider "glob p s" | d s' where "s = d # s'" "d \<noteq> newline" "glob (CHR ''*'' # p) s'"
      unfolding glob_star [of p s] by (auto split: list.splits)
    then show "\<exists>gaps. expand (CHR ''*'' # p) gaps = Some s \<and> (\<forall>g \<in> set gaps. newline \<notin> set g)"
    proof cases
      case 1
      then obtain gaps where "expand p gaps = Some s" "\<forall>g \<in> set gaps. newline \<notin> set g" using 3(1) by blast
      then show ?thesis by (intro exI [of _ "[] # gaps"]) simp
    next
      case 2
      then obtain gaps where g: "expand (CHR ''*'' # p) gaps = Some s'" "\<forall>g \<in> set gaps. newline \<notin> set g"
        using 3(2) by blast
      then obtain g gs where "gaps = g # gs" by (cases gaps) auto
      then show ?thesis using g 2 by (intro exI [of _ "(d # g) # gs"]) auto
    qed
  next
    assume "\<exists>gaps. expand (CHR ''*'' # p) gaps = Some s \<and> (\<forall>g \<in> set gaps. newline \<notin> set g)"
    then obtain gaps where gaps: "expand (CHR ''*'' # p) gaps = Some s" "\<forall>g \<in> set gaps. newline \<notin> set g" by blast
    then obtain g gs where "gaps = g # gs" by (cases gaps) auto
    with gaps obtain t where g: "expand p gs = Some t" "s = g @ t" "newline \<notin> set g" "\<forall>g \<in> set gs. newline \<notin> set g"
      by auto
    show "glob (CHR ''*'' # p) s"
    proof (cases g)
      case Nil
      then show ?thesis unfolding glob_star [of p s] using g 3(1) by auto
    next
      case (Cons d g')
      then have "expand (CHR ''*'' # p) (g' # gs) = Some (g' @ t)" using g by simp
      moreover have "\<forall>x \<in> set (g' # gs). newline \<notin> set x" using g Cons by simp
      ultimately have "\<exists>gaps. expand (CHR ''*'' # p) gaps = Some (g' @ t) \<and> (\<forall>x \<in> set gaps. newline \<notin> set x)" by blast
      moreover have "s = d # (g' @ t)" "d \<noteq> newline" using g Cons by auto
      ultimately have "glob (CHR ''*'' # p) (g' @ t)" using 3(2) by blast
      then show ?thesis unfolding glob_star [of p s] using \<open>s = d # (g' @ t)\<close> \<open>d \<noteq> newline\<close> by simp
    qed
  qed
qed

lemma expand_no_star: "CHR ''*'' \<notin> set p \<Longrightarrow> expand p gaps = Some s \<longleftrightarrow> gaps = [] \<and> s = p"
proof (induction p arbitrary: s)
  case Nil
  show ?case by (cases gaps) auto
qed auto

definition covers_action :: "string \<Rightarrow> string \<Rightarrow> bool" where
  "covers_action pattern action \<longleftrightarrow>
     (\<exists>gaps. expand (ToLower (TrimSpace pattern)) gaps = Some (ToLower (TrimSpace action)) \<and> (\<forall>g \<in> set gaps. newline \<notin> set g))"

lemma azureActionMatches_covers: "azureActionMatches pattern action \<longleftrightarrow> covers_action pattern action"
  unfolding azureActionMatches_def covers_action_def by (rule glob_expand)

text \<open>
  C36: the permissions on a target are reported as granted exactly when they could be listed and every
  required action is in a block with a pattern that stands for it and no exclusion that stands for it; a
  star stands for any text within a line, and case does not matter.
\<close>

theorem granted_permissions_cover_the_actions:
  "(\<exists>r. checkPermissionTarget svc ep subscriptionID target = Some r \<and> pt_Granted r) \<longleftrightarrow>
   (\<exists>blocks. listPermissions svc ep subscriptionID target = Some (Inr blocks) \<and>
      (\<forall>action \<in> set (tg_requiredActions target). \<exists>b \<in> set blocks.
         (\<exists>p \<in> set (pb_actions b). covers_action p action) \<and> \<not> (\<exists>p \<in> set (pb_notActions b). covers_action p action)))"
proof -
  have "missingActions required blocks = [] \<longleftrightarrow> (\<forall>action \<in> set required. \<exists>b \<in> set blocks.
      (\<exists>p \<in> set (pb_actions b). covers_action p action) \<and> \<not> (\<exists>p \<in> set (pb_notActions b). covers_action p action))" for required blocks
    by (simp add: missingActions_def filter_empty_conv actionAllowed_def matchesAnyAction_def list_ex_iff azureActionMatches_covers)
  then show ?thesis
    by (cases "listPermissions svc ep subscriptionID target")
      (auto simp: checkPermissionTarget_def Let_def split: sum.splits)
qed

definition page_service :: PermissionService where
  "page_service = \<lparr>ps_token = Inr ''token'', ps_answer = (\<lambda>n link.
     if n = 0 then Page [\<lparr>pb_actions = [''*/read''], pb_notActions = []\<rparr>] ''next''
     else Page [\<lparr>pb_actions = ['' MICROSOFT.network/* ''], pb_notActions = [''*/delete'']\<rparr>] [])\<rparr>"

theorem granted_permissions_cover_the_actions_witness:
  "\<not> (\<exists>r. checkPermissionTarget page_service azureManagementEndpoint ''sub'' (network_target ''nsg'' ''rg'') = Some r \<and> pt_Granted r) \<and>
   map_option pt_MissingActions (checkPermissionTarget page_service azureManagementEndpoint ''sub'' (network_target ''nsg'' ''rg'')) =
     Some [''Microsoft.Network/networkSecurityGroups/securityRules/delete'']"
proof -
  let ?a = "''Microsoft.Network/networkSecurityGroups/securityRules/delete''"
  let ?blocks = "[\<lparr>pb_actions = [''*/read''], pb_notActions = []\<rparr>, \<lparr>pb_actions = ['' MICROSOFT.network/* ''], pb_notActions = [''*/delete'']\<rparr>]"
  have "azureActionMatches ''*/delete'' ?a" "\<not> azureActionMatches ''*/read'' ?a" by code_simp+
  then have "covers_action ''*/delete'' ?a" "\<not> covers_action ''*/read'' ?a" by (simp_all add: azureActionMatches_covers)
  moreover have l: "listPermissions page_service azureManagementEndpoint ''sub'' (network_target ''nsg'' ''rg'') = Some (Inr ?blocks)"
  proof -
    have "permissionsURL azureManagementEndpoint ''sub'' (network_target ''nsg'' ''rg'') \<noteq> []" by (simp add: permissionsURL_def)
    then show ?thesis
      by (simp add: listPermissions_def page_service_def list_pages.simps)
  qed
  moreover have "?a \<in> set (tg_requiredActions (network_target ''nsg'' ''rg''))"
    by (simp add: network_target_def networkRequiredActions_def)
  ultimately have "\<not> (\<exists>r. checkPermissionTarget page_service azureManagementEndpoint ''sub'' (network_target ''nsg'' ''rg'') = Some r \<and> pt_Granted r)"
    unfolding granted_permissions_cover_the_actions by auto
  moreover have "missingActions networkRequiredActions ?blocks = [?a]" by code_simp
  then have "map_option pt_MissingActions (checkPermissionTarget page_service azureManagementEndpoint ''sub'' (network_target ''nsg'' ''rg'')) = Some [?a]"
    by (simp add: checkPermissionTarget_def l Let_def) (simp add: network_target_def)
  ultimately show ?thesis by blast
qed

section \<open>Paging\<close>

text \<open>A listing ends when the service gives a page without a next link, or an error, after some pages.\<close>

lemma list_pages_returns:
  assumes "\<And>link blocks link2. svc (n + k) link = Page blocks link2 \<Longrightarrow> link2 = []"
  shows "\<exists>r. list_pages name svc n link acc = Some r"
  using assms
proof (induction k arbitrary: n link acc)
  case 0
  have "\<exists>r. list_pages name svc m [] a = Some r" for m a by (simp add: list_pages.simps)
  moreover have "link2 = []" if "svc n link = Page blocks link2" for blocks link2 using 0 that by simp
  ultimately show ?case by (subst list_pages.simps) (auto split: page_answer.split)
next
  case (Suc k)
  have "\<exists>r. list_pages name svc (n + 1) link2 a = Some r" for link2 a
    using Suc.prems by (intro Suc.IH) simp
  then show ?case by (subst list_pages.simps) (auto split: page_answer.split)
qed

text \<open>
  Nothing else ends it: with a page that links to itself the loop goes on for as long as the request to the
  gateway is open.
\<close>

theorem listing_follows_links_forever:
  assumes "link \<noteq> []" "\<And>n. svc n link = Page blocks link"
  shows "list_pages name svc n link acc = None"
proof -
  have "\<not> (svc = svc \<and> link = link)" if "list_pages name svc n link acc = Some r" for r
    using that
  proof (rule list_pages.raw_induct [where P = "\<lambda>name' svc' n' link' acc' r'. \<not> (svc' = svc \<and> link' = link)", rotated])
    fix lp name' svc' n' link' acc' r'
    assume IH: "\<And>name' svc' n' link' acc' r'. lp name' svc' n' link' acc' = Some r' \<Longrightarrow> \<not> (svc' = svc \<and> link' = link)"
      and step: "(if link' = [] then Some (Inr acc') else case svc' n' link' of
        BadLink e \<Rightarrow> Some (Inl (''create effective permissions request for '' @ name' @ '': '' @ e))
      | PageCallFailed e \<Rightarrow> Some (Inl (''get effective permissions for '' @ name' @ '': '' @ e))
      | PageStatus status body \<Rightarrow>
          Some (Inl (''get effective permissions for '' @ name' @ '': Azure returned '' @ status @ '': '' @ TrimSpace body))
      | PageUndecodable e \<Rightarrow> Some (Inl (''decode effective permissions for '' @ name' @ '': '' @ e))
      | Page blocks link \<Rightarrow> lp name' svc' (n' + 1) link (acc' @ blocks)) = Some r'"
    show "\<not> (svc' = svc \<and> link' = link)"
    proof
      assume "svc' = svc \<and> link' = link"
      then have "lp name' svc (n' + 1) link (acc' @ blocks) = Some r'" using step assms by simp
      then show False using IH by blast
    qed
  qed
  then show ?thesis by (cases "list_pages name svc n link acc") auto
qed

section \<open>The identity stays\<close>

text \<open>
  Once the identity of the instance has been read, its file holds it, and every later load gives the same
  identity, whatever another process does with the link and whatever fails; it has 32 hexadecimal digits.
\<close>

theorem instance_identity_is_stable:
  assumes "loadInstanceID env directory f = (Inr identifier, f')"
  shows "list_all hex_byte identifier \<and> length identifier = 32 \<and>
    (f \<noteq> NoIdentity \<longrightarrow> f' = f) \<and> loadInstanceID env' directory f' = (Inr identifier, f')"
proof -
  have d: "directory \<noteq> []" using assms by (auto simp: loadInstanceID_def)
  obtain body where t: "f' = IdentityText body" "identifier_of (path_Join [directory, ''azure-instance-id'']) body = Inr identifier"
      "f \<noteq> NoIdentity \<longrightarrow> f' = f"
    using assms d by (cases f) (auto simp: loadInstanceID_def Let_def split: sum.splits option.splits if_splits id_file.splits)
  then show ?thesis using d by (auto simp: loadInstanceID_def identifier_of_def Let_def split: if_splits)
qed

theorem instance_identity_is_stable_witness:
  "loadInstanceID \<lparr>id_prepare = Inl ''disk full'', id_link = None, id_other = None, id_reread = None\<rparr> ''state''
     (IdentityText (''0123456789abcdef0123456789ABCDEF'' @ [newline])) =
   (Inr ''0123456789abcdef0123456789ABCDEF'', IdentityText (''0123456789abcdef0123456789ABCDEF'' @ [newline]))"
proof -
  let ?t = "''0123456789abcdef0123456789ABCDEF'' @ [newline]"
  have "loadInstanceID \<lparr>id_prepare = Inr ''sixteen bytes...'', id_link = None, id_other = Some ?t, id_reread = None\<rparr>
      ''state'' NoIdentity = (Inr ''0123456789abcdef0123456789ABCDEF'', IdentityText ?t)" by code_simp
  from instance_identity_is_stable [OF this] show ?thesis by blast
qed

end
