(* ===== verification/ApiDiscovery.thy ===== *)
theory ApiDiscovery
  imports DockerDiscovery
begin

text \<open>
  Binding a container as an upstream: the helpers of \<open>backend/internal/api/server.go\<close> that choose the
  container, the port and the address and that decide whether the gateway can reach it.
\<close>

section \<open>Definitions\<close>

definition findContainer :: "ContainerService list \<Rightarrow> string \<Rightarrow> ContainerService option" where
  "findContainer containers i0 =
     (let i = TrimSpace i0 in find (\<lambda>c. cs_ID c = i \<or> HasPrefix (cs_ID c) i \<or> cs_Name c = i) containers)"

definition withoutGatewayContainer :: "string option \<Rightarrow> ContainerService list \<Rightarrow> RouteConfig list \<Rightarrow> ContainerService list \<times> RouteConfig list" where
  "withoutGatewayContainer hostname containers routeHints =
     (case GatewayContainer hostname containers of
        None \<Rightarrow> (containers, routeHints)
      | Some gateway \<Rightarrow>
          (filter (\<lambda>c. cs_ID c \<noteq> cs_ID gateway) containers,
           filter (\<lambda>r. rc_ID r \<noteq> ''docker-'' @ shortID (cs_ID gateway)) routeHints))"

definition normalizeUpstreamScheme :: "string \<Rightarrow> string + string" where
  "normalizeUpstreamScheme text =
     (let scheme = ToLower (TrimSpace text) in
      if scheme = [] then Inr ''http''
      else if scheme \<noteq> ''http'' \<and> scheme \<noteq> ''https'' then Inl ''upstream scheme must be http or https''
      else Inr scheme)"

definition bindPort :: "ContainerService \<Rightarrow> int \<Rightarrow> string + int" where
  "bindPort container requested =
     (if requested > 0 then
        (if list_ex (\<lambda>p. cp_PrivatePort p = requested \<and> EqualFold (cp_Type p) ''tcp'') (cs_Ports container) then Inr requested
         else Inl (''container '' @ cs_Name container @ '' does not expose tcp port '' @ Itoa requested))
      else case find (\<lambda>p. cp_PrivatePort p > 0 \<and> EqualFold (cp_Type p) ''tcp'') (cs_Ports container) of
        Some p \<Rightarrow> Inr (cp_PrivatePort p)
      | None \<Rightarrow> Inl (''container '' @ cs_Name container @ '' has no tcp ports to bind''))"

text \<open>The loop of \<open>slug\<close>: the rest of the output, given whether the last byte was a dash.\<close>

fun slug_loop :: "bool \<Rightarrow> string \<Rightarrow> string" where
  "slug_loop lastDash [] = []"
| "slug_loop lastDash (c # cs) =
     (if is_lower c \<or> is_digit c then c # slug_loop False cs
      else if c = CHR ''.'' \<or> c = CHR ''-'' then
        (if lastDash then slug_loop lastDash cs else c # slug_loop (c = CHR ''-'') cs)
      else if lastDash then slug_loop lastDash cs else CHR ''-'' # slug_loop True cs)"

definition slug :: "string \<Rightarrow> string" where
  "slug text = (let s = Trim (slug_loop False (ToLower text)) ''-.'' in if s = [] then ''service'' else s)"

definition defaultBindHost :: "ContainerService \<Rightarrow> string" where
  "defaultBindHost container =
     (let host = TrimSpace (label (cs_Labels container) ''caddy.host'') in
      if host \<noteq> [] then ToLower host else slug (cs_Name container) @ ''.localhost'')"

definition bindUpstreamName :: "ContainerService \<Rightarrow> string list \<Rightarrow> string" where
  "bindUpstreamName container gatewayNetworks =
     (let sharedAddress = SharedNetworkAddress container gatewayNetworks;
          name = TrimSpace (label (cs_Labels container) ''com.docker.compose.service'')
      in if sharedAddress \<noteq> [] then sharedAddress
         else case cs_NetworkAddresses container of
           a # _ \<Rightarrow> a
         | [] \<Rightarrow> (if name \<noteq> [] then name else cs_Name container))"

definition gatewayContainerNetworks :: "string option \<Rightarrow> ContainerService list \<Rightarrow> string list" where
  "gatewayContainerNetworks hostname containers =
     (case GatewayContainer hostname containers of None \<Rightarrow> [] | Some gateway \<Rightarrow> cs_Networks gateway)"

definition hasNetwork :: "string list \<Rightarrow> string \<Rightarrow> bool" where
  "hasNetwork networks target = list_ex (\<lambda>n. EqualFold n target) networks"

definition publishedTCPPort :: "ContainerService \<Rightarrow> int \<Rightarrow> int" where
  "publishedTCPPort container privatePort =
     (case find (\<lambda>p. EqualFold (cp_Type p) ''tcp'' \<and> cp_PublicPort p \<noteq> 0 \<and> (privatePort = 0 \<or> cp_PrivatePort p = privatePort))
             (cs_Ports container) of
        Some p \<Rightarrow> cp_PublicPort p | None \<Rightarrow> 0)"

definition containerBindPolicy :: "ContainerService \<Rightarrow> string list \<Rightarrow> int \<Rightarrow> ContainerBindPolicy" where
  "containerBindPolicy container gatewayNetworks port =
     (let policy = \<lparr>cb_CanBind = True, cb_Mode = ''unknown'', cb_SharedNetworks = [], cb_GatewayNetworks = gatewayNetworks,
            cb_SuggestedUpstream = []\<rparr>;
          shared = SharedNetworks (cs_Networks container) gatewayNetworks;
          blocked = policy\<lparr>cb_SharedNetworks := shared, cb_CanBind := False\<rparr>;
          publishedPort = publishedTCPPort container port
      in if gatewayNetworks = [] then policy
         else if shared \<noteq> [] then policy\<lparr>cb_SharedNetworks := shared, cb_Mode := ''shared-network''\<rparr>
         else if hasNetwork (cs_Networks container) ''host''
         then blocked\<lparr>cb_Mode := ''host-network'', cb_SuggestedUpstream := ''http://host.docker.internal:'' @ Itoa port\<rparr>
         else if publishedPort > 0
         then blocked\<lparr>cb_Mode := ''published-port'', cb_SuggestedUpstream := ''http://host.docker.internal:'' @ Itoa publishedPort\<rparr>
         else if hasNetwork (cs_Networks container) ''bridge'' then blocked\<lparr>cb_Mode := ''bridge-unreachable''\<rparr>
         else blocked\<lparr>cb_Mode := ''network-unreachable''\<rparr>)"

definition bindPolicyError :: "ContainerService \<Rightarrow> ContainerBindPolicy \<Rightarrow> int \<Rightarrow> string" where
  "bindPolicyError container policy port =
     (let joined = Join (cb_GatewayNetworks policy) '', ''; name = cs_Name container; m = cb_Mode policy in
      if m = ''host-network'' then
        ''container '' @ name @ '' uses Docker host networking; add an explicit route to '' @ cb_SuggestedUpstream policy @
        '', or use http://127.0.0.1:'' @ Itoa port @ '' only when the gateway itself runs in host mode''
      else if m = ''published-port'' then
        ''container '' @ name @ '' does not share a network with the gateway; add an explicit route to '' @
        cb_SuggestedUpstream policy @ '' or attach the container to one of the gateway networks: '' @ joined
      else if m = ''bridge-unreachable'' then
        ''container '' @ name @ '' is only on Docker bridge and does not share a network with the gateway; attach it to one of the gateway networks: '' @ joined
      else if m = ''network-unreachable'' then
        ''container '' @ name @ '' does not share a network with the gateway; attach it to one of the gateway networks: '' @ joined
      else ''container '' @ name @ '' is not directly reachable from the gateway'')"

definition normalizeExposure :: "string \<Rightarrow> string" where
  "normalizeExposure text =
     (let v = ToLower (TrimSpace text) in if v = ''internal'' \<or> v = ''protected'' then v else ''public'')"

record bindContainerRequest =
  bc_ContainerID :: string
  bc_Host :: string
  bc_Port :: int
  bc_Scheme :: string
  bc_Exposure :: string
  bc_HTTPS :: bool
  bc_WebSocket :: bool

text \<open>The route that a bind adds, from the checks passed; the tests of the handler in their order.\<close>

definition bind_route :: "bindContainerRequest \<Rightarrow> ContainerService \<Rightarrow> string list \<Rightarrow> int \<Rightarrow> string \<Rightarrow> RouteConfig" where
  "bind_route request container gatewayNetworks port scheme =
     (let host0 = ToLower (TrimSpace (bc_Host request));
          host = (if host0 = [] then defaultBindHost container else host0);
          upstreamName = bindUpstreamName container gatewayNetworks
      in zero_route\<lparr>rc_ID := ''bind-'' @ shortID (cs_ID container) @ ''-'' @ Itoa port @ ''-'' @ slug host, rc_Host := host,
           rc_Exposure := normalizeExposure (bc_Exposure request), rc_Enabled := True, rc_HTTPS := bc_HTTPS request,
           rc_WebSocket := bc_WebSocket request, rc_Source := ''explicit'',
           rc_Upstreams := [\<lparr>up_Name = upstreamName, up_URL = scheme @ ''://'' @ upstreamName @ '':'' @ Itoa port, up_HealthPath = []\<rparr>]\<rparr>)"

text \<open>The checks of \<open>handleBindContainer\<close> after the discovery: the status and message, or what to bind.\<close>

definition plan_bind :: "string option \<Rightarrow> bindContainerRequest \<Rightarrow> ContainerService list \<Rightarrow>
    (int \<times> string) + ContainerService \<times> int \<times> string \<times> RouteConfig" where
  "plan_bind hostname request containers =
     (let networks = gatewayContainerNetworks hostname containers in
      case findContainer containers (bc_ContainerID request) of
        None \<Rightarrow> Inl (404, ''container not found'')
      | Some container \<Rightarrow>
          (if map_option cs_ID (GatewayContainer hostname containers) = Some (cs_ID container)
           then Inl (400, ''the gateway container cannot be bound as an upstream'')
           else case bindPort container (bc_Port request) of
             Inl e \<Rightarrow> Inl (400, e)
           | Inr port \<Rightarrow>
               (case normalizeUpstreamScheme (bc_Scheme request) of
                  Inl e \<Rightarrow> Inl (400, e)
                | Inr scheme \<Rightarrow>
                    (let policy = containerBindPolicy container networks port in
                     if \<not> cb_CanBind policy then Inl (400, bindPolicyError container policy port)
                     else Inr (container, port, scheme, bind_route request container (cb_GatewayNetworks policy) port scheme)))))"

section \<open>What is bound\<close>

lemma slug_loop_chars: "c \<in> set (slug_loop d s) \<Longrightarrow> is_lower c \<or> is_digit c \<or> c = CHR ''-'' \<or> c = CHR ''.''"
  by (induction d s rule: slug_loop.induct) (auto split: if_splits)

lemma policy_shared:
  "cb_CanBind (containerBindPolicy container networks port) \<Longrightarrow> networks \<noteq> [] \<Longrightarrow>
   SharedNetworks (cs_Networks container) networks \<noteq> []"
  by (auto simp: containerBindPolicy_def Let_def split: if_splits)

lemma policy_networks: "cb_GatewayNetworks (containerBindPolicy container networks port) = networks"
  by (simp add: containerBindPolicy_def Let_def)

lemma bindPort_tcp:
  "bindPort container requested = Inr port \<Longrightarrow>
   port > 0 \<and> (\<exists>p \<in> set (cs_Ports container). cp_PrivatePort p = port \<and> EqualFold (cp_Type p) ''tcp'') \<and>
   (requested > 0 \<longrightarrow> port = requested)"
  by (auto simp: bindPort_def list_ex_iff find_Some_iff split: if_splits option.splits)

text \<open>
  A container that is bound is in the answer of the daemon and is not the gateway itself; when the
  gateway knows its own networks the container shares one of them, other than the host network and none; the
  port is one of its TCP ports, the one that was asked for if any, and the upstream is that port by HTTP or
  HTTPS.
\<close>

theorem bound_container_is_reachable:
  assumes "plan_bind hostname request containers = Inr (container, port, scheme, route)"
  shows "container \<in> set containers \<and>
    (\<forall>g. GatewayContainer hostname containers = Some g \<longrightarrow> cs_ID g \<noteq> cs_ID container) \<and>
    (gatewayContainerNetworks hostname containers \<noteq> [] \<longrightarrow>
       (\<exists>n. n \<in> set (cs_Networks container) \<and> n \<in> set (gatewayContainerNetworks hostname containers) \<and> n \<notin> {''host'', ''none''})) \<and>
    0 < port \<and> (\<exists>p \<in> set (cs_Ports container). cp_PrivatePort p = port \<and> EqualFold (cp_Type p) ''tcp'') \<and>
    (bc_Port request > 0 \<longrightarrow> port = bc_Port request) \<and> scheme \<in> {''http'', ''https''} \<and>
    rc_Exposure route \<in> {''public'', ''internal'', ''protected''} \<and>
    (\<exists>name. rc_Upstreams route = [\<lparr>up_Name = name, up_URL = scheme @ ''://'' @ name @ '':'' @ Itoa port, up_HealthPath = []\<rparr>])"
proof -
  let ?networks = "gatewayContainerNetworks hostname containers"
  have f: "findContainer containers (bc_ContainerID request) = Some container"
      "map_option cs_ID (GatewayContainer hostname containers) \<noteq> Some (cs_ID container)"
      "bindPort container (bc_Port request) = Inr port" "normalizeUpstreamScheme (bc_Scheme request) = Inr scheme"
      "cb_CanBind (containerBindPolicy container ?networks port)" "route = bind_route request container ?networks port scheme"
    using assms by (auto simp: plan_bind_def Let_def policy_networks split: option.splits sum.splits if_splits)
  have "container \<in> set containers" using f(1) by (auto simp: findContainer_def Let_def find_Some_iff)
  moreover have "\<exists>n. n \<in> set (cs_Networks container) \<and> n \<in> set ?networks \<and> n \<notin> {''host'', ''none''}" if "?networks \<noteq> []"
    using list.set_sel(1) [OF policy_shared [OF f(5) that]] by (auto simp: SharedNetworks_def)
  moreover have "scheme \<in> {''http'', ''https''}" using f(4) by (auto simp: normalizeUpstreamScheme_def Let_def split: if_splits)
  moreover have "rc_Exposure route \<in> {''public'', ''internal'', ''protected''}"
    by (auto simp: f(6) bind_route_def Let_def normalizeExposure_def)
  moreover have "\<exists>name. rc_Upstreams route = [\<lparr>up_Name = name, up_URL = scheme @ ''://'' @ name @ '':'' @ Itoa port, up_HealthPath = []\<rparr>]"
    by (simp add: f(6) bind_route_def Let_def)
  ultimately show ?thesis using bindPort_tcp [OF f(3)] f(2) by auto
qed

definition sample_container :: "string \<Rightarrow> string \<Rightarrow> string list \<Rightarrow> ContainerService" where
  "sample_container i name networks =
     \<lparr>cs_ID = i, cs_Name = name, cs_Image = [], cs_State = ''running'', cs_Status = [],
      cs_Ports = [\<lparr>cp_PrivatePort = 53, cp_PublicPort = 0, cp_Type = ''udp''\<rparr>, \<lparr>cp_PrivatePort = 8080, cp_PublicPort = 0, cp_Type = ''tcp''\<rparr>],
      cs_Labels = [], cs_Networks = networks, cs_NetworkEndpoints = map (\<lambda>n. \<lparr>ne_Name = n, ne_Address = ''172.18.0.5''\<rparr>) networks,
      cs_NetworkAddresses = [''172.18.0.5''], cs_BindPolicy = None, cs_RouteHint = None, cs_RouteWarning = []\<rparr>"

definition bind_request :: bindContainerRequest where
  "bind_request = \<lparr>bc_ContainerID = '' web '', bc_Host = ''Shop.example.com'', bc_Port = 0, bc_Scheme = [],
     bc_Exposure = ''Internal'', bc_HTTPS = True, bc_WebSocket = False\<rparr>"

theorem bound_container_is_reachable_witness:
  "\<exists>route. plan_bind (Some ''gw'') bind_request [sample_container ''gw1'' ''gateway'' [''edge''], sample_container ''aa01'' ''web'' [''edge'']] =
     Inr (sample_container ''aa01'' ''web'' [''edge''], 8080, ''http'', route) \<and>
     rc_Exposure route \<in> {''public'', ''internal'', ''protected''} \<and> rc_ID route = ''bind-aa01-8080-shop.example.com''"
proof -
  let ?route = "bind_route bind_request (sample_container ''aa01'' ''web'' [''edge'']) [''edge''] 8080 ''http''"
  have p: "plan_bind (Some ''gw'') bind_request [sample_container ''gw1'' ''gateway'' [''edge''], sample_container ''aa01'' ''web'' [''edge'']] =
     Inr (sample_container ''aa01'' ''web'' [''edge''], 8080, ''http'', ?route)" by code_simp
  have "rc_ID ?route = ''bind-aa01-8080-shop.example.com''" by code_simp
  then show ?thesis using bound_container_is_reachable [OF p] p by blast
qed

end
