(* ===== verification/ApiModel.thy ===== *)
theory ApiModel
  imports ApiDiscovery ConfigBundle AuditLog AzurePermissions CertificatePolicy AdminAuth GatewaySystem
begin

text \<open>
  The management API, \<open>backend/internal/api/server.go\<close>: the state of the server, its requests and responses,
  and the way a handler runs a sync of the reconciler with a commit of its own. A request is served on the
  server's state, which holds the reconciler with the routing store, the files of the settings and of the
  certificate policy, the staged import, and the audit events recorded so far.
\<close>

section \<open>Responses\<close>

record dockerStatus =
  ds_Enabled :: bool
  ds_Active :: bool
  ds_Profile :: string
  ds_SocketPath :: string
  ds_Endpoint :: string
  ds_Reason :: string
  ds_NextActions :: "string list"

text \<open>The values the handlers encode; \<open>PObj\<close> is a \<open>map[string]any\<close>.\<close>

datatype payload =
  PStr string | PInt int | PBool bool | PNull | PStrs "string list" | PTime time | PFloat float64 | PBytes string
| PListener Listener | PListeners "Listener list" | PPool BackendPool | PPools "BackendPool list"
| PRule RoutingRule | PRules "RoutingRule list" | PRoute RouteConfig | PRoutes "RouteConfig list"
| PReconcile ReconcileResult | PAzure AzureConfig | PSecurity SecurityConfig | PHealth HealthConfig | PConfig AppConfig
| PContainers "ContainerService list" | PDocker dockerStatus | PAzureStatus AzureStatus | PPermissions PermissionCheckResult
| PEvents "AuditEvent list" | PEntries "Entry list" | PCertificates "CertStatus list" | PCertEvents "CertEvent list"
| PObj "(string \<times> payload) list"

record Response =
  rp_Status :: int
  rp_Body :: payload

definition writeJSON :: "int \<Rightarrow> payload \<Rightarrow> Response" where
  "writeJSON status payload = \<lparr>rp_Status = status, rp_Body = payload\<rparr>"

definition writeError :: "int \<Rightarrow> string \<Rightarrow> Response" where
  "writeError status message = writeJSON status (PObj [(''error'', PStr message)])"

definition methodNotAllowed :: Response where
  "methodNotAllowed = writeError 405 ''method not allowed''"

section \<open>Requests\<close>

text \<open>
  \<open>rq_Get\<close> and \<open>rq_Query\<close> give the headers and the query parameters, empty when missing; \<open>rq_Body\<close> holds the
  bytes of the body and \<open>rq_ReadError\<close> the error that follows them, if any.
\<close>

record Request =
  rq_Method :: string
  rq_Path :: string
  rq_Get :: "string \<Rightarrow> string"
  rq_Query :: "string \<Rightarrow> string"
  rq_Body :: string
  rq_ReadError :: "string option"

record protectedRouteSettings =
  pv_AllowBearerToken :: bool
  pv_AllowAdminTokenHeader :: bool

record securitySettingsRequest =
  ss_Security :: SecurityConfig
  ss_InternalSourceRanges :: "string list"
  ss_ProtectedRoutes :: protectedRouteSettings

record systemSettingsRequest =
  sy_DeploymentMode :: DeploymentMode
  sy_AdminToken :: string
  sy_Azure :: AzureConfig

record archiveRequest =
  aq_ID :: string
  aq_Fingerprint :: string
  aq_Confirm :: bool

text \<open>The JSON decoders of the request bodies, and the codec of the bundle.\<close>

record ApiCodec =
  jc_Listener :: "string \<Rightarrow> string + Listener"
  jc_Pool :: "string \<Rightarrow> string + BackendPool"
  jc_Rule :: "string \<Rightarrow> string + RoutingRule"
  jc_Route :: "string \<Rightarrow> string + RouteConfig"
  jc_Certificate :: "string \<Rightarrow> string + CertificateConfig"
  jc_Security :: "string \<Rightarrow> string + securitySettingsRequest"
  jc_System :: "string \<Rightarrow> string + systemSettingsRequest"
  jc_Azure :: "string \<Rightarrow> string + AzureConfig"
  jc_Bind :: "string \<Rightarrow> string + bindContainerRequest"
  jc_Archive :: "string \<Rightarrow> string + archiveRequest"
  jc_Bundle :: BundleCodec

section \<open>The server\<close>

text \<open>
  What \<open>NewServer\<close> is given: which of the optional parts are there, and the paths of the two stores
  (\<open>None\<close> for a nil store). \<open>main\<close> gives all of them but the discoverer and the permission checker, which
  depend on the configuration and the environment.
\<close>

record Options =
  op_Store :: bool
  op_Discoverer :: bool
  op_Reconciler :: bool
  op_Runtime :: bool
  op_AuditLog :: bool
  op_Inspector :: bool
  op_RuntimeLogs :: bool
  op_Permissions :: bool
  op_SettingsPath :: "string option"
  op_CertificatePath :: "string option"

record configurationImportDraft =
  dr_Settings :: Settings
  dr_CertificatePolicy :: CertificateConfig
  dr_LiveConfig :: AppConfig
  dr_PreviousSettings :: Settings
  dr_PreviousCertificatePolicy :: CertificateConfig

record Server =
  srv_cfg :: AppConfig
  srv_draft :: "configurationImportDraft option"
  srv_rec :: Reconciler
  srv_settings :: "string \<Rightarrow> Settings json_file"
  srv_certificates :: "string \<Rightarrow> CertificateConfig json_file"
  srv_events :: "(string \<times> (string \<times> payload) list) list"

text \<open>
  The environment of one request. \<open>en_meanwhile\<close> is what other goroutines do to the reconciler between the
  release of its mutex and the end of a sync; \<open>en_settingsWrite k\<close> is the error of the \<open>k\<close>th save.
\<close>

record ApiEnv =
  en_store :: Env
  en_sync :: SyncEnv
  en_meanwhile :: "Reconciler \<Rightarrow> Reconciler"
  en_finish :: time
  en_checker :: "RouteHealthStatus list option option"
  en_azure :: "(RouteConfig list \<Rightarrow> AzureResult) option option"
  en_settingsWrite :: "nat \<Rightarrow> string option"
  en_certificateWrite :: "nat \<Rightarrow> string option"
  en_discover :: "string + ContainerService list \<times> RouteConfig list"
  en_hostname :: "string option"
  en_now :: time
  en_zip :: ZipWriter
  en_ready :: bool
  en_lastError :: "string option"
  en_audit :: "int \<Rightarrow> string + AuditEvent list"
  en_logs :: "int \<Rightarrow> Entry list"
  en_permissions :: "AzureConfig \<Rightarrow> PermissionCheckResult \<times> string option"
  en_inspect :: "float64 \<Rightarrow> string + CertSnapshot"
  en_decodePolicy :: "json option \<Rightarrow> string + RuntimeConfig"
  en_archive :: "string \<Rightarrow> string \<Rightarrow> json option \<Rightarrow> string + string \<times> string"
  en_events :: EventReaders

definition api_store :: "Server \<Rightarrow> Store" where
  "api_store s = w_store (rec_world (srv_rec s))"

definition with_world :: "World \<Rightarrow> Server \<Rightarrow> Server" where
  "with_world w s = s\<lparr>srv_rec := (srv_rec s)\<lparr>rec_world := w\<rparr>\<rparr>"

definition on_world :: "(World \<Rightarrow> (string + 'a) \<times> World) \<Rightarrow> Server \<Rightarrow> (string + 'a) \<times> Server" where
  "on_world f s = (case f (rec_world (srv_rec s)) of (x, w) \<Rightarrow> (x, with_world w s))"

definition audit :: "Options \<Rightarrow> string \<Rightarrow> (string \<times> payload) list \<Rightarrow> Server \<Rightarrow> Server" where
  "audit opts event fs s = (if op_AuditLog opts then s\<lparr>srv_events := srv_events s @ [(event, fs)]\<rparr> else s)"

text \<open>
  The reconciler has no method to mark or clear pending changes, so the type assertions of these two
  functions fail; what is pending is what the store says.
\<close>

definition markRoutingChangesPending :: "Server \<Rightarrow> Server" where
  "markRoutingChangesPending s = s"

definition clearRoutingChangesPending :: "Server \<Rightarrow> Server" where
  "clearRoutingChangesPending s = s"

definition routingChangesPending :: "Options \<Rightarrow> Server \<Rightarrow> bool" where
  "routingChangesPending opts s \<longleftrightarrow> op_Store opts \<and> Pending (api_store s)"

definition applyLiveConfig :: "AppConfig \<Rightarrow> Server \<Rightarrow> Server" where
  "applyLiveConfig cfg s = s\<lparr>srv_cfg := cfg, srv_rec := Rec_UpdateConfig cfg (srv_rec s)\<rparr>"

section \<open>The stores of the settings and the certificate policy\<close>

definition persistedSettings :: "Options \<Rightarrow> Server \<Rightarrow> string + Settings" where
  "persistedSettings opts s =
     (let fallback = SettingsFromConfig (srv_cfg s) in
      case op_SettingsPath opts of
        None \<Rightarrow> Inr fallback
      | Some path \<Rightarrow>
          (case SettingsStore_Load path (srv_settings s) of
             Inl e \<Rightarrow> Inl e
           | Inr None \<Rightarrow> Inr fallback
           | Inr (Some settings) \<Rightarrow> Inr settings))"

definition desiredSettings :: "Options \<Rightarrow> Server \<Rightarrow> string + Settings" where
  "desiredSettings opts s =
     (case srv_draft s of Some draft \<Rightarrow> Inr (dr_Settings draft) | None \<Rightarrow> persistedSettings opts s)"

definition desiredCertificatePolicy :: "CertificateConfig \<Rightarrow> Server \<Rightarrow> CertificateConfig" where
  "desiredCertificatePolicy fallback s =
     (case srv_draft s of Some draft \<Rightarrow> dr_CertificatePolicy draft | None \<Rightarrow> fallback)"

definition save_settings :: "Options \<Rightarrow> ApiEnv \<Rightarrow> nat \<Rightarrow> Settings \<Rightarrow> Server \<Rightarrow> (string + unit) \<times> Server" where
  "save_settings opts env k settings s =
     (case SettingsStore_Save (case op_SettingsPath opts of Some p \<Rightarrow> p | None \<Rightarrow> []) settings (en_settingsWrite env k) (srv_settings s) of
        (r, files) \<Rightarrow> (r, s\<lparr>srv_settings := files\<rparr>))"

definition save_certificate :: "Options \<Rightarrow> ApiEnv \<Rightarrow> nat \<Rightarrow> CertificateConfig \<Rightarrow> Server \<Rightarrow> (string + unit) \<times> Server" where
  "save_certificate opts env k certificate s =
     (case CertificateStore_Save (case op_CertificatePath opts of Some p \<Rightarrow> p | None \<Rightarrow> []) certificate (en_certificateWrite env k)
         (srv_certificates s) of
        (r, files) \<Rightarrow> (r, s\<lparr>srv_certificates := files\<rparr>))"

section \<open>A sync with a commit of the server\<close>

text \<open>
  The commit of a sync is a function of the reconciler's model on the routing store alone; the commits of
  the server also write its files and its configuration. \<open>commit_call\<close> is what a sync calls its commit with,
  if it gets there: the snapshot it serves and the store at that time. The files of the server are then
  those of the commit run on that call.
\<close>

definition commit_call :: "SyncEnv \<Rightarrow> bool \<Rightarrow> AppConfig option \<Rightarrow> Reconciler \<Rightarrow> (Snapshot \<times> World) option" where
  "commit_call env preservePendingRoutes candidate r0 =
     (let r1 = beginGeneration r0; previous = AppliedSnapshot (w_store (rec_world r1)) in
      case (if candidate \<noteq> None then sv_reader env else None) of
        Some (Inl e) \<Rightarrow> None
      | _ \<Rightarrow>
          (let r2 = (case candidate of Some c \<Rightarrow> Rec_UpdateConfig c r1 | None \<Rightarrow> r1)\<lparr>rec_world := sv_between env (rec_world r1)\<rparr>;
               snapshot = (if preservePendingRoutes then previous else DesiredSnapshot (w_store (rec_world r2)));
               (discoveredRoutes, r3) = discovered env (r2\<lparr>rec_world := sv_during env (rec_world r2)\<rparr>)
           in case Renderer_Render (rec_renderer r3) (sn_Routes snapshot @ discoveredRoutes) of
                Inl e \<Rightarrow> None
              | Inr rendered \<Rightarrow>
                  (case load_runtime env 0 rendered r3 of
                     (Some e, r4) \<Rightarrow> None
                   | (None, r4) \<Rightarrow> Some (snapshot, rec_world r4))))"

definition store_commit :: "(Snapshot \<Rightarrow> Server \<Rightarrow> (string + unit) \<times> Server) \<Rightarrow> Server \<Rightarrow> commit" where
  "store_commit commit s snapshot w =
     (case commit snapshot (with_world w s) of (x, s') \<Rightarrow> (x, rec_world (srv_rec s')))"

text \<open>
  The whole of a sync: the part under the mutex, then the checks and the end. A sync that fails ends under
  the mutex, so nothing happens in between. The answer tells whether the commit succeeded.
\<close>

definition sync_with_commit :: "ApiEnv \<Rightarrow> bool \<Rightarrow> AppConfig option \<Rightarrow> (Snapshot \<Rightarrow> Server \<Rightarrow> (string + unit) \<times> Server) \<Rightarrow> Server \<Rightarrow>
    ReconcileResult \<times> bool \<times> Server" where
  "sync_with_commit env preservePendingRoutes candidate commit s =
     (let r = srv_rec s;
          side = (case commit_call (en_sync env) preservePendingRoutes candidate r of
             None \<Rightarrow> s | Some (snapshot, w) \<Rightarrow> snd (commit snapshot (with_world w s)));
          (f, r1) = launch (syncLocked (en_sync env) (en_store env) preservePendingRoutes candidate (Some (store_commit commit s)) r);
          (result, r2) = complete (en_finish env) (en_checker env) (en_azure env) f (if fl_goes f then en_meanwhile env r1 else r1)
      in (result, fl_goes f, side\<lparr>srv_rec := r2\<rparr>))"

definition sync_pending_kept :: "ApiEnv \<Rightarrow> Server \<Rightarrow> ReconcileResult \<times> Server" where
  "sync_pending_kept env s =
     (let (f, r1) = launch (SyncWithoutPendingRoutingChanges (en_sync env) (en_store env) (srv_rec s));
          (result, r2) = complete (en_finish env) (en_checker env) (en_azure env) f (if fl_goes f then en_meanwhile env r1 else r1)
      in (result, s\<lparr>srv_rec := r2\<rparr>))"

definition commitLiveConfig :: "Options \<Rightarrow> ApiEnv \<Rightarrow> AppConfig \<Rightarrow> (Server \<Rightarrow> (string + unit) \<times> Server) \<Rightarrow> Server \<Rightarrow>
    (Response + ReconcileResult) \<times> Server" where
  "commitLiveConfig opts env cfg persist s =
     (if \<not> op_Reconciler opts then (Inl (writeError 503 ''configuration reconciliation is unavailable''), s)
      else
       (case sync_with_commit env True (Some cfg)
           (\<lambda>_ t. case persist t of (Inl e, t1) \<Rightarrow> (Inl e, t1) | (Inr _, t1) \<Rightarrow> (Inr (), applyLiveConfig cfg t1)) s of
          (result, committed, s1) \<Rightarrow>
            (if committed then Inr result else Inl (writeError 503 (re_Error result)), s1)))"

section \<open>Imports\<close>

definition join_errors :: "string \<Rightarrow> (string + unit) list \<Rightarrow> string" where
  "join_errors e rs = Join (e # concat (map (\<lambda>r. case r of Inl m \<Rightarrow> [m] | Inr _ \<Rightarrow> []) rs)) [newline]"

definition persistConfigurationImport :: "Options \<Rightarrow> ApiEnv \<Rightarrow> Snapshot \<Rightarrow> Server \<Rightarrow> (string + unit) \<times> Server" where
  "persistConfigurationImport opts env snapshot s =
     (case srv_draft s of
        None \<Rightarrow> on_world (MarkApplied (en_store env) snapshot) s
      | Some draft \<Rightarrow>
          (case save_settings opts env 0 (dr_Settings draft) s of
             (Inl e, s1) \<Rightarrow> (Inl e, s1)
           | (Inr _, s1) \<Rightarrow>
               (case save_certificate opts env 0 (dr_CertificatePolicy draft) s1 of
                  (Inl e, s2) \<Rightarrow>
                    (case save_settings opts env 1 (dr_PreviousSettings draft) s2 of (r1, s3) \<Rightarrow> (Inl (join_errors e [r1]), s3))
                | (Inr _, s2) \<Rightarrow>
                    (case on_world (MarkApplied (en_store env) snapshot) s2 of
                       (Inl e, s3) \<Rightarrow>
                         (case save_settings opts env 1 (dr_PreviousSettings draft) s3 of (r1, s4) \<Rightarrow>
                          case save_certificate opts env 1 (dr_PreviousCertificatePolicy draft) s4 of (r2, s5) \<Rightarrow>
                            (Inl (join_errors e [r1, r2]), s5))
                     | (Inr _, s3) \<Rightarrow>
                         (Inr (), audit opts ''configuration.import.applied''
                            [(''routingRules'', PInt (int (length (st_routingRules (api_store s3))))),
                             (''certificateSubjects'', PInt (int (length (ce_Subjects (dr_CertificatePolicy draft)))))]
                            (applyLiveConfig (dr_LiveConfig draft) (s3\<lparr>srv_draft := None\<rparr>)))))))"

definition preserveConfigurationSecrets :: "Settings \<Rightarrow> Settings \<Rightarrow> Settings" where
  "preserveConfigurationSecrets imported current =
     imported\<lparr>se_Auth := (se_Auth imported)\<lparr>sa_AdminToken := sa_AdminToken (se_Auth current),
       sa_AdminTokens := sa_AdminTokens (se_Auth current),
       sa_AdditionalHeaderName := sa_AdditionalHeaderName (se_Auth current),
       sa_AdditionalHeaderValue := sa_AdditionalHeaderValue (se_Auth current)\<rparr>\<rparr>"

definition importedLiveConfig :: "AppConfig \<Rightarrow> AppConfig \<Rightarrow> AppConfig" where
  "importedLiveConfig active imported =
     active\<lparr>ap_Security := ap_Security imported,
       ap_Gateway := (ap_Gateway active)\<lparr>gw_InternalSourceRanges := gw_InternalSourceRanges (ap_Gateway imported),
         gw_Certificate := gw_Certificate (ap_Gateway imported)\<rparr>,
       ap_Auth := ap_Auth imported\<rparr>"

definition certificateWithAzureDefaults :: "CertificateConfig \<Rightarrow> AzureConfig \<Rightarrow> CertificateConfig" where
  "certificateWithAzureDefaults cert azure =
     (if \<not> az_Enabled azure \<or> \<not> az_ManageDNS azure then cert else ApplyAzureCertificateDefaults cert azure)"

definition certificateIssuerName :: "CertificateConfig \<Rightarrow> string" where
  "certificateIssuerName cert = ce_Issuer (NormalizeCertificateConfig cert)"

definition configurationImportPending :: "Server \<Rightarrow> bool" where
  "configurationImportPending s \<longleftrightarrow> srv_draft s \<noteq> None"

definition import_pending_error :: Response where
  "import_pending_error = writeError 409 ''apply the imported configuration before changing settings or certificate policy''"

end
