(* ===== verification/ApiHandlers.thy ===== *)
theory ApiHandlers
  imports ApiModel
begin

text \<open>
  The handlers of the management API: \<open>backend/internal/api/server.go\<close>, \<open>routing_resources.go\<close>,
  \<open>settings.go\<close>, \<open>configuration_bundle.go\<close> and \<open>certificates.go\<close>, in the order of the code, and the dispatch of
  a request to its handler. A handler takes the request and the server to the response and the server.
\<close>

section \<open>Routing resources\<close>

definition ok_pending :: "int \<Rightarrow> string \<Rightarrow> payload \<Rightarrow> Response" where
  "ok_pending status name payload = writeJSON status (PObj [(name, payload), (''pendingApply'', PBool True)])"

definition writeRoutingResourceError :: "string \<Rightarrow> Response" where
  "writeRoutingResourceError message =
     writeError (if Contains message ''is used by'' \<or> Contains message ''already exists'' then 409
                 else if Contains message ''not found'' then 404 else 400) message"

definition listener_fields :: "Listener \<Rightarrow> (string \<times> payload) list" where
  "listener_fields l = [(''listenerId'', PStr (ln_ID l)), (''hostname'', PStr (ln_Hostname l)), (''port'', PInt (ln_Port l)),
     (''protocol'', PStr (ln_Protocol l))]"

definition handleListeners :: "Options \<Rightarrow> ApiCodec \<Rightarrow> ApiEnv \<Rightarrow> Request \<Rightarrow> Server \<Rightarrow> Response \<times> Server" where
  "handleListeners opts jc env rq s =
     (if rq_Method rq = ''GET'' then (writeJSON 200 (PObj [(''listeners'', PListeners (st_listeners (api_store s)))]), s)
      else if rq_Method rq = ''POST'' then
        (case jc_Listener jc (rq_Body rq) of
           Inl e \<Rightarrow> (writeError 400 e, s)
         | Inr listener \<Rightarrow>
             (case on_world (AddListener (en_store env) listener) s of
                (Inl e, s1) \<Rightarrow> (writeRoutingResourceError e, s1)
              | (Inr created, s1) \<Rightarrow>
                  (ok_pending 201 ''listener'' (PListener created),
                   markRoutingChangesPending (audit opts ''listener.create'' (listener_fields created) s1))))
      else (methodNotAllowed, s))"

definition handleListenerByID :: "Options \<Rightarrow> ApiCodec \<Rightarrow> ApiEnv \<Rightarrow> Request \<Rightarrow> Server \<Rightarrow> Response \<times> Server" where
  "handleListenerByID opts jc env rq s =
     (let i = TrimPrefix (rq_Path rq) ''/api/listeners/'' in
      if i = [] then (writeError 400 ''listener id is required'', s)
      else if rq_Method rq = ''PUT'' then
        (case jc_Listener jc (rq_Body rq) of
           Inl e \<Rightarrow> (writeError 400 e, s)
         | Inr listener \<Rightarrow>
             (case on_world (ReplaceListener (en_store env) (listener\<lparr>ln_ID := i\<rparr>)) s of
                (Inl e, s1) \<Rightarrow> (writeRoutingResourceError e, s1)
              | (Inr updated, s1) \<Rightarrow>
                  (ok_pending 200 ''listener'' (PListener updated),
                   markRoutingChangesPending (audit opts ''listener.update'' (listener_fields updated) s1))))
      else if rq_Method rq = ''DELETE'' then
        (case on_world (DeleteListener (en_store env) i) s of
           (Inl e, s1) \<Rightarrow> (writeRoutingResourceError e, s1)
         | (Inr _, s1) \<Rightarrow>
             (ok_pending 200 ''deleted'' (PStr i),
              markRoutingChangesPending (audit opts ''listener.delete'' [(''listenerId'', PStr i)] s1)))
      else (methodNotAllowed, s))"

definition pool_fields :: "BackendPool \<Rightarrow> (string \<times> payload) list" where
  "pool_fields p = [(''backendPoolId'', PStr (bp_ID p)), (''name'', PStr (bp_Name p)), (''targets'', PInt (int (length (bp_Targets p))))]"

definition handleBackendPools :: "Options \<Rightarrow> ApiCodec \<Rightarrow> ApiEnv \<Rightarrow> Request \<Rightarrow> Server \<Rightarrow> Response \<times> Server" where
  "handleBackendPools opts jc env rq s =
     (if rq_Method rq = ''GET'' then (writeJSON 200 (PObj [(''backendPools'', PPools (st_backendPools (api_store s)))]), s)
      else if rq_Method rq = ''POST'' then
        (case jc_Pool jc (rq_Body rq) of
           Inl e \<Rightarrow> (writeError 400 e, s)
         | Inr pool \<Rightarrow>
             (case on_world (AddBackendPool (en_store env) pool) s of
                (Inl e, s1) \<Rightarrow> (writeRoutingResourceError e, s1)
              | (Inr created, s1) \<Rightarrow>
                  (ok_pending 201 ''backendPool'' (PPool created),
                   markRoutingChangesPending (audit opts ''backend-pool.create'' (pool_fields created) s1))))
      else (methodNotAllowed, s))"

definition handleBackendPoolByID :: "Options \<Rightarrow> ApiCodec \<Rightarrow> ApiEnv \<Rightarrow> Request \<Rightarrow> Server \<Rightarrow> Response \<times> Server" where
  "handleBackendPoolByID opts jc env rq s =
     (let i = TrimPrefix (rq_Path rq) ''/api/backend-pools/'' in
      if i = [] then (writeError 400 ''backend pool id is required'', s)
      else if rq_Method rq = ''PUT'' then
        (case jc_Pool jc (rq_Body rq) of
           Inl e \<Rightarrow> (writeError 400 e, s)
         | Inr pool \<Rightarrow>
             (case on_world (ReplaceBackendPool (en_store env) (pool\<lparr>bp_ID := i\<rparr>)) s of
                (Inl e, s1) \<Rightarrow> (writeRoutingResourceError e, s1)
              | (Inr updated, s1) \<Rightarrow>
                  (ok_pending 200 ''backendPool'' (PPool updated),
                   markRoutingChangesPending (audit opts ''backend-pool.update'' (pool_fields updated) s1))))
      else if rq_Method rq = ''DELETE'' then
        (case on_world (DeleteBackendPool (en_store env) i) s of
           (Inl e, s1) \<Rightarrow> (writeRoutingResourceError e, s1)
         | (Inr _, s1) \<Rightarrow>
             (ok_pending 200 ''deleted'' (PStr i),
              markRoutingChangesPending (audit opts ''backend-pool.delete'' [(''backendPoolId'', PStr i)] s1)))
      else (methodNotAllowed, s))"

definition rule_fields :: "RoutingRule \<Rightarrow> (string \<times> payload) list" where
  "rule_fields r = [(''routingRuleId'', PStr (rr_ID r)), (''listenerId'', PStr (rr_ListenerID r)),
     (''backendPoolId'', PStr (rr_BackendPoolID r))]"

definition handleRoutingRules :: "Options \<Rightarrow> ApiCodec \<Rightarrow> ApiEnv \<Rightarrow> Request \<Rightarrow> Server \<Rightarrow> Response \<times> Server" where
  "handleRoutingRules opts jc env rq s =
     (if rq_Method rq = ''GET'' then (writeJSON 200 (PObj [(''routingRules'', PRules (st_routingRules (api_store s)))]), s)
      else if rq_Method rq = ''POST'' then
        (case jc_Rule jc (rq_Body rq) of
           Inl e \<Rightarrow> (writeError 400 e, s)
         | Inr rule \<Rightarrow>
             (case on_world (AddRoutingRule (en_store env) rule) s of
                (Inl e, s1) \<Rightarrow> (writeRoutingResourceError e, s1)
              | (Inr created, s1) \<Rightarrow>
                  (ok_pending 201 ''routingRule'' (PRule created),
                   markRoutingChangesPending (audit opts ''routing-rule.create'' (rule_fields created) s1))))
      else (methodNotAllowed, s))"

definition handleRoutingRuleByID :: "Options \<Rightarrow> ApiCodec \<Rightarrow> ApiEnv \<Rightarrow> Request \<Rightarrow> Server \<Rightarrow> Response \<times> Server" where
  "handleRoutingRuleByID opts jc env rq s =
     (let i = TrimPrefix (rq_Path rq) ''/api/routing-rules/'' in
      if i = [] then (writeError 400 ''routing rule id is required'', s)
      else if rq_Method rq = ''PUT'' then
        (case jc_Rule jc (rq_Body rq) of
           Inl e \<Rightarrow> (writeError 400 e, s)
         | Inr rule \<Rightarrow>
             (case on_world (ReplaceRoutingRule (en_store env) (rule\<lparr>rr_ID := i\<rparr>)) s of
                (Inl e, s1) \<Rightarrow> (writeRoutingResourceError e, s1)
              | (Inr updated, s1) \<Rightarrow>
                  (ok_pending 200 ''routingRule'' (PRule updated),
                   markRoutingChangesPending (audit opts ''routing-rule.update'' (rule_fields updated) s1))))
      else if rq_Method rq = ''DELETE'' then
        (case on_world (DeleteRoutingRule (en_store env) i) s of
           (Inl e, s1) \<Rightarrow> (writeRoutingResourceError e, s1)
         | (Inr _, s1) \<Rightarrow>
             (ok_pending 200 ''deleted'' (PStr i),
              markRoutingChangesPending (audit opts ''routing-rule.delete'' [(''routingRuleId'', PStr i)] s1)))
      else (methodNotAllowed, s))"

section \<open>Routes\<close>

definition route_fields :: "RouteConfig \<Rightarrow> (string \<times> payload) list" where
  "route_fields r = [(''routeId'', PStr (rc_ID r)), (''host'', PStr (rc_Host r)), (''exposure'', PStr (rc_Exposure r))]"

definition handleRoutes :: "Options \<Rightarrow> ApiCodec \<Rightarrow> ApiEnv \<Rightarrow> Request \<Rightarrow> Server \<Rightarrow> Response \<times> Server" where
  "handleRoutes opts jc env rq s =
     (if rq_Method rq = ''GET'' then (writeJSON 200 (PObj [(''routes'', PRoutes (st_routes (api_store s)))]), s)
      else if rq_Method rq = ''POST'' then
        (case jc_Route jc (rq_Body rq) of
           Inl e \<Rightarrow> (writeError 400 e, s)
         | Inr route \<Rightarrow>
             (case on_world (addCompatibilityRoute (en_store env) route) s of
                (Inl e, s1) \<Rightarrow> (writeError 400 e, s1)
              | (Inr created, s1) \<Rightarrow>
                  (ok_pending 201 ''route'' (PRoute created),
                   markRoutingChangesPending (audit opts ''route.create'' (route_fields created) s1))))
      else (methodNotAllowed, s))"

definition handleRouteByID :: "Options \<Rightarrow> ApiCodec \<Rightarrow> ApiEnv \<Rightarrow> Request \<Rightarrow> Server \<Rightarrow> Response \<times> Server" where
  "handleRouteByID opts jc env rq s =
     (let i = TrimPrefix (rq_Path rq) ''/api/routes/'' in
      if i = [] then (writeError 400 ''route id is required'', s)
      else if rq_Method rq = ''PUT'' then
        (case jc_Route jc (rq_Body rq) of
           Inl e \<Rightarrow> (writeError 400 e, s)
         | Inr route \<Rightarrow>
             (case on_world (replaceCompatibilityRoute (en_store env) (route\<lparr>rc_ID := i\<rparr>)) s of
                (Inl e, s1) \<Rightarrow> (writeError 400 e, s1)
              | (Inr updated, s1) \<Rightarrow>
                  (ok_pending 200 ''route'' (PRoute updated),
                   markRoutingChangesPending (audit opts ''route.update'' (route_fields updated) s1))))
      else if rq_Method rq = ''DELETE'' then
        (case on_world (deleteCompatibilityRoute (en_store env) i) s of
           (Inl e, s1) \<Rightarrow> (writeError 404 e, s1)
         | (Inr _, s1) \<Rightarrow>
             (ok_pending 200 ''deleted'' (PStr i),
              markRoutingChangesPending (audit opts ''route.delete'' [(''routeId'', PStr i)] s1)))
      else (methodNotAllowed, s))"

section \<open>Containers\<close>

definition docker_status :: "Options \<Rightarrow> Server \<Rightarrow> dockerStatus" where
  "docker_status opts s =
     (let cfg = srv_cfg s; dk = ap_Docker cfg;
          (reason, actions) =
            (if \<not> dk_Enabled dk then
               (''Docker discovery is disabled by configuration or GATEWAY_DOCKER_ENABLED'',
                [''Use explicit routes, or set GATEWAY_DOCKER_ENABLED=true for local workloads'',
                 ''Mount /var/run/docker.sock read-only or provide a Docker socket proxy when discovery is enabled''])
             else if \<not> op_Discoverer opts then
               (''Docker discovery is configured but the discoverer was not initialized'',
                [''Check the gateway startup logs'', ''Verify the Docker socket path is reachable from the container''])
             else (''Docker discovery is active'', [''Add caddy.enable=true, caddy.host, and caddy.port labels to workload containers'']))
      in \<lparr>ds_Enabled = dk_Enabled dk, ds_Active = op_Discoverer opts, ds_Profile = ap_Profile cfg,
          ds_SocketPath = dk_SocketPath dk, ds_Endpoint = dk_Endpoint dk, ds_Reason = reason, ds_NextActions = actions\<rparr>)"

text \<open>One container of the list: its bind policy when it has a TCP port.\<close>

definition with_policy :: "string list \<Rightarrow> ContainerService \<Rightarrow> ContainerService" where
  "with_policy gatewayNetworks container =
     (case bindPort container 0 of
        Inr port \<Rightarrow> container\<lparr>cs_BindPolicy := Some (containerBindPolicy container gatewayNetworks port)\<rparr>
      | Inl e \<Rightarrow> container)"

definition route_warnings :: "ContainerService list \<Rightarrow> string list" where
  "route_warnings containers =
     map (\<lambda>c. cs_Name c @ '': '' @ cs_RouteWarning c) (filter (\<lambda>c. cs_RouteWarning c \<noteq> []) containers)"

definition handleContainers :: "Options \<Rightarrow> ApiEnv \<Rightarrow> Request \<Rightarrow> Server \<Rightarrow> Response \<times> Server" where
  "handleContainers opts env rq s =
     (if rq_Method rq \<noteq> ''GET'' then (methodNotAllowed, s)
      else if \<not> op_Discoverer opts then
        (let status = docker_status opts s in
         (writeJSON 200 (PObj [(''containers'', PContainers []), (''status'', PDocker status), (''warning'', PStr (ds_Reason status))]), s))
      else case en_discover env of
        Inl e \<Rightarrow> (writeError 502 e, s)
      | Inr (containers, routeHints) \<Rightarrow>
          (let gatewayNetworks = gatewayContainerNetworks (en_hostname env) containers;
               (visible, visibleHints) = withoutGatewayContainer (en_hostname env) containers routeHints
           in (writeJSON 200 (PObj [(''containers'', PContainers (map (with_policy gatewayNetworks) visible)),
                 (''routeHints'', PRoutes visibleHints), (''gatewayNetworks'', PStrs gatewayNetworks),
                 (''status'', PDocker (docker_status opts s)),
                 (''warning'', PStr (Join (route_warnings visible) ''; ''))]), s)))"

definition handleBindContainer :: "Options \<Rightarrow> ApiCodec \<Rightarrow> ApiEnv \<Rightarrow> Request \<Rightarrow> Server \<Rightarrow> Response \<times> Server" where
  "handleBindContainer opts jc env rq s =
     (if rq_Method rq \<noteq> ''POST'' then (methodNotAllowed, s)
      else if \<not> op_Discoverer opts then (writeError 409 ''docker discovery is not active'', s)
      else case jc_Bind jc (rq_Body rq) of
        Inl e \<Rightarrow> (writeError 400 e, s)
      | Inr request \<Rightarrow>
          (if TrimSpace (bc_ContainerID request) = [] then (writeError 400 ''containerId is required'', s)
           else case en_discover env of
             Inl e \<Rightarrow> (writeError 502 e, s)
           | Inr (containers, _) \<Rightarrow>
               (case plan_bind (en_hostname env) request containers of
                  Inl (status, e) \<Rightarrow> (writeError status e, s)
                | Inr (container, port, scheme, route) \<Rightarrow>
                    (case on_world (addCompatibilityRoute (en_store env) route) s of
                       (Inl e, s1) \<Rightarrow> (writeError (if Contains e ''already exists'' then 409 else 400) e, s1)
                     | (Inr created, s1) \<Rightarrow>
                         (ok_pending 201 ''route'' (PRoute created),
                          markRoutingChangesPending (audit opts ''route.bind''
                            [(''routeId'', PStr (rc_ID created)), (''containerId'', PStr (cs_ID container)),
                             (''host'', PStr (rc_Host created)), (''port'', PInt port), (''scheme'', PStr scheme),
                             (''exposure'', PStr (rc_Exposure created))] s1))))))"

section \<open>Health and status\<close>

definition handleLive :: "Request \<Rightarrow> Server \<Rightarrow> Response \<times> Server" where
  "handleLive rq s =
     (if rq_Method rq \<noteq> ''GET'' then (methodNotAllowed, s)
      else (writeJSON 200 (PObj [(''status'', PStr ''alive''), (''profile'', PStr (ap_Profile (srv_cfg s)))]), s))"

definition ready_body :: "Server \<Rightarrow> string \<Rightarrow> bool \<Rightarrow> string option \<Rightarrow> payload" where
  "ready_body s status ready e =
     PObj ([(''status'', PStr status), (''profile'', PStr (ap_Profile (srv_cfg s))), (''caddyReady'', PBool ready)] @
       (case e of Some m \<Rightarrow> [(''error'', PStr m)] | None \<Rightarrow> []))"

definition handleReady :: "Options \<Rightarrow> ApiEnv \<Rightarrow> Request \<Rightarrow> Server \<Rightarrow> Response \<times> Server" where
  "handleReady opts env rq s =
     (if rq_Method rq \<noteq> ''GET'' then (methodNotAllowed, s)
      else if \<not> op_Runtime opts
      then (writeJSON 503 (ready_body s ''not_ready'' False (Some ''caddy runtime status is unavailable'')), s)
      else if \<not> en_ready env then (writeJSON 503 (ready_body s ''not_ready'' False (en_lastError env)), s)
      else (writeJSON 200 (ready_body s ''ready'' True None), s))"

definition certificateStatusWithPolicy :: "AppConfig \<Rightarrow> CertificateConfig \<Rightarrow> payload" where
  "certificateStatusWithPolicy cfg cert =
     PObj [(''issuer'', PStr (certificateIssuerName cert)), (''emailConfigured'', PBool (ce_Email cert \<noteq> [])),
       (''staging'', PBool (ce_Staging cert)), (''caDirectory'', PStr (ce_CADirectory cert)),
       (''subjects'', PStrs (ce_Subjects cert)), (''renewalWindowRatio'', PFloat (ce_RenewalWindowRatio cert)),
       (''dnsProvider'', PStr (dc_Provider (ce_DNSChallenge cert))), (''persisted'', PBool (gw_CertificateFile (ap_Gateway cfg) \<noteq> []))]"

definition handleStatus :: "Options \<Rightarrow> Request \<Rightarrow> Server \<Rightarrow> Response \<times> Server" where
  "handleStatus opts rq s =
     (if rq_Method rq \<noteq> ''GET'' then (methodNotAllowed, s)
      else
       (let cfg = srv_cfg s; st = api_store s; policy = desiredCertificatePolicy (gw_Certificate (ap_Gateway cfg)) s in
        (writeJSON 200 (PObj [(''profile'', PStr (ap_Profile cfg)), (''deploymentMode'', PStr (ap_DeploymentMode cfg)),
          (''listeners'', PListeners (st_listeners st)), (''backendPools'', PPools (st_backendPools st)),
          (''routingRules'', PRules (st_routingRules st)), (''routes'', PRoutes (st_routes st)),
          (''routingChangesPending'', PBool (routingChangesPending opts s)),
          (''configurationImportPending'', PBool (configurationImportPending s)),
          (''lastReconcile'', PReconcile (Last (srv_rec s))), (''azure'', PAzureStatus (StatusForConfig cfg)),
          (''docker'', PDocker (docker_status opts s)), (''certificate'', certificateStatusWithPolicy cfg policy),
          (''security'', PSecurity (ap_Security cfg)), (''health'', PHealth (ap_Health cfg)),
          (''audit'', PObj [(''enabled'', PBool (ad_Enabled (ap_Audit cfg))), (''file'', PStr (ad_File (ap_Audit cfg)))])]), s)))"

definition handleConfig :: "Request \<Rightarrow> Server \<Rightarrow> Response \<times> Server" where
  "handleConfig rq s =
     (if rq_Method rq \<noteq> ''GET'' then (methodNotAllowed, s)
      else
       (let cfg = srv_cfg s; auth = ap_Auth cfg;
            safe = cfg\<lparr>ap_Auth := auth\<lparr>au_AdminToken := [], au_AdminTokens := [],
                au_ProtectedRoutes := (au_ProtectedRoutes auth)\<lparr>pr_AdditionalHeaderValue := []\<rparr>\<rparr>,
              ap_Gateway := (ap_Gateway cfg)\<lparr>gw_Certificate := without_client_secret (gw_Certificate (ap_Gateway cfg))\<rparr>\<rparr>
        in (writeJSON 200 (PConfig safe), s)))"

definition query_limit :: "int \<Rightarrow> (int \<Rightarrow> bool) \<Rightarrow> Request \<Rightarrow> int" where
  "query_limit fallback ok rq =
     (let v = rq_Query rq ''limit'' in
      if v = [] then fallback else case Atoi v of Some n \<Rightarrow> (if ok n then n else fallback) | None \<Rightarrow> fallback)"

definition handleAudit :: "Options \<Rightarrow> ApiEnv \<Rightarrow> Request \<Rightarrow> Server \<Rightarrow> Response \<times> Server" where
  "handleAudit opts env rq s =
     (if rq_Method rq \<noteq> ''GET'' then (methodNotAllowed, s)
      else if \<not> op_AuditLog opts then (writeJSON 200 (PObj [(''events'', PEvents [])]), s)
      else case en_audit env (query_limit 100 (\<lambda>n. n > 0) rq) of
        Inl e \<Rightarrow> (writeError 500 e, s)
      | Inr events \<Rightarrow> (writeJSON 200 (PObj [(''events'', PEvents events)]), s))"

definition handleLogs :: "Options \<Rightarrow> ApiEnv \<Rightarrow> Request \<Rightarrow> Server \<Rightarrow> Response \<times> Server" where
  "handleLogs opts env rq s =
     (if rq_Method rq \<noteq> ''GET'' then (methodNotAllowed, s)
      else
       (let limit = query_limit 200 (\<lambda>n. n > 0 \<and> n \<le> 1000) rq;
            entries = (if op_RuntimeLogs opts then en_logs env limit else [])
        in (writeJSON 200 (PObj [(''entries'', PEntries entries)]), s)))"

section \<open>Reconciliation\<close>

text \<open>The reconciler has \<open>SyncWithCommit\<close>, so the type assertion of the handler succeeds.\<close>

definition handleReconcile :: "Options \<Rightarrow> ApiEnv \<Rightarrow> Request \<Rightarrow> Server \<Rightarrow> Response \<times> Server" where
  "handleReconcile opts env rq s =
     (if rq_Method rq \<noteq> ''POST'' then (methodNotAllowed, s)
      else
       (case sync_with_commit env False (map_option dr_LiveConfig (srv_draft s)) (persistConfigurationImport opts env) s of
          (result, committed, s1) \<Rightarrow> (writeJSON 200 (PReconcile result), s1)))"

section \<open>Certificates\<close>

definition certificateConfigResponse :: "CertificateConfig \<Rightarrow> (string \<times> payload) list" where
  "certificateConfigResponse cert0 =
     (let cert = NormalizeCertificateConfig cert0; azure = dc_Azure (ce_DNSChallenge cert) in
      [(''issuer'', PStr (ce_Issuer cert)), (''email'', PStr (ce_Email cert)), (''emailConfigured'', PBool (ce_Email cert \<noteq> [])),
       (''staging'', PBool (ce_Staging cert)), (''caDirectory'', PStr (ce_CADirectory cert)), (''subjects'', PStrs (ce_Subjects cert)),
       (''renewalWindowRatio'', PFloat (ce_RenewalWindowRatio cert)),
       (''dnsChallenge'', PObj [(''provider'', PStr (dc_Provider (ce_DNSChallenge cert))),
          (''azure'', PObj [(''subscriptionId'', PStr (ac_SubscriptionID azure)), (''resourceGroup'', PStr (ac_ResourceGroup azure)),
             (''authentication'', PStr (ac_Authentication azure)), (''tenantId'', PStr (ac_TenantID azure)),
             (''clientId'', PStr (ac_ClientID azure)), (''clientSecretConfigured'', PBool (ac_ClientSecret azure \<noteq> []))])]),
       (''runtimeOnly'', PBool False), (''persisted'', PBool True)])"

text \<open>\<open>withCertificateConfig\<close>: the error, if any, of reading the active configuration or of the check on it.\<close>

definition withCertificateConfig :: "Options \<Rightarrow> ApiEnv \<Rightarrow> (json option \<Rightarrow> string option) \<Rightarrow> string option" where
  "withCertificateConfig opts env inspect =
     (if op_Runtime opts \<and> \<not> en_ready env then Some ''Caddy runtime is not ready''
      else WithRuntimeConfig (sv_reader (en_sync env)) inspect)"

definition classified :: "Options \<Rightarrow> ApiEnv \<Rightarrow> string \<Rightarrow> CertSnapshot \<Rightarrow> string option \<times> Policy option \<times> CertSnapshot" where
  "classified opts env directory snapshot =
     (if op_Runtime opts \<and> \<not> en_ready env then (Some ''Caddy runtime is not ready'', None, snapshot)
      else case sv_reader (en_sync env) of
        None \<Rightarrow> (Some ''active Caddy configuration is unavailable'', None, snapshot)
      | Some (Inl e) \<Rightarrow> (Some e, None, snapshot)
      | Some (Inr data) \<Rightarrow>
          (case ParsePolicy (en_decodePolicy env data) directory of
             Inl e \<Rightarrow> (Some e, None, snapshot)
           | Inr policy \<Rightarrow> (None, Some policy, Classify policy snapshot)))"

definition certificateResponse :: "Options \<Rightarrow> ApiEnv \<Rightarrow> CertificateConfig \<Rightarrow> Server \<Rightarrow> payload" where
  "certificateResponse opts env cert s =
     (let inspected =
            (if \<not> op_Inspector opts then [(''available'', PBool False), (''certificates'', PCertificates [])]
             else case en_inspect env (ce_RenewalWindowRatio cert) of
               Inl e \<Rightarrow> [(''available'', PBool False), (''certificates'', PCertificates []), (''error'', PStr e)]
             | Inr snapshot0 \<Rightarrow>
                 (case classified opts env (sp_StorageDirectory snapshot0) snapshot0 of (policyErr, policy, snapshot) \<Rightarrow>
                   [(''available'', PBool True)] @
                   (case policy of Some p \<Rightarrow> [(''managedSubjects'', PStrs (po_ManagedSubjects p))] | None \<Rightarrow> []) @
                   (case policyErr of Some e \<Rightarrow> [(''policyError'', PStr e)] | None \<Rightarrow> []) @
                   [(''policyKnown'', PBool (sp_PolicyKnown snapshot)), (''storageDirectory'', PStr (sp_StorageDirectory snapshot)),
                    (''scannedAt'', PTime (sp_ScannedAt snapshot)), (''certificates'', PCertificates (sp_Certificates snapshot)), (''warnings'', PStrs (sp_Warnings snapshot))]));
          events = (if op_RuntimeLogs opts then RecentEvents (en_events env) (en_logs env 1000) else [])
      in PObj (certificateConfigResponse cert @ [(''runtime'', PObj (inspected @ [(''events'', PCertEvents events)]))]))"

definition keep_client_secret :: "CertificateConfig \<Rightarrow> CertificateConfig \<Rightarrow> CertificateConfig" where
  "keep_client_secret current cert =
     (let dns = ce_DNSChallenge cert in
      if dc_Provider dns = ''azure'' \<and> EqualFold (ac_Authentication (dc_Azure dns)) ''appRegistration'' \<and> ac_ClientSecret (dc_Azure dns) = []
      then cert\<lparr>ce_DNSChallenge := dns\<lparr>dc_Azure := (dc_Azure dns)\<lparr>ac_ClientSecret := ac_ClientSecret (dc_Azure (ce_DNSChallenge current))\<rparr>\<rparr>\<rparr>
      else cert)"

definition certificate_fields :: "CertificateConfig \<Rightarrow> (string \<times> payload) list" where
  "certificate_fields cert = [(''issuer'', PStr (ce_Issuer cert)), (''emailConfigured'', PBool (ce_Email cert \<noteq> [])),
     (''staging'', PBool (ce_Staging cert)), (''customCA'', PBool (ce_CADirectory cert \<noteq> [])),
     (''subjects'', PInt (int (length (ce_Subjects cert)))), (''dnsProvider'', PStr (dc_Provider (ce_DNSChallenge cert)))]"

definition handleCertificate :: "Options \<Rightarrow> ApiCodec \<Rightarrow> ApiEnv \<Rightarrow> Request \<Rightarrow> Server \<Rightarrow> Response \<times> Server" where
  "handleCertificate opts jc env rq s =
     (let cfg = srv_cfg s; current = gw_Certificate (ap_Gateway cfg) in
      if rq_Method rq = ''GET'' then
        (writeJSON 200 (certificateResponse opts env
           (certificateWithAzureDefaults (desiredCertificatePolicy current s) (ap_Azure cfg)) s), s)
      else if rq_Method rq = ''PUT'' then
        (if configurationImportPending s then (import_pending_error, s)
         else case jc_Certificate jc (rq_Body rq) of
           Inl e \<Rightarrow> (writeError 400 e, s)
         | Inr cert0 \<Rightarrow>
             (let cert = NormalizeCertificateConfig (certificateWithAzureDefaults (keep_client_secret current cert0) (ap_Azure cfg)) in
              case ValidateCertificateConfig cert of
                Inl e \<Rightarrow> (writeError 400 e, s)
              | Inr _ \<Rightarrow>
                  (if op_CertificatePath opts = None then (writeError 500 ''certificate persistence is unavailable'', s)
                   else case commitLiveConfig opts env (cfg\<lparr>ap_Gateway := (ap_Gateway cfg)\<lparr>gw_Certificate := cert\<rparr>\<rparr>)
                          (save_certificate opts env 0 cert) s of
                     (Inl response, s1) \<Rightarrow> (response, s1)
                   | (Inr result, s1) \<Rightarrow>
                       (writeJSON 200 (PObj [(''certificate'', certificateResponse opts env cert s1), (''reconcile'', PReconcile result)]),
                        audit opts ''certificate.update'' (certificate_fields cert) s1))))
      else (methodNotAllowed, s))"

definition handleCertificateRefresh :: "Options \<Rightarrow> ApiEnv \<Rightarrow> Request \<Rightarrow> Server \<Rightarrow> Response \<times> Server" where
  "handleCertificateRefresh opts env rq s =
     (if rq_Method rq \<noteq> ''POST'' then (methodNotAllowed, s)
      else if configurationImportPending s then (import_pending_error, s)
      else
       (let cert = gw_Certificate (ap_Gateway (srv_cfg s));
            s1 = audit opts ''certificate.refresh'' [(''issuer'', PStr (certificateIssuerName cert)),
              (''emailConfigured'', PBool (ce_Email cert \<noteq> [])), (''staging'', PBool (ce_Staging cert))] s;
            (result, s2) = sync_pending_kept env s1
        in (writeJSON 200 (PObj [(''certificate'', certificateResponse opts env cert s2), (''reconcile'', PReconcile result)]), s2)))"

definition maxArchiveRequestBytes :: nat where
  "maxArchiveRequestBytes = 4096"

definition handleCertificateArchive :: "Options \<Rightarrow> ApiCodec \<Rightarrow> ApiEnv \<Rightarrow> Request \<Rightarrow> Server \<Rightarrow> Response \<times> Server" where
  "handleCertificateArchive opts jc env rq s =
     (if rq_Method rq \<noteq> ''POST'' then (methodNotAllowed, s)
      else if configurationImportPending s then (import_pending_error, s)
      else case jc_Archive jc (take maxArchiveRequestBytes (rq_Body rq)) of
        Inl e \<Rightarrow> (writeError 400 ''certificate ID, fingerprint and explicit confirmation are required'', s)
      | Inr request \<Rightarrow>
          (if \<not> aq_Confirm request \<or> length (aq_ID request) \<noteq> 64 \<or> length (aq_Fingerprint request) \<noteq> 64
           then (writeError 400 ''certificate ID, fingerprint and explicit confirmation are required'', s)
           else if \<not> op_Inspector opts then (writeError 503 ''certificate archive is unavailable'', s)
           else
            (let archived = en_archive env (aq_ID request) (aq_Fingerprint request);
                 failed = withCertificateConfig opts env (\<lambda>data. case archived data of Inl e \<Rightarrow> Some e | Inr _ \<Rightarrow> None);
                 (i, directory) = (case sv_reader (en_sync env) of
                    Some (Inr data) \<Rightarrow> (case archived data of Inr out \<Rightarrow> out | Inl _ \<Rightarrow> ([], [])) | _ \<Rightarrow> ([], []))
             in case failed of
                  Some e \<Rightarrow> (writeError 409 e, audit opts ''certificate.archive.rejected'' [(''id'', PStr (aq_ID request))] s)
                | None \<Rightarrow>
                    (writeJSON 200 (PObj [(''id'', PStr i), (''directory'', PStr directory)]),
                     audit opts ''certificate.archive'' [(''id'', PStr i), (''directory'', PStr directory)] s))))"

section \<open>Settings\<close>

definition azureSettingsEqual :: "AzureConfig \<Rightarrow> AzureConfig \<Rightarrow> bool" where
  "azureSettingsEqual left right \<longleftrightarrow>
     az_Enabled left = az_Enabled right \<and> az_ManageDNS left = az_ManageDNS right \<and> az_ManageNSG left = az_ManageNSG right \<and>
     az_SubscriptionID left = az_SubscriptionID right \<and> az_ResourceGroup left = az_ResourceGroup right \<and>
     az_DNSZoneName left = az_DNSZoneName right \<and> az_DNSZones left = az_DNSZones right \<and>
     az_NetworkSecurityGroupResourceGroup left = az_NetworkSecurityGroupResourceGroup right \<and>
     az_NetworkSecurityGroupName left = az_NetworkSecurityGroupName right \<and> az_PublicIPAddress left = az_PublicIPAddress right \<and>
     az_NSGPriority left = az_NSGPriority right \<and> az_NSGSourceAddressPrefixes left = az_NSGSourceAddressPrefixes right"

definition token_configured :: "Settings \<Rightarrow> bool" where
  "token_configured settings \<longleftrightarrow>
     sa_AdminToken (se_Auth settings) \<noteq> [] \<or> list_ex (\<lambda>token. TrimSpace token \<noteq> []) (sa_AdminTokens (se_Auth settings))"

definition settingsResponse :: "AppConfig \<Rightarrow> Settings \<Rightarrow> bool \<Rightarrow> payload" where
  "settingsResponse active desired persistenceAvailable =
     PObj [(''activeDeploymentMode'', PStr (ap_DeploymentMode active)), (''deploymentMode'', PStr (se_DeploymentMode desired)),
       (''azure'', PAzure (se_Azure desired)), (''security'', PSecurity (se_Security desired)),
       (''internalSourceRanges'', PStrs (se_InternalSourceRanges desired)),
       (''protectedRoutes'', PObj [(''allowBearerToken'', PBool (sa_AllowBearerToken (se_Auth desired))),
          (''allowAdminTokenHeader'', PBool (sa_AllowAdminTokenHeader (se_Auth desired)))]),
       (''adminTokenConfigured'', PBool (token_configured desired)), (''persistenceAvailable'', PBool persistenceAvailable),
       (''restartRequired'', PBool (se_DeploymentMode desired \<noteq> ap_DeploymentMode active \<or>
          \<not> azureSettingsEqual (se_Azure desired) (ap_Azure active)))]"

definition handleSettings :: "Options \<Rightarrow> Request \<Rightarrow> Server \<Rightarrow> Response \<times> Server" where
  "handleSettings opts rq s =
     (if rq_Method rq \<noteq> ''GET'' then (methodNotAllowed, s)
      else case desiredSettings opts s of
        Inl e \<Rightarrow> (writeError 500 e, s)
      | Inr desired \<Rightarrow> (writeJSON 200 (settingsResponse (srv_cfg s) desired (op_SettingsPath opts \<noteq> None)), s))"

definition security_candidate :: "securitySettingsRequest \<Rightarrow> AppConfig \<Rightarrow> AppConfig" where
  "security_candidate request cfg =
     (let pr = au_ProtectedRoutes (ap_Auth cfg) in
      cfg\<lparr>ap_Security := ss_Security request,
          ap_Gateway := (ap_Gateway cfg)\<lparr>gw_InternalSourceRanges := ss_InternalSourceRanges request\<rparr>,
          ap_Auth := (ap_Auth cfg)\<lparr>au_ProtectedRoutes := pr\<lparr>
            pr_AllowBearerToken := pv_AllowBearerToken (ss_ProtectedRoutes request),
            pr_AllowAdminTokenHeader := pv_AllowAdminTokenHeader (ss_ProtectedRoutes request)\<rparr>\<rparr>\<rparr>)"

definition no_token_policy :: "securitySettingsRequest \<Rightarrow> AppConfig \<Rightarrow> bool" where
  "no_token_policy request cfg \<longleftrightarrow>
     \<not> pv_AllowBearerToken (ss_ProtectedRoutes request) \<and> \<not> pv_AllowAdminTokenHeader (ss_ProtectedRoutes request) \<and>
     (pr_AdditionalHeaderName (au_ProtectedRoutes (ap_Auth cfg)) = [] \<or> pr_AdditionalHeaderValue (au_ProtectedRoutes (ap_Auth cfg)) = [])"

definition with_security :: "AppConfig \<Rightarrow> Settings \<Rightarrow> Settings" where
  "with_security candidate desired =
     desired\<lparr>se_Security := ap_Security candidate, se_InternalSourceRanges := gw_InternalSourceRanges (ap_Gateway candidate),
       se_Auth := (se_Auth desired)\<lparr>sa_AllowBearerToken := pr_AllowBearerToken (au_ProtectedRoutes (ap_Auth candidate)),
         sa_AllowAdminTokenHeader := pr_AllowAdminTokenHeader (au_ProtectedRoutes (ap_Auth candidate))\<rparr>\<rparr>"

definition handleSecuritySettings :: "Options \<Rightarrow> ApiCodec \<Rightarrow> ApiEnv \<Rightarrow> Request \<Rightarrow> Server \<Rightarrow> Response \<times> Server" where
  "handleSecuritySettings opts jc env rq s =
     (if rq_Method rq \<noteq> ''PUT'' then (methodNotAllowed, s)
      else if configurationImportPending s then (import_pending_error, s)
      else if op_SettingsPath opts = None then (writeError 503 ''settings persistence is unavailable'', s)
      else case jc_Security jc (rq_Body rq) of
        Inl e \<Rightarrow> (writeError 400 e, s)
      | Inr request \<Rightarrow>
          (let candidate0 = security_candidate request (srv_cfg s) in
           if no_token_policy request candidate0 then (writeError 400 ''protected routes require at least one token header policy'', s)
           else case NormalizeAndValidate candidate0 of
             (Inl e, _) \<Rightarrow> (writeError 400 e, s)
           | (Inr _, candidate) \<Rightarrow>
               (case desiredSettings opts s of
                  Inl e \<Rightarrow> (writeError 500 e, s)
                | Inr desired0 \<Rightarrow>
                    (let desired = with_security candidate desired0 in
                     case commitLiveConfig opts env candidate (save_settings opts env 0 desired) s of
                       (Inl response, s1) \<Rightarrow> (response, s1)
                     | (Inr result, s1) \<Rightarrow>
                         (writeJSON 200 (PObj [(''settings'', settingsResponse candidate desired True), (''reconcile'', PReconcile result)]),
                          audit opts ''settings.security.update'' [(''enabled'', PBool (sc_Enabled (ap_Security candidate)))] s1)))))"

definition with_token :: "string \<Rightarrow> AppConfig \<Rightarrow> AppConfig" where
  "with_token token cfg = (if token \<noteq> [] then cfg\<lparr>ap_Auth := (ap_Auth cfg)\<lparr>au_AdminToken := token, au_AdminTokens := []\<rparr>\<rparr> else cfg)"

definition system_candidate :: "systemSettingsRequest \<Rightarrow> Settings \<Rightarrow> AppConfig \<Rightarrow> AppConfig" where
  "system_candidate request desired active =
     (let cfg = ApplySettings desired active in
      with_token (TrimSpace (sy_AdminToken request))
        (cfg\<lparr>ap_DeploymentMode := sy_DeploymentMode request,
           ap_Docker := (ap_Docker cfg)\<lparr>dk_Enabled := sy_DeploymentMode request = ModeContainerSocket\<rparr>,
           ap_Azure := sy_Azure request\<rparr>))"

definition system_fields :: "Settings \<Rightarrow> string \<Rightarrow> (string \<times> payload) list" where
  "system_fields desired token = [(''deploymentMode'', PStr (se_DeploymentMode desired)),
     (''azureEnabled'', PBool (az_Enabled (se_Azure desired))), (''tokenRotated'', PBool (token \<noteq> []))]"

definition handleSystemSettings :: "Options \<Rightarrow> ApiCodec \<Rightarrow> ApiEnv \<Rightarrow> Request \<Rightarrow> Server \<Rightarrow> Response \<times> Server" where
  "handleSystemSettings opts jc env rq s =
     (if rq_Method rq \<noteq> ''PUT'' then (methodNotAllowed, s)
      else if configurationImportPending s then (import_pending_error, s)
      else if op_SettingsPath opts = None then (writeError 503 ''settings persistence is unavailable'', s)
      else case jc_System jc (rq_Body rq) of
        Inl e \<Rightarrow> (writeError 400 e, s)
      | Inr request \<Rightarrow>
          (case desiredSettings opts s of
             Inl e \<Rightarrow> (writeError 500 e, s)
           | Inr desired0 \<Rightarrow>
               (let newToken = TrimSpace (sy_AdminToken request) in
                case NormalizeAndValidate (system_candidate request desired0 (srv_cfg s)) of
                  (Inl e, _) \<Rightarrow> (writeError 400 e, s)
                | (Inr _, candidate) \<Rightarrow>
                    (let desired = SettingsFromConfig candidate;
                         active = with_token newToken (srv_cfg s);
                         answer = (\<lambda>reconcile. writeJSON 200 (PObj [(''settings'', settingsResponse active desired True), (''reconcile'', reconcile)]));
                         record_update = audit opts ''settings.system.update'' (system_fields desired newToken)
                     in if newToken \<noteq> [] then
                          (case commitLiveConfig opts env active (save_settings opts env 0 desired) s of
                             (Inl response, s1) \<Rightarrow> (response, s1)
                           | (Inr result, s1) \<Rightarrow> (answer (PReconcile result), record_update s1))
                        else
                          (case save_settings opts env 0 desired s of
                             (Inl e, s1) \<Rightarrow> (writeError 500 e, s1)
                           | (Inr _, s1) \<Rightarrow> (answer PNull, record_update s1))))))"

definition handleAzurePermissions :: "Options \<Rightarrow> ApiCodec \<Rightarrow> ApiEnv \<Rightarrow> Request \<Rightarrow> Server \<Rightarrow> Response \<times> Server" where
  "handleAzurePermissions opts jc env rq s =
     (if rq_Method rq \<noteq> ''POST'' then (methodNotAllowed, s)
      else if \<not> op_Permissions opts then (writeError 503 ''Azure permission checking is unavailable'', s)
      else case jc_Azure jc (rq_Body rq) of
        Inl e \<Rightarrow> (writeError 400 e, s)
      | Inr azure \<Rightarrow>
          (case en_permissions env azure of
             (result, Some e) \<Rightarrow> (writeError 400 e, s)
           | (result, None) \<Rightarrow>
               (writeJSON 200 (PPermissions result),
                audit opts ''settings.azure.permissions.check''
                  [(''dnsConfigured'', PBool (pg_Configured (pc_DNS result))),
                   (''networkConfigured'', PBool (pg_Configured (pc_Network result)))] s)))"

section \<open>The configuration bundle\<close>

definition maxConfigurationBundleUploadBytes :: nat where
  "maxConfigurationBundleUploadBytes = 8388608"

text \<open>The headers of the archive (its name, type and length) are left out.\<close>

definition exportConfigurationBundle :: "Options \<Rightarrow> ApiCodec \<Rightarrow> ApiEnv \<Rightarrow> Server \<Rightarrow> Response \<times> Server" where
  "exportConfigurationBundle opts jc env s =
     (if \<not> op_Store opts \<or> op_SettingsPath opts = None then (writeError 503 ''configuration persistence is unavailable'', s)
      else case desiredSettings opts s of
        Inl e \<Rightarrow> (writeError 500 e, s)
      | Inr settings \<Rightarrow>
          (let policy = desiredCertificatePolicy (gw_Certificate (ap_Gateway (srv_cfg s))) s in
           case ExportConfigurationBundle (jc_Bundle jc) (en_zip env) (Resources (api_store s)) settings policy (en_now env) of
             Inl e \<Rightarrow> (writeError 500 e, s)
           | Inr data \<Rightarrow>
               (writeJSON 200 (PBytes data),
                audit opts ''configuration.export''
                  [(''routes'', PInt (int (length (st_routingRules (api_store s))))),
                   (''certificateSubjects'', PInt (int (length (ce_Subjects policy))))] s)))"

text \<open>
  What an import stages, or the status and the message of the refusal: the draft and the resources. The
  candidate store is a store without a file.
\<close>

definition candidate_store :: "ApiEnv \<Rightarrow> ResourceSet \<Rightarrow> string + Store" where
  "candidate_store env resources =
     (case ReplaceResources (en_store env) resources \<lparr>w_store = NewStore [], w_disk = disk.Absent\<rparr> of
        (Inl e, _) \<Rightarrow> Inl e | (Inr _, w) \<Rightarrow> Inr (w_store w))"

definition import_policy :: "ConfigurationBundle \<Rightarrow> Settings \<Rightarrow> Server \<Rightarrow> CertificateConfig" where
  "import_policy bundle settings s =
     (let policy = cb_CertificatePolicy bundle; dns = ce_DNSChallenge policy;
          current = desiredCertificatePolicy (gw_Certificate (ap_Gateway (srv_cfg s))) s
      in NormalizeCertificateConfig (certificateWithAzureDefaults
           (policy\<lparr>ce_DNSChallenge := dns\<lparr>dc_Azure := (dc_Azure dns)\<lparr>ac_ClientSecret := ac_ClientSecret (dc_Azure (ce_DNSChallenge current))\<rparr>\<rparr>\<rparr>)
           (se_Azure settings)))"

definition plan_import :: "Options \<Rightarrow> ApiEnv \<Rightarrow> ConfigurationBundle \<Rightarrow> Server \<Rightarrow> (int \<times> string) + configurationImportDraft \<times> Store" where
  "plan_import opts env bundle s =
     (case persistedSettings opts s of
        Inl e \<Rightarrow> Inl (500, e)
      | Inr persisted \<Rightarrow>
          (let active = srv_cfg s;
               (secretSettings, previousSettings, previousPolicy) =
                 (case srv_draft s of
                    Some existing \<Rightarrow> (dr_Settings existing, dr_PreviousSettings existing, dr_PreviousCertificatePolicy existing)
                  | None \<Rightarrow> (persisted, persisted, gw_Certificate (ap_Gateway active)));
               settings0 = preserveConfigurationSecrets (cb_Settings bundle) secretSettings;
               policy = import_policy bundle settings0 s
           in case ValidateCertificateConfig policy of
                Inl e \<Rightarrow> Inl (400, ''validate certificate policy: '' @ e)
              | Inr _ \<Rightarrow>
                  (let cfg = ApplySettings settings0 active in
                   case NormalizeAndValidate (cfg\<lparr>ap_Gateway := (ap_Gateway cfg)\<lparr>gw_Certificate := policy\<rparr>\<rparr>) of
                     (Inl e, _) \<Rightarrow> Inl (400, ''validate settings: '' @ e)
                   | (Inr _, candidate) \<Rightarrow>
                       (case candidate_store env (cb_Routes bundle) of
                          Inl e \<Rightarrow> Inl (400, ''validate routes: '' @ e)
                        | Inr store \<Rightarrow>
                            (let liveConfig = importedLiveConfig active candidate in
                             case Renderer_Render (NewRenderer liveConfig) (st_routes store) of
                               Inl e \<Rightarrow> Inl (400, ''render Caddy configuration: '' @ e)
                             | Inr _ \<Rightarrow>
                                 Inr (\<lparr>dr_Settings = SettingsFromConfig candidate, dr_CertificatePolicy = policy, dr_LiveConfig = liveConfig,
                                        dr_PreviousSettings = previousSettings, dr_PreviousCertificatePolicy = previousPolicy\<rparr>, store))))))"

definition import_fields :: "Store \<Rightarrow> CertificateConfig \<Rightarrow> (string \<times> payload) list" where
  "import_fields store policy = [(''listeners'', PInt (int (length (st_listeners store)))),
     (''backendPools'', PInt (int (length (st_backendPools store)))), (''routingRules'', PInt (int (length (st_routingRules store)))),
     (''certificateSubjects'', PInt (int (length (ce_Subjects policy))))]"

definition importConfigurationBundle :: "Options \<Rightarrow> ApiCodec \<Rightarrow> ApiEnv \<Rightarrow> Request \<Rightarrow> Server \<Rightarrow> Response \<times> Server" where
  "importConfigurationBundle opts jc env rq s =
     (if \<not> op_Store opts \<or> op_SettingsPath opts = None \<or> op_CertificatePath opts = None
      then (writeError 503 ''configuration persistence is unavailable'', s)
      else if length (rq_Body rq) > maxConfigurationBundleUploadBytes
      then (writeError 413 ''configuration archive exceeds the upload size limit'', s)
      else case rq_ReadError rq of
        Some e \<Rightarrow> (writeError 400 (''read configuration archive: '' @ e), s)
      | None \<Rightarrow>
          (case ParseConfigurationBundle (jc_Bundle jc) (rq_Body rq) of
             Inl e \<Rightarrow> (writeError 400 e, s)
           | Inr bundle \<Rightarrow>
               (case plan_import opts env bundle s of
                  Inl (status, e) \<Rightarrow> (writeError status e, s)
                | Inr (draft, store) \<Rightarrow>
                    (case on_world (StageResources (Resources store)) (markRoutingChangesPending s) of
                       (Inl e, s1) \<Rightarrow> (writeError 500 (''stage routes: '' @ e), clearRoutingChangesPending s1)
                     | (Inr _, s1) \<Rightarrow>
                         (let fs = import_fields store (dr_CertificatePolicy draft) in
                          (writeJSON 200 (PObj ((''pendingApply'', PBool True) # fs @ [(''secretsPreserved'', PBool True)])),
                           audit opts ''configuration.import.staged'' fs (s1\<lparr>srv_draft := Some draft\<rparr>)))))))"

definition handleConfigurationBundle :: "Options \<Rightarrow> ApiCodec \<Rightarrow> ApiEnv \<Rightarrow> Request \<Rightarrow> Server \<Rightarrow> Response \<times> Server" where
  "handleConfigurationBundle opts jc env rq s =
     (if rq_Method rq = ''GET'' then exportConfigurationBundle opts jc env s
      else if rq_Method rq = ''POST'' then importConfigurationBundle opts jc env rq s
      else (methodNotAllowed, s))"

section \<open>Dispatch\<close>

text \<open>
  The two muxes on a clean path; another path is redirected by the mux. The answers of the redirect, of an
  unknown path and of the embedded user interface are all 404 here: none of them touches the server.
\<close>

definition api_handler :: "Options \<Rightarrow> ApiCodec \<Rightarrow> ApiEnv \<Rightarrow> string \<Rightarrow> (Request \<Rightarrow> Server \<Rightarrow> Response \<times> Server) option" where
  "api_handler opts jc env path =
     (case map_of
        [(''/api/status'', handleStatus opts), (''/api/listeners'', handleListeners opts jc env),
         (''/api/backend-pools'', handleBackendPools opts jc env), (''/api/routing-rules'', handleRoutingRules opts jc env),
         (''/api/routes'', handleRoutes opts jc env), (''/api/discovery/bind'', handleBindContainer opts jc env),
         (''/api/discovery/containers'', handleContainers opts env), (''/api/reconcile'', handleReconcile opts env),
         (''/api/certificate'', handleCertificate opts jc env), (''/api/certificate/refresh'', handleCertificateRefresh opts env),
         (''/api/certificate/archive'', handleCertificateArchive opts jc env), (''/api/config'', handleConfig),
         (''/api/settings'', handleSettings opts), (''/api/settings/configuration'', handleConfigurationBundle opts jc env),
         (''/api/settings/security'', handleSecuritySettings opts jc env), (''/api/settings/system'', handleSystemSettings opts jc env),
         (''/api/settings/azure/permissions'', handleAzurePermissions opts jc env), (''/api/audit'', handleAudit opts env),
         (''/api/logs'', handleLogs opts env)] path of
        Some h \<Rightarrow> Some h
      | None \<Rightarrow>
          (if HasPrefix path ''/api/listeners/'' then Some (handleListenerByID opts jc env)
           else if HasPrefix path ''/api/backend-pools/'' then Some (handleBackendPoolByID opts jc env)
           else if HasPrefix path ''/api/routing-rules/'' then Some (handleRoutingRuleByID opts jc env)
           else if HasPrefix path ''/api/routes/'' then Some (handleRouteByID opts jc env) else None))"

definition clean_path :: "string \<Rightarrow> bool" where
  "clean_path path \<longleftrightarrow> HasPrefix path ''/'' \<and> (path_Clean path = path \<or> path_Clean path @ ''/'' = path)"

definition not_found :: Response where
  "not_found = writeError 404 ''404 page not found''"

definition serve :: "Options \<Rightarrow> ApiCodec \<Rightarrow> ApiEnv \<Rightarrow> Request \<Rightarrow> Server \<Rightarrow> Response \<times> Server" where
  "serve opts jc env rq s =
     (let path = rq_Path rq in
      if \<not> clean_path path then (not_found, s)
      else if path = ''/healthz'' \<or> path = ''/readyz'' then handleReady opts env rq s
      else if path = ''/livez'' then handleLive rq s
      else if \<not> HasPrefix path ''/api/'' then (not_found, s)
      else case Middleware (ap_Auth (srv_cfg s)) (rq_Get rq) of
        AuthError status message \<Rightarrow> (writeError status message, s)
      | Serve \<Rightarrow>
          (case api_handler opts jc env path of Some h \<Rightarrow> h rq s | None \<Rightarrow> (not_found, s)))"

end
