(* ===== verification/ApiFacts.thy ===== *)
theory ApiFacts
  imports ApiHandlers ConfigProperties
begin

text \<open>
  Facts on the management API: when a sync calls the commit of a handler and with what, what a sync leaves of
  the server on each of its ways, and which handlers touch nothing.
\<close>

section \<open>The call of the commit\<close>

lemma commit_call_eq:
  "commit_call env preserve candidate r =
     (if unreadable env candidate \<noteq> None then None
      else case Renderer_Render (rec_renderer (prepared env candidate r)) (sync_routes env preserve r) of
        Inl e \<Rightarrow> None
      | Inr rendered \<Rightarrow>
          (case fst (sv_load env 0 (rec_runtime r) rendered) of
             Some e \<Rightarrow> None | None \<Rightarrow> Some (sync_snapshot env preserve r, sync_world env r)))"
proof -
  define r2 where "r2 = (case candidate of Some c \<Rightarrow> Rec_UpdateConfig c (beginGeneration r) | None \<Rightarrow> beginGeneration r)
       \<lparr>rec_world := sv_between env (rec_world (beginGeneration r))\<rparr>"
  have snap: "(if preserve then AppliedSnapshot (w_store (rec_world (beginGeneration r))) else DesiredSnapshot (w_store (rec_world r2)))
      = sync_snapshot env preserve r"
    by (simp add: r2_def sync_snapshot_def)
  have reading: "sv_reader env = None \<or> (\<exists>e. sv_reader env = Some (Inl e)) \<or> (\<exists>b. sv_reader env = Some (Inr b))"
    by (metis not_None_eq old.sum.exhaust)
  show ?thesis
    unfolding commit_call_def unreadable_def
    apply (simp only: Let_def r2_def [symmetric] snap discovered_prepared [OF r2_def] sync_routes_def [symmetric] prod.case)
    using reading by (elim disjE exE; cases candidate; simp add: load_runtime_eq cong: option.case_cong sum.case_cong prod.case_cong)
qed

lemma sync_commit_call:
  assumes "syncLocked env wenv preserve candidate (Some c) r = (res, goes, all, r')"
  shows "case commit_call env preserve candidate r of
      None \<Rightarrow> \<not> goes \<and> (rec_world r' = rec_world r \<or> rec_world r' = sync_world env r)
    | Some (snap, w) \<Rightarrow> snap = sync_snapshot env preserve r \<and> w = sync_world env r \<and>
        (goes \<longleftrightarrow> \<not> isl (fst (c snap w))) \<and> rec_world r' = snd (c snap w)"
proof (cases "commit_call env preserve candidate r")
  case None
  then have "\<not> goes" using assms
    by (auto simp: commit_call_eq syncLocked_eq Let_def load_runtime_eq split: option.splits sum.splits prod.splits if_splits)
  moreover have "rec_world r' = rec_world r \<or> rec_world r' = sync_world env r"
    using assms None
    by (auto simp: commit_call_eq syncLocked_eq Let_def load_runtime_eq dest!: roll_back_fields
        split: option.splits sum.splits prod.splits if_splits)
  ultimately show ?thesis using None by simp
next
  case (Some sw)
  then show ?thesis using assms
    by (auto simp: commit_call_eq syncLocked_eq default_commit_def Let_def load_runtime_eq dest!: roll_back_fields
        split: option.splits sum.splits prod.splits if_splits)
qed

section \<open>What a sync leaves of the server\<close>

text \<open>
  What other goroutines do: they keep the routing store reachable, and they do not change the configuration
  (only handlers do, one at a time).
\<close>

definition background :: "ApiEnv \<Rightarrow> bool" where
  "background env \<longleftrightarrow>
     (\<forall>w. reachable w \<longrightarrow> reachable (sv_between (en_sync env) w) \<and> reachable (sv_during (en_sync env) w)) \<and>
     (\<forall>r. aligned r \<longrightarrow> reachable (rec_world r) \<longrightarrow> aligned (en_meanwhile env r) \<and> reachable (rec_world (en_meanwhile env r)) \<and>
        rec_cfg (en_meanwhile env r) = rec_cfg r)"

definition steady :: "Server \<Rightarrow> bool" where
  "steady s \<longleftrightarrow> aligned (srv_rec s) \<and> reachable (rec_world (srv_rec s)) \<and> rec_cfg (srv_rec s) = srv_cfg s"

lemma sync_world_reachable: "background env \<Longrightarrow> reachable (rec_world r) \<Longrightarrow> reachable (sync_world (en_sync env) r)"
  by (simp add: background_def sync_world_def)

lemma complete_steady:
  assumes "complete now checker azure f r = (res, r')" "aligned r" "reachable (rec_world r)"
  shows "aligned r' \<and> reachable (rec_world r') \<and> rec_cfg r' = rec_cfg r"
  using finish_fields [OF assms(1)] assms(2,3) by (auto simp: aligned_def status_reachable)

lemma sync_cfg:
  assumes "syncLocked env wenv preserve candidate commit r = (res, goes, all, r')" "aligned r"
  shows "aligned r' \<and> rec_cfg r' = (if goes then sync_config candidate r else rec_cfg r)"
proof (cases goes)
  case True
  with assms(1) have "syncLocked env wenv preserve candidate commit r = (res, True, all, r')" by simp
  then show ?thesis using assms(2) True by (rule_tac sync_success) auto
next
  case False
  with assms(1) have "syncLocked env wenv preserve candidate commit r = (res, False, all, r')" by simp
  from sync_stop_fields [OF this assms(2)] False show ?thesis by simp
qed

lemma sync_with_commit_cases:
  assumes "sync_with_commit env preserve candidate commit s = (result, committed, s1)"
    and "steady s" "background env"
    and "\<And>snap t u t'. reachable (rec_world (srv_rec t)) \<Longrightarrow> commit snap t = (u, t') \<Longrightarrow> reachable (rec_world (srv_rec t'))"
  obtains (uncalled) r2 where "\<not> committed" "commit_call (en_sync env) preserve candidate (srv_rec s) = None"
      "s1 = s\<lparr>srv_rec := r2\<rparr>" "aligned r2" "reachable (rec_world r2)" "rec_cfg r2 = srv_cfg s"
  | (refused) snap w e t r2 where "\<not> committed" "commit snap (with_world w s) = (Inl e, t)"
      "s1 = t\<lparr>srv_rec := r2\<rparr>" "aligned r2" "reachable (rec_world r2)" "rec_cfg r2 = srv_cfg s"
  | (committed) snap w t r2 where "committed" "commit snap (with_world w s) = (Inr (), t)"
      "s1 = t\<lparr>srv_rec := r2\<rparr>" "aligned r2" "reachable (rec_world r2)"
      "rec_cfg r2 = (case candidate of Some c \<Rightarrow> c | None \<Rightarrow> srv_cfg s)"
proof -
  let ?r = "srv_rec s"
  obtain res goes all r' where sync: "syncLocked (en_sync env) (en_store env) preserve candidate (Some (store_commit commit s)) ?r = (res, goes, all, r')"
    by (metis prod.collapse)
  define f where "f = fst (launch (res, goes, all, r'))"
  have l: "launch (res, goes, all, r') = (f, r')" "fl_goes f = goes" by (simp_all add: f_def launch_def)
  define r1 where "r1 = (if goes then en_meanwhile env r' else r')"
  obtain r2 where fin: "complete (en_finish env) (en_checker env) (en_azure env) f r1 = (result, r2)"
      and s1: "s1 = (case commit_call (en_sync env) preserve candidate ?r of
             None \<Rightarrow> s | Some (snapshot, w) \<Rightarrow> snd (commit snapshot (with_world w s)))\<lparr>srv_rec := r2\<rparr>"
      and goes: "committed = goes"
    using assms(1) by (auto simp: sync_with_commit_def Let_def sync l r1_def split: prod.splits)
  have a: "aligned ?r" "reachable (rec_world ?r)" "rec_cfg ?r = srv_cfg s" using assms(2) by (simp_all add: steady_def)
  have w: "reachable (sync_world (en_sync env) ?r)" using sync_world_reachable [OF assms(3) a(2)] .
  have cfg: "aligned r'" "rec_cfg r' = (if goes then sync_config candidate ?r else srv_cfg s)"
    using sync_cfg [OF sync a(1)] a(3) by simp_all
  note call = sync_commit_call [OF sync]
  have step: "aligned r2 \<and> reachable (rec_world r2) \<and> rec_cfg r2 = rec_cfg r'" if "reachable (rec_world r')"
  proof -
    have "aligned r1 \<and> reachable (rec_world r1) \<and> rec_cfg r1 = rec_cfg r'"
      using assms(3) cfg(1) that by (simp add: r1_def background_def)
    then show ?thesis using complete_steady [OF fin] by simp
  qed
  show thesis
  proof (cases "commit_call (en_sync env) preserve candidate ?r")
    case None
    then have "reachable (rec_world r')" "\<not> goes" using call a(2) w by auto
    then show thesis using step cfg(2) s1 None goes by (intro uncalled [of r2]) auto
  next
    case (Some sw)
    then obtain snap where sw: "sw = (snap, sync_world (en_sync env) ?r)" using call by (cases sw) auto
    let ?w = "sync_world (en_sync env) ?r"
    obtain u t where t: "commit snap (with_world ?w s) = (u, t)" by fastforce
    have g: "goes \<longleftrightarrow> \<not> isl u" "rec_world r' = rec_world (srv_rec t)"
      using call Some sw t by (simp_all add: store_commit_def)
    have "reachable (rec_world (srv_rec t))" using assms(4) [OF _ t] w by (simp add: with_world_def)
    then have r2: "aligned r2" "reachable (rec_world r2)" "rec_cfg r2 = rec_cfg r'" using step g(2) by simp_all
    have st: "s1 = t\<lparr>srv_rec := r2\<rparr>" using s1 Some sw t by simp
    show thesis
    proof (cases u)
      case (Inl e)
      then show thesis using g(1) goes r2 st t cfg(2) by (intro refused [of snap ?w e t r2]) auto
    next
      case (Inr x)
      then show thesis using g(1) goes r2 st t cfg(2) a(3)
        by (intro committed [of snap ?w t r2]) (auto simp: sync_config_def split: option.split)
    qed
  qed
qed

end
