(* ===== verification/ApiSteps.thy ===== *)
theory ApiSteps
  imports ApiFacts
begin

text \<open>
  The management API as a step relation. Whatever a request does to the server is one of the few steps of
  \<open>api_step\<close>: nothing, an audit record, one edit of the routing store, a change of the live configuration, a
  save of the settings, a staged import, an apply or a refresh. Every handler refines the relation, so a
  property of the requests is a property of these steps.
\<close>

section \<open>Operations of the routing store\<close>

lemma with_world_same [simp]: "with_world (rec_world (srv_rec s)) s = s"
  by (simp add: with_world_def)

lemma forget_unit [simp]: "forget (m :: (store_error + unit) \<times> World) = m"
  by (simp add: forget_def split: prod.split sum.split)

lemma on_world_failed:
  assumes "on_world f s = (Inl e, s1)" "\<And>w. forget (f w) = run_op env oper w"
  shows "s1 = s"
proof -
  obtain w where f: "f (rec_world (srv_rec s)) = (Inl e, w)" "s1 = with_world w s"
    using assms(1) by (auto simp: on_world_def split: prod.splits)
  then have "run_op env oper (rec_world (srv_rec s)) = (Inl e, w)"
    using assms(2) [of "rec_world (srv_rec s)"] by (simp add: forget_def)
  from run_op_atomic [OF this] f(2) show ?thesis by simp
qed

lemma on_world_edit:
  assumes "on_world f s = (Inr x, s1)" "\<And>w. forget (f w) = run_op env oper w"
  shows "\<exists>w. run_op env oper (rec_world (srv_rec s)) = (Inr (), w) \<and> s1 = with_world w s"
proof -
  obtain w where f: "f (rec_world (srv_rec s)) = (Inr x, w)" "s1 = with_world w s"
    using assms(1) by (auto simp: on_world_def split: prod.splits)
  then show ?thesis using assms(2) [of "rec_world (srv_rec s)"] by (metis (no_types, lifting) forget_def old.prod.case old.sum.simps(6))
qed

section \<open>The steps\<close>

text \<open>Every operation a request runs on the store; the import has a step of its own.\<close>

fun api_edit :: "routing_op \<Rightarrow> bool" where
  "api_edit (OpReplaceResources _) = False"
| "api_edit (OpStageResources _) = False"
| "api_edit (OpMarkApplied _) = False"
| "api_edit OpPersistStaged = False"
| "api_edit OpLoad = False"
| "api_edit (OpSetStatus _) = False"
| "api_edit _ = True"

definition live_persist :: "Options \<Rightarrow> ApiEnv \<Rightarrow> (Server \<Rightarrow> (string + unit) \<times> Server) \<Rightarrow> bool" where
  "live_persist opts env persist \<longleftrightarrow>
     (\<exists>settings. persist = save_settings opts env 0 settings) \<or> (\<exists>policy. persist = save_certificate opts env 0 policy)"

inductive api_step :: "Options \<Rightarrow> ApiEnv \<Rightarrow> Server \<Rightarrow> int \<Rightarrow> Server \<Rightarrow> bool" for opts env s where
  untouched: "api_step opts env s status s"
| recorded: "api_step opts env s status (audit opts event fs s)"
| edited: "api_edit oper \<Longrightarrow> run_op (en_store env) oper (rec_world (srv_rec s)) = (Inr (), w) \<Longrightarrow> status \<in> {200, 201} \<Longrightarrow>
    api_step opts env s status (audit opts event fs (with_world w s))"
| reconfigured: "srv_draft s = None \<Longrightarrow> validateConfig (srv_cfg s) = Inr () \<longrightarrow> validateConfig cfg = Inr () \<Longrightarrow> live_persist opts env persist \<Longrightarrow>
    commitLiveConfig opts env cfg persist s = (Inr result, s1) \<Longrightarrow> api_step opts env s 200 (audit opts event fs s1)"
| not_reconfigured: "srv_draft s = None \<Longrightarrow> live_persist opts env persist \<Longrightarrow>
    commitLiveConfig opts env cfg persist s = (Inl response, s1) \<Longrightarrow> api_step opts env s (rp_Status response) s1"
| saved: "srv_draft s = None \<Longrightarrow> save_settings opts env 0 settings s = (Inr u, s1) \<Longrightarrow>
    api_step opts env s 200 (audit opts event fs s1)"
| staged: "plan_import opts env bundle s = Inr (draft, store) \<Longrightarrow> on_world (StageResources (Resources store)) s = (Inr u, s1) \<Longrightarrow>
    api_step opts env s 200 (audit opts event fs (s1\<lparr>srv_draft := Some draft\<rparr>))"
| applied: "sync_with_commit env False (map_option dr_LiveConfig (srv_draft s)) (persistConfigurationImport opts env) s = (result, committed, s1) \<Longrightarrow>
    api_step opts env s 200 s1"
| refreshed: "srv_draft s = None \<Longrightarrow> sync_pending_kept env (audit opts event fs s) = (result, s1) \<Longrightarrow> api_step opts env s 200 s1"

lemma markRoutingChangesPending_id [simp]: "markRoutingChangesPending s = s"
  and clearRoutingChangesPending_id [simp]: "clearRoutingChangesPending s = s"
  by (simp_all add: markRoutingChangesPending_def clearRoutingChangesPending_def)

lemma status_simps [simp]:
  "rp_Status (writeJSON status p) = status" "rp_Status (writeError status m) = status"
  "rp_Status (ok_pending status name p) = status" "rp_Status methodNotAllowed = 405" "rp_Status import_pending_error = 409"
  "rp_Status not_found = 404"
  by (simp_all add: writeJSON_def writeError_def ok_pending_def methodNotAllowed_def import_pending_error_def not_found_def)

section \<open>Handlers of the routing resources\<close>

definition edits :: "(World \<Rightarrow> (string + 'a) \<times> World) \<Rightarrow> Env \<Rightarrow> bool" where
  "edits f e \<longleftrightarrow> (\<exists>oper. api_edit oper \<and> (\<forall>w. forget (f w) = run_op e oper w))"

lemma edits_ops [simp]:
  "edits (AddListener e l) e"
  "edits (ReplaceListener e l) e"
  "edits (DeleteListener e i) e"
  "edits (AddBackendPool e p) e"
  "edits (ReplaceBackendPool e p) e"
  "edits (DeleteBackendPool e i) e"
  "edits (AddRoutingRule e r) e"
  "edits (ReplaceRoutingRule e r) e"
  "edits (DeleteRoutingRule e i) e"
  "edits (addCompatibilityRoute e c) e"
  "edits (replaceCompatibilityRoute e c) e"
  "edits (deleteCompatibilityRoute e i) e"
  unfolding edits_def
  subgoal by (rule exI [of _ "OpAddListener l"]) simp
  subgoal by (rule exI [of _ "OpReplaceListener l"]) simp
  subgoal by (rule exI [of _ "OpDeleteListener i"]) simp
  subgoal by (rule exI [of _ "OpAddPool p"]) simp
  subgoal by (rule exI [of _ "OpReplacePool p"]) simp
  subgoal by (rule exI [of _ "OpDeletePool i"]) simp
  subgoal by (rule exI [of _ "OpAddRule r"]) simp
  subgoal by (rule exI [of _ "OpReplaceRule r"]) simp
  subgoal by (rule exI [of _ "OpDeleteRule i"]) simp
  subgoal by (rule exI [of _ "OpAddRoute c"]) simp
  subgoal by (rule exI [of _ "OpReplaceRoute c"]) simp
  subgoal by (rule exI [of _ "OpDeleteRoute i"]) simp
  done

lemma edit_failed: "on_world f s = (Inl m, s1) \<Longrightarrow> edits f e \<Longrightarrow> s1 = s"
  unfolding edits_def by (metis on_world_failed)

lemmas op_failed = edits_ops [THEN edit_failed [rotated]]

lemma edit_step:
  assumes "on_world f s = (Inr x, s1)" "edits f (en_store env)" "status \<in> {200, 201}"
  shows "api_step opts env s status (audit opts event fs s1)"
proof -
  obtain oper where "api_edit oper" "\<And>w. forget (f w) = run_op (en_store env) oper w" using assms(2) by (auto simp: edits_def)
  with on_world_edit [OF assms(1)] api_step.edited [of oper env s _ status] assms(3) show ?thesis by blast
qed

lemmas handler_splits = if_splits sum.splits prod.splits option.splits

lemma resource_steps:
  "handleListeners opts jc env rq s = (resp, s') \<Longrightarrow> api_step opts env s (rp_Status resp) s'"
  "handleListenerByID opts jc env rq s = (resp, s') \<Longrightarrow> api_step opts env s (rp_Status resp) s'"
  "handleBackendPools opts jc env rq s = (resp, s') \<Longrightarrow> api_step opts env s (rp_Status resp) s'"
  "handleBackendPoolByID opts jc env rq s = (resp, s') \<Longrightarrow> api_step opts env s (rp_Status resp) s'"
  "handleRoutingRules opts jc env rq s = (resp, s') \<Longrightarrow> api_step opts env s (rp_Status resp) s'"
  "handleRoutingRuleByID opts jc env rq s = (resp, s') \<Longrightarrow> api_step opts env s (rp_Status resp) s'"
  "handleRoutes opts jc env rq s = (resp, s') \<Longrightarrow> api_step opts env s (rp_Status resp) s'"
  "handleRouteByID opts jc env rq s = (resp, s') \<Longrightarrow> api_step opts env s (rp_Status resp) s'"
  "handleBindContainer opts jc env rq s = (resp, s') \<Longrightarrow> api_step opts env s (rp_Status resp) s'"
  subgoal by (auto simp: handleListeners_def Let_def writeRoutingResourceError_def split: handler_splits dest!: op_failed intro!: api_step.untouched edit_step edits_ops)
  subgoal by (auto simp: handleListenerByID_def Let_def writeRoutingResourceError_def split: handler_splits dest!: op_failed intro!: api_step.untouched edit_step edits_ops)
  subgoal by (auto simp: handleBackendPools_def Let_def writeRoutingResourceError_def split: handler_splits dest!: op_failed intro!: api_step.untouched edit_step edits_ops)
  subgoal by (auto simp: handleBackendPoolByID_def Let_def writeRoutingResourceError_def split: handler_splits dest!: op_failed intro!: api_step.untouched edit_step edits_ops)
  subgoal by (auto simp: handleRoutingRules_def Let_def writeRoutingResourceError_def split: handler_splits dest!: op_failed intro!: api_step.untouched edit_step edits_ops)
  subgoal by (auto simp: handleRoutingRuleByID_def Let_def writeRoutingResourceError_def split: handler_splits dest!: op_failed intro!: api_step.untouched edit_step edits_ops)
  subgoal by (auto simp: handleRoutes_def Let_def split: handler_splits dest!: op_failed intro!: api_step.untouched edit_step edits_ops)
  subgoal by (auto simp: handleRouteByID_def Let_def split: handler_splits dest!: op_failed intro!: api_step.untouched edit_step edits_ops)
  subgoal by (auto simp: handleBindContainer_def Let_def split: handler_splits dest!: op_failed intro!: api_step.untouched edit_step edits_ops)
  done

section \<open>Handlers of the settings, the certificates and the imports\<close>

lemma live_persist_save [simp]: "live_persist opts env (save_settings opts env 0 settings)" "live_persist opts env (save_certificate opts env 0 policy)"
  by (auto simp: live_persist_def)

lemma validateConfig_certificate:
  "ValidateCertificateConfig cert = Inr () \<Longrightarrow> validateConfig cfg = Inr () \<Longrightarrow>
   validateConfig (cfg\<lparr>ap_Gateway := (ap_Gateway cfg)\<lparr>gw_Certificate := cert\<rparr>\<rparr>) = Inr ()"
  by (auto simp: validateConfig_def Let_def res_simps split: if_splits)

lemma validateConfig_token: "validateConfig (with_token token cfg) = validateConfig cfg"
  by (simp add: with_token_def validateConfig_def Let_def)

lemma reconfigure_step:
  assumes "commitLiveConfig opts env cfg persist s = (r, s1)" "srv_draft s = None" "live_persist opts env persist"
    and "validateConfig (srv_cfg s) = Inr () \<longrightarrow> validateConfig cfg = Inr ()"
    and "case r of Inl response \<Rightarrow> resp = response \<and> s' = s1 | Inr x \<Rightarrow> rp_Status resp = 200 \<and> s' = audit opts event fs s1"
  shows "api_step opts env s (rp_Status resp) s'"
  using assms api_step.reconfigured [of s cfg opts env persist _ s1 event fs] api_step.not_reconfigured [of s opts env persist cfg _ s1]
  by (cases r) auto

lemma save_failed: "save_settings opts env k settings s = (Inl e, s1) \<Longrightarrow> s1 = s" "save_certificate opts env k policy s = (Inl e, s1) \<Longrightarrow> s1 = s"
  by (auto simp: save_settings_def save_certificate_def SettingsStore_Save_def CertificateStore_Save_def Let_def
      split: prod.splits option.splits if_splits)

lemma certificate_steps:
  "handleCertificate opts jc env rq s = (resp, s') \<Longrightarrow> api_step opts env s (rp_Status resp) s'"
  "handleCertificateRefresh opts env rq s = (resp, s') \<Longrightarrow> api_step opts env s (rp_Status resp) s'"
  "handleCertificateArchive opts jc env rq s = (resp, s') \<Longrightarrow> api_step opts env s (rp_Status resp) s'"
  subgoal
    by (auto simp: handleCertificate_def Let_def configurationImportPending_def split: handler_splits
        intro!: api_step.untouched intro: reconfigure_step [where event = "''certificate.update''"] validateConfig_certificate)
  subgoal
    by (auto simp: handleCertificateRefresh_def Let_def configurationImportPending_def split: handler_splits
        intro!: api_step.untouched intro: api_step.refreshed)
  subgoal
    by (auto simp: handleCertificateArchive_def Let_def split: handler_splits intro!: api_step.untouched api_step.recorded)
  done

lemma settings_steps:
  "handleSettings opts rq s = (resp, s') \<Longrightarrow> api_step opts env s (rp_Status resp) s'"
  "handleSecuritySettings opts jc env rq s = (resp, s') \<Longrightarrow> api_step opts env s (rp_Status resp) s'"
  "handleSystemSettings opts jc env rq s = (resp, s') \<Longrightarrow> api_step opts env s (rp_Status resp) s'"
  "handleAzurePermissions opts jc env rq s = (resp, s') \<Longrightarrow> api_step opts env s (rp_Status resp) s'"
  subgoal by (auto simp: handleSettings_def split: handler_splits intro!: api_step.untouched)
  subgoal
    by (auto simp: handleSecuritySettings_def Let_def configurationImportPending_def split: handler_splits dest: accepted_parts(2)
        intro!: api_step.untouched intro: reconfigure_step [where event = "''settings.security.update''"])
  subgoal
    by (auto simp: handleSystemSettings_def Let_def configurationImportPending_def validateConfig_token split: handler_splits dest!: save_failed
        intro!: api_step.untouched api_step.saved intro: reconfigure_step [where event = "''settings.system.update''"])
  subgoal by (auto simp: handleAzurePermissions_def split: handler_splits intro!: api_step.untouched api_step.recorded)
  done

lemma bundle_steps:
  "exportConfigurationBundle opts jc env s = (resp, s') \<Longrightarrow> api_step opts env s (rp_Status resp) s'"
  "importConfigurationBundle opts jc env rq s = (resp, s') \<Longrightarrow> api_step opts env s (rp_Status resp) s'"
  "handleConfigurationBundle opts jc env rq s = (resp, s') \<Longrightarrow> api_step opts env s (rp_Status resp) s'"
proof -
  show e: "exportConfigurationBundle opts jc env s = (resp, s') \<Longrightarrow> api_step opts env s (rp_Status resp) s'"
    by (auto simp: exportConfigurationBundle_def Let_def split: handler_splits intro!: api_step.untouched api_step.recorded)
  have stage: "on_world (StageResources rs) s = (Inl e, s1) \<Longrightarrow> s1 = s" for rs e s1
    by (erule on_world_failed [where oper = "OpStageResources rs"]) simp
  show i: "importConfigurationBundle opts jc env rq s = (resp, s') \<Longrightarrow> api_step opts env s (rp_Status resp) s'"
    by (auto simp: importConfigurationBundle_def Let_def split: handler_splits dest!: stage intro!: api_step.untouched intro: api_step.staged)
  show "handleConfigurationBundle opts jc env rq s = (resp, s') \<Longrightarrow> api_step opts env s (rp_Status resp) s'"
    using e i by (auto simp: handleConfigurationBundle_def split: if_splits intro: api_step.untouched)
qed

lemma reading_steps:
  "handleStatus opts rq s = (resp, s') \<Longrightarrow> s' = s"
  "handleContainers opts env rq s = (resp, s') \<Longrightarrow> s' = s"
  "handleConfig rq s = (resp, s') \<Longrightarrow> s' = s"
  "handleAudit opts env rq s = (resp, s') \<Longrightarrow> s' = s"
  "handleLogs opts env rq s = (resp, s') \<Longrightarrow> s' = s"
  "handleSettings opts rq s = (resp, s') \<Longrightarrow> s' = s"
  "handleLive rq s = (resp, s') \<Longrightarrow> s' = s"
  "handleReady opts env rq s = (resp, s') \<Longrightarrow> s' = s"
  by (auto simp: handleStatus_def handleContainers_def handleConfig_def handleAudit_def handleLogs_def handleSettings_def
      handleLive_def handleReady_def Let_def split: handler_splits)

lemma reconcile_step: "handleReconcile opts env rq s = (resp, s') \<Longrightarrow> api_step opts env s (rp_Status resp) s'"
  by (auto simp: handleReconcile_def split: handler_splits intro: api_step.untouched api_step.applied)

section \<open>Every request is a step\<close>

text \<open>The handlers there are; only the one of the archive needs its path below.\<close>

definition api_routes :: "Options \<Rightarrow> ApiCodec \<Rightarrow> ApiEnv \<Rightarrow> (string \<times> (Request \<Rightarrow> Server \<Rightarrow> Response \<times> Server)) list" where
  "api_routes opts jc env = [(''/api/status'', handleStatus opts), (''/api/listeners'', handleListeners opts jc env),
         (''/api/backend-pools'', handleBackendPools opts jc env), (''/api/routing-rules'', handleRoutingRules opts jc env),
         (''/api/routes'', handleRoutes opts jc env), (''/api/discovery/bind'', handleBindContainer opts jc env),
         (''/api/discovery/containers'', handleContainers opts env), (''/api/reconcile'', handleReconcile opts env),
         (''/api/certificate'', handleCertificate opts jc env), (''/api/certificate/refresh'', handleCertificateRefresh opts env),
         (''/api/certificate/archive'', handleCertificateArchive opts jc env), (''/api/config'', handleConfig),
         (''/api/settings'', handleSettings opts), (''/api/settings/configuration'', handleConfigurationBundle opts jc env),
         (''/api/settings/security'', handleSecuritySettings opts jc env), (''/api/settings/system'', handleSystemSettings opts jc env),
         (''/api/settings/azure/permissions'', handleAzurePermissions opts jc env), (''/api/audit'', handleAudit opts env),
         (''/api/logs'', handleLogs opts env)]"

lemma api_handler_in:
  assumes "api_handler opts jc env path = Some h"
  shows "(path, h) \<in> set (api_routes opts jc env) \<or> h = handleListenerByID opts jc env \<or> h = handleBackendPoolByID opts jc env \<or>
    h = handleRoutingRuleByID opts jc env \<or> h = handleRouteByID opts jc env"
  using assms unfolding api_handler_def api_routes_def [symmetric]
  by (auto split: option.splits if_splits dest: map_of_SomeD)

lemma api_handlerE:
  assumes "api_handler opts jc env path = Some h"
  obtains "path = ''/api/settings/configuration''" "h = handleConfigurationBundle opts jc env"
  | "h = handleStatus opts"
  | "h = handleListeners opts jc env"
  | "h = handleBackendPools opts jc env"
  | "h = handleRoutingRules opts jc env"
  | "h = handleRoutes opts jc env"
  | "h = handleBindContainer opts jc env"
  | "h = handleContainers opts env"
  | "h = handleReconcile opts env"
  | "h = handleCertificate opts jc env"
  | "h = handleCertificateRefresh opts env"
  | "h = handleCertificateArchive opts jc env"
  | "h = handleConfig"
  | "h = handleSettings opts"
  | "h = handleSecuritySettings opts jc env"
  | "h = handleSystemSettings opts jc env"
  | "h = handleAzurePermissions opts jc env"
  | "h = handleAudit opts env"
  | "h = handleLogs opts env"
  | "h = handleListenerByID opts jc env"
  | "h = handleBackendPoolByID opts jc env"
  | "h = handleRoutingRuleByID opts jc env"
  | "h = handleRouteByID opts jc env"
proof -
  from api_handler_in [OF assms] show thesis
    by (simp only: api_routes_def list.set insert_iff empty_iff prod.inject simp_thms)
      (elim disjE conjE; (rule that, assumption+))
qed

lemma handler_step:
  assumes "api_handler opts jc env path = Some h" "h rq s = (resp, s')"
  shows "api_step opts env s (rp_Status resp) s'"
  using assms(2)
  by (rule_tac api_handlerE [OF assms(1)])
    (auto dest!: reading_steps intro: api_step.untouched resource_steps certificate_steps settings_steps bundle_steps reconcile_step)

lemma serve_step:
  assumes "serve opts jc env rq s = (resp, s')"
  shows "api_step opts env s (rp_Status resp) s'"
  using assms
  by (auto simp: serve_def Let_def split: if_splits outcome.splits option.splits dest!: reading_steps
      intro: api_step.untouched handler_step)

end
