(* ===== verification/ApiOutcomes.thy ===== *)
theory ApiOutcomes
  imports ApiSteps
begin

text \<open>
  The outcomes of the commits of the management API: what a change of the live configuration and an apply of a
  staged import leave of the server when they fail and when they succeed.
\<close>

section \<open>The stores and the live configuration\<close>

lemma live_persist_fields:
  assumes "live_persist opts env persist" "persist t = (u, t')"
  shows "srv_rec t' = srv_rec t" "srv_cfg t' = srv_cfg t" "srv_draft t' = srv_draft t" "srv_events t' = srv_events t"
    "isl u \<Longrightarrow> t' = t"
  using assms by (auto simp: live_persist_def save_settings_def save_certificate_def SettingsStore_Save_def CertificateStore_Save_def
      Let_def split: prod.splits option.splits if_splits)

lemma audit_fields [simp]:
  "srv_rec (audit opts e fs s) = srv_rec s" "srv_cfg (audit opts e fs s) = srv_cfg s" "srv_draft (audit opts e fs s) = srv_draft s"
  "srv_settings (audit opts e fs s) = srv_settings s" "srv_certificates (audit opts e fs s) = srv_certificates s"
  "steady (audit opts e fs s) = steady s"
  by (simp_all add: audit_def steady_def)

lemma applyLiveConfig_fields [simp]:
  "srv_cfg (applyLiveConfig cfg s) = cfg" "srv_draft (applyLiveConfig cfg s) = srv_draft s"
  "srv_settings (applyLiveConfig cfg s) = srv_settings s" "srv_certificates (applyLiveConfig cfg s) = srv_certificates s"
  "rec_world (srv_rec (applyLiveConfig cfg s)) = rec_world (srv_rec s)" "srv_events (applyLiveConfig cfg s) = srv_events s"
  by (simp_all add: applyLiveConfig_def Rec_UpdateConfig_def)

lemma with_world_fields [simp]:
  "srv_cfg (with_world w s) = srv_cfg s" "srv_draft (with_world w s) = srv_draft s" "rec_world (srv_rec (with_world w s)) = w"
  "srv_settings (with_world w s) = srv_settings s" "srv_certificates (with_world w s) = srv_certificates s"
  "rec_cfg (srv_rec (with_world w s)) = rec_cfg (srv_rec s)" "srv_events (with_world w s) = srv_events s"
  by (simp_all add: with_world_def)

definition live_commit :: "AppConfig \<Rightarrow> (Server \<Rightarrow> (string + unit) \<times> Server) \<Rightarrow> Snapshot \<Rightarrow> Server \<Rightarrow> (string + unit) \<times> Server" where
  "live_commit cfg persist = (\<lambda>_ t. case persist t of (Inl e, t1) \<Rightarrow> (Inl e, t1) | (Inr _, t1) \<Rightarrow> (Inr (), applyLiveConfig cfg t1))"

lemma live_commit_world:
  "live_persist opts env persist \<Longrightarrow> live_commit cfg persist snap t = (u, t') \<Longrightarrow> rec_world (srv_rec t') = rec_world (srv_rec t)"
  by (auto simp: live_commit_def split: prod.splits sum.splits dest: live_persist_fields(1))

definition keeps_reachable :: "(Snapshot \<Rightarrow> Server \<Rightarrow> (string + unit) \<times> Server) \<Rightarrow> bool" where
  "keeps_reachable commit \<longleftrightarrow>
     (\<forall>snap t u t'. reachable (rec_world (srv_rec t)) \<longrightarrow> commit snap t = (u, t') \<longrightarrow> reachable (rec_world (srv_rec t')))"

lemma sync_outcomes [consumes 4, case_names uncalled refused committed]:
  assumes "sync_with_commit env preserve candidate commit s = (result, committed, s1)" "steady s" "background env"
    and "keeps_reachable commit"
  obtains r2 where "\<not> committed" "s1 = s\<lparr>srv_rec := r2\<rparr>" "aligned r2" "reachable (rec_world r2)" "rec_cfg r2 = srv_cfg s"
  | snap w e t r2 where "\<not> committed" "commit snap (with_world w s) = (Inl e, t)"
      "s1 = t\<lparr>srv_rec := r2\<rparr>" "aligned r2" "reachable (rec_world r2)" "rec_cfg r2 = srv_cfg s"
  | snap w t r2 where "committed" "commit snap (with_world w s) = (Inr (), t)"
      "s1 = t\<lparr>srv_rec := r2\<rparr>" "aligned r2" "reachable (rec_world r2)"
      "rec_cfg r2 = (case candidate of Some c \<Rightarrow> c | None \<Rightarrow> srv_cfg s)"
proof -
  have keeps: "reachable (rec_world (srv_rec t'))" if "reachable (rec_world (srv_rec t))" "commit snap t = (u, t')" for snap t u t'
    using assms(4) that by (auto simp: keeps_reachable_def)
  show thesis
    apply (rule sync_with_commit_cases [OF assms(1-3)])
       apply (erule (1) keeps)
      apply (rule that(1); assumption)
     apply (rule that(2); assumption)
    apply (rule that(3); assumption)
    done
qed

text \<open>The outcomes of a change of the live configuration: it fails and changes nothing else, or it is there as a whole.\<close>

lemma commitLiveConfig_cases:
  assumes "commitLiveConfig opts env cfg persist s = (r, s1)" "steady s" "background env" "live_persist opts env persist"
  obtains (failed) response where "r = Inl response" "rp_Status response = 503" "srv_cfg s1 = srv_cfg s" "srv_draft s1 = srv_draft s"
      "srv_settings s1 = srv_settings s" "srv_certificates s1 = srv_certificates s" "steady s1"
  | (succeeded) result w t where "r = Inr result" "persist (with_world w s) = (Inr (), t)" "srv_cfg s1 = cfg" "srv_draft s1 = srv_draft s"
      "srv_settings s1 = srv_settings t" "srv_certificates s1 = srv_certificates t" "steady s1"
proof (cases "op_Reconciler opts")
  case False
  then show thesis using assms(1,2) by (intro failed) (auto simp: commitLiveConfig_def)
next
  case True
  obtain result committed s2 where sync: "sync_with_commit env True (Some cfg) (live_commit cfg persist) s = (result, committed, s2)"
    by (metis prod.collapse)
  have out: "s1 = s2" "r = (if committed then Inr result else Inl (writeError 503 (re_Error result)))"
    using assms(1) True sync by (simp_all add: commitLiveConfig_def live_commit_def)
  have "keeps_reachable (live_commit cfg persist)"
    unfolding keeps_reachable_def using live_commit_world [OF assms(4)] by metis
  from sync assms(2,3) this show thesis
  proof (cases rule: sync_outcomes)
    case (uncalled r2)
    then show ?thesis using out assms(2) by (intro failed) (auto simp: steady_def)
  next
    case (refused snap w e t r2)
    then have "persist (with_world w s) = (Inl e, t)" by (auto simp: live_commit_def split: prod.splits sum.splits)
    from live_persist_fields(5) [OF assms(4) this] refused show ?thesis using out
      by (intro failed) (auto simp: steady_def)
  next
    case (committed snap w t r2)
    then obtain t1 where t1: "persist (with_world w s) = (Inr (), t1)" "t = applyLiveConfig cfg t1"
      by (auto simp: live_commit_def split: prod.splits sum.splits)
    from live_persist_fields [OF assms(4) t1(1)] t1 committed show ?thesis using out
      by (intro succeeded [of result w t1]) (auto simp: steady_def)
  qed
qed

section \<open>The outcome of an apply\<close>

definition path_of :: "string option \<Rightarrow> string" where
  "path_of path = (case path of Some p \<Rightarrow> p | None \<Rightarrow> [])"

lemma save_outcome:
  "save_settings opts env k v t = (r, t') \<Longrightarrow>
     (\<exists>e. r = Inl e \<and> t' = t \<and> (en_settingsWrite env k \<noteq> None \<or> path_of (op_SettingsPath opts) = [])) \<or>
     (r = Inr () \<and> path_of (op_SettingsPath opts) \<noteq> [] \<and> en_settingsWrite env k = None \<and>
      t' = t\<lparr>srv_settings := (srv_settings t)(path_of (op_SettingsPath opts) := Saved v)\<rparr>)"
  "save_certificate opts env k c t = (r, t') \<Longrightarrow>
     (\<exists>e. r = Inl e \<and> t' = t \<and> (en_certificateWrite env k \<noteq> None \<or> path_of (op_CertificatePath opts) = [])) \<or>
     (r = Inr () \<and> path_of (op_CertificatePath opts) \<noteq> [] \<and> en_certificateWrite env k = None \<and>
      t' = t\<lparr>srv_certificates := (srv_certificates t)(path_of (op_CertificatePath opts) := Saved c)\<rparr>)"
  by (auto simp: save_settings_def save_certificate_def SettingsStore_Save_def CertificateStore_Save_def Let_def path_of_def
      split: prod.splits option.splits if_splits)

lemma mark_applied_failed: "on_world (MarkApplied e snap) t = (Inl m, t') \<Longrightarrow> t' = t"
  by (erule on_world_failed [where oper = "OpMarkApplied snap"]) simp

lemma mark_applied_fields:
  "on_world (MarkApplied e snap) t = (r, t') \<Longrightarrow> \<exists>w. t' = with_world w t \<and> (reachable (rec_world (srv_rec t)) \<longrightarrow> reachable w)"
  using MarkApplied_reachable [of "rec_world (srv_rec t)" e snap] by (auto simp: on_world_def split: prod.splits)

text \<open>A failed apply of a draft: what its files hold then, when its roll back could write.\<close>

definition rolled_back :: "Options \<Rightarrow> configurationImportDraft \<Rightarrow> Server \<Rightarrow> Server \<Rightarrow> bool" where
  "rolled_back opts d s s' \<longleftrightarrow>
     (srv_settings s' = srv_settings s \<or> srv_settings s' = (srv_settings s)(path_of (op_SettingsPath opts) := Saved (dr_PreviousSettings d))) \<and>
     (srv_certificates s' = srv_certificates s \<or>
        srv_certificates s' = (srv_certificates s)(path_of (op_CertificatePath opts) := Saved (dr_PreviousCertificatePolicy d)))"

lemma persist_failed:
  assumes "persistConfigurationImport opts env snap t = (Inl e, t')"
  shows "srv_rec t' = srv_rec t" "srv_cfg t' = srv_cfg t" "srv_draft t' = srv_draft t" "srv_events t' = srv_events t"
    "srv_draft t = None \<Longrightarrow> t' = t"
    "srv_draft t = Some d \<Longrightarrow> en_settingsWrite env 1 = None \<Longrightarrow> en_certificateWrite env 1 = None \<Longrightarrow> rolled_back opts d t t'"
  using assms
  by (auto simp: persistConfigurationImport_def rolled_back_def split: prod.splits option.splits sum.splits
      dest!: mark_applied_failed save_outcome)

lemma persist_done:
  assumes "persistConfigurationImport opts env snap t = (Inr u, t')"
  shows "srv_draft t' = None"
    "srv_draft t = None \<Longrightarrow> srv_cfg t' = srv_cfg t \<and> srv_settings t' = srv_settings t \<and> srv_certificates t' = srv_certificates t"
    "srv_draft t = Some d \<Longrightarrow> srv_cfg t' = dr_LiveConfig d \<and>
       srv_settings t' = (srv_settings t)(path_of (op_SettingsPath opts) := Saved (dr_Settings d)) \<and>
       srv_certificates t' = (srv_certificates t)(path_of (op_CertificatePath opts) := Saved (dr_CertificatePolicy d))"
  using assms
  by (auto simp: persistConfigurationImport_def split: prod.splits option.splits sum.splits dest!: save_outcome mark_applied_fields)

lemma persist_reachable: "keeps_reachable (persistConfigurationImport opts env)"
proof -
  have "reachable (rec_world (srv_rec t'))"
    if r: "reachable (rec_world (srv_rec t))" and p: "persistConfigurationImport opts env snap t = (u, t')" for snap t u t'
  proof (cases u)
    case (Inl e)
    then show ?thesis using persist_failed(1) p r by metis
  next
    case (Inr x)
    then show ?thesis using p r
      by (auto simp: persistConfigurationImport_def split: prod.splits option.splits sum.splits dest!: save_outcome mark_applied_fields)
  qed
  then show ?thesis by (auto simp: keeps_reachable_def)
qed

text \<open>Nothing else works on the routing store during a sync.\<close>

definition undisturbed :: "ApiEnv \<Rightarrow> bool" where
  "undisturbed env \<longleftrightarrow> (\<forall>w. sv_between (en_sync env) w = w \<and> sv_during (en_sync env) w = w)"

end
