(* ===== verification/ApiSamples.thy ===== *)
theory ApiSamples
  imports ApiOutcomes ReconcileProperties
begin

text \<open>A server with an empty store, its surroundings and a few requests, on which the properties are evaluated.\<close>

definition shop_policy :: CertificateConfig where
  "shop_policy = sample_policy\<lparr>ce_Subjects := [''shop.example.com'']\<rparr>"

definition api_config0 :: AppConfig where
  "api_config0 = (in_certificate (\<lambda>_. shop_policy) (defaults Map.empty))\<lparr>ap_Auth := (ap_Auth (defaults Map.empty))\<lparr>au_AdminToken := ''t0ken'', au_AdminTokens := [''x'']\<rparr>\<rparr>"

definition api_config :: AppConfig where
  "api_config = normalizeConfig api_config0"

lemma api_config_value [code]:
  "api_config = \<lparr>ap_Profile = ''vm'', ap_DeploymentMode = ''container-socket'', ap_Control = \<lparr>cc_Listen = '':8080'',
     cc_ManagementHost = []\<rparr>, ap_Gateway = \<lparr>gw_HTTPListen = '':80'', gw_HTTPSListen = '':443'',
     gw_CaddyAdminEndpoint = ''http://127.0.0.1:2019'', gw_CaddyBin = ''caddy'', gw_StateDir = ''/data/platform'',
     gw_CaddyDataDir = ''/data/caddy'', gw_CertificateFile = ''/data/platform/certificate.json'', gw_InternalSourceRanges =
     [''10.0.0.0/8'', ''172.16.0.0/12'', ''192.168.0.0/16'', ''127.0.0.0/8'', ''::1/128'', ''fc00::/7'', ''fe80::/10''],
     gw_Certificate = \<lparr>ce_Issuer = ''letsencrypt'', ce_Email = [], ce_Staging = False, ce_CADirectory = [],
     ce_Subjects = [''shop.example.com''], ce_RenewalWindowRatio = Finite 0, ce_DNSChallenge = \<lparr>dc_Provider =
     ''azure'', dc_Azure = \<lparr>ac_SubscriptionID = ''sub'', ac_ResourceGroup = ''dns'', ac_Authentication =
     ''appregistration'', ac_TenantID = ''tenant'', ac_ClientID = ''client'', ac_ClientSecret =
     ''k3y''\<rparr>\<rparr>\<rparr>\<rparr>, ap_Docker = \<lparr>dk_Enabled = True, dk_SocketPath =
     ''/var/run/docker.sock'', dk_Endpoint = []\<rparr>, ap_Azure = \<lparr>az_Enabled = False, az_ManageDNS = True,
     az_ManageNSG = True, az_SubscriptionID = [], az_ResourceGroup = [], az_DNSZoneName = [], az_DNSZones = [],
     az_NetworkSecurityGroupResourceGroup = [], az_NetworkSecurityGroupName = [], az_PublicIPAddress = [], az_NSGPriority =
     120, az_NSGSourceAddressPrefixes = [''*'']\<rparr>, ap_Auth = \<lparr>au_Required = True, au_AdminToken = ''t0ken'',
     au_AdminTokens = [''x''], au_ProtectedRoutes = \<lparr>pr_AllowBearerToken = True, pr_AllowAdminTokenHeader = True,
     pr_AdditionalHeaderName = [], pr_AdditionalHeaderValue = []\<rparr>\<rparr>, ap_Security = \<lparr>sc_Enabled = True,
     sc_MaxRequestBodyBytes = 10485760, sc_DeniedMethods = [''TRACE'', ''CONNECT''], sc_DeniedPathPrefixes = [''/.git'',
     ''/.env''], sc_AllowedCIDRs = [], sc_BlockedCIDRs = []\<rparr>, ap_Health = \<lparr>hc_Enabled = True,
     hc_TimeoutSeconds = 3, hc_DefaultPath = ''/''\<rparr>, ap_Audit = \<lparr>ad_Enabled = True, ad_File =
     ''/data/platform/audit.jsonl''\<rparr>, ap_RoutesFile = ''/data/platform/routes.json'', ap_ReconcileIntervalSeconds =
     30\<rparr>"
  by code_simp

definition api_opts :: Options where
  "api_opts = \<lparr>op_Store = True, op_Discoverer = False, op_Reconciler = True, op_Runtime = True, op_AuditLog = True, op_Inspector = False,
     op_RuntimeLogs = False, op_Permissions = False, op_SettingsPath = Some ''settings.json'', op_CertificatePath = Some ''certificate.json''\<rparr>"

definition api_server :: Server where
  "api_server = \<lparr>srv_cfg = api_config, srv_draft = None,
     srv_rec = shop_reconciler\<lparr>rec_cfg := api_config, rec_renderer := NewRenderer api_config, rec_world := fresh_world\<rparr>,
     srv_settings = (\<lambda>_. json_file.Absent), srv_certificates = (\<lambda>_. json_file.Absent), srv_events = []\<rparr>"

definition no_events :: EventReaders where
  "no_events = \<lparr>er_sprint = (\<lambda>_. []), er_nanoseconds = (\<lambda>_. 0)\<rparr>"

definition api_env :: ApiEnv where
  "api_env = \<lparr>en_store = good_env, en_sync = quiet_sync, en_meanwhile = (\<lambda>r. r), en_finish = 9, en_checker = None, en_azure = None,
     en_settingsWrite = (\<lambda>_. None), en_certificateWrite = (\<lambda>_. None), en_discover = Inl ''no docker'', en_hostname = None, en_now = 11,
     en_zip = good_zip, en_ready = True, en_lastError = None, en_audit = (\<lambda>_. Inr []), en_logs = (\<lambda>_. []),
     en_permissions = (\<lambda>_. (\<lparr>pc_CheckedAt = 0, pc_Credential = [], pc_DNS = \<lparr>pg_Configured = False, pg_Targets = []\<rparr>,
        pc_Network = \<lparr>pg_Configured = False, pg_Targets = []\<rparr>\<rparr>, None)),
     en_inspect = (\<lambda>_. Inl ''no files''), en_decodePolicy = (\<lambda>_. Inl ''no policy''), en_archive = (\<lambda>_ _ _. Inl ''no archive''),
     en_events = no_events\<rparr>"

text \<open>Caddy does not answer.\<close>

definition down_env :: ApiEnv where
  "down_env = api_env\<lparr>en_sync := quiet_sync\<lparr>sv_reader := Some (Inl ''connection refused'')\<rparr>\<rparr>"

definition token_request :: systemSettingsRequest where
  "token_request = \<lparr>sy_DeploymentMode = ModeAzureVM, sy_AdminToken = '' n3w '', sy_Azure = ap_Azure api_config\<rparr>"

definition changed_routes :: "string \<Rightarrow> string + ResourceSet \<times> string" where
  "changed_routes t = Inr (sample_routes\<lparr>set_Version := ResourceSetVersion\<rparr>, [CHR 0x0A])"

definition changed_policy :: "string \<Rightarrow> string + CertificateConfig \<times> string" where
  "changed_policy t = Inr (without_client_secret shop_policy, [CHR 0x0A])"

definition bundle_codec :: BundleCodec where
  "bundle_codec = text_codec\<lparr>bc_dec_Routes := changed_routes, bc_dec_Policy := changed_policy\<rparr>"

definition same_certificate :: "string \<Rightarrow> string + CertificateConfig" where
  "same_certificate body = Inr (gw_Certificate (ap_Gateway api_config))"

definition new_system :: "string \<Rightarrow> string + systemSettingsRequest" where
  "new_system body = Inr token_request"

definition api_codec :: ApiCodec where
  "api_codec = \<lparr>jc_Listener = (\<lambda>_. Inr shop_listener), jc_Pool = (\<lambda>_. Inl ''pool''), jc_Rule = (\<lambda>_. Inl ''rule''), jc_Route = (\<lambda>_. Inl ''route''),
     jc_Certificate = same_certificate, jc_Security = (\<lambda>_. Inl ''security''), jc_System = new_system,
     jc_Azure = (\<lambda>_. Inl ''azure''), jc_Bind = (\<lambda>_. Inl ''bind''), jc_Archive = (\<lambda>_. Inl ''archive''), jc_Bundle = bundle_codec\<rparr>"

definition api_request :: "string \<Rightarrow> string \<Rightarrow> string \<Rightarrow> Request" where
  "api_request method path body = \<lparr>rq_Method = method, rq_Path = path,
     rq_Get = (\<lambda>h. if h = ''X-Admin-Token'' then ''x'' else []), rq_Query = (\<lambda>_. []), rq_Body = body, rq_ReadError = None\<rparr>"

definition api_call :: "ApiEnv \<Rightarrow> string \<Rightarrow> string \<Rightarrow> string \<Rightarrow> Server \<Rightarrow> Response \<times> Server" where
  "api_call env method path body s = serve api_opts api_codec env (api_request method path body) s"

lemma api_config_accepted: "NormalizeAndValidate api_config0 = (Inr (), api_config)"
  by code_simp

lemma api_server_steady: "steady api_server"
proof -
  have "reachable fresh_world" unfolding fresh_world_def by (rule reachable.start)
  then show ?thesis by (simp add: steady_def api_server_def aligned_def NewRenderer_def)
qed

lemma api_env_background: "background api_env" "undisturbed api_env" "background down_env" "undisturbed down_env"
  by (simp_all add: background_def undisturbed_def api_env_def down_env_def quiet_sync_def)

lemma post_listener_status:
  "rp_Status (fst (api_call api_env ''POST'' ''/api/listeners'' [] api_server)) = 201"
  "length (srv_events (snd (api_call api_env ''POST'' ''/api/listeners'' [] api_server))) = 1"
proof -
  have "(case api_call api_env ''POST'' ''/api/listeners'' [] api_server of
      (response, server) \<Rightarrow> rp_Status response = 201 \<and> length (srv_events server) = 1)" by code_simp
  then show "rp_Status (fst (api_call api_env ''POST'' ''/api/listeners'' [] api_server)) = 201"
    "length (srv_events (snd (api_call api_env ''POST'' ''/api/listeners'' [] api_server))) = 1"
    by (simp_all add: case_prod_beta)
qed

lemma put_certificate_status:
  "rp_Status (fst (api_call down_env ''PUT'' ''/api/certificate'' [] api_server)) = 503"
  by code_simp

lemma import_status:
  "rp_Status (fst (importConfigurationBundle api_opts api_codec api_env (api_request ''POST'' [] sample_export) api_server)) = 200"
  by code_simp

lemma token_status:
  "rp_Status (fst (handleSystemSettings api_opts api_codec api_env (api_request ''PUT'' [] []) api_server)) = 200"
  by code_simp

definition draft_server :: Server where
  "draft_server = api_server\<lparr>srv_draft := Some \<lparr>dr_Settings = SettingsFromConfig api_config, dr_CertificatePolicy = shop_policy,
     dr_LiveConfig = api_config, dr_PreviousSettings = SettingsFromConfig api_config, dr_PreviousCertificatePolicy = shop_policy\<rparr>\<rparr>"

lemma draft_server_steady: "steady draft_server"
  using api_server_steady by (simp add: draft_server_def steady_def)

lemma apply_pending: "configurationImportPending (snd (handleReconcile api_opts api_env (api_request ''POST'' ''/api/reconcile'' []) draft_server)) = False"
  by code_simp

text \<open>A server with other secrets; both know the token of the requests.\<close>

definition with_secret :: "string \<Rightarrow> CertificateConfig \<Rightarrow> CertificateConfig" where
  "with_secret x = ce_DNSChallenge_update (dc_Azure_update (ac_ClientSecret_update (\<lambda>_. x)))"

definition other_server :: Server where
  "other_server = api_server\<lparr>srv_cfg := api_config\<lparr>ap_Auth := (ap_Auth api_config)\<lparr>au_AdminToken := ''0ther''\<rparr>,
     ap_Gateway := (ap_Gateway api_config)\<lparr>gw_Certificate := with_secret ''oth3r'' (gw_Certificate (ap_Gateway api_config))\<rparr>\<rparr>\<rparr>"

end
