(* ===== verification/ApiProperties.thy ===== *)
theory ApiProperties
  imports ApiSamples
begin

text \<open>
  The properties of the management API: the invariant of the server over every sequence of requests, what a
  request that is answered with an error leaves, who may change the server, and what no response and no import
  gives away or changes.
\<close>

lemma api_call_eq: "serve api_opts api_codec env (api_request m p b) s = (fst (api_call env m p b s), snd (api_call env m p b s))"
  by (simp add: api_call_def)

section \<open>The invariant of the server\<close>

text \<open>
  The server as it starts and as any requests and periodic syncs leave it. The configuration it starts with has
  been accepted.
\<close>

inductive api_reachable :: "Options \<Rightarrow> Server \<Rightarrow> bool" for opts where
  start: "steady s \<Longrightarrow> NormalizeAndValidate cfg = (Inr (), srv_cfg s) \<Longrightarrow> srv_draft s = None \<Longrightarrow> api_reachable opts s"
| request: "api_reachable opts s \<Longrightarrow> background env \<Longrightarrow> serve opts jc env rq s = (resp, s') \<Longrightarrow> api_reachable opts s'"
| periodic: "api_reachable opts s \<Longrightarrow> background env \<Longrightarrow> sync_pending_kept env s = (result, s') \<Longrightarrow> api_reachable opts s'"

definition api_ok :: "Server \<Rightarrow> bool" where
  "api_ok s \<longleftrightarrow> steady s \<and> validateConfig (srv_cfg s) = Inr () \<and>
     (case srv_draft s of None \<Rightarrow> True | Some d \<Rightarrow> validateConfig (dr_LiveConfig d) = Inr ())"

lemma sync_pending_kept_fields:
  assumes "sync_pending_kept env s = (result, s')" "steady s" "background env"
  shows "steady s' \<and> srv_cfg s' = srv_cfg s \<and> srv_draft s' = srv_draft s \<and>
    srv_settings s' = srv_settings s \<and> srv_certificates s' = srv_certificates s"
proof -
  let ?r = "srv_rec s"
  obtain res goes all r' where sync: "syncLocked (en_sync env) (en_store env) True None None ?r = (res, goes, all, r')"
    by (metis prod.collapse)
  define f where "f = fst (launch (res, goes, all, r'))"
  define r1 where "r1 = (if goes then en_meanwhile env r' else r')"
  obtain res2 r2 where fin: "complete (en_finish env) (en_checker env) (en_azure env) f r1 = (res2, r2)" by fastforce
  have s': "s' = s\<lparr>srv_rec := r2\<rparr>"
    using assms(1) fin by (auto simp: sync_pending_kept_def SyncWithoutPendingRoutingChanges_def sync f_def r1_def launch_def split: if_splits)
  have a: "aligned ?r" "reachable (rec_world ?r)" "rec_cfg ?r = srv_cfg s" using assms(2) by (simp_all add: steady_def)
  have cfg: "aligned r'" "rec_cfg r' = srv_cfg s"
    using sync_cfg [OF sync a(1)] a(3) by (auto simp: sync_config_def)
  have "keeps_store (en_sync env) None" using assms(3) by (simp add: keeps_store_def background_def)
  from sync_keeps [OF sync a(1) this a(2)] have "reachable (rec_world r')" by simp
  then have "aligned r1 \<and> reachable (rec_world r1) \<and> rec_cfg r1 = srv_cfg s"
    using assms(3) cfg by (simp add: r1_def background_def)
  then show ?thesis using complete_steady [OF fin] s' by (simp add: steady_def)
qed

lemma imported_config_ok:
  assumes "validateConfig active = Inr ()" "validateConfig imported = Inr ()"
  shows "validateConfig (importedLiveConfig active imported) = Inr ()"
  using assms by (auto simp: validateConfig_def importedLiveConfig_def Let_def res_simps split: if_splits)

lemma plan_import_ok:
  assumes "plan_import opts env bundle s = Inr (d, store)" "validateConfig (srv_cfg s) = Inr ()"
  shows "validateConfig (dr_LiveConfig d) = Inr ()"
  using assms
  by (auto simp: plan_import_def Let_def split: sum.splits option.splits prod.splits intro!: imported_config_ok dest: accepted_parts(2))

lemma steady_world: "steady (with_world w s) \<longleftrightarrow> steady (s\<lparr>srv_rec := (srv_rec s)\<lparr>rec_world := w\<rparr>\<rparr>)"
  by (simp add: with_world_def)

lemma run_op_steady: "run_op env oper (rec_world (srv_rec s)) = (r, w) \<Longrightarrow> steady s \<Longrightarrow> steady (with_world w s)"
  using run_op_reachable [of "rec_world (srv_rec s)" env oper] by (simp add: steady_def with_world_def)

lemma save_steady: "save_settings opts env k settings s = (r, s1) \<Longrightarrow>
    steady s1 = steady s \<and> srv_cfg s1 = srv_cfg s \<and> srv_draft s1 = srv_draft s \<and> srv_rec s1 = srv_rec s"
  using save_outcome(1) [of opts env k settings s r s1] by (auto simp: steady_def)

lemma api_step_ok:
  assumes "api_step opts env s status s'" "background env" "api_ok s"
  shows "api_ok s'"
  using assms(1)
proof (cases rule: api_step.cases)
  case untouched
  then show ?thesis using assms(3) by simp
next
  case recorded
  then show ?thesis using assms(3) by (simp add: api_ok_def)
next
  case (edited oper w)
  then show ?thesis using assms(3) run_op_steady [OF edited(3)] by (simp add: api_ok_def)
next
  case (reconfigured cfg persist result s1 event fs)
  have "steady s" using assms(3) by (simp add: api_ok_def)
  from reconfigured(6) this assms(2) reconfigured(5) show ?thesis
  proof (cases rule: commitLiveConfig_cases)
    case (succeeded result w t)
    then show ?thesis using reconfigured(1-4) assms(3) by (simp add: api_ok_def)
  qed simp
next
  case (not_reconfigured persist cfg response)
  have "steady s" using assms(3) by (simp add: api_ok_def)
  from not_reconfigured(4) this assms(2) not_reconfigured(3) show ?thesis
  proof (cases rule: commitLiveConfig_cases)
    case (failed response)
    then show ?thesis using not_reconfigured(1,2) assms(3) by (simp add: api_ok_def)
  qed simp
next
  case (saved settings u s1)
  then show ?thesis using assms(3) save_steady [OF saved(4)] by (auto simp: api_ok_def)
next
  case (staged b draft store u s1)
  then obtain w where w: "run_op (en_store env) (OpStageResources (Resources store)) (rec_world (srv_rec s)) = (Inr (), w)" "s1 = with_world w s"
    using on_world_edit [OF staged(4), of "en_store env" "OpStageResources (Resources store)"] by auto
  have "validateConfig (dr_LiveConfig draft) = Inr ()" using plan_import_ok [OF staged(3)] assms(3) by (simp add: api_ok_def)
  then show ?thesis using staged w run_op_steady [OF w(1)] assms(3) by (simp add: api_ok_def steady_def)
next
  case (applied result committed)
  have s: "steady s" using assms(3) by (simp add: api_ok_def)
  from applied(2) s assms(2) persist_reachable show ?thesis
  proof (cases rule: sync_outcomes)
    case (uncalled r2)
    then show ?thesis using assms(3) by (simp add: api_ok_def steady_def)
  next
    case (refused snap w e t r2)
    from persist_failed(2,3) [OF refused(2)] refused show ?thesis using assms(3) by (simp add: api_ok_def steady_def)
  next
    case (committed snap w t r2)
    note fin = persist_done [OF committed(2)]
    show ?thesis
    proof (cases "srv_draft s")
      case None
      then show ?thesis using fin(1,2) committed assms(3) by (simp add: api_ok_def steady_def)
    next
      case (Some d)
      then show ?thesis using fin(1) fin(3) [of d] committed assms(3) by (simp add: api_ok_def steady_def)
    qed
  qed
next
  case (refreshed event fs result)
  then show ?thesis using sync_pending_kept_fields [OF refreshed(3) _ assms(2)] assms(3) by (auto simp: api_ok_def)
qed

lemma api_reachable_ok: "api_reachable opts s \<Longrightarrow> api_ok s"
proof (induction rule: api_reachable.induct)
  case (start s cfg)
  then show ?case using accepted_parts(2) by (simp add: api_ok_def)
next
  case (request s env jc rq resp s')
  then show ?case using api_step_ok serve_step by blast
next
  case (periodic s env result s')
  then show ?case using sync_pending_kept_fields by (auto simp: api_ok_def)
qed

text \<open>
  After any sequence of requests and periodic syncs, whatever the bodies, the failures of the disk, of Caddy
  and of Azure, and whatever else runs in between, the routing store is consistent and the server, the
  reconciler and the renderer work with one and the same configuration, which passes the validation.
\<close>

theorem server_stays_consistent:
  assumes "api_reachable opts s"
  shows "wf_store (api_store s) \<and> rec_cfg (srv_rec s) = srv_cfg s \<and> rd_cfg (rec_renderer (srv_rec s)) = srv_cfg s \<and>
    validateConfig (srv_cfg s) = Inr ()"
  using api_reachable_ok [OF assms] reachable_wf by (auto simp: api_ok_def steady_def api_store_def aligned_def)

lemma api_server_reachable: "api_reachable opts api_server"
  using api_server_steady api_config_accepted by (intro api_reachable.start) (simp_all add: api_server_def)

theorem server_stays_consistent_witness:
  "wf_store (api_store (snd (api_call api_env ''POST'' ''/api/listeners'' [] api_server))) \<and>
   rp_Status (fst (api_call api_env ''POST'' ''/api/listeners'' [] api_server)) = 201"
proof -
  have "api_reachable api_opts (snd (api_call api_env ''POST'' ''/api/listeners'' [] api_server))"
    by (rule api_reachable.request [OF api_server_reachable api_env_background(1) api_call_eq])
  from server_stays_consistent [OF this] show ?thesis by (simp add: post_listener_status)
qed

section \<open>Requests that fail\<close>

lemma stopped_has_no_health:
  assumes "syncLocked env wenv preserve candidate commit r = (res, False, all, r')"
  shows "re_RouteHealth res = None"
  using assms
  by (auto simp: syncLocked_eq Let_def base_result_def new_result_def roll_back_def restoreRuntime_def
      split: option.splits sum.splits prod.splits if_splits)

lemma stopped_world:
  assumes "sync_with_commit env preserve candidate commit s = (result, False, s1)" "undisturbed env"
    and "\<And>snap t e t'. commit snap t = (Inl e, t') \<Longrightarrow> rec_world (srv_rec t') = rec_world (srv_rec t)"
  shows "rec_world (srv_rec s1) = rec_world (srv_rec s)"
proof -
  let ?r = "srv_rec s"
  obtain res goes all r' where sync: "syncLocked (en_sync env) (en_store env) preserve candidate (Some (store_commit commit s)) ?r = (res, goes, all, r')"
    by (metis prod.collapse)
  have go: "\<not> goes" using assms(1) by (auto simp: sync_with_commit_def Let_def sync launch_def split: prod.splits)
  define f where "f = fst (launch (res, goes, all, r'))"
  obtain res2 r2 where fin: "complete (en_finish env) (en_checker env) (en_azure env) f r' = (res2, r2)" by fastforce
  have s1: "srv_rec s1 = r2"
    using assms(1) fin go by (auto simp: sync_with_commit_def Let_def sync launch_def f_def split: prod.splits)
  have "re_RouteHealth res = None" using stopped_has_no_health sync go by simp
  then have w2: "rec_world r2 = rec_world r'" using fin go by (auto simp: complete_def finish_def Let_def f_def launch_def split: if_splits)
  have w: "sync_world (en_sync env) ?r = rec_world ?r" using assms(2) by (simp add: sync_world_def undisturbed_def)
  have "rec_world r' = rec_world ?r"
  proof (cases "commit_call (en_sync env) preserve candidate ?r")
    case None
    then show ?thesis using sync_commit_call [OF sync] w by auto
  next
    case (Some sw)
    then obtain snap where sw: "sw = (snap, sync_world (en_sync env) ?r)" using sync_commit_call [OF sync] by (cases sw) auto
    obtain u t where t: "commit snap (with_world (sync_world (en_sync env) ?r) s) = (u, t)" by fastforce
    have u: "isl u" "rec_world r' = rec_world (srv_rec t)"
      using sync_commit_call [OF sync] Some sw t go by (simp_all add: store_commit_def)
    then obtain e where "u = Inl e" by (cases u) auto
    then show ?thesis using assms(3) [of snap "with_world (sync_world (en_sync env) ?r) s" e t] t u(2) w by simp
  qed
  then show ?thesis using s1 w2 by simp
qed

lemma commitLiveConfig_failed_world:
  assumes "commitLiveConfig opts env cfg persist s = (Inl response, s1)" "live_persist opts env persist" "undisturbed env"
  shows "rec_world (srv_rec s1) = rec_world (srv_rec s)"
proof (cases "op_Reconciler opts")
  case True
  obtain result committed s2 where sync: "sync_with_commit env True (Some cfg) (live_commit cfg persist) s = (result, committed, s2)"
    by (metis prod.collapse)
  have out: "s1 = s2" "\<not> committed"
    using assms(1) True sync by (auto simp: commitLiveConfig_def live_commit_def split: if_splits)
  then have "sync_with_commit env True (Some cfg) (live_commit cfg persist) s = (result, False, s2)" using sync by simp
  from stopped_world [OF this assms(3)] live_commit_world [OF assms(2)] out show ?thesis by blast
qed (use assms in \<open>simp add: commitLiveConfig_def\<close>)

text \<open>
  C6: a request that is answered with an error changes neither the configuration of the server and of the
  reconciler, nor the files of the settings and the certificate policy, nor a staged import, nor, when nothing
  else works on it meanwhile, the routing store and its file.
\<close>

theorem failed_requests_change_nothing:
  assumes "serve opts jc env rq s = (resp, s')" "400 \<le> rp_Status resp" "steady s" "background env" "undisturbed env"
  shows "srv_cfg s' = srv_cfg s \<and> rec_cfg (srv_rec s') = srv_cfg s \<and> srv_draft s' = srv_draft s \<and>
    srv_settings s' = srv_settings s \<and> srv_certificates s' = srv_certificates s \<and> rec_world (srv_rec s') = rec_world (srv_rec s)"
  using serve_step [OF assms(1)]
proof (cases rule: api_step.cases)
  case (not_reconfigured persist cfg response)
  note world = commitLiveConfig_failed_world [OF not_reconfigured(4,3) assms(5)]
  from not_reconfigured(4) assms(3,4) not_reconfigured(3) show ?thesis
  proof (cases rule: commitLiveConfig_cases)
    case (failed response)
    then show ?thesis using world by (simp add: steady_def)
  qed simp
qed (use assms(2,3) in \<open>auto simp: steady_def\<close>)

theorem failed_requests_change_nothing_witness:
  "rec_world (srv_rec (snd (api_call down_env ''PUT'' ''/api/certificate'' [] api_server))) = fresh_world \<and>
   srv_cfg (snd (api_call down_env ''PUT'' ''/api/certificate'' [] api_server)) = api_config"
proof -
  have "400 \<le> rp_Status (fst (api_call down_env ''PUT'' ''/api/certificate'' [] api_server))" by (simp add: put_certificate_status)
  from failed_requests_change_nothing [OF api_call_eq this api_server_steady api_env_background(3,4)]
  show ?thesis by (simp add: api_server_def)
qed

section \<open>Who may change the server\<close>

lemma reading_methods:
  assumes "rq_Method rq \<notin> {''POST'', ''PUT'', ''DELETE''}"
  shows "handleListeners opts jc env rq s = (resp, s') \<Longrightarrow> s' = s" "handleListenerByID opts jc env rq s = (resp, s') \<Longrightarrow> s' = s"
    "handleBackendPools opts jc env rq s = (resp, s') \<Longrightarrow> s' = s" "handleBackendPoolByID opts jc env rq s = (resp, s') \<Longrightarrow> s' = s"
    "handleRoutingRules opts jc env rq s = (resp, s') \<Longrightarrow> s' = s" "handleRoutingRuleByID opts jc env rq s = (resp, s') \<Longrightarrow> s' = s"
    "handleRoutes opts jc env rq s = (resp, s') \<Longrightarrow> s' = s" "handleRouteByID opts jc env rq s = (resp, s') \<Longrightarrow> s' = s"
    "handleBindContainer opts jc env rq s = (resp, s') \<Longrightarrow> s' = s" "handleReconcile opts env rq s = (resp, s') \<Longrightarrow> s' = s"
    "handleCertificate opts jc env rq s = (resp, s') \<Longrightarrow> s' = s" "handleCertificateRefresh opts env rq s = (resp, s') \<Longrightarrow> s' = s"
    "handleCertificateArchive opts jc env rq s = (resp, s') \<Longrightarrow> s' = s" "handleSecuritySettings opts jc env rq s = (resp, s') \<Longrightarrow> s' = s"
    "handleSystemSettings opts jc env rq s = (resp, s') \<Longrightarrow> s' = s" "handleAzurePermissions opts jc env rq s = (resp, s') \<Longrightarrow> s' = s"
    "handleConfigurationBundle opts jc env rq s = (resp, s') \<Longrightarrow>
       s' = s \<or> rq_Method rq = ''GET'' \<and> (\<exists>fs. s' = audit opts ''configuration.export'' fs s)"
  using assms
  by (auto simp: handleListeners_def handleListenerByID_def handleBackendPools_def handleBackendPoolByID_def handleRoutingRules_def
      handleRoutingRuleByID_def handleRoutes_def handleRouteByID_def handleBindContainer_def handleReconcile_def handleCertificate_def
      handleCertificateRefresh_def handleCertificateArchive_def handleSecuritySettings_def handleSystemSettings_def
      handleAzurePermissions_def handleConfigurationBundle_def exportConfigurationBundle_def Let_def
      split: if_splits option.splits sum.splits)

lemma reading_requests:
  assumes "api_handler opts jc env path = Some h" "h rq s = (resp, s')" "rq_Method rq \<notin> {''POST'', ''PUT'', ''DELETE''}"
  shows "s' = s \<or> rq_Method rq = ''GET'' \<and> path = ''/api/settings/configuration'' \<and> (\<exists>fs. s' = audit opts ''configuration.export'' fs s)"
  using assms(2)
  by (rule_tac api_handlerE [OF assms(1)]) (auto dest: reading_steps reading_methods [OF assms(3)])

text \<open>
  C9: a request that changes the server is one below /api/; when authentication is required, it carries a configured,
  non-empty token in the admin header or, without that header, as a bearer token; and it is a POST, PUT or DELETE, or
  the GET that exports the configuration, which adds its audit record and changes nothing else.
\<close>

theorem only_authorised_requests_change_the_server:
  assumes "serve opts jc env rq s = (resp, s')" "s' \<noteq> s"
  shows "HasPrefix (rq_Path rq) ''/api/'' \<and>
    (au_Required (ap_Auth (srv_cfg s)) \<longrightarrow>
       (\<exists>token \<in> insert (au_AdminToken (ap_Auth (srv_cfg s))) (set (au_AdminTokens (ap_Auth (srv_cfg s)))).
          token \<noteq> [] \<and> carries (rq_Get rq) token)) \<and>
    (rq_Method rq \<in> {''POST'', ''PUT'', ''DELETE''} \<or>
     rq_Method rq = ''GET'' \<and> rq_Path rq = ''/api/settings/configuration'' \<and> (\<exists>fs. s' = audit opts ''configuration.export'' fs s))"
proof -
  obtain h where api: "HasPrefix (rq_Path rq) ''/api/''" "Middleware (ap_Auth (srv_cfg s)) (rq_Get rq) = Serve"
      and h: "api_handler opts jc env (rq_Path rq) = Some h" "h rq s = (resp, s')"
    using assms by (auto simp: serve_def Let_def split: if_splits outcome.splits option.splits dest: reading_steps)
  have "au_Required (ap_Auth (srv_cfg s)) \<longrightarrow>
       (\<exists>token \<in> insert (au_AdminToken (ap_Auth (srv_cfg s))) (set (au_AdminTokens (ap_Auth (srv_cfg s)))).
          token \<noteq> [] \<and> carries (rq_Get rq) token)"
    using api(2) by (auto simp: Middleware_def tokenAllowed_def Let_def list_ex_iff simp flip: tokenFromRequest_carries split: if_splits)
  then show ?thesis using reading_requests [OF h] api(1) assms(2) by blast
qed

theorem only_authorised_requests_change_the_server_witness:
  "snd (api_call api_env ''POST'' ''/api/listeners'' [] api_server) \<noteq> api_server \<and>
   (\<exists>token \<in> {''t0ken'', ''x''}. carries (rq_Get (api_request ''POST'' ''/api/listeners'' [])) token)"
proof -
  have ne: "snd (api_call api_env ''POST'' ''/api/listeners'' [] api_server) \<noteq> api_server"
    using post_listener_status(2) by (auto simp: api_server_def)
  have "au_Required (ap_Auth (srv_cfg api_server))" "au_AdminToken (ap_Auth (srv_cfg api_server)) = ''t0ken''"
    "set (au_AdminTokens (ap_Auth (srv_cfg api_server))) = {''x''}"
    by (simp_all add: api_server_def api_config_value)
  with only_authorised_requests_change_the_server [OF api_call_eq ne] ne show ?thesis by auto
qed

section \<open>Secrets\<close>

text \<open>
  Two servers that differ in nothing but their secrets: the admin tokens, the value of the additional header and
  the client secret of the DNS challenge. Whether a token or a client secret is set at all is not a secret.
\<close>

definition same_certificate :: "CertificateConfig \<Rightarrow> CertificateConfig \<Rightarrow> bool" where
  "same_certificate c c' \<longleftrightarrow> without_client_secret c = without_client_secret c' \<and>
     (TrimSpace (ac_ClientSecret (dc_Azure (ce_DNSChallenge c))) = [] \<longleftrightarrow> TrimSpace (ac_ClientSecret (dc_Azure (ce_DNSChallenge c'))) = [])"

definition hide_settings :: "Settings \<Rightarrow> Settings" where
  "hide_settings x = x\<lparr>se_Auth := (se_Auth x)\<lparr>sa_AdminToken := [], sa_AdminTokens := [], sa_AdditionalHeaderValue := []\<rparr>\<rparr>"

definition same_settings :: "Settings \<Rightarrow> Settings \<Rightarrow> bool" where
  "same_settings x y \<longleftrightarrow> hide_settings x = hide_settings y \<and> token_configured x = token_configured y"

definition hide_config :: "AppConfig \<Rightarrow> AppConfig" where
  "hide_config cfg = cfg\<lparr>ap_Auth := (ap_Auth cfg)\<lparr>au_AdminToken := [], au_AdminTokens := [],
       au_ProtectedRoutes := (au_ProtectedRoutes (ap_Auth cfg))\<lparr>pr_AdditionalHeaderValue := []\<rparr>\<rparr>,
     ap_Gateway := (ap_Gateway cfg)\<lparr>gw_Certificate := without_client_secret (gw_Certificate (ap_Gateway cfg))\<rparr>\<rparr>"

definition same_config :: "AppConfig \<Rightarrow> AppConfig \<Rightarrow> bool" where
  "same_config a b \<longleftrightarrow> hide_config a = hide_config b \<and>
     same_certificate (gw_Certificate (ap_Gateway a)) (gw_Certificate (ap_Gateway b)) \<and>
     token_configured (SettingsFromConfig a) = token_configured (SettingsFromConfig b)"

fun same_file :: "Settings json_file \<Rightarrow> Settings json_file \<Rightarrow> bool" where
  "same_file (Saved x) (Saved y) = same_settings x y"
| "same_file f g = (f = g)"

definition same_draft :: "configurationImportDraft option \<Rightarrow> configurationImportDraft option \<Rightarrow> bool" where
  "same_draft a b \<longleftrightarrow> (case (a, b) of
     (None, None) \<Rightarrow> True
   | (Some d, Some e) \<Rightarrow> same_settings (dr_Settings d) (dr_Settings e) \<and> same_certificate (dr_CertificatePolicy d) (dr_CertificatePolicy e)
   | _ \<Rightarrow> False)"

definition same_but_secrets :: "Options \<Rightarrow> Server \<Rightarrow> Server \<Rightarrow> bool" where
  "same_but_secrets opts s t \<longleftrightarrow> same_config (srv_cfg s) (srv_cfg t) \<and> same_draft (srv_draft s) (srv_draft t) \<and>
     api_store s = api_store t \<and> Last (srv_rec s) = Last (srv_rec t) \<and>
     same_file (srv_settings s (path_of (op_SettingsPath opts))) (srv_settings t (path_of (op_SettingsPath opts)))"

definition with_client_secret :: "string \<Rightarrow> CertificateConfig \<Rightarrow> CertificateConfig" where
  "with_client_secret x c = c\<lparr>ce_DNSChallenge := (ce_DNSChallenge c)\<lparr>dc_Azure := (dc_Azure (ce_DNSChallenge c))\<lparr>ac_ClientSecret := x\<rparr>\<rparr>\<rparr>"

lemma without_client_secret_eq: "without_client_secret c = without_client_secret c' \<longleftrightarrow> (\<exists>x. c' = with_client_secret x c)"
proof
  assume e: "without_client_secret c = without_client_secret c'"
  have "c' = with_client_secret (ac_ClientSecret (dc_Azure (ce_DNSChallenge c'))) (without_client_secret c')"
    by (simp add: with_client_secret_def without_client_secret_def)
  then have "c' = with_client_secret (ac_ClientSecret (dc_Azure (ce_DNSChallenge c'))) (without_client_secret c)" using e by simp
  then show "\<exists>x. c' = with_client_secret x c" by (auto simp: with_client_secret_def without_client_secret_def)
qed (auto simp: with_client_secret_def without_client_secret_def)

lemma same_certificateE:
  assumes "same_certificate c c'"
  obtains x where "c' = with_client_secret x c" "TrimSpace (ac_ClientSecret (dc_Azure (ce_DNSChallenge c))) = [] \<longleftrightarrow> TrimSpace x = []"
  using assms unfolding same_certificate_def without_client_secret_eq by (auto simp: with_client_secret_def)

lemma same_certificate_fields:
  assumes "same_certificate c c'"
  shows "ce_Issuer c' = ce_Issuer c" "ce_Email c' = ce_Email c" "ce_Staging c' = ce_Staging c" "ce_CADirectory c' = ce_CADirectory c"
    "ce_Subjects c' = ce_Subjects c" "ce_RenewalWindowRatio c' = ce_RenewalWindowRatio c"
    "dc_Provider (ce_DNSChallenge c') = dc_Provider (ce_DNSChallenge c)"
  using assms by (auto elim!: same_certificateE simp: with_client_secret_def)

lemma same_normalized:
  assumes "same_certificate c c'"
  shows "same_certificate (NormalizeCertificateConfig c) (NormalizeCertificateConfig c')"
  using assms
  by (elim same_certificateE)
    (auto simp: same_certificate_def without_client_secret_def with_client_secret_def NormalizeCertificateConfig_def defaultIssuer_def
      defaultChallenge_def trimChallenge_def Let_def)

lemma same_azure_defaults:
  assumes "same_certificate c c'"
  shows "same_certificate (certificateWithAzureDefaults c azure) (certificateWithAzureDefaults c' azure)"
proof -
  have "same_certificate (ApplyAzureCertificateDefaults c azure) (ApplyAzureCertificateDefaults c' azure)"
    using same_normalized [OF assms]
    by (elim same_certificateE) (auto simp: ApplyAzureCertificateDefaults_def Let_def same_certificate_def without_client_secret_def with_client_secret_def)
  then show ?thesis using assms by (simp add: certificateWithAzureDefaults_def)
qed

lemma normalized_secret: "TrimSpace (ac_ClientSecret (dc_Azure (ce_DNSChallenge (NormalizeCertificateConfig c)))) =
    ac_ClientSecret (dc_Azure (ce_DNSChallenge (NormalizeCertificateConfig c)))"
  by (simp add: NormalizeCertificateConfig_def defaultIssuer_def defaultChallenge_def trimChallenge_def Let_def)

lemma same_config_response:
  assumes "same_certificate c c'"
  shows "certificateConfigResponse c' = certificateConfigResponse c" "certificateIssuerName c' = certificateIssuerName c"
proof -
  note n = same_normalized [OF assms]
  show "certificateIssuerName c' = certificateIssuerName c" by (simp add: certificateIssuerName_def same_certificate_fields [OF n])
  have "(ac_ClientSecret (dc_Azure (ce_DNSChallenge (NormalizeCertificateConfig c'))) = []) =
      (ac_ClientSecret (dc_Azure (ce_DNSChallenge (NormalizeCertificateConfig c))) = [])"
    using n by (simp add: same_certificate_def normalized_secret)
  then show "certificateConfigResponse c' = certificateConfigResponse c" using n
    by (elim same_certificateE) (simp add: certificateConfigResponse_def Let_def with_client_secret_def)
qed

lemma same_config_fields:
  assumes "same_config a b"
  shows "ap_Profile b = ap_Profile a" "ap_DeploymentMode b = ap_DeploymentMode a" "ap_Docker b = ap_Docker a" "ap_Azure b = ap_Azure a"
    "ap_Security b = ap_Security a" "ap_Health b = ap_Health a" "ap_Audit b = ap_Audit a"
    "gw_CaddyDataDir (ap_Gateway b) = gw_CaddyDataDir (ap_Gateway a)" "gw_CertificateFile (ap_Gateway b) = gw_CertificateFile (ap_Gateway a)"
    "same_certificate (gw_Certificate (ap_Gateway a)) (gw_Certificate (ap_Gateway b))"
    "same_settings (SettingsFromConfig a) (SettingsFromConfig b)"
proof -
  have h: "hide_config a = hide_config b" using assms by (simp add: same_config_def)
  note f = arg_cong [OF h]
  show "ap_Profile b = ap_Profile a" using f [of ap_Profile] by (simp add: hide_config_def)
  show "ap_DeploymentMode b = ap_DeploymentMode a" using f [of ap_DeploymentMode] by (simp add: hide_config_def)
  show "ap_Docker b = ap_Docker a" using f [of ap_Docker] by (simp add: hide_config_def)
  show "ap_Azure b = ap_Azure a" using f [of ap_Azure] by (simp add: hide_config_def)
  show "ap_Security b = ap_Security a" using f [of ap_Security] by (simp add: hide_config_def)
  show "ap_Health b = ap_Health a" using f [of ap_Health] by (simp add: hide_config_def)
  show "ap_Audit b = ap_Audit a" using f [of ap_Audit] by (simp add: hide_config_def)
  show "gw_CaddyDataDir (ap_Gateway b) = gw_CaddyDataDir (ap_Gateway a)"
    using f [of "\<lambda>c. gw_CaddyDataDir (ap_Gateway c)"] by (simp add: hide_config_def)
  show "gw_CertificateFile (ap_Gateway b) = gw_CertificateFile (ap_Gateway a)"
    using f [of "\<lambda>c. gw_CertificateFile (ap_Gateway c)"] by (simp add: hide_config_def)
  show "same_certificate (gw_Certificate (ap_Gateway a)) (gw_Certificate (ap_Gateway b))" using assms by (simp add: same_config_def)
  have hidden: "hide_settings (SettingsFromConfig (hide_config c)) = hide_settings (SettingsFromConfig c)" for c
    by (simp add: hide_settings_def SettingsFromConfig_def hide_config_def Let_def)
  show "same_settings (SettingsFromConfig a) (SettingsFromConfig b)"
    using hidden [of a] hidden [of b] h assms by (simp add: same_settings_def same_config_def)
qed

lemma same_settings_fields:
  assumes "same_settings x y"
  shows "se_DeploymentMode y = se_DeploymentMode x" "se_Azure y = se_Azure x" "se_Security y = se_Security x"
    "se_InternalSourceRanges y = se_InternalSourceRanges x" "sa_AllowBearerToken (se_Auth y) = sa_AllowBearerToken (se_Auth x)"
    "sa_AllowAdminTokenHeader (se_Auth y) = sa_AllowAdminTokenHeader (se_Auth x)" "token_configured y = token_configured x"
    "without_secrets y = without_secrets x"
proof -
  have h: "hide_settings x = hide_settings y" using assms by (simp add: same_settings_def)
  note f = arg_cong [OF h]
  show "se_DeploymentMode y = se_DeploymentMode x" using f [of se_DeploymentMode] by (simp add: hide_settings_def)
  show "se_Azure y = se_Azure x" using f [of se_Azure] by (simp add: hide_settings_def)
  show "se_Security y = se_Security x" using f [of se_Security] by (simp add: hide_settings_def)
  show "se_InternalSourceRanges y = se_InternalSourceRanges x" using f [of se_InternalSourceRanges] by (simp add: hide_settings_def)
  show "sa_AllowBearerToken (se_Auth y) = sa_AllowBearerToken (se_Auth x)"
    using f [of "\<lambda>c. sa_AllowBearerToken (se_Auth c)"] by (simp add: hide_settings_def)
  show "sa_AllowAdminTokenHeader (se_Auth y) = sa_AllowAdminTokenHeader (se_Auth x)"
    using f [of "\<lambda>c. sa_AllowAdminTokenHeader (se_Auth c)"] by (simp add: hide_settings_def)
  show "token_configured y = token_configured x" using assms by (simp add: same_settings_def)
  have "without_secrets (hide_settings c) = without_secrets c" for c by (simp add: without_secrets_def hide_settings_def)
  then show "without_secrets y = without_secrets x" using f [of without_secrets] by simp
qed

section \<open>Reading requests\<close>

lemma same_desired_settings:
  assumes "same_but_secrets opts s t"
  shows "rel_sum (=) same_settings (desiredSettings opts s) (desiredSettings opts t)"
proof -
  have "rel_sum (=) same_settings (persistedSettings opts s) (persistedSettings opts t)"
  proof (cases "op_SettingsPath opts")
    case (Some path)
    have "same_settings (SettingsFromConfig (srv_cfg s)) (SettingsFromConfig (srv_cfg t))"
      "same_file (srv_settings s path) (srv_settings t path)"
      using assms Some same_config_fields(11) by (auto simp: same_but_secrets_def path_of_def)
    then show ?thesis using Some
      by (cases "srv_settings s path"; cases "srv_settings t path")
        (simp_all add: persistedSettings_def SettingsStore_Load_def load_json_def Let_def)
  qed (use assms same_config_fields(11) in \<open>simp add: persistedSettings_def same_but_secrets_def Let_def\<close>)
  then show ?thesis using assms
    by (auto simp: desiredSettings_def same_but_secrets_def same_draft_def split: option.splits)
qed

lemma same_desired_policy:
  "same_but_secrets opts s t \<Longrightarrow> same_certificate (desiredCertificatePolicy (gw_Certificate (ap_Gateway (srv_cfg s))) s)
     (desiredCertificatePolicy (gw_Certificate (ap_Gateway (srv_cfg t))) t)"
  using same_config_fields(10) by (auto simp: desiredCertificatePolicy_def same_but_secrets_def same_draft_def split: option.splits)

lemma same_certificate_response:
  assumes "same_certificate c c'" "same_but_secrets opts s t"
  shows "certificateResponse opts env c' t = certificateResponse opts env c s"
proof -
  have "same_config (srv_cfg s) (srv_cfg t)" using assms(2) by (simp add: same_but_secrets_def)
  then show ?thesis
    by (simp add: certificateResponse_def Let_def same_config_response [OF assms(1)] same_certificate_fields [OF assms(1)] same_config_fields(8))
qed

lemma same_reads:
  assumes "rq_Method rq = ''GET''" "same_but_secrets opts s t"
  shows "fst (handleListeners opts jc env rq t) = fst (handleListeners opts jc env rq s)"
    "fst (handleListenerByID opts jc env rq t) = fst (handleListenerByID opts jc env rq s)"
    "fst (handleBackendPools opts jc env rq t) = fst (handleBackendPools opts jc env rq s)"
    "fst (handleBackendPoolByID opts jc env rq t) = fst (handleBackendPoolByID opts jc env rq s)"
    "fst (handleRoutingRules opts jc env rq t) = fst (handleRoutingRules opts jc env rq s)"
    "fst (handleRoutingRuleByID opts jc env rq t) = fst (handleRoutingRuleByID opts jc env rq s)"
    "fst (handleRoutes opts jc env rq t) = fst (handleRoutes opts jc env rq s)"
    "fst (handleRouteByID opts jc env rq t) = fst (handleRouteByID opts jc env rq s)"
    "fst (handleBindContainer opts jc env rq t) = fst (handleBindContainer opts jc env rq s)"
    "fst (handleReconcile opts env rq t) = fst (handleReconcile opts env rq s)"
    "fst (handleCertificateRefresh opts env rq t) = fst (handleCertificateRefresh opts env rq s)"
    "fst (handleCertificateArchive opts jc env rq t) = fst (handleCertificateArchive opts jc env rq s)"
    "fst (handleSecuritySettings opts jc env rq t) = fst (handleSecuritySettings opts jc env rq s)"
    "fst (handleSystemSettings opts jc env rq t) = fst (handleSystemSettings opts jc env rq s)"
    "fst (handleAzurePermissions opts jc env rq t) = fst (handleAzurePermissions opts jc env rq s)"
    "fst (handleAudit opts env rq t) = fst (handleAudit opts env rq s)"
    "fst (handleLogs opts env rq t) = fst (handleLogs opts env rq s)"
  using assms
  by (simp_all add: handleListeners_def handleListenerByID_def handleBackendPools_def handleBackendPoolByID_def handleRoutingRules_def
      handleRoutingRuleByID_def handleRoutes_def handleRouteByID_def handleBindContainer_def handleReconcile_def
      handleCertificateRefresh_def handleCertificateArchive_def handleSecuritySettings_def handleSystemSettings_def
      handleAzurePermissions_def handleAudit_def handleLogs_def Let_def same_but_secrets_def split: option.split sum.split)

lemma same_docker: "same_config a b \<Longrightarrow> srv_cfg s = a \<Longrightarrow> srv_cfg t = b \<Longrightarrow> docker_status opts t = docker_status opts s"
  by (simp add: docker_status_def Let_def same_config_fields)

lemma same_pending: "same_but_secrets opts s t \<Longrightarrow> configurationImportPending t = configurationImportPending s \<and>
    routingChangesPending opts t = routingChangesPending opts s"
  by (auto simp: same_but_secrets_def same_draft_def configurationImportPending_def routingChangesPending_def split: option.splits)

lemma same_status:
  assumes "same_but_secrets opts s t"
  shows "fst (handleStatus opts rq t) = fst (handleStatus opts rq s)" "fst (handleContainers opts env rq t) = fst (handleContainers opts env rq s)"
    "fst (handleConfig rq t) = fst (handleConfig rq s)" "fst (handleLive rq t) = fst (handleLive rq s)"
    "fst (handleReady opts env rq t) = fst (handleReady opts env rq s)"
proof -
  have c: "same_config (srv_cfg s) (srv_cfg t)" "api_store s = api_store t" "Last (srv_rec s) = Last (srv_rec t)"
    using assms by (simp_all add: same_but_secrets_def)
  note fields = same_config_fields [OF c(1)] same_docker [OF c(1) refl refl]
  note policy = same_desired_policy [OF assms]
  have status: "certificateStatusWithPolicy (srv_cfg t) (desiredCertificatePolicy (gw_Certificate (ap_Gateway (srv_cfg t))) t) =
      certificateStatusWithPolicy (srv_cfg s) (desiredCertificatePolicy (gw_Certificate (ap_Gateway (srv_cfg s))) s)"
    by (simp add: certificateStatusWithPolicy_def same_config_response [OF policy] same_certificate_fields [OF policy] fields)
  show "fst (handleStatus opts rq t) = fst (handleStatus opts rq s)"
    by (simp add: handleStatus_def Let_def status fields same_pending [OF assms] c(2,3) StatusForConfig_def)
  show "fst (handleContainers opts env rq t) = fst (handleContainers opts env rq s)"
    by (simp add: handleContainers_def Let_def fields split: sum.split prod.split)
  have "fst (handleConfig rq u) = (if rq_Method rq \<noteq> ''GET'' then methodNotAllowed else writeJSON 200 (PConfig (hide_config (srv_cfg u))))" for u
    by (simp add: handleConfig_def hide_config_def Let_def)
  then show "fst (handleConfig rq t) = fst (handleConfig rq s)" using c(1) by (simp add: same_config_def)
  show "fst (handleLive rq t) = fst (handleLive rq s)" by (simp add: handleLive_def fields)
  show "fst (handleReady opts env rq t) = fst (handleReady opts env rq s)"
    by (simp add: handleReady_def ready_body_def fields)
qed

lemma same_settings_response:
  "same_settings x y \<Longrightarrow> same_config a b \<Longrightarrow> settingsResponse b y p = settingsResponse a x p"
  by (simp add: settingsResponse_def same_settings_fields same_config_fields)

lemma same_desired_reads:
  assumes "same_but_secrets opts s t" "rq_Method rq = ''GET''"
  shows "fst (handleSettings opts rq t) = fst (handleSettings opts rq s)"
    "fst (handleCertificate opts jc env rq t) = fst (handleCertificate opts jc env rq s)"
    "fst (handleConfigurationBundle opts jc env rq t) = fst (handleConfigurationBundle opts jc env rq s)"
proof -
  have c: "same_config (srv_cfg s) (srv_cfg t)" "api_store s = api_store t" using assms by (simp_all add: same_but_secrets_def)
  note desired = same_desired_settings [OF assms(1)]
  note policy = same_desired_policy [OF assms(1)]
  show "fst (handleSettings opts rq t) = fst (handleSettings opts rq s)"
    using desired by (cases rule: rel_sum.cases) (simp_all add: handleSettings_def same_settings_response [OF _ c(1)])
  show "fst (handleCertificate opts jc env rq t) = fst (handleCertificate opts jc env rq s)"
    using same_certificate_response [OF same_azure_defaults [OF policy] assms(1)] assms(2)
    by (simp add: handleCertificate_def Let_def same_config_fields(4) [OF c(1)])
  show "fst (handleConfigurationBundle opts jc env rq t) = fst (handleConfigurationBundle opts jc env rq s)"
    using desired policy assms(2)
    by (cases rule: rel_sum.cases)
      (simp_all add: handleConfigurationBundle_def exportConfigurationBundle_def Let_def ExportConfigurationBundle_def
        same_settings_fields c(2) same_certificate_def split: sum.split)
qed

text \<open>
  C8: no answer to a GET depends on an admin token, on the value of the additional header or on the client
  secret: two servers that differ in nothing else, and that both let the request in, answer it alike. That holds
  for the configuration, the settings, the certificate policy, the status and the exported archive.
\<close>

theorem answers_hold_no_secrets:
  assumes "rq_Method rq = ''GET''" "same_but_secrets opts s t"
    and "Middleware (ap_Auth (srv_cfg t)) (rq_Get rq) = Middleware (ap_Auth (srv_cfg s)) (rq_Get rq)"
  shows "fst (serve opts jc env rq t) = fst (serve opts jc env rq s)"
proof -
  have "fst (h rq t) = fst (h rq s)" if "api_handler opts jc env path = Some h" for h path
    by (rule api_handlerE [OF that])
      (simp_all only: same_reads [OF assms(1,2)] same_status [OF assms(2)] same_desired_reads [OF assms(2,1)])
  then show ?thesis using same_status [OF assms(2)] assms(3)
    by (simp add: serve_def Let_def split: outcome.split option.split)
qed

theorem answers_hold_no_secrets_witness:
  "fst (api_call api_env ''GET'' ''/api/config'' [] other_server) = fst (api_call api_env ''GET'' ''/api/config'' [] api_server) \<and>
   au_AdminToken (ap_Auth (srv_cfg other_server)) \<noteq> au_AdminToken (ap_Auth (srv_cfg api_server))"
proof -
  have cfg: "au_AdminToken (ap_Auth api_config) = ''t0ken''" "ac_ClientSecret (dc_Azure (ce_DNSChallenge (gw_Certificate (ap_Gateway api_config)))) = ''k3y''"
    by code_simp+
  have tokens: "au_AdminTokens (ap_Auth api_config) = [''x'']" by code_simp
  have "same_config api_config (srv_cfg other_server)"
    by (simp add: same_config_def hide_config_def same_certificate_def other_server_def with_secret_def without_client_secret_def
        token_configured_def SettingsFromConfig_def Let_def cfg TrimSpace_def is_space_def)
  then have same: "same_but_secrets api_opts api_server other_server"
    by (simp add: same_but_secrets_def same_draft_def other_server_def api_server_def api_store_def Last_def)
  have mid: "Middleware (ap_Auth (srv_cfg other_server)) (rq_Get rq) = Middleware (ap_Auth (srv_cfg api_server)) (rq_Get rq)"
    if "tokenFromRequest (rq_Get rq) = ''x''" for rq
    using that tokens by (simp add: Middleware_def tokensConfigured_def tokenAllowed_def other_server_def api_server_def Let_def cfg)
  have "Middleware (ap_Auth (srv_cfg other_server)) (rq_Get (api_request ''GET'' ''/api/config'' [])) =
      Middleware (ap_Auth (srv_cfg api_server)) (rq_Get (api_request ''GET'' ''/api/config'' []))"
    by (rule mid) (simp add: api_request_def tokenFromRequest_def)
  from answers_hold_no_secrets [OF _ same this] have
    "fst (api_call api_env ''GET'' ''/api/config'' [] other_server) = fst (api_call api_env ''GET'' ''/api/config'' [] api_server)"
    unfolding api_call_def by (simp add: api_request_def)
  then show ?thesis using cfg by (simp add: other_server_def api_server_def)
qed

section \<open>What an import and a new token do to the secrets\<close>

lemma normalized_challenge_secret:
  "ac_ClientSecret (dc_Azure (ce_DNSChallenge (NormalizeCertificateConfig c))) \<in> {[], TrimSpace (ac_ClientSecret (dc_Azure (ce_DNSChallenge c)))}"
  by (simp add: NormalizeCertificateConfig_def defaultIssuer_def defaultChallenge_def trimChallenge_def Let_def)

lemma defaults_challenge_secret:
  "ac_ClientSecret (dc_Azure (ce_DNSChallenge (ApplyAzureCertificateDefaults c azure))) =
   ac_ClientSecret (dc_Azure (ce_DNSChallenge (NormalizeCertificateConfig c)))"
  by (simp add: ApplyAzureCertificateDefaults_def Let_def)

lemma import_policy_secret:
  "ac_ClientSecret (dc_Azure (ce_DNSChallenge (import_policy b settings s))) \<in>
     {[], TrimSpace (ac_ClientSecret (dc_Azure (ce_DNSChallenge (desiredCertificatePolicy (gw_Certificate (ap_Gateway (srv_cfg s))) s))))}"
proof -
  let ?p = "cb_CertificatePolicy b"
  let ?x = "ac_ClientSecret (dc_Azure (ce_DNSChallenge (desiredCertificatePolicy (gw_Certificate (ap_Gateway (srv_cfg s))) s)))"
  let ?c = "?p\<lparr>ce_DNSChallenge := (ce_DNSChallenge ?p)\<lparr>dc_Azure := (dc_Azure (ce_DNSChallenge ?p))\<lparr>ac_ClientSecret := ?x\<rparr>\<rparr>\<rparr>"
  have "ac_ClientSecret (dc_Azure (ce_DNSChallenge (certificateWithAzureDefaults ?c (se_Azure settings)))) \<in> {[], ?x, TrimSpace ?x}"
    using normalized_challenge_secret [of ?c] by (auto simp: certificateWithAzureDefaults_def defaults_challenge_secret)
  then show ?thesis
    using normalized_challenge_secret [of "certificateWithAzureDefaults ?c (se_Azure settings)"] by (auto simp: import_policy_def Let_def)
qed

lemma plan_importE:
  assumes "plan_import opts env b s = Inr (d, store)" "desiredSettings opts s = Inr current"
  obtains candidate where "dr_Settings d = SettingsFromConfig candidate" "dr_LiveConfig d = importedLiveConfig (srv_cfg s) candidate"
    "dr_CertificatePolicy d = import_policy b (preserveConfigurationSecrets (cb_Settings b) current) s"
    "ap_Auth candidate = (ap_Auth (ApplySettings (preserveConfigurationSecrets (cb_Settings b) current) (srv_cfg s)))
       \<lparr>au_AdminTokens := compactStrings (sa_AdminTokens (se_Auth current))\<rparr>"
    "Renderer_Render (NewRenderer (dr_LiveConfig d)) (st_routes store) \<noteq> Inl e" "candidate_store env (cb_Routes b) = Inr store"
proof -
  define settings0 where "settings0 = preserveConfigurationSecrets (cb_Settings b) current"
  define cfg where "cfg = (ApplySettings settings0 (srv_cfg s))
      \<lparr>ap_Gateway := (ap_Gateway (ApplySettings settings0 (srv_cfg s)))\<lparr>gw_Certificate := import_policy b settings0 s\<rparr>\<rparr>"
  obtain candidate where c: "NormalizeAndValidate cfg = (Inr (), candidate)"
      "dr_Settings d = SettingsFromConfig candidate" "dr_LiveConfig d = importedLiveConfig (srv_cfg s) candidate"
      "dr_CertificatePolicy d = import_policy b settings0 s"
      "Renderer_Render (NewRenderer (dr_LiveConfig d)) (st_routes store) \<noteq> Inl e" "candidate_store env (cb_Routes b) = Inr store"
  proof -
    obtain persisted where p: "persistedSettings opts s = Inr persisted"
      using assms(1) by (cases "persistedSettings opts s") (simp_all add: plan_import_def)
    have current: "current = (case srv_draft s of Some existing \<Rightarrow> dr_Settings existing | None \<Rightarrow> persisted)"
      using assms(2) p by (simp add: desiredSettings_def split: option.splits)
    have plan: "\<exists>previous. d = \<lparr>dr_Settings = SettingsFromConfig candidate, dr_CertificatePolicy = import_policy b settings0 s,
        dr_LiveConfig = importedLiveConfig (srv_cfg s) candidate, dr_PreviousSettings = fst previous, dr_PreviousCertificatePolicy = snd previous\<rparr> \<and>
        r = Inr () \<and> candidate_store env (cb_Routes b) = Inr store \<and>
        Renderer_Render (NewRenderer (importedLiveConfig (srv_cfg s) candidate)) (st_routes store) \<noteq> Inl e"
      if "NormalizeAndValidate cfg = (r, candidate)" for r candidate
      using assms(1) that unfolding current settings0_def cfg_def
      by (cases "srv_draft s") (auto simp: plan_import_def Let_def p split: sum.split_asm)
    show thesis using plan [of "fst (NormalizeAndValidate cfg)" "snd (NormalizeAndValidate cfg)"] that
      by (metis configurationImportDraft.select_convs(1-3) prod.collapse)
  qed
  have "ap_Auth candidate = (ap_Auth (ApplySettings settings0 (srv_cfg s)))\<lparr>au_AdminTokens := compactStrings (sa_AdminTokens (se_Auth current))\<rparr>"
    unfolding accepted_parts(1) [OF c(1)]
    by (simp add: normalizeConfig_def cfg_def ApplySettings_def settings0_def preserveConfigurationSecrets_def Let_def)
  with c that show thesis unfolding settings0_def by blast
qed

lemma plan_import_secrets:
  assumes "plan_import opts env b s = Inr (d, store)" "desiredSettings opts s = Inr current"
  shows "sa_AdminToken (se_Auth (dr_Settings d)) = sa_AdminToken (se_Auth current)"
    "sa_AdminTokens (se_Auth (dr_Settings d)) = compactStrings (sa_AdminTokens (se_Auth current))"
    "sa_AdditionalHeaderName (se_Auth (dr_Settings d)) = sa_AdditionalHeaderName (se_Auth current)"
    "sa_AdditionalHeaderValue (se_Auth (dr_Settings d)) = sa_AdditionalHeaderValue (se_Auth current)"
    "au_AdminToken (ap_Auth (dr_LiveConfig d)) = sa_AdminToken (se_Auth current)"
    "au_AdminTokens (ap_Auth (dr_LiveConfig d)) = compactStrings (sa_AdminTokens (se_Auth current))"
    "ap_Azure (dr_LiveConfig d) = ap_Azure (srv_cfg s)" "ap_DeploymentMode (dr_LiveConfig d) = ap_DeploymentMode (srv_cfg s)"
    "ap_Control (dr_LiveConfig d) = ap_Control (srv_cfg s)"
    "gw_CaddyAdminEndpoint (ap_Gateway (dr_LiveConfig d)) = gw_CaddyAdminEndpoint (ap_Gateway (srv_cfg s))"
    "ac_ClientSecret (dc_Azure (ce_DNSChallenge (dr_CertificatePolicy d))) \<in>
       {[], TrimSpace (ac_ClientSecret (dc_Azure (ce_DNSChallenge (desiredCertificatePolicy (gw_Certificate (ap_Gateway (srv_cfg s))) s))))}"
proof -
  obtain candidate where c: "dr_Settings d = SettingsFromConfig candidate" "dr_LiveConfig d = importedLiveConfig (srv_cfg s) candidate"
    "dr_CertificatePolicy d = import_policy b (preserveConfigurationSecrets (cb_Settings b) current) s"
    "ap_Auth candidate = (ap_Auth (ApplySettings (preserveConfigurationSecrets (cb_Settings b) current) (srv_cfg s)))
       \<lparr>au_AdminTokens := compactStrings (sa_AdminTokens (se_Auth current))\<rparr>"
    using plan_importE [OF assms] by metis
  note settings = c(1,4) SettingsFromConfig_def ApplySettings_def preserveConfigurationSecrets_def Let_def
  show "sa_AdminToken (se_Auth (dr_Settings d)) = sa_AdminToken (se_Auth current)" by (simp add: settings)
  show "sa_AdminTokens (se_Auth (dr_Settings d)) = compactStrings (sa_AdminTokens (se_Auth current))" by (simp add: settings)
  show "sa_AdditionalHeaderName (se_Auth (dr_Settings d)) = sa_AdditionalHeaderName (se_Auth current)" by (simp add: settings)
  show "sa_AdditionalHeaderValue (se_Auth (dr_Settings d)) = sa_AdditionalHeaderValue (se_Auth current)" by (simp add: settings)
  note live = c(2) importedLiveConfig_def
  show "au_AdminToken (ap_Auth (dr_LiveConfig d)) = sa_AdminToken (se_Auth current)" by (simp add: live settings)
  show "au_AdminTokens (ap_Auth (dr_LiveConfig d)) = compactStrings (sa_AdminTokens (se_Auth current))" by (simp add: live settings)
  show "ap_Azure (dr_LiveConfig d) = ap_Azure (srv_cfg s)" "ap_DeploymentMode (dr_LiveConfig d) = ap_DeploymentMode (srv_cfg s)"
    "ap_Control (dr_LiveConfig d) = ap_Control (srv_cfg s)"
    "gw_CaddyAdminEndpoint (ap_Gateway (dr_LiveConfig d)) = gw_CaddyAdminEndpoint (ap_Gateway (srv_cfg s))"
    by (simp_all add: live)
  show "ac_ClientSecret (dc_Azure (ce_DNSChallenge (dr_CertificatePolicy d))) \<in>
       {[], TrimSpace (ac_ClientSecret (dc_Azure (ce_DNSChallenge (desiredCertificatePolicy (gw_Certificate (ap_Gateway (srv_cfg s))) s))))}"
    unfolding c(3) by (rule import_policy_secret)
qed

lemma plan_import_status: "plan_import opts env b s = Inl (status, e) \<Longrightarrow> status = 400 \<or> status = 500"
  by (simp add: plan_import_def Let_def split: sum.splits prod.splits option.splits)

lemma import_stages:
  assumes "importConfigurationBundle opts jc env rq s = (resp, s')" "rp_Status resp = 200"
  obtains b d store w fs where "ParseConfigurationBundle (jc_Bundle jc) (rq_Body rq) = Inr b" "plan_import opts env b s = Inr (d, store)"
    "s' = audit opts ''configuration.import.staged'' fs ((with_world w s)\<lparr>srv_draft := Some d\<rparr>)"
proof -
  obtain b d store s1 fs where i: "ParseConfigurationBundle (jc_Bundle jc) (rq_Body rq) = Inr b" "plan_import opts env b s = Inr (d, store)"
      "on_world (StageResources (Resources store)) s = (Inr (), s1)"
      "s' = audit opts ''configuration.import.staged'' fs (s1\<lparr>srv_draft := Some d\<rparr>)"
    using assms by (auto simp: importConfigurationBundle_def Let_def split: handler_splits dest: plan_import_status)
  obtain w where "s1 = with_world w s"
    using on_world_edit [OF i(3), of "en_store env" "OpStageResources (Resources store)"] by auto
  with i that show thesis by blast
qed

text \<open>
  C32: an import never brings in or drops a credential: what it stages has the admin tokens and the additional
  header of the desired settings, and no client secret but the current one. It changes nothing at once, and its
  live configuration leaves the control listener, the address of Caddy, the deployment mode and Azure as they are.
\<close>

theorem import_keeps_the_credentials:
  assumes "importConfigurationBundle opts jc env rq s = (resp, s')" "rp_Status resp = 200" "desiredSettings opts s = Inr current"
  shows "srv_cfg s' = srv_cfg s \<and> srv_settings s' = srv_settings s \<and> srv_certificates s' = srv_certificates s \<and>
    (\<exists>d. srv_draft s' = Some d \<and>
      sa_AdminToken (se_Auth (dr_Settings d)) = sa_AdminToken (se_Auth current) \<and>
      sa_AdminTokens (se_Auth (dr_Settings d)) = compactStrings (sa_AdminTokens (se_Auth current)) \<and>
      sa_AdditionalHeaderName (se_Auth (dr_Settings d)) = sa_AdditionalHeaderName (se_Auth current) \<and>
      sa_AdditionalHeaderValue (se_Auth (dr_Settings d)) = sa_AdditionalHeaderValue (se_Auth current) \<and>
      au_AdminToken (ap_Auth (dr_LiveConfig d)) = sa_AdminToken (se_Auth current) \<and>
      au_AdminTokens (ap_Auth (dr_LiveConfig d)) = compactStrings (sa_AdminTokens (se_Auth current)) \<and>
      ap_Azure (dr_LiveConfig d) = ap_Azure (srv_cfg s) \<and> ap_DeploymentMode (dr_LiveConfig d) = ap_DeploymentMode (srv_cfg s) \<and>
      ap_Control (dr_LiveConfig d) = ap_Control (srv_cfg s) \<and>
      gw_CaddyAdminEndpoint (ap_Gateway (dr_LiveConfig d)) = gw_CaddyAdminEndpoint (ap_Gateway (srv_cfg s)) \<and>
      ac_ClientSecret (dc_Azure (ce_DNSChallenge (dr_CertificatePolicy d))) \<in>
        {[], TrimSpace (ac_ClientSecret (dc_Azure (ce_DNSChallenge (desiredCertificatePolicy (gw_Certificate (ap_Gateway (srv_cfg s))) s))))})"
proof -
  obtain b d store w fs where i: "plan_import opts env b s = Inr (d, store)"
      "s' = audit opts ''configuration.import.staged'' fs ((with_world w s)\<lparr>srv_draft := Some d\<rparr>)"
    using import_stages [OF assms(1,2)] by metis
  show ?thesis using plan_import_secrets [OF i(1) assms(3)] i(2) by simp
qed

theorem import_keeps_the_credentials_witness:
  "\<exists>d. srv_draft (snd (importConfigurationBundle api_opts api_codec api_env (api_request ''POST'' [] sample_export) api_server)) = Some d \<and>
     sa_AdminToken (se_Auth (dr_Settings d)) = ''t0ken''"
proof -
  let ?out = "importConfigurationBundle api_opts api_codec api_env (api_request ''POST'' [] sample_export) api_server"
  have out: "?out = (fst ?out, snd ?out)" by simp
  have status: "rp_Status (fst ?out) = 200" using import_status by simp
  have desired: "desiredSettings api_opts api_server = Inr (SettingsFromConfig api_config)"
    by (simp add: desiredSettings_def persistedSettings_def api_server_def api_opts_def SettingsStore_Load_def load_json_def)
  have "sa_AdminToken (se_Auth (SettingsFromConfig api_config)) = ''t0ken''" by code_simp
  with import_keeps_the_credentials [OF out status desired] show ?thesis by auto
qed

text \<open>
  A new admin token replaces all others at once and for the next start: after the request that sets it, a
  request is let in exactly when it carries the new token, and the settings file holds that token alone.
\<close>

theorem new_token_replaces_the_others:
  assumes "handleSystemSettings opts jc env rq s = (resp, s')" "rp_Status resp = 200" "steady s" "background env"
    and "jc_System jc (rq_Body rq) = Inr request" "TrimSpace (sy_AdminToken request) = token" "token \<noteq> []"
    and "au_Required (ap_Auth (srv_cfg s))"
  shows "(Middleware (ap_Auth (srv_cfg s')) get = Serve \<longleftrightarrow> tokenFromRequest get = token) \<and>
    (\<exists>settings. srv_settings s' (path_of (op_SettingsPath opts)) = Saved settings \<and>
       sa_AdminToken (se_Auth settings) = token \<and> sa_AdminTokens (se_Auth settings) = [])"
proof -
  obtain desired0 candidate result s1 fs where c: "NormalizeAndValidate (system_candidate request desired0 (srv_cfg s)) = (Inr (), candidate)"
      "commitLiveConfig opts env (with_token token (srv_cfg s)) (save_settings opts env 0 (SettingsFromConfig candidate)) s = (Inr result, s1)"
      "s' = audit opts ''settings.system.update'' fs s1"
    using assms(1,2,5-7)
    by (auto simp: handleSystemSettings_def Let_def commitLiveConfig_def split: handler_splits)
  have auth: "au_AdminToken (ap_Auth candidate) = token" "au_AdminTokens (ap_Auth candidate) = []"
    using assms(6,7) unfolding accepted_parts(1) [OF c(1)]
    by (simp_all add: normalizeConfig_def system_candidate_def with_token_def Let_def compactStrings_def)
  from c(2) assms(3,4) live_persist_save(1) show ?thesis
  proof (cases rule: commitLiveConfig_cases)
    case (succeeded result w t)
    note t = save_outcome(1) [OF succeeded(2)]
    have "ap_Auth (srv_cfg s1) = (ap_Auth (srv_cfg s))\<lparr>au_AdminToken := token, au_AdminTokens := []\<rparr>"
      using succeeded(3) assms(7) by (simp add: with_token_def)
    then have "Middleware (ap_Auth (srv_cfg s')) get = Serve \<longleftrightarrow> tokenFromRequest get = token"
      using assms(7,8) c(3) by (auto simp: Middleware_def tokensConfigured_def tokenAllowed_def Let_def)
    then show ?thesis using c(3) succeeded(5) t auth by (auto simp: SettingsFromConfig_def Let_def)
  qed simp
qed

theorem new_token_replaces_the_others_witness:
  "Middleware (ap_Auth (srv_cfg (snd (handleSystemSettings api_opts api_codec api_env (api_request ''PUT'' [] []) api_server))))
     (rq_Get (api_request ''GET'' [] [])) \<noteq> Serve"
proof -
  let ?out = "handleSystemSettings api_opts api_codec api_env (api_request ''PUT'' [] []) api_server"
  have out: "?out = (fst ?out, snd ?out)" by simp
  have status: "rp_Status (fst ?out) = 200" using token_status by simp
  have "jc_System api_codec (rq_Body (api_request ''PUT'' [] [])) = Inr token_request" "TrimSpace (sy_AdminToken token_request) = ''n3w''"
      "au_Required (ap_Auth (srv_cfg api_server))" by code_simp+
  from new_token_replaces_the_others [OF out status api_server_steady api_env_background(1) this(1,2) _ this(3)]
  show ?thesis by (simp add: api_request_def tokenFromRequest_def)
qed

end
