(* ===== verification/ApiImport.thy ===== *)
theory ApiImport
  imports ApiOutcomes ApiSamples
begin

text \<open>
  The apply of a staged import: the sync with the candidate configuration whose commit saves the files and marks the routes
  as applied (\<open>handleReconcile\<close> and \<open>persistConfigurationImport\<close> of \<open>backend/internal/api\<close>).
\<close>

section \<open>The sync behind a commit\<close>

lemma sync_with_commitE:
  assumes "sync_with_commit env preserve candidate commit s = (result, committed, s1)"
  obtains res all r' f where
    "syncLocked (en_sync env) (en_store env) preserve candidate (Some (store_commit commit s)) (srv_rec s) = (res, committed, all, r')"
    "complete (en_finish env) (en_checker env) (en_azure env) f (if committed then en_meanwhile env r' else r') = (result, srv_rec s1)"
    "fl_goes f = committed" "fl_result f = res"
proof -
  obtain res goes all r' where sync: "syncLocked (en_sync env) (en_store env) preserve candidate (Some (store_commit commit s)) (srv_rec s) = (res, goes, all, r')"
    by (metis prod.collapse)
  define f where "f = fst (launch (res, goes, all, r'))"
  have l: "launch (res, goes, all, r') = (f, r')" "fl_goes f = goes" "fl_result f = res" by (simp_all add: f_def launch_def)
  show thesis
    using assms l by (intro that [of res all r' f]) (auto simp: sync_with_commit_def Let_def sync split: prod.splits)
qed

lemma complete_keeps:
  assumes "complete now checker azure f r = (res, r')"
  shows "rec_runtime r' = rec_runtime r" "AppliedSnapshot (w_store (rec_world r')) = AppliedSnapshot (w_store (rec_world r))"
    "\<not> fl_goes f \<Longrightarrow> re_RouteHealth (fl_result f) = None \<Longrightarrow> rec_world r' = rec_world r"
  using assms by (auto simp: complete_def finish_def Let_def AppliedSnapshot_def SetRuntimeStatus_def split: option.splits if_splits)

lemma roll_back_health: "roll_back env candidate r res r4 = (res', r5) \<Longrightarrow> re_RouteHealth res' = re_RouteHealth res"
  by (auto simp: roll_back_def restoreRuntime_def Let_def load_runtime_eq split: sum.splits option.splits if_splits)

lemma stopped_without_health:
  assumes "syncLocked env wenv preserve candidate commit r = (res, False, all, r')"
  shows "re_RouteHealth res = None"
  using assms unfolding syncLocked_eq Let_def load_runtime_eq
  by (auto simp: new_result_def base_result_def split: option.splits sum.splits prod.splits if_splits dest!: roll_back_health)

lemma persist_marks:
  assumes "persistConfigurationImport opts env snap t = (Inr u, t')"
  shows "AppliedSnapshot (api_store t') = snap"
proof -
  have mark: "AppliedSnapshot (api_store s3) = snap" if "on_world (MarkApplied (en_store env) snap) s2 = (Inr x, s3)" for s2 s3 x
    using that MarkApplied_applies by (auto simp: on_world_def api_store_def AppliedSnapshot_def split: prod.splits)
  show ?thesis
    using assms by (auto simp: persistConfigurationImport_def api_store_def [symmetric] split: prod.splits option.splits sum.splits
        dest!: mark simp flip: api_store_def) (simp_all add: api_store_def)
qed

text \<open>A commit that goes through: Caddy runs the rendering of the snapshot it marked.\<close>

lemma import_installs_the_snapshot:
  assumes "sync_with_commit env False (Some c) (persistConfigurationImport opts env) s = (result, True, s')"
    and "atomic_loader (en_sync env)" "\<forall>r. en_meanwhile env r = r"
  defines "snap \<equiv> DesiredSnapshot (w_store (sv_between (en_sync env) (rec_world (srv_rec s))))"
  shows "AppliedSnapshot (api_store s') = snap \<and>
    Render c (sn_Routes snap @ sync_discovered (en_sync env) (srv_rec s)) = Inr (rec_runtime (srv_rec s'))"
proof -
  obtain res all r' f where
    sync: "syncLocked (en_sync env) (en_store env) False (Some c) (Some (store_commit (persistConfigurationImport opts env) s)) (srv_rec s) = (res, True, all, r')"
    and over: "complete (en_finish env) (en_checker env) (en_azure env) f (en_meanwhile env r') = (result, srv_rec s')"
    using sync_with_commitE [OF assms(1)] by (metis (full_types))
  obtain config w where all: "all = sync_routes (en_sync env) False (srv_rec s)"
    and render: "Renderer_Render (rec_renderer (prepared (en_sync env) (Some c) (srv_rec s))) all = Inr config"
    and load: "fst (sv_load (en_sync env) 0 (rec_runtime (srv_rec s)) config) = None"
    and commit: "store_commit (persistConfigurationImport opts env) s (sync_snapshot (en_sync env) False (srv_rec s)) (sync_world (en_sync env) (srv_rec s)) = (Inr (), w)"
    and r': "r' = (prepared (en_sync env) (Some c) (srv_rec s))\<lparr>rec_runtime := snd (sv_load (en_sync env) 0 (rec_runtime (srv_rec s)) config), rec_world := w\<rparr>"
    by (rule sync_success [OF sync]) (simp add: default_commit_def)
  have "AppliedSnapshot (w_store w) = snap"
    using commit by (auto simp: store_commit_def api_store_def snap_def sync_snapshot_def dest!: persist_marks split: prod.splits)
  moreover have "snd (sv_load (en_sync env) 0 (rec_runtime (srv_rec s)) config) = config" using load assms(2) by (simp add: atomic_loader_def)
  ultimately show ?thesis using complete_keeps(1,2) [OF over] all render r' assms(3)
    by (simp add: api_store_def sync_routes_def sync_snapshot_def snap_def Renderer_Render_def prepared_def Rec_UpdateConfig_def UpdateConfig_def)
qed

text \<open>A commit that does not go through leaves the world as it was, and Caddy with the configuration it ran.\<close>

lemma stopped_import_changes_nothing:
  assumes "sync_with_commit env False (Some c) (persistConfigurationImport opts env) s = (result, False, s')"
  shows "undisturbed env \<Longrightarrow> rec_world (srv_rec s') = rec_world (srv_rec s)"
    and "atomic_loader (en_sync env) \<Longrightarrow> sv_reader (en_sync env) = Some (Inr (Some (rec_runtime (srv_rec s)))) \<Longrightarrow>
      \<forall>active. fst (sv_load (en_sync env) 1 active (rec_runtime (srv_rec s))) = None \<Longrightarrow>
      rec_runtime (srv_rec s') = rec_runtime (srv_rec s)"
proof -
  obtain res all r' f where
    sync: "syncLocked (en_sync env) (en_store env) False (Some c) (Some (store_commit (persistConfigurationImport opts env) s)) (srv_rec s) = (res, False, all, r')"
    and over: "complete (en_finish env) (en_checker env) (en_azure env) f r' = (result, srv_rec s')" and f: "\<not> fl_goes f" "fl_result f = res"
    using sync_with_commitE [OF assms(1)] by (metis (full_types))
  have same: "rec_world (srv_rec s') = rec_world r'" using complete_keeps(3) [OF over] f stopped_without_health [OF sync] by simp
  show "rec_world (srv_rec s') = rec_world (srv_rec s)" if "undisturbed env"
  proof (cases "commit_call (en_sync env) False (Some c) (srv_rec s)")
    case None
    then show ?thesis using sync_commit_call [OF sync] that same by (auto simp: sync_world_def undisturbed_def)
  next
    case (Some sw)
    then have "isl (fst (store_commit (persistConfigurationImport opts env) s (fst sw) (rec_world (srv_rec s))))"
      "rec_world r' = snd (store_commit (persistConfigurationImport opts env) s (fst sw) (rec_world (srv_rec s)))"
      using sync_commit_call [OF sync] that by (auto simp: sync_world_def undisturbed_def)
    then show ?thesis using same by (auto simp: store_commit_def isl_def dest!: persist_failed(1) split: prod.splits)
  qed
  show "rec_runtime (srv_rec s') = rec_runtime (srv_rec s)" if "atomic_loader (en_sync env)"
    "sv_reader (en_sync env) = Some (Inr (Some (rec_runtime (srv_rec s))))"
    "\<forall>active. fst (sv_load (en_sync env) 1 active (rec_runtime (srv_rec s))) = None"
    using sync_stop_runtime [OF sync that] complete_keeps(1) [OF over] by simp
qed

section \<open>The property\<close>

text \<open>
  C7: the apply of a staged import ends in one of two ways. Either the import is no longer pending, the server, the
  reconciler and the renderer work with its configuration, the files hold its settings and its certificate policy, and
  (when no other request changes the store between the end of the sync and the answer) the store records as
  applied the routing resources the sync has read, whose rendering under that configuration is what Caddy runs. Or it is
  still pending and the configuration is the one before; the world of the routing store is the one before when nobody
  else edits it, each of the two files is as before or holds the value from before the import when the roll back can write
  them, and Caddy runs what it ran when that can be read before and loaded again.
\<close>

theorem import_is_applied_as_a_whole:
  assumes "handleReconcile opts env rq s = (resp, s')" "rq_Method rq = ''POST''" "srv_draft s = Some d"
    and "steady s" "background env" "atomic_loader (en_sync env)"
  shows "(srv_draft s' = None \<and> srv_cfg s' = dr_LiveConfig d \<and> steady s' \<and>
      srv_settings s' = (srv_settings s)(path_of (op_SettingsPath opts) := Saved (dr_Settings d)) \<and>
      srv_certificates s' = (srv_certificates s)(path_of (op_CertificatePath opts) := Saved (dr_CertificatePolicy d)) \<and>
      ((\<forall>r. en_meanwhile env r = r) \<longrightarrow>
         AppliedSnapshot (api_store s') = DesiredSnapshot (w_store (sv_between (en_sync env) (rec_world (srv_rec s)))) \<and>
         Render (dr_LiveConfig d) (sn_Routes (AppliedSnapshot (api_store s')) @ sync_discovered (en_sync env) (srv_rec s)) = Inr (rec_runtime (srv_rec s')))) \<or>
    (srv_draft s' = Some d \<and> srv_cfg s' = srv_cfg s \<and> steady s' \<and>
      (undisturbed env \<longrightarrow> rec_world (srv_rec s') = rec_world (srv_rec s)) \<and>
      (en_settingsWrite env 1 = None \<and> en_certificateWrite env 1 = None \<longrightarrow> rolled_back opts d s s') \<and>
      (sv_reader (en_sync env) = Some (Inr (Some (rec_runtime (srv_rec s)))) \<and>
        (\<forall>active. fst (sv_load (en_sync env) 1 active (rec_runtime (srv_rec s))) = None) \<longrightarrow>
        rec_runtime (srv_rec s') = rec_runtime (srv_rec s)))"
proof -
  obtain result committed where sync: "sync_with_commit env False (Some (dr_LiveConfig d)) (persistConfigurationImport opts env) s
      = (result, committed, s')"
    using assms(1-3) by (auto simp: handleReconcile_def split: prod.splits)
  from sync assms(4,5) persist_reachable show ?thesis
  proof (cases rule: sync_outcomes)
    case (uncalled r2)
    then show ?thesis using stopped_import_changes_nothing [of env "dr_LiveConfig d" opts s result s'] sync assms(3,6)
      by (simp add: steady_def rolled_back_def)
  next
    case (refused found w e t r2)
    have undone: "rolled_back opts d s s'" if "en_settingsWrite env 1 = None" "en_certificateWrite env 1 = None"
      using persist_failed(6) [OF refused(2) _ that] refused(3) assms(3) by (simp add: rolled_back_def)
    show ?thesis using stopped_import_changes_nothing [of env "dr_LiveConfig d" opts s result s'] sync assms(6)
        persist_failed(2,3) [OF refused(2)] refused assms(3) undone by (simp add: steady_def)
  next
    case (committed found w t r2)
    have "(\<forall>r. en_meanwhile env r = r) \<longrightarrow> AppliedSnapshot (api_store s') = DesiredSnapshot (w_store (sv_between (en_sync env) (rec_world (srv_rec s)))) \<and>
        Render (dr_LiveConfig d) (sn_Routes (AppliedSnapshot (api_store s')) @ sync_discovered (en_sync env) (srv_rec s)) = Inr (rec_runtime (srv_rec s'))"
      using import_installs_the_snapshot [OF _ assms(6)] sync committed(1) by simp
    then show ?thesis using persist_done(1) [OF committed(2)] persist_done(3) [OF committed(2), of d] committed assms(3)
      by (simp add: steady_def) auto
  qed
qed

lemma import_is_applied_as_a_whole_witness:
  "let s' = snd (handleReconcile api_opts api_env (api_request ''POST'' ''/api/reconcile'' []) draft_server) in
     srv_draft s' = None \<and> srv_settings s' ''settings.json'' = Saved (SettingsFromConfig api_config) \<and>
     AppliedSnapshot (api_store s') = DesiredSnapshot (api_store draft_server) \<and>
     Render api_config (sn_Routes (DesiredSnapshot (api_store draft_server))) = Inr (rec_runtime (srv_rec s'))"
proof -
  let ?out = "handleReconcile api_opts api_env (api_request ''POST'' ''/api/reconcile'' []) draft_server"
  have out: "?out = (fst ?out, snd ?out)" by simp
  have "srv_draft (snd ?out) = None" using apply_pending by (simp add: configurationImportPending_def)
  moreover have "atomic_loader (en_sync api_env)" using atomic_examples(1) by (simp add: api_env_def)
  moreover have "srv_draft draft_server = Some \<lparr>dr_Settings = SettingsFromConfig api_config, dr_CertificatePolicy = shop_policy,
     dr_LiveConfig = api_config, dr_PreviousSettings = SettingsFromConfig api_config, dr_PreviousCertificatePolicy = shop_policy\<rparr>"
    "sync_discovered (en_sync api_env) r = []" "sv_between (en_sync api_env) w = w" "en_meanwhile api_env r = r"
    "path_of (op_SettingsPath api_opts) = ''settings.json''" "rq_Method (api_request m p b) = m" for r w m p b
    by (simp_all add: draft_server_def api_env_def quiet_sync_def sync_discovered_def path_of_def api_opts_def api_request_def)
  ultimately show ?thesis
    using import_is_applied_as_a_whole [OF out _ _ draft_server_steady api_env_background(1)] by (auto simp: api_store_def Let_def)
qed

end
