(* ===== verification/ApiOperations.thy ===== *)
theory ApiOperations
  imports ApiSteps ApiSamples
begin

text \<open>
  The requests for listeners, backend pools, routing rules and routes as operations of the routing store: which operation a
  request asks for, written as a table over its method, path and decoded body, and that the server runs
  exactly that one (\<open>backend/internal/api/routing_resources.go\<close> and the route handlers of \<open>server.go\<close>).
\<close>

section \<open>The operation a request asks for\<close>

inductive asks_for :: "ApiCodec \<Rightarrow> Request \<Rightarrow> routing_op \<Rightarrow> string \<Rightarrow> int \<Rightarrow> bool" for jc rq where
  add_listener: "rq_Method rq = ''POST'' \<Longrightarrow> rq_Path rq = ''/api/listeners'' \<Longrightarrow> jc_Listener jc (rq_Body rq) = Inr x \<Longrightarrow>
    asks_for jc rq (OpAddListener x) ''listener.create'' 201"
| replace_listener: "rq_Method rq = ''PUT'' \<Longrightarrow> rq_Path rq = ''/api/listeners/'' @ i \<Longrightarrow> i \<noteq> [] \<Longrightarrow> jc_Listener jc (rq_Body rq) = Inr x \<Longrightarrow>
    asks_for jc rq (OpReplaceListener (x\<lparr>ln_ID := i\<rparr>)) ''listener.update'' 200"
| delete_listener: "rq_Method rq = ''DELETE'' \<Longrightarrow> rq_Path rq = ''/api/listeners/'' @ i \<Longrightarrow> i \<noteq> [] \<Longrightarrow>
    asks_for jc rq (OpDeleteListener i) ''listener.delete'' 200"
| add_pool: "rq_Method rq = ''POST'' \<Longrightarrow> rq_Path rq = ''/api/backend-pools'' \<Longrightarrow> jc_Pool jc (rq_Body rq) = Inr x \<Longrightarrow>
    asks_for jc rq (OpAddPool x) ''backend-pool.create'' 201"
| replace_pool: "rq_Method rq = ''PUT'' \<Longrightarrow> rq_Path rq = ''/api/backend-pools/'' @ i \<Longrightarrow> i \<noteq> [] \<Longrightarrow> jc_Pool jc (rq_Body rq) = Inr x \<Longrightarrow>
    asks_for jc rq (OpReplacePool (x\<lparr>bp_ID := i\<rparr>)) ''backend-pool.update'' 200"
| delete_pool: "rq_Method rq = ''DELETE'' \<Longrightarrow> rq_Path rq = ''/api/backend-pools/'' @ i \<Longrightarrow> i \<noteq> [] \<Longrightarrow>
    asks_for jc rq (OpDeletePool i) ''backend-pool.delete'' 200"
| add_rule: "rq_Method rq = ''POST'' \<Longrightarrow> rq_Path rq = ''/api/routing-rules'' \<Longrightarrow> jc_Rule jc (rq_Body rq) = Inr x \<Longrightarrow>
    asks_for jc rq (OpAddRule x) ''routing-rule.create'' 201"
| replace_rule: "rq_Method rq = ''PUT'' \<Longrightarrow> rq_Path rq = ''/api/routing-rules/'' @ i \<Longrightarrow> i \<noteq> [] \<Longrightarrow> jc_Rule jc (rq_Body rq) = Inr x \<Longrightarrow>
    asks_for jc rq (OpReplaceRule (x\<lparr>rr_ID := i\<rparr>)) ''routing-rule.update'' 200"
| delete_rule: "rq_Method rq = ''DELETE'' \<Longrightarrow> rq_Path rq = ''/api/routing-rules/'' @ i \<Longrightarrow> i \<noteq> [] \<Longrightarrow>
    asks_for jc rq (OpDeleteRule i) ''routing-rule.delete'' 200"
| add_route: "rq_Method rq = ''POST'' \<Longrightarrow> rq_Path rq = ''/api/routes'' \<Longrightarrow> jc_Route jc (rq_Body rq) = Inr x \<Longrightarrow>
    asks_for jc rq (OpAddRoute x) ''route.create'' 201"
| replace_route: "rq_Method rq = ''PUT'' \<Longrightarrow> rq_Path rq = ''/api/routes/'' @ i \<Longrightarrow> i \<noteq> [] \<Longrightarrow> jc_Route jc (rq_Body rq) = Inr x \<Longrightarrow>
    asks_for jc rq (OpReplaceRoute (x\<lparr>rc_ID := i\<rparr>)) ''route.update'' 200"
| delete_route: "rq_Method rq = ''DELETE'' \<Longrightarrow> rq_Path rq = ''/api/routes/'' @ i \<Longrightarrow> i \<noteq> [] \<Longrightarrow>
    asks_for jc rq (OpDeleteRoute i) ''route.delete'' 200"

definition resource_path :: "string \<Rightarrow> bool" where
  "resource_path path \<longleftrightarrow> (\<exists>kind \<in> {''/api/listeners'', ''/api/backend-pools'', ''/api/routing-rules'', ''/api/routes''}. path = kind \<or> (\<exists>i. path = kind @ ''/'' @ i))"

text \<open>
  What the server makes of an operation: an error is answered with its text and changes nothing; otherwise the world is the one
  after the operation and an event is recorded.
\<close>

definition performs :: "Options \<Rightarrow> ApiEnv \<Rightarrow> routing_op \<Rightarrow> string \<Rightarrow> int \<Rightarrow> Server \<Rightarrow> Response \<Rightarrow> Server \<Rightarrow> bool" where
  "performs opts env oper event status s resp s' \<longleftrightarrow>
     (case run_op (en_store env) oper (rec_world (srv_rec s)) of
        (Inl e, _) \<Rightarrow> s' = s \<and> (\<exists>code \<in> {400, 404, 409}. resp = writeError code e)
      | (Inr _, w) \<Rightarrow> rp_Status resp = status \<and> (\<exists>fs. s' = audit opts event fs (with_world w s)))"

lemma performsI:
  assumes "\<And>w. forget (f w) = run_op (en_store env) oper w" "on_world f s = (r, s1)"
    and "\<And>e. r = Inl e \<Longrightarrow> s' = s1 \<and> (\<exists>code \<in> {400, 404, 409}. resp = writeError code e)"
    and "\<And>x. r = Inr x \<Longrightarrow> rp_Status resp = status \<and> (\<exists>fs. s' = audit opts event fs s1)"
  shows "performs opts env oper event status s resp s'"
proof (cases r)
  case (Inl e)
  obtain w where "f (rec_world (srv_rec s)) = (Inl e, w)" using assms(2) Inl by (auto simp: on_world_def split: prod.splits)
  then have "run_op (en_store env) oper (rec_world (srv_rec s)) = (Inl e, w)"
    using assms(1) [of "rec_world (srv_rec s)"] by (simp add: forget_def)
  then show ?thesis using assms(3) [OF Inl] on_world_failed [OF assms(2) [unfolded Inl] assms(1)] by (simp add: performs_def)
next
  case (Inr x)
  from on_world_edit [OF assms(2) [unfolded Inr] assms(1)] obtain w where
    "run_op (en_store env) oper (rec_world (srv_rec s)) = (Inr (), w)" "s1 = with_world w s" by blast
  with assms(4) [OF Inr] show ?thesis by (auto simp: performs_def)
qed

lemma resource_error: "\<exists>code \<in> {400, 404, 409}. writeRoutingResourceError e = writeError code e"
  by (simp add: writeRoutingResourceError_def)

text \<open>The end of every handler that runs an operation.\<close>

lemma edit_performs:
  assumes "(case on_world f s of (Inl e, s1) \<Rightarrow> (err e, s1) | (Inr c, s1) \<Rightarrow> (ok c, audit opts event (fs c) s1)) = (resp, s')"
    and "\<And>w. forget (f w) = run_op (en_store env) oper w"
    and "\<And>e. \<exists>code \<in> {400, 404, 409}. err e = writeError code e" "\<And>c. rp_Status (ok c) = status"
  shows "performs opts env oper event status s resp s'"
proof -
  obtain r s1 where r: "on_world f s = (r, s1)" by fastforce
  show ?thesis using assms(1,3,4) by (intro performsI [OF assms(2) r]) (auto simp: r)
qed

text \<open>A request that asks for nothing: the server is as it was, and unless it only reads it is told so.\<close>

definition refused :: "Request \<Rightarrow> Server \<Rightarrow> Response \<Rightarrow> Server \<Rightarrow> bool" where
  "refused rq s resp s' \<longleftrightarrow> s' = s \<and> (rq_Method rq \<in> {''POST'', ''PUT'', ''DELETE''} \<longrightarrow> rp_Status resp \<ge> 400)"

section \<open>The handlers\<close>

lemma handleListeners_performs:
  assumes "handleListeners opts jc env rq s = (resp, s')"
  shows "rq_Method rq = ''POST'' \<Longrightarrow> jc_Listener jc (rq_Body rq) = Inr x \<Longrightarrow> performs opts env (OpAddListener x) ''listener.create'' 201 s resp s'"
    and "rq_Method rq \<noteq> ''POST'' \<or> isl (jc_Listener jc (rq_Body rq)) \<Longrightarrow> refused rq s resp s'"
proof -
  note h = assms [unfolded handleListeners_def markRoutingChangesPending_def]
  show "rq_Method rq = ''POST'' \<Longrightarrow> jc_Listener jc (rq_Body rq) = Inr x \<Longrightarrow> performs opts env (OpAddListener x) ''listener.create'' 201 s resp s'"
    using h by simp (erule edit_performs; simp add: resource_error [simplified])
qed (use assms in \<open>auto simp: handleListeners_def refused_def isl_def split: if_splits sum.splits\<close>)

lemma handleListenerByID_performs:
  assumes "handleListenerByID opts jc env rq s = (resp, s')" "rq_Path rq = ''/api/listeners/'' @ i"
  shows "rq_Method rq = ''PUT'' \<Longrightarrow> i \<noteq> [] \<Longrightarrow> jc_Listener jc (rq_Body rq) = Inr x \<Longrightarrow>
      performs opts env (OpReplaceListener (x\<lparr>ln_ID := i\<rparr>)) ''listener.update'' 200 s resp s'"
    and "rq_Method rq = ''DELETE'' \<Longrightarrow> i \<noteq> [] \<Longrightarrow> performs opts env (OpDeleteListener i) ''listener.delete'' 200 s resp s'"
    and "i = [] \<or> rq_Method rq \<notin> {''PUT'', ''DELETE''} \<or> rq_Method rq = ''PUT'' \<and> isl (jc_Listener jc (rq_Body rq)) \<Longrightarrow> refused rq s resp s'"
proof -
  note h = assms(1) [unfolded handleListenerByID_def assms(2) TrimPrefix_append Let_def markRoutingChangesPending_def]
  show "rq_Method rq = ''PUT'' \<Longrightarrow> i \<noteq> [] \<Longrightarrow> jc_Listener jc (rq_Body rq) = Inr x \<Longrightarrow>
      performs opts env (OpReplaceListener (x\<lparr>ln_ID := i\<rparr>)) ''listener.update'' 200 s resp s'"
    using h by simp (erule edit_performs; simp add: resource_error [simplified])
  show "rq_Method rq = ''DELETE'' \<Longrightarrow> i \<noteq> [] \<Longrightarrow> performs opts env (OpDeleteListener i) ''listener.delete'' 200 s resp s'"
    using h by simp (erule edit_performs; simp add: resource_error [simplified])
  show "i = [] \<or> rq_Method rq \<notin> {''PUT'', ''DELETE''} \<or> rq_Method rq = ''PUT'' \<and> isl (jc_Listener jc (rq_Body rq)) \<Longrightarrow> refused rq s resp s'"
    using h by (auto simp: refused_def isl_def split: if_splits sum.splits)
qed

lemma handleBackendPools_performs:
  assumes "handleBackendPools opts jc env rq s = (resp, s')"
  shows "rq_Method rq = ''POST'' \<Longrightarrow> jc_Pool jc (rq_Body rq) = Inr x \<Longrightarrow> performs opts env (OpAddPool x) ''backend-pool.create'' 201 s resp s'"
    and "rq_Method rq \<noteq> ''POST'' \<or> isl (jc_Pool jc (rq_Body rq)) \<Longrightarrow> refused rq s resp s'"
proof -
  note h = assms [unfolded handleBackendPools_def markRoutingChangesPending_def]
  show "rq_Method rq = ''POST'' \<Longrightarrow> jc_Pool jc (rq_Body rq) = Inr x \<Longrightarrow> performs opts env (OpAddPool x) ''backend-pool.create'' 201 s resp s'"
    using h by simp (erule edit_performs; simp add: resource_error [simplified])
qed (use assms in \<open>auto simp: handleBackendPools_def refused_def isl_def split: if_splits sum.splits\<close>)

lemma handleBackendPoolByID_performs:
  assumes "handleBackendPoolByID opts jc env rq s = (resp, s')" "rq_Path rq = ''/api/backend-pools/'' @ i"
  shows "rq_Method rq = ''PUT'' \<Longrightarrow> i \<noteq> [] \<Longrightarrow> jc_Pool jc (rq_Body rq) = Inr x \<Longrightarrow>
      performs opts env (OpReplacePool (x\<lparr>bp_ID := i\<rparr>)) ''backend-pool.update'' 200 s resp s'"
    and "rq_Method rq = ''DELETE'' \<Longrightarrow> i \<noteq> [] \<Longrightarrow> performs opts env (OpDeletePool i) ''backend-pool.delete'' 200 s resp s'"
    and "i = [] \<or> rq_Method rq \<notin> {''PUT'', ''DELETE''} \<or> rq_Method rq = ''PUT'' \<and> isl (jc_Pool jc (rq_Body rq)) \<Longrightarrow> refused rq s resp s'"
proof -
  note h = assms(1) [unfolded handleBackendPoolByID_def assms(2) TrimPrefix_append Let_def markRoutingChangesPending_def]
  show "rq_Method rq = ''PUT'' \<Longrightarrow> i \<noteq> [] \<Longrightarrow> jc_Pool jc (rq_Body rq) = Inr x \<Longrightarrow>
      performs opts env (OpReplacePool (x\<lparr>bp_ID := i\<rparr>)) ''backend-pool.update'' 200 s resp s'"
    using h by simp (erule edit_performs; simp add: resource_error [simplified])
  show "rq_Method rq = ''DELETE'' \<Longrightarrow> i \<noteq> [] \<Longrightarrow> performs opts env (OpDeletePool i) ''backend-pool.delete'' 200 s resp s'"
    using h by simp (erule edit_performs; simp add: resource_error [simplified])
  show "i = [] \<or> rq_Method rq \<notin> {''PUT'', ''DELETE''} \<or> rq_Method rq = ''PUT'' \<and> isl (jc_Pool jc (rq_Body rq)) \<Longrightarrow> refused rq s resp s'"
    using h by (auto simp: refused_def isl_def split: if_splits sum.splits)
qed

lemma handleRoutingRules_performs:
  assumes "handleRoutingRules opts jc env rq s = (resp, s')"
  shows "rq_Method rq = ''POST'' \<Longrightarrow> jc_Rule jc (rq_Body rq) = Inr x \<Longrightarrow> performs opts env (OpAddRule x) ''routing-rule.create'' 201 s resp s'"
    and "rq_Method rq \<noteq> ''POST'' \<or> isl (jc_Rule jc (rq_Body rq)) \<Longrightarrow> refused rq s resp s'"
proof -
  note h = assms [unfolded handleRoutingRules_def markRoutingChangesPending_def]
  show "rq_Method rq = ''POST'' \<Longrightarrow> jc_Rule jc (rq_Body rq) = Inr x \<Longrightarrow> performs opts env (OpAddRule x) ''routing-rule.create'' 201 s resp s'"
    using h by simp (erule edit_performs; simp add: resource_error [simplified])
qed (use assms in \<open>auto simp: handleRoutingRules_def refused_def isl_def split: if_splits sum.splits\<close>)

lemma handleRoutingRuleByID_performs:
  assumes "handleRoutingRuleByID opts jc env rq s = (resp, s')" "rq_Path rq = ''/api/routing-rules/'' @ i"
  shows "rq_Method rq = ''PUT'' \<Longrightarrow> i \<noteq> [] \<Longrightarrow> jc_Rule jc (rq_Body rq) = Inr x \<Longrightarrow>
      performs opts env (OpReplaceRule (x\<lparr>rr_ID := i\<rparr>)) ''routing-rule.update'' 200 s resp s'"
    and "rq_Method rq = ''DELETE'' \<Longrightarrow> i \<noteq> [] \<Longrightarrow> performs opts env (OpDeleteRule i) ''routing-rule.delete'' 200 s resp s'"
    and "i = [] \<or> rq_Method rq \<notin> {''PUT'', ''DELETE''} \<or> rq_Method rq = ''PUT'' \<and> isl (jc_Rule jc (rq_Body rq)) \<Longrightarrow> refused rq s resp s'"
proof -
  note h = assms(1) [unfolded handleRoutingRuleByID_def assms(2) TrimPrefix_append Let_def markRoutingChangesPending_def]
  show "rq_Method rq = ''PUT'' \<Longrightarrow> i \<noteq> [] \<Longrightarrow> jc_Rule jc (rq_Body rq) = Inr x \<Longrightarrow>
      performs opts env (OpReplaceRule (x\<lparr>rr_ID := i\<rparr>)) ''routing-rule.update'' 200 s resp s'"
    using h by simp (erule edit_performs; simp add: resource_error [simplified])
  show "rq_Method rq = ''DELETE'' \<Longrightarrow> i \<noteq> [] \<Longrightarrow> performs opts env (OpDeleteRule i) ''routing-rule.delete'' 200 s resp s'"
    using h by simp (erule edit_performs; simp add: resource_error [simplified])
  show "i = [] \<or> rq_Method rq \<notin> {''PUT'', ''DELETE''} \<or> rq_Method rq = ''PUT'' \<and> isl (jc_Rule jc (rq_Body rq)) \<Longrightarrow> refused rq s resp s'"
    using h by (auto simp: refused_def isl_def split: if_splits sum.splits)
qed

lemma handleRoutes_performs:
  assumes "handleRoutes opts jc env rq s = (resp, s')"
  shows "rq_Method rq = ''POST'' \<Longrightarrow> jc_Route jc (rq_Body rq) = Inr x \<Longrightarrow> performs opts env (OpAddRoute x) ''route.create'' 201 s resp s'"
    and "rq_Method rq \<noteq> ''POST'' \<or> isl (jc_Route jc (rq_Body rq)) \<Longrightarrow> refused rq s resp s'"
proof -
  note h = assms [unfolded handleRoutes_def markRoutingChangesPending_def]
  show "rq_Method rq = ''POST'' \<Longrightarrow> jc_Route jc (rq_Body rq) = Inr x \<Longrightarrow> performs opts env (OpAddRoute x) ''route.create'' 201 s resp s'"
    using h by simp (erule edit_performs; simp add: resource_error [simplified])
qed (use assms in \<open>auto simp: handleRoutes_def refused_def isl_def split: if_splits sum.splits\<close>)

lemma handleRouteByID_performs:
  assumes "handleRouteByID opts jc env rq s = (resp, s')" "rq_Path rq = ''/api/routes/'' @ i"
  shows "rq_Method rq = ''PUT'' \<Longrightarrow> i \<noteq> [] \<Longrightarrow> jc_Route jc (rq_Body rq) = Inr x \<Longrightarrow>
      performs opts env (OpReplaceRoute (x\<lparr>rc_ID := i\<rparr>)) ''route.update'' 200 s resp s'"
    and "rq_Method rq = ''DELETE'' \<Longrightarrow> i \<noteq> [] \<Longrightarrow> performs opts env (OpDeleteRoute i) ''route.delete'' 200 s resp s'"
    and "i = [] \<or> rq_Method rq \<notin> {''PUT'', ''DELETE''} \<or> rq_Method rq = ''PUT'' \<and> isl (jc_Route jc (rq_Body rq)) \<Longrightarrow> refused rq s resp s'"
proof -
  note h = assms(1) [unfolded handleRouteByID_def assms(2) TrimPrefix_append Let_def markRoutingChangesPending_def]
  show "rq_Method rq = ''PUT'' \<Longrightarrow> i \<noteq> [] \<Longrightarrow> jc_Route jc (rq_Body rq) = Inr x \<Longrightarrow>
      performs opts env (OpReplaceRoute (x\<lparr>rc_ID := i\<rparr>)) ''route.update'' 200 s resp s'"
    using h by simp (erule edit_performs; simp add: resource_error [simplified])
  show "rq_Method rq = ''DELETE'' \<Longrightarrow> i \<noteq> [] \<Longrightarrow> performs opts env (OpDeleteRoute i) ''route.delete'' 200 s resp s'"
    using h by simp (erule edit_performs; simp add: resource_error [simplified])
  show "i = [] \<or> rq_Method rq \<notin> {''PUT'', ''DELETE''} \<or> rq_Method rq = ''PUT'' \<and> isl (jc_Route jc (rq_Body rq)) \<Longrightarrow> refused rq s resp s'"
    using h by (auto simp: refused_def isl_def split: if_splits sum.splits)
qed

section \<open>The dispatch\<close>

lemma resource_handlers:
  "api_handler opts jc env ''/api/listeners'' = Some (handleListeners opts jc env)"
  "api_handler opts jc env (''/api/listeners/'' @ i) = Some (handleListenerByID opts jc env)"
  "api_handler opts jc env ''/api/backend-pools'' = Some (handleBackendPools opts jc env)"
  "api_handler opts jc env (''/api/backend-pools/'' @ i) = Some (handleBackendPoolByID opts jc env)"
  "api_handler opts jc env ''/api/routing-rules'' = Some (handleRoutingRules opts jc env)"
  "api_handler opts jc env (''/api/routing-rules/'' @ i) = Some (handleRoutingRuleByID opts jc env)"
  "api_handler opts jc env ''/api/routes'' = Some (handleRoutes opts jc env)"
  "api_handler opts jc env (''/api/routes/'' @ i) = Some (handleRouteByID opts jc env)"
  by (simp_all add: api_handler_def HasPrefix_def)

lemma serve_resource:
  assumes "serve opts jc env rq s = (resp, s')" "clean_path (rq_Path rq)" "Middleware (ap_Auth (srv_cfg s)) (rq_Get rq) = Serve"
    and "rq_Path rq = ''/api/'' @ rest" "api_handler opts jc env (rq_Path rq) = Some h"
  shows "h rq s = (resp, s')"
  using assms by (simp add: serve_def Let_def HasPrefix_def)

lemma served_resource:
  assumes "serve opts jc env rq s = (resp, s')" "clean_path (rq_Path rq)" "Middleware (ap_Auth (srv_cfg s)) (rq_Get rq) = Serve"
  shows
    "rq_Path rq = ''/api/listeners'' \<Longrightarrow> handleListeners opts jc env rq s = (resp, s')"
    "rq_Path rq = ''/api/listeners/'' @ i \<Longrightarrow> handleListenerByID opts jc env rq s = (resp, s')"
    "rq_Path rq = ''/api/backend-pools'' \<Longrightarrow> handleBackendPools opts jc env rq s = (resp, s')"
    "rq_Path rq = ''/api/backend-pools/'' @ i \<Longrightarrow> handleBackendPoolByID opts jc env rq s = (resp, s')"
    "rq_Path rq = ''/api/routing-rules'' \<Longrightarrow> handleRoutingRules opts jc env rq s = (resp, s')"
    "rq_Path rq = ''/api/routing-rules/'' @ i \<Longrightarrow> handleRoutingRuleByID opts jc env rq s = (resp, s')"
    "rq_Path rq = ''/api/routes'' \<Longrightarrow> handleRoutes opts jc env rq s = (resp, s')"
    "rq_Path rq = ''/api/routes/'' @ i \<Longrightarrow> handleRouteByID opts jc env rq s = (resp, s')"
  by (rule serve_resource [OF assms], simp, simp only: resource_handlers)+

lemma asked_is_performed:
  assumes "serve opts jc env rq s = (resp, s')" "clean_path (rq_Path rq)" "Middleware (ap_Auth (srv_cfg s)) (rq_Get rq) = Serve"
    and "asks_for jc rq oper event status"
  shows "performs opts env oper event status s resp s'"
proof -
  note served = served_resource [OF assms(1-3)]
  note performed = handleListeners_performs(1) [OF served(1)] handleListenerByID_performs(1,2) [OF served(2)]
    handleBackendPools_performs(1) [OF served(3)] handleBackendPoolByID_performs(1,2) [OF served(4)]
    handleRoutingRules_performs(1) [OF served(5)] handleRoutingRuleByID_performs(1,2) [OF served(6)]
    handleRoutes_performs(1) [OF served(7)] handleRouteByID_performs(1,2) [OF served(8)]
  from assms(4) show ?thesis by cases (hypsubst, (rule performed; assumption))+
qed

lemma resource_paths:
  assumes "resource_path path"
  obtains "path = ''/api/listeners''" | i where "path = ''/api/listeners/'' @ i"
    | "path = ''/api/backend-pools''" | i where "path = ''/api/backend-pools/'' @ i"
    | "path = ''/api/routing-rules''" | i where "path = ''/api/routing-rules/'' @ i"
    | "path = ''/api/routes''" | i where "path = ''/api/routes/'' @ i"
  using assms unfolding resource_path_def by (elim bexE disjE exE insertE emptyE; simp)

lemma not_asked_is_refused:
  assumes "serve opts jc env rq s = (resp, s')" "clean_path (rq_Path rq)" "Middleware (ap_Auth (srv_cfg s)) (rq_Get rq) = Serve"
    and "resource_path (rq_Path rq)" and none: "\<And>oper event status. \<not> asks_for jc rq oper event status"
  shows "refused rq s resp s'"
proof -
  note served = served_resource [OF assms(1-3)]
  from assms(4) show ?thesis
  proof (cases rule: resource_paths)
    case 1
    show ?thesis using none asks_for.add_listener [of rq jc] 1
      by (intro handleListeners_performs(2) [OF served(1) [OF 1]]) (cases "jc_Listener jc (rq_Body rq)"; auto)
  next
    case (2 i)
    show ?thesis using none asks_for.replace_listener [of rq i jc] asks_for.delete_listener [of rq i jc] 2
      by (intro handleListenerByID_performs(3) [OF served(2) [OF 2] 2]) (cases "jc_Listener jc (rq_Body rq)"; auto)
  next
    case 3
    show ?thesis using none asks_for.add_pool [of rq jc] 3
      by (intro handleBackendPools_performs(2) [OF served(3) [OF 3]]) (cases "jc_Pool jc (rq_Body rq)"; auto)
  next
    case (4 i)
    show ?thesis using none asks_for.replace_pool [of rq i jc] asks_for.delete_pool [of rq i jc] 4
      by (intro handleBackendPoolByID_performs(3) [OF served(4) [OF 4] 4]) (cases "jc_Pool jc (rq_Body rq)"; auto)
  next
    case 5
    show ?thesis using none asks_for.add_rule [of rq jc] 5
      by (intro handleRoutingRules_performs(2) [OF served(5) [OF 5]]) (cases "jc_Rule jc (rq_Body rq)"; auto)
  next
    case (6 i)
    show ?thesis using none asks_for.replace_rule [of rq i jc] asks_for.delete_rule [of rq i jc] 6
      by (intro handleRoutingRuleByID_performs(3) [OF served(6) [OF 6] 6]) (cases "jc_Rule jc (rq_Body rq)"; auto)
  next
    case 7
    show ?thesis using none asks_for.add_route [of rq jc] 7
      by (intro handleRoutes_performs(2) [OF served(7) [OF 7]]) (cases "jc_Route jc (rq_Body rq)"; auto)
  next
    case (8 i)
    show ?thesis using none asks_for.replace_route [of rq i jc] asks_for.delete_route [of rq i jc] 8
      by (intro handleRouteByID_performs(3) [OF served(8) [OF 8] 8]) (cases "jc_Route jc (rq_Body rq)"; auto)
  qed
qed

text \<open>
  C31: a request on a clean path to the listeners, backend pools, routing rules or routes that passes the authentication runs exactly the
  operation of the routing store its method, path and body ask for. When that fails, it is answered with the error
  of the operation, and neither the store nor anything else of the server has changed; when it succeeds, the store
  and its file are those after the operation, an event with its name is recorded, and nothing else of the server has
  changed. A request that asks for no operation (another method, no identifier, a body that does not decode) changes
  nothing, and unless it only reads it is answered with an error.
\<close>

theorem resource_requests_run_their_operation:
  assumes "serve opts jc env rq s = (resp, s')" "clean_path (rq_Path rq)" "Middleware (ap_Auth (srv_cfg s)) (rq_Get rq) = Serve"
    and "resource_path (rq_Path rq)"
  shows "(\<forall>oper event status. asks_for jc rq oper event status \<longrightarrow>
       (case run_op (en_store env) oper (rec_world (srv_rec s)) of
          (Inl e, _) \<Rightarrow> s' = s \<and> (\<exists>code \<in> {400, 404, 409}. resp = writeError code e)
        | (Inr _, w) \<Rightarrow> rp_Status resp = status \<and> (\<exists>fs. s' = audit opts event fs (with_world w s)))) \<and>
    ((\<nexists>oper event status. asks_for jc rq oper event status) \<longrightarrow>
       s' = s \<and> (rq_Method rq \<in> {''POST'', ''PUT'', ''DELETE''} \<longrightarrow> rp_Status resp \<ge> 400))"
  using asked_is_performed [OF assms(1-3)] not_asked_is_refused [OF assms]
  unfolding performs_def refused_def by blast

lemma resource_requests_run_their_operation_witness:
  "\<exists>w fs. run_op good_env (OpAddListener shop_listener) fresh_world = (Inr (), w) \<and>
     snd (api_call api_env ''POST'' ''/api/listeners'' [] api_server) = audit api_opts ''listener.create'' fs (with_world w api_server)"
proof -
  let ?rq = "api_request ''POST'' ''/api/listeners'' []"
  let ?out = "serve api_opts api_codec api_env ?rq api_server"
  have out: "?out = (fst ?out, snd ?out)" by simp
  have clean: "clean_path (rq_Path ?rq)" by code_simp
  have allowed: "Middleware (ap_Auth (srv_cfg api_server)) (rq_Get ?rq) = Serve" by code_simp
  have path: "resource_path (rq_Path ?rq)" by (simp add: resource_path_def api_request_def)
  have asked: "asks_for api_codec ?rq (OpAddListener shop_listener) ''listener.create'' 201"
    by (rule asks_for.add_listener) (simp_all add: api_request_def api_codec_def)
  have world: "rec_world (srv_rec api_server) = fresh_world" "en_store api_env = good_env" by (simp_all add: api_server_def api_env_def)
  have ran: "case run_op good_env (OpAddListener shop_listener) fresh_world of
      (Inl e, _) \<Rightarrow> snd ?out = api_server \<and> (\<exists>code \<in> {400, 404, 409}. fst ?out = writeError code e)
    | (Inr _, w) \<Rightarrow> rp_Status (fst ?out) = 201 \<and> (\<exists>fs. snd ?out = audit api_opts ''listener.create'' fs (with_world w api_server))"
    using conjunct1 [OF resource_requests_run_their_operation [OF out clean allowed path], rule_format, OF asked] unfolding world .
  have "length (srv_events (snd ?out)) = 1" using post_listener_status(2) by (simp only: api_call_def)
  then have "snd ?out \<noteq> api_server" by (auto simp: api_server_def)
  with ran show ?thesis unfolding api_call_def by (auto split: prod.splits sum.splits)
qed

end
