(* ===== verification/CaddyManager.thy ===== *)
theory CaddyManager
  imports ConfigLoad
begin

text \<open>
  The supervised Caddy process (\<open>caddy/manager.go\<close>) and the client of its admin API (\<open>caddy/client.go\<close>).
  The manager is modelled at the granularity of its mutex: every critical section is one function on the fields,
  and the system of the manager, the process, the goroutines that wait for it and the callers of \<open>Start\<close> and
  \<open>Stop\<close> is a step relation over these sections in any order. The operating system, the clock and the
  HTTP answers are parameters.
\<close>

section \<open>The manager\<close>

text \<open>
  A process is named by the number of the \<open>exec.Cmd\<close>, which stands for its pointer; a started one has a
  \<open>Process\<close>. \<open>cy_done\<close> is the channel with room for one error. A writer is the standard output, the standard
  error, a source of the log store or several of them.
\<close>

datatype OutputWriter = StdOut | StdErr | LogWriter string string | MultiWriter "OutputWriter list"

record ManagerState =
  cy_cfg :: GatewayConfig
  cy_cmd :: "nat option"
  cy_done :: "string option"
  cy_ready :: bool
  cy_stopping :: bool
  cy_lastErr :: "string option"
  cy_stdout :: OutputWriter
  cy_stderr :: OutputWriter

definition NewCaddyManager :: "GatewayConfig \<Rightarrow> ManagerState" where
  "NewCaddyManager cfg = \<lparr>cy_cfg = cfg, cy_cmd = None, cy_done = None, cy_ready = False, cy_stopping = False,
     cy_lastErr = None, cy_stdout = StdOut, cy_stderr = StdErr\<rparr>"

definition SetOutput :: "OutputWriter option \<Rightarrow> OutputWriter option \<Rightarrow> ManagerState \<Rightarrow> ManagerState" where
  "SetOutput out err m =
     m\<lparr>cy_stdout := (case out of None \<Rightarrow> cy_stdout m | Some w \<Rightarrow> w),
       cy_stderr := (case err of None \<Rightarrow> cy_stderr m | Some w \<Rightarrow> w)\<rparr>"

text \<open>The command \<open>Start\<close> runs, and the answers of the operating system to its calls.\<close>

record Command =
  cm_Args :: "string list"
  cm_Env :: "string list"
  cm_Stdout :: OutputWriter
  cm_Stderr :: OutputWriter

record SpawnEnv =
  sp_LookPath :: "string \<Rightarrow> string option"
  sp_MkdirAll :: "string \<Rightarrow> string option"
  sp_WriteFile :: "string \<Rightarrow> string \<Rightarrow> string option"
  sp_Environ :: "string list"
  sp_Start :: "Command \<Rightarrow> string option"

definition failure :: "string option \<Rightarrow> string + unit" where
  "failure e = (case e of None \<Rightarrow> Inr () | Some err \<Rightarrow> Inl err)"

definition bootstrap_path :: "GatewayConfig \<Rightarrow> string" where
  "bootstrap_path cfg = path_Join [gw_StateDir cfg, ''caddy.bootstrap.json'']"

definition caddy_command :: "SpawnEnv \<Rightarrow> ManagerState \<Rightarrow> Command" where
  "caddy_command env m =
     \<lparr>cm_Args = [gw_CaddyBin (cy_cfg m), ''run'', ''--config'', bootstrap_path (cy_cfg m)],
      cm_Env = sp_Environ env @ [''XDG_DATA_HOME='' @ gw_CaddyDataDir (cy_cfg m)],
      cm_Stdout = cy_stdout m, cm_Stderr = cy_stderr m\<rparr>"

text \<open>
  The first part of \<open>Start\<close>, under the mutex, for the new command \<open>c\<close>: \<open>Inr None\<close> when a process is
  supervised already, \<open>Inr (Some c)\<close> when the command was started.
\<close>

definition Start_begin :: "SpawnEnv \<Rightarrow> nat \<Rightarrow> string \<Rightarrow> ManagerState \<Rightarrow> (string + nat option) \<times> ManagerState" where
  "Start_begin env c initialConfig m =
     (let cfg = cy_cfg m in
      if cy_cmd m \<noteq> None then (Inr None, m)
      else case sp_LookPath env (gw_CaddyBin cfg) of
        Some e \<Rightarrow> (Inl (''caddy binary '' @ Quote (gw_CaddyBin cfg) @ '' not found: '' @ e), m)
      | None \<Rightarrow>
          check (failure (sp_MkdirAll env (gw_StateDir cfg))) m (\<lambda>_.
          check (failure (sp_MkdirAll env (gw_CaddyDataDir cfg))) m (\<lambda>_.
          check (failure (sp_WriteFile env (bootstrap_path cfg) initialConfig)) m (\<lambda>_.
          check (failure (sp_Start env (caddy_command env m))) m (\<lambda>_.
          (Inr (Some c), m\<lparr>cy_cmd := Some c, cy_ready := False, cy_stopping := False, cy_lastErr := None\<rparr>))))))"

text \<open>The last part of \<open>Start\<close>, after the admin endpoint has answered.\<close>

definition Start_end :: "nat \<Rightarrow> ManagerState \<Rightarrow> (string + unit) \<times> ManagerState" where
  "Start_end c m =
     (if cy_cmd m \<noteq> Some c
      then (Inl (case cy_lastErr m of Some e \<Rightarrow> e | None \<Rightarrow> ''caddy runtime exited before becoming ready''), m)
      else (Inr (), m\<lparr>cy_ready := True\<rparr>))"

text \<open>
  The goroutine of a started command, when its process has exited: \<open>cancelled\<close> is whether the context is done,
  \<open>result\<close> the error of \<open>Wait\<close>. The second component is the error of an exit that was not expected, which is
  sent to the channel unless that is full.
\<close>

definition manager_wait :: "bool \<Rightarrow> string option \<Rightarrow> nat \<Rightarrow> ManagerState \<Rightarrow> ManagerState \<times> string option" where
  "manager_wait cancelled result c m =
     (let expected = (cy_stopping m \<or> cancelled);
          m1 = m\<lparr>cy_cmd := (if cy_cmd m = Some c then None else cy_cmd m), cy_ready := False\<rparr>
      in if expected then (m1, None)
         else (let e = ''caddy runtime exited unexpectedly'' @ (case result of None \<Rightarrow> [] | Some err \<Rightarrow> '': '' @ err)
               in (m1\<lparr>cy_lastErr := Some e, cy_done := (case cy_done m1 of None \<Rightarrow> Some e | Some old \<Rightarrow> Some old)\<rparr>, Some e)))"

text \<open>
  The signal is given with the command it goes to: \<open>True\<close> for a kill, \<open>False\<close> for an interrupt.
\<close>

definition stopCommand :: "nat option \<Rightarrow> bool \<Rightarrow> ManagerState \<Rightarrow> ManagerState \<times> (nat \<times> bool) option" where
  "stopCommand expected force m =
     (case cy_cmd m of
        None \<Rightarrow> (m, None)
      | Some c \<Rightarrow>
          if expected \<noteq> None \<and> expected \<noteq> Some c then (m, None)
          else (m\<lparr>cy_stopping := True, cy_ready := False\<rparr>, Some (c, force)))"

definition Manager_Stop :: "ManagerState \<Rightarrow> ManagerState \<times> (nat \<times> bool) option" where
  "Manager_Stop m = stopCommand None False m"

definition Manager_Ready :: "ManagerState \<Rightarrow> bool" where
  "Manager_Ready m = cy_ready m"

definition LastError :: "ManagerState \<Rightarrow> string option" where
  "LastError m = cy_lastErr m"

section \<open>Waiting for the admin endpoint\<close>

text \<open>
  \<open>pb_Now k\<close> is the \<open>k\<close>th reading of the clock, the first one for the deadline, in nanoseconds; \<open>pb_Do k\<close>
  the outcome of the \<open>k\<close>th request, its status or an error; \<open>pb_Done k\<close> the error of the context when that is done
  before the pause after it has passed.
\<close>

record AdminProbe =
  pb_Now :: "nat \<Rightarrow> time"
  pb_Request :: "string \<Rightarrow> string option"
  pb_Do :: "nat \<Rightarrow> string \<Rightarrow> string + int"
  pb_Done :: "nat \<Rightarrow> string option"

definition admin_endpoint :: "GatewayConfig \<Rightarrow> string" where
  "admin_endpoint cfg = TrimRight (gw_CaddyAdminEndpoint cfg) ''/'' @ ''/config/''"

text \<open>One turn of the loop: the result it returns, or \<open>None\<close> when it goes on.\<close>

definition wait_turn :: "AdminProbe \<Rightarrow> string \<Rightarrow> time \<Rightarrow> nat \<Rightarrow> (string + unit) option" where
  "wait_turn env endpoint deadline k =
     (if pb_Now env (k + 1) < deadline then
        (case pb_Request env endpoint of
           Some e \<Rightarrow> Some (Inl e)
         | None \<Rightarrow>
             (if (case pb_Do env k endpoint of Inl _ \<Rightarrow> False | Inr status \<Rightarrow> status < 500) then Some (Inr ())
              else case pb_Done env k of Some e \<Rightarrow> Some (Inl e) | None \<Rightarrow> None))
      else Some (Inl (''caddy admin endpoint '' @ endpoint @ '' was not ready'')))"

partial_function (option) waitForAdmin_loop :: "AdminProbe \<Rightarrow> string \<Rightarrow> time \<Rightarrow> nat \<Rightarrow> (string + unit) option" where
  "waitForAdmin_loop env endpoint deadline k =
     (case wait_turn env endpoint deadline k of
        Some r \<Rightarrow> Some r | None \<Rightarrow> waitForAdmin_loop env endpoint deadline (k + 1))"

declare waitForAdmin_loop.simps [code]

definition admin_deadline :: time where
  "admin_deadline = 5000000000"

definition waitForAdmin :: "AdminProbe \<Rightarrow> GatewayConfig \<Rightarrow> (string + unit) option" where
  "waitForAdmin env cfg = waitForAdmin_loop env (admin_endpoint cfg) (pb_Now env 0 + admin_deadline) 0"

text \<open>
  \<open>Start\<close> as its caller sees it; \<open>meanwhile\<close> is what the process and other goroutines do to the manager while it
  waits.
\<close>

definition Manager_Start ::
    "SpawnEnv \<Rightarrow> AdminProbe \<Rightarrow> (ManagerState \<Rightarrow> ManagerState) \<Rightarrow> nat \<Rightarrow> string \<Rightarrow> ManagerState \<Rightarrow> ((string + unit) \<times> ManagerState) option" where
  "Manager_Start env probe meanwhile c initialConfig m =
     (case Start_begin env c initialConfig m of
        (Inl e, m1) \<Rightarrow> Some (Inl e, m1)
      | (Inr None, m1) \<Rightarrow> Some (Inr (), m1)
      | (Inr (Some _), m1) \<Rightarrow>
          (case waitForAdmin probe (cy_cfg m) of
             None \<Rightarrow> None
           | Some (Inl e) \<Rightarrow> Some (Inl e, fst (stopCommand (Some c) True (meanwhile m1)))
           | Some (Inr _) \<Rightarrow> Some (Start_end c (meanwhile m1))))"

section \<open>The admin client\<close>

text \<open>
  An answer of the admin API: an error of the call, or the status with its text and the body with the error of
  reading it to the end.
\<close>

record HttpAnswer =
  ha_StatusCode :: int
  ha_Status :: string
  ha_Body :: string
  ha_ReadError :: "string option"

definition read_body :: "nat \<Rightarrow> HttpAnswer \<Rightarrow> string \<times> string option" where
  "read_body n a =
     (if n \<le> length (ha_Body a) then (take n (ha_Body a), None) else (ha_Body a, ha_ReadError a))"

definition maxActiveConfig :: nat where
  "maxActiveConfig = 8 * 1024 * 1024"

text \<open>\<open>svc url\<close> is the outcome of the request: no request can be made of it, the call fails, or its answer.\<close>

datatype HttpCall = NoRequest string | CallFailed string | Answered HttpAnswer

definition NewClient :: "string \<Rightarrow> string" where
  "NewClient endpoint = TrimRight endpoint ''/''"

definition Client_Config :: "(string \<Rightarrow> HttpCall) \<Rightarrow> string \<Rightarrow> string + string" where
  "Client_Config svc endpoint =
     (case svc (endpoint @ ''/config/'') of
        NoRequest e \<Rightarrow> Inl e
      | CallFailed e \<Rightarrow> Inl (''read active caddy config: '' @ e)
      | Answered a \<Rightarrow>
          if ha_StatusCode a \<noteq> 200 then Inl (''read active caddy config returned '' @ ha_Status a)
          else case read_body (maxActiveConfig + 1) a of
            (_, Some e) \<Rightarrow> Inl e
          | (d, None) \<Rightarrow> if maxActiveConfig < length d then Inl ''active caddy config exceeds size limit'' else Inr d)"

definition Client_Load :: "(string \<Rightarrow> string \<Rightarrow> HttpCall) \<Rightarrow> string \<Rightarrow> string \<Rightarrow> string option" where
  "Client_Load svc endpoint config =
     (case svc (endpoint @ ''/load'') config of
        NoRequest e \<Rightarrow> Some e
      | CallFailed e \<Rightarrow> Some (''load caddy config: '' @ e)
      | Answered a \<Rightarrow>
          if ha_StatusCode a < 200 \<or> 300 \<le> ha_StatusCode a
          then Some (''load caddy config returned '' @ ha_Status a @ '': '' @ TrimSpace (fst (read_body 4096 a)))
          else None)"

section \<open>The runtime\<close>

text \<open>
  The manager with its processes and callers: \<open>rt_running\<close> are the commands whose goroutine waits for the
  process, \<open>rt_starting\<close> those whose \<open>Start\<close> waits for the admin endpoint, \<open>rt_next\<close> the next new command. The
  ghost lists hold the errors of the unexpected exits and the errors received from the channel, in their order.
\<close>

record Runtime =
  rt_manager :: ManagerState
  rt_running :: "nat list"
  rt_starting :: "nat list"
  rt_next :: nat
  rt_cancelled :: bool
  rt_crashes :: "string list"
  rt_received :: "string list"

inductive runtime_step :: "Runtime \<Rightarrow> Runtime \<Rightarrow> bool" where
  spawned: "Start_begin env (rt_next rt) config (rt_manager rt) = (Inr (Some c), m) \<Longrightarrow>
    runtime_step rt (rt\<lparr>rt_manager := m, rt_running := c # rt_running rt, rt_starting := c # rt_starting rt, rt_next := rt_next rt + 1\<rparr>)"
| not_spawned: "Start_begin env (rt_next rt) config (rt_manager rt) = (r, m) \<Longrightarrow> (\<And>c. r \<noteq> Inr (Some c)) \<Longrightarrow>
    runtime_step rt (rt\<lparr>rt_manager := m\<rparr>)"
| admin_up: "c \<in> set (rt_starting rt) \<Longrightarrow> Start_end c (rt_manager rt) = (r, m) \<Longrightarrow>
    runtime_step rt (rt\<lparr>rt_manager := m, rt_starting := removeAll c (rt_starting rt)\<rparr>)"
| admin_down: "c \<in> set (rt_starting rt) \<Longrightarrow> stopCommand (Some c) True (rt_manager rt) = (m, signal) \<Longrightarrow>
    runtime_step rt (rt\<lparr>rt_manager := m, rt_starting := removeAll c (rt_starting rt)\<rparr>)"
| exited: "c \<in> set (rt_running rt) \<Longrightarrow> manager_wait (rt_cancelled rt) result c (rt_manager rt) = (m, crash) \<Longrightarrow>
    runtime_step rt (rt\<lparr>rt_manager := m, rt_running := removeAll c (rt_running rt),
      rt_crashes := rt_crashes rt @ (case crash of None \<Rightarrow> [] | Some e \<Rightarrow> [e])\<rparr>)"
| stopped: "Manager_Stop (rt_manager rt) = (m, signal) \<Longrightarrow> runtime_step rt (rt\<lparr>rt_manager := m\<rparr>)"
| cancelled: "runtime_step rt (rt\<lparr>rt_cancelled := True\<rparr>)"
| redirected: "runtime_step rt (rt\<lparr>rt_manager := SetOutput out err (rt_manager rt)\<rparr>)"
| received: "cy_done (rt_manager rt) = Some e \<Longrightarrow>
    runtime_step rt (rt\<lparr>rt_manager := (rt_manager rt)\<lparr>cy_done := None\<rparr>, rt_received := rt_received rt @ [e]\<rparr>)"

definition new_runtime :: "GatewayConfig \<Rightarrow> Runtime" where
  "new_runtime cfg = \<lparr>rt_manager = NewCaddyManager cfg, rt_running = [], rt_starting = [], rt_next = 0, rt_cancelled = False,
     rt_crashes = [], rt_received = []\<rparr>"

inductive runtime_reachable :: "GatewayConfig \<Rightarrow> Runtime \<Rightarrow> bool" for cfg where
  init: "runtime_reachable cfg (new_runtime cfg)"
| step: "runtime_reachable cfg rt \<Longrightarrow> runtime_step rt rt' \<Longrightarrow> runtime_reachable cfg rt'"

inductive_cases runtime_stepE: "runtime_step rt rt'"

text \<open>
  At most one process is there at any time and it is the one the manager knows; the manager is ready only while
  it is there, and no error is kept next to it.
\<close>

definition supervised :: "Runtime \<Rightarrow> bool" where
  "supervised rt \<longleftrightarrow>
     (let m = rt_manager rt in
      rt_running rt = (case cy_cmd m of None \<Rightarrow> [] | Some c \<Rightarrow> [c]) \<and>
      (cy_ready m \<longrightarrow> cy_cmd m \<noteq> None) \<and> (cy_cmd m \<noteq> None \<longrightarrow> cy_lastErr m = None) \<and>
      (\<forall>c \<in> set (rt_running rt) \<union> set (rt_starting rt). c < rt_next rt))"

text \<open>The first crash is the first error that is received or waits in the channel; further errors are those of later crashes.\<close>

definition reports :: "Runtime \<Rightarrow> string list" where
  "reports rt = rt_received rt @ (case cy_done (rt_manager rt) of None \<Rightarrow> [] | Some e \<Rightarrow> [e])"

definition reported :: "Runtime \<Rightarrow> bool" where
  "reported rt \<longleftrightarrow> take 1 (reports rt) = take 1 (rt_crashes rt) \<and> set (reports rt) \<subseteq> set (rt_crashes rt)"

lemma Start_beginE:
  assumes "Start_begin env c config m = (r, m')"
  obtains (started) "r = Inr (Some c)" "cy_cmd m = None"
      "m' = m\<lparr>cy_cmd := Some c, cy_ready := False, cy_stopping := False, cy_lastErr := None\<rparr>"
  | (same) "m' = m" "\<And>d. r \<noteq> Inr (Some d)"
  using assms by (auto simp: Start_begin_def Let_def check_def failure_def split: if_splits option.splits)

lemma supervised_step: "runtime_step rt rt' \<Longrightarrow> supervised rt \<Longrightarrow> supervised rt'"
proof (induction rule: runtime_step.induct)
  case (spawned env rt config c m)
  then show ?case by (elim Start_beginE) (auto simp: supervised_def less_Suc_eq)
next
  case (not_spawned env rt config r m)
  then show ?case by (elim Start_beginE) (auto simp: supervised_def)
next
  case (admin_up c rt r m)
  then show ?case by (auto simp: supervised_def Start_end_def Let_def split: if_splits option.splits)
next
  case (admin_down c rt m signal)
  then show ?case by (auto simp: supervised_def stopCommand_def Let_def split: if_splits option.splits)
next
  case (exited c rt result m crash)
  then show ?case by (auto simp: supervised_def manager_wait_def Let_def split: if_splits option.splits)
next
  case (stopped rt m signal)
  then show ?case by (auto simp: supervised_def Manager_Stop_def stopCommand_def Let_def split: if_splits option.splits)
qed (auto simp: supervised_def SetOutput_def Let_def)

lemma done_kept:
  "Start_begin env c config m = (r, m') \<Longrightarrow> cy_done m' = cy_done m"
  "Start_end c m = (u, m') \<Longrightarrow> cy_done m' = cy_done m"
  "stopCommand expected force m = (m', signal) \<Longrightarrow> cy_done m' = cy_done m"
  "cy_done (SetOutput out err m) = cy_done m"
  by (auto elim: Start_beginE simp: Start_end_def stopCommand_def SetOutput_def split: if_splits option.splits)

lemma wait_reports:
  "manager_wait cancelled result c m = (m', crash) \<Longrightarrow>
   cy_done m' = (if crash \<noteq> None \<and> cy_done m = None then crash else cy_done m)"
  by (auto simp: manager_wait_def Let_def split: if_splits option.splits)

lemma reported_keep:
  "cy_done m = cy_done (rt_manager rt) \<Longrightarrow> reported rt \<Longrightarrow>
   reported (rt\<lparr>rt_manager := m\<rparr>) \<and> reported (rt\<lparr>rt_manager := m, rt_starting := cs\<rparr>) \<and>
   reported (rt\<lparr>rt_manager := m, rt_running := ds, rt_starting := cs, rt_next := n\<rparr>)"
  by (simp add: reported_def reports_def)

lemma take1_append: "take 1 (xs @ ys) = (if xs = [] then take 1 ys else take 1 xs)"
  by (cases xs) auto

lemma reported_step: "runtime_step rt rt' \<Longrightarrow> reported rt \<Longrightarrow> reported rt'"
proof (induction rule: runtime_step.induct)
  case (exited c rt result m crash)
  show ?case
  proof (cases crash)
    case None
    with exited wait_reports [OF exited(2)] show ?thesis by (simp add: reported_def reports_def)
  next
    case (Some e)
    note d = wait_reports [OF exited(2)]
    show ?thesis
    proof (cases "cy_done (rt_manager rt)")
      case None
      with Some d exited(3) show ?thesis
        by (cases "rt_received rt"; cases "rt_crashes rt") (auto simp: reported_def reports_def)
    next
      case (Some old)
      with \<open>crash = Some e\<close> d exited(3) show ?thesis
        by (cases "rt_crashes rt") (auto simp: reported_def reports_def take1_append)
    qed
  qed
next
  case (received rt e)
  then show ?case by (simp add: reported_def reports_def)
next
  case (stopped rt m signal)
  then show ?case using reported_keep [OF done_kept(3)] by (simp add: Manager_Stop_def)
next
  case (cancelled rt)
  then show ?case by (simp add: reported_def reports_def)
next
  case (spawned env rt config c m)
  from reported_keep [OF done_kept(1) [OF spawned(1)] spawned(2)] show ?case by blast
next
  case (not_spawned env rt config r m)
  from reported_keep [OF done_kept(1) [OF not_spawned(1)] not_spawned(3)] show ?case by blast
next
  case (admin_up c rt r m)
  from reported_keep [OF done_kept(2) [OF admin_up(2)] admin_up(3)] show ?case by blast
next
  case (admin_down c rt m signal)
  from reported_keep [OF done_kept(3) [OF admin_down(2)] admin_down(3)] show ?case by blast
next
  case (redirected rt out err)
  from reported_keep [OF done_kept(4) redirected] show ?case by blast
qed

lemma runtime_invariants: "runtime_reachable cfg rt \<Longrightarrow> supervised rt \<and> reported rt"
proof (induction rule: runtime_reachable.induct)
  case init
  show ?case by (simp add: supervised_def reported_def reports_def new_runtime_def NewCaddyManager_def)
next
  case (step rt rt')
  then show ?case using supervised_step reported_step by blast
qed

lemma runtime_config: "runtime_reachable cfg rt \<Longrightarrow> cy_cfg (rt_manager rt) = cfg"
proof (induction rule: runtime_reachable.induct)
  case init
  show ?case by (simp add: new_runtime_def NewCaddyManager_def)
next
  case (step rt rt')
  from step(2,3) show ?case
    by (cases rule: runtime_step.cases)
      (auto elim!: Start_beginE simp: Start_end_def Manager_Stop_def stopCommand_def manager_wait_def SetOutput_def Let_def
         split: if_splits option.splits)
qed

section \<open>The wait ends\<close>

lemma wait_loop_first:
  "wait_turn env endpoint deadline (k + n) \<noteq> None \<Longrightarrow> \<forall>i<n. wait_turn env endpoint deadline (k + i) = None \<Longrightarrow>
   waitForAdmin_loop env endpoint deadline k = wait_turn env endpoint deadline (k + n)"
proof (induction n arbitrary: k)
  case 0
  then show ?case by (subst waitForAdmin_loop.simps) (auto split: option.splits)
next
  case (Suc n)
  have first: "wait_turn env endpoint deadline (k + 0) = None" using Suc.prems(2) by blast
  have later: "\<forall>i<n. wait_turn env endpoint deadline (k + 1 + i) = None"
  proof (intro allI impI)
    fix i assume "i < n"
    then show "wait_turn env endpoint deadline (k + 1 + i) = None" using Suc.prems(2) [rule_format, of "Suc i"] by simp
  qed
  have "waitForAdmin_loop env endpoint deadline (k + 1) = wait_turn env endpoint deadline (k + Suc n)"
    using Suc.IH [of "k + 1"] Suc.prems(1) later by simp
  with first show ?case by (simp add: waitForAdmin_loop.simps [of env endpoint deadline k])
qed

text \<open>The clock moves on by the pause between two readings of the loop.\<close>

definition clock_advances :: "AdminProbe \<Rightarrow> bool" where
  "clock_advances env \<longleftrightarrow> pb_Now env 0 \<le> pb_Now env 1 \<and> (\<forall>k. pb_Now env (k + 1) + 100000000 \<le> pb_Now env (k + 2))"

lemma clock_reading: "clock_advances env \<Longrightarrow> pb_Now env 0 + int k * 100000000 \<le> pb_Now env (k + 1)"
proof (induction k)
  case (Suc k)
  then have "pb_Now env (k + 1) + 100000000 \<le> pb_Now env (k + 2)" by (simp only: clock_advances_def)
  with Suc show ?case by (simp add: algebra_simps)
qed (simp add: clock_advances_def)

lemma first_turn:
  assumes "clock_advances env"
  obtains n where "n \<le> 50" "wait_turn env endpoint (pb_Now env 0 + admin_deadline) n \<noteq> None"
    "\<forall>i<n. wait_turn env endpoint (pb_Now env 0 + admin_deadline) i = None"
proof -
  let ?t = "\<lambda>k. wait_turn env endpoint (pb_Now env 0 + admin_deadline) k"
  have ends: "?t 50 \<noteq> None"
    using clock_reading [OF assms, of 50] by (simp add: wait_turn_def admin_deadline_def)
  define n where "n = (LEAST k. ?t k \<noteq> None)"
  show ?thesis
  proof (rule that [of n])
    show "n \<le> 50" unfolding n_def by (rule Least_le) (rule ends)
    show "?t n \<noteq> None" unfolding n_def by (rule LeastI [of "\<lambda>k. ?t k \<noteq> None", OF ends])
    show "\<forall>i<n. ?t i = None" using not_less_Least [of _ "\<lambda>k. ?t k \<noteq> None"] unfolding n_def by blast
  qed
qed

section \<open>A run\<close>

text \<open>A gateway whose Caddy starts and answers, and then exits with a status.\<close>

definition quiet_spawn :: SpawnEnv where
  "quiet_spawn = \<lparr>sp_LookPath = (\<lambda>_. None), sp_MkdirAll = (\<lambda>_. None), sp_WriteFile = (\<lambda>_ _. None), sp_Environ = [],
     sp_Start = (\<lambda>_. None)\<rparr>"

definition sample_gateway :: GatewayConfig where
  "sample_gateway = ap_Gateway (defaults (\<lambda>_. None))"

definition started_runtime :: Runtime where
  "started_runtime =
     (let m = snd (Start_begin quiet_spawn 0 ''{}'' (NewCaddyManager sample_gateway)) in
      (new_runtime sample_gateway)\<lparr>rt_manager := m, rt_running := [0], rt_starting := [0], rt_next := 1\<rparr>)"

definition ready_runtime :: Runtime where
  "ready_runtime = started_runtime\<lparr>rt_manager := snd (Start_end 0 (rt_manager started_runtime)), rt_starting := []\<rparr>"

definition crashed_runtime :: Runtime where
  "crashed_runtime = ready_runtime\<lparr>rt_manager := fst (manager_wait False (Some ''exit status 1'') 0 (rt_manager ready_runtime)),
     rt_running := [], rt_crashes := [''caddy runtime exited unexpectedly: exit status 1'']\<rparr>"

lemma started_reachable: "runtime_reachable sample_gateway started_runtime"
proof -
  have "Start_begin quiet_spawn 0 ''{}'' (NewCaddyManager sample_gateway) = (Inr (Some 0), rt_manager started_runtime)"
    by (simp add: started_runtime_def Start_begin_def quiet_spawn_def NewCaddyManager_def failure_def Let_def)
  then have "runtime_step (new_runtime sample_gateway) started_runtime"
    using runtime_step.spawned [of quiet_spawn "new_runtime sample_gateway" "''{}''" 0 "rt_manager started_runtime"]
    by (simp add: started_runtime_def new_runtime_def Let_def)
  with runtime_reachable.init show ?thesis by (rule runtime_reachable.step)
qed

lemma started_manager: "cy_cmd (rt_manager started_runtime) = Some 0" "cy_stopping (rt_manager started_runtime) = False"
    "cy_done (rt_manager started_runtime) = None" "rt_starting started_runtime = [0]" "rt_running started_runtime = [0]"
    "rt_cancelled started_runtime = False" "rt_crashes started_runtime = []"
  by (simp_all add: started_runtime_def Start_begin_def quiet_spawn_def NewCaddyManager_def new_runtime_def failure_def Let_def)

lemma ready_reachable: "runtime_reachable sample_gateway ready_runtime"
proof -
  have "runtime_step started_runtime ready_runtime"
    using runtime_step.admin_up [of 0 started_runtime "Inr ()" "snd (Start_end 0 (rt_manager started_runtime))"] started_manager
    by (simp add: ready_runtime_def Start_end_def)
  with started_reachable show ?thesis by (rule runtime_reachable.step)
qed

lemma ready_manager: "cy_cmd (rt_manager ready_runtime) = Some 0" "cy_ready (rt_manager ready_runtime)"
    "cy_stopping (rt_manager ready_runtime) = False" "cy_done (rt_manager ready_runtime) = None"
    "rt_running ready_runtime = [0]" "rt_cancelled ready_runtime = False" "rt_crashes ready_runtime = []"
  by (simp_all add: ready_runtime_def Start_end_def started_manager)

lemma crashed_reachable: "runtime_reachable sample_gateway crashed_runtime"
proof -
  have "manager_wait (rt_cancelled ready_runtime) (Some ''exit status 1'') 0 (rt_manager ready_runtime) =
      (rt_manager crashed_runtime, Some ''caddy runtime exited unexpectedly: exit status 1'')"
    by (simp add: crashed_runtime_def manager_wait_def ready_manager Let_def)
  from runtime_step.exited [OF _ this] ready_manager have "runtime_step ready_runtime crashed_runtime"
    by (simp add: crashed_runtime_def)
  with ready_reachable show ?thesis by (rule runtime_reachable.step)
qed

section \<open>Properties\<close>

text \<open>
  C13: however starts, stops, exits, cancellations and answers of the admin endpoint interleave, at most one Caddy
  process is there, it is the one the manager stops and waits for, and the manager says ready only while it is there.
\<close>

theorem caddy_is_supervised:
  assumes "runtime_reachable cfg rt"
  shows "supervised rt"
  using runtime_invariants [OF assms] by simp

theorem caddy_is_supervised_witness: "supervised ready_runtime \<and> Manager_Ready (rt_manager ready_runtime)"
  using caddy_is_supervised [OF ready_reachable] ready_manager(2) by (simp add: Manager_Ready_def)

text \<open>
  An exit of Caddy that was not asked for is never lost: the first error the gateway receives, or that waits
  for it, is that of the first such exit, and no error is made up.
\<close>

theorem crashes_are_reported:
  assumes "runtime_reachable cfg rt"
  shows "reported rt"
  using runtime_invariants [OF assms] by simp

theorem crashes_are_reported_witness:
  "reported crashed_runtime \<and> cy_done (rt_manager crashed_runtime) = Some ''caddy runtime exited unexpectedly: exit status 1''"
proof
  show "reported crashed_runtime" by (rule crashes_are_reported [OF crashed_reachable])
  show "cy_done (rt_manager crashed_runtime) = Some ''caddy runtime exited unexpectedly: exit status 1''"
    by (simp add: crashed_runtime_def manager_wait_def ready_manager Let_def)
qed

text \<open>
  C37: when the clock advances by at least the pause between its readings, the wait for the admin endpoint returns,
  with the outcome of the first turn that has one and after at most fifty requests.
\<close>

theorem wait_for_caddy_ends:
  assumes "clock_advances env"
  shows "\<exists>n \<le> 50. \<exists>r. (\<forall>i<n. wait_turn env (admin_endpoint cfg) (pb_Now env 0 + admin_deadline) i = None) \<and>
    wait_turn env (admin_endpoint cfg) (pb_Now env 0 + admin_deadline) n = Some r \<and> waitForAdmin env cfg = Some r"
proof -
  obtain n where n: "n \<le> 50" "wait_turn env (admin_endpoint cfg) (pb_Now env 0 + admin_deadline) n \<noteq> None"
      "\<forall>i<n. wait_turn env (admin_endpoint cfg) (pb_Now env 0 + admin_deadline) i = None"
    using first_turn [OF assms] by blast
  from wait_loop_first [of env _ _ 0 n] n(2,3)
  have "waitForAdmin env cfg = wait_turn env (admin_endpoint cfg) (pb_Now env 0 + admin_deadline) n"
    by (simp add: waitForAdmin_def)
  with n show ?thesis by auto
qed

definition third_time_lucky :: AdminProbe where
  "third_time_lucky = \<lparr>pb_Now = (\<lambda>k. int k * 150000000), pb_Request = (\<lambda>_. None),
     pb_Do = (\<lambda>k _. if k < 2 then Inl ''connection refused'' else Inr 200), pb_Done = (\<lambda>_. None)\<rparr>"

lemma lucky_turn:
  "wait_turn third_time_lucky e (pb_Now third_time_lucky 0 + admin_deadline) i =
     (if i < 2 then None else if i < 33 then Some (Inr ()) else Some (Inl (''caddy admin endpoint '' @ e @ '' was not ready'')))"
  by (auto simp: wait_turn_def third_time_lucky_def admin_deadline_def)

lemma lucky_wait: "waitForAdmin third_time_lucky cfg = Some (Inr ())"
  using wait_loop_first [of third_time_lucky "admin_endpoint cfg" "pb_Now third_time_lucky 0 + admin_deadline" 0 2] lucky_turn
  by (simp add: waitForAdmin_def)

theorem wait_for_caddy_ends_witness: "waitForAdmin third_time_lucky sample_gateway = Some (Inr ())"
proof -
  have c: "clock_advances third_time_lucky" by (simp add: clock_advances_def third_time_lucky_def algebra_simps)
  note t = lucky_turn
  obtain n r where n: "\<forall>i<n. wait_turn third_time_lucky (admin_endpoint sample_gateway) (pb_Now third_time_lucky 0 + admin_deadline) i = None"
      "wait_turn third_time_lucky (admin_endpoint sample_gateway) (pb_Now third_time_lucky 0 + admin_deadline) n = Some r"
      "waitForAdmin third_time_lucky sample_gateway = Some r"
    using wait_for_caddy_ends [OF c, of sample_gateway] by blast
  have "\<not> 2 < n" using n(1) [rule_format, of 2] by (auto simp: t)
  then have "n \<le> 2" by simp
  with n(2) have "r = Inr ()" by (auto simp: t split: if_splits)
  with n(3) show ?thesis by simp
qed

text \<open>
  A stop that comes while \<open>Start\<close> waits is not noticed: the manager says ready for the process that was told to
  stop, and \<open>Start\<close> reports success.
\<close>

lemma stop_during_start_is_missed:
  "\<exists>rt. runtime_reachable sample_gateway rt \<and> cy_stopping (rt_manager rt) \<and> Manager_Ready (rt_manager rt)"
proof -
  define stopped where "stopped = started_runtime\<lparr>rt_manager := fst (Manager_Stop (rt_manager started_runtime))\<rparr>"
  define rt where "rt = stopped\<lparr>rt_manager := snd (Start_end 0 (rt_manager stopped)), rt_starting := []\<rparr>"
  have "runtime_step started_runtime stopped"
    using runtime_step.stopped [of started_runtime] by (metis prod.collapse stopped_def)
  with started_reachable have "runtime_reachable sample_gateway stopped" by (rule runtime_reachable.step)
  moreover have "runtime_step stopped rt"
    using runtime_step.admin_up [of 0 stopped "Inr ()" "snd (Start_end 0 (rt_manager stopped))"] started_manager
    by (simp add: rt_def stopped_def Manager_Stop_def stopCommand_def Start_end_def)
  ultimately have "runtime_reachable sample_gateway rt" by (rule runtime_reachable.step)
  then show ?thesis using started_manager
    by (intro exI [of _ rt]) (simp add: rt_def stopped_def Manager_Stop_def stopCommand_def Start_end_def Manager_Ready_def)
qed

end
