(* ===== verification/Persistence.thy ===== *)
theory Persistence
  imports ConfigLoad RouteStore
begin

text \<open>
  The write of a JSON file (\<open>persistence/json.go\<close>): a temporary file beside the target is written, synced, closed
  and renamed over it. The file system has names and inodes, so that the moments at which the machine may stop
  can be told apart. The stores of the settings, of the certificate policy and of the routes write through it;
  the last section shows that their one-step view of a write is implemented by it.
\<close>

section \<open>The file system\<close>

text \<open>
  A name leads to an inode, an inode has its contents, and \<open>fs_synced\<close> holds the inodes whose contents are on the
  medium.
\<close>

record FileSystem =
  fs_names :: "string \<Rightarrow> nat option"
  fs_data :: "nat \<Rightarrow> string"
  fs_synced :: "nat set"

definition read_file :: "FileSystem \<Rightarrow> string \<Rightarrow> string option" where
  "read_file fs path = map_option (fs_data fs) (fs_names fs path)"

definition create_file :: "string \<Rightarrow> nat \<Rightarrow> FileSystem \<Rightarrow> FileSystem" where
  "create_file path i fs =
     fs\<lparr>fs_names := (fs_names fs)(path \<mapsto> i), fs_data := (fs_data fs)(i := []), fs_synced := fs_synced fs - {i}\<rparr>"

definition append_file :: "nat \<Rightarrow> string \<Rightarrow> FileSystem \<Rightarrow> FileSystem" where
  "append_file i text fs =
     fs\<lparr>fs_data := (fs_data fs)(i := fs_data fs i @ text), fs_synced := fs_synced fs - {i}\<rparr>"

definition sync_file :: "nat \<Rightarrow> FileSystem \<Rightarrow> FileSystem" where
  "sync_file i fs = fs\<lparr>fs_synced := insert i (fs_synced fs)\<rparr>"

definition rename_file :: "string \<Rightarrow> string \<Rightarrow> FileSystem \<Rightarrow> FileSystem" where
  "rename_file old new fs = fs\<lparr>fs_names := (fs_names fs)(new := fs_names fs old, old := None)\<rparr>"

definition remove_file :: "string \<Rightarrow> FileSystem \<Rightarrow> FileSystem" where
  "remove_file path fs = fs\<lparr>fs_names := (fs_names fs)(path := None)\<rparr>"

section \<open>Names\<close>

text \<open>\<open>filepath.Base\<close> and \<open>filepath.Dir\<close>.\<close>

definition path_Base :: "string \<Rightarrow> string" where
  "path_Base path =
     (if path = [] then ''.''
      else let base = rev (takeWhile (\<lambda>c. c \<noteq> CHR ''/'') (dropWhile (\<lambda>c. c = CHR ''/'') (rev path))) in
        if base = [] then ''/'' else base)"

definition path_Dir :: "string \<Rightarrow> string" where
  "path_Dir path = path_Clean (rev (dropWhile (\<lambda>c. c \<noteq> CHR ''/'') (rev path)))"

text \<open>The name \<open>os.CreateTemp\<close> makes of a directory, the pattern of \<open>WriteJSON\<close> and a random number.\<close>

definition temp_name :: "string \<Rightarrow> nat \<Rightarrow> string" where
  "temp_name path random =
     (let directory = path_Dir path in
      directory @ (if directory \<noteq> [] \<and> last directory = CHR ''/'' then [] else ''/'') @
      ''.'' @ path_Base path @ ''.tmp-'' @ dec_nat random)"

section \<open>The write\<close>

text \<open>
  The outcomes of the calls: \<open>we_CreateTemp\<close> gives the random number and the inode of the new file, \<open>we_Write\<close> the
  number of bytes of a short write with its error, \<open>we_Remove\<close> whether the deferred removal works.
\<close>

record 'v WriteEnv =
  we_Marshal :: "'v \<Rightarrow> string + string"
  we_MkdirAll :: "string option"
  we_CreateTemp :: "string + nat \<times> nat"
  we_Write :: "(nat \<times> string) option"
  we_Sync :: "string option"
  we_Close :: "string option"
  we_Rename :: "string option"
  we_Remove :: bool

text \<open>The file systems from the creation of the temporary file to the return, with the outcome before the deferred removal.\<close>

definition write_temp :: "'v WriteEnv \<Rightarrow> string \<Rightarrow> string \<Rightarrow> string \<Rightarrow> nat \<Rightarrow> FileSystem \<Rightarrow> (string + unit) \<times> FileSystem list" where
  "write_temp env path content temporary i fs =
     (let fs1 = create_file temporary i fs in
      case we_Write env of
        Some (n, e) \<Rightarrow> (Inl e, [fs1, append_file i (take n content) fs1])
      | None \<Rightarrow>
          (let fs2 = append_file i content fs1 in
           case we_Sync env of
             Some e \<Rightarrow> (Inl e, [fs1, fs2])
           | None \<Rightarrow>
               (let fs3 = sync_file i fs2 in
                case we_Close env of
                  Some e \<Rightarrow> (Inl e, [fs1, fs2, fs3])
                | None \<Rightarrow>
                    (case we_Rename env of
                       Some e \<Rightarrow> (Inl e, [fs1, fs2, fs3])
                     | None \<Rightarrow> (Inr (), [fs1, fs2, fs3, rename_file temporary path fs3])))))"

text \<open>The result of \<open>WriteJSON\<close> and the file systems it goes through, the first one included.\<close>

definition WriteJSON :: "'v WriteEnv \<Rightarrow> string \<Rightarrow> 'v \<Rightarrow> FileSystem \<Rightarrow> (string + unit) \<times> FileSystem list" where
  "WriteJSON env path v fs =
     (case we_Marshal env v of
        Inl e \<Rightarrow> (Inl e, [fs])
      | Inr text \<Rightarrow>
          (case we_MkdirAll env of
             Some e \<Rightarrow> (Inl e, [fs])
           | None \<Rightarrow>
               (case we_CreateTemp env of
                  Inl e \<Rightarrow> (Inl e, [fs])
                | Inr (random, i) \<Rightarrow>
                    (let temporary = temp_name path random in
                     case write_temp env path (text @ [CHR 0x0A]) temporary i fs of
                       (r, states) \<Rightarrow>
                         (r, fs # states @ (if we_Remove env then [remove_file temporary (last states)] else []))))))"

text \<open>What \<open>os.CreateTemp\<close> promises: the file is new.\<close>

definition new_temp :: "'v WriteEnv \<Rightarrow> string \<Rightarrow> FileSystem \<Rightarrow> bool" where
  "new_temp env path fs \<longleftrightarrow>
     (case we_CreateTemp env of
        Inl _ \<Rightarrow> True
      | Inr (random, i) \<Rightarrow> fs_names fs (temp_name path random) = None \<and> (\<forall>p. fs_names fs p \<noteq> Some i))"

text \<open>
  What is left when the machine stops after the states \<open>history\<close>: the names of one of them, since a change of a
  directory may not have reached the medium, and the contents of the inodes that are synced in the last one.
\<close>

definition after_crash :: "FileSystem list \<Rightarrow> FileSystem \<Rightarrow> bool" where
  "after_crash history left \<longleftrightarrow>
     fs_names left \<in> fs_names ` set history \<and>
     (\<forall>i \<in> fs_synced (last history). fs_data left i = fs_data (last history) i)"

section \<open>Facts\<close>

lemma takeWhile_last_part:
  assumes "CHR ''/'' \<notin> set b"
  shows "takeWhile (\<lambda>c. c \<noteq> CHR ''/'') (rev (a @ CHR ''/'' # b)) = rev b"
proof -
  have "takeWhile (\<lambda>c. c \<noteq> CHR ''/'') (rev b) = rev b" using assms by (subst takeWhile_eq_all_conv) auto
  moreover have "takeWhile (\<lambda>c. c \<noteq> CHR ''/'') (rev b @ CHR ''/'' # rev a) = rev b @ takeWhile (\<lambda>c. c \<noteq> CHR ''/'') (CHR ''/'' # rev a)"
    using assms by (subst takeWhile_append2) auto
  ultimately show ?thesis by simp
qed

lemma path_Base_last:
  assumes "CHR ''/'' \<notin> set b" "b \<noteq> []"
  shows "path_Base (a @ CHR ''/'' # b) = b"
proof -
  have "last b \<noteq> CHR ''/''" using assms last_in_set by metis
  then have "dropWhile (\<lambda>c. c = CHR ''/'') (rev (a @ CHR ''/'' # b)) = rev (a @ CHR ''/'' # b)"
    using assms(2) by (cases b rule: rev_cases) auto
  then show ?thesis using takeWhile_last_part [OF assms(1)] assms(2) by (simp add: path_Base_def)
qed

lemma path_Base_no_slash: "path_Base path \<noteq> ''/'' \<Longrightarrow> CHR ''/'' \<notin> set (path_Base path)"
  by (auto simp: path_Base_def Let_def dest: set_takeWhileD split: if_splits)

lemma path_Base_slash:
  assumes "path_Base path = ''/''"
  shows "set path \<subseteq> {CHR ''/''}"
proof (cases "dropWhile (\<lambda>c. c = CHR ''/'') (rev path)")
  case Nil
  then show ?thesis by (auto simp: dropWhile_eq_Nil_conv)
next
  case (Cons c rest)
  then have c: "c \<noteq> CHR ''/''" by (simp add: dropWhile_eq_Cons_conv)
  have "path_Base path = rev (c # takeWhile (\<lambda>c. c \<noteq> CHR ''/'') rest)"
    using Cons c by (cases path) (simp_all add: path_Base_def)
  then have "c \<in> set (path_Base path)" by simp
  with assms c show ?thesis by simp
qed

lemma temp_name_other: "temp_name path random \<noteq> path"
proof
  assume same: "temp_name path random = path"
  define b where "b = ''.'' @ path_Base path @ ''.tmp-'' @ dec_nat random"
  obtain d where t: "path = d @ CHR ''/'' # b"
  proof (cases "path_Dir path \<noteq> [] \<and> last (path_Dir path) = CHR ''/''")
    case True
    then have "path_Dir path = butlast (path_Dir path) @ [CHR ''/'']" by (metis append_butlast_last_id)
    then have "temp_name path random = butlast (path_Dir path) @ CHR ''/'' # b"
      using True by (simp add: temp_name_def Let_def b_def)
    with same that show thesis by metis
  next
    case False
    then have "temp_name path random = path_Dir path @ CHR ''/'' # b" by (auto simp: temp_name_def Let_def b_def)
    with same that show thesis by metis
  qed
  show False
  proof (cases "path_Base path = ''/''")
    case True
    have "CHR ''.'' \<in> set path" by (subst t) (simp add: b_def)
    with path_Base_slash [OF True] show False by auto
  next
    case False
    from path_Base_no_slash [OF False] have "CHR ''/'' \<notin> set b"
      using dec_nat_digits [of "CHR ''/''" random] by (auto simp: b_def is_digit_def)
    with path_Base_last [of b d] have "path_Base (d @ CHR ''/'' # b) = b" by (simp add: b_def)
    then have "path_Base path = b" by (simp only: t [symmetric])
    then have "length (path_Base path) = length b" by simp
    then show False by (simp add: b_def)
  qed
qed

text \<open>The inodes that had a name keep their contents and stay synced.\<close>

definition keeps_files :: "FileSystem \<Rightarrow> FileSystem \<Rightarrow> bool" where
  "keeps_files fs h \<longleftrightarrow>
     (\<forall>p j. fs_names fs p = Some j \<longrightarrow> fs_data h j = fs_data fs j \<and> (j \<in> fs_synced fs \<longrightarrow> j \<in> fs_synced h))"

definition unnamed :: "nat \<Rightarrow> FileSystem \<Rightarrow> bool" where
  "unnamed i fs \<longleftrightarrow> (\<forall>p. fs_names fs p \<noteq> Some i)"

lemma keeps_updates:
  "keeps_files fs fs" "unnamed i fs \<Longrightarrow> keeps_files fs h \<Longrightarrow> keeps_files fs (create_file p i h)"
  "unnamed i fs \<Longrightarrow> keeps_files fs h \<Longrightarrow> keeps_files fs (append_file i t h)"
  "keeps_files fs h \<Longrightarrow> keeps_files fs (sync_file i h)"
  "keeps_files fs h \<Longrightarrow> keeps_files fs (rename_file a b h)" "keeps_files fs h \<Longrightarrow> keeps_files fs (remove_file p h)"
  by (auto simp: keeps_files_def unnamed_def create_file_def append_file_def sync_file_def rename_file_def remove_file_def)

lemma names_updates [simp]:
  "fs_names (create_file p i h) = (fs_names h)(p \<mapsto> i)" "fs_names (append_file i text h) = fs_names h"
  "fs_names (sync_file i h) = fs_names h" "fs_names (rename_file a b h) = (fs_names h)(b := fs_names h a, a := None)"
  "fs_names (remove_file p h) = (fs_names h)(p := None)"
  by (simp_all add: create_file_def append_file_def sync_file_def rename_file_def remove_file_def)

text \<open>
  The two ways a write ends: the target has its old inode in every state, or it has it in the first four and the
  new inode, synced and with the whole text, in the others.
\<close>

lemma WriteJSON_cases:
  assumes "WriteJSON env path v fs = (r, history)" "new_temp env path fs"
  obtains (kept) e where "r = Inl e" "hd history = fs" "history \<noteq> []"
      "\<And>h. h \<in> set history \<Longrightarrow> keeps_files fs h \<and> fs_names h path = fs_names fs path"
      "we_Remove env \<Longrightarrow> fs_names (last history) = fs_names fs"
  | (replaced) content i before after where "r = Inr ()" "we_Marshal env v = Inr content"
      "history = before @ after" "hd history = fs" "before \<noteq> []" "after \<noteq> []"
      "\<And>h. h \<in> set history \<Longrightarrow> keeps_files fs h"
      "\<And>h. h \<in> set before \<Longrightarrow> fs_names h path = fs_names fs path"
      "\<And>h. h \<in> set after \<Longrightarrow> fs_names h = (fs_names fs)(path \<mapsto> i) \<and> i \<in> fs_synced h \<and> fs_data h i = content @ [CHR 0x0A]"
proof -
  consider (early) e where "r = Inl e" "history = [fs]"
    | (temp) content random i states where "we_Marshal env v = Inr content" "we_CreateTemp env = Inr (random, i)"
        "write_temp env path (content @ [CHR 0x0A]) (temp_name path random) i fs = (r, states)"
        "history = fs # states @ (if we_Remove env then [remove_file (temp_name path random) (last states)] else [])"
    using assms(1) by (auto simp: WriteJSON_def Let_def split: sum.splits option.splits prod.splits)
  then show thesis
  proof cases
    case early
    with kept show thesis by (simp add: keeps_updates)
  next
    case temp
    let ?t = "temp_name path random"
    have new: "fs_names fs ?t = None" "unnamed i fs" using assms(2) temp(2) by (auto simp: new_temp_def unnamed_def)
    have [simp]: "?t \<noteq> path" "path \<noteq> ?t" "(fs_names fs)(?t := None) = fs_names fs"
      using temp_name_other [of path random] new(1) by (simp, metis, metis fun_upd_triv)
    have [simp]: "(fs_names fs)(path \<mapsto> i, ?t := None) = (fs_names fs)(path \<mapsto> i)"
      using new(1) by (auto simp: fun_eq_iff)
    note keeps = keeps_updates new(2)
    let ?fs1 = "create_file ?t i fs"
    let ?fs2 = "append_file i (content @ [CHR 0x0A]) ?fs1"
    let ?fs3 = "sync_file i ?fs2"
    let ?fs4 = "rename_file ?t path ?fs3"
    show thesis
    proof (cases r)
      case (Inl e)
      with temp(3) have all: "\<forall>h \<in> set states. keeps_files fs h \<and> fs_names h = (fs_names fs)(?t \<mapsto> i)" "states \<noteq> []"
        by (auto simp: write_temp_def Let_def keeps split: option.splits prod.splits)
      then have "fs_names (last states) = (fs_names fs)(?t \<mapsto> i) \<and> keeps_files fs (last states)" by simp
      with Inl temp(4) all show thesis by (intro kept [of e]) (auto simp: keeps split: if_splits)
    next
      case (Inr u)
      with temp(3) have states: "states = [?fs1, ?fs2, ?fs3, ?fs4]"
        by (auto simp: write_temp_def Let_def split: option.splits)
      have data: "i \<in> fs_synced ?fs4" "fs_data ?fs4 i = content @ [CHR 0x0A]" "fs_names ?fs4 = (fs_names fs)(path \<mapsto> i)"
          "i \<in> fs_synced (remove_file ?t ?fs4)" "fs_data (remove_file ?t ?fs4) i = content @ [CHR 0x0A]"
        by (simp_all add: create_file_def append_file_def sync_file_def rename_file_def remove_file_def fun_upd_twist)
      show thesis
      proof (rule replaced)
        show "r = Inr ()" using Inr by simp
        show "we_Marshal env v = Inr content" by (rule temp(1))
        show "history = [fs, ?fs1, ?fs2, ?fs3] @ ?fs4 # (if we_Remove env then [remove_file ?t ?fs4] else [])"
          using temp(4) states by simp
      qed (use temp(4) states data in \<open>auto simp: keeps split: if_splits\<close>)
    qed
  qed
qed

section \<open>Crashes\<close>

lemma read_kept:
  assumes "after_crash H left" "fs_names left path = fs_names fs path" "keeps_files fs (last H)"
    and "\<And>i. fs_names fs path = Some i \<Longrightarrow> i \<in> fs_synced fs"
  shows "read_file left path = read_file fs path"
  using assms by (cases "fs_names fs path") (auto simp: read_file_def after_crash_def keeps_files_def)

lemma crash_cases:
  assumes "WriteJSON env path v fs = (r, history)" "new_temp env path fs" "0 < n" "after_crash (take n history) left"
    and synced: "\<And>i. fs_names fs path = Some i \<Longrightarrow> i \<in> fs_synced fs"
  shows "read_file left path = read_file fs path \<or> (\<exists>content. we_Marshal env v = Inr content \<and> read_file left path = Some (content @ [CHR 0x0A]))"
proof -
  let ?H = "take n history"
  obtain h where h: "h \<in> set ?H" "fs_names left = fs_names h" using assms(4) by (auto simp: after_crash_def)
  have last_H: "last ?H \<in> set ?H" using h(1) last_in_set [of ?H] by (cases ?H) auto
  have sub: "set ?H \<subseteq> set history" by (rule set_take_subset)
  from assms(1,2) show ?thesis
  proof (cases rule: WriteJSON_cases)
    case (kept e)
    with h last_H sub have "keeps_files fs (last ?H)" "fs_names left path = fs_names fs path" by auto
    with read_kept [OF assms(4)] synced show ?thesis by blast
  next
    case (replaced content i before after)
    have keeps: "keeps_files fs (last ?H)" using replaced(7) last_H sub by blast
    show ?thesis
    proof (cases "h \<in> set before")
      case True
      with replaced(8) h(2) read_kept [OF assms(4) _ keeps synced] show ?thesis by auto
    next
      case False
      then have n: "length before < n" using h(1) replaced(3) by (cases "n \<le> length before") (auto dest: in_set_takeD)
      then have H: "?H = before @ take (n - length before) after" "take (n - length before) after \<noteq> []"
        using replaced(3,6) by simp_all
      then have "last ?H \<in> set after" "h \<in> set after"
        using False h(1) in_set_takeD [OF last_in_set [OF H(2)]] by (auto dest: in_set_takeD)
      then have "read_file left path = Some (content @ [CHR 0x0A])"
        using replaced(9) h(2) assms(4) by (auto simp: read_file_def after_crash_def)
      with replaced(2) show ?thesis by blast
    qed
  qed
qed

text \<open>
  C14: whenever the machine stops during the write of a file whose old contents had reached the medium, the file has
  afterwards its old contents or the whole new text; no part of a write is ever seen.
\<close>

theorem crash_leaves_old_or_new:
  assumes "WriteJSON env path v fs = (r, history)" "new_temp env path fs"
    and "0 < n" "after_crash (take n history) left"
    and "\<And>i. fs_names fs path = Some i \<Longrightarrow> i \<in> fs_synced fs"
  shows "read_file left path = read_file fs path \<or>
    (\<exists>content. we_Marshal env v = Inr content \<and> read_file left path = Some (content @ [CHR 0x0A]))"
  by (rule crash_cases [OF assms])

definition safe_write :: "string WriteEnv" where
  "safe_write = \<lparr>we_Marshal = Inr, we_MkdirAll = None, we_CreateTemp = Inr (7, 2), we_Write = None, we_Sync = None,
     we_Close = None, we_Rename = None, we_Remove = True\<rparr>"

definition old_files :: FileSystem where
  "old_files = \<lparr>fs_names = [''/s/settings.json'' \<mapsto> 1], fs_data = (\<lambda>_. ''old''), fs_synced = {1}\<rparr>"

text \<open>The machine stops right after the rename.\<close>

theorem crash_leaves_old_or_new_witness:
  "let left = last (snd (WriteJSON safe_write ''/s/settings.json'' ''new'' old_files)) in
   (read_file left ''/s/settings.json'' = read_file old_files ''/s/settings.json'' \<or>
    (\<exists>content. we_Marshal safe_write ''new'' = Inr content \<and> read_file left ''/s/settings.json'' = Some (content @ [CHR 0x0A]))) \<and>
   read_file left ''/s/settings.json'' = Some (''new'' @ [CHR 0x0A])"
proof -
  let ?w = "WriteJSON safe_write ''/s/settings.json'' ''new'' old_files"
  have c: "0 < length (snd ?w) \<and> temp_name ''/s/settings.json'' 7 = ''/s/.settings.json.tmp-7''" by code_simp
  have "after_crash (take (length (snd ?w)) (snd ?w)) (last (snd ?w))"
    using c by (auto simp: after_crash_def)
  moreover have "new_temp safe_write ''/s/settings.json'' old_files"
    using c by (simp add: new_temp_def safe_write_def old_files_def)
  ultimately have "read_file (last (snd ?w)) ''/s/settings.json'' = read_file old_files ''/s/settings.json'' \<or>
      (\<exists>content. we_Marshal safe_write ''new'' = Inr content \<and> read_file (last (snd ?w)) ''/s/settings.json'' = Some (content @ [CHR 0x0A]))"
    using c by (intro crash_leaves_old_or_new [of safe_write _ _ _ "fst ?w" "snd ?w" "length (snd ?w)"])
      (auto simp: old_files_def split: if_splits)
  moreover have "read_file (last (snd ?w)) ''/s/settings.json'' = Some (''new'' @ [CHR 0x0A])"
    using c by (simp add: WriteJSON_def safe_write_def write_temp_def old_files_def read_file_def create_file_def append_file_def
      sync_file_def rename_file_def remove_file_def Let_def)
  ultimately show ?thesis by (simp add: Let_def)
qed

section \<open>The contract of the stores\<close>

text \<open>
  What the stores promise of a file: after a save it has the saved value, after a failed one what it had. \<open>saved v s\<close>
  is what a save of \<open>v\<close> in the state \<open>s\<close> puts into the file, \<open>fits\<close> when the contract holds.
\<close>

fun run_saves :: "('v \<Rightarrow> 's \<Rightarrow> (string + unit) \<times> 's) \<Rightarrow> 'v list \<Rightarrow> 's \<Rightarrow> 's" where
  "run_saves save [] s = s"
| "run_saves save (v # vs) s = run_saves save vs (snd (save v s))"

fun all_fit :: "('v \<Rightarrow> 's \<Rightarrow> (string + unit) \<times> 's) \<Rightarrow> ('v \<Rightarrow> 's \<Rightarrow> bool) \<Rightarrow> 'v list \<Rightarrow> 's \<Rightarrow> bool" where
  "all_fit save fits [] s = True"
| "all_fit save fits (v # vs) s = (fits v s \<and> all_fit save fits vs (snd (save v s)))"

fun last_saved :: "('v \<Rightarrow> 's \<Rightarrow> (string + unit) \<times> 's) \<Rightarrow> ('v \<Rightarrow> 's \<Rightarrow> 'f) \<Rightarrow> 'v list \<Rightarrow> 's \<Rightarrow> 'f \<Rightarrow> 'f" where
  "last_saved save saved [] s x = x"
| "last_saved save saved (v # vs) s x =
     last_saved save saved vs (snd (save v s)) (case fst (save v s) of Inl _ \<Rightarrow> x | Inr _ \<Rightarrow> saved v s)"

locale file_store =
  fixes save :: "'v \<Rightarrow> 's \<Rightarrow> (string + unit) \<times> 's"
    and read :: "'s \<Rightarrow> 'f"
    and saved :: "'v \<Rightarrow> 's \<Rightarrow> 'f"
    and fits :: "'v \<Rightarrow> 's \<Rightarrow> bool"
  assumes save_done: "fits v s \<Longrightarrow> save v s = (Inr u, s') \<Longrightarrow> read s' = saved v s"
    and save_failed: "fits v s \<Longrightarrow> save v s = (Inl e, s') \<Longrightarrow> read s' = read s"
begin

lemma read_after:
  "fits v s \<Longrightarrow> read (snd (save v s)) = (case fst (save v s) of Inl _ \<Rightarrow> read s | Inr _ \<Rightarrow> saved v s)"
  using save_done [of v s] save_failed [of v s] by (cases "save v s") (auto split: sum.split)

lemma read_last_saved: "all_fit save fits vs s \<Longrightarrow> read (run_saves save vs s) = last_saved save saved vs s (read s)"
  by (induction vs arbitrary: s) (auto simp: read_after)

end

text \<open>The provider: the final state of \<open>WriteJSON\<close>, for a target \<open>path\<close>.\<close>

definition write_json :: "string \<Rightarrow> 'v WriteEnv \<times> 'v \<Rightarrow> FileSystem \<Rightarrow> (string + unit) \<times> FileSystem" where
  "write_json path ev fs = map_prod id last (WriteJSON (fst ev) path (snd ev) fs)"

definition json_text :: "'v WriteEnv \<times> 'v \<Rightarrow> string option" where
  "json_text ev = (case we_Marshal (fst ev) (snd ev) of Inl _ \<Rightarrow> None | Inr content \<Rightarrow> Some (content @ [CHR 0x0A]))"

lemma write_json_done:
  assumes "new_temp (fst ev) path fs" "write_json path ev fs = (Inr u, fs')"
  shows "\<exists>i. fs_names fs' = (fs_names fs)(path \<mapsto> i) \<and> json_text ev = Some (fs_data fs' i) \<and> keeps_files fs fs'"
proof -
  obtain env v where ev: "ev = (env, v)" by force
  obtain r history where w: "WriteJSON env path v fs = (r, history)" by force
  with assms ev have "r = Inr u" "fs' = last history" by (auto simp: write_json_def)
  moreover from w assms(1) ev have "new_temp env path fs" by simp
  with w show ?thesis
  proof (cases rule: WriteJSON_cases)
    case (replaced content i before after)
    then have "last history \<in> set after" "last history \<in> set history" by auto
    with replaced(2,7,9) calculation ev show ?thesis by (auto simp: json_text_def)
  qed (use calculation in simp)
qed

lemma write_json_failed:
  assumes "new_temp (fst ev) path fs" "write_json path ev fs = (Inl e, fs')"
  shows "fs_names fs' path = fs_names fs path \<and> keeps_files fs fs' \<and> (we_Remove (fst ev) \<longrightarrow> fs_names fs' = fs_names fs)"
proof -
  obtain env v where ev: "ev = (env, v)" by force
  obtain r history where w: "WriteJSON env path v fs = (r, history)" by force
  with assms ev have "r = Inl e" "fs' = last history" by (auto simp: write_json_def)
  moreover from w assms(1) ev have "new_temp env path fs" by simp
  with w show ?thesis
  proof (cases rule: WriteJSON_cases)
    case kept
    then have "last history \<in> set history" by simp
    with kept(4,5) calculation ev show ?thesis by auto
  qed (use calculation in simp)
qed

lemma read_keeps: "keeps_files fs fs' \<Longrightarrow> fs_names fs' p = fs_names fs p \<Longrightarrow> read_file fs' p = read_file fs p"
  by (cases "fs_names fs p") (auto simp: read_file_def keeps_files_def)

interpretation json_file: file_store "write_json path" "\<lambda>fs. read_file fs path" "\<lambda>ev fs. json_text ev" "\<lambda>ev. new_temp (fst ev) path"
  for path
proof
  fix ev :: "'a WriteEnv \<times> 'a" and fs u e fs'
  assume new: "new_temp (fst ev) path fs"
  show "read_file fs' path = json_text ev" if "write_json path ev fs = (Inr u, fs')"
    using write_json_done [OF new that] by (auto simp: read_file_def)
  show "read_file fs' path = read_file fs path" if "write_json path ev fs = (Inl e, fs')"
    using write_json_failed [OF new that] read_keeps by blast
qed

text \<open>The stores, whose models take a write as one step with an outcome.\<close>

interpretation settings_file: file_store "\<lambda>(failed, v). SettingsStore_Save path v failed" "\<lambda>disk. disk path" "\<lambda>fv disk. Saved (snd fv)" "\<lambda>_ _. True"
  for path
  by unfold_locales (auto simp: SettingsStore_Save_def split: if_splits option.splits)

interpretation certificate_file: file_store "\<lambda>(failed, v). CertificateStore_Save path v failed" "\<lambda>disk. disk path" "\<lambda>fv disk. Saved (snd fv)"
    "\<lambda>_ _. True"
  for path
  by unfold_locales (auto simp: CertificateStore_Save_def split: if_splits option.splits)

interpretation routes_file: file_store saveLocked w_disk "\<lambda>env w. Holds (fileOf (w_store w))" "\<lambda>env w. st_path (w_store w) \<noteq> []"
  by unfold_locales (auto simp: saveLocked_def split: if_splits option.splits)

section \<open>The stores are implemented\<close>

text \<open>The decoded view of a file system that the models of the stores have of it.\<close>

definition decoded_files :: "(string \<Rightarrow> string + 'v) \<Rightarrow> FileSystem \<Rightarrow> string \<Rightarrow> 'v json_file" where
  "decoded_files decode fs path =
     (case read_file fs path of
        None \<Rightarrow> json_file.Absent
      | Some content \<Rightarrow> (case decode content of Inl e \<Rightarrow> Unparsable e | Inr v \<Rightarrow> Saved v))"

lemma decoded_write:
  assumes "new_temp (fst ev) path fs" "we_Remove (fst ev)" "write_json path ev fs = (r, fs')"
    and "\<And>content. json_text ev = Some content \<Longrightarrow> decode content = Inr (snd ev)"
  shows "decoded_files decode fs' = (case r of Inl _ \<Rightarrow> decoded_files decode fs | Inr _ \<Rightarrow> (decoded_files decode fs)(path := Saved (snd ev)))"
proof (cases r)
  case (Inl e)
  with write_json_failed [of ev path fs e fs'] assms show ?thesis
    by (auto simp: fun_eq_iff decoded_files_def read_keeps)
next
  case (Inr u)
  with write_json_done [of ev path fs u fs'] assms obtain i where i: "fs_names fs' = (fs_names fs)(path \<mapsto> i)"
      "json_text ev = Some (fs_data fs' i)" "keeps_files fs fs'"
    by auto
  have "read_file fs' path = json_text ev" using i by (simp add: read_file_def)
  moreover have "read_file fs' p = read_file fs p" if "p \<noteq> path" for p using i that by (intro read_keeps) simp_all
  ultimately show ?thesis using Inr i(2) assms(4) by (auto simp: fun_eq_iff decoded_files_def)
qed

text \<open>
  C38: the save of the settings, seen through the decoder, is the one atomic step its model takes: the same result,
  and the same files afterwards.
\<close>

theorem settings_save_is_implemented:
  assumes "write_json path (env, settings) fs = (r, fs')" "path \<noteq> []"
    and "new_temp env path fs" "we_Remove env"
    and "\<And>content. we_Marshal env settings = Inr content \<Longrightarrow> decode (content @ [CHR 0x0A]) = Inr settings"
  shows "SettingsStore_Save path settings (case r of Inl e \<Rightarrow> Some e | Inr _ \<Rightarrow> None) (decoded_files decode fs) =
    (map_sum (\<lambda>e. ''save settings: '' @ e) id r, decoded_files decode fs')"
proof -
  have codec: "decode content = Inr settings" if "json_text (env, settings) = Some content" for content
    using that assms(5) by (auto simp: json_text_def split: sum.splits)
  have "decoded_files decode fs' = (case r of Inl _ \<Rightarrow> decoded_files decode fs | Inr _ \<Rightarrow> (decoded_files decode fs)(path := Saved settings))"
    using decoded_write [of "(env, settings)" path fs r fs' decode] codec assms(1,3,4) by (cases r) simp_all
  with assms(2) show ?thesis by (cases r) (simp_all add: SettingsStore_Save_def)
qed

definition stored_settings :: Settings where
  "stored_settings = SettingsFromConfig (defaults (\<lambda>_. None))"

definition settings_write :: "Settings WriteEnv" where
  "settings_write = \<lparr>we_Marshal = (\<lambda>_. Inr ''{}''), we_MkdirAll = None, we_CreateTemp = Inr (7, 2), we_Write = None, we_Sync = None,
     we_Close = None, we_Rename = None, we_Remove = True\<rparr>"

theorem settings_save_is_implemented_witness:
  "let path = ''/s/settings.json''; out = write_json path (settings_write, stored_settings) old_files;
       decode = (\<lambda>content. if content = ''{}'' @ [CHR 0x0A] then Inr stored_settings else Inl ''syntax'') in
   SettingsStore_Save path stored_settings None (decoded_files decode old_files) = (Inr (), decoded_files decode (snd out)) \<and>
   decoded_files decode old_files path = Unparsable ''syntax'' \<and> decoded_files decode (snd out) path = Saved stored_settings"
proof -
  let ?path = "''/s/settings.json''"
  let ?out = "write_json ?path (settings_write, stored_settings) old_files"
  let ?decode = "\<lambda>content. if content = ''{}'' @ [CHR 0x0A] then Inr stored_settings else Inl ''syntax''"
  have t: "temp_name ?path 7 = ''/s/.settings.json.tmp-7''" by code_simp
  have ok: "fst ?out = Inr ()"
    by (simp add: write_json_def WriteJSON_def settings_write_def write_temp_def Let_def)
  have "new_temp settings_write ?path old_files" using t by (simp add: new_temp_def settings_write_def old_files_def)
  then have saved: "SettingsStore_Save ?path stored_settings None (decoded_files ?decode old_files) = (Inr (), decoded_files ?decode (snd ?out))"
    using settings_save_is_implemented [of ?path settings_write stored_settings old_files "fst ?out" "snd ?out" ?decode] ok
    by (simp add: settings_write_def)
  then have "decoded_files ?decode (snd ?out) ?path = Saved stored_settings"
    by (simp add: SettingsStore_Save_def) (metis fun_upd_same)
  moreover have "decoded_files ?decode old_files ?path = Unparsable ''syntax''"
    by (simp add: decoded_files_def read_file_def old_files_def)
  ultimately show ?thesis using saved by (simp add: Let_def)
qed

end
