(* ===== verification/CertificateInspector.thy ===== *)
theory CertificateInspector
  imports CertificateProperties Persistence AzurePermissions "HOL-Library.Product_Lexorder"
begin

text \<open>
  The inventory of the stored certificates (\<open>certificate/inspector.go\<close>): the walk over the storage directory and
  what it reads of every certificate file. The walk, the file contents, the PEM and X.509 parsers, the hash and
  the two floating-point products are parameters.
\<close>

section \<open>The surroundings\<close>

text \<open>
  A parsed certificate; the addresses, the issuer and the serial number as their accessors print them. An entry of
  the walk has the error with which it is visited, if any.
\<close>

record X509 =
  xc_Raw :: string
  xc_DNSNames :: "string list"
  xc_IPAddresses :: "string list"
  xc_SubjectCommonName :: string
  xc_IssuerCommonName :: string
  xc_Issuer :: string
  xc_SerialNumber :: string
  xc_NotBefore :: time
  xc_NotAfter :: time

record WalkEntry =
  wk_Path :: string
  wk_Name :: string
  wk_Error :: "string option"
  wk_IsDir :: bool
  wk_Symlink :: bool

datatype stat_answer = IsThere bool | IsMissing | StatFailed string

text \<open>
  \<open>iv_window d ratio\<close> is \<open>time.Duration(float64(d) * ratio)\<close>, \<open>iv_seconds d\<close> is \<open>int64(d.Seconds())\<close>; \<open>IsThere\<close> tells
  whether it is a directory.
\<close>

record InspectEnv =
  iv_now :: time
  iv_stat :: "string \<Rightarrow> stat_answer"
  iv_walk :: "string \<Rightarrow> WalkEntry list"
  iv_read :: "string \<Rightarrow> string + string"
  iv_pem :: "string \<Rightarrow> (string \<times> string) option"
  iv_x509 :: "string \<Rightarrow> string + X509"
  iv_sha256 :: "string \<Rightarrow> string"
  iv_window :: "int \<Rightarrow> float64 \<Rightarrow> int"
  iv_seconds :: "int \<Rightarrow> int"

section \<open>One certificate\<close>

text \<open>\<open>Time.Sub\<close> is limited to the range of a \<open>time.Duration\<close>.\<close>

definition time_Sub :: "time \<Rightarrow> time \<Rightarrow> int" where
  "time_Sub a b = max (- (2 ^ 63)) (min (2 ^ 63 - 1) (a - b))"

definition path_Ext :: "string \<Rightarrow> string" where
  "path_Ext path =
     (let rest = rev (takeWhile (\<lambda>c. c \<noteq> CHR ''/'') (rev path)) in
      if CHR ''.'' \<in> set rest then CHR ''.'' # rev (takeWhile (\<lambda>c. c \<noteq> CHR ''.'') (rev rest)) else [])"

definition existingFile :: "InspectEnv \<Rightarrow> string \<Rightarrow> string" where
  "existingFile env path = (case iv_stat env path of IsThere False \<Rightarrow> path | _ \<Rightarrow> [])"

definition x509_issuer :: "X509 \<Rightarrow> string" where
  "x509_issuer cert = (if xc_IssuerCommonName cert \<noteq> [] then xc_IssuerCommonName cert else xc_Issuer cert)"

definition certificate_subjects :: "X509 \<Rightarrow> string list" where
  "certificate_subjects cert =
     (let names = xc_DNSNames cert @ xc_IPAddresses cert in
      sort (if names = [] \<and> xc_SubjectCommonName cert \<noteq> [] then [xc_SubjectCommonName cert] else names))"

definition certificate_state :: "time \<Rightarrow> time \<Rightarrow> time \<Rightarrow> time \<Rightarrow> string" where
  "certificate_state now notBefore notAfter renewalWindowStart =
     (if now < notBefore then ''not_yet_valid''
      else if notAfter \<le> now then ''expired''
      else if renewalWindowStart \<le> now then ''renewal_due'' else ''valid'')"

definition inspectFile :: "InspectEnv \<Rightarrow> float64 \<Rightarrow> string \<Rightarrow> string + CertStatus" where
  "inspectFile env ratio path =
     (case iv_read env path of
        Inl e \<Rightarrow> Inl (''read certificate '' @ path @ '': '' @ e)
      | Inr held \<Rightarrow>
     (case iv_pem env held of
        None \<Rightarrow> Inl (''parse certificate '' @ path @ '': no PEM certificate found'')
      | Some (kind, block) \<Rightarrow>
     (if kind \<noteq> ''CERTIFICATE'' then Inl (''parse certificate '' @ path @ '': no PEM certificate found'')
      else case iv_x509 env block of
        Inl e \<Rightarrow> Inl (''parse certificate '' @ path @ '': '' @ e)
      | Inr cert \<Rightarrow>
          (let start = xc_NotAfter cert - iv_window env (time_Sub (xc_NotAfter cert) (xc_NotBefore cert)) ratio;
               base = TrimSuffix path (path_Ext path)
           in Inr \<lparr>ct_ID = hex_EncodeToString (iv_sha256 env (path @ [CHR 0x00] @ xc_Raw cert)),
                ct_State = certificate_state (iv_now env) (xc_NotBefore cert) (xc_NotAfter cert) start,
                ct_Subjects = certificate_subjects cert, ct_Issuer = x509_issuer cert,
                ct_SerialNumber = xc_SerialNumber cert, ct_NotBefore = xc_NotBefore cert, ct_NotAfter = xc_NotAfter cert,
                ct_RemainingSeconds = iv_seconds env (time_Sub (xc_NotAfter cert) (iv_now env)), ct_RenewalWindowStart = start,
                ct_CertificateFile = path, ct_PrivateKeyFile = existingFile env (base @ ''.key''),
                ct_MetadataFile = existingFile env (base @ ''.json''),
                ct_FingerprintSHA256 = hex_EncodeToString (iv_sha256 env (xc_Raw cert)),
                ct_Usage = ''unknown'', ct_CoveredBy = [], ct_CanArchive = False\<rparr>))))"

section \<open>The walk\<close>

definition float_leq :: "float64 \<Rightarrow> float64 \<Rightarrow> bool" where
  "float_leq a b \<longleftrightarrow> float_less a b \<or> (a = b \<and> a \<noteq> NaN)"

text \<open>The constant is the \<open>float64\<close> nearest to a third.\<close>

definition defaultRenewalWindowRatio :: float64 where
  "defaultRenewalWindowRatio = Finite (6004799503160661 / 18014398509481984)"

definition window_ratio :: "float64 \<Rightarrow> float64" where
  "window_ratio ratio =
     (if float_leq ratio (Finite 0) \<or> float_leq (Finite 1) ratio then defaultRenewalWindowRatio else ratio)"

definition certificate_file :: "WalkEntry \<Rightarrow> bool" where
  "certificate_file entry \<longleftrightarrow> \<not> wk_IsDir entry \<and> EqualFold (path_Ext (wk_Name entry)) ''.crt''"

text \<open>The visited entries: a certificate, or a warning; the error of a visit ends the walk.\<close>

fun inspect_walk :: "InspectEnv \<Rightarrow> float64 \<Rightarrow> WalkEntry list \<Rightarrow> CertStatus list \<times> string list \<Rightarrow> string + CertStatus list \<times> string list" where
  "inspect_walk env ratio [] acc = Inr acc"
| "inspect_walk env ratio (entry # rest) (certificates, warnings) =
     (case wk_Error entry of
        Some e \<Rightarrow> Inl e
      | None \<Rightarrow>
          (if \<not> certificate_file entry then inspect_walk env ratio rest (certificates, warnings)
           else if wk_Symlink entry
           then inspect_walk env ratio rest (certificates, warnings @ [''symbolic link certificate skipped: '' @ wk_Path entry])
           else case inspectFile env ratio (wk_Path entry) of
             Inl e \<Rightarrow> inspect_walk env ratio rest (certificates, warnings @ [e])
           | Inr status \<Rightarrow> inspect_walk env ratio rest (certificates @ [status], warnings)))"

text \<open>By the end of validity, then by file; the files of a walk differ, so the order is the only one.\<close>

definition certificate_order :: "CertStatus \<Rightarrow> time \<times> string" where
  "certificate_order status = (ct_NotAfter status, ct_CertificateFile status)"

definition Inspect :: "InspectEnv \<Rightarrow> string \<Rightarrow> float64 \<Rightarrow> string + CertSnapshot" where
  "Inspect env dataDirectory ratio =
     (let directory = path_Clean dataDirectory; root = path_Join [directory, ''certificates''];
          snapshot = \<lparr>sp_StorageDirectory = directory, sp_ScannedAt = iv_now env, sp_Certificates = [], sp_Warnings = [],
            sp_PolicyKnown = False\<rparr>
      in case iv_stat env root of
        IsMissing \<Rightarrow> Inr snapshot
      | StatFailed e \<Rightarrow> Inl (''inspect certificate storage: '' @ e)
      | IsThere _ \<Rightarrow>
          (case inspect_walk env (window_ratio ratio) (iv_walk env root) ([], []) of
             Inl e \<Rightarrow> Inl (''walk certificate storage: '' @ e)
           | Inr (certificates, warnings) \<Rightarrow>
               Inr (snapshot\<lparr>sp_Certificates := sort_key certificate_order certificates, sp_Warnings := warnings\<rparr>)))"

section \<open>Facts\<close>

text \<open>What the walk makes of a certificate file.\<close>

definition inventory_entry :: "InspectEnv \<Rightarrow> float64 \<Rightarrow> WalkEntry \<Rightarrow> CertStatus option" where
  "inventory_entry env ratio entry =
     (if wk_Symlink entry then None else case inspectFile env ratio (wk_Path entry) of Inl _ \<Rightarrow> None | Inr status \<Rightarrow> Some status)"

lemma inspect_walk_Inr:
  "inspect_walk env ratio entries (cs, ws) = Inr (cs', ws') \<Longrightarrow>
   cs' = cs @ List.map_filter (inventory_entry env ratio) (filter certificate_file entries) \<and>
   length cs' + length ws' = length cs + length ws + length (filter certificate_file entries)"
proof (induction entries arbitrary: cs ws)
  case (Cons entry rest)
  show ?case
  proof (cases "certificate_file entry \<and> \<not> wk_Symlink entry")
    case True
    then show ?thesis using Cons.prems
      by (auto simp: inventory_entry_def map_filter_simps split: option.splits sum.splits dest!: Cons.IH)
  next
    case False
    then show ?thesis using Cons.prems
      by (auto simp: inventory_entry_def map_filter_simps split: option.splits if_splits dest!: Cons.IH)
  qed
qed (simp add: map_filter_simps)

lemma Inspect_Inr:
  assumes "Inspect env dir ratio = Inr snapshot"
  shows "sp_Certificates snapshot = [] \<and> iv_stat env (path_Join [path_Clean dir, ''certificates'']) = IsMissing \<and> sp_Warnings snapshot = [] \<or>
    (let files = filter certificate_file (iv_walk env (path_Join [path_Clean dir, ''certificates''])) in
     sp_Certificates snapshot = sort_key certificate_order (List.map_filter (inventory_entry env (window_ratio ratio)) files) \<and>
     length (sp_Certificates snapshot) + length (sp_Warnings snapshot) = length files)"
  using assms
  by (auto simp: Inspect_def Let_def split: stat_answer.splits sum.splits dest!: inspect_walk_Inr)

lemma inventory_entry_facts:
  assumes "inventory_entry env ratio entry = Some status"
  shows "ct_CertificateFile status = wk_Path entry \<and>
    ct_State status = certificate_state (iv_now env) (ct_NotBefore status) (ct_NotAfter status) (ct_RenewalWindowStart status)"
  using assms by (auto simp: inventory_entry_def inspectFile_def Let_def split: if_splits sum.splits option.splits prod.splits)

end
