(* ===== verification/CertificateArchive.thy ===== *)
theory CertificateArchive
  imports CertificateInspector
begin

text \<open>
  Moving a certificate out of the storage (\<open>certificate/archive.go\<close>). The files below the storage directory are the
  list of their paths, in components, with what is there. Other processes may change them before any call, and
  any call may fail; a directory, and a file with its attributes, is read in one step.
\<close>

section \<open>The files\<close>

text \<open>A regular file has its inode, its time of modification and its contents.\<close>

datatype arc_node = Folder | Plain nat time string | Link "string list" | Special

type_synonym arc_files = "(string list \<times> arc_node) list"

datatype arc_error = AlreadyExists | DoesNotExist | IoError string

fun arc_text :: "arc_error \<Rightarrow> string" where
  "arc_text AlreadyExists = ''file exists''"
| "arc_text DoesNotExist = ''no such file or directory''"
| "arc_text (IoError e) = e"

definition has_parent :: "string list \<Rightarrow> arc_files \<Rightarrow> bool" where
  "has_parent path files \<longleftrightarrow> butlast path = [] \<or> map_of files (butlast path) = Some Folder"

definition children :: "string list \<Rightarrow> arc_files \<Rightarrow> string list" where
  "children path files = map (\<lambda>(p, n). last p) (filter (\<lambda>(p, n). p \<noteq> [] \<and> butlast p = path) files)"

definition root_lstat :: "string list \<Rightarrow> arc_files \<Rightarrow> (arc_error + arc_node) \<times> arc_files" where
  "root_lstat path files = (case map_of files path of None \<Rightarrow> Inl DoesNotExist | Some n \<Rightarrow> Inr n, files)"

definition root_mkdir :: "string list \<Rightarrow> arc_files \<Rightarrow> (arc_error + unit) \<times> arc_files" where
  "root_mkdir path files =
     (if map_of files path \<noteq> None then (Inl AlreadyExists, files)
      else if \<not> has_parent path files then (Inl DoesNotExist, files)
      else (Inr (), files @ [(path, Folder)]))"

definition root_chmod :: "string list \<Rightarrow> arc_files \<Rightarrow> (arc_error + unit) \<times> arc_files" where
  "root_chmod path files = (if map_of files path = None then Inl DoesNotExist else Inr (), files)"

definition root_create :: "string list \<Rightarrow> arc_node \<Rightarrow> arc_files \<Rightarrow> (arc_error + unit) \<times> arc_files" where
  "root_create path node files =
     (if map_of files path \<noteq> None then (Inl AlreadyExists, files)
      else if \<not> has_parent path files then (Inl DoesNotExist, files)
      else (Inr (), files @ [(path, node)]))"

definition resolve :: "string list \<Rightarrow> arc_files \<Rightarrow> string list" where
  "resolve path files = (case map_of files path of Some (Link target) \<Rightarrow> target | _ \<Rightarrow> path)"

definition root_readdir :: "string list \<Rightarrow> arc_files \<Rightarrow> (arc_error + string list) \<times> arc_files" where
  "root_readdir path files =
     (case map_of files (resolve path files) of
        Some Folder \<Rightarrow> Inr (children (resolve path files) files)
      | None \<Rightarrow> Inl DoesNotExist
      | Some _ \<Rightarrow> Inl (IoError ''not a directory''), files)"

definition root_read :: "string list \<Rightarrow> arc_files \<Rightarrow> (arc_error + nat \<times> string) \<times> arc_files" where
  "root_read path files =
     (case map_of files (resolve path files) of
        Some (Plain inode mtime content) \<Rightarrow> Inr (inode, content)
      | None \<Rightarrow> Inl DoesNotExist
      | Some _ \<Rightarrow> Inl (IoError ''not a regular file''), files)"

text \<open>The path itself and what is below it move.\<close>

definition moved :: "string list \<Rightarrow> string list \<Rightarrow> string list \<Rightarrow> string list" where
  "moved old new path = (if take (length old) path = old then new @ drop (length old) path else path)"

definition root_rename :: "string list \<Rightarrow> string list \<Rightarrow> arc_files \<Rightarrow> (arc_error + unit) \<times> arc_files" where
  "root_rename old new files =
     (if map_of files old = None \<or> \<not> has_parent new files then (Inl DoesNotExist, files)
      else if map_of files new \<noteq> None \<and> \<not> (map_of files old = Some Folder \<and> map_of files new = Some Folder \<and> children new files = [])
      then (Inl AlreadyExists, files)
      else (Inr (), map (\<lambda>(p, n). (moved old new p, n)) (filter (\<lambda>(p, n). p \<noteq> new) files)))"

section \<open>The calls\<close>

text \<open>
  \<open>ae_others k\<close> is what other processes do before the \<open>k\<close>th call, \<open>ae_fail k\<close> the error of that call; \<open>ae_manifest\<close>
  tells whether the manifest is written, synced and closed, \<open>ae_manifestFile\<close> is the file it becomes, \<open>ae_context\<close> the error of the context after the checks.
\<close>

record ArchiveEnv =
  ae_inspect :: InspectEnv
  ae_policy :: "string + RuntimeConfig"
  ae_openRoot :: "string option"
  ae_lock :: "string \<Rightarrow> string option"
  ae_others :: "nat \<Rightarrow> arc_files \<Rightarrow> arc_files"
  ae_fail :: "nat \<Rightarrow> string option"
  ae_dial :: "PolicyEndpoint \<Rightarrow> handshake"
  ae_clock :: "PolicyEndpoint \<Rightarrow> time"
  ae_context :: "string option"
  ae_random :: string
  ae_manifest :: bool
  ae_manifestFile :: arc_node

type_synonym arc_state = "nat \<times> arc_files"

definition root_call :: "ArchiveEnv \<Rightarrow> (arc_files \<Rightarrow> (arc_error + 'a) \<times> arc_files) \<Rightarrow> arc_state \<Rightarrow> (arc_error + 'a) \<times> arc_state" where
  "root_call env operation s =
     (let files = ae_others env (fst s) (snd s) in
      case ae_fail env (fst s) of
        Some e \<Rightarrow> (Inl (IoError e), (fst s + 1, files))
      | None \<Rightarrow> (case operation files of (r, files') \<Rightarrow> (r, (fst s + 1, files'))))"

text \<open>A call whose error is returned as it is.\<close>

definition io :: "ArchiveEnv \<Rightarrow> (arc_files \<Rightarrow> (arc_error + 'a) \<times> arc_files) \<Rightarrow> arc_state \<Rightarrow> (string + 'a) \<times> arc_state" where
  "io env operation s = (case root_call env operation s of (r, s') \<Rightarrow> (map_sum arc_text id r, s'))"

text \<open>A directory that may be there already.\<close>

definition make_dir :: "ArchiveEnv \<Rightarrow> string list \<Rightarrow> arc_state \<Rightarrow> (string + unit) \<times> arc_state" where
  "make_dir env path s =
     (case root_call env (root_mkdir path) s of
        (Inl e, s') \<Rightarrow> (if e = AlreadyExists then Inr () else Inl (arc_text e), s')
      | (Inr _, s') \<Rightarrow> (Inr (), s'))"

section \<open>Plain paths and contents\<close>

fun plain_parts :: "ArchiveEnv \<Rightarrow> string list \<Rightarrow> string list \<Rightarrow> arc_state \<Rightarrow> (string + unit) \<times> arc_state" where
  "plain_parts env current [] s = (Inr (), s)"
| "plain_parts env current (part # rest) s =
     and_then (io env (root_lstat (current @ [part])) s) (\<lambda>node s1.
       case node of
         Link _ \<Rightarrow> (Inl ''symbolic links cannot be archived'', s1)
       | _ \<Rightarrow> plain_parts env (current @ [part]) rest s1)"

definition ensurePlainPath :: "ArchiveEnv \<Rightarrow> string list \<Rightarrow> arc_state \<Rightarrow> (string + unit) \<times> arc_state" where
  "ensurePlainPath env path = plain_parts env [] path"

record archivedFile =
  af_inode :: nat
  af_mtime :: time
  af_hash :: string

definition maxArchivedFile :: nat where
  "maxArchivedFile = 1024 * 1024"

fun contents_loop :: "ArchiveEnv \<Rightarrow> string list \<Rightarrow> string \<Rightarrow> string list \<Rightarrow> (string \<times> archivedFile) list \<Rightarrow> arc_state \<Rightarrow>
    (string + (string \<times> archivedFile) list) \<times> arc_state" where
  "contents_loop env directory base [] held s = (Inr held, s)"
| "contents_loop env directory base (name # rest) held s =
     (if name \<noteq> base @ ''.crt'' \<and> name \<noteq> base @ ''.key'' \<and> name \<noteq> base @ ''.json''
      then (Inl ''certificate directory contains unexpected files'', s)
      else and_then (io env (root_lstat (directory @ [name])) s) (\<lambda>node s1.
        case node of
          Plain inode mtime content \<Rightarrow>
            (if maxArchivedFile < length content
             then (Inl ''certificate files must be regular files smaller than 1 MiB'', s1)
             else and_then (io env (root_read (directory @ [name])) s1) (\<lambda>opened s2.
               if inode \<noteq> fst opened \<or> maxArchivedFile < length (snd opened)
               then (Inl ''certificate file changed while reading'', s2)
               else contents_loop env directory base rest
                 (held @ [(name, \<lparr>af_inode = inode, af_mtime = mtime, af_hash = iv_sha256 (ae_inspect env) (snd opened)\<rparr>)]) s2))
        | _ \<Rightarrow> (Inl ''certificate files must be regular files smaller than 1 MiB'', s1)))"

definition archiveContents :: "ArchiveEnv \<Rightarrow> string list \<Rightarrow> string \<Rightarrow> arc_state \<Rightarrow> (string + (string \<times> archivedFile) list) \<times> arc_state" where
  "archiveContents env directory certificateName s =
     and_then (ensurePlainPath env directory s) (\<lambda>_ s1.
     and_then (io env (root_readdir directory) s1) (\<lambda>entries s2.
     if length entries \<noteq> 3
     then (Inl ''certificate directory must contain exactly one certificate, key and metadata file'', s2)
     else contents_loop env directory (TrimSuffix certificateName ''.crt'') entries [] s2))"

definition sameContents :: "(string \<times> archivedFile) list \<Rightarrow> (string \<times> archivedFile) list \<Rightarrow> bool" where
  "sameContents before after \<longleftrightarrow>
     length before = length after \<and>
     list_all (\<lambda>(name, original). case map_of after name of
         None \<Rightarrow> False
       | Some current \<Rightarrow> af_hash original = af_hash current \<and> af_inode original = af_inode current \<and> af_mtime original = af_mtime current) before"

section \<open>Paths\<close>

definition path_parts :: "string \<Rightarrow> string list" where
  "path_parts path = filter (\<lambda>part. part \<noteq> [] \<and> part \<noteq> ''.'') (Split (path_Clean path) (CHR ''/''))"

fun strip_common :: "string list \<Rightarrow> string list \<Rightarrow> string list \<times> string list" where
  "strip_common (a # as) (b # bs) = (if a = b then strip_common as bs else (a # as, b # bs))"
| "strip_common as bs = (as, bs)"

text \<open>\<open>filepath.Rel\<close>.\<close>

definition path_Rel :: "string \<Rightarrow> string \<Rightarrow> string + string" where
  "path_Rel base target =
     (if HasPrefix base ''/'' \<noteq> HasPrefix target ''/'' then Inl (''Rel: cannot make '' @ target @ '' relative to '' @ base)
      else case strip_common (path_parts base) (path_parts target) of
        (up, down) \<Rightarrow>
          (if up \<noteq> [] \<and> hd up = ''..'' then Inl (''Rel: cannot make '' @ target @ '' relative to '' @ base)
           else if up = [] \<and> down = [] then Inr ''.''
           else Inr (Join (map (\<lambda>_. ''..'') up @ down) ''/'')))"

text \<open>\<open>filepath.IsLocal\<close>.\<close>

definition path_IsLocal :: "string \<Rightarrow> bool" where
  "path_IsLocal path \<longleftrightarrow> path \<noteq> [] \<and> \<not> HasPrefix path ''/'' \<and> path_Clean path \<noteq> ''..'' \<and> \<not> HasPrefix (path_Clean path) ''../''"

section \<open>The archive\<close>

text \<open>The checks on the inventory; a later certificate with the same identifier replaces an earlier one.\<close>

definition archive_target :: "ArchiveEnv \<Rightarrow> string \<Rightarrow> string \<Rightarrow> string \<Rightarrow> string + CertStatus \<times> Policy" where
  "archive_target env dataDirectory certificateID fingerprint =
     bind_res (ParsePolicy (ae_policy env) dataDirectory) (\<lambda>policy.
     bind_res (Inspect (ae_inspect env) dataDirectory defaultRenewalWindowRatio) (\<lambda>snapshot.
     case find (\<lambda>status. ct_ID status = certificateID) (rev (sp_Certificates (Classify policy snapshot))) of
       None \<Rightarrow> Inl ''certificate changed or no longer exists; refresh the inventory''
     | Some target \<Rightarrow>
         (if ct_FingerprintSHA256 target \<noteq> fingerprint then Inl ''certificate changed or no longer exists; refresh the inventory''
          else if \<not> ct_CanArchive target then Inl ''certificate is managed or its usage cannot be verified''
          else Inr (target, policy))))"

definition lock_names :: "CertStatus \<Rightarrow> string list" where
  "lock_names target = remdups_adj (sort (''storage_clean'' # map (\<lambda>subject. ''issue_cert_'' @ normalizeName subject) (ct_Subjects target)))"

definition take_locks :: "ArchiveEnv \<Rightarrow> CertStatus \<Rightarrow> string + unit" where
  "take_locks env target =
     each_ok (\<lambda>name. case ae_lock env name of Some e \<Rightarrow> Inl (''certificate storage is busy: '' @ e) | None \<Rightarrow> Inr ()) (lock_names target)"

text \<open>The path of the certificate below the storage directory, and its directory.\<close>

definition archive_place :: "string \<Rightarrow> CertStatus \<Rightarrow> string + string \<times> string" where
  "archive_place dataDirectory target =
     bind_res (path_Rel dataDirectory (ct_CertificateFile target)) (\<lambda>relative.
     let directory = path_Dir relative in
     if \<not> path_IsLocal relative \<or> length (Split directory (CHR ''/'')) \<noteq> 3 \<or> \<not> HasPrefix directory ''certificates/''
     then Inl ''only standard Caddy certificate directories can be archived'' else Inr (relative, directory))"

text \<open>A name that is not in the contents has the hash of 32 zero bytes.\<close>

definition hash_of :: "(string \<times> archivedFile) list \<Rightarrow> string \<Rightarrow> string" where
  "hash_of held name = (case map_of held name of Some f \<Rightarrow> af_hash f | None \<Rightarrow> replicate 32 (CHR 0x00))"

definition archive_verify :: "ArchiveEnv \<Rightarrow> CertStatus \<Rightarrow> Policy \<Rightarrow> string \<Rightarrow> string list \<Rightarrow> string list \<Rightarrow> string \<Rightarrow> arc_state \<Rightarrow>
    (string + (string \<times> archivedFile) list) \<times> arc_state" where
  "archive_verify env target policy fingerprint directory relative name s =
     and_then (archiveContents env directory name s) (\<lambda>held s1.
     and_then (io env (root_read relative) s1) (\<lambda>(inode, certificatePEM) s2.
     case iv_pem (ae_inspect env) certificatePEM of
       None \<Rightarrow> (Inl ''certificate changed during validation'', s2)
     | Some (kind, block) \<Rightarrow>
         (if hex_EncodeToString (iv_sha256 (ae_inspect env) block) \<noteq> fingerprint \<or>
             iv_sha256 (ae_inspect env) certificatePEM \<noteq> hash_of held name
          then (Inl ''certificate changed during validation'', s2)
          else case verifyNotServing (ae_dial env) (ae_clock env) target policy of
            Some e \<Rightarrow> (Inl e, s2)
          | None \<Rightarrow> (case ae_context env of Some e \<Rightarrow> (Inl e, s2) | None \<Rightarrow> (Inr held, s2)))))"

definition archive_root :: string where
  "archive_root = ''certificate-archive''"

definition archive_directory :: "ArchiveEnv \<Rightarrow> string list" where
  "archive_directory env = [archive_root, ae_random env]"

definition archive_destination :: "ArchiveEnv \<Rightarrow> string list" where
  "archive_destination env = archive_directory env @ [''materials'']"

definition archive_prepare :: "ArchiveEnv \<Rightarrow> arc_state \<Rightarrow> (string + unit) \<times> arc_state" where
  "archive_prepare env s =
     and_then (make_dir env [archive_root] s) (\<lambda>_ s1.
     and_then (ensurePlainPath env [archive_root] s1) (\<lambda>_ s2.
     and_then (io env (root_chmod [archive_root]) s2) (\<lambda>_ s3.
     and_then (io env (root_mkdir (archive_directory env)) s3) (\<lambda>_ s4.
     and_then (io env (root_create (archive_directory env @ [''manifest.json'']) (ae_manifestFile env)) s4) (\<lambda>_ s5.
     (if ae_manifest env then Inr () else Inl ''cannot persist archive manifest'', s5))))))"

definition destination_text :: "ArchiveEnv \<Rightarrow> string" where
  "destination_text env = Join (archive_destination env) ''/''"

definition archive_restore :: "ArchiveEnv \<Rightarrow> string list \<Rightarrow> arc_state \<Rightarrow> (string + unit) \<times> arc_state" where
  "archive_restore env directory s =
     (case root_call env (root_lstat directory) s of
        (Inl DoesNotExist, s1) \<Rightarrow>
          (case root_call env (root_rename (archive_destination env) directory) s1 of
             (Inl e, s2) \<Rightarrow> (Inl (''certificate changed while archiving; manual recovery required from '' @ destination_text env @ '': '' @ arc_text e), s2)
           | (Inr _, s2) \<Rightarrow> (Inl ''certificate changed while archiving; original directory restored'', s2))
      | (_, s1) \<Rightarrow> (Inl (''certificate changed while archiving; original path was recreated; manual recovery required from '' @ destination_text env), s1))"

definition archive_move :: "ArchiveEnv \<Rightarrow> string list \<Rightarrow> string \<Rightarrow> (string \<times> archivedFile) list \<Rightarrow> arc_state \<Rightarrow> (string + unit) \<times> arc_state" where
  "archive_move env directory name held s =
     (case archiveContents env directory name s of
        (Inl _, s1) \<Rightarrow> (Inl ''certificate files changed during validation; retry after refresh'', s1)
      | (Inr latest, s1) \<Rightarrow>
          (if \<not> sameContents held latest then (Inl ''certificate files changed during validation; retry after refresh'', s1)
           else case root_call env (root_rename directory (archive_destination env)) s1 of
             (Inl e, s2) \<Rightarrow> (Inl (''archive certificate directory: '' @ arc_text e), s2)
           | (Inr _, s2) \<Rightarrow>
               (case archiveContents env (archive_destination env) name s2 of
                  (Inr archived, s3) \<Rightarrow> (if sameContents held archived then (Inr (), s3) else archive_restore env directory s3)
                | (Inl _, s3) \<Rightarrow> archive_restore env directory s3)))"

definition Archive :: "ArchiveEnv \<Rightarrow> string \<Rightarrow> string \<Rightarrow> string \<Rightarrow> arc_files \<Rightarrow> (string + string \<times> string) \<times> arc_files" where
  "Archive env dataDirectory0 certificateID fingerprint files =
     (let dataDirectory = path_Clean dataDirectory0; s = (0, files);
          out = check (archive_target env dataDirectory certificateID fingerprint) s (\<lambda>(target, policy).
            check (case ae_openRoot env of Some e \<Rightarrow> Inl e | None \<Rightarrow> Inr ()) s (\<lambda>_.
            and_then (make_dir env [''locks''] s) (\<lambda>_ s1.
            and_then (ensurePlainPath env [''locks''] s1) (\<lambda>_ s2.
            check (take_locks env target) s2 (\<lambda>_.
            check (archive_place dataDirectory target) s2 (\<lambda>(relative, directory).
            let dir = Split directory (CHR ''/''); name = path_Base relative in
            and_then (archive_verify env target policy fingerprint dir (Split relative (CHR ''/'')) name s2) (\<lambda>held s3.
            and_then (archive_prepare env s3) (\<lambda>_ s4.
            and_then (archive_move env dir name held s4) (\<lambda>_ s5.
            (Inr (certificateID, path_Join [dataDirectory, destination_text env]), s5))))))))))
      in (fst out, snd (snd out)))"

end
