(* ===== verification/ArchiveProperties.thy ===== *)
theory ArchiveProperties
  imports CertificateArchive "HOL-Library.Multiset"
begin

text \<open>
  What the inventory and the archive guarantee: the inventory accounts for every certificate file, an archive
  succeeds only for a certificate that is not needed, and it moves the directory as a whole or leaves it.
\<close>

section \<open>What the calls keep\<close>

definition stable :: "ArchiveEnv \<Rightarrow> (arc_files \<Rightarrow> bool) \<Rightarrow> bool" where
  "stable env P \<longleftrightarrow> (\<forall>k files. P files \<longrightarrow> P (ae_others env k files))"

lemma root_call_keeps:
  "stable env P \<Longrightarrow> P (snd s) \<Longrightarrow> (\<And>files. P files \<Longrightarrow> P (snd (operation files))) \<Longrightarrow> P (snd (snd (root_call env operation s)))"
  by (auto simp: root_call_def stable_def Let_def split: option.split prod.split) (metis snd_conv)

lemma io_keeps:
  "stable env P \<Longrightarrow> P (snd s) \<Longrightarrow> (\<And>files. P files \<Longrightarrow> P (snd (operation files))) \<Longrightarrow> P (snd (snd (io env operation s)))"
  using root_call_keeps [of env P s operation] by (simp add: io_def split_beta)

lemma and_then_keeps:
  "P (snd (snd m)) \<Longrightarrow> (\<And>x s. P (snd s) \<Longrightarrow> P (snd (snd (k x s)))) \<Longrightarrow> P (snd (snd (and_then m k)))"
  by (cases m) (auto simp: and_then_def split: sum.split)

lemma reads [simp]:
  "snd (root_lstat path files) = files" "snd (root_chmod path files) = files" "snd (root_readdir path files) = files"
  "snd (root_read path files) = files"
  by (simp_all add: root_lstat_def root_chmod_def root_readdir_def root_read_def)

lemma plain_parts_keeps: "stable env P \<Longrightarrow> P (snd s) \<Longrightarrow> P (snd (snd (plain_parts env current parts s)))"
proof (induction parts arbitrary: current s)
  case (Cons part rest)
  show ?case unfolding plain_parts.simps
    by (rule and_then_keeps, rule io_keeps) (use Cons in \<open>auto split: arc_node.split\<close>)
qed simp

lemma ensurePlainPath_keeps: "stable env P \<Longrightarrow> P (snd s) \<Longrightarrow> P (snd (snd (ensurePlainPath env path s)))"
  by (simp add: ensurePlainPath_def plain_parts_keeps)

lemma contents_loop_keeps: "stable env P \<Longrightarrow> P (snd s) \<Longrightarrow> P (snd (snd (contents_loop env directory base names held s)))"
proof (induction names arbitrary: held s)
  case (Cons name rest)
  show ?case unfolding contents_loop.simps
    by (auto intro!: and_then_keeps [where P = P] io_keeps [where P = P] Cons split: arc_node.split)
qed simp

lemma archiveContents_keeps: "stable env P \<Longrightarrow> P (snd s) \<Longrightarrow> P (snd (snd (archiveContents env directory name s)))"
  unfolding archiveContents_def
  by (auto intro!: and_then_keeps [where P = P] io_keeps [where P = P] ensurePlainPath_keeps [where P = P] contents_loop_keeps [where P = P])

lemma archive_verify_keeps:
  "stable env P \<Longrightarrow> P (snd s) \<Longrightarrow> P (snd (snd (archive_verify env target policy fingerprint directory relative name s)))"
  unfolding archive_verify_def
  by (auto intro!: and_then_keeps [where P = P] io_keeps [where P = P] archiveContents_keeps [where P = P] split: option.split)

lemma make_dir_keeps:
  assumes "stable env P" "P (snd s)" "\<And>files. P files \<Longrightarrow> P (snd (root_mkdir path files))"
  shows "P (snd (snd (make_dir env path s)))"
  using root_call_keeps [of env P s "root_mkdir path", OF assms] by (simp add: make_dir_def split: sum.split prod.split) auto

section \<open>Directories that move\<close>

text \<open>Below \<open>a\<close> the files are those of \<open>tree\<close>, below \<open>b\<close> there is nothing.\<close>

definition holds :: "(string list \<Rightarrow> arc_node option) \<Rightarrow> string list \<Rightarrow> string list \<Rightarrow> arc_files \<Rightarrow> bool" where
  "holds tree a b files \<longleftrightarrow> (\<forall>q. map_of files (a @ q) = tree q) \<and> (\<forall>q. map_of files (b @ q) = None)"

definition apart_heads :: "string list \<Rightarrow> string list \<Rightarrow> bool" where
  "apart_heads a b \<longleftrightarrow> (\<exists>x y a' b'. a = x # a' \<and> b = y # b' \<and> x \<noteq> y)"

definition quiet_below :: "ArchiveEnv \<Rightarrow> string list \<Rightarrow> bool" where
  "quiet_below env d \<longleftrightarrow> (\<forall>k files q. map_of (ae_others env k files) (d @ q) = map_of files (d @ q))"

lemma holds_stable: "quiet_below env a \<Longrightarrow> quiet_below env b \<Longrightarrow> stable env (holds tree a b)"
  by (simp add: stable_def holds_def quiet_below_def)

lemma holds_add:
  "holds tree a b files \<Longrightarrow> (\<And>q. path \<noteq> a @ q) \<Longrightarrow> (\<And>q. path \<noteq> b @ q) \<Longrightarrow> holds tree a b (files @ [(path, n)])"
  by (auto simp: holds_def map_add_def split: option.split)

lemma holds_mkdir: "holds tree a b files \<Longrightarrow> (\<And>q. path \<noteq> a @ q) \<Longrightarrow> (\<And>q. path \<noteq> b @ q) \<Longrightarrow> holds tree a b (snd (root_mkdir path files))"
  using holds_add [of tree a b files path Folder] by (simp add: root_mkdir_def)

lemma holds_create: "holds tree a b files \<Longrightarrow> (\<And>q. path \<noteq> a @ q) \<Longrightarrow> (\<And>q. path \<noteq> b @ q) \<Longrightarrow> holds tree a b (snd (root_create path n files))"
  using holds_add [of tree a b files path n] by (simp add: root_create_def)

lemma moved_simps:
  "moved a b (a @ q) = b @ q" "apart_heads a b \<Longrightarrow> moved a b p \<noteq> a @ q"
  "moved a b p = b @ q \<Longrightarrow> p = a @ q \<or> p = b @ q"
  by (auto simp: moved_def apart_heads_def split: if_splits) (metis append_take_drop_id)+

lemma map_of_moved:
  assumes "\<forall>q. map_of files (b @ q) = None" "apart_heads a b"
  shows "map_of (map (\<lambda>(p, n). (moved a b p, n)) (filter (\<lambda>(p, n). p \<noteq> b) files)) (b @ q) = map_of files (a @ q)"
    "map_of (map (\<lambda>(p, n). (moved a b p, n)) (filter (\<lambda>(p, n). p \<noteq> b) files)) (a @ q) = None"
proof -
  have absent: "b @ r \<notin> fst ` set files" for r using assms(1) by (simp add: map_of_eq_None_iff)
  from absent show "map_of (map (\<lambda>(p, n). (moved a b p, n)) (filter (\<lambda>(p, n). p \<noteq> b) files)) (b @ q) = map_of files (a @ q)"
  proof (induction files)
    case (Cons f files)
    obtain p n where f: "f = (p, n)" by force
    have p: "p \<noteq> b @ r" for r using Cons.prems [of r] f by auto
    have "p \<noteq> b" using p [of "[]"] by simp
    moreover have "moved a b p = b @ q \<longleftrightarrow> p = a @ q" using moved_simps(1) [of a b q] moved_simps(3) [of a b p q] p by auto
    moreover from this have "b @ q = moved a b p \<longleftrightarrow> a @ q = p" by metis
    moreover have "\<And>r. b @ r \<notin> fst ` set files" using Cons.prems by auto
    ultimately show ?case using Cons.IH f by simp
  qed simp
  show "map_of (map (\<lambda>(p, n). (moved a b p, n)) (filter (\<lambda>(p, n). p \<noteq> b) files)) (a @ q) = None"
    using moved_simps(2) [OF assms(2)] moved_simps(2) [OF assms(2), symmetric] by (auto simp: map_of_eq_None_iff)
qed

lemma rename_moves:
  assumes "root_rename a b files = (r, files')" "holds tree a b files" "apart_heads a b"
  shows "case r of Inl _ \<Rightarrow> holds tree a b files' | Inr _ \<Rightarrow> holds tree b a files'"
  using assms map_of_moved [OF _ assms(3), of files]
  by (auto simp: root_rename_def holds_def split: if_splits)

lemma call_rename_moves:
  assumes "root_call env (root_rename a b) s = (r, s')" "holds tree a b (snd s)" "apart_heads a b" "quiet_below env a" "quiet_below env b"
  shows "case r of Inl _ \<Rightarrow> holds tree a b (snd s') | Inr _ \<Rightarrow> holds tree b a (snd s')"
proof -
  let ?files = "ae_others env (fst s) (snd s)"
  have h: "holds tree a b ?files" using holds_stable [OF assms(4,5)] assms(2) by (simp add: stable_def)
  show ?thesis
  proof (cases "ae_fail env (fst s)")
    case None
    with assms(1) have "root_rename a b ?files = (r, snd s')" by (auto simp: root_call_def split: prod.splits)
    from rename_moves [OF this h assms(3)] show ?thesis .
  next
    case (Some e)
    with assms(1) h show ?thesis by (auto simp: root_call_def)
  qed
qed

lemma apart_heads_sym: "apart_heads a b \<Longrightarrow> apart_heads b a"
  by (auto simp: apart_heads_def)

section \<open>The move\<close>

text \<open>The error after which an operator has to look for the files.\<close>

definition needs_recovery :: "ArchiveEnv \<Rightarrow> string \<Rightarrow> bool" where
  "needs_recovery env e \<longleftrightarrow> (\<exists>before after. e = before @ ''manual recovery required from '' @ destination_text env @ after)"

definition whole :: "ArchiveEnv \<Rightarrow> (string list \<Rightarrow> arc_node option) \<Rightarrow> string list \<Rightarrow> string + 'a \<Rightarrow> arc_files \<Rightarrow> bool" where
  "whole env tree d r files \<longleftrightarrow>
     (case r of
        Inr _ \<Rightarrow> holds tree (archive_destination env) d files
      | Inl e \<Rightarrow> holds tree d (archive_destination env) files \<or> (holds tree (archive_destination env) d files \<and> needs_recovery env e))"

lemma restore_whole:
  assumes "archive_restore env d s = (r, s')" "holds tree (archive_destination env) d (snd s)" "apart_heads d (archive_destination env)"
    and "quiet_below env d" "quiet_below env (archive_destination env)"
  shows "whole env tree d r (snd s') \<and> (\<exists>e. r = Inl e)"
proof -
  obtain l s1 where l: "root_call env (root_lstat d) s = (l, s1)" by (meson surj_pair)
  have s1: "holds tree (archive_destination env) d (snd s1)"
    using root_call_keeps [OF holds_stable [OF assms(5,4)] assms(2), of "root_lstat d"] l by simp
  obtain u s2 where u: "root_call env (root_rename (archive_destination env) d) s1 = (u, s2)" by (meson surj_pair)
  have stranded: "needs_recovery env (''certificate changed while archiving; manual recovery required from '' @ destination_text env @ '': '' @ x)" for x
    unfolding needs_recovery_def by (intro exI [of _ "''certificate changed while archiving; ''"] exI [of _ "'': '' @ x"]) simp
  have recreated: "needs_recovery env (''certificate changed while archiving; original path was recreated; manual recovery required from '' @ destination_text env)"
    unfolding needs_recovery_def
    by (intro exI [of _ "''certificate changed while archiving; original path was recreated; ''"] exI [of _ "[]"]) simp
  show ?thesis
  proof (cases "l = Inl DoesNotExist")
    case True
    show ?thesis
    proof (cases u)
      case (Inl e)
      with True l u assms(1) have "r = Inl (''certificate changed while archiving; manual recovery required from '' @ destination_text env @ '': '' @ arc_text e)" "s' = s2"
        by (simp_all add: archive_restore_def)
      with Inl call_rename_moves [OF u s1 apart_heads_sym [OF assms(3)] assms(5,4)] stranded show ?thesis by (simp add: whole_def del: append_Cons)
    next
      case (Inr v)
      with True l u assms(1) have "\<exists>e. r = Inl e" "s' = s2" by (auto simp: archive_restore_def)
      with Inr call_rename_moves [OF u s1 apart_heads_sym [OF assms(3)] assms(5,4)] show ?thesis by (auto simp: whole_def)
    qed
  next
    case False
    with l assms(1) have "r = Inl (''certificate changed while archiving; original path was recreated; manual recovery required from '' @ destination_text env)" "s' = s1"
      by (auto simp: archive_restore_def split: sum.splits arc_error.splits)
    with s1 recreated show ?thesis by (simp add: whole_def del: append_Cons)
  qed
qed

lemma move_whole:
  assumes "archive_move env d name held s = (r, s')" "holds tree d (archive_destination env) (snd s)"
    and "apart_heads d (archive_destination env)" "quiet_below env d" "quiet_below env (archive_destination env)"
  shows "whole env tree d r (snd s')"
proof -
  let ?to = "archive_destination env"
  note stay = holds_stable [OF assms(4,5), of tree] and gone = holds_stable [OF assms(5,4), of tree]
  obtain l s1 where l: "archiveContents env d name s = (l, s1)" by (meson surj_pair)
  have s1: "holds tree d ?to (snd s1)" using archiveContents_keeps [OF stay assms(2), of d name] l by simp
  obtain u s2 where u: "root_call env (root_rename d ?to) s1 = (u, s2)" by (meson surj_pair)
  note s2 = call_rename_moves [OF u s1 assms(3-5)]
  obtain a s3 where a: "archiveContents env ?to name s2 = (a, s3)" by (meson surj_pair)
  have s3: "holds tree ?to d (snd s3)" if "u = Inr v" for v
    using archiveContents_keeps [OF gone, of s2 ?to name] a s2 that by simp
  show ?thesis
  proof (cases "(\<exists>latest. l = Inr latest \<and> sameContents held latest) \<and> (\<exists>v. u = Inr v)")
    case True
    then obtain latest v where v: "l = Inr latest" "sameContents held latest" "u = Inr v" by blast
    show ?thesis
    proof (cases "\<exists>archived. a = Inr archived \<and> sameContents held archived")
      case True
      with v l u a s3 assms(1) show ?thesis by (auto simp: archive_move_def whole_def)
    next
      case False
      with v l u a assms(1) have "archive_restore env d s3 = (r, s')" by (auto simp: archive_move_def split: sum.splits)
      from restore_whole [OF this s3 [OF v(3)] assms(3-5)] show ?thesis by simp
    qed
  next
    case False
    with l u s1 s2 assms(1) show ?thesis by (cases l; cases u) (auto simp: archive_move_def whole_def split: if_splits)
  qed
qed

section \<open>The whole archive\<close>

lemma apart_heads_not_below: "apart_heads a b \<Longrightarrow> length path < length b \<Longrightarrow> path \<noteq> b @ q"
  by auto

lemma certificates_parts:
  assumes "archive_place dataDirectory target = Inr (relative, directory)"
  shows "\<exists>rest. Split directory (CHR ''/'') = ''certificates'' # rest"
proof -
  have "HasPrefix directory ''certificates/''"
    using assms by (auto simp: archive_place_def Let_def res_simps split: if_splits)
  then obtain rest where "directory = ''certificates/'' @ rest" by (auto simp: HasPrefix_iff)
  then show ?thesis by simp
qed

lemma prepare_keeps:
  assumes "holds tree d (archive_destination env) (snd s)" "stable env (holds tree d (archive_destination env))" "d = ''certificates'' # rest"
  shows "holds tree d (archive_destination env) (snd (snd (archive_prepare env s)))"
proof -
  let ?P = "holds tree d (archive_destination env)"
  have no: "[archive_root] \<noteq> d @ q" "[archive_root] \<noteq> archive_destination env @ q" "archive_directory env \<noteq> d @ q"
      "archive_directory env \<noteq> archive_destination env @ q" "archive_directory env @ [''manifest.json''] \<noteq> d @ q"
      "archive_directory env @ [''manifest.json''] \<noteq> archive_destination env @ q" for q
    by (simp_all add: assms(3) archive_root_def archive_directory_def archive_destination_def)
  show ?thesis unfolding archive_prepare_def
    by (intro and_then_keeps [where P = ?P] make_dir_keeps [where P = ?P] ensurePlainPath_keeps [where P = ?P] io_keeps [where P = ?P]
        assms(1,2) holds_mkdir holds_create no) simp_all
qed

text \<open>An archive stops at its first error, or it is what the move makes of the storage.\<close>

lemma Archive_ends:
  assumes "Archive env dataDirectory certificateID fingerprint files = (r, files')"
    and "archive_target env (path_Clean dataDirectory) certificateID fingerprint = Inr (target, policy)"
    and "archive_place (path_Clean dataDirectory) target = Inr (relative, directory)"
    and m: "make_dir env [''locks''] (0, files) = (r1, s1)" and p: "ensurePlainPath env [''locks''] s1 = (r2, s2)"
    and v: "archive_verify env target policy fingerprint (Split directory (CHR ''/'')) (Split relative (CHR ''/'')) (path_Base relative) s2 = (r3, s3)"
    and q: "archive_prepare env s3 = (r4, s4)"
  obtains (early) e where "r = Inl e" "files' \<in> {files, snd s1, snd s2, snd s3, snd s4}"
    | (move) held r5 s5 where "archive_move env (Split directory (CHR ''/'')) (path_Base relative) held s4 = (r5, s5)" "files' = snd s5"
        "r = map_sum id (\<lambda>_. (certificateID, path_Join [path_Clean dataDirectory, destination_text env])) r5"
proof (cases "ae_openRoot env = None \<and> r1 = Inr () \<and> r2 = Inr () \<and> take_locks env target = Inr () \<and> (\<exists>held. r3 = Inr held) \<and> r4 = Inr ()")
  case True
  then obtain held where held: "r3 = Inr held" by blast
  obtain r5 s5 where move: "archive_move env (Split directory (CHR ''/'')) (path_Base relative) held s4 = (r5, s5)" by (meson surj_pair)
  show thesis
    by (rule that(2) [OF move]) (use assms(1) True held move m p v q in \<open>auto simp: Archive_def assms(2,3) Let_def and_then_def split: sum.splits\<close>)
next
  case False
  then show thesis
    using assms(1) m p v q that(1)
    by (cases "ae_openRoot env"; cases r1; cases r2; cases "take_locks env target"; cases r3; cases r4)
      (auto simp: Archive_def assms(2,3) Let_def)
qed

text \<open>
  C15: when nobody else touches the two places, an archive moves the directory of the certificate as a whole or leaves it
  as it was; only an error that asks for a manual recovery leaves it at the new place.
\<close>

theorem archive_moves_all_or_nothing:
  assumes "Archive env dataDirectory certificateID fingerprint files = (r, files')"
    and "archive_target env (path_Clean dataDirectory) certificateID fingerprint = Inr (target, policy)"
    and "archive_place (path_Clean dataDirectory) target = Inr (relative, directory)"
    and "quiet_below env (Split directory (CHR ''/''))" "quiet_below env (archive_destination env)"
    and "\<And>q. map_of files (archive_destination env @ q) = None"
  shows "whole env (\<lambda>q. map_of files (Split directory (CHR ''/'') @ q)) (Split directory (CHR ''/'')) r files'"
proof -
  let ?d = "Split directory (CHR ''/'')" and ?to = "archive_destination env"
  let ?P = "holds (\<lambda>q. map_of files (?d @ q)) ?d ?to"
  obtain rest where d: "?d = ''certificates'' # rest" using certificates_parts [OF assms(3)] by blast
  have sep: "apart_heads ?d ?to" by (simp add: d apart_heads_def archive_destination_def archive_directory_def archive_root_def)
  note stay = holds_stable [OF assms(4,5), of "\<lambda>q. map_of files (?d @ q)"]
  have start: "?P (snd (0, files))" using assms(6) by (simp add: holds_def)
  have locks: "?P (snd (root_mkdir [''locks''] fs))" if "?P fs" for fs
    using that by (rule holds_mkdir) (simp_all add: d archive_destination_def archive_directory_def archive_root_def)
  obtain r1 s1 where m: "make_dir env [''locks''] (0, files) = (r1, s1)" by (meson surj_pair)
  have s1: "?P (snd s1)" using make_dir_keeps [OF stay start, of "[''locks'']"] locks m by simp
  obtain r2 s2 where p: "ensurePlainPath env [''locks''] s1 = (r2, s2)" by (meson surj_pair)
  have s2: "?P (snd s2)" using ensurePlainPath_keeps [OF stay s1, of "[''locks'']"] p by simp
  obtain r3 s3 where v: "archive_verify env target policy fingerprint ?d (Split relative (CHR ''/'')) (path_Base relative) s2 = (r3, s3)"
    by (meson surj_pair)
  have s3: "?P (snd s3)" using archive_verify_keeps [OF stay s2] v by (metis snd_conv)
  obtain r4 s4 where q: "archive_prepare env s3 = (r4, s4)" by (meson surj_pair)
  have s4: "?P (snd s4)" using prepare_keeps [OF s3 stay d] q by simp
  have stop: "whole env (\<lambda>q. map_of files (?d @ q)) ?d (Inl e :: string + string \<times> string) fs" if "?P fs" for e fs
    using that by (simp add: whole_def)
  show ?thesis
  proof (cases rule: Archive_ends [OF assms(1-3) m p v q, case_names early move])
    case early
    with start s1 s2 s3 s4 stop show ?thesis by auto
  next
    case (move held r5 s5)
    from move_whole [OF move(1) s4 sep assms(4,5)] move(2,3) show ?thesis by (cases r5) (simp_all add: whole_def)
  qed
qed

section \<open>A sample storage\<close>

definition sample_x509 :: X509 where
  "sample_x509 = \<lparr>xc_Raw = ''RAW'', xc_DNSNames = [''shop.example.com''], xc_IPAddresses = [], xc_SubjectCommonName = [],
     xc_IssuerCommonName = ''Example CA'', xc_Issuer = ''CN=Example CA'', xc_SerialNumber = ''1f'', xc_NotBefore = 0, xc_NotAfter = 300\<rparr>"

definition sample_inspect :: InspectEnv where
  "sample_inspect = \<lparr>iv_now = 50, iv_stat = (\<lambda>p. if p = ''/data/caddy/certificates'' then IsThere True else IsMissing),
     iv_walk = (\<lambda>_. [\<lparr>wk_Path = ''/data/caddy/certificates/x/shop/shop.crt'', wk_Name = ''shop.crt'', wk_Error = None, wk_IsDir = False,
       wk_Symlink = False\<rparr>]),
     iv_read = (\<lambda>_. Inr ''PEM''), iv_pem = (\<lambda>_. Some (''CERTIFICATE'', ''RAW'')), iv_x509 = (\<lambda>_. Inr sample_x509),
     iv_sha256 = (\<lambda>s. s), iv_window = (\<lambda>d _. d div 3), iv_seconds = (\<lambda>d. d div 1000000000)\<rparr>"

definition sample_archive :: ArchiveEnv where
  "sample_archive = \<lparr>ae_inspect = sample_inspect, ae_policy = Inr edge_runtime, ae_openRoot = None, ae_lock = (\<lambda>_. None),
     ae_others = (\<lambda>_ files. files), ae_fail = (\<lambda>_. None), ae_dial = wildcard_handshake, ae_clock = (\<lambda>_. 50), ae_context = None,
     ae_random = ''R'', ae_manifest = True, ae_manifestFile = Plain 9 50 ''{}''\<rparr>"

definition sample_files :: arc_files where
  "sample_files = [([''certificates''], Folder), ([''certificates'', ''x''], Folder), ([''certificates'', ''x'', ''shop''], Folder),
     ([''certificates'', ''x'', ''shop'', ''shop.crt''], Plain 1 5 ''PEM''), ([''certificates'', ''x'', ''shop'', ''shop.key''], Plain 2 5 ''KEY''),
     ([''certificates'', ''x'', ''shop'', ''shop.json''], Plain 3 5 ''{}'')]"

definition sample_id :: string where
  "sample_id = hex_EncodeToString (''/data/caddy/certificates/x/shop/shop.crt'' @ [CHR 0x00] @ ''RAW'')"

definition sample_run :: "(string + string \<times> string) \<times> arc_files" where
  "sample_run = Archive sample_archive ''/data/caddy'' sample_id (hex_EncodeToString ''RAW'') sample_files"

lemma sample_run_result: "fst sample_run = Inr (sample_id, ''/data/caddy/certificate-archive/R/materials'')"
  by code_simp

lemma sample_target:
  "map_sum id (\<lambda>(target, policy). (ct_CertificateFile target, policy)) (archive_target sample_archive (path_Clean ''/data/caddy'') sample_id (hex_EncodeToString ''RAW'')) =
    Inr (''/data/caddy/certificates/x/shop/shop.crt'', edge_policy)"
  by code_simp

lemma sample_target_pair:
  obtains target where "archive_target sample_archive (path_Clean ''/data/caddy'') sample_id (hex_EncodeToString ''RAW'') = Inr (target, edge_policy)"
    "ct_CertificateFile target = ''/data/caddy/certificates/x/shop/shop.crt''"
  using sample_target by (cases "archive_target sample_archive (path_Clean ''/data/caddy'') sample_id (hex_EncodeToString ''RAW'')") auto

lemma sample_place:
  "ct_CertificateFile target = ''/data/caddy/certificates/x/shop/shop.crt'' \<Longrightarrow>
   archive_place (path_Clean ''/data/caddy'') target = Inr (''certificates/x/shop/shop.crt'', ''certificates/x/shop'')"
proof -
  have "path_Rel (path_Clean ''/data/caddy'') ''/data/caddy/certificates/x/shop/shop.crt'' = Inr ''certificates/x/shop/shop.crt'' \<and>
      path_Dir ''certificates/x/shop/shop.crt'' = ''certificates/x/shop'' \<and> path_IsLocal ''certificates/x/shop/shop.crt''" by code_simp
  then show "ct_CertificateFile target = ''/data/caddy/certificates/x/shop/shop.crt'' \<Longrightarrow> ?thesis"
    by (simp add: archive_place_def Let_def HasPrefix_def)
qed

theorem archive_moves_all_or_nothing_witness:
  "map_of (snd sample_run) [''certificate-archive'', ''R'', ''materials'', ''shop.crt''] = Some (Plain 1 5 ''PEM'') \<and>
   map_of (snd sample_run) [''certificates'', ''x'', ''shop'', ''shop.crt''] = None"
proof -
  obtain target where t: "archive_target sample_archive (path_Clean ''/data/caddy'') sample_id (hex_EncodeToString ''RAW'') = Inr (target, edge_policy)"
      "ct_CertificateFile target = ''/data/caddy/certificates/x/shop/shop.crt''" by (rule sample_target_pair)
  have quiet: "quiet_below sample_archive d" for d by (simp add: quiet_below_def sample_archive_def)
  have to: "archive_destination sample_archive = [''certificate-archive'', ''R'', ''materials'']"
    by (simp add: archive_destination_def archive_directory_def archive_root_def sample_archive_def)
  have fresh: "map_of sample_files (archive_destination sample_archive @ q) = None" for q by (simp add: to sample_files_def)
  have run: "Archive sample_archive ''/data/caddy'' sample_id (hex_EncodeToString ''RAW'') sample_files =
      (Inr (sample_id, ''/data/caddy/certificate-archive/R/materials''), snd sample_run)"
    using sample_run_result by (metis prod.collapse sample_run_def)
  have parts: "Split ''certificates/x/shop'' (CHR ''/'') = [''certificates'', ''x'', ''shop'']" by code_simp
  from archive_moves_all_or_nothing [OF run t(1) sample_place [OF t(2)] quiet quiet fresh]
  have h: "holds (\<lambda>q. map_of sample_files ([''certificates'', ''x'', ''shop''] @ q)) [''certificate-archive'', ''R'', ''materials'']
      [''certificates'', ''x'', ''shop''] (snd sample_run)"
    by (simp only: whole_def sum.case parts to)
  have "map_of (snd sample_run) ([''certificate-archive'', ''R'', ''materials''] @ [''shop.crt'']) =
      map_of sample_files ([''certificates'', ''x'', ''shop''] @ [''shop.crt''])"
    "map_of (snd sample_run) ([''certificates'', ''x'', ''shop''] @ [''shop.crt'']) = None"
    using h unfolding holds_def by blast+
  then show ?thesis by (simp add: sample_files_def)
qed

section \<open>What is archived\<close>

lemma find_member: "find P xs = Some x \<Longrightarrow> x \<in> set xs"
  by (induction xs) (auto split: if_splits)

lemma archive_target_Inr:
  assumes "archive_target env dir certificateID fingerprint = Inr (target, policy)"
  shows "ParsePolicy (ae_policy env) dir = Inr policy \<and> ct_CanArchive target \<and> ct_FingerprintSHA256 target = fingerprint \<and>
    (\<exists>snapshot. target \<in> set (sp_Certificates (Classify policy snapshot)))"
proof -
  obtain snapshot where p: "ParsePolicy (ae_policy env) dir = Inr policy" "ct_CanArchive target" "ct_FingerprintSHA256 target = fingerprint"
      "find (\<lambda>status. ct_ID status = certificateID) (rev (sp_Certificates (Classify policy snapshot))) = Some target"
  proof -
    from assms obtain pol snap where a: "ParsePolicy (ae_policy env) dir = Inr pol"
        "(case find (\<lambda>status. ct_ID status = certificateID) (rev (sp_Certificates (Classify pol snap))) of
           None \<Rightarrow> Inl ''certificate changed or no longer exists; refresh the inventory''
         | Some t \<Rightarrow> (if ct_FingerprintSHA256 t \<noteq> fingerprint then Inl ''certificate changed or no longer exists; refresh the inventory''
             else if \<not> ct_CanArchive t then Inl ''certificate is managed or its usage cannot be verified'' else Inr (t, pol))) = Inr (target, policy)"
      unfolding archive_target_def bind_res_Inr_iff by blast
    from a(2) show thesis using a(1) that [of snap]
      by (cases "find (\<lambda>status. ct_ID status = certificateID) (rev (sp_Certificates (Classify pol snap)))") (simp_all split: if_splits)
  qed
  from find_member [OF p(4)] p(1-3) show ?thesis by auto
qed

lemma archive_verify_Inr:
  "fst (archive_verify env target policy fingerprint directory relative name s) = Inr held \<Longrightarrow>
   verifyNotServing (ae_dial env) (ae_clock env) target policy = None"
  by (auto simp: archive_verify_def and_then_def split: option.splits if_splits sum.splits prod.splits)

lemma Archive_Inr:
  assumes "Archive env dataDirectory certificateID fingerprint files = (Inr out, files')"
  shows "\<exists>target policy. archive_target env (path_Clean dataDirectory) certificateID fingerprint = Inr (target, policy) \<and>
    verifyNotServing (ae_dial env) (ae_clock env) target policy = None"
  using assms
  by (auto simp: Archive_def Let_def prod_eq_iff check_def and_then_def split: sum.splits prod.splits dest: archive_verify_Inr)

text \<open>
  C39: an archive succeeds only for a certificate that is not needed: every host whose certificate Caddy manages is covered
  by a managed name that the certificate does not cover, and every endpoint it could serve shows another certificate
  that is valid.
\<close>

theorem archived_certificate_was_not_needed:
  assumes "Archive env dataDirectory certificateID fingerprint files = (Inr out, files')"
    and "ae_policy env = Inr config" "canonical_names config"
  shows "\<exists>target policy. archive_target env (path_Clean dataDirectory) certificateID fingerprint = Inr (target, policy) \<and>
    (\<forall>h \<in> auto_hosts config. \<exists>m \<in> set (po_ManagedSubjects policy). Covers m h \<and> (\<forall>s \<in> set (ct_Subjects target). \<not> Covers s m)) \<and>
    (\<forall>pe \<in> set (po_Endpoints policy). affected target pe \<longrightarrow> serves_replacement (ae_dial env) (ae_clock env) target pe)"
proof -
  obtain target policy where t: "archive_target env (path_Clean dataDirectory) certificateID fingerprint = Inr (target, policy)"
      "verifyNotServing (ae_dial env) (ae_clock env) target policy = None"
    using Archive_Inr [OF assms(1)] by blast
  with archive_target_Inr [OF t(1)] assms(2,3) archived_certificates_are_not_needed [of config "path_Clean dataDirectory" policy target]
  show ?thesis by (intro exI [of _ target] exI [of _ policy]) auto
qed

theorem archived_certificate_was_not_needed_witness:
  "\<exists>target policy. archive_target sample_archive (path_Clean ''/data/caddy'') sample_id (hex_EncodeToString ''RAW'') = Inr (target, policy) \<and>
    (\<exists>m \<in> set (po_ManagedSubjects policy). Covers m ''shop.example.com'' \<and> (\<forall>s \<in> set (ct_Subjects target). \<not> Covers s m))"
proof -
  have run: "Archive sample_archive ''/data/caddy'' sample_id (hex_EncodeToString ''RAW'') sample_files =
      (Inr (sample_id, ''/data/caddy/certificate-archive/R/materials''), snd sample_run)"
    using sample_run_result by (metis prod.collapse sample_run_def)
  have "ae_policy sample_archive = Inr edge_runtime" by (simp add: sample_archive_def)
  from archived_certificate_was_not_needed [OF run this edge_names(1)] edge_names(2) show ?thesis by blast
qed

section \<open>The inventory\<close>

text \<open>
  The inventory accounts for every certificate file of the storage, with a certificate or a warning, holds nothing
  else, and is sorted by the end of validity.
\<close>

theorem inventory_accounts_for_every_file:
  assumes "Inspect env dir ratio = Inr snapshot" "iv_stat env (path_Join [path_Clean dir, ''certificates'']) \<noteq> IsMissing"
  shows "let files = filter certificate_file (iv_walk env (path_Join [path_Clean dir, ''certificates''])) in
    mset (sp_Certificates snapshot) = mset (List.map_filter (inventory_entry env (window_ratio ratio)) files) \<and>
    length (sp_Certificates snapshot) + length (sp_Warnings snapshot) = length files \<and>
    sorted (map certificate_order (sp_Certificates snapshot))"
  using Inspect_Inr [OF assms(1)] assms(2) by (auto simp: Let_def mset_sort)

theorem inventory_accounts_for_every_file_witness:
  "\<exists>snapshot. Inspect sample_inspect ''/data/caddy'' NaN = Inr snapshot \<and> length (sp_Certificates snapshot) = 1"
proof -
  have ok: "map_sum id (\<lambda>s. (length (sp_Warnings s), map ct_State (sp_Certificates s))) (Inspect sample_inspect ''/data/caddy'' NaN) = Inr (0, [''valid''])"
    by code_simp
  then obtain snapshot where s: "Inspect sample_inspect ''/data/caddy'' NaN = Inr snapshot" "sp_Warnings snapshot = []"
    by (cases "Inspect sample_inspect ''/data/caddy'' NaN") auto
  have there: "iv_stat sample_inspect (path_Join [path_Clean ''/data/caddy'', ''certificates'']) \<noteq> IsMissing" by code_simp
  have "length (filter certificate_file (iv_walk sample_inspect (path_Join [path_Clean ''/data/caddy'', ''certificates'']))) = 1" by code_simp
  with inventory_accounts_for_every_file [OF s(1) there] s show ?thesis by (auto simp: Let_def)
qed

end
