(* ===== verification/Startup.thy ===== *)
theory Startup
  imports ApiSamples CaddyManager AzureManager
begin

text \<open>
  The process of the gateway (\<open>cmd/server/main.go\<close>): how the components are made from the configuration and the
  files, wired together and started, what then runs, and how the process ends. The surroundings of the process
  are one record; the components are those of the other theories.
\<close>

section \<open>The start\<close>

text \<open>
  \<open>me_encode\<close> gives the bytes of a rendered configuration; \<open>me_identity\<close> is the outcome of the identity file;
  \<open>me_credential\<close>, \<open>me_dns\<close> and \<open>me_nsg\<close> the errors of the Azure SDK.
\<close>

record MainEnv =
  me_environ :: environ
  me_sources :: ConfigSources
  me_routes :: "string \<Rightarrow> disk"
  me_store :: Env
  me_encode :: "json \<Rightarrow> string"
  me_spawn :: SpawnEnv
  me_probe :: AdminProbe
  me_meanwhile :: "ManagerState \<Rightarrow> ManagerState"
  me_credential :: "string option"
  me_identity :: "string + string"
  me_dns :: "string option"
  me_nsg :: "string option"

text \<open>
  What \<open>main\<close> holds when the server listens. \<open>mn_Azure\<close>, \<open>mn_Health\<close> and \<open>mn_Client\<close> are the parts that only the
  reconciler gets; the discoverer goes to the reconciler and to the API.
\<close>

record MainState =
  mn_Server :: Server
  mn_Options :: Options
  mn_Manager :: ManagerState
  mn_Azure :: "Manager option"
  mn_Health :: bool
  mn_Client :: string
  mn_Listen :: string

definition output_of :: "OutputWriter \<Rightarrow> string \<Rightarrow> string \<Rightarrow> OutputWriter" where
  "output_of stream source level = MultiWriter [stream, LogWriter source level]"

text \<open>\<open>reconcile.New\<close>: nothing has been discovered or synced; Caddy runs the configuration it was started with.\<close>

definition Reconciler_New :: "AppConfig \<Rightarrow> Renderer \<Rightarrow> World \<Rightarrow> json \<Rightarrow> Reconciler" where
  "Reconciler_New cfg renderer w running =
     \<lparr>rec_cfg = cfg, rec_renderer = renderer, rec_world = w, rec_runtime = running, rec_lastDiscovered = [],
      rec_generation = 0, rec_last = new_result zero_time [] 0\<rparr>"

definition NewServer :: "AppConfig \<Rightarrow> Reconciler \<Rightarrow> ConfigSources \<Rightarrow> Server" where
  "NewServer cfg r src =
     \<lparr>srv_cfg = cfg, srv_draft = None, srv_rec = r, srv_settings = cf_settings src,
      srv_certificates = cf_certificates src, srv_events = []\<rparr>"

definition main_options :: "AppConfig \<Rightarrow> bool \<Rightarrow> Options" where
  "main_options cfg permissions =
     \<lparr>op_Store = True, op_Discoverer = dk_Enabled (ap_Docker cfg), op_Reconciler = True, op_Runtime = True,
      op_AuditLog = True, op_Inspector = True, op_RuntimeLogs = True, op_Permissions = permissions,
      op_SettingsPath = Some (SettingsPath cfg), op_CertificatePath = Some (gw_CertificateFile (ap_Gateway cfg))\<rparr>"

text \<open>An error of the Azure manager is only logged.\<close>

definition main_azure :: "MainEnv \<Rightarrow> AppConfig \<Rightarrow> Manager option" where
  "main_azure env cfg =
     (if az_Enabled (ap_Azure cfg)
      then (case NewManager (me_credential env) (me_identity env) (me_dns env) (me_nsg env) cfg of
              Inl _ \<Rightarrow> None | Inr manager \<Rightarrow> manager)
      else None)"

definition main_manager :: "AppConfig \<Rightarrow> ManagerState" where
  "main_manager cfg =
     SetOutput (Some (output_of StdOut ''caddy/stdout'' ''info'')) (Some (output_of StdErr ''caddy/stderr'' ''error''))
       (NewCaddyManager (ap_Gateway cfg))"

definition main_wiring :: "MainEnv \<Rightarrow> AppConfig \<Rightarrow> Renderer \<Rightarrow> World \<Rightarrow> json \<Rightarrow> ManagerState \<Rightarrow> MainState" where
  "main_wiring env cfg renderer w initialConfig manager =
     \<lparr>mn_Server = NewServer cfg (Reconciler_New cfg renderer w initialConfig) (me_sources env),
      mn_Options = main_options cfg (me_credential env = None), mn_Manager = manager, mn_Azure = main_azure env cfg,
      mn_Health = hc_Enabled (ap_Health cfg),
      mn_Client = NewClient (gw_CaddyAdminEndpoint (ap_Gateway cfg)), mn_Listen = cc_Listen (ap_Control cfg)\<rparr>"

text \<open>
  An error is the message that is logged before the exit with status 1, with the error; \<open>None\<close> is a wait for the
  admin endpoint that does not return.
\<close>

definition main_start :: "MainEnv \<Rightarrow> ((string \<times> string) + MainState) option" where
  "main_start env =
     (case Load_config (me_sources env) (me_environ env) of
        Inl e \<Rightarrow> Some (Inl (''failed to load config'', e))
      | Inr cfg \<Rightarrow>
     (case Load (me_store env) \<lparr>w_store = NewStore (ap_RoutesFile cfg), w_disk = me_routes env (ap_RoutesFile cfg)\<rparr> of
        (Inl e, _) \<Rightarrow> Some (Inl (''failed to load routes'', e))
      | (Inr _, w) \<Rightarrow>
     (case Renderer_Render (NewRenderer cfg) (sn_Routes (AppliedSnapshot (w_store w))) of
        Inl e \<Rightarrow> Some (Inl (''failed to render initial caddy config'', e))
      | Inr initialConfig \<Rightarrow>
     (case Manager_Start (me_spawn env) (me_probe env) (me_meanwhile env) 0 (me_encode env initialConfig) (main_manager cfg) of
        None \<Rightarrow> None
      | Some (Inl e, _) \<Rightarrow> Some (Inl (''caddy runtime did not start'', e))
      | Some (Inr _, manager) \<Rightarrow> Some (Inr (main_wiring env cfg (NewRenderer cfg) w initialConfig manager))))))"

section \<open>What runs\<close>

text \<open>
  \<open>Run\<close> of the reconciler: a sync that keeps pending changes at once and at every tick, one environment each, until
  the context is done.
\<close>

fun Run :: "ApiEnv list \<Rightarrow> Server \<Rightarrow> Server" where
  "Run [] s = s"
| "Run (env # rounds) s = Run rounds (snd (sync_pending_kept env s))"

text \<open>The requests and the rounds of the reconciler, in the order in which they take effect.\<close>

datatype activity = Request ApiEnv ApiCodec Request | Round ApiEnv

fun activity_env :: "activity \<Rightarrow> ApiEnv" where
  "activity_env (Request env jc rq) = env"
| "activity_env (Round env) = env"

fun run_gateway :: "Options \<Rightarrow> activity list \<Rightarrow> Server \<Rightarrow> Server" where
  "run_gateway opts [] s = s"
| "run_gateway opts (Request env jc rq # rest) s = run_gateway opts rest (snd (serve opts jc env rq s))"
| "run_gateway opts (Round env # rest) s = run_gateway opts rest (snd (sync_pending_kept env s))"

section \<open>The end\<close>

text \<open>
  What the final \<open>select\<close> waits for: the context is done after a signal or when the management server has failed.
  \<open>prefer\<close> is the choice of the runtime when both channels are ready; \<open>None\<close> is a wait that goes on.
\<close>

datatype listener = Serving | Failed string | ServerClosed

definition context_done :: "bool \<Rightarrow> listener \<Rightarrow> bool" where
  "context_done signalled l \<longleftrightarrow> signalled \<or> (\<exists>e. l = Failed e)"

definition main_select :: "bool \<Rightarrow> bool \<Rightarrow> string option \<Rightarrow> string option option" where
  "main_select prefer ctx_done caddy_done =
     (if ctx_done \<and> (caddy_done = None \<or> prefer) then Some None
      else case caddy_done of Some e \<Rightarrow> Some (Some e) | None \<Rightarrow> None)"

text \<open>The rest of \<open>main\<close>: the manager is stopped, by the deferred call or before the exit, and the status of the process.\<close>

definition main_exit :: "string option \<Rightarrow> ManagerState \<Rightarrow> int \<times> ManagerState" where
  "main_exit runtimeErr manager = (case runtimeErr of None \<Rightarrow> (0, fst (Manager_Stop manager)) | Some _ \<Rightarrow> (1, fst (Manager_Stop manager)))"

section \<open>Facts\<close>

lemma main_startE:
  assumes "main_start env = Some (Inr g)"
  obtains cfg w initialConfig m where
    "Load_config (me_sources env) (me_environ env) = Inr cfg"
    "Load (me_store env) \<lparr>w_store = NewStore (ap_RoutesFile cfg), w_disk = me_routes env (ap_RoutesFile cfg)\<rparr> = (Inr (), w)"
    "Render cfg (sn_Routes (AppliedSnapshot (w_store w))) = Inr initialConfig"
    "Manager_Start (me_spawn env) (me_probe env) (me_meanwhile env) 0 (me_encode env initialConfig) (main_manager cfg) = Some (Inr (), m)"
    "g = main_wiring env cfg (NewRenderer cfg) w initialConfig m"
  using assms
  by (auto simp: main_start_def Renderer_Render_def NewRenderer_def split: sum.splits prod.splits option.splits)

lemma Load_config_accepted:
  assumes "Load_config src env = Inr cfg"
  shows "\<exists>c. NormalizeAndValidate c = (Inr (), cfg)"
proof -
  obtain c where c: "(case NormalizeAndValidate c of (Inl e, x) \<Rightarrow> Inl e | (Inr _, x) \<Rightarrow> Inr x) = Inr cfg"
    using assms by (auto simp: Load_config_def Let_def bind_res_Inr_iff)
  obtain r x where "NormalizeAndValidate c = (r, x)" by (meson surj_pair)
  with c show ?thesis by (cases r) auto
qed

lemma loaded_reachable:
  assumes "Load env \<lparr>w_store = NewStore path, w_disk = d\<rparr> = (r, w)"
  shows "reachable w"
  using reachable.step [OF reachable.start, of env OpLoad path d r w] assms by simp

lemma started_steady:
  assumes "main_start env = Some (Inr g)"
  shows "steady (mn_Server g) \<and> srv_draft (mn_Server g) = None \<and> (\<exists>c. NormalizeAndValidate c = (Inr (), srv_cfg (mn_Server g)))"
  using assms
proof (rule main_startE)
  fix cfg w initialConfig m
  assume a: "Load_config (me_sources env) (me_environ env) = Inr cfg"
    "Load (me_store env) \<lparr>w_store = NewStore (ap_RoutesFile cfg), w_disk = me_routes env (ap_RoutesFile cfg)\<rparr> = (Inr (), w)"
    "g = main_wiring env cfg (NewRenderer cfg) w initialConfig m"
  then show ?thesis
    using Load_config_accepted [OF a(1)] loaded_reachable [OF a(2)]
    by (simp add: main_wiring_def NewServer_def Reconciler_New_def steady_def aligned_def NewRenderer_def)
qed

lemma Manager_Start_ready:
  assumes "Manager_Start env probe meanwhile c config m = Some (Inr u, m')" "cy_cmd m = None"
  shows "cy_cmd m' = Some c \<and> Manager_Ready m'"
  using assms Start_beginE [of env c config m]
  by (auto simp: Manager_Start_def Start_end_def Manager_Ready_def Start_begin_def Let_def check_def split: sum.splits prod.splits option.splits if_splits)

lemma main_manager_fresh: "cy_cmd (main_manager cfg) = None"
  by (simp add: main_manager_def SetOutput_def NewCaddyManager_def)

end
