(* ===== verification/StartupProperties.thy ===== *)
theory StartupProperties
  imports Startup ApiProperties
begin

text \<open>
  The properties of the whole process: what the start establishes, what every sequence of requests and rounds of the
  reconciler keeps of it, and how the process ends when Caddy does.
\<close>

section \<open>From the start on\<close>

lemma run_gateway_reachable:
  "api_reachable opts s \<Longrightarrow> list_all (\<lambda>a. background (activity_env a)) activities \<Longrightarrow> api_reachable opts (run_gateway opts activities s)"
proof (induction activities arbitrary: s)
  case (Cons a rest)
  show ?case
  proof (cases a)
    case (Request env jc rq)
    have "api_reachable opts (snd (serve opts jc env rq s))"
      using api_reachable.request [OF Cons.prems(1), of env jc rq] Cons.prems(2) Request by (cases "serve opts jc env rq s") simp
    with Cons Request show ?thesis by simp
  next
    case (Round env)
    have "api_reachable opts (snd (sync_pending_kept env s))"
      using api_reachable.periodic [OF Cons.prems(1), of env] Cons.prems(2) Round by (cases "sync_pending_kept env s") simp
    with Cons Round show ?thesis by simp
  qed
qed simp

lemma Run_rounds: "Run rounds s = run_gateway opts (map Round rounds) s"
  by (induction rounds arbitrary: s) auto

lemma started_reachable_server:
  assumes "main_start env = Some (Inr g)"
  shows "api_reachable opts (mn_Server g)"
  using started_steady [OF assms] by (auto intro: api_reachable.start)

text \<open>
  C5: a gateway that has started stays consistent over every sequence of requests and rounds of the reconciler: the store
  is well formed, the server, the reconciler and the renderer have the same configuration, and that is valid.
\<close>

theorem started_gateway_stays_consistent:
  assumes "main_start env = Some (Inr g)" "list_all (\<lambda>a. background (activity_env a)) activities"
  shows "let s = run_gateway (mn_Options g) activities (mn_Server g) in
    wf_store (api_store s) \<and> rec_cfg (srv_rec s) = srv_cfg s \<and> rd_cfg (rec_renderer (srv_rec s)) = srv_cfg s \<and>
    validateConfig (srv_cfg s) = Inr ()"
  using api_reachable_ok [OF run_gateway_reachable [OF started_reachable_server [OF assms(1)] assms(2)]] reachable_wf
  by (auto simp: Let_def api_ok_def steady_def api_store_def aligned_def)

definition main_env :: MainEnv where
  "main_env = \<lparr>me_environ = start_environ, me_sources = empty_sources, me_routes = (\<lambda>_. disk.Absent),
     me_store = good_env, me_encode = (\<lambda>_. ''{}''), me_spawn = quiet_spawn, me_probe = third_time_lucky, me_meanwhile = (\<lambda>m. m),
     me_credential = Some ''no credential'', me_identity = Inl ''no identity'', me_dns = None, me_nsg = None\<rparr>"

lemma main_env_starts:
  obtains g where "main_start main_env = Some (Inr g)"
proof -
  have routes: "Load good_env \<lparr>w_store = NewStore p, w_disk = disk.Absent\<rparr> = (Inr (), \<lparr>w_store = NewStore p, w_disk = disk.Absent\<rparr>)" for p
    by (simp add: Load_def)
  have "\<not> isl (Render start_config [])" by code_simp
  then obtain config where render: "Render start_config [] = Inr config" by (cases "Render start_config []") auto
  obtain m where m: "Start_begin quiet_spawn 0 ''{}'' (main_manager start_config) = (Inr (Some 0), m)" "cy_cmd m = Some 0"
    by (simp add: Start_begin_def quiet_spawn_def main_manager_fresh failure_def Let_def)
  then have "Manager_Start quiet_spawn third_time_lucky (\<lambda>m. m) 0 ''{}'' (main_manager start_config) = Some (Start_end 0 m)"
      "fst (Start_end 0 m) = Inr ()"
    by (simp_all add: Manager_Start_def lucky_wait Start_end_def)
  then have manager: "Manager_Start quiet_spawn third_time_lucky (\<lambda>m. m) 0 ''{}'' (main_manager start_config) = Some (Inr (), snd (Start_end 0 m))"
    by (metis prod.collapse)
  have "main_start main_env = Some (Inr (main_wiring main_env start_config (NewRenderer start_config)
      \<lparr>w_store = NewStore (ap_RoutesFile start_config), w_disk = disk.Absent\<rparr> config (snd (Start_end 0 m))))"
    using start_loads routes render manager
    by (simp add: main_start_def main_env_def Renderer_Render_def NewRenderer_def AppliedSnapshot_def NewStore_def)
  with that show thesis by blast
qed

theorem started_gateway_stays_consistent_witness:
  "\<exists>g. main_start main_env = Some (Inr g) \<and>
     wf_store (api_store (run_gateway (mn_Options g) [Round api_env, Request api_env api_codec (api_request ''POST'' ''/api/listeners'' [])] (mn_Server g)))"
proof -
  obtain g where g: "main_start main_env = Some (Inr g)" by (rule main_env_starts)
  have "list_all (\<lambda>a. background (activity_env a)) [Round api_env, Request api_env api_codec (api_request ''POST'' ''/api/listeners'' [])]"
    using api_env_background(1) by simp
  from started_gateway_stays_consistent [OF g this] g show ?thesis by (auto simp: Let_def)
qed

lemma Manager_Start_calls:
  assumes "Manager_Start env probe meanwhile c config m = Some (Inr u, m')" "cy_cmd m = None"
  shows "sp_WriteFile env (bootstrap_path (cy_cfg m)) config = None \<and> sp_Start env (caddy_command env m) = None \<and>
    (\<exists>ok. waitForAdmin probe (cy_cfg m) = Some (Inr ok))"
proof (cases "Start_begin env c config m")
  case (Pair r m1)
  from assms Pair show ?thesis
    by (auto simp: Manager_Start_def Start_begin_def Let_def check_def failure_def split: if_splits option.splits sum.splits)
qed

text \<open>
  C11: when the gateway has started, it has written the encoding of the rendering of the routes that the store holds as
  applied, under the loaded configuration, to the bootstrap file, and started Caddy on that file with its data
  directory and with its outputs in the log store; the admin endpoint of Caddy has answered and the manager is ready. The
  reconciler takes that rendering for what Caddy runs. The operating system is arbitrary: had it refused the write of
  exactly this text or the start of exactly this command, the gateway would not have started.
\<close>

theorem started_gateway_serves_the_applied_routes:
  assumes "main_start env = Some (Inr g)"
  shows "\<exists>config. Render (srv_cfg (mn_Server g)) (sn_Routes (AppliedSnapshot (api_store (mn_Server g)))) = Inr config \<and>
    rec_runtime (srv_rec (mn_Server g)) = config \<and> Manager_Ready (mn_Manager g) \<and>
    (let gateway = ap_Gateway (srv_cfg (mn_Server g)); bootstrap = path_Join [gw_StateDir gateway, ''caddy.bootstrap.json''] in
      sp_WriteFile (me_spawn env) bootstrap (me_encode env config) = None \<and>
      sp_Start (me_spawn env) \<lparr>cm_Args = [gw_CaddyBin gateway, ''run'', ''--config'', bootstrap],
        cm_Env = sp_Environ (me_spawn env) @ [''XDG_DATA_HOME='' @ gw_CaddyDataDir gateway],
        cm_Stdout = MultiWriter [StdOut, LogWriter ''caddy/stdout'' ''info''],
        cm_Stderr = MultiWriter [StdErr, LogWriter ''caddy/stderr'' ''error'']\<rparr> = None \<and>
      (\<exists>ok. waitForAdmin (me_probe env) gateway = Some (Inr ok)))"
  using assms
proof (rule main_startE)
  fix cfg w initialConfig m
  assume a: "Render cfg (sn_Routes (AppliedSnapshot (w_store w))) = Inr initialConfig"
    "Manager_Start (me_spawn env) (me_probe env) (me_meanwhile env) 0 (me_encode env initialConfig) (main_manager cfg) = Some (Inr (), m)"
    "g = main_wiring env cfg (NewRenderer cfg) w initialConfig m"
  have m: "cy_cfg (main_manager cfg) = ap_Gateway cfg" "cy_stdout (main_manager cfg) = MultiWriter [StdOut, LogWriter ''caddy/stdout'' ''info'']"
    "cy_stderr (main_manager cfg) = MultiWriter [StdErr, LogWriter ''caddy/stderr'' ''error'']"
    by (simp_all add: main_manager_def SetOutput_def NewCaddyManager_def output_of_def)
  from Manager_Start_ready [OF a(2) main_manager_fresh] Manager_Start_calls [OF a(2) main_manager_fresh] a(1) show ?thesis
    by (simp add: a(3) main_wiring_def NewServer_def Reconciler_New_def api_store_def bootstrap_path_def caddy_command_def m Let_def)
qed

theorem started_gateway_serves_the_applied_routes_witness:
  "\<exists>g. main_start main_env = Some (Inr g) \<and> Manager_Ready (mn_Manager g)"
proof -
  obtain g where g: "main_start main_env = Some (Inr g)" by (rule main_env_starts)
  from started_gateway_serves_the_applied_routes [OF g] g show ?thesis by blast
qed

section \<open>The end\<close>

lemma first_report: "reported rt \<Longrightarrow> rt_crashes rt = e # es \<Longrightarrow> rt_received rt = [] \<Longrightarrow> cy_done (rt_manager rt) = Some e"
  by (auto simp: reported_def reports_def split: option.splits)

text \<open>
  C12: when Caddy exits unexpectedly while nobody has asked the gateway to stop, the gateway learns of that exit and ends with
  status 1.
\<close>

theorem crash_ends_the_gateway:
  assumes "runtime_reachable cfg rt" "rt_crashes rt = e # later" "rt_received rt = []"
  shows "map_option (\<lambda>runtimeErr. (runtimeErr, fst (main_exit runtimeErr (rt_manager rt))))
      (main_select prefer (context_done False Serving) (cy_done (rt_manager rt))) = Some (Some e, 1)"
  using first_report [of rt e later] runtime_invariants [OF assms(1)] assms(2,3)
  by (simp add: main_select_def main_exit_def context_done_def)

theorem crash_ends_the_gateway_witness:
  "main_select True (context_done False Serving) (cy_done (rt_manager crashed_runtime)) =
     Some (Some ''caddy runtime exited unexpectedly: exit status 1'')"
proof -
  have "rt_crashes crashed_runtime = [''caddy runtime exited unexpectedly: exit status 1'']" "rt_received crashed_runtime = []"
    by (simp_all add: crashed_runtime_def ready_runtime_def started_runtime_def new_runtime_def Let_def)
  from crash_ends_the_gateway [OF crashed_reachable this, of True] show ?thesis by auto
qed

text \<open>A management server that cannot listen ends the gateway with status 0.\<close>

lemma failed_listener_exits_cleanly:
  "main_select prefer (context_done False (Failed e)) None = Some None \<and> fst (main_exit None manager) = 0"
  by (simp add: main_select_def main_exit_def context_done_def)

end
