(* ===== verification/SecurityEvidence.thy ===== *)
theory SecurityEvidence
  imports JsonModel ConfigLoad AzurePermissions
begin

text \<open>
  The release tool that ties a scan exemption to the binaries it was made for (\<open>cmd/security-evidence/main.go\<close>):
  the comparison of the build metadata of a binary with the package graph it was built from, the checks on the
  artifacts and the provenance of the patched sources. The build metadata reader, the JSON decoders, the files and the
  hash are parameters; a Go map is a partial function with the list of its keys where its size matters.
\<close>

section \<open>The data\<close>

text \<open>A replacement is a module without a replacement of its own that the tool would read.\<close>

record sourceModule =
  sm_Path :: string
  sm_Version :: string
  sm_Sum :: string

record module_version =
  mv_Path :: string
  mv_Version :: string

record go_module =
  mo_Path :: string
  mo_Version :: string
  mo_Main :: bool
  mo_Replace :: "module_version option"

record sourcePackage =
  pk_ImportPath :: string
  pk_Module :: "go_module option"
  pk_Error :: "string option"
  pk_DepsErrors :: "string list"

record BuildInfo =
  bi_GoVersion :: string
  bi_Path :: string
  bi_Main :: module_version
  bi_Deps :: "go_module list"
  bi_Settings :: "(string \<times> string) list"

record evidence_artifact =
  ea_Path :: string
  ea_SHA256 :: string
  ea_GOOS :: string
  ea_GOARCH :: string
  ea_GoVersion :: string
  ea_CryptoVersion :: string
  ea_PackageCount :: nat
  ea_ModuleCount :: nat
  ea_SourceSHA256 :: string

record evidence =
  ev_Version :: int
  ev_Artifacts :: "evidence_artifact list"
  ev_Patches :: "(string \<times> string) list"
  ev_Sources :: "sourceModule list"

section \<open>The comparison\<close>

definition module_identity :: "string \<Rightarrow> string \<Rightarrow> string" where
  "module_identity path version = path @ ''@'' @ (if version = ''(devel)'' then [] else version)"

definition selected_identity :: "go_module \<Rightarrow> string" where
  "selected_identity m =
     (case mo_Replace m of
        Some r \<Rightarrow> module_identity (mv_Path r) (mv_Version r)
      | None \<Rightarrow> module_identity (mo_Path m) (mo_Version m))"

text \<open>A map as the list of its entries: an assignment replaces the entry of its key.\<close>

definition expected_modules :: "BuildInfo \<Rightarrow> (string \<times> string) list" where
  "expected_modules info = fold (\<lambda>m. AList.update (mo_Path m) (selected_identity m)) (bi_Deps info) []"

text \<open>The loop over the packages: the modules so far and whether the root was found, or the error.\<close>

fun graph_loop :: "BuildInfo \<Rightarrow> sourcePackage list \<Rightarrow> (string \<times> string) list \<times> bool \<Rightarrow> string + (string \<times> string) list \<times> bool" where
  "graph_loop info [] acc = Inr acc"
| "graph_loop info (pkg # rest) (actual, foundRoot) =
     (if pk_Error pkg \<noteq> None \<or> pk_DepsErrors pkg \<noteq> [] then Inl (''incomplete source graph at '' @ pk_ImportPath pkg)
      else if pk_ImportPath pkg = ''golang.org/x/crypto/openpgp'' \<or> HasPrefix (pk_ImportPath pkg) ''golang.org/x/crypto/openpgp/''
      then Inl (''source graph imports vulnerable package '' @ pk_ImportPath pkg)
      else
        (case pk_Module pkg of
           None \<Rightarrow> graph_loop info rest (actual, foundRoot)
         | Some m \<Rightarrow>
             (let found = (foundRoot \<or> (pk_ImportPath pkg = bi_Path info \<and> mo_Main m \<and>
                    module_identity (mo_Path m) (mo_Version m) = module_identity (mv_Path (bi_Main info)) (mv_Version (bi_Main info))))
              in if mo_Main m then graph_loop info rest (actual, found)
                 else graph_loop info rest (AList.update (mo_Path m) (selected_identity m) actual, found))))"

definition lookup_or_empty :: "(string \<times> string) list \<Rightarrow> string \<Rightarrow> string" where
  "lookup_or_empty entries key = (case map_of entries key of Some v \<Rightarrow> v | None \<Rightarrow> [])"

text \<open>The last loop: the version of the first suitable entry.\<close>

definition crypto_version :: "go_module \<Rightarrow> string option" where
  "crypto_version m =
     (if mo_Path m \<noteq> ''golang.org/x/crypto'' then None
      else case mo_Replace m of
        None \<Rightarrow> (if mo_Version m \<noteq> [] then Some (mo_Version m) else None)
      | Some r \<Rightarrow> (if mv_Path r = mo_Path m \<and> mv_Version r \<noteq> [] then Some (mv_Version r) else None))"

definition jose_v3 :: string where
  "jose_v3 = ''github.com/go-jose/go-jose/v3''"

definition jose_v4 :: string where
  "jose_v4 = ''github.com/go-jose/go-jose/v4''"

text \<open>
  The message of a mismatch names the first differing module of a map, whose order is that of the runtime; the
  model takes the order of the list.
\<close>

definition verifyGraph :: "BuildInfo \<Rightarrow> sourcePackage list \<Rightarrow> string + string \<times> nat" where
  "verifyGraph info packages =
     (let expected = expected_modules info in
      if list_ex (\<lambda>m. mo_Path m = jose_v3) (bi_Deps info) then Inl ''binary still links JOSE v3''
      else if Contains (bi_Path info) ''caddy'' \<and> lookup_or_empty expected jose_v4 \<noteq> module_identity jose_v4 ''v4.1.6''
      then Inl ''Caddy does not use JOSE v4.1.6''
      else bind_res (graph_loop info packages ([], False)) (\<lambda>(actual, foundRoot).
        if \<not> foundRoot \<or> actual = [] \<or> length actual \<noteq> length expected
        then Inl (''source/binary module count mismatch: '' @ Itoa (int (length actual)) @ ''/'' @ Itoa (int (length expected)))
        else case find (\<lambda>(path, selected). lookup_or_empty actual path \<noteq> selected) expected of
          Some (path, selected) \<Rightarrow> Inl (''source/binary module mismatch for '' @ path @ '': '' @ Quote (lookup_or_empty actual path) @ ''/'' @ Quote selected)
        | None \<Rightarrow>
            (case List.map_filter crypto_version (bi_Deps info) of
               [] \<Rightarrow> Inl ''versioned x/crypto build metadata is missing''
             | version # _ \<Rightarrow> Inr (version, length actual))))"

section \<open>An artifact\<close>

text \<open>
  \<open>se_graph\<close> decodes the packages of a graph file, with the error that ends the stream before its end, if any.
\<close>

record EvidenceEnv =
  se_sha256 :: "string \<Rightarrow> string"
  se_buildinfo :: "string \<Rightarrow> string + BuildInfo"
  se_read :: "string \<Rightarrow> string + string"
  se_graph :: "string \<Rightarrow> sourcePackage list \<times> string option"
  se_sources :: "string \<Rightarrow> sourceModule list \<times> string option"
  se_marshal :: "evidence \<Rightarrow> string + string"
  se_documents :: "json \<Rightarrow> string + string"
  se_timestamp :: string
  se_mkdir :: "string \<Rightarrow> string option"
  se_write :: "string \<Rightarrow> string option"

definition evidence_digest :: "EvidenceEnv \<Rightarrow> string \<Rightarrow> string" where
  "evidence_digest env content = hex_EncodeToString (se_sha256 env content)"

text \<open>The last setting of a key counts.\<close>

definition build_setting :: "BuildInfo \<Rightarrow> string \<Rightarrow> string" where
  "build_setting info key = (case filter (\<lambda>(k, v). k = key) (bi_Settings info) of [] \<Rightarrow> [] | found \<Rightarrow> snd (last found))"

definition inspect_artifact :: "EvidenceEnv \<Rightarrow> string \<Rightarrow> string \<Rightarrow> string \<Rightarrow> string + evidence_artifact" where
  "inspect_artifact env binary graph path =
     (case se_buildinfo env binary of
        Inl e \<Rightarrow> Inl (''read '' @ path @ '' build metadata: '' @ e)
      | Inr info \<Rightarrow>
          bind_res (se_read env graph) (\<lambda>content.
          case se_graph env content of
            (_, Some e) \<Rightarrow> Inl (''decode '' @ path @ '' graph: '' @ e)
          | (packages, None) \<Rightarrow>
              (case verifyGraph info packages of
                 Inl e \<Rightarrow> Inl (path @ '': '' @ e)
               | Inr (cryptoVersion, moduleCount) \<Rightarrow>
                   bind_res (se_read env binary) (\<lambda>binaryData.
                   let goos = build_setting info ''GOOS''; goarch = build_setting info ''GOARCH'' in
                   if goos \<noteq> ''linux'' \<or> (goarch \<noteq> ''amd64'' \<and> goarch \<noteq> ''arm64'')
                   then Inl (path @ '': unsupported or missing build target '' @ goos @ ''/'' @ goarch)
                   else Inr \<lparr>ea_Path = path, ea_SHA256 = evidence_digest env binaryData, ea_GOOS = goos, ea_GOARCH = goarch,
                     ea_GoVersion = bi_GoVersion info, ea_CryptoVersion = cryptoVersion, ea_PackageCount = length packages,
                     ea_ModuleCount = moduleCount,
                     ea_SourceSHA256 = evidence_digest env (Join (sort (map pk_ImportPath packages)) [CHR 0x0A])\<rparr>))))"

section \<open>The evidence\<close>

definition vex_products :: "evidence \<Rightarrow> string list" where
  "vex_products result = keep_first {} (map (\<lambda>item. ''pkg:golang/golang.org/x/crypto@'' @ ea_CryptoVersion item) (ev_Artifacts result))"

text \<open>The OpenVEX statement and the list of the patched components.\<close>

definition vex_document :: "EvidenceEnv \<Rightarrow> string \<Rightarrow> evidence \<Rightarrow> json" where
  "vex_document env proof_text result =
     JObj [(''@context'', JStr ''https://openvex.dev/ns/v0.2.0''), (''@id'', JStr (''urn:sha256:'' @ evidence_digest env proof_text)),
       (''author'', JStr ''pczhao1210/caddy-reverse-proxy''), (''timestamp'', JStr (se_timestamp env)), (''version'', JInt 1),
       (''statements'', JArr [JObj [(''vulnerability'', JObj [(''name'', JStr ''GO-2026-5932'')]),
          (''products'', JArr (map (\<lambda>i. JObj [(''@id'', JStr i)]) (vex_products result))),
          (''status'', JStr ''not_affected''), (''justification'', JStr ''vulnerable_code_not_present''),
          (''impact_statement'', JStr (''No openpgp packages are imported by either source graph. The scan-image wrapper must verify '' @
            ''the attached evidence and both binary hashes before applying this statement; it is not a module-wide exemption.''))]])]"

definition bom_component :: "sourceModule \<Rightarrow> json" where
  "bom_component source =
     JObj [(''type'', JStr ''library''), (''name'', JStr (sm_Path source)), (''version'', JStr (sm_Version source)),
       (''purl'', JStr (''pkg:golang/'' @ sm_Path source @ ''@'' @ sm_Version source)),
       (''properties'', JArr [JObj [(''name'', JStr ''gateway:upstream:go-checksum''), (''value'', JStr (sm_Sum source))]])]"

definition bom_document :: "evidence \<Rightarrow> json" where
  "bom_document result =
     JObj [(''bomFormat'', JStr ''CycloneDX''), (''specVersion'', JStr ''1.6''), (''version'', JInt 1),
       (''components'', JArr (map bom_component (ev_Sources result)))]"

text \<open>The files that are written so far go with the result.\<close>

type_synonym written_files = "(string \<times> string) list"

definition write_output :: "EvidenceEnv \<Rightarrow> string \<Rightarrow> string \<Rightarrow> string \<Rightarrow> written_files \<Rightarrow> (string + unit) \<times> written_files" where
  "write_output env out name content files =
     (let path = path_Join [out, name] in
      case se_write env path of Some e \<Rightarrow> (Inl e, files) | None \<Rightarrow> (Inr (), files @ [(path, content)]))"

definition writeEvidence :: "EvidenceEnv \<Rightarrow> string \<Rightarrow> evidence \<Rightarrow> (string + unit) \<times> written_files" where
  "writeEvidence env out result =
     (if length (ev_Artifacts result) \<noteq> 2 \<or> ea_GOARCH (ev_Artifacts result ! 0) \<noteq> ea_GOARCH (ev_Artifacts result ! 1) \<or>
         length (ev_Sources result) \<noteq> 2
      then (Inl ''both matching-architecture artifacts are required'', [])
      else
        check (se_marshal env result) [] (\<lambda>text0.
        let proof_text = text0 @ [CHR 0x0A] in
        check (se_documents env (vex_document env proof_text result)) [] (\<lambda>vex.
        check (case se_mkdir env out of Some e \<Rightarrow> Inl e | None \<Rightarrow> Inr ()) [] (\<lambda>_.
        and_then (write_output env out ''evidence.json'' proof_text []) (\<lambda>_ f1.
        and_then (write_output env out ''openpgp.vex.json'' (vex @ [CHR 0x0A]) f1) (\<lambda>_ f2.
        check (se_documents env (bom_document result)) f2 (\<lambda>bom.
        write_output env out ''patched-dependencies.cdx.json'' (bom @ [CHR 0x0A]) f2)))))))"

section \<open>The run\<close>

record EvidenceFlags =
  fg_caddy :: string
  fg_platform :: string
  fg_caddyGraph :: string
  fg_platformGraph :: string
  fg_patches :: string
  fg_sources :: string
  fg_out :: string
  fg_NArg :: nat

definition expected_sources :: "sourceModule list" where
  "expected_sources =
     [\<lparr>sm_Path = ''go.step.sm/crypto'', sm_Version = ''v0.91.1'', sm_Sum = ''h1:ZMMdj/A2rQ+Zr8hyCo4BHJd++c5T8VQIXJ8Sljg57p0=''\<rparr>,
      \<lparr>sm_Path = ''github.com/smallstep/certificates'', sm_Version = ''v0.30.2'', sm_Sum = ''h1:1G3xBi8sJ740iA1mMPW2Svv7EIZKJ4Zf/iQtA5QlN0Y=''\<rparr>]"

text \<open>The values of the stream against the expected ones; the stream ends with its error, or with the end of the file.\<close>

fun check_sources :: "sourceModule list \<Rightarrow> sourceModule list \<Rightarrow> string option \<Rightarrow> string + unit" where
  "check_sources [] actuals failed =
     (if actuals = [] \<and> failed = None then Inr () else Inl ''unexpected additional source metadata'')"
| "check_sources (e # expected) [] failed = Inl (case failed of Some err \<Rightarrow> err | None \<Rightarrow> ''EOF'')"
| "check_sources (e # expected) (a # actuals) failed =
     (if a \<noteq> e then Inl (''unexpected patched source provenance for '' @ sm_Path e) else check_sources expected actuals failed)"

definition patch_names :: "string list" where
  "patch_names = [''step-crypto-jose-v4.patch'', ''step-certificates-jose-v4.patch'']"

fun patch_digests :: "EvidenceEnv \<Rightarrow> string \<Rightarrow> string list \<Rightarrow> string + (string \<times> string) list" where
  "patch_digests env dir [] = Inr []"
| "patch_digests env dir (name # rest) =
     bind_res (se_read env (path_Join [dir, name])) (\<lambda>content.
     bind_res (patch_digests env dir rest) (\<lambda>others. Inr ((name, evidence_digest env content) # others)))"

definition run_evidence :: "EvidenceEnv \<Rightarrow> EvidenceFlags \<Rightarrow> (string + unit) \<times> written_files" where
  "run_evidence env fg =
     (if [] \<in> {fg_caddy fg, fg_platform fg, fg_caddyGraph fg, fg_platformGraph fg, fg_patches fg, fg_sources fg, fg_out fg} \<or> fg_NArg fg \<noteq> 0
      then (Inl ''all executable, graph, patch and output paths are required'', [])
      else
        check (se_read env (fg_sources fg)) [] (\<lambda>content.
        check (case se_sources env content of (actuals, failed) \<Rightarrow> check_sources expected_sources actuals failed) [] (\<lambda>_.
        check (inspect_artifact env (fg_caddy fg) (fg_caddyGraph fg) ''/usr/bin/caddy'') [] (\<lambda>caddy.
        check (inspect_artifact env (fg_platform fg) (fg_platformGraph fg) ''/usr/local/bin/platform'') [] (\<lambda>platform.
        check (patch_digests env (fg_patches fg) patch_names) [] (\<lambda>patches.
        writeEvidence env (fg_out fg) \<lparr>ev_Version = 1, ev_Artifacts = [caddy, platform], ev_Patches = patches, ev_Sources = expected_sources\<rparr>))))))"

section \<open>Facts\<close>

text \<open>What the binary and the graph say of a module, independent of the loops: a later entry of a path counts.\<close>

definition binary_module :: "BuildInfo \<Rightarrow> string \<Rightarrow> string option" where
  "binary_module info = map_of (rev (map (\<lambda>m. (mo_Path m, selected_identity m)) (bi_Deps info)))"

definition package_module :: "sourcePackage \<Rightarrow> (string \<times> string) option" where
  "package_module pkg =
     (case pk_Module pkg of Some m \<Rightarrow> (if mo_Main m then None else Some (mo_Path m, selected_identity m)) | None \<Rightarrow> None)"

definition graph_module :: "sourcePackage list \<Rightarrow> string \<Rightarrow> string option" where
  "graph_module packages = map_of (rev (List.map_filter package_module packages))"

definition imports_openpgp :: "sourcePackage \<Rightarrow> bool" where
  "imports_openpgp pkg \<longleftrightarrow>
     pk_ImportPath pkg = ''golang.org/x/crypto/openpgp'' \<or> HasPrefix (pk_ImportPath pkg) ''golang.org/x/crypto/openpgp/''"

lemma map_of_AList_update: "map_of (AList.update k v al) = map_of al ++ [k \<mapsto> v]"
  by (simp add: update_conv')

lemma fold_updates:
  "map_of (fold (\<lambda>m. AList.update (f m) (g m)) ms al) = map_of al ++ map_of (rev (map (\<lambda>m. (f m, g m)) ms))"
  by (induction ms arbitrary: al) (simp_all add: map_of_AList_update)

lemma fold_updates_distinct: "distinct (map fst al) \<Longrightarrow> distinct (map fst (fold (\<lambda>m. AList.update (f m) (g m)) ms al))"
  by (induction ms arbitrary: al) (simp_all add: distinct_update)

lemma graph_module_Cons:
  "graph_module (pkg # packages) = (case package_module pkg of None \<Rightarrow> graph_module packages | Some (k, v) \<Rightarrow> [k \<mapsto> v] ++ graph_module packages)"
  by (auto simp: graph_module_def map_filter_simps split: option.split)

lemma graph_loop_Inr:
  "graph_loop info packages (al, found) = Inr (actual, found') \<Longrightarrow> distinct (map fst al) \<Longrightarrow>
   map_of actual = map_of al ++ graph_module packages \<and> distinct (map fst actual) \<and> (\<forall>p \<in> set packages. \<not> imports_openpgp p)"
proof (induction packages arbitrary: al found)
  case Nil
  then show ?case by (simp add: graph_module_def map_filter_simps)
next
  case (Cons pkg packages)
  from Cons.prems(1) have ok: "\<not> imports_openpgp pkg" by (auto simp: imports_openpgp_def split: if_splits)
  show ?case
  proof (cases "package_module pkg")
    case None
    with Cons.prems(1) obtain found1 where "graph_loop info packages (al, found1) = Inr (actual, found')"
      by (auto simp: package_module_def Let_def split: if_splits option.splits)
    from Cons.IH [OF this Cons.prems(2)] ok None show ?thesis by (simp add: graph_module_Cons)
  next
    case (Some kv)
    then obtain k v where kv: "kv = (k, v)" by (cases kv)
    with Some Cons.prems(1) obtain found1 where "graph_loop info packages (AList.update k v al, found1) = Inr (actual, found')"
      by (auto simp: package_module_def Let_def split: if_splits option.splits)
    from Cons.IH [OF this] Cons.prems(2) ok Some kv show ?thesis
      by (simp add: graph_module_Cons map_of_AList_update distinct_update fun_upd_def)
  qed
qed

lemma expected_modules_map: "map_of (expected_modules info) = binary_module info" "distinct (map fst (expected_modules info))"
  by (simp_all add: expected_modules_def binary_module_def fold_updates fold_updates_distinct)

lemma identity_nonempty: "module_identity p v \<noteq> []" "selected_identity m \<noteq> []"
  by (simp_all add: module_identity_def selected_identity_def split: option.split)

lemma binary_module_nonempty: "binary_module info path \<noteq> Some []"
  using identity_nonempty(2) identity_nonempty(2) [symmetric] by (auto simp: binary_module_def dest!: map_of_SomeD)

lemma maps_equal:
  assumes "distinct (map fst xs)" "distinct (map fst ys)" "length xs = length ys"
    and "\<And>k v. map_of ys k = Some v \<Longrightarrow> map_of xs k = Some v"
  shows "map_of xs = map_of ys"
proof -
  have sub: "map_of ys \<subseteq>\<^sub>m map_of xs" using assms(4) by (auto simp: map_le_def)
  have "card (dom (map_of xs)) = card (dom (map_of ys))"
    using assms(1-3) by (simp add: dom_map_of_conv_image_fst distinct_card flip: set_map)
  then have "dom (map_of ys) = dom (map_of xs)"
    using map_le_implies_dom_le [OF sub] by (intro card_subset_eq) (simp_all add: finite_dom_map_of)
  with sub show ?thesis by (metis map_le_antisym map_le_def)
qed

lemma lookup_or_empty_Some: "v \<noteq> [] \<Longrightarrow> lookup_or_empty al k = v \<longleftrightarrow> map_of al k = Some v"
  by (auto simp: lookup_or_empty_def split: option.split)

lemma verifyGraph_Inr:
  assumes "verifyGraph info packages = Inr (version, n)"
  obtains actual where "graph_loop info packages ([], False) = Inr (actual, True)" "length actual = length (expected_modules info)"
    "\<And>path selected. (path, selected) \<in> set (expected_modules info) \<Longrightarrow> lookup_or_empty actual path = selected"
    "\<not> list_ex (\<lambda>m. mo_Path m = jose_v3) (bi_Deps info)"
    "Contains (bi_Path info) ''caddy'' \<Longrightarrow> lookup_or_empty (expected_modules info) jose_v4 = module_identity jose_v4 ''v4.1.6''"
proof -
  from assms obtain actual found where g: "graph_loop info packages ([], False) = Inr (actual, found)"
    by (auto simp: verifyGraph_def Let_def bind_res_Inr_iff split: if_splits)
  with assms have f: "found" "length actual = length (expected_modules info)"
      "find (\<lambda>(path, selected). lookup_or_empty actual path \<noteq> selected) (expected_modules info) = None"
      "\<not> list_ex (\<lambda>m. mo_Path m = jose_v3) (bi_Deps info)"
      "Contains (bi_Path info) ''caddy'' \<longrightarrow> lookup_or_empty (expected_modules info) jose_v4 = module_identity jose_v4 ''v4.1.6''"
    by (auto simp: verifyGraph_def Let_def split: if_splits option.splits)
  with g that show thesis by (auto simp: find_None_iff)
qed

section \<open>Property\<close>

text \<open>
  C40: when a graph is accepted for a binary, it names exactly the modules of the binary, in the same versions and after the same
  replacements, no package of it is openpgp, the binary does not link JOSE v3 and, if it is a Caddy, it has JOSE v4.1.6.
\<close>

theorem accepted_graph_is_that_of_the_binary:
  assumes "verifyGraph info packages = Inr (version, n)"
  shows "graph_module packages = binary_module info \<and> (\<forall>p \<in> set packages. \<not> imports_openpgp p) \<and>
    binary_module info jose_v3 = None \<and>
    (Contains (bi_Path info) ''caddy'' \<longrightarrow> binary_module info jose_v4 = Some (module_identity jose_v4 ''v4.1.6''))"
  using assms
proof (rule verifyGraph_Inr)
  fix actual
  assume a: "graph_loop info packages ([], False) = Inr (actual, True)" "length actual = length (expected_modules info)"
    "\<And>path selected. (path, selected) \<in> set (expected_modules info) \<Longrightarrow> lookup_or_empty actual path = selected"
    "\<not> list_ex (\<lambda>m. mo_Path m = jose_v3) (bi_Deps info)"
    "Contains (bi_Path info) ''caddy'' \<Longrightarrow> lookup_or_empty (expected_modules info) jose_v4 = module_identity jose_v4 ''v4.1.6''"
  from graph_loop_Inr [OF a(1)] have g: "map_of actual = graph_module packages" "distinct (map fst actual)"
      "\<forall>p \<in> set packages. \<not> imports_openpgp p"
    by simp_all
  have "map_of actual k = Some v" if "map_of (expected_modules info) k = Some v" for k v
    using a(3) [OF map_of_SomeD [OF that]] that binary_module_nonempty [of info k] lookup_or_empty_Some [of v actual k]
    by (auto simp: expected_modules_map(1))
  from maps_equal [OF g(2) expected_modules_map(2) a(2) this] have "graph_module packages = binary_module info"
    using g(1) expected_modules_map(1) by simp
  moreover have "binary_module info jose_v3 = None"
    using a(4) by (auto simp: binary_module_def map_of_eq_None_iff list_ex_iff)
  moreover have "binary_module info jose_v4 = Some (module_identity jose_v4 ''v4.1.6'')" if "Contains (bi_Path info) ''caddy''"
    using a(5) [OF that] lookup_or_empty_Some [OF identity_nonempty(1)] expected_modules_map(1) by metis
  ultimately show ?thesis using g(3) by blast
qed

definition sample_info :: BuildInfo where
  "sample_info = \<lparr>bi_GoVersion = ''go1.25'', bi_Path = ''example.com/caddy'', bi_Main = \<lparr>mv_Path = ''example.com/caddy'', mv_Version = ''(devel)''\<rparr>,
     bi_Deps = [\<lparr>mo_Path = jose_v4, mo_Version = ''v4.1.6'', mo_Main = False, mo_Replace = None\<rparr>,
       \<lparr>mo_Path = ''golang.org/x/crypto'', mo_Version = ''v0.40.0'', mo_Main = False,
         mo_Replace = Some \<lparr>mv_Path = ''golang.org/x/crypto'', mv_Version = ''v0.41.0''\<rparr>\<rparr>], bi_Settings = []\<rparr>"

definition sample_packages :: "sourcePackage list" where
  "sample_packages =
     \<lparr>pk_ImportPath = ''example.com/caddy'', pk_Module = Some \<lparr>mo_Path = ''example.com/caddy'', mo_Version = [], mo_Main = True, mo_Replace = None\<rparr>,
       pk_Error = None, pk_DepsErrors = []\<rparr> #
     map (\<lambda>m. \<lparr>pk_ImportPath = mo_Path m, pk_Module = Some m, pk_Error = None, pk_DepsErrors = []\<rparr>) (bi_Deps sample_info)"

theorem accepted_graph_is_that_of_the_binary_witness:
  "verifyGraph sample_info sample_packages = Inr (''v0.41.0'', 2) \<and>
   graph_module sample_packages ''golang.org/x/crypto'' = binary_module sample_info ''golang.org/x/crypto''"
proof -
  have ok: "verifyGraph sample_info sample_packages = Inr (''v0.41.0'', 2)" by code_simp
  from accepted_graph_is_that_of_the_binary [OF ok] ok show ?thesis by simp
qed

end
