(* ===== verification/EmbeddedUI.thy ===== *)
theory EmbeddedUI
  imports GoStrings
begin

text \<open>
  The embedded user interface (\<open>ui/ui.go\<close>): the path that is handed to the file server of the embedded files, which
  is the start page for every path that is not one of them. \<open>there\<close> is \<open>fs.Stat\<close> on the embedded tree.
\<close>

definition ui_Handler :: "(string \<Rightarrow> bool) \<Rightarrow> string \<Rightarrow> string" where
  "ui_Handler there url =
     (let path = TrimPrefix url ''/''; file_path = (if path = [] then ''index.html'' else path)
      in if there file_path then url else ''/'')"

lemma ui_serves_embedded_files: "ui_Handler there url = ''/'' \<or> (ui_Handler there url = url \<and> (TrimPrefix url ''/'' = [] \<or> there (TrimPrefix url ''/'')))"
  by (simp add: ui_Handler_def Let_def)

end
