(* ===== verification/Spec2Isabelle.thy ===== *)
theory Spec2Isabelle
  imports RouteProperties CaddyProperties LogProperties AdminAuth SyncOrder ConfigProperties DockerDiscovery HealthChecker CertificateProperties
    Findings AuditLog ConfigBundle AzurePermissions ApiProperties ApiImport ApiOperations CaddyManager Persistence ArchiveProperties StartupProperties SecurityEvidence EmbeddedUI
begin

text \<open>
  A verification library of the gateway, a reverse proxy that keeps a routing store, renders it into a
  configuration of Caddy, loads that into a Caddy process it supervises, and offers a management API. The paths below are
  relative to \<open>backend/internal\<close> unless they start with \<open>cmd\<close>. Definitions carry the names of the functions, methods and types they
  model; names of helper definitions in lower case stand for a loop, a branch or an expression of the function they are used in.

  \<^bold>\<open>How the program works.\<close> The process (\<open>cmd/server/main.go\<close>) loads its configuration, loads the routing store from its file, renders
  the applied routes, starts Caddy with that rendering and waits for the admin endpoint. Then the reconciler runs periodic syncs and the API
  serves requests. A sync takes a snapshot of the store and of the containers, renders them, loads the rendering into Caddy, records
  the snapshot as applied, and checks the upstreams and publishes DNS records and a network rule in Azure after it has released its mutex. Edits of
  the store stay pending until a sync applies them. A change of the configuration is a sync with a commit: the
  new configuration is rendered and loaded first, then saved, and undone when the save fails. An imported configuration bundle is staged and applied by
  the next reconcile request.

  \<^bold>\<open>The theories, by component.\<close>

  \<^item> The prelude. \<open>Gateway_Prelude\<close> has the result type of fallible functions (\<open>'e + 'a\<close>, with \<open>bind_res\<close>, \<open>guard_err\<close>, \<open>and_then\<close> and \<open>check\<close> for
    the propagation of errors with and without a state), the theorem collections and facts on lists. \<open>GoStrings\<close> and \<open>GoNet\<close> are what the code uses
    of Go's \<open>strings\<close>, \<open>strconv\<close>, \<open>net\<close> and \<open>net/url\<close> on strings of bytes.
  \<^item> Data model: \<open>GatewayModel\<close> (\<open>model/model.go\<close>): every struct as a record, times in nanoseconds, a floating-point number as a rational or one of
    the special values. \<open>JsonModel\<close>: the JSON values the code builds.
  \<^item> Routing store: \<open>RouteValidation\<close>, \<open>RouteResources\<close>, \<open>RouteCompile\<close>, \<open>RouteStore\<close> (\<open>routes/store.go\<close>, \<open>routes/resources.go\<close>). The record \<open>Store\<close> has
    the fields of the struct, a \<open>World\<close> is the store with its file. Every exported operation is a function on the world and a
    constructor of \<open>routing_op\<close>; \<open>reachable\<close> is the set of worlds they lead to. \<open>RouteInvariant\<close> shows that the invariant \<open>wf_store\<close> is kept and that
    a failed operation changes nothing, \<open>RoutePersistence\<close> what the file holds, \<open>RouteProperties\<close> states the properties.
  \<^item> Caddy renderer: \<open>CaddyConfig\<close> (\<open>caddy/config.go\<close>); \<open>CaddyRoutes\<close> and \<open>CaddyServers\<close> have the facts on the entries of a route and on the servers,
    \<open>CaddyProperties\<close> the properties: who is let through to an upstream, in which order, on which address.
  \<^item> Caddy process: \<open>CaddyManager\<close> (\<open>caddy/manager.go\<close>, \<open>caddy/client.go\<close>). Every critical section of the mutex is a function on \<open>ManagerState\<close>;
    \<open>runtime_step\<close> runs the sections in any order, with the exits of the process and the receiver of its error.
  \<^item> Reconciler: \<open>Reconcile\<close> (\<open>reconcile/reconciler.go\<close>). A sync is \<open>syncLocked\<close>, the part under the mutex, and \<open>complete\<close>, the part after it; between the two
    anything may happen. \<open>ReconcileFacts\<close> and \<open>ReconcileProperties\<close> treat one sync, \<open>GatewaySystem\<close> any number of overlapping syncs,
    edits and certificate updates as a step relation, \<open>SyncOrder\<close> what becomes of the syncs that a newer one has overtaken.
  \<^item> Configuration: \<open>ConfigModel\<close>, \<open>ConfigLoad\<close> (\<open>config/config.go\<close>, \<open>settings_store.go\<close>, \<open>certificate_store.go\<close>), \<open>ConfigFacts\<close>, \<open>ConfigProperties\<close>;
    \<open>ConfigBundle\<close> (\<open>config/bundle.go\<close>) has the archive with its limits.
  \<^item> Persistence: \<open>Persistence\<close> (\<open>persistence/json.go\<close>): the atomic write as the file systems it goes through. The locale \<open>file_store\<close> is the
    contract of a file that is saved as a whole; it is interpreted on that write and on the three stores that use it.
  \<^item> Azure: \<open>AzureManager\<close>, \<open>AzureFacts\<close>, \<open>AzureProperties\<close> (\<open>azure/manager.go\<close>, \<open>status.go\<close>), under a contract of the service that a small
    service in memory meets; \<open>AzurePermissions\<close> (\<open>azure/permissions.go\<close>, \<open>identity.go\<close>).
  \<^item> Docker: \<open>DockerDiscovery\<close> (\<open>docker/discovery.go\<close>, \<open>network.go\<close>). Health: \<open>HealthChecker\<close> (\<open>health/checker.go\<close>). Logs: \<open>LogStore\<close>, \<open>LogProperties\<close>
    (\<open>logs/store.go\<close>). Audit: \<open>AuditLog\<close> (\<open>audit/audit.go\<close>). Authentication: \<open>AdminAuth\<close> (\<open>auth/auth.go\<close>). User interface: \<open>EmbeddedUI\<close> (\<open>ui/ui.go\<close>).
  \<^item> Certificates: \<open>CertificatePolicy\<close>, \<open>CertificateProperties\<close> (\<open>certificate/policy.go\<close>, \<open>events.go\<close>), \<open>CertificateInspector\<close> (\<open>certificate/inspector.go\<close>),
    \<open>CertificateArchive\<close>, \<open>ArchiveProperties\<close> (\<open>certificate/archive.go\<close>): the inventory, and the archive on an abstract file tree that other processes may change
    before any call and in which any call may fail.
  \<^item> Management API: \<open>ApiModel\<close>, \<open>ApiDiscovery\<close>, \<open>ApiHandlers\<close> (\<open>api/*.go\<close>). A handler is a function of the request and the \<open>Server\<close>, which holds
    the live configuration, the staged import, the reconciler and the saved files; \<open>serve\<close> is the whole of \<open>Handler\<close>. \<open>ApiSteps\<close> shows that a
    request is one of nine kinds of steps, \<open>ApiOutcomes\<close> what each kind leaves; \<open>ApiSamples\<close> has the servers the witnesses are evaluated on. \<open>ApiOperations\<close> has
    the operation of the routing store each request asks for as a table (\<open>asks_for\<close>) and shows that it is the one that runs, \<open>ApiImport\<close> treats the apply
    of an import, \<open>ApiProperties\<close> the other properties.
  \<^item> The process: \<open>Startup\<close> (\<open>cmd/server/main.go\<close>) starts and wires the models of the components, \<open>StartupProperties\<close> follows them from there.
  \<^item> Release tool: \<open>SecurityEvidence\<close> (\<open>cmd/security-evidence/main.go\<close>).
  \<^item> \<open>Findings\<close> and single lemmas of the other theories evaluate the model on inputs where the code does not do what its checks, comments or names promise.

  \<^bold>\<open>State and errors.\<close> State is passed explicitly. A mutex makes the section it guards one step; what goroutines do between two sections is a
  parameter of the operation (\<open>sv_between\<close> and \<open>sv_during\<close> of a sync, \<open>en_meanwhile\<close> of a request, \<open>ae_others\<close> of an archive, the steps of
  \<open>gateway_step\<close> and \<open>runtime_step\<close>). The hypothesis \<open>background\<close> says of them that they use the operations of the store and keep the renderer
  with the configuration. Errors are strings with the text of the code where the code builds it; the text of an error
  from below is a parameter.

  \<^bold>\<open>What is proved.\<close> The properties of the store, the renderer and the sync say what they do on every branch, failures included. Those of the API lift them to
  requests: a request for a routing resource runs the operation it asks for, a request that is answered with an error leaves the server as it was, only authorised
  requests change it (besides the audit record of an export), an import is applied as a whole, no answer gives a secret away. The properties of the process join them: from the start on, over every sequence of requests and rounds, the store
  is consistent and the server, the reconciler and the renderer share one valid configuration. The locales \<open>snapshot_store\<close>, \<open>keyed\<close> and \<open>file_store\<close> are
  the contracts between components, each interpreted on the models of its providers.

  \<^bold>\<open>Bounds and loops.\<close> Revisions and generations are 64-bit words, and ports and priorities are read at the width the code gives them;
  theorems that need the absence of a wrap-around say so. Several
  normalisations of the code are not idempotent (the prefix \<open>'/a /'\<close> becomes \<open>'/a '\<close> and then \<open>'/a'\<close>): the properties on restarts and on separate routes name
  the normal form they need, and \<open>Findings\<close> shows what happens without it. Loops are structural recursions or have a termination proof (\<open>evict\<close>, \<open>writeLines\<close>, \<open>cut_lines\<close>,
  \<open>v6_groups\<close>, \<open>glob\<close>). Three are partial functions: \<open>readLast_loop\<close> and \<open>waitForAdmin_loop\<close> are shown to return, the latter after at most fifty
  requests when the clock advances by the pause between them, and \<open>list_pages\<close> need not return (\<open>listing_follows_links_forever\<close>). No fuel is used.

  \<^bold>\<open>Parameters.\<close> Code outside the repository is an argument of the definitions that use it: the JSON decoders and encoders, the ZIP reader and writer, the PEM and
  X.509 parsers, SHA-256 and the other digests, the clock and random numbers, the operating system's calls, and the answers of Caddy, Docker, Azure and the
  upstreams. What a theorem needs of them is a named hypothesis, and its witness instantiates it. The configuration Caddy runs is a component of the reconciler's state
  (\<open>rec_runtime\<close>): after the start it is the one the process was started with (the property on the start names the bytes that were written and the command), and a load that succeeds
  installs what it was given (\<open>atomic_loader\<close>).

  \<^bold>\<open>Not modelled.\<close> The HTTP server itself, its timeouts and the shutdown timeout, \<open>slog\<close>, the embedded pages and their scripts, the deployment and scan scripts, and the patches to
  third-party packages: they are input and output, or code in other languages. \<open>serve\<close> answers 404 where the code
  hands a path to the user interface, whose choice of the file is \<open>ui_Handler\<close>. A rename is taken to be atomic in the file system, and the directory is not synced after it, so a crash may bring the
  old file back (\<open>after_crash\<close>). In the file tree of the archive only the last component of a path may be a link, and a file is read in one step.
\<close>

end
